(* ===== verification/GoLib.thy ===== *)
theory GoLib
  imports Complex_Main "HOL-Library.Signed_Division" "HOL-Library.List_Lexorder" "HOL-Library.Char_ord"
begin

text \<open>
  Prelude of the development: the part of the Go standard library the modelled packages use,
  and the named collections their proofs share.

  A Go string is its UTF-8 bytes, so it is an Isabelle \<open>string\<close> (a list of 8-bit
  \<open>char\<close>s) and \<open>length\<close> is Go's \<open>len\<close>.  \<open>big.Rat\<close> is \<open>rat\<close>.
  Go's \<open>int\<close> is 64 bits wide; calendar years, months, days and period indices are far below
  that bound, so they are \<open>int\<close>, with Go's truncating division (\<open>sdiv\<close>, \<open>smod\<close>).  Where a
  value comes from a request or from \<open>math/big\<close>, \<open>int64\<close> writes the wrap-around out.
\<close>

named_theorems money_simps \<open>exact arithmetic on two-decimal amounts\<close>

section \<open>64-bit integers\<close>

text \<open>The low 64 bits as two's complement: what \<open>int\<close> arithmetic and \<open>big.Int.Int64\<close> leave of a number.\<close>

definition int64 :: "int \<Rightarrow> int" where
  "int64 x = (x + 2 ^ 63) mod 2 ^ 64 - 2 ^ 63"

lemma int64_id [simp]: "- (2 ^ 63) \<le> x \<Longrightarrow> x < 2 ^ 63 \<Longrightarrow> int64 x = x"
  by (simp add: int64_def)

lemma int64_bounds: "- (2 ^ 63) \<le> int64 x" "int64 x < 2 ^ 63"
  using pos_mod_bound [of "2 ^ 64" "x + 2 ^ 63"] by (simp_all add: int64_def)

section \<open>Strings\<close>

text \<open>The UTF-8 encodings of the runes for which \<open>unicode.IsSpace\<close> holds.\<close>

definition space_runes :: "string list" where
  "space_runes =
     [[CHR 0x09], [CHR 0x0A], [CHR 0x0B], [CHR 0x0C], [CHR 0x0D], [CHR 0x20],
      [CHR 0xC2, CHR 0x85], [CHR 0xC2, CHR 0xA0], [CHR 0xE1, CHR 0x9A, CHR 0x80],
      [CHR 0xE2, CHR 0x80, CHR 0x80], [CHR 0xE2, CHR 0x80, CHR 0x81],
      [CHR 0xE2, CHR 0x80, CHR 0x82], [CHR 0xE2, CHR 0x80, CHR 0x83],
      [CHR 0xE2, CHR 0x80, CHR 0x84], [CHR 0xE2, CHR 0x80, CHR 0x85],
      [CHR 0xE2, CHR 0x80, CHR 0x86], [CHR 0xE2, CHR 0x80, CHR 0x87],
      [CHR 0xE2, CHR 0x80, CHR 0x88], [CHR 0xE2, CHR 0x80, CHR 0x89],
      [CHR 0xE2, CHR 0x80, CHR 0x8A], [CHR 0xE2, CHR 0x80, CHR 0xA8],
      [CHR 0xE2, CHR 0x80, CHR 0xA9], [CHR 0xE2, CHR 0x80, CHR 0xAF],
      [CHR 0xE2, CHR 0x81, CHR 0x9F], [CHR 0xE3, CHR 0x80, CHR 0x80]]"

fun strip_prefix :: "string \<Rightarrow> string \<Rightarrow> string option" where
  "strip_prefix [] s = Some s"
| "strip_prefix (p # ps) [] = None"
| "strip_prefix (p # ps) (c # s) = (if p = c then strip_prefix ps s else None)"

fun strip_any :: "string list \<Rightarrow> string \<Rightarrow> string option" where
  "strip_any [] s = None"
| "strip_any (p # ps) s = (case strip_prefix p s of Some r \<Rightarrow> Some r | None \<Rightarrow> strip_any ps s)"

text \<open>Fuel \<open>length s\<close> is enough: every rune has at least one byte.\<close>

fun trim_front :: "string list \<Rightarrow> nat \<Rightarrow> string \<Rightarrow> string" where
  "trim_front ps 0 s = s"
| "trim_front ps (Suc n) s = (case strip_any ps s of None \<Rightarrow> s | Some r \<Rightarrow> trim_front ps n r)"

definition TrimSpace :: "string \<Rightarrow> string" where
  "TrimSpace s =
     (let l = trim_front space_runes (length s) s
      in rev (trim_front (map rev space_runes) (length l) (rev l)))"

text \<open>
  \<open>utf8.RuneCountInString\<close> on valid UTF-8: the bytes that do not continue a rune
  (continuation bytes are \<open>0x80..0xBF\<close>).
\<close>

definition rune_start :: "char \<Rightarrow> bool" where
  "rune_start c \<longleftrightarrow> of_char c < (128::nat) \<or> (192::nat) \<le> of_char c"

definition RuneCount :: "string \<Rightarrow> nat" where
  "RuneCount s = length (filter rune_start s)"

lemma TrimSpace_Nil [simp]: "TrimSpace [] = []"
  by (simp add: TrimSpace_def)

text \<open>Text that starts and ends with a printable ASCII character is not trimmed.\<close>

definition graphic :: "char \<Rightarrow> bool" where
  "graphic c \<longleftrightarrow> (33::nat) \<le> of_char c \<and> of_char c < (128::nat)"

lemma strip_any_None: "\<forall>p \<in> set ps. p \<noteq> [] \<and> hd p \<noteq> c \<Longrightarrow> strip_any ps (c # cs) = None"
proof (induction ps)
  case (Cons p ps)
  then show ?case by (cases p) auto
qed simp

lemma space_runes_not_graphic:
  "list_all (\<lambda>p. p \<noteq> [] \<and> \<not> graphic (hd p)) space_runes"
  "list_all (\<lambda>p. p \<noteq> [] \<and> \<not> graphic (hd p)) (map rev space_runes)"
  by (simp_all add: space_runes_def graphic_def)

lemma strip_any_graphic:
  "graphic c \<Longrightarrow> strip_any space_runes (c # cs) = None"
  "graphic c \<Longrightarrow> strip_any (map rev space_runes) (c # cs) = None"
  by (rule strip_any_None; use space_runes_not_graphic in \<open>force simp: list_all_iff\<close>)+

lemma TrimSpace_graphic:
  assumes "s \<noteq> []" "graphic (hd s)" "graphic (last s)"
  shows "TrimSpace s = s"
proof -
  obtain c cs where s: "s = c # cs" using assms(1) by (cases s) auto
  obtain d ds where d: "rev s = d # ds" using assms(1) by (cases "rev s") auto
  have "graphic c" using assms(2) s by simp
  then have "trim_front space_runes (length s) s = s" by (simp add: s strip_any_graphic)
  moreover have "graphic d" using assms(3) d by (metis hd_rev list.sel(1))
  then have "trim_front (map rev space_runes) (length s) (rev s) = rev s"
    using assms(1) by (cases "length s") (auto simp: d strip_any_graphic)
  ultimately show ?thesis by (simp add: TrimSpace_def Let_def)
qed

lemma RuneCount_Nil [simp]: "RuneCount [] = 0"
  by (simp add: RuneCount_def)

lemma RuneCount_le_length: "RuneCount s \<le> length s"
  by (simp add: RuneCount_def)

section \<open>Decimal numerals\<close>

definition digit_char :: "nat \<Rightarrow> char" where
  "digit_char d = ''0123456789'' ! d"

definition is_digit :: "char \<Rightarrow> bool" where
  "is_digit c \<longleftrightarrow> c \<in> set ''0123456789''"

definition char_digit :: "char \<Rightarrow> nat" where
  "char_digit c = of_char c - 48"

fun dec_nat :: "nat \<Rightarrow> string" where
  "dec_nat n = (if n < 10 then [digit_char n] else dec_nat (n div 10) @ [digit_char (n mod 10)])"

declare dec_nat.simps [simp del]

definition dec_int :: "int \<Rightarrow> string" where
  "dec_int i = (if i < 0 then CHR ''-'' # dec_nat (nat (- i)) else dec_nat (nat i))"

text \<open>\<open>fmt.Sprintf("%0wd", i)\<close>: the sign counts in the width.\<close>

definition zero_pad :: "nat \<Rightarrow> string \<Rightarrow> string" where
  "zero_pad w s = replicate (w - length s) (CHR ''0'') @ s"

definition dec_pad :: "nat \<Rightarrow> int \<Rightarrow> string" where
  "dec_pad w i = (if i < 0 then CHR ''-'' # zero_pad (w - 1) (dec_nat (nat (- i))) else zero_pad w (dec_nat (nat i)))"

text \<open>The value of a string of decimal digits.\<close>

definition dec_value :: "string \<Rightarrow> nat" where
  "dec_value s = foldl (\<lambda>a c. a * 10 + char_digit c) 0 s"

lemma less_10_cases: "(n::nat) < 10 \<Longrightarrow> n \<in> {0, 1, 2, 3, 4, 5, 6, 7, 8, 9}"
  by auto

lemma digit_char_digit [simp]: "n < 10 \<Longrightarrow> char_digit (digit_char n) = n"
  by (drule less_10_cases) (auto simp: digit_char_def char_digit_def)

lemma is_digit_digit_char [simp]: "n < 10 \<Longrightarrow> is_digit (digit_char n)"
  by (drule less_10_cases) (auto simp: digit_char_def is_digit_def)

lemma dec_nat_digits: "\<forall>c \<in> set (dec_nat n). is_digit c"
proof (induction n rule: dec_nat.induct)
  case (1 n)
  then show ?case by (subst dec_nat.simps) auto
qed

lemma dec_nat_not_Nil [simp]: "dec_nat n \<noteq> []"
  by (subst dec_nat.simps) simp

lemma dec_value_Nil [simp]: "dec_value [] = 0"
  by (simp add: dec_value_def)

lemma dec_value_snoc [simp]: "dec_value (s @ [c]) = dec_value s * 10 + char_digit c"
  by (simp add: dec_value_def)

lemma dec_value_dec_nat [simp]: "dec_value (dec_nat n) = n"
proof (induction n rule: dec_nat.induct)
  case (1 n)
  show ?case
  proof (cases "n < 10")
    case True
    then show ?thesis
      using dec_value_snoc [of "[]" "digit_char n"] by (simp add: dec_nat.simps)
  next
    case False
    then show ?thesis using 1 by (simp add: dec_nat.simps [of n])
  qed
qed

lemma dec_nat_inject [simp]: "dec_nat a = dec_nat b \<longleftrightarrow> a = b"
  by (metis dec_value_dec_nat)

lemma dec_value_zeros: "dec_value (replicate k (CHR ''0'') @ s) = dec_value s"
proof (induction k)
  case (Suc k)
  have "foldl (\<lambda>a c. a * 10 + char_digit c) 0 (CHR ''0'' # t) = foldl (\<lambda>a c. a * 10 + char_digit c) 0 t" for t
    by (simp add: char_digit_def)
  with Suc show ?case by (simp add: dec_value_def)
qed simp

lemma dec_value_zero_pad [simp]: "dec_value (zero_pad w s) = dec_value s"
  by (simp add: zero_pad_def dec_value_zeros)

lemma length_zero_pad [simp]: "length (zero_pad w s) = max w (length s)"
  by (simp add: zero_pad_def)

lemma not_digit_sep [simp]:
  "\<not> is_digit (CHR ''-'')" "\<not> is_digit (CHR ''.'')" "\<not> is_digit (CHR ''/'')"
  "\<not> is_digit (CHR ''_'')" "\<not> is_digit (CHR ''+'')" "is_digit (CHR ''0'')"
  by (simp_all add: is_digit_def)

lemma zero_pad_digits: "\<forall>c \<in> set s. is_digit c \<Longrightarrow> \<forall>c \<in> set (zero_pad w s). is_digit c"
  by (auto simp: zero_pad_def)

lemma dec_nat_hd_not_sign: "dec_nat n \<noteq> CHR ''-'' # s"
  using dec_nat_digits [of n] by (metis list.set_intros(1) not_digit_sep(1))

lemma dec_int_inject [simp]: "dec_int a = dec_int b \<longleftrightarrow> a = b"
  using dec_nat_hd_not_sign by (auto simp: dec_int_def) (metis dec_nat_hd_not_sign)+

lemma dec_pad_inject: "0 \<le> a \<Longrightarrow> 0 \<le> b \<Longrightarrow> dec_pad w a = dec_pad w b \<Longrightarrow> a = b"
  by (simp add: dec_pad_def) (metis dec_value_dec_nat dec_value_zero_pad int_nat_eq nat_eq_iff)

lemma length_dec_nat_two: "n < 100 \<Longrightarrow> length (dec_nat n) \<le> 2"
  by (subst dec_nat.simps) (auto simp: dec_nat.simps [of "n div 10"])

end
