(* ===== verification/GoRat.thy ===== *)
theory GoRat
  imports GoLib
begin

text \<open>
  \<open>math/big\<close>'s rational numbers as the program uses them: reading a decimal string
  (\<open>Rat.SetString\<close>, with the base prefixes, separators, exponents and fractions that method
  accepts) and printing two decimals (\<open>Rat.FloatString(2)\<close>).  All money arithmetic of the
  program is exact: between a read and a print every operation is on \<open>rat\<close>.
\<close>

section \<open>Reading: Rat.SetString\<close>

text \<open>The scanner's previous character: a digit, a separator, or anything else.\<close>

datatype prev_char = PrevOther | PrevSep | PrevDigit

definition digit_val :: "char \<Rightarrow> nat option" where
  "digit_val c =
     (let n = of_char c :: nat in
      if is_digit c then Some (char_digit c)
      else if 97 \<le> n \<and> n \<le> 122 then Some (n - 87)
      else if 65 \<le> n \<and> n \<le> 90 then Some (n - 55)
      else None)"

record scan =
  sc_val :: nat
  sc_count :: nat
  sc_dot :: "nat option"
  sc_bad :: bool

text \<open>The digit loop of \<open>nat.scan\<close>: value, digit count, position of the radix point, misplaced separator.\<close>

fun scan_digits :: "nat \<Rightarrow> bool \<Rightarrow> prev_char \<Rightarrow> scan \<Rightarrow> string \<Rightarrow> scan \<times> string" where
  "scan_digits b fr prev r [] = (r\<lparr>sc_bad := sc_bad r \<or> prev = PrevSep\<rparr>, [])"
| "scan_digits b fr prev r (c # cs) =
     (if c = CHR ''.'' \<and> fr then
        scan_digits b False PrevOther (r\<lparr>sc_dot := Some (sc_count r), sc_bad := sc_bad r \<or> prev = PrevSep\<rparr>) cs
      else if c = CHR ''_'' then
        scan_digits b fr PrevSep (r\<lparr>sc_bad := sc_bad r \<or> prev \<noteq> PrevDigit\<rparr>) cs
      else
        (case digit_val c of
           None \<Rightarrow> (r\<lparr>sc_bad := sc_bad r \<or> prev = PrevSep\<rparr>, c # cs)
         | Some d \<Rightarrow>
             if d < b then
               scan_digits b fr PrevDigit (r\<lparr>sc_val := sc_val r * b + d, sc_count := Suc (sc_count r)\<rparr>) cs
             else (r\<lparr>sc_bad := sc_bad r \<or> prev = PrevSep\<rparr>, c # cs)))"

definition scan0 :: scan where
  "scan0 = \<lparr>sc_val = 0, sc_count = 0, sc_dot = None, sc_bad = False\<rparr>"

text \<open>
  \<open>nat.scan(r, 0, fracOk)\<close>: value, base, number of digits after the radix point, rest.  A lone
  octal prefix \<open>0\<close> is the number zero.
\<close>

definition scan_result :: "nat \<Rightarrow> scan \<times> string \<Rightarrow> (nat \<times> nat \<times> nat \<times> string) option" where
  "scan_result b p =
     (let (r, rest) = p in
      if sc_count r = 0 \<or> sc_bad r then None
      else Some (sc_val r, b, (case sc_dot r of None \<Rightarrow> 0 | Some d \<Rightarrow> sc_count r - d), rest))"

definition scan_nat :: "bool \<Rightarrow> string \<Rightarrow> (nat \<times> nat \<times> nat \<times> string) option" where
  "scan_nat fr s =
     (case s of
        c0 # c1 # cs \<Rightarrow>
          if c0 \<noteq> CHR ''0'' then scan_result 10 (scan_digits 10 fr PrevOther scan0 s)
          else if c1 \<in> {CHR ''b'', CHR ''B''} then scan_result 2 (scan_digits 2 fr PrevDigit scan0 cs)
          else if c1 \<in> {CHR ''o'', CHR ''O''} then scan_result 8 (scan_digits 8 fr PrevDigit scan0 cs)
          else if c1 \<in> {CHR ''x'', CHR ''X''} then scan_result 16 (scan_digits 16 fr PrevDigit scan0 cs)
          else if fr then scan_result 10 (scan_digits 10 fr PrevDigit (scan0\<lparr>sc_count := 1\<rparr>) (c1 # cs))
          else (case scan_digits 8 fr PrevDigit scan0 (c1 # cs) of (r, rest) \<Rightarrow>
                  if sc_count r = 0 then Some (0, 10, 0, rest) else scan_result 8 (r, rest))
      | _ \<Rightarrow> scan_result 10 (scan_digits 10 fr PrevOther scan0 s))"

definition scan_sign :: "string \<Rightarrow> bool \<times> string" where
  "scan_sign s = (case s of c # cs \<Rightarrow> if c = CHR ''-'' then (True, cs) else if c = CHR ''+'' then (False, cs) else (False, s)
                  | [] \<Rightarrow> (False, []))"

text \<open>\<open>scanExponent\<close>: the exponent, its base and the rest; \<open>None\<close> is an error.\<close>

fun scan_exp_digits :: "prev_char \<Rightarrow> bool \<Rightarrow> string \<Rightarrow> string \<Rightarrow> (string \<times> bool \<times> string)" where
  "scan_exp_digits prev bad ds [] = (ds, bad \<or> prev = PrevSep, [])"
| "scan_exp_digits prev bad ds (c # cs) =
     (if is_digit c then scan_exp_digits PrevDigit bad (ds @ [c]) cs
      else if c = CHR ''_'' then scan_exp_digits PrevSep (bad \<or> prev \<noteq> PrevDigit) ds cs
      else (ds, bad \<or> prev = PrevSep, c # cs))"

definition scan_exponent :: "string \<Rightarrow> (int \<times> nat \<times> string) option" where
  "scan_exponent s =
     (case s of
        [] \<Rightarrow> Some (0, 10, [])
      | c # cs \<Rightarrow>
          if c \<notin> {CHR ''e'', CHR ''E'', CHR ''p'', CHR ''P''} then Some (0, 10, s)
          else
            (let b = (if c \<in> {CHR ''e'', CHR ''E''} then 10 else 2);
                 (neg, ds0) = scan_sign cs;
                 (ds, bad, rest) = scan_exp_digits PrevOther False [] ds0;
                 e = (if neg then - int (dec_value ds) else int (dec_value ds))
             in if ds = [] \<or> bad \<or> e < - (2 ^ 63) \<or> 2 ^ 63 \<le> e then None else Some (e, b, rest)))"

text \<open>Powers the method refuses as too large: \<open>5\<close> beyond \<open>10\<^sup>6\<close>, \<open>2\<close> beyond \<open>10\<^sup>7\<close>.\<close>

definition rat_scale :: "nat \<Rightarrow> int \<Rightarrow> rat" where
  "rat_scale b e = (if 0 \<le> e then of_nat b ^ nat e else 1 / of_nat b ^ nat (- e))"

definition set_float :: "bool \<Rightarrow> nat \<Rightarrow> nat \<Rightarrow> nat \<Rightarrow> int \<Rightarrow> nat \<Rightarrow> rat option" where
  "set_float neg v b fc e eb =
     (if v = 0 then Some 0
      else
        (let exp5 = (if b = 10 then - int fc else 0) + (if eb = 10 then e else 0);
             exp2 = (if b = 10 \<or> b = 2 then - int fc else if b = 8 then - 3 * int fc else - 4 * int fc) + e
         in if 10 ^ 6 < \<bar>exp5\<bar> \<or> 10 ^ 7 < \<bar>exp2\<bar> then None
            else Some ((if neg then - 1 else 1) * of_nat v * rat_scale 5 exp5 * rat_scale 2 exp2)))"

definition SetString :: "string \<Rightarrow> rat option" where
  "SetString s =
     (if CHR ''/'' \<in> set s then
        (let a = takeWhile (\<lambda>c. c \<noteq> CHR ''/'') s; b = drop (Suc (length a)) s;
             (neg, a') = scan_sign a
         in case (scan_nat False a', scan_nat False b) of
              (Some (n, _, _, []), Some (d, _, _, [])) \<Rightarrow>
                if d = 0 then None else Some ((if neg then - 1 else 1) * of_nat n / of_nat d)
            | _ \<Rightarrow> None)
      else
        (let (neg, s') = scan_sign s in
         case scan_nat True s' of
           None \<Rightarrow> None
         | Some (v, b, fc, rest) \<Rightarrow>
             (case scan_exponent rest of
                Some (e, eb, []) \<Rightarrow> set_float neg v b fc e eb
              | _ \<Rightarrow> None)))"

section \<open>Printing: Rat.FloatString(2)\<close>

text \<open>The text of \<open>k\<close> hundredths; also Postgres' \<open>numeric(18,2)::text\<close>.\<close>

definition cents_text :: "int \<Rightarrow> string" where
  "cents_text k =
     (if k < 0 then ''-'' else []) @ dec_nat (nat \<bar>k\<bar> div 100) @ CHR ''.'' # zero_pad 2 (dec_nat (nat \<bar>k\<bar> mod 100))"

text \<open>Rounding to hundredths, half away from zero.\<close>

definition round_cents :: "rat \<Rightarrow> int" where
  "round_cents x = (if x < 0 then - \<lfloor>- x * 100 + 1 / 2\<rfloor> else \<lfloor>x * 100 + 1 / 2\<rfloor>)"

definition FloatString2 :: "rat \<Rightarrow> string" where
  "FloatString2 x =
     (let n = nat \<bar>round_cents x\<bar> in
      (if x < 0 then ''-'' else []) @ dec_nat (n div 100) @ CHR ''.'' # zero_pad 2 (dec_nat (n mod 100)))"

definition cents :: "int \<Rightarrow> rat" where
  "cents k = of_int k / 100"

section \<open>Decimal numerals read back exactly\<close>

lemma digit_val_digit [simp]: "is_digit c \<Longrightarrow> digit_val c = Some (char_digit c)"
  by (simp add: digit_val_def Let_def)

lemma char_digit_less [simp]: "is_digit c \<Longrightarrow> char_digit c < 10"
  by (auto simp: is_digit_def char_digit_def)

lemma is_digit_neqs:
  "is_digit c \<Longrightarrow> c \<noteq> CHR ''.'' \<and> c \<noteq> CHR ''_'' \<and> c \<noteq> CHR ''-'' \<and> c \<noteq> CHR ''+'' \<and> c \<noteq> CHR ''/''"
  by (auto simp: is_digit_def)

lemma is_digit_no_prefix:
  "is_digit c \<Longrightarrow> c \<notin> {CHR ''b'', CHR ''B''} \<and> c \<notin> {CHR ''o'', CHR ''O''} \<and> c \<notin> {CHR ''x'', CHR ''X''}"
  by (auto simp: is_digit_def)

lemma dec_value_Cons: "dec_value (c # s) = char_digit c * 10 ^ length s + dec_value s"
proof (induction s rule: rev_induct)
  case Nil
  show ?case using dec_value_snoc [of "[]" c] by simp
next
  case (snoc x s)
  have "dec_value (c # s @ [x]) = dec_value (c # s) * 10 + char_digit x"
    using dec_value_snoc [of "c # s" x] by simp
  with snoc show ?case by (simp add: algebra_simps)
qed

definition scan_step :: "scan \<Rightarrow> string \<Rightarrow> scan" where
  "scan_step r ds = r\<lparr>sc_val := sc_val r * 10 ^ length ds + dec_value ds, sc_count := sc_count r + length ds\<rparr>"

lemma scan_digits_run:
  assumes "\<forall>c \<in> set ds. is_digit c"
  shows "scan_digits 10 fr prev r (ds @ rest) =
         scan_digits 10 fr (if ds = [] then prev else PrevDigit) (scan_step r ds) rest"
  using assms
proof (induction ds arbitrary: prev r)
  case Nil
  then show ?case by (simp add: scan_step_def)
next
  case (Cons c ds)
  then have c: "is_digit c" by simp
  have "scan_step (r\<lparr>sc_val := sc_val r * 10 + char_digit c, sc_count := Suc (sc_count r)\<rparr>) ds = scan_step r (c # ds)"
    by (simp add: scan_step_def dec_value_Cons algebra_simps)
  with Cons c is_digit_neqs [OF c] show ?case by simp
qed

lemma scan_digits_end:
  assumes "\<forall>c \<in> set ds. is_digit c" "ds \<noteq> []"
  shows "scan_digits 10 fr prev r ds = (scan_step r ds, [])"
  using scan_digits_run [OF assms(1), of fr prev r "[]"] assms(2) by simp

text \<open>The digits of \<open>ds\<close>, optionally a point and the digits of \<open>es\<close>.\<close>

definition decimal_text :: "string \<Rightarrow> string option \<Rightarrow> string" where
  "decimal_text ds es = ds @ (case es of None \<Rightarrow> [] | Some f \<Rightarrow> CHR ''.'' # f)"

definition decimal_value :: "string \<Rightarrow> string option \<Rightarrow> rat" where
  "decimal_value ds es =
     of_nat (dec_value ds) + (case es of None \<Rightarrow> 0 | Some f \<Rightarrow> of_nat (dec_value f) / 10 ^ length f)"

definition decimal_scan :: "scan \<Rightarrow> string \<Rightarrow> string option \<Rightarrow> scan" where
  "decimal_scan r ds es =
     (case es of None \<Rightarrow> scan_step r ds
      | Some f \<Rightarrow> scan_step (scan_step r ds\<lparr>sc_dot := Some (sc_count r + length ds)\<rparr>) f)"

lemma scan_digits_decimal:
  assumes "\<forall>c \<in> set ds. is_digit c" "ds \<noteq> [] \<or> prev = PrevDigit" "\<forall>f. es = Some f \<longrightarrow> (\<forall>c \<in> set f. is_digit c)" "\<not> sc_bad r"
  shows "scan_digits 10 True prev r (decimal_text ds es) = (decimal_scan r ds es, [])"
proof (cases es)
  case None
  have "scan_digits 10 True prev r (ds @ []) = (scan_step r ds, [])"
    unfolding scan_digits_run [OF assms(1)] using assms(2,4) by (auto simp: scan_step_def)
  then show ?thesis using None by (simp add: decimal_text_def decimal_scan_def)
next
  case (Some f)
  define r' where "r' = scan_step r ds\<lparr>sc_dot := Some (sc_count r + length ds)\<rparr>"
  have "\<forall>c \<in> set f. is_digit c" using assms(3) Some by simp
  then have f: "scan_digits 10 False PrevOther r' f = (scan_step r' f, [])"
    using scan_digits_run [of f False PrevOther r' "[]"] by (auto simp: r'_def scan_step_def)
  have "scan_step r ds\<lparr>sc_dot := Some (sc_count (scan_step r ds)),
          sc_bad := sc_bad (scan_step r ds) \<or> (if ds = [] then prev else PrevDigit) = PrevSep\<rparr> = r'"
    using assms(2,4) by (auto simp: r'_def scan_step_def)
  then show ?thesis
    unfolding Some decimal_text_def option.case scan_digits_run [OF assms(1)]
    by (simp add: decimal_scan_def f r'_def [symmetric])
qed

lemma decimal_scan_fields:
  assumes "\<not> sc_bad r" "sc_dot r = None"
  shows "sc_val (decimal_scan r ds es) =
           (sc_val r * 10 ^ length ds + dec_value ds) * 10 ^ (case es of None \<Rightarrow> 0 | Some f \<Rightarrow> length f)
             + (case es of None \<Rightarrow> 0 | Some f \<Rightarrow> dec_value f)"
    and "sc_count (decimal_scan r ds es) = sc_count r + length ds + (case es of None \<Rightarrow> 0 | Some f \<Rightarrow> length f)"
    and "\<not> sc_bad (decimal_scan r ds es)"
    and "(case sc_dot (decimal_scan r ds es) of None \<Rightarrow> 0 | Some d \<Rightarrow> sc_count (decimal_scan r ds es) - d) =
           (case es of None \<Rightarrow> 0 | Some f \<Rightarrow> length f)"
  using assms by (auto simp: decimal_scan_def scan_step_def split: option.splits)

lemma scan_nat_decimal:
  assumes ds: "\<forall>c \<in> set ds. is_digit c" "ds \<noteq> []" and es: "\<forall>f. es = Some f \<longrightarrow> (\<forall>c \<in> set f. is_digit c)"
  shows "scan_nat True (decimal_text ds es) =
     Some (dec_value ds * 10 ^ (case es of None \<Rightarrow> 0 | Some f \<Rightarrow> length f) + (case es of None \<Rightarrow> 0 | Some f \<Rightarrow> dec_value f),
           10, (case es of None \<Rightarrow> 0 | Some f \<Rightarrow> length f), [])"
    (is "_ = ?R")
proof -
  obtain c ds' where c: "ds = c # ds'" using ds(2) by (cases ds) auto
  have s0: "\<not> sc_bad scan0" "sc_dot scan0 = None" "sc_val scan0 = 0" "sc_count scan0 = 0"
    by (simp_all add: scan0_def)
  have plain: "scan_result 10 (scan_digits 10 True PrevOther scan0 (decimal_text ds es)) = ?R"
    using ds decimal_scan_fields [OF s0(1,2), of ds es]
    by (simp add: scan_digits_decimal [OF ds(1) _ es s0(1)] scan_result_def s0)
  show ?thesis
  proof (cases "c = CHR ''0'' \<and> decimal_text ds' es \<noteq> []")
    case True
    define r where "r = scan0\<lparr>sc_count := 1\<rparr>"
    have r: "\<not> sc_bad r" "sc_dot r = None" "sc_val r = 0" "sc_count r = 1" by (simp_all add: scan0_def r_def)
    have ds': "\<forall>c \<in> set ds'. is_digit c" using ds c by simp
    have "scan_result 10 (scan_digits 10 True PrevDigit r (decimal_text ds' es)) = ?R"
      using decimal_scan_fields [OF r(1,2), of ds' es] True c
      by (simp add: scan_digits_decimal [OF ds' _ es r(1)] scan_result_def r dec_value_Cons char_digit_def)
    moreover obtain c1 cs where c1: "decimal_text ds' es = c1 # cs" using True by (cases "decimal_text ds' es") auto
    moreover have "c1 \<notin> {CHR ''b'', CHR ''B''} \<and> c1 \<notin> {CHR ''o'', CHR ''O''} \<and> c1 \<notin> {CHR ''x'', CHR ''X''}"
      using c1 ds' is_digit_no_prefix [of c1] by (cases ds') (auto simp: decimal_text_def split: option.splits)
    ultimately show ?thesis
      using True c by (simp add: scan_nat_def decimal_text_def r_def)
  next
    case False
    have "decimal_text ds es = c # decimal_text ds' es" using c by (simp add: decimal_text_def)
    moreover have "scan_nat True (c # decimal_text ds' es) =
        scan_result 10 (scan_digits 10 True PrevOther scan0 (c # decimal_text ds' es))"
      using False by (cases "decimal_text ds' es") (simp_all add: scan_nat_def)
    ultimately show ?thesis using plain by simp
  qed
qed

lemma scan_sign_digit: "is_digit c \<Longrightarrow> scan_sign (c # s) = (False, c # s)"
  using is_digit_neqs [of c] by (simp add: scan_sign_def)

lemma rat_scale_cents: "n \<le> 10 ^ 6 \<Longrightarrow> rat_scale 5 (- int n) * rat_scale 2 (- int n) = 1 / 10 ^ n"
  by (simp add: rat_scale_def power_mult_distrib [symmetric])

lemma SetString_decimal:
  assumes ds: "\<forall>c \<in> set ds. is_digit c" "ds \<noteq> []" and es: "\<forall>f. es = Some f \<longrightarrow> (\<forall>c \<in> set f. is_digit c)"
    and len: "(case es of None \<Rightarrow> 0 | Some f \<Rightarrow> length f) \<le> 10 ^ 6"
  shows "SetString (decimal_text ds es) = Some (decimal_value ds es)"
    and "SetString (CHR ''-'' # decimal_text ds es) = Some (- decimal_value ds es)"
proof -
  let ?n = "case es of None \<Rightarrow> 0 | Some f \<Rightarrow> length f"
  let ?v = "dec_value ds * 10 ^ ?n + (case es of None \<Rightarrow> 0 | Some f \<Rightarrow> dec_value f)"
  have noslash: "CHR ''/'' \<notin> set (decimal_text ds es)"
    using ds(1) es is_digit_neqs by (auto simp: decimal_text_def split: option.splits)
  obtain c ds' where c: "ds = c # ds'" using ds(2) by (cases ds) auto
  have sgn: "scan_sign (decimal_text ds es) = (False, decimal_text ds es)"
    using ds(1) c scan_sign_digit [of c] by (simp add: decimal_text_def)
  have e0: "scan_exponent [] = Some (0, 10, [])" by (simp add: scan_exponent_def)
  have val: "of_nat ?v / 10 ^ ?n = decimal_value ds es"
    by (auto simp: decimal_value_def add_divide_distrib split: option.splits)
  have "rat_scale 5 (- int ?n) * rat_scale 2 (- int ?n) = 1 / 10 ^ ?n"
    using rat_scale_cents [OF len] .
  then have sc: "a * rat_scale 5 (- int ?n) * rat_scale 2 (- int ?n) = a / 10 ^ ?n" for a
    by (simp add: mult.assoc)
  have fl: "set_float neg ?v 10 ?n 0 10 = Some ((if neg then - 1 else 1) * decimal_value ds es)" for neg
    using len val sc unfolding set_float_def Let_def by (auto simp del: of_nat_add of_nat_mult)
  show "SetString (decimal_text ds es) = Some (decimal_value ds es)"
    using noslash fl [of False]
    by (simp add: SetString_def sgn scan_nat_decimal [OF ds es] e0)
  have "scan_sign (CHR ''-'' # decimal_text ds es) = (True, decimal_text ds es)" by (simp add: scan_sign_def)
  then show "SetString (CHR ''-'' # decimal_text ds es) = Some (- decimal_value ds es)"
    using noslash fl [of True]
    by (simp add: SetString_def scan_nat_decimal [OF ds es] e0)
qed

lemma cents_text_decimal:
  "cents_text k = (if k < 0 then ''-'' else []) @
     decimal_text (dec_nat (nat \<bar>k\<bar> div 100)) (Some (zero_pad 2 (dec_nat (nat \<bar>k\<bar> mod 100))))"
  by (simp add: cents_text_def decimal_text_def)

lemma length_cents_frac [simp]: "length (zero_pad 2 (dec_nat (n mod 100))) = 2"
  using length_dec_nat_two [of "n mod 100"] by simp

lemma cents_decimal_value:
  "decimal_value (dec_nat (n div 100)) (Some (zero_pad 2 (dec_nat (n mod 100)))) = of_nat n / 100"
proof -
  have "(of_nat n :: rat) = of_nat (n div 100 * 100 + n mod 100)" by simp
  then have "(of_nat n :: rat) = of_nat (n div 100) * 100 + of_nat (n mod 100)"
    by (simp only: of_nat_add of_nat_mult of_nat_numeral)
  then show ?thesis unfolding decimal_value_def option.case length_cents_frac by (simp add: add_divide_distrib)
qed

lemma SetString_cents_text [simp]: "SetString (cents_text k) = Some (cents k)"
proof -
  let ?n = "nat \<bar>k\<bar>"
  have z: "\<forall>f. Some (zero_pad 2 (dec_nat (?n mod 100))) = Some f \<longrightarrow> (\<forall>c \<in> set f. is_digit c)"
    using zero_pad_digits [OF dec_nat_digits] by simp
  have l: "(case Some (zero_pad 2 (dec_nat (?n mod 100))) of None \<Rightarrow> 0 | Some f \<Rightarrow> length f) \<le> 10 ^ 6"
    unfolding option.case length_cents_frac by simp
  note r = SetString_decimal [OF dec_nat_digits [of "?n div 100"] dec_nat_not_Nil z l]
  show ?thesis
  proof (cases "k < 0")
    case True
    then show ?thesis using r(2) by (simp add: cents_text_decimal cents_decimal_value cents_def)
  next
    case False
    then show ?thesis using r(1) by (simp add: cents_text_decimal cents_decimal_value cents_def)
  qed
qed

lemma round_cents_cents [simp]: "round_cents (cents k) = k"
proof -
  have "\<lfloor>of_int j + 1 / 2 :: rat\<rfloor> = j" for j by (simp add: floor_unique)
  from this [of k] this [of "- k"] show ?thesis by (simp add: round_cents_def cents_def)
qed

lemma FloatString2_cents [simp]: "FloatString2 (cents k) = cents_text k"
  by (simp add: FloatString2_def cents_text_def Let_def) (simp add: cents_def)

lemma round_cents_nonneg: "0 \<le> x \<Longrightarrow> 0 \<le> round_cents x"
  by (simp add: round_cents_def)

lemma FloatString2_nonneg: "0 \<le> x \<Longrightarrow> FloatString2 x = cents_text (round_cents x)"
  using round_cents_nonneg [of x] by (simp add: FloatString2_def cents_text_def Let_def)

lemma SetString_FloatString2 [simp]: "SetString (FloatString2 x) = Some (cents (round_cents x))"
proof (cases "x < 0 \<and> round_cents x = 0")
  case False
  have "x < 0 \<Longrightarrow> round_cents x \<le> 0" by (simp add: round_cents_def)
  with False have "FloatString2 x = cents_text (round_cents x)"
    using round_cents_nonneg [of x] by (cases "x < 0") (auto simp: FloatString2_def cents_text_def Let_def)
  then show ?thesis by simp
next
  case True
  have "SetString (CHR ''-'' # decimal_text ''0'' (Some ''00'')) = Some (- decimal_value ''0'' (Some ''00''))"
    by (rule SetString_decimal(2)) (auto simp: is_digit_def)
  moreover have "dec_nat 0 = ''0''" by (simp add: dec_nat.simps digit_char_def)
  ultimately show ?thesis using True
    by (simp add: FloatString2_def Let_def zero_pad_def decimal_text_def decimal_value_def cents_def dec_value_def char_digit_def)
qed

lemma cents_add [money_simps]: "cents a + cents b = cents (a + b)"
  and cents_diff [money_simps]: "cents a - cents b = cents (a - b)"
  and cents_minus [money_simps]: "- cents a = cents (- a)"
  and cents_le [money_simps]: "cents a \<le> cents b \<longleftrightarrow> a \<le> b"
  and cents_less [money_simps]: "cents a < cents b \<longleftrightarrow> a < b"
  and cents_eq [money_simps]: "cents a = cents b \<longleftrightarrow> a = b"
  and cents_le_0 [money_simps]: "cents a \<le> 0 \<longleftrightarrow> a \<le> 0"
  and cents_ge_0 [money_simps]: "0 \<le> cents a \<longleftrightarrow> 0 \<le> a"
  and cents_less_0 [money_simps]: "cents a < 0 \<longleftrightarrow> a < 0"
  and cents_gr_0 [money_simps]: "0 < cents a \<longleftrightarrow> 0 < a"
  and cents_eq_0 [money_simps]: "cents a = 0 \<longleftrightarrow> a = 0"
  by (auto simp: cents_def add_divide_distrib diff_divide_distrib divide_le_cancel divide_less_cancel)

lemma cents_0 [simp]: "cents 0 = 0"
  by (simp add: cents_def)

text \<open>\<open>Rat.Cmp\<close> and \<open>Rat.Sign\<close> as comparisons of the value.\<close>

definition Cmp :: "rat \<Rightarrow> rat \<Rightarrow> int" where
  "Cmp x y = (if x < y then - 1 else if x = y then 0 else 1)"

end
