(* ===== verification/Calendar.thy ===== *)
theory Calendar
  imports GoRat
begin

text \<open>
  Go's \<open>time\<close> package where the program uses it, and
  \<open>src/internal/core/businesstime\<close>.  A calendar date (a \<open>time.Time\<close> at 00:00 UTC) is the
  number of days since 1970-01-01; an instant is the number of nanoseconds since
  1970-01-01T00:00:00Z.  Months are counted by one index, \<open>12 * year + (month - 1)\<close>, so that
  \<open>time.Date\<close>'s normalisation of month overflow is plain addition.
\<close>

type_synonym date = int
type_synonym instant = int

section \<open>The proleptic Gregorian calendar\<close>

text \<open>First day of the year that starts on 1 March of year \<open>y\<close>, counted from 0000-03-01.\<close>

definition year_start :: "int \<Rightarrow> int" where
  "year_start y = 365 * y + y div 4 - y div 100 + y div 400"

definition month_start :: "int \<Rightarrow> date" where
  "month_start M = (let N = M - 2 in year_start (N div 12) + (153 * (N mod 12) + 2) div 5 - 719468)"

text \<open>\<open>time.Date(y, m, d, 0, 0, 0, 0, time.UTC)\<close>, months and days normalised.\<close>

definition Date :: "int \<Rightarrow> int \<Rightarrow> int \<Rightarrow> date" where
  "Date y m d = month_start (12 * y + (m - 1)) + (d - 1)"

text \<open>The month index of a day: 400-, 100-, 4- and 1-year cycles, then the month in the year.\<close>

definition month_of :: "date \<Rightarrow> int" where
  "month_of day =
     (let z = day + 719468;
          era = z div 146097; doe = z mod 146097;
          c = min 3 (doe div 36524); r = doe - c * 36524;
          q = r div 1461; r2 = r mod 1461;
          a = min 3 (r2 div 365); doy = r2 - a * 365
      in 12 * (400 * era + 100 * c + 4 * q + a) + (5 * doy + 2) div 153 + 2)"

definition Year :: "date \<Rightarrow> int" where "Year d = month_of d div 12"
definition Month :: "date \<Rightarrow> int" where "Month d = month_of d mod 12 + 1"
definition Day :: "date \<Rightarrow> int" where "Day d = d - month_start (month_of d) + 1"

text \<open>Days of a month.\<close>

definition dim :: "int \<Rightarrow> int" where
  "dim M = month_start (M + 1) - month_start M"

text \<open>\<open>t.AddDate(y, m, d)\<close> on a date.\<close>

definition AddDate :: "date \<Rightarrow> int \<Rightarrow> int \<Rightarrow> int \<Rightarrow> date" where
  "AddDate t y m d = Date (Year t + y) (Month t + m) (Day t + d)"

section \<open>Instants and the business day\<close>

definition day_ns :: int where "day_ns = 86400 * 10 ^ 9"
definition wib_ns :: int where "wib_ns = 7 * 3600 * 10 ^ 9"

text \<open>The zero \<open>time.Time\<close>, 0001-01-01T00:00:00Z, and \<open>IsZero\<close>.\<close>

definition zero_time :: instant where "zero_time = - 62135596800 * 10 ^ 9"

definition IsZero :: "instant \<Rightarrow> bool" where "IsZero t \<longleftrightarrow> t = zero_time"

definition at_midnight :: "date \<Rightarrow> instant" where "at_midnight d = d * day_ns"

text \<open>The UTC calendar day of an instant (\<open>t.UTC().Date()\<close>).\<close>

definition utc_day :: "instant \<Rightarrow> date" where "utc_day t = t div day_ns"

definition DayOf :: "instant \<Rightarrow> date" where
  "DayOf t = (let local = (t + wib_ns) div day_ns in Date (Year local) (Month local) (Day local))"

definition DayStartUTC :: "date \<Rightarrow> instant" where
  "DayStartUTC d = at_midnight (Date (Year d) (Month d) (Day d)) - wib_ns"

section \<open>Texts of dates\<close>

text \<open>\<open>d.Format("2006-01-02")\<close> and \<open>d.Format("20060102")\<close>.\<close>

definition year_text :: "int \<Rightarrow> string" where
  "year_text y = (if y < 0 then CHR ''-'' # zero_pad 4 (dec_nat (nat (- y))) else zero_pad 4 (dec_nat (nat y)))"

definition ymd :: "date \<Rightarrow> string" where
  "ymd d = year_text (Year d) @ CHR ''-'' # zero_pad 2 (dec_nat (nat (Month d))) @ CHR ''-'' # zero_pad 2 (dec_nat (nat (Day d)))"

definition yyyymmdd :: "date \<Rightarrow> string" where
  "yyyymmdd d = year_text (Year d) @ zero_pad 2 (dec_nat (nat (Month d))) @ zero_pad 2 (dec_nat (nat (Day d)))"

definition monthsID :: "string list" where
  "monthsID = [''Jan'', ''Feb'', ''Mar'', ''Apr'', ''Mei'', ''Jun'', ''Jul'', ''Agu'', ''Sep'', ''Okt'', ''Nov'', ''Des'']"

definition FormatDateID :: "instant \<Rightarrow> string" where
  "FormatDateID t =
     (let d = DayOf t in
      dec_int (Day d) @ '' '' @ monthsID ! nat (Month d - 1) @ '' '' @ dec_int (Year d))"

section \<open>Months follow each other without gap or overlap\<close>

text \<open>Division by a positive constant, as inequalities that linear arithmetic can use.\<close>

lemma div_bounds:
  fixes k x :: int
  assumes "0 < k"
  shows "k * (x div k) \<le> x" "x < k * (x div k) + k"
  using mult_div_mod_eq [of k x] pos_mod_bound [OF assms, of x] pos_mod_sign [OF assms, of x] by linarith+

lemma div_eqI: "k * q \<le> x \<Longrightarrow> x < k * q + k \<Longrightarrow> x div k = q" for x k q :: int
  by (rule int_div_pos_eq [of x k q "x - k * q"]) auto

lemma mod_eqI: "k * q \<le> x \<Longrightarrow> x < k * q + k \<Longrightarrow> x mod k = x - k * q" for x k q :: int
  using div_eqI [of k q x] mult_div_mod_eq [of k x] by simp

lemma month_start_Suc:
  "month_start (M + 1) =
     month_start M +
       (let N = M - 2 in
        if N mod 12 < 11 then (153 * (N mod 12 + 1) + 2) div 5 - (153 * (N mod 12) + 2) div 5
        else year_start (N div 12 + 1) - year_start (N div 12) - 337)"
proof (cases "(M - 2) mod 12 < 11")
  case True
  then have "12 * ((M - 2) div 12) \<le> M + 1 - 2" "M + 1 - 2 < 12 * ((M - 2) div 12) + 12"
    using mult_div_mod_eq [of 12 "M - 2"] pos_mod_sign [of 12 "M - 2"] by linarith+
  from div_eqI [OF this] mod_eqI [OF this]
  have "(M + 1 - 2) div 12 = (M - 2) div 12" "(M + 1 - 2) mod 12 = (M - 2) mod 12 + 1"
    using mult_div_mod_eq [of 12 "M - 2"] by linarith+
  with True show ?thesis by (simp add: month_start_def Let_def)
next
  case False
  then have m: "(M - 2) mod 12 = 11" using pos_mod_bound [of 12 "M - 2"] by simp
  then have "12 * ((M - 2) div 12 + 1) \<le> M + 1 - 2" "M + 1 - 2 < 12 * ((M - 2) div 12 + 1) + 12"
    using mult_div_mod_eq [of 12 "M - 2"] unfolding distrib_left by linarith+
  note d = div_eqI [OF this] and r = mod_eqI [OF this]
  have "(M + 1 - 2) mod 12 = 0"
    using r mult_div_mod_eq [of 12 "M - 2"] m unfolding distrib_left by linarith
  note d this m
  then show ?thesis by (simp add: month_start_def Let_def)
qed

lemma leap_step:
  fixes a4 b4 a100 b100 a400 b400 y :: int
  assumes "a4 \<le> b4 \<and> b4 \<le> a4 + 1" "a100 \<le> b100 \<and> b100 \<le> a100 + 1" "a400 \<le> b400 \<and> b400 \<le> a400 + 1"
    "b4 = a4 \<Longrightarrow> b100 = a100" "b100 = a100 \<Longrightarrow> b400 = a400"
  shows "365 * y + a4 - a100 + a400 + 365 \<le> 365 * (y + 1) + b4 - b100 + b400"
    and "365 * (y + 1) + b4 - b100 + b400 \<le> 365 * y + a4 - a100 + a400 + 366"
  using assms by (cases "b4 = a4"; cases "b100 = a100"; auto)+

lemma year_start_Suc: "year_start y + 365 \<le> year_start (y + 1)" "year_start (y + 1) \<le> year_start y + 366"
proof -
  have a: "y div k \<le> (y + 1) div k \<and> (y + 1) div k \<le> y div k + 1" if "1 < k" for k
    using that zdiv_mono1 [of y "y + 1" k] zdiv_mono1 [of "y + 1" "y + k" k] by simp
  have b: "(y + 1) div 100 = y div 100" if "(y + 1) div 4 = y div 4"
  proof (rule div_eqI)
    note d4 = div_bounds [of 4 y, OF zero_less_numeral] div_bounds [of 4 "y + 1", OF zero_less_numeral] and d100 = div_bounds [of 25 "y div 4", OF zero_less_numeral] div_bounds [of 100 y, OF zero_less_numeral]
    have "y div 100 = y div 4 div 25" by (simp add: zdiv_zmult2_eq)
    then show "100 * (y div 100) \<le> y + 1" "y + 1 < 100 * (y div 100) + 100" using that d4 d100 by linarith+
  qed
  have c: "(y + 1) div 400 = y div 400" if "(y + 1) div 100 = y div 100"
  proof (rule div_eqI)
    note d4 = div_bounds [of 100 y, OF zero_less_numeral] div_bounds [of 100 "y + 1", OF zero_less_numeral] and d100 = div_bounds [of 4 "y div 100", OF zero_less_numeral] div_bounds [of 400 y, OF zero_less_numeral]
    have "y div 400 = y div 100 div 4" by (simp add: zdiv_zmult2_eq)
    then show "400 * (y div 400) \<le> y + 1" "y + 1 < 400 * (y div 400) + 400" using that d4 d100 by linarith+
  qed
  show "year_start y + 365 \<le> year_start (y + 1)" "year_start (y + 1) \<le> year_start y + 366"
    unfolding year_start_def by (rule leap_step; (rule a b c | assumption); simp)+
qed

lemma mod12_cases: "(N::int) mod 12 < 11 \<Longrightarrow> N mod 12 \<in> {0, 1, 2, 3, 4, 5, 6, 7, 8, 9, 10}"
  using pos_mod_sign [of 12 N] by (simp; arith)

lemma dim_bounds: "28 \<le> dim M" "dim M \<le> 31"
proof -
  have *: "dim M = (let N = M - 2 in
        if N mod 12 < 11 then (153 * (N mod 12 + 1) + 2) div 5 - (153 * (N mod 12) + 2) div 5
        else year_start (N div 12 + 1) - year_start (N div 12) - 337)"
    using month_start_Suc [of M] by (simp add: dim_def)
  have "28 \<le> dim M \<and> dim M \<le> 31"
  proof (cases "(M - 2) mod 12 < 11")
    case True
    from mod12_cases [OF this] show ?thesis unfolding * Let_def by auto
  next
    case False
    then show ?thesis using year_start_Suc [of "(M - 2) div 12"] unfolding * Let_def by simp
  qed
  then show "28 \<le> dim M" "dim M \<le> 31" by auto
qed

lemma month_start_add: "month_start M + 28 * int k \<le> month_start (M + int k)"
proof (induction k)
  case (Suc k)
  have "month_start (M + int k) + 28 \<le> month_start (M + int k + 1)"
    using dim_bounds(1) [of "M + int k"] by (simp add: dim_def)
  moreover have "month_start (M + int (Suc k)) = month_start (M + int k + 1)"
    by (rule arg_cong [where f = month_start]) simp
  moreover have "28 * int (Suc k) = 28 * int k + 28" by simp
  ultimately show ?case using Suc by linarith
qed simp

lemma month_start_mono: "M \<le> N \<Longrightarrow> month_start M + 28 * (N - M) \<le> month_start N"
  using month_start_add [of M "nat (N - M)"] by simp

lemma month_start_less: "M < N \<Longrightarrow> month_start M + dim M \<le> month_start N"
  using month_start_mono [of "M + 1" N] by (simp add: dim_def)

text \<open>A day lies in exactly one month.\<close>

lemma year_start_cycles:
  assumes "0 \<le> c" "c \<le> 3" "0 \<le> q" "q \<le> 24" "0 \<le> a" "a \<le> 3"
  shows "year_start (400 * era + 100 * c + 4 * q + a) = 146097 * era + 36524 * c + 1461 * q + 365 * a"
proof -
  let ?y = "400 * era + 100 * c + 4 * q + a"
  have "?y div 4 = 100 * era + 25 * c + q" by (rule div_eqI) (use assms in auto)
  moreover have "?y div 100 = 4 * era + c" by (rule div_eqI) (use assms in auto)
  moreover have "?y div 400 = era" by (rule div_eqI) (use assms in auto)
  ultimately show ?thesis by (simp add: year_start_def)
qed

lemma month_in_year:
  assumes "0 \<le> doy" "doy \<le> 365"
  defines "mp \<equiv> (5 * doy + 2) div (153::int)"
  shows "0 \<le> mp" "mp \<le> 11" "(153 * mp + 2) div 5 \<le> doy" "mp < 11 \<Longrightarrow> doy < (153 * (mp + 1) + 2) div 5"
proof -
  note b = div_bounds [of 153 "5 * doy + 2", OF zero_less_numeral]
    div_bounds [of 5 "153 * mp + 2", OF zero_less_numeral] div_bounds [of 5 "153 * mp + 155", OF zero_less_numeral]
  have e: "153 * (mp + 1) + 2 = 153 * mp + 155" by simp
  show "0 \<le> mp" "mp \<le> 11" "(153 * mp + 2) div 5 \<le> doy" "mp < 11 \<Longrightarrow> doy < (153 * (mp + 1) + 2) div 5"
    using assms(1,2) b unfolding mp_def [symmetric] e by linarith+
qed

lemma cycle_decomposition:
  fixes z :: int
  defines "era \<equiv> z div 146097" and "doe \<equiv> z mod 146097"
  defines "c \<equiv> min 3 (doe div 36524)"
  defines "r \<equiv> doe - c * 36524"
  defines "q \<equiv> r div 1461" and "r2 \<equiv> r mod 1461"
  defines "a \<equiv> min 3 (r2 div 365)"
  defines "doy \<equiv> r2 - a * 365"
  defines "y \<equiv> 400 * era + 100 * c + 4 * q + a"
  shows "z = year_start y + doy" "0 \<le> doy" "doy \<le> 365" "z < year_start (y + 1)"
proof -
  have doe: "0 \<le> doe" "doe < 146097" "z = 146097 * era + doe" by (simp_all add: doe_def era_def)
  note dc = div_bounds [of 36524 doe, OF zero_less_numeral]
  have c: "0 \<le> c" "c \<le> 3" using doe dc unfolding c_def min_def by (auto split: if_splits)
  have r: "0 \<le> r" "r \<le> 36524" "c < 3 \<Longrightarrow> r < 36524"
    using doe dc unfolding r_def c_def min_def by (auto split: if_splits)
  have q: "0 \<le> q" "q \<le> 24" using r div_bounds [of 1461 r, OF zero_less_numeral] unfolding q_def by linarith+
  have r2: "0 \<le> r2" "r2 \<le> 1460" "r = 1461 * q + r2"
    using pos_mod_bound [of 1461 r] by (simp_all add: r2_def q_def)
  note da = div_bounds [of 365 r2, OF zero_less_numeral]
  have a: "0 \<le> a" "a \<le> 3" using r2 da unfolding a_def min_def by (auto split: if_splits)
  show doy: "0 \<le> doy" "doy \<le> 365"
    using r2 da unfolding doy_def a_def min_def by (auto split: if_splits)
  have a3: "a < 3 \<Longrightarrow> doy \<le> 364"
    using r2 da unfolding doy_def a_def min_def by (auto split: if_splits)
  show z: "z = year_start y + doy"
    unfolding y_def year_start_cycles [OF c q a] using doe r2 by (simp add: r_def doy_def)
  consider "a < 3" | "a = 3" "q < 24" | "a = 3" "q = 24" "c < 3" | "a = 3" "q = 24" "c = 3"
    using a q c by linarith
  then show "z < year_start (y + 1)"
  proof cases
    case 1
    have "year_start (y + 1) = 146097 * era + 36524 * c + 1461 * q + 365 * (a + 1)"
      unfolding y_def using year_start_cycles [OF c q, of "a + 1" era] a 1 by (simp add: add.assoc)
    then show ?thesis using z a3 [OF 1] year_start_cycles [OF c q a, of era] by (simp add: y_def)
  next
    case 2
    have y1: "y + 1 = 400 * era + 100 * c + 4 * (q + 1) + 0" using 2 by (simp add: y_def)
    have "year_start (y + 1) = 146097 * era + 36524 * c + 1461 * (q + 1)"
      unfolding y1 by (subst year_start_cycles) (use c q 2 in simp_all)
    then show ?thesis using z doy year_start_cycles [OF c q a, of era] 2 by (simp add: y_def)
  next
    case 3
    have y1: "y + 1 = 400 * era + 100 * (c + 1) + 4 * 0 + 0" using 3 by (simp add: y_def)
    have "year_start (y + 1) = 146097 * era + 36524 * (c + 1)"
      unfolding y1 by (subst year_start_cycles) (use c 3 in simp_all)
    moreover have "r < 36524" using r(3) 3 by simp
    ultimately show ?thesis using doe by (simp add: r_def)
  next
    case 4
    have y1: "y + 1 = 400 * (era + 1) + 100 * 0 + 4 * 0 + 0" using 4 by (simp add: y_def)
    have "year_start (y + 1) = 146097 * (era + 1)"
      unfolding y1 by (subst year_start_cycles) simp_all
    then show ?thesis using doe by simp
  qed
qed

lemma month_of_bounds: "month_start (month_of d) \<le> d" "d < month_start (month_of d + 1)"
proof -
  define z where "z = d + 719468"
  define era where "era = z div 146097"
  define doe where "doe = z mod 146097"
  define c where "c = min 3 (doe div 36524)"
  define r where "r = doe - c * 36524"
  define q where "q = r div 1461"
  define r2 where "r2 = r mod 1461"
  define a where "a = min 3 (r2 div 365)"
  define doy where "doy = r2 - a * 365"
  define y where "y = 400 * era + 100 * c + 4 * q + a"
  note defs = era_def doe_def c_def r_def q_def r2_def a_def doy_def y_def
  have D: "z = year_start y + doy" "0 \<le> doy" "doy \<le> 365" "z < year_start (y + 1)"
    unfolding defs by (rule cycle_decomposition)+
  define mp where "mp = (5 * doy + 2) div 153"
  note mp = month_in_year [OF D(2,3), folded mp_def]
  have M: "month_of d = 12 * y + mp + 2"
    unfolding month_of_def Let_def y_def mp_def doy_def a_def r2_def q_def r_def c_def doe_def era_def z_def by (rule refl)
  have "12 * y \<le> month_of d - 2" "month_of d - 2 < 12 * y + 12" using M mp(1,2) by linarith+
  note N = div_eqI [OF this] and r = mod_eqI [OF this]
  have "month_of d - 2 - 12 * y = mp" using M by linarith
  note N = N r [unfolded this]
  then have s: "month_start (month_of d) = year_start y + (153 * mp + 2) div 5 - 719468"
    unfolding month_start_def Let_def N by simp
  show "month_start (month_of d) \<le> d" unfolding s using D(1) mp(3) z_def by simp
  show "d < month_start (month_of d + 1)"
  proof (cases "mp < 11")
    case True
    then show ?thesis unfolding month_start_Suc Let_def N s using D(1) mp(4) z_def by simp
  next
    case False
    then have "mp = 11" using mp(2) by simp
    then show ?thesis unfolding month_start_Suc Let_def N s using D(4) z_def by simp
  qed
qed

lemma month_of_unique: "month_start M \<le> d \<Longrightarrow> d < month_start (M + 1) \<Longrightarrow> month_of d = M"
  using month_of_bounds [of d] month_start_mono [of "M + 1" "month_of d"] month_start_mono [of "month_of d + 1" M]
  by (cases "month_of d" M rule: linorder_cases) auto

lemma month_of_start [simp]: "0 \<le> k \<Longrightarrow> k < dim M \<Longrightarrow> month_of (month_start M + k) = M"
  by (rule month_of_unique) (auto simp: dim_def)

lemma Day_bounds: "1 \<le> Day d" "Day d \<le> dim (month_of d)"
  using month_of_bounds [of d] by (simp_all add: Day_def dim_def)

lemma Month_bounds: "1 \<le> Month d" "Month d \<le> 12"
  by (simp_all add: Month_def)

lemma month_index: "12 * Year d + (Month d - 1) = month_of d"
  by (simp add: Year_def Month_def)

lemma Date_civil [simp]: "Date (Year d) (Month d) (Day d) = d"
  by (simp add: Date_def month_index) (simp add: Day_def)

lemma AddDate_days [simp]: "AddDate t 0 0 n = t + n"
  using Date_civil [of t] by (simp add: AddDate_def Date_def)

lemma month_of_Date: "1 \<le> d \<Longrightarrow> d \<le> dim (12 * y + (m - 1)) \<Longrightarrow> month_of (Date y m d) = 12 * y + (m - 1)"
  by (simp add: Date_def)

lemma Day_Date: "1 \<le> d \<Longrightarrow> d \<le> dim (12 * y + (m - 1)) \<Longrightarrow> Day (Date y m d) = d"
  unfolding Day_def by (simp add: month_of_Date) (simp add: Date_def)

lemma civil_Date:
  assumes "1 \<le> m" "m \<le> 12" "1 \<le> d" "d \<le> dim (12 * y + (m - 1))"
  shows "Year (Date y m d) = y" "Month (Date y m d) = m" "Day (Date y m d) = d"
proof -
  show "Day (Date y m d) = d" using assms(3,4) by (rule Day_Date)
  have "month_of (Date y m d) = 12 * y + (m - 1)" using assms(3,4) by (rule month_of_Date)
  moreover have "(12 * y + (m - 1)) div 12 = y" "(12 * y + (m - 1)) mod 12 = m - 1"
    using assms(1,2) div_eqI [of 12 y "12 * y + (m - 1)"] mod_eqI [of 12 y "12 * y + (m - 1)"] by simp_all
  ultimately show "Year (Date y m d) = y" "Month (Date y m d) = m" by (simp_all add: Year_def Month_def)
qed

lemma last_day: "Day (Date y (m + 1) 0) = dim (12 * y + (m - 1))"
proof -
  have "Date y (m + 1) 0 = month_start (12 * y + (m - 1)) + (dim (12 * y + (m - 1)) - 1)"
    by (simp add: Date_def dim_def)
  then show ?thesis using dim_bounds(1) [of "12 * y + (m - 1)"] by (simp add: Day_def)
qed

section \<open>The business day\<close>

lemma DayOf_eq: "DayOf t = (t + wib_ns) div day_ns"
  by (simp add: DayOf_def)

lemma DayStartUTC_eq: "DayStartUTC d = d * day_ns - wib_ns"
  by (simp add: DayStartUTC_def at_midnight_def)

lemma day_ns_pos [simp]: "0 < day_ns" by (simp add: day_ns_def)

lemma DayOf_mono: "t \<le> u \<Longrightarrow> DayOf t \<le> DayOf u"
  by (simp add: DayOf_eq zdiv_mono1)

lemma DayOf_interval: "DayOf t = d \<longleftrightarrow> DayStartUTC d \<le> t \<and> t < DayStartUTC (d + 1)"
proof -
  have "(t + wib_ns) div day_ns = d \<longleftrightarrow> day_ns * d \<le> t + wib_ns \<and> t + wib_ns < day_ns * d + day_ns"
    using div_bounds [OF day_ns_pos, of "t + wib_ns"] div_eqI [of day_ns d "t + wib_ns"] by blast
  then show ?thesis by (simp add: DayOf_eq DayStartUTC_eq algebra_simps)
qed

section \<open>Lengths of months\<close>

definition leap :: "int \<Rightarrow> bool" where
  "leap y \<longleftrightarrow> y mod 4 = 0 \<and> (y mod 100 \<noteq> 0 \<or> y mod 400 = 0)"

lemma div_Suc: "0 < k \<Longrightarrow> (y - 1) div k = (if y mod k = 0 then y div k - 1 else y div k)" for y k :: int
proof -
  assume k: "0 < k"
  note m = mult_div_mod_eq [of k y] pos_mod_bound [OF k, of y] pos_mod_sign [OF k, of y]
  show ?thesis
  proof (cases "y mod k = 0")
    case True
    have "(y - 1) div k = y div k - 1"
      by (rule div_eqI) (use m True k in \<open>simp_all add: right_diff_distrib\<close>)
    then show ?thesis using True by simp
  next
    case False
    have "0 < y mod k" using m(3) False by linarith
    then have "(y - 1) div k = y div k"
      by (intro div_eqI) (use m in linarith)+
    then show ?thesis using False by simp
  qed
qed

lemma mod_dvd_chain: "y mod (k * j) = 0 \<Longrightarrow> y mod k = 0" for y k j :: int
  by (metis dvd_imp_mod_0 dvd_mult_left mod_0_imp_dvd)

lemma leap_length:
  fixes a b c y :: int
  shows "(P400 \<Longrightarrow> P100) \<Longrightarrow> (P100 \<Longrightarrow> P4) \<Longrightarrow>
    365 * y + a - b + c -
      (365 * (y - 1) + (if P4 then a - 1 else a) - (if P100 then b - 1 else b) + (if P400 then c - 1 else c)) =
    (if P4 \<and> (\<not> P100 \<or> P400) then 366 else 365)"
  by (cases P400; cases P100; cases P4; simp)

lemma year_length: "year_start y - year_start (y - 1) = (if leap y then 366 else 365)"
proof -
  have "y mod 400 = 0 \<Longrightarrow> y mod 100 = 0" "y mod 100 = 0 \<Longrightarrow> y mod 4 = 0"
    using mod_dvd_chain [of y 100 4] mod_dvd_chain [of y 4 25] by simp_all
  then show ?thesis
    unfolding year_start_def leap_def div_Suc [OF zero_less_numeral] by (rule leap_length)
qed

lemma dim_table:
  assumes "m \<in> {1..12}"
  shows "dim (12 * y + (m - 1)) =
    (if m = 2 then if leap y then 29 else 28 else if m \<in> {4, 6, 9, 11} then 30 else 31)"
proof -
  have *: "dim M = (let N = M - 2 in
        if N mod 12 < 11 then (153 * (N mod 12 + 1) + 2) div 5 - (153 * (N mod 12) + 2) div 5
        else year_start (N div 12 + 1) - year_start (N div 12) - 337)" for M
    using month_start_Suc [of M] by (simp add: dim_def)
  have q: "(12 * y + (m - 1) - 2) div 12 = (if m < 3 then y - 1 else y)"
    and r: "(12 * y + (m - 1) - 2) mod 12 = (if m < 3 then m + 9 else m - 3)"
    using assms div_eqI [of 12 "y - 1" "12 * y + (m - 1) - 2"] div_eqI [of 12 y "12 * y + (m - 1) - 2"]
      mod_eqI [of 12 "y - 1" "12 * y + (m - 1) - 2"] mod_eqI [of 12 y "12 * y + (m - 1) - 2"] by auto
  have "m = 1 \<or> m = 2 \<or> m = 3 \<or> m = 4 \<or> m = 5 \<or> m = 6 \<or> m = 7 \<or> m = 8 \<or> m = 9 \<or> m = 10 \<or> m = 11 \<or> m = 12"
    using assms unfolding atLeastAtMost_iff by presburger
  then show ?thesis unfolding * Let_def q r using year_length [of y] by auto
qed

section \<open>Date texts determine the date\<close>

lemma year_text_inject [simp]: "year_text a = year_text b \<longleftrightarrow> a = b"
proof -
  have d: "dec_value (zero_pad 4 (dec_nat n)) = n" for n by simp
  have s: "zero_pad 4 (dec_nat n) \<noteq> CHR ''-'' # s" for n s
    using zero_pad_digits [OF dec_nat_digits [of n], of 4] by (metis list.set_intros(1) not_digit_sep(1))
  show ?thesis
    unfolding year_text_def using s
    by (auto split: if_splits dest: arg_cong [where f = dec_value] simp: eq_commute [of "CHR ''-'' # _"])
qed

lemma two_digits:
  assumes "zero_pad 2 (dec_nat (nat a)) = zero_pad 2 (dec_nat (nat b))" "0 \<le> a" "0 \<le> b"
  shows "a = b"
  using arg_cong [OF assms(1), of dec_value] assms(2,3) by simp

lemma two_digits_length: "0 \<le> a \<Longrightarrow> a < 100 \<Longrightarrow> length (zero_pad 2 (dec_nat (nat a))) = 2"
  using length_dec_nat_two [of "nat a"] by simp

lemma civil_fields_eq: "Year a = Year b \<Longrightarrow> Month a = Month b \<Longrightarrow> Day a = Day b \<Longrightarrow> a = b"
  by (metis Date_civil)

lemma ymd_inject [simp]: "ymd a = ymd b \<longleftrightarrow> a = b"
proof
  assume e: "ymd a = ymd b"
  note M = Month_bounds [of a] Month_bounds [of b]
  have D: "1 \<le> Day a" "Day a < 100" "1 \<le> Day b" "Day b < 100"
    using Day_bounds [of a] Day_bounds [of b] dim_bounds(2) [of "month_of a"] dim_bounds(2) [of "month_of b"] by linarith+
  have l: "length (zero_pad 2 (dec_nat (nat (Month a)))) = 2" "length (zero_pad 2 (dec_nat (nat (Month b)))) = 2"
    "length (zero_pad 2 (dec_nat (nat (Day a)))) = 2" "length (zero_pad 2 (dec_nat (nat (Day b)))) = 2"
    by (rule two_digits_length; use M D in linarith)+
  have "year_text (Year a) = year_text (Year b) \<and>
        zero_pad 2 (dec_nat (nat (Month a))) = zero_pad 2 (dec_nat (nat (Month b))) \<and>
        zero_pad 2 (dec_nat (nat (Day a))) = zero_pad 2 (dec_nat (nat (Day b)))"
    using e l unfolding ymd_def by (subst (asm) append_eq_append_conv) (simp_all del: length_zero_pad)
  then have "Year a = Year b" "Month a = Month b" "Day a = Day b"
    using two_digits [of "Month a" "Month b"] two_digits [of "Day a" "Day b"] M D by simp_all
  then show "a = b" by (rule civil_fields_eq)
qed simp

end
