(* ===== verification/Pricing.thy ===== *)
theory Pricing
  imports Calendar
begin

text \<open>
  \<open>src/internal/shared/pricing/pricing.go\<close> and \<open>calc.go\<close>: the price attributes of a line and the
  calculation of an invoice's or a quotation's totals.  A Go string type is a datatype of the
  values the package declares, the empty string and any other text.
\<close>

section \<open>Attributes (pricing.go)\<close>

datatype ChargeType = ChargeEmpty | OneTime | Recurring | ChargeOther string

datatype Frequency = FreqEmpty | Daily | Weekly | Monthly | Quarterly | Semiannual | Annual | FreqOther string

datatype PaymentTiming = TimingEmpty | Prepaid | Postpaid | TimingOther string

record Attributes =
  a_charge_type :: ChargeType
  a_frequency :: Frequency
  a_payment_timing :: PaymentTiming

datatype pricing_error = ErrInvalidAttributes | ErrInvalidLine

definition no_attributes :: Attributes where
  "no_attributes = \<lparr>a_charge_type = ChargeEmpty, a_frequency = FreqEmpty, a_payment_timing = TimingEmpty\<rparr>"

definition Frequencies :: "Frequency list" where
  "Frequencies = [Daily, Weekly, Monthly, Quarterly, Semiannual, Annual]"

fun frequencyLabels :: "Frequency \<Rightarrow> (string \<times> string) option" where
  "frequencyLabels Daily = Some (''Harian'', ''/hari'')"
| "frequencyLabels Weekly = Some (''Mingguan'', ''/minggu'')"
| "frequencyLabels Monthly = Some (''Bulanan'', ''/bulan'')"
| "frequencyLabels Quarterly = Some (''Triwulan'', ''/triwulan'')"
| "frequencyLabels Semiannual = Some (''Semesteran'', ''/semester'')"
| "frequencyLabels Annual = Some (''Tahunan'', ''/tahun'')"
| "frequencyLabels _ = None"

definition Frequency_Label :: "Frequency \<Rightarrow> string" where
  "Frequency_Label f = (case frequencyLabels f of Some (l, _) \<Rightarrow> l | None \<Rightarrow> [])"

definition PriceSuffix :: "Frequency \<Rightarrow> string" where
  "PriceSuffix f = (case frequencyLabels f of Some (_, s) \<Rightarrow> s | None \<Rightarrow> [])"

definition ChargeType_Label :: "ChargeType \<Rightarrow> string" where
  "ChargeType_Label c = (if c = Recurring then ''Berulang'' else ''Sekali bayar'')"

definition PaymentTiming_Label :: "PaymentTiming \<Rightarrow> string" where
  "PaymentTiming_Label p = (if p = Postpaid then ''Pascabayar'' else ''Prabayar'')"

text \<open>The separator is U+00B7 between blanks.\<close>

definition Short :: "Attributes \<Rightarrow> string" where
  "Short a =
     (if a_charge_type a = Recurring then Frequency_Label (a_frequency a) else ChargeType_Label (a_charge_type a))
       @ [CHR '' '', CHR 0xC2, CHR 0xB7, CHR '' ''] @ PaymentTiming_Label (a_payment_timing a)"

definition with_defaults :: "Attributes \<Rightarrow> Attributes" where
  "with_defaults a =
     (let a = (if a_charge_type a = ChargeEmpty then a\<lparr>a_charge_type := OneTime\<rparr> else a)
      in if a_payment_timing a = TimingEmpty then a\<lparr>a_payment_timing := Prepaid\<rparr> else a)"

definition Normalize :: "Attributes \<Rightarrow> pricing_error + Attributes" where
  "Normalize a0 =
     (let a = with_defaults a0 in
      if (case a_charge_type a of
            OneTime \<Rightarrow> a_frequency a \<noteq> FreqEmpty
          | Recurring \<Rightarrow> frequencyLabels (a_frequency a) = None
          | _ \<Rightarrow> True) then Inl ErrInvalidAttributes
      else if a_payment_timing a \<noteq> Prepaid \<and> a_payment_timing a \<noteq> Postpaid then Inl ErrInvalidAttributes
      else Inr a)"

text \<open>The attributes the rest of the program may see.\<close>

definition valid_attrs :: "Attributes \<Rightarrow> bool" where
  "valid_attrs a \<longleftrightarrow>
     (a_charge_type a = OneTime \<and> a_frequency a = FreqEmpty \<or> a_charge_type a = Recurring \<and> a_frequency a \<in> set Frequencies)
     \<and> a_payment_timing a \<in> {Prepaid, Postpaid}"

lemma frequencyLabels_Some: "frequencyLabels f \<noteq> None \<longleftrightarrow> f \<in> set Frequencies"
  by (cases f) (simp_all add: Frequencies_def)

lemma frequencyLabels_None [simp]: "frequencyLabels f = None \<longleftrightarrow> f \<notin> set Frequencies"
  using frequencyLabels_Some by blast

lemma valid_attrs_with_defaults: "valid_attrs a \<Longrightarrow> with_defaults a = a"
  by (auto simp: valid_attrs_def with_defaults_def Let_def)

lemma Normalize_iff: "Normalize a = Inr b \<longleftrightarrow> b = with_defaults a \<and> valid_attrs (with_defaults a)"
  by (cases "a_charge_type (with_defaults a)") (auto simp: Normalize_def valid_attrs_def Let_def)

lemma Normalize_valid: "Normalize a = Inr b \<Longrightarrow> valid_attrs b"
  by (simp add: Normalize_iff)

lemma Normalize_fixed: "valid_attrs a \<Longrightarrow> Normalize a = Inr a"
  by (simp add: Normalize_iff valid_attrs_with_defaults)

lemma Normalize_error: "Normalize a = Inl e \<Longrightarrow> e = ErrInvalidAttributes"
  by (auto simp: Normalize_def Let_def split: if_splits)

text \<open>The fixed order daily to annual.\<close>

fun frequency_rank :: "Frequency \<Rightarrow> nat" where
  "frequency_rank FreqEmpty = 0"
| "frequency_rank Daily = 1"
| "frequency_rank Weekly = 2"
| "frequency_rank Monthly = 3"
| "frequency_rank Quarterly = 4"
| "frequency_rank Semiannual = 5"
| "frequency_rank Annual = 6"
| "frequency_rank (FreqOther s) = 7"

fun frequency_text :: "Frequency \<Rightarrow> string" where
  "frequency_text FreqEmpty = []"
| "frequency_text Daily = ''daily''"
| "frequency_text Weekly = ''weekly''"
| "frequency_text Monthly = ''monthly''"
| "frequency_text Quarterly = ''quarterly''"
| "frequency_text Semiannual = ''semiannual''"
| "frequency_text Annual = ''annual''"
| "frequency_text (FreqOther s) = s"

lemma frequency_key_inject: "frequency_rank f = frequency_rank g \<Longrightarrow> frequency_text f = frequency_text g \<Longrightarrow> f = g"
  by (cases f; cases g) simp_all

instantiation Frequency :: linorder
begin

definition less_eq_Frequency :: "Frequency \<Rightarrow> Frequency \<Rightarrow> bool" where
  "f \<le> g \<longleftrightarrow> frequency_rank f < frequency_rank g \<or> frequency_rank f = frequency_rank g \<and> frequency_text f \<le> frequency_text g"

definition less_Frequency :: "Frequency \<Rightarrow> Frequency \<Rightarrow> bool" where
  "f < g \<longleftrightarrow> frequency_rank f < frequency_rank g \<or> frequency_rank f = frequency_rank g \<and> frequency_text f < frequency_text g"

instance
  by standard
    (auto simp: less_eq_Frequency_def less_Frequency_def intro: frequency_key_inject)

end

section \<open>Pricing lines (calc.go)\<close>

record LineInput =
  li_description :: string
  li_quantity :: string
  li_unit_price :: string
  li_discount_percent :: string
  li_tax_percent :: string
  li_attrs :: Attributes

record PricedLine =
  pl_description :: string
  pl_quantity :: string
  pl_unit_price :: string
  pl_discount_percent :: string
  pl_tax_percent :: string
  pl_tax_amount :: string
  pl_line_total :: string
  pl_attrs :: Attributes

record Totals =
  t_subtotal :: string
  t_discount_total :: string
  t_tax_total :: string
  t_grand_total :: string
  t_one_time_total :: string
  t_first_invoice_total :: string
  t_recurring_totals :: "Frequency \<Rightarrow> string option"

definition no_totals :: Totals where
  "no_totals = \<lparr>t_subtotal = [], t_discount_total = [], t_tax_total = [], t_grand_total = [],
     t_one_time_total = [], t_first_invoice_total = [], t_recurring_totals = (\<lambda>_. None)\<rparr>"

text \<open>Go divides numerator by denominator truncating; the value is never negative here.\<close>

definition roundHalfUp2 :: "rat \<Rightarrow> rat" where
  "roundHalfUp2 v =
     (let (num, den) = quotient_of (v * 100 + 1 / 2) in of_int (num sdiv den) / 100)"

definition parseNonNegative :: "string \<Rightarrow> string \<Rightarrow> rat option \<Rightarrow> rat option" where
  "parseNonNegative value fallback mx =
     (let v = TrimSpace value; v = (if v = [] then fallback else v)
      in case SetString v of
           None \<Rightarrow> None
         | Some r \<Rightarrow> if r < 0 \<or> (case mx of None \<Rightarrow> False | Some m \<Rightarrow> m < r) then None else Some r)"

record price_acc =
  acc_subtotal :: rat
  acc_discount :: rat
  acc_tax :: rat
  acc_one_time :: rat
  acc_first :: rat
  acc_recurring :: "Frequency \<Rightarrow> rat option"
  acc_priced :: "PricedLine list"

definition acc0 :: price_acc where
  "acc0 = \<lparr>acc_subtotal = 0, acc_discount = 0, acc_tax = 0, acc_one_time = 0, acc_first = 0,
     acc_recurring = (\<lambda>_. None), acc_priced = []\<rparr>"

text \<open>The parsed quantity, price, discount and tax of a line with its attributes, or the failed check.\<close>

definition line_values :: "LineInput \<Rightarrow> (rat \<times> rat \<times> rat \<times> rat \<times> Attributes) option" where
  "line_values l =
     (let description = TrimSpace (li_description l) in
      case (parseNonNegative (li_quantity l) ''1'' None, parseNonNegative (li_unit_price l) ''0'' None,
            parseNonNegative (li_discount_percent l) ''0'' (Some 100), parseNonNegative (li_tax_percent l) ''0'' (Some 100),
            Normalize (li_attrs l)) of
        (Some qty, Some price, Some disc, Some tax, Inr attrs) \<Rightarrow>
          if description = [] \<or> RuneCount description > 500 then None else Some (qty, price, disc, tax, attrs)
      | _ \<Rightarrow> None)"

definition price_step :: "price_acc \<Rightarrow> LineInput \<Rightarrow> price_acc option" where
  "price_step acc l =
     (case line_values l of
        None \<Rightarrow> None
      | Some (qty, price, discPct, taxPct, attrs) \<Rightarrow>
          let gross = roundHalfUp2 (qty * price);
              disc = roundHalfUp2 (gross * discPct / 100);
              net = gross - disc;
              tax = roundHalfUp2 (net * taxPct / 100);
              lineGross = net + tax;
              discount = (if TrimSpace (li_discount_percent l) \<noteq> [] then FloatString2 discPct else [])
          in Some \<lparr>acc_subtotal = acc_subtotal acc + gross,
                   acc_discount = acc_discount acc + disc,
                   acc_tax = acc_tax acc + tax,
                   acc_one_time = acc_one_time acc + (if a_charge_type attrs = Recurring then 0 else lineGross),
                   acc_first = acc_first acc + (if a_payment_timing attrs = Prepaid then lineGross else 0),
                   acc_recurring =
                     (if a_charge_type attrs = Recurring
                      then (acc_recurring acc)(a_frequency attrs \<mapsto>
                              (case acc_recurring acc (a_frequency attrs) of None \<Rightarrow> 0 | Some r \<Rightarrow> r) + lineGross)
                      else acc_recurring acc),
                   acc_priced = acc_priced acc @
                     [\<lparr>pl_description = TrimSpace (li_description l), pl_quantity = FloatString2 qty,
                       pl_unit_price = FloatString2 price, pl_discount_percent = discount,
                       pl_tax_percent = FloatString2 taxPct, pl_tax_amount = FloatString2 tax,
                       pl_line_total = FloatString2 net, pl_attrs = attrs\<rparr>]\<rparr>)"

fun price_loop :: "price_acc \<Rightarrow> LineInput list \<Rightarrow> price_acc option" where
  "price_loop acc [] = Some acc"
| "price_loop acc (l # ls) = (case price_step acc l of None \<Rightarrow> None | Some acc' \<Rightarrow> price_loop acc' ls)"

definition buildTotals :: "rat \<Rightarrow> rat \<Rightarrow> rat \<Rightarrow> rat \<Rightarrow> rat \<Rightarrow> (Frequency \<Rightarrow> rat option) \<Rightarrow> Totals" where
  "buildTotals subtotal discountTotal taxTotal oneTime firstInvoice recurring =
     \<lparr>t_subtotal = FloatString2 subtotal, t_discount_total = FloatString2 discountTotal,
      t_tax_total = FloatString2 taxTotal,
      t_grand_total = FloatString2 (subtotal - discountTotal + taxTotal),
      t_one_time_total = FloatString2 oneTime, t_first_invoice_total = FloatString2 firstInvoice,
      t_recurring_totals = (\<lambda>f. map_option FloatString2 (recurring f))\<rparr>"

definition PriceLines :: "LineInput list \<Rightarrow> pricing_error + Totals \<times> PricedLine list" where
  "PriceLines ls =
     (if ls = [] then Inl ErrInvalidLine
      else case price_loop acc0 ls of
             None \<Rightarrow> Inl ErrInvalidLine
           | Some a \<Rightarrow>
               Inr (buildTotals (acc_subtotal a) (acc_discount a) (acc_tax a) (acc_one_time a) (acc_first a) (acc_recurring a),
                    acc_priced a))"

definition WithTaxTotal :: "Totals \<Rightarrow> string \<Rightarrow> Totals \<times> bool" where
  "WithTaxTotal t tax =
     (case (SetString tax, SetString (t_subtotal t), SetString (t_discount_total t)) of
        (Some taxR, Some sub, Some disc) \<Rightarrow>
          (t\<lparr>t_tax_total := FloatString2 taxR, t_grand_total := FloatString2 (sub - disc + taxR)\<rparr>, True)
      | _ \<Rightarrow> (t, False))"

section \<open>Rounding\<close>

lemma quotient_floor: "(case quotient_of x of (n, d) \<Rightarrow> n div d) = \<lfloor>x\<rfloor>"
  by (simp add: rat_floor_code Let_def split: prod.split)

lemma roundHalfUp2_floor:
  assumes "0 \<le> v"
  shows "roundHalfUp2 v = of_int \<lfloor>v * 100 + 1 / 2\<rfloor> / 100"
proof -
  obtain n d where q: "quotient_of (v * 100 + 1 / 2) = (n, d)" by force
  have d: "0 < d" using quotient_of_denom_pos [OF q] .
  have "v * 100 + 1 / 2 = of_int n / of_int d" using quotient_of_div [OF q] .
  then have "0 \<le> (of_int n / of_int d :: rat)" using assms by simp
  then have "0 \<le> n" using d by (simp add: zero_le_divide_iff)
  then have "n sdiv d = n div d" using d by (simp add: signed_divide_int_def sgn_if)
  then show ?thesis using quotient_floor [of "v * 100 + 1 / 2"] by (simp add: roundHalfUp2_def q)
qed

lemma roundHalfUp2_cents: "0 \<le> v \<Longrightarrow> roundHalfUp2 v = cents (round_cents v)"
  by (simp add: roundHalfUp2_floor cents_def round_cents_def)

lemma round_cents_bounds: "0 \<le> v \<Longrightarrow> cents (round_cents v) \<le> v + 1 / 200 \<and> v - 1 / 200 < cents (round_cents v)"
proof -
  assume v: "0 \<le> v"
  have "of_int \<lfloor>v * 100 + 1 / 2\<rfloor> \<le> v * 100 + 1 / 2" "v * 100 + 1 / 2 < of_int \<lfloor>v * 100 + 1 / 2\<rfloor> + 1"
    by linarith+
  then show ?thesis using v by (simp add: round_cents_def cents_def field_simps)
qed

lemma round_cents_mono: "0 \<le> v \<Longrightarrow> v \<le> w \<Longrightarrow> round_cents v \<le> round_cents w"
  by (simp add: round_cents_def floor_mono)

section \<open>A line in hundredths\<close>

lemma parseNonNegative_bounds:
  "parseNonNegative v d mx = Some r \<Longrightarrow> 0 \<le> r \<and> (\<forall>m. mx = Some m \<longrightarrow> r \<le> m)"
  by (auto simp: parseNonNegative_def Let_def split: option.splits if_splits)

lemma line_values_bounds:
  assumes "line_values l = Some (q, p, d, x, a)"
  shows "0 \<le> q" "0 \<le> p" "0 \<le> d" "d \<le> 100" "0 \<le> x" "x \<le> 100" "valid_attrs a"
  using assms unfolding line_values_def Let_def
  by (auto split: option.splits sum.splits if_splits dest!: parseNonNegative_bounds Normalize_valid)

text \<open>Gross, discount and tax of an accepted line, in hundredths, by the mathematical rounding.\<close>

definition line_gross :: "LineInput \<Rightarrow> int" where
  "line_gross l = (case line_values l of None \<Rightarrow> 0 | Some (q, p, _) \<Rightarrow> round_cents (q * p))"

definition line_discount :: "LineInput \<Rightarrow> int" where
  "line_discount l = (case line_values l of None \<Rightarrow> 0 | Some (_, _, d, _) \<Rightarrow> round_cents (cents (line_gross l) * d / 100))"

definition line_tax :: "LineInput \<Rightarrow> int" where
  "line_tax l =
     (case line_values l of None \<Rightarrow> 0
      | Some (_, _, _, x, _) \<Rightarrow> round_cents (cents (line_gross l - line_discount l) * x / 100))"

definition line_attrs :: "LineInput \<Rightarrow> Attributes" where
  "line_attrs l = with_defaults (li_attrs l)"

definition line_amount :: "LineInput \<Rightarrow> int" where
  "line_amount l = line_gross l - line_discount l + line_tax l"

lemma percent_of_cents:
  assumes "0 \<le> k" "0 \<le> p" "p \<le> 100"
  shows "0 \<le> cents k * p / 100" "0 \<le> round_cents (cents k * p / 100)" "round_cents (cents k * p / 100) \<le> k"
proof -
  show n: "0 \<le> cents k * p / 100" using assms by (simp add: cents_def)
  then show "0 \<le> round_cents (cents k * p / 100)" by (rule round_cents_nonneg)
  have "cents k * p \<le> cents k * 100" by (rule mult_left_mono) (use assms in \<open>simp_all add: cents_def\<close>)
  then have "cents k * p / 100 \<le> cents k" by simp
  from round_cents_mono [OF n this] show "round_cents (cents k * p / 100) \<le> k" by simp
qed

lemma line_bounds: "0 \<le> line_gross l" "0 \<le> line_discount l" "line_discount l \<le> line_gross l" "0 \<le> line_tax l"
    "line_tax l \<le> line_gross l - line_discount l"
proof -
  have "0 \<le> line_gross l \<and> 0 \<le> line_discount l \<and> line_discount l \<le> line_gross l \<and> 0 \<le> line_tax l \<and>
      line_tax l \<le> line_gross l - line_discount l"
  proof (cases "line_values l")
    case None
    then show ?thesis by (simp add: line_gross_def line_discount_def line_tax_def)
  next
    case (Some v)
    obtain q p d x a where v: "v = (q, p, d, x, a)" by (cases v) auto
    note b = line_values_bounds [OF Some [unfolded v]]
    have g: "0 \<le> line_gross l" using b by (simp add: line_gross_def Some v round_cents_nonneg)
    have d: "0 \<le> line_discount l" "line_discount l \<le> line_gross l"
      using percent_of_cents [OF g b(3,4)] by (simp_all add: line_discount_def Some v)
    then have "0 \<le> line_gross l - line_discount l" by simp
    from percent_of_cents [OF this b(5,6)] g d show ?thesis by (simp add: line_tax_def Some v)
  qed
  then show "0 \<le> line_gross l" "0 \<le> line_discount l" "line_discount l \<le> line_gross l" "0 \<le> line_tax l"
    "line_tax l \<le> line_gross l - line_discount l" by auto
qed

lemma line_amount_nonneg: "0 \<le> line_amount l"
  using line_bounds [of l] by (simp add: line_amount_def)

text \<open>The rounded line of the reply.\<close>

definition priced_of :: "LineInput \<Rightarrow> PricedLine" where
  "priced_of l =
     (case line_values l of
        None \<Rightarrow> undefined
      | Some (q, p, d, x, a) \<Rightarrow>
          \<lparr>pl_description = TrimSpace (li_description l), pl_quantity = cents_text (round_cents q),
           pl_unit_price = cents_text (round_cents p),
           pl_discount_percent = (if TrimSpace (li_discount_percent l) = [] then [] else cents_text (round_cents d)),
           pl_tax_percent = cents_text (round_cents x), pl_tax_amount = cents_text (line_tax l),
           pl_line_total = cents_text (line_gross l - line_discount l), pl_attrs = line_attrs l\<rparr>)"

definition recurs :: "Frequency \<Rightarrow> LineInput \<Rightarrow> bool" where
  "recurs f l \<longleftrightarrow> a_charge_type (line_attrs l) = Recurring \<and> a_frequency (line_attrs l) = f"

definition amount_of :: "(LineInput \<Rightarrow> bool) \<Rightarrow> LineInput list \<Rightarrow> int" where
  "amount_of P ls = (\<Sum>l \<leftarrow> ls. if P l then line_amount l else 0)"

lemma amount_of_simps [simp]:
  "amount_of P [] = 0" "amount_of P (ls @ ls') = amount_of P ls + amount_of P ls'"
  "amount_of P (l # ls) = (if P l then line_amount l else 0) + amount_of P ls"
  by (simp_all add: amount_of_def)

lemma amount_of_nonneg: "0 \<le> amount_of P ls"
  by (induction ls) (auto simp: line_amount_nonneg)

lemma amount_of_mono: "(\<And>l. P l \<Longrightarrow> Q l) \<Longrightarrow> amount_of P ls \<le> amount_of Q ls"
  by (induction ls) (auto simp: line_amount_nonneg add_mono intro: add_increasing)

text \<open>The accumulator after the lines \<open>ls\<close>.\<close>

definition acc_of :: "LineInput list \<Rightarrow> price_acc" where
  "acc_of ls =
     \<lparr>acc_subtotal = cents (\<Sum>l \<leftarrow> ls. line_gross l), acc_discount = cents (\<Sum>l \<leftarrow> ls. line_discount l),
      acc_tax = cents (\<Sum>l \<leftarrow> ls. line_tax l),
      acc_one_time = cents (amount_of (\<lambda>l. a_charge_type (line_attrs l) \<noteq> Recurring) ls),
      acc_first = cents (amount_of (\<lambda>l. a_payment_timing (line_attrs l) = Prepaid) ls),
      acc_recurring = (\<lambda>f. if \<exists>l \<in> set ls. recurs f l then Some (cents (amount_of (recurs f) ls)) else None),
      acc_priced = map priced_of ls\<rparr>"

lemma amount_of_none: "\<not> (\<exists>l \<in> set ls. P l) \<Longrightarrow> amount_of P ls = 0"
  by (induction ls) auto

lemma line_values_attrs: "line_values l = Some (q, p, d, x, a) \<Longrightarrow> a = line_attrs l"
  unfolding line_values_def Let_def line_attrs_def
  by (auto split: option.splits sum.splits if_splits simp: Normalize_iff)

lemma price_step_acc_of:
  "price_step (acc_of ls) l = (if line_values l = None then None else Some (acc_of (ls @ [l])))"
proof (cases "line_values l")
  case None
  then show ?thesis by (simp add: price_step_def)
next
  case (Some v)
  obtain q p d x a where v: "v = (q, p, d, x, a)" by (cases v) auto
  note lv = Some [unfolded v]
  note b = line_values_bounds [OF lv] and a = line_values_attrs [OF lv]
  have g: "roundHalfUp2 (q * p) = cents (line_gross l)"
    using b by (simp add: roundHalfUp2_cents line_gross_def lv)
  have d: "roundHalfUp2 (cents (line_gross l) * d / 100) = cents (line_discount l)"
    using percent_of_cents(1) [OF line_bounds(1) b(3,4)] by (simp add: roundHalfUp2_cents line_discount_def lv)
  have "0 \<le> line_gross l - line_discount l" using line_bounds by simp
  from percent_of_cents(1) [OF this b(5,6)]
  have x: "roundHalfUp2 (cents (line_gross l - line_discount l) * x / 100) = cents (line_tax l)"
    by (simp add: roundHalfUp2_cents line_tax_def lv)
  have r: "acc_recurring (acc_of (ls @ [l])) =
      (if a_charge_type a = Recurring
       then (acc_recurring (acc_of ls))(a_frequency a \<mapsto>
               (case acc_recurring (acc_of ls) (a_frequency a) of None \<Rightarrow> 0 | Some r \<Rightarrow> r) + cents (line_amount l))
       else acc_recurring (acc_of ls))"
    using amount_of_none [of ls "recurs (a_frequency a)"]
    by (auto simp: acc_of_def a recurs_def [of _ l] money_simps fun_eq_iff)
  have n: "cents (line_gross l) - cents (line_discount l) + cents (line_tax l) = cents (line_amount l)"
    by (simp add: money_simps line_amount_def)
  have "price_step (acc_of ls) l = Some (acc_of (ls @ [l]))"
    unfolding price_step_def lv option.case prod.case Let_def g d cents_diff x
    using r n FloatString2_nonneg b
    by (simp add: acc_of_def [of "ls @ [l]"] r [symmetric] money_simps a line_amount_def priced_of_def lv)
      (simp add: acc_of_def money_simps line_amount_def)
  then show ?thesis using lv by simp
qed

lemma price_loop_acc_of:
  "price_loop (acc_of ls) ls' = (if \<exists>l \<in> set ls'. line_values l = None then None else Some (acc_of (ls @ ls')))"
proof (induction ls' arbitrary: ls)
  case (Cons l ls')
  then show ?case by (cases "line_values l") (auto simp: price_step_acc_of simp del: not_None_eq split_paired_All split_paired_Ex)
qed simp

text \<open>The reference: totals summed in integer hundredths.\<close>

definition totals_of :: "LineInput list \<Rightarrow> Totals" where
  "totals_of ls =
     \<lparr>t_subtotal = cents_text (\<Sum>l \<leftarrow> ls. line_gross l), t_discount_total = cents_text (\<Sum>l \<leftarrow> ls. line_discount l),
      t_tax_total = cents_text (\<Sum>l \<leftarrow> ls. line_tax l), t_grand_total = cents_text (amount_of (\<lambda>_. True) ls),
      t_one_time_total = cents_text (amount_of (\<lambda>l. a_charge_type (line_attrs l) \<noteq> Recurring) ls),
      t_first_invoice_total = cents_text (amount_of (\<lambda>l. a_payment_timing (line_attrs l) = Prepaid) ls),
      t_recurring_totals = (\<lambda>f. if \<exists>l \<in> set ls. recurs f l then Some (cents_text (amount_of (recurs f) ls)) else None)\<rparr>"

lemma amount_of_all: "amount_of (\<lambda>_. True) ls = (\<Sum>l \<leftarrow> ls. line_gross l) - (\<Sum>l \<leftarrow> ls. line_discount l) + (\<Sum>l \<leftarrow> ls. line_tax l)"
  by (induction ls) (simp_all add: line_amount_def)

lemma acc0_acc_of: "acc0 = acc_of []"
  by (simp add: acc0_def acc_of_def)

lemma buildTotals_acc_of:
  "buildTotals (acc_subtotal (acc_of ls)) (acc_discount (acc_of ls)) (acc_tax (acc_of ls)) (acc_one_time (acc_of ls))
     (acc_first (acc_of ls)) (acc_recurring (acc_of ls)) = totals_of ls"
  by (simp add: buildTotals_def acc_of_def totals_of_def money_simps amount_of_all fun_eq_iff)

lemma PriceLines_eq:
  "PriceLines ls =
     (if ls = [] \<or> (\<exists>l \<in> set ls. line_values l = None) then Inl ErrInvalidLine
      else Inr (totals_of ls, map priced_of ls))"
proof -
  have p: "acc_priced (acc_of ls) = map priced_of ls" by (simp add: acc_of_def)
  show ?thesis
  proof (cases "\<exists>l \<in> set ls. line_values l = None")
    case True
    then show ?thesis unfolding PriceLines_def acc0_acc_of price_loop_acc_of append_Nil by (simp del: not_None_eq)
  next
    case False
    then show ?thesis
      unfolding PriceLines_def acc0_acc_of price_loop_acc_of append_Nil
      by (simp only: if_False option.case buildTotals_acc_of p disj_not1 simp_thms)
  qed
qed

lemma amount_of_split: "amount_of P ls = amount_of (\<lambda>l. P l \<and> Q l) ls + amount_of (\<lambda>l. P l \<and> \<not> Q l) ls"
  by (induction ls) auto

lemma line_values_valid: "line_values l \<noteq> None \<Longrightarrow> valid_attrs (line_attrs l)"
  using line_values_bounds(7) line_values_attrs by force

lemma amount_of_recurring:
  assumes "\<forall>l \<in> set ls. line_values l \<noteq> None"
  shows "amount_of (\<lambda>l. a_charge_type (line_attrs l) = Recurring) ls = (\<Sum>f \<leftarrow> Frequencies. amount_of (recurs f) ls)"
  using assms
proof (induction ls)
  case (Cons l ls)
  then have "valid_attrs (line_attrs l)" by (intro line_values_valid) simp
  then have "(if a_charge_type (line_attrs l) = Recurring then line_amount l else 0) =
      (\<Sum>f \<leftarrow> Frequencies. if recurs f l then line_amount l else 0)"
    by (auto simp: valid_attrs_def recurs_def Frequencies_def)
  moreover have "(\<Sum>f \<leftarrow> Frequencies. amount_of (recurs f) (l # ls)) =
      (\<Sum>f \<leftarrow> Frequencies. if recurs f l then line_amount l else 0) + (\<Sum>f \<leftarrow> Frequencies. amount_of (recurs f) ls)"
    by (simp add: sum_list_addf)
  ultimately show ?case using Cons by simp
qed (simp add: Frequencies_def)

section \<open>Properties\<close>

text \<open>
  C27.  \<open>PriceLines\<close> computes, line by line and in exact rationals, what a calculation in whole
  hundredths gives: it rejects exactly an empty list and a list with a bad line (description
  empty or above 500 runes after trimming, a number that does not parse or is out of range,
  invalid attributes); otherwise gross, discount and tax are rounded half up per line and the
  totals, the split into one-time, first-invoice and per-frequency amounts, and the texts of
  every line are those of the rounded amounts.
\<close>

theorem PriceLines_correct:
  "PriceLines ls =
     (if ls = [] \<or> (\<exists>l \<in> set ls. line_values l = None) then Inl ErrInvalidLine
      else Inr (totals_of ls, map priced_of ls))"
  by (rule PriceLines_eq)

text \<open>
  C28.  The identities of the totals: grand total = subtotal - discounts + taxes = one-time total
  + the totals per frequency; no amount is negative, the discount never exceeds the subtotal,
  the tax never exceeds the discounted net, and the first invoice never exceeds the grand total.
\<close>

theorem PriceLines_totals:
  assumes "PriceLines ls = Inr (t, ps)"
  shows "\<exists>sub disc tax one first rec.
     t = \<lparr>t_subtotal = cents_text sub, t_discount_total = cents_text disc, t_tax_total = cents_text tax,
          t_grand_total = cents_text (sub - disc + tax), t_one_time_total = cents_text one,
          t_first_invoice_total = cents_text first, t_recurring_totals = map_option cents_text \<circ> rec\<rparr> \<and>
     sub - disc + tax = one + (\<Sum>f \<leftarrow> Frequencies. case rec f of None \<Rightarrow> 0 | Some k \<Rightarrow> k) \<and>
     dom rec \<subseteq> set Frequencies \<and>
     0 \<le> disc \<and> disc \<le> sub \<and> 0 \<le> tax \<and> tax \<le> sub - disc \<and> 0 \<le> one \<and>
     0 \<le> first \<and> first \<le> sub - disc + tax"
proof -
  define rec where "rec f = (if \<exists>l \<in> set ls. recurs f l then Some (amount_of (recurs f) ls) else None)" for f
  have ok: "\<forall>l \<in> set ls. line_values l \<noteq> None" and t: "t = totals_of ls"
    using assms by (auto simp: PriceLines_eq split: if_splits)
  have r: "(case rec f of None \<Rightarrow> 0 | Some k \<Rightarrow> k) = amount_of (recurs f) ls" for f
    using amount_of_none [of ls "recurs f"] by (simp add: rec_def)
  have d: "dom rec \<subseteq> set Frequencies"
    using ok line_values_valid by (force simp: rec_def recurs_def valid_attrs_def split: if_splits)
  have split: "amount_of (\<lambda>_. True) ls =
      amount_of (\<lambda>l. a_charge_type (line_attrs l) \<noteq> Recurring) ls + (\<Sum>f \<leftarrow> Frequencies. amount_of (recurs f) ls)"
    using amount_of_split [of "\<lambda>_. True" ls "\<lambda>l. a_charge_type (line_attrs l) \<noteq> Recurring"] amount_of_recurring [OF ok] by simp
  have sums: "0 \<le> (\<Sum>l \<leftarrow> ls. line_discount l)" "(\<Sum>l \<leftarrow> ls. line_discount l) \<le> (\<Sum>l \<leftarrow> ls. line_gross l)"
    "0 \<le> (\<Sum>l \<leftarrow> ls. line_tax l)"
    "(\<Sum>l \<leftarrow> ls. line_tax l) \<le> (\<Sum>l \<leftarrow> ls. line_gross l) - (\<Sum>l \<leftarrow> ls. line_discount l)"
  proof (induction ls)
    case (Cons l ls)
    { case 1 show ?case using Cons line_bounds [of l] by simp }
    { case 2 show ?case using Cons line_bounds [of l] by simp }
    { case 3 show ?case using Cons line_bounds [of l] by simp }
    { case 4 show ?case using Cons line_bounds [of l] by simp }
  qed simp_all
  have m: "map_option cents_text (rec f) = (if \<exists>l \<in> set ls. recurs f l then Some (cents_text (amount_of (recurs f) ls)) else None)" for f
    by (simp add: rec_def)
  note nn = amount_of_nonneg [of _ ls] and mono = amount_of_mono [of "\<lambda>l. a_payment_timing (line_attrs l) = Prepaid" "\<lambda>_. True" ls]
  show ?thesis
    by (rule exI [of _ "\<Sum>l \<leftarrow> ls. line_gross l"], rule exI [of _ "\<Sum>l \<leftarrow> ls. line_discount l"],
        rule exI [of _ "\<Sum>l \<leftarrow> ls. line_tax l"], rule exI [of _ "amount_of (\<lambda>l. a_charge_type (line_attrs l) \<noteq> Recurring) ls"],
        rule exI [of _ "amount_of (\<lambda>l. a_payment_timing (line_attrs l) = Prepaid) ls"], rule exI [of _ rec])
      (use sums split mono nn d in \<open>simp add: t totals_of_def r amount_of_all [symmetric] fun_eq_iff m\<close>)
qed

definition demo_line :: LineInput where
  "demo_line = \<lparr>li_description = ''Internet'', li_quantity = ''2'', li_unit_price = ''10.005'', li_discount_percent = ''10'',
     li_tax_percent = ''11'', li_attrs = \<lparr>a_charge_type = Recurring, a_frequency = Monthly, a_payment_timing = Prepaid\<rparr>\<rparr>"

lemma demo_line_values:
  "line_values demo_line =
     Some (2, 2001 / 200, 10, 11, \<lparr>a_charge_type = Recurring, a_frequency = Monthly, a_payment_timing = Prepaid\<rparr>)"
proof -
  have t: "TrimSpace ''Internet'' = ''Internet''" "TrimSpace ''2'' = ''2''" "TrimSpace ''10.005'' = ''10.005''"
      "TrimSpace ''10'' = ''10''" "TrimSpace ''11'' = ''11''"
    by (simp_all add: TrimSpace_graphic graphic_def)
  have s: "SetString ''2'' = Some 2" "SetString ''10.005'' = Some (2001 / 200)" "SetString ''10'' = Some 10" "SetString ''11'' = Some 11"
    using SetString_decimal(1) [of "''2''" None] SetString_decimal(1) [of "''10''" "Some ''005''"]
      SetString_decimal(1) [of "''10''" None] SetString_decimal(1) [of "''11''" None]
    by (simp_all add: decimal_text_def decimal_value_def is_digit_def dec_value_def char_digit_def)
  have r: "RuneCount ''Internet'' = 8" by code_simp
  show ?thesis
    by (simp add: line_values_def demo_line_def parseNonNegative_def t s r Normalize_def with_defaults_def Frequencies_def)
qed

lemma PriceLines_totals_witness:
  "\<exists>t ps sub disc tax one first rec.
     PriceLines [demo_line] = Inr (t, ps) \<and> t_grand_total t = ''19.99'' \<and>
     t = \<lparr>t_subtotal = cents_text sub, t_discount_total = cents_text disc, t_tax_total = cents_text tax,
          t_grand_total = cents_text (sub - disc + tax), t_one_time_total = cents_text one,
          t_first_invoice_total = cents_text first, t_recurring_totals = map_option cents_text \<circ> rec\<rparr> \<and>
     sub - disc + tax = one + (\<Sum>f \<leftarrow> Frequencies. case rec f of None \<Rightarrow> 0 | Some k \<Rightarrow> k)"
proof -
  have p: "PriceLines [demo_line] = Inr (totals_of [demo_line], map priced_of [demo_line])"
    by (simp add: PriceLines_eq demo_line_values)
  have g: "round_cents (2 * (2001 / 200)) = 2001" "round_cents (cents 2001 * 10 / 100) = 200"
      "round_cents (cents 1801 * 11 / 100) = 198" "cents_text 1999 = ''19.99''"
    by code_simp+
  then have "line_gross demo_line = 2001" by (simp add: line_gross_def demo_line_values)
  moreover from this g have "line_discount demo_line = 200" by (simp add: line_discount_def demo_line_values)
  moreover from calculation g have "line_tax demo_line = 198" by (simp add: line_tax_def demo_line_values)
  ultimately have g: "t_grand_total (totals_of [demo_line]) = ''19.99''" using g by (simp add: totals_of_def line_amount_def)
  from PriceLines_totals [OF p] obtain sub disc tax one first rec where
    "totals_of [demo_line] = \<lparr>t_subtotal = cents_text sub, t_discount_total = cents_text disc, t_tax_total = cents_text tax,
          t_grand_total = cents_text (sub - disc + tax), t_one_time_total = cents_text one,
          t_first_invoice_total = cents_text first, t_recurring_totals = map_option cents_text \<circ> rec\<rparr>"
    "sub - disc + tax = one + (\<Sum>f \<leftarrow> Frequencies. case rec f of None \<Rightarrow> 0 | Some k \<Rightarrow> k)" by blast
  with p g show ?thesis by blast
qed

end
