(* ===== verification/Periods.thy ===== *)
theory Periods
  imports Pricing
begin

text \<open>
  \<open>src/internal/shared/pricing/period.go\<close>: the billing periods of a contract item.  A period
  boundary is always computed from the contract's start date, never from the boundary before it.
\<close>

text \<open>The months of a step; a frequency outside the table steps by no month.\<close>

fun period_months :: "Frequency \<Rightarrow> int" where
  "period_months Monthly = 1"
| "period_months Quarterly = 3"
| "period_months Semiannual = 6"
| "period_months Annual = 12"
| "period_months _ = 0"

definition AddPeriod :: "date \<Rightarrow> Frequency \<Rightarrow> int \<Rightarrow> date" where
  "AddPeriod start f n =
     (let y = Year start; m = Month start; d = Day start; base = Date y m d
      in if f = Daily then AddDate base 0 0 n
         else if f = Weekly then AddDate base 0 0 (7 * n)
         else
           let months = period_months f;
               total = m - 1 + months * n;
               (ty, tm) =
                 (if total < 0 \<and> total smod 12 \<noteq> 0 then (y + total sdiv 12 - 1, total smod 12 + 13)
                  else (y + total sdiv 12, total smod 12 + 1));
               lst = Day (Date ty (tm + 1) 0)
           in Date ty tm (min d lst))"

definition PeriodRange :: "date \<Rightarrow> Frequency \<Rightarrow> int \<Rightarrow> date \<times> date" where
  "PeriodRange start f n = (AddPeriod start f n, AddDate (AddPeriod start f (n + 1)) 0 0 (- 1))"

section \<open>The reference: one month index, clamped\<close>

definition add_months :: "date \<Rightarrow> int \<Rightarrow> date" where
  "add_months start k =
     (let M = month_of start + k in month_start M + min (Day start) (dim M) - 1)"

text \<open>Go's truncated division with its correction is floor division.\<close>

lemma sdiv_smod_12:
  fixes t :: int
  shows "(if t < 0 \<and> t smod 12 \<noteq> 0 then (t sdiv 12 - 1, t smod 12 + 12) else (t sdiv 12, t smod 12)) = (t div 12, t mod 12)"
proof (cases "t < 0")
  case False
  then show ?thesis by (simp add: signed_divide_int_def signed_modulo_int_def sgn_if)
next
  case True
  define u where "u = - t"
  have u: "0 < u" "t = - u" using True by (simp_all add: u_def)
  have d: "t sdiv 12 = - (u div 12)" using u by (simp add: signed_divide_int_def sgn_if)
  have m: "t smod 12 = - (u mod 12)"
    using u by (simp add: signed_modulo_int_def sgn_if)
  show ?thesis
  proof (cases "u mod 12 = 0")
    case True
    then show ?thesis using u d m by (simp add: zdiv_zminus1_eq_if zmod_zminus1_eq_if)
  next
    case False
    then show ?thesis using u d m by (simp add: zdiv_zminus1_eq_if zmod_zminus1_eq_if)
  qed
qed

lemma AddPeriod_months:
  assumes "f \<noteq> Daily" "f \<noteq> Weekly"
  shows "AddPeriod start f n = add_months start (period_months f * n)"
proof -
  define t where "t = Month start - 1 + period_months f * n"
  define M where "M = month_of start + period_months f * n"
  have M: "M = 12 * Year start + t" using month_index [of start] by (simp add: M_def t_def)
  have p: "(if t < 0 \<and> t smod 12 \<noteq> 0 then (Year start + t sdiv 12 - 1, t smod 12 + 13)
            else (Year start + t sdiv 12, t smod 12 + 1)) = (Year start + t div 12, t mod 12 + 1)"
    using sdiv_smod_12 [of t] by (simp split: if_splits)
  have i: "12 * (Year start + t div 12) + (t mod 12 + 1 - 1) = M"
    using mult_div_mod_eq [of 12 t] unfolding M by (simp add: distrib_left)
  have l: "Day (Date (Year start + t div 12) (t mod 12 + 1 + 1) 0) = dim M"
    using last_day [of "Year start + t div 12" "t mod 12 + 1"] i by simp
  have "AddPeriod start f n = Date (Year start + t div 12) (t mod 12 + 1) (min (Day start) (dim M))"
    using assms unfolding AddPeriod_def Let_def t_def [symmetric] p prod.case l by simp
  also have "\<dots> = add_months start (period_months f * n)"
    unfolding Date_def i add_months_def Let_def M_def [symmetric] by simp
  finally show ?thesis .
qed

lemma AddPeriod_days: "AddPeriod start Daily n = start + n" "AddPeriod start Weekly n = start + 7 * n"
  by (simp_all add: AddPeriod_def)

lemma month_of_add_months: "month_of (add_months start k) = month_of start + k"
  unfolding add_months_def Let_def
  using month_of_start [of "min (Day start) (dim (month_of start + k)) - 1" "month_of start + k"]
    Day_bounds(1) [of start] dim_bounds(1) [of "month_of start + k"]
  by (simp add: add_diff_eq)

lemma Day_add_months: "Day (add_months start k) = min (Day start) (dim (month_of start + k))"
  unfolding Day_def [of "add_months start k"] month_of_add_months by (simp add: add_months_def Let_def)

lemma add_months_mono: "j < k \<Longrightarrow> add_months start j < add_months start k"
  using month_of_add_months [of start j] month_of_add_months [of start k]
    month_of_bounds(2) [of "add_months start j"] month_of_bounds(1) [of "add_months start k"]
    month_start_mono [of "month_of start + j + 1" "month_of start + k"]
  by simp

lemma AddPeriod_strict_mono:
  assumes "f \<in> set Frequencies" "m < n"
  shows "AddPeriod start f m < AddPeriod start f n"
proof (cases "f = Daily \<or> f = Weekly")
  case True
  then show ?thesis using assms(2) by (auto simp: AddPeriod_days)
next
  case False
  then have "0 < period_months f" using assms(1) by (auto simp: Frequencies_def)
  then show ?thesis using False assms(2) by (simp add: AddPeriod_months add_months_mono)
qed

lemma AddPeriod_0 [simp]: "AddPeriod start f 0 = start"
proof (cases "f = Daily \<or> f = Weekly")
  case False
  then show ?thesis using Day_bounds(2) [of start]
    by (simp add: AddPeriod_months add_months_def Let_def) (simp add: Day_def)
qed (auto simp: AddPeriod_days)

lemma PeriodRange_simps [simp]:
  "fst (PeriodRange s f n) = AddPeriod s f n" "snd (PeriodRange s f n) = AddPeriod s f (n + 1) - 1"
  by (simp_all add: PeriodRange_def)

section \<open>A strictly increasing sequence of boundaries tiles the days\<close>

lemma steps_apart:
  fixes b :: "int \<Rightarrow> int"
  assumes "\<And>n. b n < b (n + 1)"
  shows "b m + int k \<le> b (m + int k)"
proof (induction k)
  case (Suc k)
  have "b (m + int k) < b (m + int k + 1)" by (rule assms)
  moreover have "b (m + int (Suc k)) = b (m + int k + 1)" by (rule arg_cong [where f = b]) simp
  ultimately show ?case using Suc by simp
qed simp

lemma steps_mono:
  fixes b :: "int \<Rightarrow> int"
  assumes "\<And>n. b n < b (n + 1)" "m \<le> n"
  shows "b m + (n - m) \<le> b n"
  using steps_apart [of b m "nat (n - m)", OF assms(1)] assms(2) by simp

lemma tiles_exist:
  fixes b :: "int \<Rightarrow> int"
  assumes b: "\<And>n. b n < b (n + 1)"
  shows "\<exists>n. b n \<le> d \<and> d < b (n + 1)"
proof -
  define m where "m = - \<bar>b 0 - d\<bar>"
  have m: "b m \<le> d" using steps_mono [of b m 0, OF b] by (simp add: m_def)
  have up: "\<exists>k. d < b (m + int k + 1)"
  proof (rule exI [of _ "nat (d - b m)"])
    show "d < b (m + int (nat (d - b m)) + 1)"
      using steps_mono [of b m "m + int (nat (d - b m)) + 1", OF b] m by simp
  qed
  define k where "k = (LEAST k. d < b (m + int k + 1))"
  have k: "d < b (m + int k + 1)" unfolding k_def using up by (rule LeastI_ex)
  have "b (m + int k) \<le> d"
  proof (cases k)
    case 0
    then show ?thesis using m by simp
  next
    case (Suc j)
    then have "\<not> d < b (m + int j + 1)" using not_less_Least [of j "\<lambda>k. d < b (m + int k + 1)"] by (simp add: k_def)
    then show ?thesis using Suc by (simp add: add.assoc add.commute [of 1])
  qed
  with k show ?thesis by blast
qed

lemma tiles_unique:
  fixes b :: "int \<Rightarrow> int"
  assumes b: "\<And>n. b n < b (n + 1)" and "b m \<le> d" "d < b (m + 1)" "b n \<le> d" "d < b (n + 1)"
  shows "m = n"
  using steps_mono [of b "m + 1" n, OF b] steps_mono [of b "n + 1" m, OF b] assms(2-)
  by (cases m n rule: linorder_cases) auto

section \<open>Properties\<close>

text \<open>
  C29.  \<open>AddPeriod\<close> is exact calendar arithmetic: days and weeks are added to the day number; the
  month frequencies move the month index by 1, 3, 6 or 12 per period (backwards too: Go's
  truncated division is corrected) and keep the start's day of the month, clamped to the last
  day of the target month.
\<close>

theorem AddPeriod_reference:
  "AddPeriod start f n =
     (if f = Daily then start + n else if f = Weekly then start + 7 * n
      else add_months start (period_months f * n))"
  by (simp add: AddPeriod_days AddPeriod_months)

text \<open>
  C30.  The periods of a valid frequency tile the calendar: every day, before or after the start,
  lies in exactly one period \<open>n\<close>, so no day is billed twice or left out.
\<close>

theorem PeriodRange_tiles:
  assumes "f \<in> set Frequencies"
  shows "\<exists>!n. fst (PeriodRange start f n) \<le> d \<and> d \<le> snd (PeriodRange start f n)"
proof -
  have b: "AddPeriod start f n < AddPeriod start f (n + 1)" for n
    by (rule AddPeriod_strict_mono [OF assms]) simp
  have e: "fst (PeriodRange start f n) \<le> d \<and> d \<le> snd (PeriodRange start f n) \<longleftrightarrow>
      AddPeriod start f n \<le> d \<and> d < AddPeriod start f (n + 1)" for n by auto
  show ?thesis
    unfolding e using tiles_exist [of "AddPeriod start f" d, OF b] tiles_unique [of "AddPeriod start f", OF b] by blast
qed

lemma PeriodRange_tiles_witness:
  "\<exists>!n. fst (PeriodRange (Date 2026 1 31) Monthly n) \<le> Date 2026 3 1 \<and> Date 2026 3 1 \<le> snd (PeriodRange (Date 2026 1 31) Monthly n)"
  by (rule PeriodRange_tiles) (simp add: Frequencies_def)

end
