(* ===== verification/Domain.thy ===== *)
theory Domain
  imports Periods
begin

text \<open>
  The data of the receivable module: \<open>src/internal/modules/receivable/domain\<close> and the parameter
  types of \<open>repository/contract.go\<close>.  Identifiers are strings; the empty string stands for SQL
  \<open>NULL\<close> in the columns the code writes with \<open>nullableString\<close> and reads with \<open>COALESCE(.., '')\<close>.
  A Go value and the table row it is read from share a base record; amounts are decimal texts in
  the Go value and whole hundredths (\<open>numeric(18,2)\<close>) in the row.
\<close>

section \<open>Accounts (domain/account.go)\<close>

record Account =
  ac_id :: string
  ac_name :: string
  ac_company_name :: string
  ac_email :: string
  ac_phone :: string
  ac_address :: string
  ac_source_type :: string
  ac_source_id :: string
  ac_created_at :: instant
  ac_updated_at :: instant

record account_row = Account +
  acr_org :: string
  acr_created_by :: string
  acr_deleted :: bool

definition SourceTypeCRMContact :: string where
  "SourceTypeCRMContact = ''crm_contact''"

definition ContactID :: "'a Account_scheme \<Rightarrow> string" where
  "ContactID a = (if ac_source_type a = SourceTypeCRMContact then ac_source_id a else [])"

record AccountParams =
  ap_name :: string
  ap_company_name :: string
  ap_email :: string
  ap_phone :: string
  ap_address :: string
  ap_source_type :: string
  ap_source_id :: string

section \<open>Invoices (domain/invoice.go)\<close>

datatype InvoiceStatus = InvoiceDraft | InvoiceIssued | InvoicePaid | InvoiceOverdue | InvoiceVoid

type_synonym SourceType = string

definition SourceSalesOrder :: SourceType where "SourceSalesOrder = ''sales_order''"
definition SourceContract :: SourceType where "SourceContract = ''contract''"
definition SourceManual :: SourceType where "SourceManual = ''manual''"

record item_base =
  ii_id :: string
  ii_description :: string
  ii_unit :: string
  ii_product_id :: string
  ii_sku :: string
  ii_contract_item_id :: string
  ii_source_line_id :: string
  ii_pricing :: Attributes
  ii_period_start :: "date option"
  ii_period_end :: "date option"
  ii_position :: nat

record InvoiceItem = item_base +
  it_quantity :: string
  it_unit_price :: string
  it_discount_percent :: string
  it_tax_percent :: string
  it_tax_amount :: string
  it_line_total :: string

record invoice_item_row = item_base +
  iir_org :: string
  iir_invoice_id :: string
  iir_quantity :: int
  iir_unit_price :: int
  iir_discount_percent :: "int option"
  iir_tax_percent :: int
  iir_tax_amount :: int
  iir_line_total :: int
  iir_created_at :: instant

record invoice_base =
  in_id :: string
  in_account_id :: string
  in_number :: string
  in_status :: InvoiceStatus
  in_source_type :: SourceType
  in_source_id :: string
  in_contract_id :: string
  in_idempotency_key :: string
  in_period_start :: "date option"
  in_period_end :: "date option"
  in_issue_date :: "date option"
  in_due_date :: "date option"
  in_currency :: string
  in_channels :: "string list"
  in_pic_user_id :: string
  in_pdf_asset_id :: "string option"
  in_notes :: string
  in_paid_at :: "instant option"
  in_voided_at :: "instant option"
  in_void_reason :: string
  in_created_by :: string
  in_created_at :: instant
  in_updated_at :: instant

record Invoice = invoice_base +
  inv_account :: Account
  inv_subtotal :: string
  inv_discount_total :: string
  inv_tax_total :: string
  inv_grand_total :: string
  inv_amount_paid :: string
  inv_items :: "InvoiceItem list"

record invoice_row = invoice_base +
  ir_org :: string
  ir_subtotal :: int
  ir_discount_total :: int
  ir_tax_total :: int
  ir_grand_total :: int
  ir_amount_paid :: int
  ir_updated_by :: string

definition Balance :: "Invoice \<Rightarrow> string" where
  "Balance i =
     (case (SetString (inv_grand_total i), SetString (inv_amount_paid i)) of
        (Some grand, Some paid) \<Rightarrow> FloatString2 (grand - paid)
      | _ \<Rightarrow> ''0.00'')"

record InvoiceItemParams =
  ip_line :: PricedLine
  ip_unit :: string
  ip_product_id :: string
  ip_sku :: string
  ip_contract_item_id :: string
  ip_source_line_id :: string
  ip_period_start :: "date option"
  ip_period_end :: "date option"

record CreateInvoiceParams =
  cp_account_id :: string
  cp_source_type :: SourceType
  cp_source_id :: string
  cp_contract_id :: string
  cp_idempotency_key :: string
  cp_currency :: string
  cp_notes :: string
  cp_pic_user_id :: string
  cp_created_by :: string
  cp_channels :: "string list"
  cp_period_start :: "date option"
  cp_period_end :: "date option"
  cp_totals :: Totals
  cp_items :: "InvoiceItemParams list"

record InvoiceListFilter =
  lf_status :: string
  lf_account_id :: string
  lf_source_type :: string
  lf_source_id :: string
  lf_contract_id :: string
  lf_send_failed :: bool
  lf_search :: string
  lf_due_before :: "date option"
  lf_limit :: int
  lf_offset :: int

fun status_text :: "InvoiceStatus \<Rightarrow> string" where
  "status_text InvoiceDraft = ''draft''"
| "status_text InvoiceIssued = ''issued''"
| "status_text InvoicePaid = ''paid''"
| "status_text InvoiceOverdue = ''overdue''"
| "status_text InvoiceVoid = ''void''"

section \<open>Payments (domain/payment.go)\<close>

record Payment =
  py_id :: string
  py_invoice_id :: string
  py_amount :: string
  py_method :: string
  py_reference :: string
  py_note :: string
  py_recorded_by :: string
  py_invoice_number :: string
  py_account_name :: string
  py_paid_at :: instant
  py_created_at :: instant

record payment_row =
  pr_id :: string
  pr_org :: string
  pr_invoice_id :: string
  pr_amount :: int
  pr_method :: string
  pr_reference :: string
  pr_note :: string
  pr_recorded_by :: string
  pr_paid_at :: instant
  pr_created_at :: instant

record PaymentParams =
  pp_amount :: string
  pp_method :: string
  pp_reference :: string
  pp_note :: string
  pp_recorded_by :: string
  pp_paid_at :: instant

section \<open>Contracts (domain/contract.go)\<close>

datatype ContractStatus = ContractActive | ContractEnded | ContractCancelled

record contract_item_base =
  ci_id :: string
  ci_description :: string
  ci_unit :: string
  ci_product_id :: string
  ci_sku :: string
  ci_source_line_id :: string
  ci_frequency :: Frequency
  ci_payment_timing :: PaymentTiming
  ci_period_index :: int
  ci_next_start :: date
  ci_next_end :: date
  ci_position :: nat
  ci_features :: string

record ContractItem = contract_item_base +
  cit_quantity :: string
  cit_unit_price :: string
  cit_discount_percent :: string
  cit_tax_percent :: string

record contract_item_row = contract_item_base +
  cir_org :: string
  cir_contract_id :: string
  cir_quantity :: int
  cir_unit_price :: int
  cir_discount_percent :: "int option"
  cir_tax_percent :: int
  cir_created_at :: instant

record contract_base =
  ct_id :: string
  ct_account_id :: string
  ct_number :: string
  ct_status :: ContractStatus
  ct_source_type :: SourceType
  ct_source_id :: string
  ct_currency :: string
  ct_notes :: string
  ct_pic_user_id :: string
  ct_end_reason :: string
  ct_start_date :: date
  ct_end_date :: "date option"
  ct_ended_at :: "instant option"
  ct_channels :: "string list"
  ct_created_by :: string
  ct_created_at :: instant
  ct_updated_at :: instant

record Contract = contract_base +
  con_account :: Account
  con_items :: "ContractItem list"

record contract_row = contract_base +
  cr_org :: string
  cr_updated_by :: string

record ContractItemParams =
  cip_description :: string
  cip_quantity :: string
  cip_unit :: string
  cip_unit_price :: string
  cip_discount_percent :: string
  cip_tax_percent :: string
  cip_product_id :: string
  cip_sku :: string
  cip_source_line_id :: string
  cip_frequency :: Frequency
  cip_payment_timing :: PaymentTiming
  cip_period_index :: int
  cip_next_start :: date
  cip_next_end :: date
  cip_features :: string

record CreateContractParams =
  ccp_number :: string
  ccp_account_id :: string
  ccp_source_type :: SourceType
  ccp_source_id :: string
  ccp_currency :: string
  ccp_notes :: string
  ccp_pic_user_id :: string
  ccp_created_by :: string
  ccp_start_date :: date
  ccp_channels :: "string list"
  ccp_items :: "ContractItemParams list"

record ContractListFilter =
  clf_status :: string
  clf_account_id :: string
  clf_search :: string
  clf_limit :: int
  clf_offset :: int

fun contract_status_text :: "ContractStatus \<Rightarrow> string" where
  "contract_status_text ContractActive = ''active''"
| "contract_status_text ContractEnded = ''ended''"
| "contract_status_text ContractCancelled = ''cancelled''"

record DueItem =
  du_contract :: Contract
  du_item :: ContractItem
  du_bill_on :: date

section \<open>Sends, settings, overview, checkouts, ledger\<close>

record Send =
  sd_id :: string
  sd_invoice_id :: string
  sd_channel :: string
  sd_recipient :: string
  sd_status :: string
  sd_error :: string
  sd_external_id :: string
  sd_client_request_id :: string
  sd_trigger :: string
  sd_sent_by :: string
  sd_sent_by_name :: string
  sd_sent_at :: instant

record send_row = Send +
  sr_org :: string

record RecordSendParams =
  sp_invoice_id :: string
  sp_channel :: string
  sp_recipient :: string
  sp_status :: string
  sp_error :: string
  sp_external_id :: string
  sp_client_request_id :: string
  sp_trigger :: string
  sp_sent_by :: string

record Settings =
  se_lead_days :: int
  se_terms_days :: int
  se_channels :: "string list"
  se_sender :: string

record ActiveItem =
  ai_contract_id :: string
  ai_contract_number :: string
  ai_account_name :: string
  ai_start_date :: date
  ai_end_date :: "date option"
  ai_item :: ContractItem

record UnpaidSummary =
  us_count :: nat
  us_overdue_count :: nat
  us_total_balance :: string

record FailedSend =
  fs_invoice_id :: string
  fs_invoice_number :: string
  fs_account_name :: string
  fs_channel :: string
  fs_error :: string
  fs_sent_at :: instant

record Checkout =
  ck_id :: string
  ck_org :: string
  ck_invoice_id :: string
  ck_doku_number :: string
  ck_payment_url :: string
  ck_status :: string
  ck_amount :: string
  ck_expires_at :: instant
  ck_created_at :: instant

record SettlementPaymentParams =
  sm_org :: string
  sm_invoice_id :: string
  sm_provider_reference :: string
  sm_amount :: string
  sm_occurred_at :: instant

record SettlementTotals =
  tt_paid_in :: string
  tt_settled :: string
  tt_adjusted :: string

record SettlementEntry =
  sx_id :: string
  sx_org :: string
  sx_kind :: string
  sx_amount :: string
  sx_invoice_id :: string
  sx_provider_reference :: string
  sx_note :: string
  sx_created_by :: string
  sx_occurred_at :: instant
  sx_created_at :: instant

record settlement_row =
  sl_id :: string
  sl_org :: string
  sl_kind :: string
  sl_amount :: int
  sl_invoice_id :: string
  sl_provider_reference :: string
  sl_note :: string
  sl_created_by :: string
  sl_occurred_at :: instant
  sl_created_at :: instant

record SettlementManualEntry =
  sme_org :: string
  sme_kind :: string
  sme_amount :: string
  sme_note :: string
  sme_created_by :: string
  sme_occurred_at :: instant

record InvoiceRef =
  rf_id :: string
  rf_number :: string
  rf_contract_id :: string
  rf_source_id :: string
  rf_source_type :: SourceType

record ContractRef =
  cf_id :: string
  cf_number :: string
  cf_source_id :: string
  cf_source_type :: SourceType

section \<open>Public links (src/internal/shared/publiclink/repository.go)\<close>

definition DocumentInvoice :: string where "DocumentInvoice = ''invoice''"

record Link =
  lk_id :: string
  lk_org :: string
  lk_doc_type :: string
  lk_doc_id :: string
  lk_token :: string
  lk_expires_at :: instant
  lk_revoked_at :: "instant option"
  lk_created_at :: instant

record link_row = Link +
  lr_hash :: string
  lr_token_enc :: string
  lr_created_by :: string
  lr_views :: nat
  lr_last_viewed_at :: "instant option"

lemma Balance_cents: "inv_grand_total i = cents_text g \<Longrightarrow> inv_amount_paid i = cents_text p \<Longrightarrow> Balance i = cents_text (g - p)"
  by (simp add: Balance_def money_simps)

end
