(* ===== verification/DocPdf.thy ===== *)
theory DocPdf
  imports Domain
begin

text \<open>
  The printable documents: \<open>src/internal/shared/docpdf/format.go\<close>, the view model
  \<open>docpdf/document.go\<close>, and \<open>src/internal/modules/receivable/invoicepdf/document.go\<close>, which
  turns an invoice into it.  The PDF renderer itself draws; it is a parameter of the model.
\<close>

section \<open>Formats (docpdf/format.go)\<close>

fun group_from :: "nat \<Rightarrow> nat \<Rightarrow> string \<Rightarrow> string" where
  "group_from len i [] = []"
| "group_from len i (c # cs) =
     (if 0 < i \<and> (len - i) mod 3 = 0 then [CHR ''.'', c] else [c]) @ group_from len (Suc i) cs"

definition groupThousands :: "string \<Rightarrow> string" where
  "groupThousands digits = group_from (length digits) 0 digits"

text \<open>\<open>strings.Cut\<close>, \<open>strings.TrimPrefix\<close>, \<open>strings.TrimRight(_, "0")\<close>.\<close>

definition cut_at :: "char \<Rightarrow> string \<Rightarrow> string \<times> string" where
  "cut_at c s = (takeWhile (\<lambda>x. x \<noteq> c) s, drop 1 (dropWhile (\<lambda>x. x \<noteq> c) s))"

definition trim_minus :: "string \<Rightarrow> string" where
  "trim_minus s = (case s of c # cs \<Rightarrow> if c = CHR ''-'' then cs else s | [] \<Rightarrow> [])"

definition trim_zeros :: "string \<Rightarrow> string" where
  "trim_zeros s = rev (dropWhile (\<lambda>c. c = CHR ''0'') (rev s))"

definition splitDecimal :: "string \<Rightarrow> string \<times> string" where
  "splitDecimal v =
     (case SetString (TrimSpace v) of
        None \<Rightarrow> (''0'', [])
      | Some r \<Rightarrow> (let (whole, fr) = cut_at (CHR ''.'') (FloatString2 r) in (trim_minus whole, trim_zeros fr)))"

definition FormatRupiah :: "string \<Rightarrow> string" where
  "FormatRupiah v =
     (let (whole, fr) = splitDecimal v; out = ''Rp '' @ groupThousands whole
      in if fr = [] then out else out @ '','' @ (if length fr = 1 then fr @ ''0'' else fr))"

definition FormatQuantity :: "string \<Rightarrow> string" where
  "FormatQuantity v =
     (let (whole, fr) = splitDecimal v
      in if fr = [] then groupThousands whole else groupThousands whole @ '','' @ fr)"

definition FormatPercent :: "string \<Rightarrow> string" where
  "FormatPercent v =
     (if TrimSpace v = [] then ''-''
      else let (whole, fr) = splitDecimal v
           in if whole = ''0'' \<and> fr = [] then ''-''
              else if fr = [] then whole @ ''%'' else whole @ '','' @ fr @ ''%'')"

section \<open>The document (docpdf/document.go)\<close>

record Party =
  pa_name :: string
  pa_company :: string
  pa_email :: string
  pa_phone :: string
  pa_address :: string

record Line =
  ln_no :: nat
  ln_description :: string
  ln_billing :: string
  ln_quantity :: string
  ln_unit_price :: string
  ln_discount :: string
  ln_tax :: string
  ln_total :: string

record Row =
  rw_label :: string
  rw_value :: string
  rw_bold :: bool

record Document =
  dc_title :: string
  dc_number :: string
  dc_issuer :: Party
  dc_customer :: Party
  dc_customer_label :: string
  dc_meta :: "Row list"
  dc_lines :: "Line list"
  dc_totals :: "Row list"
  dc_notes :: string
  dc_stamp :: string
  dc_filename :: string

section \<open>The invoice's document (invoicepdf/document.go)\<close>

definition row :: "string \<Rightarrow> string \<Rightarrow> Row" where
  "row l v = \<lparr>rw_label = l, rw_value = v, rw_bold = False\<rparr>"

fun stamp :: "InvoiceStatus \<Rightarrow> string" where
  "stamp InvoiceDraft = ''DRAFT''"
| "stamp InvoicePaid = ''LUNAS''"
| "stamp InvoiceVoid = ''DIBATALKAN''"
| "stamp _ = []"

text \<open>U+2013 and U+00B7 between blanks.\<close>

definition en_dash :: string where
  "en_dash = [CHR '' '', CHR 0xE2, CHR 0x80, CHR 0x93, CHR '' '']"

definition mid_dot :: string where
  "mid_dot = [CHR '' '', CHR 0xC2, CHR 0xB7, CHR '' '']"

definition periodLabel :: "date option \<Rightarrow> date option \<Rightarrow> string" where
  "periodLabel s e =
     (case (s, e) of
        (Some a, Some b) \<Rightarrow> FormatDateID (at_midnight a) @ en_dash @ FormatDateID (at_midnight b)
      | _ \<Rightarrow> [])"

definition billing :: "InvoiceItem \<Rightarrow> string" where
  "billing it =
     (let period = periodLabel (ii_period_start it) (ii_period_end it);
          isDefault = a_charge_type (ii_pricing it) \<noteq> Recurring \<and> a_payment_timing (ii_pricing it) \<noteq> Postpaid
      in if isDefault \<and> period = [] then []
         else Short (ii_pricing it) @ (if period \<noteq> [] then mid_dot @ period else []))"

definition pdf_line :: "nat \<Rightarrow> InvoiceItem \<Rightarrow> Line" where
  "pdf_line i it =
     \<lparr>ln_no = i + 1, ln_description = ii_description it, ln_billing = billing it,
      ln_quantity = FormatQuantity (it_quantity it) @ (if ii_unit it \<noteq> [] then '' '' @ ii_unit it else []),
      ln_unit_price = FormatRupiah (it_unit_price it) @
        (if a_charge_type (ii_pricing it) = Recurring then PriceSuffix (a_frequency (ii_pricing it)) else []),
      ln_discount = (if it_discount_percent it \<noteq> [] then FormatPercent (it_discount_percent it) else ''-''),
      ln_tax = FormatPercent (it_tax_percent it), ln_total = FormatRupiah (it_line_total it)\<rparr>"

definition Build :: "Invoice \<Rightarrow> Party \<Rightarrow> instant \<Rightarrow> Document" where
  "Build iv issuer now =
     (let draft = in_number iv = [];
          number = (if draft then ''-'' else in_number iv);
          filename = (if draft then ''invoice-draft.pdf'' else in_number iv @ ''.pdf'');
          issued = (case in_issue_date iv of None \<Rightarrow> FormatDateID now | Some d \<Rightarrow> FormatDateID (at_midnight d));
          due = (case in_due_date iv of None \<Rightarrow> ''-'' | Some d \<Rightarrow> FormatDateID (at_midnight d));
          period = periodLabel (in_period_start iv) (in_period_end iv);
          meta = [row ''Nomor'' number, row ''Tanggal'' issued, row ''Jatuh tempo'' due]
                   @ (if period \<noteq> [] then [row ''Periode'' period] else []);
          totals = [row ''Subtotal'' (FormatRupiah (inv_subtotal iv)), row ''Diskon'' (FormatRupiah (inv_discount_total iv)),
                    row ''Pajak'' (FormatRupiah (inv_tax_total iv)),
                    (row ''Total'' (FormatRupiah (inv_grand_total iv)))\<lparr>rw_bold := True\<rparr>]
                   @ (case SetString (inv_amount_paid iv) of
                        Some paid \<Rightarrow>
                          if 0 < paid then
                            [row ''Dibayar'' (FormatRupiah (inv_amount_paid iv)),
                             (row ''Sisa'' (FormatRupiah (Balance iv)))\<lparr>rw_bold := True\<rparr>]
                          else []
                      | None \<Rightarrow> [])
      in \<lparr>dc_title = ''INVOICE'', dc_number = number, dc_issuer = issuer,
          dc_customer = \<lparr>pa_name = ac_name (inv_account iv), pa_company = ac_company_name (inv_account iv),
            pa_email = ac_email (inv_account iv), pa_phone = ac_phone (inv_account iv), pa_address = ac_address (inv_account iv)\<rparr>,
          dc_customer_label = ''Tagihan untuk'', dc_meta = meta,
          dc_lines = map (\<lambda>i. pdf_line i (inv_items iv ! i)) [0..<length (inv_items iv)],
          dc_totals = totals, dc_notes = in_notes iv, dc_stamp = stamp (in_status iv), dc_filename = filename\<rparr>)"

section \<open>Grouping loses no digit\<close>

lemma group_from_digits: "CHR ''.'' \<notin> set s \<Longrightarrow> filter (\<lambda>c. c \<noteq> CHR ''.'') (group_from len i s) = s"
  by (induction s arbitrary: i) auto

lemma groupThousands_digits: "CHR ''.'' \<notin> set s \<Longrightarrow> filter (\<lambda>c. c \<noteq> CHR ''.'') (groupThousands s) = s"
  by (simp add: groupThousands_def group_from_digits)

lemma cut_cents_text:
  "cut_at (CHR ''.'') (cents_text k) =
     ((if k < 0 then ''-'' else []) @ dec_nat (nat \<bar>k\<bar> div 100), zero_pad 2 (dec_nat (nat \<bar>k\<bar> mod 100)))"
proof -
  have d: "\<forall>c \<in> set (dec_nat n). c \<noteq> CHR ''.''" for n
    using dec_nat_digits [of n] is_digit_neqs by blast
  define w where "w = (if k < 0 then ''-'' else []) @ dec_nat (nat \<bar>k\<bar> div 100)"
  have "\<forall>c \<in> set w. c \<noteq> CHR ''.''" using d by (auto simp: w_def)
  then have "takeWhile (\<lambda>x. x \<noteq> CHR ''.'') (w @ CHR ''.'' # f) = w" "dropWhile (\<lambda>x. x \<noteq> CHR ''.'') (w @ CHR ''.'' # f) = CHR ''.'' # f" for f
    by (simp_all add: takeWhile_append2 dropWhile_append2)
  then show ?thesis by (simp add: cut_at_def cents_text_def w_def)
qed

end
