(* ===== verification/FinErrors.thy ===== *)
theory FinErrors
  imports Calendar
begin

text \<open>
  The errors of the finance module: the values the services answer with
  (\<open>src/internal/modules/finance/errors.go\<close>, a code, a message and an HTTP status each) and the
  sentinels its repositories return.
\<close>

datatype finance_error =
    AccountNotFoundError | AccountCodeTakenError
  | FiscalYearExistsError | FiscalYearNotFoundError | FiscalPeriodNotFoundError | NoFiscalPeriodError | PeriodClosedError
  | JournalNotFoundError | JournalUnbalancedError | JournalNotDraftError | JournalNotPostedError | JournalAlreadyReversedError
  | ReconciliationNotFoundError | PartnerNotFoundError | ARAPTransactionNotFoundError
  | AssetCategoryNotFoundError | FixedAssetNotFoundError | TaxTypeNotFoundError | TaxTransactionNotFoundError
  | ValidationError string

fun finance_code :: "finance_error \<Rightarrow> string" where
  "finance_code AccountNotFoundError = ''FINANCE_ACCOUNT_NOT_FOUND''"
| "finance_code AccountCodeTakenError = ''FINANCE_ACCOUNT_CODE_TAKEN''"
| "finance_code FiscalYearExistsError = ''FINANCE_FISCAL_YEAR_EXISTS''"
| "finance_code FiscalYearNotFoundError = ''FINANCE_FISCAL_YEAR_NOT_FOUND''"
| "finance_code FiscalPeriodNotFoundError = ''FINANCE_FISCAL_PERIOD_NOT_FOUND''"
| "finance_code NoFiscalPeriodError = ''FINANCE_NO_FISCAL_PERIOD''"
| "finance_code PeriodClosedError = ''FINANCE_PERIOD_CLOSED''"
| "finance_code JournalNotFoundError = ''FINANCE_JOURNAL_NOT_FOUND''"
| "finance_code JournalUnbalancedError = ''FINANCE_JOURNAL_UNBALANCED''"
| "finance_code JournalNotDraftError = ''FINANCE_JOURNAL_NOT_DRAFT''"
| "finance_code JournalNotPostedError = ''FINANCE_JOURNAL_NOT_POSTED''"
| "finance_code JournalAlreadyReversedError = ''FINANCE_JOURNAL_ALREADY_REVERSED''"
| "finance_code ReconciliationNotFoundError = ''FINANCE_RECONCILIATION_NOT_FOUND''"
| "finance_code PartnerNotFoundError = ''FINANCE_PARTNER_NOT_FOUND''"
| "finance_code ARAPTransactionNotFoundError = ''FINANCE_ARAP_TRANSACTION_NOT_FOUND''"
| "finance_code AssetCategoryNotFoundError = ''FINANCE_ASSET_CATEGORY_NOT_FOUND''"
| "finance_code FixedAssetNotFoundError = ''FINANCE_FIXED_ASSET_NOT_FOUND''"
| "finance_code TaxTypeNotFoundError = ''FINANCE_TAX_TYPE_NOT_FOUND''"
| "finance_code TaxTransactionNotFoundError = ''FINANCE_TAX_TRANSACTION_NOT_FOUND''"
| "finance_code (ValidationError m) = ''FINANCE_VALIDATION_ERROR''"

definition finance_status :: "finance_error \<Rightarrow> nat" where
  "finance_status f =
     (case f of
        ValidationError _ \<Rightarrow> 400
      | NoFiscalPeriodError \<Rightarrow> 422 | JournalUnbalancedError \<Rightarrow> 422
      | AccountCodeTakenError \<Rightarrow> 409 | FiscalYearExistsError \<Rightarrow> 409 | PeriodClosedError \<Rightarrow> 409
      | JournalNotDraftError \<Rightarrow> 409 | JournalNotPostedError \<Rightarrow> 409 | JournalAlreadyReversedError \<Rightarrow> 409
      | _ \<Rightarrow> 404)"

text \<open>
  \<open>repository.ErrNoFiscalPeriod\<close> and its siblings; the last one is an error made with
  \<open>fmt.Errorf\<close>, known by its text.
\<close>

datatype finance_sentinel =
    ErrFiscalPeriodClosed | ErrNoFiscalPeriod | ErrJournalEntryNotPosted
  | ErrARAPTransactionTypeMismatch | ErrARAPOverpayment | ErrBankReconciliationNotFound
  | ErrorText string

end
