(* ===== verification/Store.thy ===== *)
theory Store
  imports DocPdf FinErrors "HOL-Library.Product_Lexorder"
begin

text \<open>
  The state the receivable module works on and the way it is reached: the tables
  (\<open>src/migrations/000143..000165\<close>, with their unique indexes and checks enforced where a row is
  written), the environment (clock, random ids, database faults, the adapters other modules
  implement), and \<open>repository/tx.go\<close>: a transaction bound to one organization, rolled back
  on every error.  A computation takes the environment and a state and returns an error or a
  value with the state after it.
\<close>

section \<open>Errors\<close>

datatype err =
    ErrInvalidScope | DbFault | NoRows | UniqueViolation string | CheckViolation string | ForeignKeyViolation string
  | NumericError
  | ErrInvoiceNotDraft | ErrInvoiceNotPayable | ErrInvoiceHasPayments | ErrPaymentExceeds
  | ErrDuplicateSource | ErrDuplicateAccountSource | ErrContractNotActive
  | ErrAccountNotFound | ErrInvoiceNotFound | ErrContractNotFound
  | ErrInvalidInvoice string | ErrInvalidAccount string | ErrInvalidContractInput string | ErrInvalidSettings string
  | ErrInvalidPayment | ErrVoidReasonRequired | ErrInvoiceNotSendable | ErrDocumentsUnavailable
  | ErrChannelUnavailable string | ErrLinkInvalid | ErrOnlinePaymentUnavailable | ErrCheckoutFailed err | ErrStatusFailed err
  | ErrInvalidSettlementEntry | ErrSettlementExceedsBalance | ErrAdjustmentBelowZero | ErrAdjustmentNoteRequired
  | ErrSettlementBeneficiaryNotFound | ErrSettlementBeneficiaryInvalid | ErrOrganizationNotFound | ErrMalformedTotals
  | ErrCancelled | ErrOrgNotFound | ErrOrgInactive | External string
  | InvalidText | StringTooLong | ScanNull | Finance finance_error | Sentinel finance_sentinel

section \<open>Computations\<close>

type_synonym ('e, 's, 'a) comp = "'e \<Rightarrow> 's \<Rightarrow> (err + 'a) \<times> 's"

definition ret :: "'a \<Rightarrow> ('e, 's, 'a) comp" where
  "ret x = (\<lambda>e s. (Inr x, s))"

definition raise :: "err \<Rightarrow> ('e, 's, 'a) comp" where
  "raise er = (\<lambda>e s. (Inl er, s))"

definition lift :: "err + 'a \<Rightarrow> ('e, 's, 'a) comp" where
  "lift r = (\<lambda>e s. (r, s))"

text \<open>\<open>x, err := m(); if err != nil { return err }; k(x)\<close>.\<close>

definition chain :: "('e, 's, 'a) comp \<Rightarrow> ('a \<Rightarrow> ('e, 's, 'b) comp) \<Rightarrow> ('e, 's, 'b) comp" where
  "chain m k = (\<lambda>e s. case m e s of (Inl er, s') \<Rightarrow> (Inl er, s') | (Inr x, s') \<Rightarrow> k x e s')"

text \<open>\<open>x, err := m()\<close>, the error inspected by what follows.\<close>

definition attempt :: "('e, 's, 'a) comp \<Rightarrow> (err + 'a \<Rightarrow> ('e, 's, 'b) comp) \<Rightarrow> ('e, 's, 'b) comp" where
  "attempt m k = (\<lambda>e s. case m e s of (r, s') \<Rightarrow> k r e s')"

definition ask :: "('e \<Rightarrow> 'a) \<Rightarrow> ('a \<Rightarrow> ('e, 's, 'b) comp) \<Rightarrow> ('e, 's, 'b) comp" where
  "ask f k = (\<lambda>e s. k (f e) e s)"

definition get :: "('s \<Rightarrow> 'a) \<Rightarrow> ('a \<Rightarrow> ('e, 's, 'b) comp) \<Rightarrow> ('e, 's, 'b) comp" where
  "get f k = (\<lambda>e s. k (f s) e s)"

definition put :: "('s \<Rightarrow> 's) \<Rightarrow> ('e, 's, unit) comp" where
  "put f = (\<lambda>e s. (Inr (), f s))"

definition ensure :: "bool \<Rightarrow> err \<Rightarrow> ('e, 's, unit) comp" where
  "ensure b er = (if b then ret () else raise er)"

text \<open>\<open>if errors.Is(err, a) { return b }\<close>.\<close>

definition map_error :: "(err \<Rightarrow> err) \<Rightarrow> ('e, 's, 'a) comp \<Rightarrow> ('e, 's, 'a) comp" where
  "map_error f m = attempt m (\<lambda>r. case r of Inl er \<Rightarrow> raise (f er) | Inr x \<Rightarrow> ret x)"

fun each :: "('a \<Rightarrow> ('e, 's, unit) comp) \<Rightarrow> 'a list \<Rightarrow> ('e, 's, unit) comp" where
  "each f [] = ret ()"
| "each f (x # xs) = chain (f x) (\<lambda>_. each f xs)"

text \<open>The first check that fails.\<close>

fun guards :: "(bool \<times> err) list \<Rightarrow> ('e, 's, unit) comp" where
  "guards [] = ret ()"
| "guards ((b, er) # gs) = (if b then guards gs else raise er)"

named_theorems comp_defs \<open>the combinators of computations\<close>

lemmas [comp_defs] = ret_def raise_def lift_def chain_def attempt_def ask_def get_def put_def ensure_def map_error_def

section \<open>Environment\<close>

datatype fault = NoFault | FailBefore | FailAfter

record Member =
  mb_user_id :: string
  mb_name :: string
  mb_email :: string

record Attachment =
  at_filename :: string
  at_mime :: string
  at_content :: string

record EmailInput =
  em_sender :: string
  em_to :: string
  em_subject :: string
  em_html :: string
  em_contact_id :: string
  em_request_id :: string
  em_attachment :: Attachment

record WhatsAppInput =
  wa_sender :: string
  wa_contact_id :: string
  wa_text :: string
  wa_attachment :: Attachment

record FailureEvent =
  fe_user_id :: string
  fe_user_name :: string
  fe_user_email :: string
  fe_invoice_id :: string
  fe_invoice_number :: string
  fe_recipient :: string
  fe_channel :: string
  fe_reason :: string

text \<open>The asset service (\<open>FileStore\<close>); the number is the call's position in time.\<close>

record FileStore =
  fl_upload :: "nat \<Rightarrow> string \<Rightarrow> string \<Rightarrow> string \<Rightarrow> err + string"
  fl_open :: "nat \<Rightarrow> string \<Rightarrow> string \<Rightarrow> err + string"
  fl_delete :: "nat \<Rightarrow> string \<Rightarrow> string \<Rightarrow> err option"

record CreatePaymentRequest =
  cq_number :: string
  cq_amount :: int
  cq_currency :: string
  cq_minutes :: int
  cq_callback_url :: string

record DokuStatus =
  ds_status :: string
  ds_final_success :: bool
  ds_amount :: string
  ds_reference :: string

text \<open>
  What is not under the module: the clock, \<open>gen_random_uuid\<close>, faults of the database, Postgres'
  \<open>numeric\<close> and \<open>uuid\<close> readers and \<open>ILIKE\<close>, which ids the \<open>users\<close> table has, when the context is cancelled, \<open>net/mail\<close>'s address
  parser, and the adapters, an absent one (\<open>nil\<close>) being \<open>None\<close>.
\<close>

record env =
  e_now :: instant
  e_uuid :: "nat \<Rightarrow> string"
  e_fault :: "nat \<Rightarrow> fault"
  e_numeric :: "string \<Rightarrow> rat option"
  e_ilike :: "string \<Rightarrow> string \<Rightarrow> bool"
  e_lower :: "string \<Rightarrow> string"
  e_valid_email :: "string \<Rightarrow> bool"
  e_user_name :: "string \<Rightarrow> string"
  e_org_type :: "string \<Rightarrow> string option"
  e_org_name :: "string \<Rightarrow> string option"
  e_members :: "(string \<Rightarrow> string \<Rightarrow> err + Member) option"
  e_members_with :: "string \<Rightarrow> string \<Rightarrow> err + Member list"
  e_members_active :: "string \<Rightarrow> err + Member list"
  e_quota :: "(string \<Rightarrow> string \<Rightarrow> err option) option"
  e_issuers :: "(string \<Rightarrow> err + Party) option"
  e_renderer :: "(Document \<Rightarrow> err + string) option"
  e_files :: "FileStore option"
  e_links :: bool
  e_sender :: bool
  e_email :: "(nat \<Rightarrow> EmailInput \<Rightarrow> err + string) option"
  e_whatsapp :: "(nat \<Rightarrow> WhatsAppInput \<Rightarrow> (err + string) \<times> string) option"
  e_notifier :: bool
  e_entitled :: "(string \<Rightarrow> string \<Rightarrow> bool) option"
  e_activation :: "(string \<Rightarrow> string \<Rightarrow> err + bool) option"
  e_token :: "nat \<Rightarrow> err + string"
  e_hash :: "string \<Rightarrow> string"
  e_encrypt :: "string \<Rightarrow> err + string"
  e_decrypt :: "string \<Rightarrow> err + string"
  e_frontend_url :: string
  e_session_minutes :: int
  e_listeners :: "(string \<times> bool) list"
  e_resolve :: "string \<Rightarrow> string \<Rightarrow> err + string"
  e_orgs :: "int \<Rightarrow> int \<Rightarrow> err + string list"
  e_doku_create :: "nat \<Rightarrow> CreatePaymentRequest \<Rightarrow> err + string \<times> instant"
  e_doku_status :: "nat \<Rightarrow> string \<Rightarrow> err + DokuStatus"
  e_settlements :: bool
  e_uuid_in :: "string \<Rightarrow> string option"
  e_users :: "string \<Rightarrow> bool"
  e_cancelled :: "nat \<Rightarrow> bool"

section \<open>Tables\<close>

record db =
  d_accounts :: "account_row list"
  d_invoices :: "invoice_row list"
  d_items :: "invoice_item_row list"
  d_contracts :: "contract_row list"
  d_citems :: "contract_item_row list"
  d_payments :: "payment_row list"
  d_sends :: "send_row list"
  d_settings :: "string \<Rightarrow> Settings option"
  d_counters :: "string \<times> string \<times> int \<Rightarrow> int option"
  d_checkouts :: "Checkout list"
  d_settlements :: "settlement_row list"
  d_links :: "link_row list"
  d_next :: nat

definition empty_db :: db where
  "empty_db = \<lparr>d_accounts = [], d_invoices = [], d_items = [], d_contracts = [], d_citems = [], d_payments = [],
     d_sends = [], d_settings = (\<lambda>_. None), d_counters = (\<lambda>_. None), d_checkouts = [], d_settlements = [], d_links = [],
     d_next = 0\<rparr>"

text \<open>What the module does outside its own tables, in order.\<close>

datatype event =
    EvInvoicePaid string string InvoiceRef
  | EvInvoicePaidReplay string string InvoiceRef
  | EvContractCreated string string ContractRef
  | EvContractEnded string string ContractRef
  | EvUpload string string
  | EvDelete string string
  | EvEmail string EmailInput
  | EvWhatsApp string WhatsAppInput
  | EvNotify string FailureEvent
  | EvDokuCreate CreatePaymentRequest
  | EvDokuStatus string

record world =
  w_db :: db
  w_tick :: nat
  w_events :: "event list"
  w_last_sync :: "string \<Rightarrow> instant option"

type_synonym 'a tx = "(env, db, 'a) comp"
type_synonym 'a io = "(env, world, 'a) comp"

section \<open>Transactions (repository/tx.go)\<close>

definition tick :: "world \<Rightarrow> world" where
  "tick w = w\<lparr>w_tick := Suc (w_tick w)\<rparr>"

text \<open>
  A transaction: the connection may fail before anything is done, the body may fail (everything
  is rolled back), or the commit may go through with its acknowledgement lost.
\<close>

definition with_tx :: "'a tx \<Rightarrow> 'a io" where
  "with_tx body = (\<lambda>e w.
     if e_fault e (w_tick w) = FailBefore then (Inl DbFault, tick w)
     else case body e (w_db w) of
            (Inl er, _) \<Rightarrow> (Inl er, tick w)
          | (Inr a, d) \<Rightarrow> (if e_fault e (w_tick w) = FailAfter then Inl DbFault else Inr a, (tick w)\<lparr>w_db := d\<rparr>))"

text \<open>\<open>ctx.Err() != nil\<close>: each look has its own moment.\<close>

definition ctx_cancelled :: "bool io" where
  "ctx_cancelled = (\<lambda>e w. (Inr (e_cancelled e (w_tick w)), tick w))"

text \<open>A scope is an organization id that is not blank.\<close>

definition scope_valid :: "string \<Rightarrow> bool" where
  "scope_valid org \<longleftrightarrow> TrimSpace org \<noteq> []"

definition withScopedTx :: "string \<Rightarrow> 'a tx \<Rightarrow> 'a io" where
  "withScopedTx org body = (if scope_valid org then with_tx body else raise ErrInvalidScope)"

definition clampLimit :: "int \<Rightarrow> nat" where
  "clampLimit l = (if l \<le> 0 then 50 else if l > 200 then 200 else nat l)"

fun escapeLike :: "string \<Rightarrow> string" where
  "escapeLike [] = []"
| "escapeLike (c # cs) = (if c \<in> {CHR 0x5C, CHR ''%'', CHR ''_''} then [CHR 0x5C, c] else [c]) @ escapeLike cs"

text \<open>\<open>LIMIT l OFFSET max(o, 0)\<close>.\<close>

definition page :: "int \<Rightarrow> int \<Rightarrow> 'a list \<Rightarrow> 'a list" where
  "page l off xs = take (clampLimit l) (drop (nat (max off 0)) xs)"

section \<open>Tables as lists\<close>

text \<open>\<open>QueryRow(...).Scan\<close>: no row is \<open>pgx.ErrNoRows\<close>.\<close>

definition query_row :: "('r \<Rightarrow> bool) \<Rightarrow> 'r list \<Rightarrow> err + 'r" where
  "query_row p rows = (case List.find p rows of None \<Rightarrow> Inl NoRows | Some r \<Rightarrow> Inr r)"

definition update_where :: "('r \<Rightarrow> bool) \<Rightarrow> ('r \<Rightarrow> 'r) \<Rightarrow> 'r list \<Rightarrow> 'r list" where
  "update_where p f rows = map (\<lambda>r. if p r then f r else r) rows"

text \<open>Rows an \<open>UPDATE\<close> touches.\<close>

definition affected :: "('r \<Rightarrow> bool) \<Rightarrow> 'r list \<Rightarrow> nat" where
  "affected p rows = length (filter p rows)"

text \<open>Equality with a nullable column: \<open>NULL\<close> equals nothing.\<close>

definition sql_eq :: "string \<Rightarrow> string \<Rightarrow> bool" where
  "sql_eq col v \<longleftrightarrow> col \<noteq> [] \<and> col = v"

text \<open>\<open>numeric(p,2)\<close> columns: the value rounded to hundredths, rejected when it does not fit.\<close>

definition numeric_in :: "int \<Rightarrow> env \<Rightarrow> string \<Rightarrow> err + int" where
  "numeric_in bound e s =
     (case e_numeric e s of
        None \<Rightarrow> Inl NumericError
      | Some r \<Rightarrow> if bound \<le> \<bar>round_cents r\<bar> then Inl NumericError else Inr (round_cents r))"

definition numeric18 :: "string \<Rightarrow> int tx" where
  "numeric18 s = (\<lambda>e d. (numeric_in (10 ^ 18) e s, d))"

definition numeric5 :: "string \<Rightarrow> int tx" where
  "numeric5 s = (\<lambda>e d. (numeric_in (10 ^ 5) e s, d))"

definition numeric5_null :: "string \<Rightarrow> int option tx" where
  "numeric5_null s = (if s = [] then ret None else chain (numeric5 s) (\<lambda>k. ret (Some k)))"

text \<open>\<open>gen_random_uuid()\<close>.\<close>

definition new_id :: "string tx" where
  "new_id = (\<lambda>e d. (Inr (e_uuid e (d_next d)), d\<lparr>d_next := Suc (d_next d)\<rparr>))"

text \<open>\<open>btrim\<close> is empty.\<close>

definition btrim_blank :: "string \<Rightarrow> bool" where
  "btrim_blank s \<longleftrightarrow> list_all (\<lambda>c. c = CHR '' '') s"

text \<open>
  What the model asks of Postgres' \<open>numeric\<close> reader: on plain decimals (digits, optionally a point
  and digits, optionally a minus sign) it is the exact value, as \<open>big.Rat\<close>'s reader; a text of
  more than a thousand characters may be refused.
\<close>

definition plain_decimal :: "string \<Rightarrow> bool" where
  "plain_decimal s \<longleftrightarrow>
     (let b = (case s of c # cs \<Rightarrow> if c = CHR ''-'' then cs else s | [] \<Rightarrow> []);
          w = takeWhile is_digit b; r = dropWhile is_digit b
      in w \<noteq> [] \<and> (r = [] \<or> (hd r = CHR ''.'' \<and> tl r \<noteq> [] \<and> list_all is_digit (tl r))))"

definition env_ok :: "env \<Rightarrow> bool" where
  "env_ok e \<longleftrightarrow> (\<forall>s. plain_decimal s \<longrightarrow> e_numeric e s = SetString s \<or> (1000 < length s \<and> e_numeric e s = None))"

lemma env_okD: "env_ok e \<Longrightarrow> plain_decimal s \<Longrightarrow> length s \<le> 1000 \<Longrightarrow> e_numeric e s = SetString s"
  by (auto simp: env_ok_def not_less)

section \<open>External calls\<close>

definition event :: "event \<Rightarrow> unit io" where
  "event ev = (\<lambda>e w. (Inr (), w\<lparr>w_events := w_events w @ [ev]\<rparr>))"

text \<open>The registry: one call per listener, panics swallowed (listener.go).\<close>

fun notify_all :: "(string \<Rightarrow> event) \<Rightarrow> (string \<times> bool) list \<Rightarrow> unit io" where
  "notify_all f [] = ret ()"
| "notify_all f ((l, r) # ls) = chain (event (f l)) (\<lambda>_. notify_all f ls)"

definition Registry_InvoicePaid :: "string \<Rightarrow> InvoiceRef \<Rightarrow> unit io" where
  "Registry_InvoicePaid org i = ask e_listeners (notify_all (\<lambda>l. EvInvoicePaid l org i))"

definition Registry_InvoicePaidReplay :: "string \<Rightarrow> InvoiceRef \<Rightarrow> unit io" where
  "Registry_InvoicePaidReplay org i =
     ask e_listeners (\<lambda>ls. notify_all (\<lambda>l. EvInvoicePaidReplay l org i) (filter snd ls))"

definition Registry_ContractCreated :: "string \<Rightarrow> ContractRef \<Rightarrow> unit io" where
  "Registry_ContractCreated org c = ask e_listeners (notify_all (\<lambda>l. EvContractCreated l org c))"

definition Registry_ContractEnded :: "string \<Rightarrow> ContractRef \<Rightarrow> unit io" where
  "Registry_ContractEnded org c = ask e_listeners (notify_all (\<lambda>l. EvContractEnded l org c))"

end
