(* ===== verification/Effects.thy ===== *)
theory Effects
  imports Store
begin

text \<open>
  How computations are shown to stay within a relation on the tables.  The locale \<open>effect\<close> is the
  contract between transactions and the services built from them: the relation \<open>R\<close> that every
  transaction respects is a preorder, and a precondition \<open>P\<close> is stable under it; then every
  composition of such transactions respects \<open>R\<close>, whatever errors, faults and early returns
  occur on the way.  It is interpreted on the module's step relation in \<open>Services\<close>.
\<close>

definition tx_pre :: "(db \<Rightarrow> bool) \<Rightarrow> (db \<Rightarrow> db \<Rightarrow> bool) \<Rightarrow> 'a tx \<Rightarrow> bool" where
  "tx_pre P R m \<longleftrightarrow> (\<forall>e d a d'. env_ok e \<longrightarrow> P d \<longrightarrow> m e d = (Inr a, d') \<longrightarrow> R d d')"

definition io_pre :: "(db \<Rightarrow> bool) \<Rightarrow> (db \<Rightarrow> db \<Rightarrow> bool) \<Rightarrow> 'a io \<Rightarrow> bool" where
  "io_pre P R m \<longleftrightarrow> (\<forall>e w. env_ok e \<longrightarrow> P (w_db w) \<longrightarrow> R (w_db w) (w_db (snd (m e w))))"

abbreviation always :: "db \<Rightarrow> bool" where "always \<equiv> \<lambda>_. True"

text \<open>A computation that leaves the tables alone.\<close>

definition reads :: "'a tx \<Rightarrow> bool" where
  "reads m \<longleftrightarrow> (\<forall>e d. snd (m e d) = d)"

lemma reads_tx_pre: "reads m \<Longrightarrow> (\<And>d. R d d) \<Longrightarrow> tx_pre P R m"
  unfolding reads_def tx_pre_def by (metis snd_conv)

lemma reads_simps [simp]: "reads (ret x)" "reads (raise er)" "reads (lift r)" "reads (ensure b er)"
  by (auto simp: reads_def comp_defs)

lemma reads_guards [simp]: "reads (guards gs)"
  by (induction gs rule: guards.induct) auto

lemma guards_result: "guards gs e s = (if \<forall>(b, er) \<in> set gs. b then (Inr (), s) else (Inl (snd (hd (filter (\<lambda>(b, er). \<not> b) gs))), s))"
  by (induction gs rule: guards.induct) (auto simp: comp_defs)

lemma guards_Inr: "guards gs e s = (Inr x, s') \<longleftrightarrow> s' = s \<and> (\<forall>(b, er) \<in> set gs. b)"
  by (auto simp: guards_result)

lemma reads_chain [intro]: "reads m \<Longrightarrow> (\<And>x. reads (k x)) \<Longrightarrow> reads (chain m k)"
  by (auto simp: reads_def chain_def split: prod.split sum.split) (metis snd_conv)+

lemma reads_ask [intro]: "(\<And>x. reads (k x)) \<Longrightarrow> reads (ask f k)"
  by (auto simp: reads_def ask_def)

lemma reads_get [intro]: "(\<And>x. reads (k x)) \<Longrightarrow> reads (get f k)"
  by (auto simp: reads_def get_def)

lemma reads_numeric [simp]: "reads (numeric18 s)" "reads (numeric5 s)" "reads (numeric5_null s)"
  by (auto simp: reads_def numeric18_def numeric5_def numeric5_null_def comp_defs split: sum.split)

lemma w_db_tick [simp]: "w_db (tick w) = w_db w"
  by (simp add: tick_def)

lemma tx_pre_weaken: "tx_pre always R m \<Longrightarrow> tx_pre P R m"
  by (auto simp: tx_pre_def)

lemma io_pre_weaken: "io_pre P R m \<Longrightarrow> (\<And>d. Q d \<Longrightarrow> P d) \<Longrightarrow> io_pre Q R m"
  by (auto simp: io_pre_def)

lemma io_pre_mono: "io_pre P R m \<Longrightarrow> (\<And>d d'. R d d' \<Longrightarrow> R' d d') \<Longrightarrow> io_pre P R' m"
  by (auto simp: io_pre_def)

lemma io_preD: "io_pre P R m \<Longrightarrow> env_ok e \<Longrightarrow> P (w_db w) \<Longrightarrow> R (w_db w) (w_db (snd (m e w)))"
  by (simp add: io_pre_def)

locale effect =
  fixes P :: "db \<Rightarrow> bool" and R :: "db \<Rightarrow> db \<Rightarrow> bool"
  assumes refl: "R d d"
    and trans: "R a b \<Longrightarrow> R b c \<Longrightarrow> R a c"
    and stable: "P d \<Longrightarrow> R d d' \<Longrightarrow> P d'"
begin

lemma tx_reads: "reads m \<Longrightarrow> tx_pre P R m"
  by (erule reads_tx_pre) (rule refl)

lemma ret: "io_pre P R (ret x)"
  and raise: "io_pre P R (raise er)"
  and lift: "io_pre P R (lift r)"
  and ensure: "io_pre P R (ensure b er)"
  by (auto simp: io_pre_def comp_defs refl)

lemma event: "io_pre P R (event ev)"
  by (simp add: io_pre_def event_def refl)

lemma guards: "io_pre P R (guards gs)"
  by (simp add: io_pre_def guards_result refl)

lemma put: "(\<And>w. w_db (f w) = w_db w) \<Longrightarrow> io_pre P R (put f)"
  by (simp add: io_pre_def put_def refl)

lemma chain:
  assumes "io_pre P R m" "\<And>x. io_pre P R (k x)"
  shows "io_pre P R (chain m k)"
  unfolding io_pre_def
proof (intro allI impI)
  fix e :: env and w :: world assume e: "env_ok e" and P: "P (w_db w)"
  have m: "R (w_db w) (w_db (snd (m e w)))" using io_preD [OF assms(1) e P] .
  show "R (w_db w) (w_db (snd (chain m k e w)))"
  proof (cases "m e w")
    case (Pair r w')
    show ?thesis
    proof (cases r)
      case (Inr x)
      have "R (w_db w') (w_db (snd (k x e w')))"
        using io_preD [OF assms(2) e] stable [OF P m] Pair by simp
      then show ?thesis using trans m Pair Inr by (auto simp: chain_def)
    qed (use m Pair in \<open>simp add: chain_def\<close>)
  qed
qed

lemma chain_if:
  assumes "io_pre P R m" "\<And>x. Q x \<Longrightarrow> io_pre P R (k x)" "\<And>e w x w'. m e w = (Inr x, w') \<Longrightarrow> Q x"
  shows "io_pre P R (chain m k)"
proof -
  let ?k = "\<lambda>x. if Q x then k x else raise ErrInvalidScope"
  have "io_pre P R (chain m ?k)" using assms(1,2) by (intro chain) (auto intro: raise)
  moreover have "chain m ?k e w = chain m k e w" for e w
    using assms(3) by (auto simp: chain_def split: prod.split sum.split)
  ultimately show ?thesis by (simp add: io_pre_def)
qed

lemma quiet: "(\<And>e w. w_db (snd (m e w)) = w_db w) \<Longrightarrow> io_pre P R m"
  by (simp add: io_pre_def refl)

lemma attempt:
  assumes "io_pre P R m" "\<And>r. io_pre P R (k r)"
  shows "io_pre P R (attempt m k)"
  unfolding io_pre_def
proof (intro allI impI)
  fix e :: env and w :: world assume e: "env_ok e" and P: "P (w_db w)"
  have m: "R (w_db w) (w_db (snd (m e w)))" using io_preD [OF assms(1) e P] .
  have "R (w_db (snd (m e w))) (w_db (snd (k (fst (m e w)) e (snd (m e w)))))"
    using io_preD [OF assms(2) e] stable [OF P m] by simp
  then show "R (w_db w) (w_db (snd (attempt m k e w)))"
    using trans m by (auto simp: attempt_def split: prod.split)
qed

lemma ask: "(\<And>x. io_pre P R (k x)) \<Longrightarrow> io_pre P R (ask f k)"
  by (auto simp: io_pre_def ask_def)

lemma get: "(\<And>x. io_pre P R (k x)) \<Longrightarrow> io_pre P R (get f k)"
  by (auto simp: io_pre_def get_def)

lemma map_error: "io_pre P R m \<Longrightarrow> io_pre P R (map_error f m)"
  unfolding map_error_def by (rule attempt) (auto split: sum.split intro: ret raise)

lemma each: "(\<And>x. x \<in> set xs \<Longrightarrow> io_pre P R (f x)) \<Longrightarrow> io_pre P R (each f xs)"
  by (induction xs) (auto intro: ret chain)

lemma notify_all: "io_pre P R (notify_all f ls)"
  by (induction f ls rule: notify_all.induct) (auto intro: ret chain event)

lemma registry:
  "io_pre P R (Registry_InvoicePaid org i)" "io_pre P R (Registry_InvoicePaidReplay org i)"
  "io_pre P R (Registry_ContractCreated org c)" "io_pre P R (Registry_ContractEnded org c)"
  unfolding Registry_InvoicePaid_def Registry_InvoicePaidReplay_def Registry_ContractCreated_def Registry_ContractEnded_def
  by (auto intro: ask notify_all)

lemma with_tx: "tx_pre P R body \<Longrightarrow> io_pre P R (with_tx body)"
  unfolding io_pre_def tx_pre_def with_tx_def
  by (auto simp: refl split: prod.split sum.split)

lemma withScopedTx: "tx_pre P R body \<Longrightarrow> io_pre P R (withScopedTx org body)"
  by (auto simp: withScopedTx_def intro: with_tx raise)

lemma cond: "io_pre P R m \<Longrightarrow> io_pre P R n \<Longrightarrow> io_pre P R (if b then m else n)"
  by simp

lemma case_sum: "(\<And>x. io_pre P R (f x)) \<Longrightarrow> (\<And>y. io_pre P R (g y)) \<Longrightarrow> io_pre P R (case s of Inl x \<Rightarrow> f x | Inr y \<Rightarrow> g y)"
  by (cases s) auto

lemma case_option: "io_pre P R m \<Longrightarrow> (\<And>y. io_pre P R (g y)) \<Longrightarrow> io_pre P R (case s of None \<Rightarrow> m | Some y \<Rightarrow> g y)"
  by (cases s) auto

lemma case_prod: "(\<And>x y. io_pre P R (f x y)) \<Longrightarrow> io_pre P R (case s of (x, y) \<Rightarrow> f x y)"
  by (cases s) auto

lemmas intros = ret raise lift ensure guards event chain attempt ask get map_error each registry cond case_sum case_option case_prod

end

lemma io_pre_result:
  assumes "io_pre P R m" "\<And>x. io_pre (Q x) R (k x)"
    and "\<And>e w x w'. env_ok e \<Longrightarrow> P (w_db w) \<Longrightarrow> m e w = (Inr x, w') \<Longrightarrow> Q x (w_db w')"
    and "\<And>a b c. R a b \<Longrightarrow> R b c \<Longrightarrow> R a c"
  shows "io_pre P R (chain m k)"
  unfolding io_pre_def
proof (intro allI impI)
  fix e :: env and w :: world assume e: "env_ok e" and P: "P (w_db w)"
  have m: "R (w_db w) (w_db (snd (m e w)))" using io_preD [OF assms(1) e P] .
  show "R (w_db w) (w_db (snd (chain m k e w)))"
  proof (cases "m e w")
    case (Pair r w')
    show ?thesis
    proof (cases r)
      case (Inr x)
      have "R (w_db w') (w_db (snd (k x e w')))"
        using io_preD [OF assms(2) e] assms(3) [OF e P] Pair Inr by blast
      then show ?thesis using assms(4) m Pair Inr by (auto simp: chain_def)
    qed (use m Pair in \<open>simp add: chain_def\<close>)
  qed
qed

section \<open>Tables as lists\<close>

lemma query_row_Inr: "query_row p rows = Inr r \<Longrightarrow> r \<in> set rows \<and> p r"
  by (auto simp: query_row_def find_Some_iff split: option.splits)

lemma query_row_Inl: "query_row p rows = Inl er \<longleftrightarrow> er = NoRows \<and> (\<forall>r \<in> set rows. \<not> p r)"
  using find_None_iff [of p rows] by (cases "List.find p rows") (auto simp: query_row_def)

lemma set_update_where: "set (update_where p f rows) = (\<lambda>r. if p r then f r else r) ` set rows"
  by (simp add: update_where_def)

lemma length_update_where [simp]: "length (update_where p f rows) = length rows"
  by (simp add: update_where_def)

lemma map_update_where: "(\<And>r. p r \<Longrightarrow> g (f r) = g r) \<Longrightarrow> map g (update_where p f rows) = map g rows"
  by (auto simp: update_where_def)

lemma affected_0: "affected p rows = 0 \<longleftrightarrow> (\<forall>r \<in> set rows. \<not> p r)"
  by (simp add: affected_def filter_empty_conv)

section \<open>What a successful computation did\<close>

named_theorems tx_simps \<open>a successful result, taken apart\<close>

lemma chain_Inr [tx_simps]:
  "chain m k e s = (Inr y, s') \<longleftrightarrow> (\<exists>x s1. m e s = (Inr x, s1) \<and> k x e s1 = (Inr y, s'))"
  by (auto simp: chain_def split: prod.split sum.split)

lemma ret_Inr [tx_simps]: "ret x e s = (Inr y, s') \<longleftrightarrow> y = x \<and> s' = s"
  by (auto simp: ret_def)

lemma raise_Inr [tx_simps]: "raise er e s \<noteq> (Inr y, s')"
  by (simp add: raise_def)

lemma lift_Inr [tx_simps]: "lift r e s = (Inr y, s') \<longleftrightarrow> r = Inr y \<and> s' = s"
  by (auto simp: lift_def)

lemma ask_app [tx_simps]: "ask f k e s = k (f e) e s"
  by (simp add: ask_def)

lemma get_app [tx_simps]: "get f k e s = k (f s) e s"
  by (simp add: get_def)

lemma put_Inr [tx_simps]: "put f e s = (Inr y, s') \<longleftrightarrow> s' = f s"
  by (auto simp: put_def)

lemma ensure_Inr [tx_simps]: "ensure b er e s = (Inr y, s') \<longleftrightarrow> b \<and> s' = s"
  by (auto simp: ensure_def ret_def raise_def)

lemmas [tx_simps] = guards_Inr

lemma new_id_Inr [tx_simps]: "new_id e d = (Inr x, d') \<longleftrightarrow> x = e_uuid e (d_next d) \<and> d' = d\<lparr>d_next := Suc (d_next d)\<rparr>"
  by (auto simp: new_id_def)

lemma numeric18_Inr [tx_simps]: "numeric18 s e d = (Inr k, d') \<longleftrightarrow> numeric_in (10 ^ 18) e s = Inr k \<and> d' = d"
  by (auto simp: numeric18_def)

lemma numeric5_Inr [tx_simps]: "numeric5 s e d = (Inr k, d') \<longleftrightarrow> numeric_in (10 ^ 5) e s = Inr k \<and> d' = d"
  by (auto simp: numeric5_def)

lemma numeric5_null_Inr [tx_simps]:
  "numeric5_null s e d = (Inr k, d') \<longleftrightarrow>
     d' = d \<and> (if s = [] then k = None else \<exists>j. k = Some j \<and> numeric_in (10 ^ 5) e s = Inr j)"
  by (auto simp: numeric5_null_def tx_simps)

lemma reads_Inr: "reads m \<Longrightarrow> m e s = (Inr x, s') \<Longrightarrow> s' = s"
  by (metis reads_def snd_conv)

text \<open>The three outcomes of a transaction.\<close>

lemma with_tx_cases:
  assumes "with_tx body e w = (r, w')"
  obtains (rolled_back) er where "r = Inl er" "w' = tick w"
  | (committed) a d where "body e (w_db w) = (Inr a, d)" "w' = (tick w)\<lparr>w_db := d\<rparr>" "r = Inr a \<or> r = Inl DbFault"
  using assms unfolding with_tx_def by (auto split: if_splits prod.splits sum.splits)

lemma with_tx_Inr: "with_tx body e w = (Inr a, w') \<Longrightarrow> body e (w_db w) = (Inr a, w_db w')"
  by (auto simp: with_tx_def split: if_splits prod.splits sum.splits)

lemma withScopedTx_Inr: "withScopedTx org body e w = (Inr a, w') \<Longrightarrow> body e (w_db w) = (Inr a, w_db w') \<and> scope_valid org"
  by (auto simp: withScopedTx_def raise_Inr dest: with_tx_Inr split: if_splits)

lemma map_error_Inr: "map_error f m e w = (Inr a, w') \<longleftrightarrow> m e w = (Inr a, w')"
  by (auto simp: map_error_def comp_defs split: prod.split sum.split)

end
