(* ===== verification/Accounts.thy ===== *)
theory Accounts
  imports Effects
begin

text \<open>
  Accounts, billing settings and document counters: \<open>repository/account_repository.go\<close>,
  \<open>settings_repository.go\<close>, \<open>counter_repository.go\<close>, \<open>service/account_service.go\<close> and
  \<open>settings_service.go\<close>.
\<close>

section \<open>Counters (repository/counter_repository.go)\<close>

definition counter_next_tx :: "string \<Rightarrow> string \<Rightarrow> int \<Rightarrow> int tx" where
  "counter_next_tx org typ year =
     (\<lambda>e d. let n = (case d_counters d (org, typ, year) of None \<Rightarrow> 1 | Some k \<Rightarrow> k + 1) in
            if typ \<notin> {''invoice'', ''contract''} then (Inl (CheckViolation ''receivable_document_counters_type_check''), d)
            else (Inr n, d\<lparr>d_counters := (d_counters d)((org, typ, year) \<mapsto> n)\<rparr>))"

definition Counters_Next :: "string \<Rightarrow> string \<Rightarrow> int \<Rightarrow> int io" where
  "Counters_Next org typ year = withScopedTx org (counter_next_tx org typ year)"

section \<open>Settings (repository/settings_repository.go)\<close>

definition defaultSettings :: Settings where
  "defaultSettings = \<lparr>se_lead_days = 7, se_terms_days = 7, se_channels = [''email''], se_sender = []\<rparr>"

definition settings_get_tx :: "string \<Rightarrow> Settings tx" where
  "settings_get_tx org = get d_settings (\<lambda>m. ret (case m org of None \<Rightarrow> defaultSettings | Some s \<Rightarrow> s))"

definition Settings_Get :: "string \<Rightarrow> Settings io" where
  "Settings_Get org = withScopedTx org (settings_get_tx org)"

definition settings_upsert_tx :: "string \<Rightarrow> Settings \<Rightarrow> Settings tx" where
  "settings_upsert_tx org s =
     (let r = s\<lparr>se_channels := (if se_channels s = [] then [''email''] else se_channels s)\<rparr> in
      chain (guards [(0 \<le> se_lead_days s \<and> se_lead_days s \<le> 60, CheckViolation ''receivable_settings_lead_days_check''),
                     (0 \<le> se_terms_days s \<and> se_terms_days s \<le> 90, CheckViolation ''receivable_settings_terms_check'')]) (\<lambda>_.
      chain (put (\<lambda>d. d\<lparr>d_settings := (d_settings d)(org \<mapsto> r)\<rparr>)) (\<lambda>_. ret r)))"

definition Settings_Upsert :: "string \<Rightarrow> Settings \<Rightarrow> string \<Rightarrow> Settings io" where
  "Settings_Upsert org s by_user = withScopedTx org (settings_upsert_tx org s)"

section \<open>Accounts (repository/account_repository.go)\<close>

definition insert_account :: "string \<Rightarrow> AccountParams \<Rightarrow> string \<Rightarrow> Account tx" where
  "insert_account org p createdBy =
     chain new_id (\<lambda>rid. ask e_now (\<lambda>now. get d_accounts (\<lambda>rows.
       let r = \<lparr>ac_id = rid, ac_name = ap_name p, ac_company_name = ap_company_name p, ac_email = ap_email p,
                ac_phone = ap_phone p, ac_address = ap_address p, ac_source_type = ap_source_type p,
                ac_source_id = ap_source_id p, ac_created_at = now, ac_updated_at = now,
                acr_org = org, acr_created_by = createdBy, acr_deleted = False\<rparr>
       in chain (guards
             [(\<not> btrim_blank (ap_name p), CheckViolation ''receivable_accounts_name_not_blank''),
              (ap_source_type p \<in> {[], SourceTypeCRMContact}, CheckViolation ''receivable_accounts_source_type_check''),
              ((ap_source_type p = []) = (ap_source_id p = []), CheckViolation ''receivable_accounts_source_pair_check''),
              (\<forall>a \<in> set rows. ac_id a \<noteq> rid, UniqueViolation ''receivable_accounts_pkey''),
              (ap_source_id p = [] \<or>
                 \<not> (\<exists>a \<in> set rows. acr_org a = org \<and> ac_source_type a = ap_source_type p \<and> ac_source_id a = ap_source_id p \<and>
                      \<not> acr_deleted a),
               UniqueViolation ''idx_receivable_accounts_source_unique'')]) (\<lambda>_.
          chain (put (\<lambda>d. d\<lparr>d_accounts := d_accounts d @ [r]\<rparr>)) (\<lambda>_. ret (Account.truncate r))))))"

definition dup_account :: "err \<Rightarrow> err" where
  "dup_account er = (if er = UniqueViolation ''idx_receivable_accounts_source_unique'' then ErrDuplicateAccountSource else er)"

definition Accounts_Create :: "string \<Rightarrow> AccountParams \<Rightarrow> string \<Rightarrow> Account io" where
  "Accounts_Create org p createdBy = map_error dup_account (withScopedTx org (insert_account org p createdBy))"

definition live_account :: "string \<Rightarrow> string \<Rightarrow> account_row \<Rightarrow> bool" where
  "live_account org rid a \<longleftrightarrow> ac_id a = rid \<and> acr_org a = org \<and> \<not> acr_deleted a"

definition account_find_tx :: "string \<Rightarrow> string \<Rightarrow> Account tx" where
  "account_find_tx org rid =
     get d_accounts (\<lambda>rows. chain (lift (query_row (live_account org rid) rows)) (\<lambda>a. ret (Account.truncate a)))"

definition account_update_tx :: "string \<Rightarrow> string \<Rightarrow> AccountParams \<Rightarrow> Account tx" where
  "account_update_tx org rid p =
     ask e_now (\<lambda>now.
     chain (get d_accounts (\<lambda>rows. ensure (list_all (\<lambda>a. live_account org rid a \<longrightarrow> \<not> btrim_blank (ap_name p)) rows)
       (CheckViolation ''receivable_accounts_name_not_blank''))) (\<lambda>_.
     chain (put (\<lambda>d. d\<lparr>d_accounts := update_where (live_account org rid)
              (\<lambda>a. a\<lparr>ac_name := ap_name p, ac_company_name := ap_company_name p, ac_email := ap_email p,
                     ac_phone := ap_phone p, ac_address := ap_address p, ac_updated_at := now\<rparr>) (d_accounts d)\<rparr>)) (\<lambda>_.
     account_find_tx org rid)))"

definition Accounts_Update :: "string \<Rightarrow> string \<Rightarrow> AccountParams \<Rightarrow> Account io" where
  "Accounts_Update org rid p = withScopedTx org (account_update_tx org rid p)"

definition Accounts_FindByID :: "string \<Rightarrow> string \<Rightarrow> Account io" where
  "Accounts_FindByID org rid = withScopedTx org (account_find_tx org rid)"

definition account_by_source_tx :: "string \<Rightarrow> string \<Rightarrow> string \<Rightarrow> Account tx" where
  "account_by_source_tx org sourceType sourceID =
     get d_accounts (\<lambda>rows.
       chain (lift (query_row (\<lambda>a. acr_org a = org \<and> sql_eq (ac_source_type a) sourceType \<and>
                                   sql_eq (ac_source_id a) sourceID \<and> \<not> acr_deleted a) rows))
         (\<lambda>a. ret (Account.truncate a)))"

definition Accounts_FindBySource :: "string \<Rightarrow> string \<Rightarrow> string \<Rightarrow> Account io" where
  "Accounts_FindBySource org sourceType sourceID = withScopedTx org (account_by_source_tx org sourceType sourceID)"

definition account_list_tx :: "string \<Rightarrow> string \<Rightarrow> int \<Rightarrow> int \<Rightarrow> (Account list \<times> nat) tx" where
  "account_list_tx org search limit off =
     (let pattern = ''%'' @ escapeLike search @ ''%'' in
      ask e_ilike (\<lambda>ilike. ask e_lower (\<lambda>lower. get d_accounts (\<lambda>rows.
        let hits = filter (\<lambda>a. acr_org a = org \<and> \<not> acr_deleted a \<and>
                     (pattern = ''%%'' \<or> ilike (ac_name a) pattern \<or> ilike (ac_company_name a) pattern \<or> ilike (ac_email a) pattern)) rows
        in ret (map Account.truncate (page limit off (sort_key (\<lambda>a. (lower (ac_name a), ac_id a)) hits)), length hits)))))"

definition Accounts_List :: "string \<Rightarrow> string \<Rightarrow> int \<Rightarrow> int \<Rightarrow> (Account list \<times> nat) io" where
  "Accounts_List org search limit off = withScopedTx org (account_list_tx org search limit off)"

section \<open>Services (service/account_service.go, settings_service.go)\<close>

type_synonym AccountInput = AccountParams

text \<open>The detail text of a validation error is abbreviated to the field it names.\<close>

definition normalizeAccount :: "env \<Rightarrow> AccountInput \<Rightarrow> bool \<Rightarrow> err + AccountParams" where
  "normalizeAccount e i allowSource =
     (let p = \<lparr>ap_name = TrimSpace (ap_name i), ap_company_name = TrimSpace (ap_company_name i), ap_email = TrimSpace (ap_email i),
               ap_phone = TrimSpace (ap_phone i), ap_address = TrimSpace (ap_address i), ap_source_type = [], ap_source_id = []\<rparr>
      in if RuneCount (ap_name p) < 1 \<or> RuneCount (ap_name p) > 200 then Inl (ErrInvalidAccount ''name'')
         else if RuneCount (ap_company_name p) > 200 then Inl (ErrInvalidAccount ''company'')
         else if RuneCount (ap_phone p) > 50 then Inl (ErrInvalidAccount ''phone'')
         else if ap_email p \<noteq> [] \<and> (\<not> e_valid_email e (ap_email p) \<or> length (ap_email p) > 255) then Inl (ErrInvalidAccount ''email'')
         else if \<not> allowSource then Inr p
         else let q = p\<lparr>ap_source_type := TrimSpace (ap_source_type i), ap_source_id := TrimSpace (ap_source_id i)\<rparr>
              in if (ap_source_type q = []) \<noteq> (ap_source_id q = []) \<or> (ap_source_type q \<noteq> [] \<and> ap_source_type q \<noteq> SourceTypeCRMContact)
                 then Inl (ErrInvalidAccount ''source'')
                 else Inr q)"

definition AccountService_Create :: "string \<Rightarrow> AccountInput \<Rightarrow> string \<Rightarrow> Account io" where
  "AccountService_Create org i userID =
     ask (\<lambda>e. normalizeAccount e i True) (\<lambda>r. chain (lift r) (\<lambda>p. Accounts_Create org p userID))"

definition EnsureForSource :: "string \<Rightarrow> AccountInput \<Rightarrow> string \<Rightarrow> Account io" where
  "EnsureForSource org i userID =
     ask (\<lambda>e. normalizeAccount e i True) (\<lambda>r. chain (lift r) (\<lambda>p.
       if ap_source_id p = [] then raise (ErrInvalidAccount ''source required'')
       else attempt (Accounts_FindBySource org (ap_source_type p) (ap_source_id p)) (\<lambda>found.
         case found of
           Inr a \<Rightarrow> ret a
         | Inl er \<Rightarrow>
             if er \<noteq> NoRows then raise er
             else attempt (Accounts_Create org p userID) (\<lambda>created.
               case created of
                 Inr a \<Rightarrow> ret a
               | Inl er2 \<Rightarrow>
                   if er2 = ErrDuplicateAccountSource
                   then Accounts_FindBySource org (ap_source_type p) (ap_source_id p)
                   else raise er2))))"

definition account_not_found :: "err \<Rightarrow> err" where
  "account_not_found er = (if er = NoRows then ErrAccountNotFound else er)"

definition AccountService_Update :: "string \<Rightarrow> string \<Rightarrow> AccountInput \<Rightarrow> Account io" where
  "AccountService_Update org rid i =
     ask (\<lambda>e. normalizeAccount e i False) (\<lambda>r. chain (lift r) (\<lambda>p. map_error account_not_found (Accounts_Update org rid p)))"

definition AccountService_Get :: "string \<Rightarrow> string \<Rightarrow> Account io" where
  "AccountService_Get org rid = map_error account_not_found (Accounts_FindByID org rid)"

definition AccountService_List :: "string \<Rightarrow> string \<Rightarrow> int \<Rightarrow> int \<Rightarrow> (Account list \<times> nat) io" where
  "AccountService_List org search limit off = Accounts_List org (TrimSpace search) limit off"

text \<open>Channels are trimmed, checked and listed once, in the order given (invoice_service.go).\<close>

fun normalize_channels_from :: "string list \<Rightarrow> string list \<Rightarrow> err + string list" where
  "normalize_channels_from acc [] = (if acc = [] then Inl (ErrInvalidInvoice ''channels'') else Inr acc)"
| "normalize_channels_from acc (c # cs) =
     (let t = TrimSpace c in
      if t \<noteq> ''email'' \<and> t \<noteq> ''whatsapp'' then Inl (ErrInvalidInvoice ''channel'')
      else normalize_channels_from (if t \<in> set acc then acc else acc @ [t]) cs)"

definition normalizeChannels :: "string list \<Rightarrow> err + string list" where
  "normalizeChannels cs = normalize_channels_from [] cs"

definition find_member :: "string \<Rightarrow> string \<Rightarrow> err \<Rightarrow> unit io" where
  "find_member org user invalid =
     ask e_members (\<lambda>dir. case dir of
         None \<Rightarrow> ret ()
       | Some lookup \<Rightarrow>
           (case lookup org user of Inr _ \<Rightarrow> ret () | Inl er \<Rightarrow> raise (if er = NoRows then invalid else er)))"

definition SettingsService_Update :: "string \<Rightarrow> Settings \<Rightarrow> string \<Rightarrow> Settings io" where
  "SettingsService_Update org i userID =
     chain (guards [(0 \<le> se_lead_days i \<and> se_lead_days i \<le> 60, ErrInvalidSettings ''lead days''),
                    (0 \<le> se_terms_days i \<and> se_terms_days i \<le> 90, ErrInvalidSettings ''terms'')]) (\<lambda>_.
       case normalizeChannels (se_channels i) of
         Inl _ \<Rightarrow> raise (ErrInvalidSettings ''channels'')
       | Inr cs \<Rightarrow>
           let s = i\<lparr>se_channels := cs, se_sender := TrimSpace (se_sender i)\<rparr> in
           chain (if se_sender s \<noteq> [] then find_member org (se_sender s) (ErrInvalidSettings ''sender'') else ret ()) (\<lambda>_.
             Settings_Upsert org s userID))"

definition SettingsService_Senders :: "string \<Rightarrow> Member list io" where
  "SettingsService_Senders org =
     ask e_members (\<lambda>dir. case dir of None \<Rightarrow> ret [] | Some _ \<Rightarrow> ask e_members_active (\<lambda>f. lift (f org)))"

section \<open>Channels\<close>

lemma normalize_channels_from_result:
  "normalize_channels_from acc cs = Inr out \<Longrightarrow> distinct acc \<Longrightarrow> set acc \<subseteq> {''email'', ''whatsapp''} \<Longrightarrow>
   distinct out \<and> set out \<subseteq> {''email'', ''whatsapp''} \<and> out \<noteq> [] \<and> set out = set acc \<union> TrimSpace ` set cs"
  by (induction acc cs rule: normalize_channels_from.induct) (auto simp: Let_def split: if_splits)

lemma normalizeChannels_result:
  "normalizeChannels cs = Inr out \<Longrightarrow>
   distinct out \<and> set out \<subseteq> {''email'', ''whatsapp''} \<and> out \<noteq> [] \<and> set out = TrimSpace ` set cs"
  unfolding normalizeChannels_def by (drule normalize_channels_from_result) auto

end
