(* ===== verification/Invoices.thy ===== *)
theory Invoices
  imports Accounts
begin

text \<open>
  \<open>repository/invoice_repository.go\<close>: invoices with their items.  Every operation is one
  transaction; a row is read back joined with its account and its items in position order.
\<close>

section \<open>Reading\<close>

definition scanItem :: "invoice_item_row \<Rightarrow> InvoiceItem" where
  "scanItem r =
     \<lparr>ii_id = ii_id r, ii_description = ii_description r, ii_unit = ii_unit r, ii_product_id = ii_product_id r,
      ii_sku = ii_sku r, ii_contract_item_id = ii_contract_item_id r, ii_source_line_id = ii_source_line_id r,
      ii_pricing = ii_pricing r, ii_period_start = ii_period_start r, ii_period_end = ii_period_end r,
      ii_position = ii_position r,
      it_quantity = cents_text (iir_quantity r), it_unit_price = cents_text (iir_unit_price r),
      it_discount_percent = (case iir_discount_percent r of None \<Rightarrow> [] | Some k \<Rightarrow> cents_text k),
      it_tax_percent = cents_text (iir_tax_percent r), it_tax_amount = cents_text (iir_tax_amount r),
      it_line_total = cents_text (iir_line_total r)\<rparr>"

definition loadItems :: "db \<Rightarrow> string \<Rightarrow> string \<Rightarrow> InvoiceItem list" where
  "loadItems d org invoiceID =
     map scanItem (sort_key (\<lambda>r. (ii_position r, iir_created_at r, ii_id r))
       (filter (\<lambda>r. iir_org r = org \<and> iir_invoice_id r = invoiceID) (d_items d)))"

definition scanInvoice :: "invoice_row \<Rightarrow> account_row \<Rightarrow> InvoiceItem list \<Rightarrow> Invoice" where
  "scanInvoice r a items =
     \<lparr>in_id = in_id r, in_account_id = in_account_id r, in_number = in_number r, in_status = in_status r,
      in_source_type = in_source_type r, in_source_id = in_source_id r, in_contract_id = in_contract_id r,
      in_idempotency_key = in_idempotency_key r, in_period_start = in_period_start r, in_period_end = in_period_end r,
      in_issue_date = in_issue_date r, in_due_date = in_due_date r, in_currency = in_currency r,
      in_channels = in_channels r, in_pic_user_id = in_pic_user_id r, in_pdf_asset_id = in_pdf_asset_id r,
      in_notes = in_notes r, in_paid_at = in_paid_at r, in_voided_at = in_voided_at r,
      in_void_reason = in_void_reason r, in_created_by = in_created_by r, in_created_at = in_created_at r,
      in_updated_at = in_updated_at r,
      inv_account = Account.truncate a,
      inv_subtotal = cents_text (ir_subtotal r), inv_discount_total = cents_text (ir_discount_total r),
      inv_tax_total = cents_text (ir_tax_total r), inv_grand_total = cents_text (ir_grand_total r),
      inv_amount_paid = cents_text (ir_amount_paid r), inv_items = items\<rparr>"

text \<open>The join with \<open>receivable_accounts\<close>.\<close>

definition account_of :: "db \<Rightarrow> string \<Rightarrow> string \<Rightarrow> account_row option" where
  "account_of d org aid = List.find (\<lambda>a. acr_org a = org \<and> ac_id a = aid) (d_accounts d)"

definition load_invoice :: "db \<Rightarrow> invoice_row \<Rightarrow> Invoice" where
  "load_invoice d r = scanInvoice r (the (account_of d (ir_org r) (in_account_id r))) (loadItems d (ir_org r) (in_id r))"

definition findInTx :: "string \<Rightarrow> (invoice_row \<Rightarrow> bool) \<Rightarrow> Invoice tx" where
  "findInTx org p =
     (\<lambda>e d. (case query_row (\<lambda>r. ir_org r = org \<and> p r \<and> account_of d org (in_account_id r) \<noteq> None) (d_invoices d) of
               Inl er \<Rightarrow> Inl er
             | Inr r \<Rightarrow> Inr (load_invoice d r), d))"

section \<open>Writing items\<close>

definition channelsOrDefault :: "string list \<Rightarrow> string list" where
  "channelsOrDefault c = (if c = [] then [''email''] else c)"

text \<open>The checks of \<open>receivable_invoice_items\<close> (migration 000144).\<close>

definition item_checks :: "db \<Rightarrow> invoice_item_row \<Rightarrow> (bool \<times> err) list" where
  "item_checks d r =
     [(valid_attrs (ii_pricing r), CheckViolation ''receivable_invoice_items_frequency_required''),
      (\<forall>x \<in> set (d_items d). ii_id x \<noteq> ii_id r, UniqueViolation ''receivable_invoice_items_pkey''),
      (ii_contract_item_id r = [] \<or> ii_period_start r = None \<or>
         \<not> (\<exists>x \<in> set (d_items d). iir_org x = iir_org r \<and> ii_contract_item_id x = ii_contract_item_id r \<and>
              ii_period_start x = ii_period_start r),
       UniqueViolation ''idx_receivable_invoice_items_contract_period''),
      (ii_contract_item_id r = [] \<or>
         (\<exists>c \<in> set (d_citems d). cir_org c = iir_org r \<and> ci_id c = ii_contract_item_id r),
       ForeignKeyViolation ''fk_receivable_invoice_items_contract_item'')]"

definition insert_item :: "string \<Rightarrow> string \<Rightarrow> nat \<Rightarrow> InvoiceItemParams \<Rightarrow> unit tx" where
  "insert_item org invoiceID i it =
     (let l = ip_line it in
      chain new_id (\<lambda>iid. ask e_now (\<lambda>now.
      chain (numeric18 (pl_quantity l)) (\<lambda>q. chain (numeric18 (pl_unit_price l)) (\<lambda>p.
      chain (numeric5_null (pl_discount_percent l)) (\<lambda>disc. chain (numeric5 (pl_tax_percent l)) (\<lambda>tp.
      chain (numeric18 (pl_tax_amount l)) (\<lambda>ta. chain (numeric18 (pl_line_total l)) (\<lambda>lt.
        let r = \<lparr>ii_id = iid, ii_description = pl_description l, ii_unit = ip_unit it, ii_product_id = ip_product_id it,
                 ii_sku = ip_sku it, ii_contract_item_id = ip_contract_item_id it, ii_source_line_id = ip_source_line_id it,
                 ii_pricing = pl_attrs l, ii_period_start = ip_period_start it, ii_period_end = ip_period_end it,
                 ii_position = i, iir_org = org, iir_invoice_id = invoiceID, iir_quantity = q, iir_unit_price = p,
                 iir_discount_percent = disc, iir_tax_percent = tp, iir_tax_amount = ta, iir_line_total = lt,
                 iir_created_at = now\<rparr>
        in get (\<lambda>d. item_checks d r) (\<lambda>cs.
           chain (guards cs) (\<lambda>_. put (\<lambda>d. d\<lparr>d_items := d_items d @ [r]\<rparr>))))))))))))"

fun insertItems :: "string \<Rightarrow> string \<Rightarrow> nat \<Rightarrow> InvoiceItemParams list \<Rightarrow> unit tx" where
  "insertItems org invoiceID i [] = ret ()"
| "insertItems org invoiceID i (it # its) =
     chain (insert_item org invoiceID i it) (\<lambda>_. insertItems org invoiceID (Suc i) its)"

section \<open>Create, read, list, replace\<close>

text \<open>The checks of \<open>receivable_invoices\<close> at an insert.\<close>

definition invoice_checks :: "db \<Rightarrow> invoice_row \<Rightarrow> (bool \<times> err) list" where
  "invoice_checks d r =
     [(in_source_type r \<in> {SourceSalesOrder, SourceContract, SourceManual}, CheckViolation ''receivable_invoices_source_type_check''),
      (0 \<le> ir_amount_paid r \<and> ir_amount_paid r \<le> ir_grand_total r, CheckViolation ''receivable_invoices_amount_paid_check''),
      (case (in_period_start r, in_period_end r) of (Some s, Some t) \<Rightarrow> s \<le> t | _ \<Rightarrow> True,
       CheckViolation ''receivable_invoices_period_check''),
      (\<forall>x \<in> set (d_invoices d). in_id x \<noteq> in_id r, UniqueViolation ''receivable_invoices_pkey''),
      (in_source_id r = [] \<or> in_idempotency_key r = [] \<or>
         \<not> (\<exists>x \<in> set (d_invoices d). ir_org x = ir_org r \<and> in_source_type x = in_source_type r \<and>
              in_source_id x = in_source_id r \<and> in_idempotency_key x = in_idempotency_key r),
       UniqueViolation ''idx_receivable_invoices_source_idempotency''),
      (account_of d (ir_org r) (in_account_id r) \<noteq> None, ForeignKeyViolation ''fk_receivable_invoices_account''),
      (in_contract_id r = [] \<or> (\<exists>c \<in> set (d_contracts d). cr_org c = ir_org r \<and> ct_id c = in_contract_id r),
       ForeignKeyViolation ''fk_receivable_invoices_contract'')]"

definition insert_invoice :: "string \<Rightarrow> CreateInvoiceParams \<Rightarrow> string tx" where
  "insert_invoice org p =
     (let t = cp_totals p in
      chain new_id (\<lambda>rid. ask e_now (\<lambda>now.
      chain (numeric18 (t_subtotal t)) (\<lambda>sub. chain (numeric18 (t_discount_total t)) (\<lambda>disc.
      chain (numeric18 (t_tax_total t)) (\<lambda>tax. chain (numeric18 (t_grand_total t)) (\<lambda>grand.
        let r = \<lparr>in_id = rid, in_account_id = cp_account_id p, in_number = [], in_status = InvoiceDraft,
                 in_source_type = (if cp_source_type p = [] then SourceManual else cp_source_type p),
                 in_source_id = cp_source_id p, in_contract_id = cp_contract_id p, in_idempotency_key = cp_idempotency_key p,
                 in_period_start = cp_period_start p, in_period_end = cp_period_end p, in_issue_date = None, in_due_date = None,
                 in_currency = (if cp_currency p = [] then ''IDR'' else cp_currency p),
                 in_channels = channelsOrDefault (cp_channels p), in_pic_user_id = cp_pic_user_id p, in_pdf_asset_id = None,
                 in_notes = cp_notes p, in_paid_at = None, in_voided_at = None, in_void_reason = [],
                 in_created_by = cp_created_by p, in_created_at = now, in_updated_at = now,
                 ir_org = org, ir_subtotal = sub, ir_discount_total = disc, ir_tax_total = tax, ir_grand_total = grand,
                 ir_amount_paid = 0, ir_updated_by = cp_created_by p\<rparr>
        in get (\<lambda>d. invoice_checks d r) (\<lambda>cs.
           chain (guards cs) (\<lambda>_. chain (put (\<lambda>d. d\<lparr>d_invoices := d_invoices d @ [r]\<rparr>)) (\<lambda>_. ret rid))))))))))"

definition invoice_create_tx :: "string \<Rightarrow> CreateInvoiceParams \<Rightarrow> Invoice tx" where
  "invoice_create_tx org p =
     chain (insert_invoice org p) (\<lambda>rid.
     chain (insertItems org rid 0 (cp_items p)) (\<lambda>_.
     findInTx org (\<lambda>r. in_id r = rid)))"

definition dup_invoice :: "err \<Rightarrow> err" where
  "dup_invoice er = (if er = UniqueViolation ''idx_receivable_invoices_source_idempotency'' then ErrDuplicateSource else er)"

definition Invoices_Create :: "string \<Rightarrow> CreateInvoiceParams \<Rightarrow> Invoice io" where
  "Invoices_Create org p = map_error dup_invoice (withScopedTx org (invoice_create_tx org p))"

definition Invoices_FindByID :: "string \<Rightarrow> string \<Rightarrow> Invoice io" where
  "Invoices_FindByID org rid = withScopedTx org (findInTx org (\<lambda>r. in_id r = rid))"

definition source_key :: "string \<Rightarrow> string \<Rightarrow> string \<Rightarrow> invoice_row \<Rightarrow> bool" where
  "source_key sourceType sourceID key r \<longleftrightarrow>
     in_source_type r = sourceType \<and> sql_eq (in_source_id r) sourceID \<and> sql_eq (in_idempotency_key r) key"

definition Invoices_FindBySource :: "string \<Rightarrow> string \<Rightarrow> string \<Rightarrow> string \<Rightarrow> Invoice io" where
  "Invoices_FindBySource org sourceType sourceID key = withScopedTx org (findInTx org (source_key sourceType sourceID key))"

text \<open>A failed send not followed by a successful one on the same channel.\<close>

definition failed_unanswered :: "db \<Rightarrow> send_row \<Rightarrow> bool" where
  "failed_unanswered d s \<longleftrightarrow>
     sd_status s = ''failed'' \<and>
     \<not> (\<exists>k \<in> set (d_sends d). sr_org k = sr_org s \<and> sd_invoice_id k = sd_invoice_id s \<and> sd_channel k = sd_channel s \<and>
          sd_status k = ''sent'' \<and> sd_sent_at s \<le> sd_sent_at k)"

definition matches_filter :: "env \<Rightarrow> db \<Rightarrow> string \<Rightarrow> InvoiceListFilter \<Rightarrow> invoice_row \<Rightarrow> bool" where
  "matches_filter e d org f r \<longleftrightarrow>
     ir_org r = org \<and>
     (case account_of d org (in_account_id r) of
        None \<Rightarrow> False
      | Some a \<Rightarrow>
          (let s = TrimSpace (lf_search f); pat = ''%'' @ escapeLike s @ ''%'' in
           s = [] \<or> (in_number r \<noteq> [] \<and> e_ilike e (in_number r) pat) \<or> e_ilike e (ac_name a) pat \<or> e_ilike e (ac_company_name a) pat)) \<and>
     (lf_status f = [] \<or> status_text (in_status r) = lf_status f) \<and>
     (lf_account_id f = [] \<or> in_account_id r = lf_account_id f) \<and>
     (lf_source_type f = [] \<or> in_source_type r = lf_source_type f) \<and>
     (lf_source_id f = [] \<or> in_source_id r = lf_source_id f) \<and>
     (lf_contract_id f = [] \<or> in_contract_id r = lf_contract_id f) \<and>
     (case lf_due_before f of None \<Rightarrow> True | Some b \<Rightarrow> (case in_due_date r of None \<Rightarrow> False | Some x \<Rightarrow> x < b)) \<and>
     (\<not> lf_send_failed f \<or> (\<exists>s \<in> set (d_sends d). sr_org s = org \<and> sd_invoice_id s = in_id r \<and> failed_unanswered d s))"

text \<open>\<open>ORDER BY created_at DESC, id DESC\<close>, without items.\<close>

definition invoice_list_tx :: "string \<Rightarrow> InvoiceListFilter \<Rightarrow> (Invoice list \<times> nat) tx" where
  "invoice_list_tx org f =
     (\<lambda>e d. let hits = filter (matches_filter e d org f) (d_invoices d);
                ordered = rev (sort_key (\<lambda>r. (in_created_at r, in_id r)) hits)
            in (Inr (map (\<lambda>r. (load_invoice d r)\<lparr>inv_items := []\<rparr>) (page (lf_limit f) (lf_offset f) ordered), length hits), d))"

definition Invoices_List :: "string \<Rightarrow> InvoiceListFilter \<Rightarrow> (Invoice list \<times> nat) io" where
  "Invoices_List org f = withScopedTx org (invoice_list_tx org f)"

definition invoice_key :: "string \<Rightarrow> string \<Rightarrow> invoice_row \<Rightarrow> bool" where
  "invoice_key org rid r \<longleftrightarrow> in_id r = rid \<and> ir_org r = org"

text \<open>\<open>SELECT status .. FOR UPDATE\<close>: the row, locked until the transaction ends.\<close>

definition lock_invoice :: "string \<Rightarrow> string \<Rightarrow> invoice_row tx" where
  "lock_invoice org rid = get d_invoices (\<lambda>rows. lift (query_row (invoice_key org rid) rows))"

definition update_invoice :: "string \<Rightarrow> string \<Rightarrow> (invoice_row \<Rightarrow> invoice_row) \<Rightarrow> unit tx" where
  "update_invoice org rid f = put (\<lambda>d. d\<lparr>d_invoices := update_where (invoice_key org rid) f (d_invoices d)\<rparr>)"

definition replace_draft_tx :: "string \<Rightarrow> string \<Rightarrow> CreateInvoiceParams \<Rightarrow> Invoice tx" where
  "replace_draft_tx org rid p =
     (let t = cp_totals p in
      chain (lock_invoice org rid) (\<lambda>r.
      chain (ensure (in_status r = InvoiceDraft) ErrInvoiceNotDraft) (\<lambda>_. ask e_now (\<lambda>now.
      chain (numeric18 (t_subtotal t)) (\<lambda>sub. chain (numeric18 (t_discount_total t)) (\<lambda>disc.
      chain (numeric18 (t_tax_total t)) (\<lambda>tax. chain (numeric18 (t_grand_total t)) (\<lambda>grand. get (\<lambda>d. d) (\<lambda>d.
      chain (guards
        [(ir_amount_paid r \<le> grand, CheckViolation ''receivable_invoices_amount_paid_check''),
         (case (cp_period_start p, cp_period_end p) of (Some a, Some b) \<Rightarrow> a \<le> b | _ \<Rightarrow> True,
          CheckViolation ''receivable_invoices_period_check''),
         (account_of d org (cp_account_id p) \<noteq> None, ForeignKeyViolation ''fk_receivable_invoices_account'')]) (\<lambda>_.
      chain (update_invoice org rid (\<lambda>r. r\<lparr>in_account_id := cp_account_id p, in_period_start := cp_period_start p,
               in_period_end := cp_period_end p, in_currency := (if cp_currency p = [] then in_currency r else cp_currency p),
               in_channels := channelsOrDefault (cp_channels p), in_pic_user_id := cp_pic_user_id p, in_notes := cp_notes p,
               in_updated_at := now, ir_subtotal := sub, ir_discount_total := disc, ir_tax_total := tax, ir_grand_total := grand,
               ir_updated_by := cp_created_by p\<rparr>)) (\<lambda>_.
      chain (put (\<lambda>d. d\<lparr>d_items := filter (\<lambda>i. \<not> (iir_invoice_id i = rid \<and> iir_org i = org)) (d_items d)\<rparr>)) (\<lambda>_.
      chain (insertItems org rid 0 (cp_items p)) (\<lambda>_.
      findInTx org (\<lambda>r. in_id r = rid))))))))))))))"

definition Invoices_ReplaceDraft :: "string \<Rightarrow> string \<Rightarrow> CreateInvoiceParams \<Rightarrow> Invoice io" where
  "Invoices_ReplaceDraft org rid p = withScopedTx org (replace_draft_tx org rid p)"

section \<open>Issue, snapshot, void, overdue\<close>

definition issue_tx :: "string \<Rightarrow> string \<Rightarrow> string \<Rightarrow> date \<Rightarrow> date \<Rightarrow> string \<Rightarrow> Invoice tx" where
  "issue_tx org rid number issueDate dueDate by_user =
     ask e_now (\<lambda>now. get d_invoices (\<lambda>rows.
       let p = (\<lambda>r. invoice_key org rid r \<and> in_status r = InvoiceDraft) in
       if affected p rows = 0 then
         (if affected (invoice_key org rid) rows = 0 then raise NoRows else raise ErrInvoiceNotDraft)
       else
         chain (ensure (\<not> (\<exists>r \<in> set rows. ir_org r = org \<and> sql_eq (in_number r) number \<and> \<not> p r))
                  (UniqueViolation ''idx_receivable_invoices_number_unique'')) (\<lambda>_.
         chain (put (\<lambda>d. d\<lparr>d_invoices := update_where p
                  (\<lambda>r. r\<lparr>in_status := InvoiceIssued, in_number := number, in_issue_date := Some issueDate,
                         in_due_date := Some dueDate, in_updated_at := now, ir_updated_by := by_user\<rparr>) (d_invoices d)\<rparr>)) (\<lambda>_.
         findInTx org (\<lambda>r. in_id r = rid)))))"

definition Invoices_Issue :: "string \<Rightarrow> string \<Rightarrow> string \<Rightarrow> date \<Rightarrow> date \<Rightarrow> string \<Rightarrow> Invoice io" where
  "Invoices_Issue org rid number issueDate dueDate by_user = withScopedTx org (issue_tx org rid number issueDate dueDate by_user)"

definition set_pdf_tx :: "string \<Rightarrow> string \<Rightarrow> string \<Rightarrow> unit tx" where
  "set_pdf_tx org rid assetID =
     ask e_now (\<lambda>now. get d_invoices (\<lambda>rows.
       chain (ensure (affected (invoice_key org rid) rows \<noteq> 0) NoRows) (\<lambda>_.
       update_invoice org rid (\<lambda>r. r\<lparr>in_pdf_asset_id := Some assetID, in_updated_at := now\<rparr>))))"

definition Invoices_SetPDF :: "string \<Rightarrow> string \<Rightarrow> string \<Rightarrow> unit io" where
  "Invoices_SetPDF org rid assetID = withScopedTx org (set_pdf_tx org rid assetID)"

definition void_tx :: "string \<Rightarrow> string \<Rightarrow> string \<Rightarrow> string \<Rightarrow> Invoice tx" where
  "void_tx org rid reason by_user =
     chain (lock_invoice org rid) (\<lambda>r.
     chain (guards [(\<not> 0 < ir_amount_paid r, ErrInvoiceHasPayments),
                    (in_status r \<noteq> InvoiceVoid \<and> in_status r \<noteq> InvoicePaid, ErrInvoiceNotPayable)]) (\<lambda>_. ask e_now (\<lambda>now.
     chain (update_invoice org rid (\<lambda>r. r\<lparr>in_status := InvoiceVoid, in_voided_at := Some now, in_void_reason := reason,
              in_updated_at := now, ir_updated_by := by_user\<rparr>)) (\<lambda>_.
     findInTx org (\<lambda>r. in_id r = rid)))))"

definition Invoices_Void :: "string \<Rightarrow> string \<Rightarrow> string \<Rightarrow> string \<Rightarrow> Invoice io" where
  "Invoices_Void org rid reason by_user = withScopedTx org (void_tx org rid reason by_user)"

definition past_due :: "string \<Rightarrow> date \<Rightarrow> invoice_row \<Rightarrow> bool" where
  "past_due org today r \<longleftrightarrow>
     ir_org r = org \<and> in_status r = InvoiceIssued \<and> (case in_due_date r of None \<Rightarrow> False | Some x \<Rightarrow> x < today)"

definition mark_overdue_tx :: "string \<Rightarrow> date \<Rightarrow> nat tx" where
  "mark_overdue_tx org today =
     ask e_now (\<lambda>now. get d_invoices (\<lambda>rows.
       chain (put (\<lambda>d. d\<lparr>d_invoices := update_where (past_due org today)
                (\<lambda>r. r\<lparr>in_status := InvoiceOverdue, in_updated_at := now\<rparr>) (d_invoices d)\<rparr>)) (\<lambda>_.
       ret (affected (past_due org today) rows))))"

definition Invoices_MarkOverdue :: "string \<Rightarrow> date \<Rightarrow> nat io" where
  "Invoices_MarkOverdue org today = withScopedTx org (mark_overdue_tx org today)"

end
