(* ===== verification/Payments.thy ===== *)
theory Payments
  imports Invoices
begin

text \<open>
  \<open>repository/payment_repository.go\<close> and \<open>send_repository.go\<close>: the payments of an invoice, recorded
  in one transaction with the invoice they reduce, and the log of its sends.
\<close>

section \<open>Payments\<close>

definition scanPayment :: "payment_row \<Rightarrow> Payment" where
  "scanPayment r =
     \<lparr>py_id = pr_id r, py_invoice_id = pr_invoice_id r, py_amount = cents_text (pr_amount r), py_method = pr_method r,
      py_reference = pr_reference r, py_note = pr_note r, py_recorded_by = pr_recorded_by r,
      py_invoice_number = [], py_account_name = [], py_paid_at = pr_paid_at r, py_created_at = pr_created_at r\<rparr>"

text \<open>\<open>$3::numeric\<close>: any precision.\<close>

definition numeric_any :: "string \<Rightarrow> rat tx" where
  "numeric_any s = (\<lambda>e d. (case e_numeric e s of None \<Rightarrow> Inl NumericError | Some r \<Rightarrow> Inr r, d))"

definition provider_payment :: "string \<Rightarrow> PaymentParams \<Rightarrow> payment_row \<Rightarrow> bool" where
  "provider_payment org p y \<longleftrightarrow> pr_org y = org \<and> pr_method y = pp_method p \<and> sql_eq (pr_reference y) (pp_reference p)"

text \<open>\<open>recorded_by uuid\<close>: the empty text is \<open>NULL\<close>.\<close>

definition recorder :: "string \<Rightarrow> string tx" where
  "recorder s =
     (if s = [] then ret [] else ask (\<lambda>e. e_uuid_in e s) (\<lambda>r. case r of None \<Rightarrow> raise InvalidText | Some u \<Rightarrow> ret u))"

definition payment_checks :: "env \<Rightarrow> db \<Rightarrow> payment_row \<Rightarrow> (bool \<times> err) list" where
  "payment_checks e d y =
     [(RuneCount (pr_reference y) \<le> 150, StringTooLong), (RuneCount (pr_note y) \<le> 500, StringTooLong),
      (0 < pr_amount y, CheckViolation ''receivable_payments_amount_check''),
      (pr_method y \<in> {''manual'', ''doku''}, CheckViolation ''receivable_payments_method_check''),
      (\<forall>x \<in> set (d_payments d). pr_id x \<noteq> pr_id y, UniqueViolation ''receivable_payments_pkey''),
      (pr_reference y = [] \<or> pr_method y = ''manual'' \<or>
         \<not> (\<exists>x \<in> set (d_payments d). pr_method x = pr_method y \<and> pr_reference x = pr_reference y),
       UniqueViolation ''idx_receivable_payments_method_reference''),
      (pr_recorded_by y = [] \<or> e_users e (pr_recorded_by y), ForeignKeyViolation ''fk_receivable_payments_recorded_by'')]"

definition insert_payment :: "string \<Rightarrow> string \<Rightarrow> PaymentParams \<Rightarrow> payment_row tx" where
  "insert_payment org invoiceID p =
     chain new_id (\<lambda>pid. ask (\<lambda>e. e) (\<lambda>e. chain (numeric18 (pp_amount p)) (\<lambda>k. chain (recorder (pp_recorded_by p)) (\<lambda>u.
       let y = \<lparr>pr_id = pid, pr_org = org, pr_invoice_id = invoiceID, pr_amount = k, pr_method = pp_method p,
                pr_reference = pp_reference p, pr_note = pp_note p, pr_recorded_by = u,
                pr_paid_at = pp_paid_at p, pr_created_at = e_now e\<rparr>
       in get (\<lambda>d. payment_checks e d y) (\<lambda>cs.
          chain (guards cs) (\<lambda>_. chain (put (\<lambda>d. d\<lparr>d_payments := d_payments d @ [y]\<rparr>)) (\<lambda>_. ret y)))))))"

text \<open>The invoice after a payment of \<open>a\<close>: the sum, and paid exactly when it reaches the total.\<close>

definition apply_payment :: "rat \<Rightarrow> instant \<Rightarrow> instant \<Rightarrow> invoice_row \<Rightarrow> invoice_row" where
  "apply_payment a paidAt now r =
     (let settled = cents (ir_amount_paid r) + a = cents (ir_grand_total r) in
      r\<lparr>ir_amount_paid := round_cents (cents (ir_amount_paid r) + a),
        in_status := (if settled then InvoicePaid else in_status r),
        in_paid_at := (if settled then Some paidAt else in_paid_at r),
        in_updated_at := now\<rparr>)"

definition record_new :: "string \<Rightarrow> string \<Rightarrow> PaymentParams \<Rightarrow> invoice_row \<Rightarrow> (Invoice \<times> Payment \<times> bool) tx" where
  "record_new org invoiceID p r =
     chain (ensure (in_status r = InvoiceIssued \<or> in_status r = InvoiceOverdue) ErrInvoiceNotPayable) (\<lambda>_.
     chain (numeric_any (pp_amount p)) (\<lambda>a.
     chain (ensure (a \<le> cents (ir_grand_total r - ir_amount_paid r)) ErrPaymentExceeds) (\<lambda>_.
     chain (insert_payment org invoiceID p) (\<lambda>y. ask e_now (\<lambda>now.
     let r' = apply_payment a (pp_paid_at p) now r in
     chain (ensure (0 \<le> ir_amount_paid r' \<and> ir_amount_paid r' \<le> ir_grand_total r')
              (CheckViolation ''receivable_invoices_amount_paid_check'')) (\<lambda>_.
     chain (update_invoice org invoiceID (apply_payment a (pp_paid_at p) now)) (\<lambda>_.
     chain (findInTx org (\<lambda>i. in_id i = invoiceID)) (\<lambda>i. ret (i, scanPayment y, True))))))))) "

definition record_tx :: "string \<Rightarrow> string \<Rightarrow> PaymentParams \<Rightarrow> (Invoice \<times> Payment \<times> bool) tx" where
  "record_tx org invoiceID p =
     chain (lock_invoice org invoiceID) (\<lambda>r. get d_payments (\<lambda>rows.
       case (if pp_reference p \<noteq> [] \<and> pp_method p \<noteq> ''manual'' then List.find (provider_payment org p) rows else None) of
         Some y \<Rightarrow> chain (findInTx org (\<lambda>i. in_id i = pr_invoice_id y)) (\<lambda>i. ret (i, scanPayment y, False))
       | None \<Rightarrow> record_new org invoiceID p r))"

definition Payments_Record :: "string \<Rightarrow> string \<Rightarrow> PaymentParams \<Rightarrow> (Invoice \<times> Payment \<times> bool) io" where
  "Payments_Record org invoiceID p = withScopedTx org (record_tx org invoiceID p)"

definition payment_list_tx :: "string \<Rightarrow> string \<Rightarrow> Payment list tx" where
  "payment_list_tx org invoiceID =
     get d_payments (\<lambda>rows. ret (map scanPayment (sort_key (\<lambda>y. (pr_paid_at y, pr_created_at y, pr_id y))
       (filter (\<lambda>y. pr_org y = org \<and> pr_invoice_id y = invoiceID) rows))))"

definition Payments_List :: "string \<Rightarrow> string \<Rightarrow> Payment list io" where
  "Payments_List org invoiceID = withScopedTx org (payment_list_tx org invoiceID)"

text \<open>Joined with the invoice and its account, newest first; the count is of all payments.\<close>

definition joined_payment :: "db \<Rightarrow> payment_row \<Rightarrow> Payment option" where
  "joined_payment d y =
     (case List.find (invoice_key (pr_org y) (pr_invoice_id y)) (d_invoices d) of
        None \<Rightarrow> None
      | Some r \<Rightarrow>
          (case account_of d (pr_org y) (in_account_id r) of
             None \<Rightarrow> None
           | Some a \<Rightarrow> Some ((scanPayment y)\<lparr>py_invoice_number := in_number r, py_account_name := ac_name a\<rparr>)))"

definition payment_list_all_tx :: "string \<Rightarrow> int \<Rightarrow> int \<Rightarrow> (Payment list \<times> nat) tx" where
  "payment_list_all_tx org limit off =
     (\<lambda>e d. let own = filter (\<lambda>y. pr_org y = org) (d_payments d);
                hits = filter (\<lambda>y. joined_payment d y \<noteq> None) own;
                ordered = rev (sort_key (\<lambda>y. (pr_paid_at y, pr_created_at y, pr_id y)) hits)
            in (Inr (map (\<lambda>y. the (joined_payment d y)) (page limit off ordered), length own), d))"

definition Payments_ListAll :: "string \<Rightarrow> int \<Rightarrow> int \<Rightarrow> (Payment list \<times> nat) io" where
  "Payments_ListAll org limit off = withScopedTx org (payment_list_all_tx org limit off)"

section \<open>Sends (repository/send_repository.go)\<close>

definition scanSend :: "env \<Rightarrow> send_row \<Rightarrow> Send" where
  "scanSend e r = (Send.truncate r)\<lparr>sd_sent_by_name := (if sd_sent_by r = [] then [] else e_user_name e (sd_sent_by r))\<rparr>"

definition send_record_tx :: "string \<Rightarrow> RecordSendParams \<Rightarrow> Send tx" where
  "send_record_tx org p =
     chain new_id (\<lambda>sid. ask (\<lambda>e. e) (\<lambda>e. get (\<lambda>d. d) (\<lambda>d.
       let r = \<lparr>sd_id = sid, sd_invoice_id = sp_invoice_id p, sd_channel = sp_channel p, sd_recipient = sp_recipient p,
                sd_status = sp_status p, sd_error = sp_error p, sd_external_id = sp_external_id p,
                sd_client_request_id = sp_client_request_id p,
                sd_trigger = (if sp_trigger p = [] then ''manual'' else sp_trigger p),
                sd_sent_by = sp_sent_by p, sd_sent_by_name = [], sd_sent_at = e_now e, sr_org = org\<rparr>
       in chain (guards
            [(sd_channel r \<in> {''email'', ''whatsapp''}, CheckViolation ''receivable_invoice_sends_channel_check''),
             (sd_status r \<in> {''sent'', ''failed''}, CheckViolation ''receivable_invoice_sends_status_check''),
             (sd_trigger r \<in> {''auto'', ''manual''}, CheckViolation ''receivable_invoice_sends_trigger_check''),
             (\<forall>x \<in> set (d_sends d). sd_id x \<noteq> sid, UniqueViolation ''receivable_invoice_sends_pkey''),
             (sd_client_request_id r = [] \<or>
                \<not> (\<exists>x \<in> set (d_sends d). sr_org x = org \<and> sd_invoice_id x = sd_invoice_id r \<and>
                     sd_client_request_id x = sd_client_request_id r),
              UniqueViolation ''idx_receivable_invoice_sends_client_request''),
             (\<exists>i \<in> set (d_invoices d). invoice_key org (sd_invoice_id r) i,
              ForeignKeyViolation ''fk_receivable_invoice_sends_invoice'')]) (\<lambda>_.
          chain (put (\<lambda>d. d\<lparr>d_sends := d_sends d @ [r]\<rparr>)) (\<lambda>_. ret (scanSend e r))))))"

definition Sends_Record :: "string \<Rightarrow> RecordSendParams \<Rightarrow> Send io" where
  "Sends_Record org p = withScopedTx org (send_record_tx org p)"

definition send_by_request_tx :: "string \<Rightarrow> string \<Rightarrow> string \<Rightarrow> Send tx" where
  "send_by_request_tx org invoiceID requestID =
     ask (\<lambda>e. e) (\<lambda>e. get d_sends (\<lambda>rows.
       chain (lift (query_row (\<lambda>s. sr_org s = org \<and> sd_invoice_id s = invoiceID \<and> sql_eq (sd_client_request_id s) requestID) rows))
         (\<lambda>s. ret (scanSend e s))))"

definition Sends_FindByClientRequest :: "string \<Rightarrow> string \<Rightarrow> string \<Rightarrow> Send io" where
  "Sends_FindByClientRequest org invoiceID requestID = withScopedTx org (send_by_request_tx org invoiceID requestID)"

text \<open>\<open>ORDER BY sent_at DESC, id DESC\<close>.\<close>

definition latest_first :: "send_row list \<Rightarrow> send_row list" where
  "latest_first rows = rev (sort_key (\<lambda>s. (sd_sent_at s, sd_id s)) rows)"

definition send_list_tx :: "string \<Rightarrow> string \<Rightarrow> Send list tx" where
  "send_list_tx org invoiceID =
     ask (\<lambda>e. e) (\<lambda>e. get d_sends (\<lambda>rows.
       ret (map (scanSend e) (latest_first (filter (\<lambda>s. sr_org s = org \<and> sd_invoice_id s = invoiceID) rows)))))"

definition Sends_ListByInvoice :: "string \<Rightarrow> string \<Rightarrow> Send list io" where
  "Sends_ListByInvoice org invoiceID = withScopedTx org (send_list_tx org invoiceID)"

definition latest_failed_tx :: "string \<Rightarrow> string \<Rightarrow> Send tx" where
  "latest_failed_tx org invoiceID =
     ask (\<lambda>e. e) (\<lambda>e. get (\<lambda>d. d) (\<lambda>d.
       chain (lift (query_row (\<lambda>_. True)
          (latest_first (filter (\<lambda>s. sr_org s = org \<and> sd_invoice_id s = invoiceID \<and> failed_unanswered d s) (d_sends d)))))
         (\<lambda>s. ret (scanSend e s))))"

definition Sends_LatestFailedByInvoice :: "string \<Rightarrow> string \<Rightarrow> Send io" where
  "Sends_LatestFailedByInvoice org invoiceID = withScopedTx org (latest_failed_tx org invoiceID)"

definition latest_by_invoices_tx :: "string \<Rightarrow> string list \<Rightarrow> (string \<Rightarrow> Send option) tx" where
  "latest_by_invoices_tx org ids =
     ask (\<lambda>e. e) (\<lambda>e. get d_sends (\<lambda>rows.
       ret (\<lambda>i. if i \<notin> set ids then None
                else map_option (scanSend e)
                  (List.find (\<lambda>_. True) (latest_first (filter (\<lambda>s. sr_org s = org \<and> sd_invoice_id s = i) rows))))))"

definition Sends_LatestByInvoices :: "string \<Rightarrow> string list \<Rightarrow> (string \<Rightarrow> Send option) io" where
  "Sends_LatestByInvoices org ids =
     (if ids = [] then ret (\<lambda>_. None) else withScopedTx org (latest_by_invoices_tx org ids))"

end
