(* ===== verification/Contracts.thy ===== *)
theory Contracts
  imports Payments
begin

text \<open>
  \<open>repository/contract_repository.go\<close>: recurring contracts with their items, the items due for
  billing, and their advance to the next period.
\<close>

section \<open>Reading\<close>

definition scanContractItem :: "contract_item_row \<Rightarrow> ContractItem" where
  "scanContractItem r =
     \<lparr>ci_id = ci_id r, ci_description = ci_description r, ci_unit = ci_unit r, ci_product_id = ci_product_id r,
      ci_sku = ci_sku r, ci_source_line_id = ci_source_line_id r, ci_frequency = ci_frequency r,
      ci_payment_timing = ci_payment_timing r, ci_period_index = ci_period_index r, ci_next_start = ci_next_start r,
      ci_next_end = ci_next_end r, ci_position = ci_position r, ci_features = ci_features r,
      cit_quantity = cents_text (cir_quantity r), cit_unit_price = cents_text (cir_unit_price r),
      cit_discount_percent = (case cir_discount_percent r of None \<Rightarrow> [] | Some k \<Rightarrow> cents_text k),
      cit_tax_percent = cents_text (cir_tax_percent r)\<rparr>"

definition loadContractItems :: "db \<Rightarrow> string \<Rightarrow> string \<Rightarrow> ContractItem list" where
  "loadContractItems d org contractID =
     map scanContractItem (sort_key (\<lambda>r. (ci_position r, cir_created_at r, ci_id r))
       (filter (\<lambda>r. cir_org r = org \<and> cir_contract_id r = contractID) (d_citems d)))"

definition scanContract :: "contract_row \<Rightarrow> account_row \<Rightarrow> ContractItem list \<Rightarrow> Contract" where
  "scanContract r a items =
     \<lparr>ct_id = ct_id r, ct_account_id = ct_account_id r, ct_number = ct_number r, ct_status = ct_status r,
      ct_source_type = ct_source_type r, ct_source_id = ct_source_id r, ct_currency = ct_currency r, ct_notes = ct_notes r,
      ct_pic_user_id = ct_pic_user_id r, ct_end_reason = ct_end_reason r, ct_start_date = ct_start_date r,
      ct_end_date = ct_end_date r, ct_ended_at = ct_ended_at r, ct_channels = ct_channels r, ct_created_by = ct_created_by r,
      ct_created_at = ct_created_at r, ct_updated_at = ct_updated_at r,
      con_account = Account.truncate a, con_items = items\<rparr>"

definition load_contract :: "db \<Rightarrow> contract_row \<Rightarrow> ContractItem list \<Rightarrow> Contract" where
  "load_contract d r items = scanContract r (the (account_of d (cr_org r) (ct_account_id r))) items"

definition findContractInTx :: "string \<Rightarrow> (contract_row \<Rightarrow> bool) \<Rightarrow> Contract tx" where
  "findContractInTx org p =
     (\<lambda>e d. (case query_row (\<lambda>r. cr_org r = org \<and> p r \<and> account_of d org (ct_account_id r) \<noteq> None) (d_contracts d) of
               Inl er \<Rightarrow> Inl er
             | Inr r \<Rightarrow> Inr (load_contract d r (loadContractItems d org (ct_id r))), d))"

definition contract_key :: "string \<Rightarrow> string \<Rightarrow> contract_row \<Rightarrow> bool" where
  "contract_key org rid r \<longleftrightarrow> ct_id r = rid \<and> cr_org r = org"

section \<open>Create\<close>

definition contract_checks :: "db \<Rightarrow> contract_row \<Rightarrow> (bool \<times> err) list" where
  "contract_checks d r =
     [(ct_source_type r \<in> {SourceSalesOrder, SourceManual}, CheckViolation ''receivable_contracts_source_type_check''),
      (\<forall>x \<in> set (d_contracts d). ct_id x \<noteq> ct_id r, UniqueViolation ''receivable_contracts_pkey''),
      (\<not> (\<exists>x \<in> set (d_contracts d). cr_org x = cr_org r \<and> ct_number x = ct_number r),
       UniqueViolation ''idx_receivable_contracts_number_unique''),
      (ct_source_id r = [] \<or>
         \<not> (\<exists>x \<in> set (d_contracts d). cr_org x = cr_org r \<and> ct_source_type x = ct_source_type r \<and> ct_source_id x = ct_source_id r),
       UniqueViolation ''idx_receivable_contracts_source_unique''),
      (account_of d (cr_org r) (ct_account_id r) \<noteq> None, ForeignKeyViolation ''fk_receivable_contracts_account'')]"

definition insert_contract :: "string \<Rightarrow> CreateContractParams \<Rightarrow> string tx" where
  "insert_contract org p =
     chain new_id (\<lambda>rid. ask e_now (\<lambda>now.
       let r = \<lparr>ct_id = rid, ct_account_id = ccp_account_id p, ct_number = ccp_number p, ct_status = ContractActive,
                ct_source_type = (if ccp_source_type p = [] then SourceManual else ccp_source_type p),
                ct_source_id = ccp_source_id p, ct_currency = (if ccp_currency p = [] then ''IDR'' else ccp_currency p),
                ct_notes = ccp_notes p, ct_pic_user_id = ccp_pic_user_id p, ct_end_reason = [],
                ct_start_date = ccp_start_date p, ct_end_date = None, ct_ended_at = None,
                ct_channels = channelsOrDefault (ccp_channels p), ct_created_by = ccp_created_by p,
                ct_created_at = now, ct_updated_at = now, cr_org = org, cr_updated_by = ccp_created_by p\<rparr>
       in get (\<lambda>d. contract_checks d r) (\<lambda>cs.
          chain (guards cs) (\<lambda>_. chain (put (\<lambda>d. d\<lparr>d_contracts := d_contracts d @ [r]\<rparr>)) (\<lambda>_. ret rid)))))"

definition featuresOrEmpty :: "string \<Rightarrow> string" where
  "featuresOrEmpty f = (if f = [] then ''[]'' else f)"

definition contract_item_checks :: "db \<Rightarrow> contract_item_row \<Rightarrow> (bool \<times> err) list" where
  "contract_item_checks d r =
     [(ci_frequency r \<in> set Frequencies, CheckViolation ''receivable_contract_items_frequency_check''),
      (ci_payment_timing r \<in> {Prepaid, Postpaid}, CheckViolation ''receivable_contract_items_timing_check''),
      (0 \<le> ci_period_index r, CheckViolation ''receivable_contract_items_period_index_check''),
      (ci_next_start r \<le> ci_next_end r, CheckViolation ''receivable_contract_items_period_check''),
      (\<forall>x \<in> set (d_citems d). ci_id x \<noteq> ci_id r, UniqueViolation ''receivable_contract_items_pkey'')]"

definition insert_contract_item :: "string \<Rightarrow> string \<Rightarrow> nat \<Rightarrow> ContractItemParams \<Rightarrow> unit tx" where
  "insert_contract_item org contractID i it =
     chain new_id (\<lambda>iid. ask e_now (\<lambda>now.
     chain (numeric18 (cip_quantity it)) (\<lambda>q. chain (numeric18 (cip_unit_price it)) (\<lambda>p.
     chain (numeric5_null (cip_discount_percent it)) (\<lambda>disc. chain (numeric5 (cip_tax_percent it)) (\<lambda>tp.
       let r = \<lparr>ci_id = iid, ci_description = cip_description it, ci_unit = cip_unit it, ci_product_id = cip_product_id it,
                ci_sku = cip_sku it, ci_source_line_id = cip_source_line_id it, ci_frequency = cip_frequency it,
                ci_payment_timing = cip_payment_timing it, ci_period_index = cip_period_index it,
                ci_next_start = cip_next_start it, ci_next_end = cip_next_end it, ci_position = i,
                ci_features = featuresOrEmpty (cip_features it),
                cir_org = org, cir_contract_id = contractID, cir_quantity = q, cir_unit_price = p,
                cir_discount_percent = disc, cir_tax_percent = tp, cir_created_at = now\<rparr>
       in get (\<lambda>d. contract_item_checks d r) (\<lambda>cs.
          chain (guards cs) (\<lambda>_. put (\<lambda>d. d\<lparr>d_citems := d_citems d @ [r]\<rparr>)))))))))"

fun insert_contract_items :: "string \<Rightarrow> string \<Rightarrow> nat \<Rightarrow> ContractItemParams list \<Rightarrow> unit tx" where
  "insert_contract_items org contractID i [] = ret ()"
| "insert_contract_items org contractID i (it # its) =
     chain (insert_contract_item org contractID i it) (\<lambda>_. insert_contract_items org contractID (Suc i) its)"

definition contract_create_tx :: "string \<Rightarrow> CreateContractParams \<Rightarrow> Contract tx" where
  "contract_create_tx org p =
     chain (insert_contract org p) (\<lambda>rid.
     chain (insert_contract_items org rid 0 (ccp_items p)) (\<lambda>_.
     findContractInTx org (\<lambda>r. ct_id r = rid)))"

definition dup_contract :: "err \<Rightarrow> err" where
  "dup_contract er = (if er = UniqueViolation ''idx_receivable_contracts_source_unique'' then ErrDuplicateSource else er)"

definition Contracts_Create :: "string \<Rightarrow> CreateContractParams \<Rightarrow> Contract io" where
  "Contracts_Create org p = map_error dup_contract (withScopedTx org (contract_create_tx org p))"

definition Contracts_FindByID :: "string \<Rightarrow> string \<Rightarrow> Contract io" where
  "Contracts_FindByID org rid = withScopedTx org (findContractInTx org (\<lambda>r. ct_id r = rid))"

definition contract_source :: "string \<Rightarrow> string \<Rightarrow> contract_row \<Rightarrow> bool" where
  "contract_source sourceType sourceID r \<longleftrightarrow> ct_source_type r = sourceType \<and> sql_eq (ct_source_id r) sourceID"

definition Contracts_FindBySource :: "string \<Rightarrow> string \<Rightarrow> string \<Rightarrow> Contract io" where
  "Contracts_FindBySource org sourceType sourceID = withScopedTx org (findContractInTx org (contract_source sourceType sourceID))"

definition contract_matches :: "env \<Rightarrow> db \<Rightarrow> string \<Rightarrow> ContractListFilter \<Rightarrow> contract_row \<Rightarrow> bool" where
  "contract_matches e d org f r \<longleftrightarrow>
     cr_org r = org \<and>
     (case account_of d org (ct_account_id r) of
        None \<Rightarrow> False
      | Some a \<Rightarrow>
          (let s = TrimSpace (clf_search f); pat = ''%'' @ escapeLike s @ ''%'' in
           s = [] \<or> e_ilike e (ct_number r) pat \<or> e_ilike e (ac_name a) pat \<or> e_ilike e (ac_company_name a) pat)) \<and>
     (clf_status f = [] \<or> contract_status_text (ct_status r) = clf_status f) \<and>
     (clf_account_id f = [] \<or> ct_account_id r = clf_account_id f)"

text \<open>\<open>ORDER BY created_at DESC, id\<close>, without items.\<close>

definition contract_list_tx :: "string \<Rightarrow> ContractListFilter \<Rightarrow> (Contract list \<times> nat) tx" where
  "contract_list_tx org f =
     (\<lambda>e d. let hits = filter (contract_matches e d org f) (d_contracts d);
                ordered = sort_key (\<lambda>r. (- ct_created_at r, ct_id r)) hits
            in (Inr (map (\<lambda>r. load_contract d r []) (page (clf_limit f) (clf_offset f) ordered), length hits), d))"

definition Contracts_List :: "string \<Rightarrow> ContractListFilter \<Rightarrow> (Contract list \<times> nat) io" where
  "Contracts_List org f = withScopedTx org (contract_list_tx org f)"

section \<open>End date and end\<close>

definition updateActive :: "string \<Rightarrow> string \<Rightarrow> (contract_row \<Rightarrow> bool) \<Rightarrow> (instant \<Rightarrow> contract_row \<Rightarrow> contract_row) \<Rightarrow> Contract tx" where
  "updateActive org rid check f =
     ask e_now (\<lambda>now. get d_contracts (\<lambda>rows.
       let p = (\<lambda>r. contract_key org rid r \<and> ct_status r = ContractActive) in
       if affected p rows = 0 then
         (if affected (contract_key org rid) rows = 0 then raise NoRows else raise ErrContractNotActive)
       else
         chain (ensure (\<forall>r \<in> set rows. p r \<longrightarrow> check r) (CheckViolation ''receivable_contracts_end_date_check'')) (\<lambda>_.
         chain (put (\<lambda>d. d\<lparr>d_contracts := update_where p (f now) (d_contracts d)\<rparr>)) (\<lambda>_.
         findContractInTx org (\<lambda>r. ct_id r = rid)))))"

definition set_end_date_tx :: "string \<Rightarrow> string \<Rightarrow> date option \<Rightarrow> string \<Rightarrow> Contract tx" where
  "set_end_date_tx org rid endDate by_user =
     updateActive org rid (\<lambda>r. case endDate of None \<Rightarrow> True | Some x \<Rightarrow> ct_start_date r \<le> x)
       (\<lambda>now r. r\<lparr>ct_end_date := endDate, cr_updated_by := by_user, ct_updated_at := now\<rparr>)"

definition Contracts_SetEndDate :: "string \<Rightarrow> string \<Rightarrow> date option \<Rightarrow> string \<Rightarrow> Contract io" where
  "Contracts_SetEndDate org rid endDate by_user = withScopedTx org (set_end_date_tx org rid endDate by_user)"

definition end_contract_tx :: "string \<Rightarrow> string \<Rightarrow> date \<Rightarrow> string \<Rightarrow> string \<Rightarrow> Contract tx" where
  "end_contract_tx org rid endDate reason by_user =
     updateActive org rid (\<lambda>r. ct_start_date r \<le> endDate)
       (\<lambda>now r. r\<lparr>ct_status := ContractEnded, ct_end_date := Some endDate, ct_end_reason := reason, ct_ended_at := Some now,
                  cr_updated_by := by_user, ct_updated_at := now\<rparr>)"

definition Contracts_End :: "string \<Rightarrow> string \<Rightarrow> date \<Rightarrow> string \<Rightarrow> string \<Rightarrow> Contract io" where
  "Contracts_End org rid endDate reason by_user = withScopedTx org (end_contract_tx org rid endDate reason by_user)"

section \<open>Due items, advance, expiry\<close>

text \<open>The day an item is billed: lead days before a prepaid period, the day after a postpaid one.\<close>

definition bill_on :: "int \<Rightarrow> 'a contract_item_base_scheme \<Rightarrow> date" where
  "bill_on leadDays i = (if ci_payment_timing i = Prepaid then ci_next_start i - leadDays else ci_next_end i + 1)"

definition is_due :: "string \<Rightarrow> date \<Rightarrow> int \<Rightarrow> db \<Rightarrow> contract_row \<times> contract_item_row \<Rightarrow> bool" where
  "is_due org today leadDays d = (\<lambda>(c, i).
     cr_org c = org \<and> ct_status c = ContractActive \<and> account_of d org (ct_account_id c) \<noteq> None \<and>
     cir_org i = org \<and> cir_contract_id i = ct_id c \<and>
     (case ct_end_date c of None \<Rightarrow> True | Some x \<Rightarrow> ci_next_start i \<le> x) \<and>
     bill_on leadDays i \<le> today)"

definition due_rows :: "string \<Rightarrow> date \<Rightarrow> int \<Rightarrow> db \<Rightarrow> (contract_row \<times> contract_item_row) list" where
  "due_rows org today leadDays d =
     sort_key (\<lambda>(c, i). (ct_id c, ci_next_start i, ci_position i, ci_id i))
       (filter (is_due org today leadDays d) (List.product (d_contracts d) (d_citems d)))"

definition due_item :: "int \<Rightarrow> db \<Rightarrow> contract_row \<times> contract_item_row \<Rightarrow> DueItem" where
  "due_item leadDays d = (\<lambda>(c, i).
     \<lparr>du_contract = load_contract d c [], du_item = (scanContractItem i)\<lparr>ci_features := []\<rparr>, du_bill_on = bill_on leadDays i\<rparr>)"

definition due_items_tx :: "string \<Rightarrow> date \<Rightarrow> int \<Rightarrow> int \<Rightarrow> DueItem list tx" where
  "due_items_tx org today leadDays limit =
     get (\<lambda>d. d) (\<lambda>d. ret (map (due_item leadDays d) (take (clampLimit limit) (due_rows org today leadDays d))))"

definition Contracts_DueItems :: "string \<Rightarrow> date \<Rightarrow> int \<Rightarrow> int \<Rightarrow> DueItem list io" where
  "Contracts_DueItems org today leadDays limit = withScopedTx org (due_items_tx org today leadDays limit)"

definition item_at :: "string \<Rightarrow> string \<Rightarrow> int \<Rightarrow> contract_item_row \<Rightarrow> bool" where
  "item_at org itemID from i \<longleftrightarrow> ci_id i = itemID \<and> cir_org i = org \<and> ci_period_index i = from"

definition advance_tx :: "string \<Rightarrow> string \<Rightarrow> int \<Rightarrow> date \<Rightarrow> date \<Rightarrow> bool tx" where
  "advance_tx org itemID from nextStart nextEnd =
     get d_citems (\<lambda>rows.
       let n = affected (item_at org itemID from) rows in
       chain (guards
         [(n = 0 \<or> 0 \<le> from + 1, CheckViolation ''receivable_contract_items_period_index_check''),
          (n = 0 \<or> nextStart \<le> nextEnd, CheckViolation ''receivable_contract_items_period_check'')]) (\<lambda>_.
       chain (put (\<lambda>d. d\<lparr>d_citems := update_where (item_at org itemID from)
                (\<lambda>i. i\<lparr>ci_period_index := ci_period_index i + 1, ci_next_start := nextStart, ci_next_end := nextEnd\<rparr>) (d_citems d)\<rparr>)) (\<lambda>_.
       ret (n = 1))))"

definition Contracts_Advance :: "string \<Rightarrow> string \<Rightarrow> int \<Rightarrow> date \<Rightarrow> date \<Rightarrow> bool io" where
  "Contracts_Advance org itemID from nextStart nextEnd = withScopedTx org (advance_tx org itemID from nextStart nextEnd)"

definition expired :: "string \<Rightarrow> date \<Rightarrow> db \<Rightarrow> contract_row \<Rightarrow> bool" where
  "expired org today d c \<longleftrightarrow>
     cr_org c = org \<and> ct_status c = ContractActive \<and>
     (case ct_end_date c of
        None \<Rightarrow> False
      | Some x \<Rightarrow> x < today \<and>
          \<not> (\<exists>i \<in> set (d_citems d). cir_org i = cr_org c \<and> cir_contract_id i = ct_id c \<and> ci_next_start i \<le> x))"

text \<open>The returned rows carry the reference columns only.\<close>

definition end_expired_tx :: "string \<Rightarrow> date \<Rightarrow> ContractRef list tx" where
  "end_expired_tx org today =
     ask e_now (\<lambda>now. get (\<lambda>d. d) (\<lambda>d.
       chain (put (\<lambda>d. d\<lparr>d_contracts := update_where (expired org today d)
                (\<lambda>c. c\<lparr>ct_status := ContractEnded, ct_end_reason := ''Masa kontrak berakhir'', ct_ended_at := Some now,
                       ct_updated_at := now\<rparr>) (d_contracts d)\<rparr>)) (\<lambda>_.
       ret (map (\<lambda>c. \<lparr>cf_id = ct_id c, cf_number = ct_number c, cf_source_id = ct_source_id c, cf_source_type = ct_source_type c\<rparr>)
              (filter (expired org today d) (d_contracts d))))))"

definition Contracts_EndExpired :: "string \<Rightarrow> date \<Rightarrow> ContractRef list io" where
  "Contracts_EndExpired org today = withScopedTx org (end_expired_tx org today)"

end
