(* ===== verification/Directory.thy ===== *)
theory Directory
  imports Contracts
begin

text \<open>
  The tables that are looked up before an organization is known and carry no row level security:
  public links (\<open>src/internal/shared/publiclink/repository.go\<close>), checkout sessions
  (\<open>repository/checkout_repository.go\<close>) and the settlement ledger
  (\<open>repository/settlement_repository.go\<close>).  Each call is one statement or one transaction.
\<close>

section \<open>Public links\<close>

definition link_of :: "link_row \<Rightarrow> Link" where
  "link_of r = (Link.truncate r)\<lparr>lk_token := []\<rparr>"

definition active_link :: "string \<Rightarrow> string \<Rightarrow> string \<Rightarrow> link_row \<Rightarrow> bool" where
  "active_link org docType docID r \<longleftrightarrow>
     lk_org r = org \<and> lk_doc_type r = docType \<and> lk_doc_id r = docID \<and> lk_revoked_at r = None"

definition link_find_active_tx :: "string \<Rightarrow> string \<Rightarrow> string \<Rightarrow> (Link \<times> string) tx" where
  "link_find_active_tx org docType docID =
     get d_links (\<lambda>rows. chain (lift (query_row (active_link org docType docID) rows)) (\<lambda>r. ret (link_of r, lr_token_enc r)))"

definition Links_FindActive :: "string \<Rightarrow> string \<Rightarrow> string \<Rightarrow> (Link \<times> string) io" where
  "Links_FindActive org docType docID = withScopedTx org (link_find_active_tx org docType docID)"

definition link_insert_tx :: "string \<Rightarrow> string \<Rightarrow> string \<Rightarrow> string \<Rightarrow> string \<Rightarrow> instant \<Rightarrow> string \<Rightarrow> Link tx" where
  "link_insert_tx org docType docID hash tokenEnc expiresAt createdBy =
     chain new_id (\<lambda>lid. ask e_now (\<lambda>now. get d_links (\<lambda>rows.
       let r = \<lparr>lk_id = lid, lk_org = org, lk_doc_type = docType, lk_doc_id = docID, lk_token = [],
                lk_expires_at = expiresAt, lk_revoked_at = None, lk_created_at = now,
                lr_hash = hash, lr_token_enc = tokenEnc, lr_created_by = createdBy, lr_views = 0, lr_last_viewed_at = None\<rparr>
       in chain (guards
            [(docType \<in> {''quotation'', ''invoice''}, CheckViolation ''public_links_document_type_check''),
             (\<forall>x \<in> set rows. lk_id x \<noteq> lid, UniqueViolation ''public_links_pkey''),
             (\<forall>x \<in> set rows. lr_hash x \<noteq> hash, UniqueViolation ''idx_public_links_token_hash''),
             (\<not> (\<exists>x \<in> set rows. active_link org docType docID x), UniqueViolation ''idx_public_links_active_document'')]) (\<lambda>_.
          chain (put (\<lambda>d. d\<lparr>d_links := d_links d @ [r]\<rparr>)) (\<lambda>_. ret (link_of r))))))"

definition Links_Insert :: "string \<Rightarrow> string \<Rightarrow> string \<Rightarrow> string \<Rightarrow> string \<Rightarrow> instant \<Rightarrow> string \<Rightarrow> Link io" where
  "Links_Insert org docType docID hash tokenEnc expiresAt createdBy =
     withScopedTx org (link_insert_tx org docType docID hash tokenEnc expiresAt createdBy)"

definition link_expiry_tx :: "string \<Rightarrow> string \<Rightarrow> instant \<Rightarrow> unit tx" where
  "link_expiry_tx org lid expiresAt =
     put (\<lambda>d. d\<lparr>d_links := update_where (\<lambda>r. lk_org r = org \<and> lk_id r = lid) (\<lambda>r. r\<lparr>lk_expires_at := expiresAt\<rparr>) (d_links d)\<rparr>)"

definition Links_UpdateExpiry :: "string \<Rightarrow> string \<Rightarrow> instant \<Rightarrow> unit io" where
  "Links_UpdateExpiry org lid expiresAt = withScopedTx org (link_expiry_tx org lid expiresAt)"

definition link_revoke_tx :: "string \<Rightarrow> string \<Rightarrow> string \<Rightarrow> instant \<Rightarrow> unit tx" where
  "link_revoke_tx org docType docID tm =
     put (\<lambda>d. d\<lparr>d_links := update_where (active_link org docType docID) (\<lambda>r. r\<lparr>lk_revoked_at := Some tm\<rparr>) (d_links d)\<rparr>)"

definition Links_Revoke :: "string \<Rightarrow> string \<Rightarrow> string \<Rightarrow> instant \<Rightarrow> unit io" where
  "Links_Revoke org docType docID tm = withScopedTx org (link_revoke_tx org docType docID tm)"

definition link_by_hash_tx :: "string \<Rightarrow> Link tx" where
  "link_by_hash_tx hash = get d_links (\<lambda>rows. chain (lift (query_row (\<lambda>r. lr_hash r = hash) rows)) (\<lambda>r. ret (link_of r)))"

definition Links_FindByHash :: "string \<Rightarrow> Link io" where
  "Links_FindByHash hash = with_tx (link_by_hash_tx hash)"

definition link_touch_tx :: "string \<Rightarrow> instant \<Rightarrow> unit tx" where
  "link_touch_tx lid tm =
     put (\<lambda>d. d\<lparr>d_links := update_where (\<lambda>r. lk_id r = lid)
       (\<lambda>r. r\<lparr>lr_last_viewed_at := Some tm, lr_views := Suc (lr_views r)\<rparr>) (d_links d)\<rparr>)"

definition Links_Touch :: "string \<Rightarrow> instant \<Rightarrow> unit io" where
  "Links_Touch lid tm = with_tx (link_touch_tx lid tm)"

section \<open>Checkout sessions\<close>

definition newest :: "(Checkout \<Rightarrow> bool) \<Rightarrow> Checkout list \<Rightarrow> err + Checkout" where
  "newest p rows = query_row (\<lambda>_. True) (sort_key (\<lambda>c. - ck_created_at c) (filter p rows))"

definition checkout_reusable_tx :: "string \<Rightarrow> string \<Rightarrow> instant \<Rightarrow> Checkout tx" where
  "checkout_reusable_tx org invoiceID now =
     get d_checkouts (\<lambda>rows. lift (newest (\<lambda>c. ck_org c = org \<and> ck_invoice_id c = invoiceID \<and> ck_status c = ''pending'' \<and>
       now < ck_expires_at c) rows))"

definition Checkouts_FindReusable :: "string \<Rightarrow> string \<Rightarrow> instant \<Rightarrow> Checkout io" where
  "Checkouts_FindReusable org invoiceID now = withScopedTx org (checkout_reusable_tx org invoiceID now)"

definition checkout_create_tx :: "string \<Rightarrow> string \<Rightarrow> string \<Rightarrow> string \<Rightarrow> string \<Rightarrow> instant \<Rightarrow> Checkout tx" where
  "checkout_create_tx org invoiceID dokuNumber amount url expiresAt =
     chain new_id (\<lambda>cid. ask e_now (\<lambda>now. chain (numeric18 amount) (\<lambda>k. get (\<lambda>d. d) (\<lambda>d.
       let c = \<lparr>ck_id = cid, ck_org = org, ck_invoice_id = invoiceID, ck_doku_number = dokuNumber, ck_payment_url = url,
                ck_status = ''pending'', ck_amount = cents_text k, ck_expires_at = expiresAt, ck_created_at = now\<rparr>
       in chain (guards
            [(\<forall>x \<in> set (d_checkouts d). ck_id x \<noteq> cid, UniqueViolation ''receivable_checkouts_pkey''),
             (\<exists>i \<in> set (d_invoices d). invoice_key org invoiceID i, ForeignKeyViolation ''fk_receivable_checkouts_invoice'')]) (\<lambda>_.
          chain (put (\<lambda>d. d\<lparr>d_checkouts := d_checkouts d @ [c]\<rparr>)) (\<lambda>_. ret c))))))"

definition Checkouts_Create :: "string \<Rightarrow> string \<Rightarrow> string \<Rightarrow> string \<Rightarrow> string \<Rightarrow> instant \<Rightarrow> Checkout io" where
  "Checkouts_Create org invoiceID dokuNumber amount url expiresAt =
     withScopedTx org (checkout_create_tx org invoiceID dokuNumber amount url expiresAt)"

definition checkout_by_number_tx :: "string \<Rightarrow> Checkout tx" where
  "checkout_by_number_tx dokuNumber = get d_checkouts (\<lambda>rows. lift (newest (\<lambda>c. ck_doku_number c = dokuNumber) rows))"

definition Checkouts_FindByDokuNumber :: "string \<Rightarrow> Checkout io" where
  "Checkouts_FindByDokuNumber dokuNumber = with_tx (checkout_by_number_tx dokuNumber)"

definition checkout_status_tx :: "string \<Rightarrow> string \<Rightarrow> unit tx" where
  "checkout_status_tx cid status =
     chain (ensure (status \<in> {''pending'', ''paid'', ''expired'', ''failed''}) (CheckViolation ''receivable_checkouts_status_check'')) (\<lambda>_.
     put (\<lambda>d. d\<lparr>d_checkouts := update_where (\<lambda>c. ck_id c = cid) (\<lambda>c. c\<lparr>ck_status := status\<rparr>) (d_checkouts d)\<rparr>))"

definition Checkouts_SetStatus :: "string \<Rightarrow> string \<Rightarrow> unit io" where
  "Checkouts_SetStatus cid status = with_tx (checkout_status_tx cid status)"

section \<open>The settlement ledger\<close>

definition numeric20 :: "string \<Rightarrow> int tx" where
  "numeric20 s = (\<lambda>e d. (numeric_in (10 ^ 20) e s, d))"

definition settlement_checks :: "env \<Rightarrow> db \<Rightarrow> settlement_row \<Rightarrow> (bool \<times> err) list" where
  "settlement_checks e d r =
     [(sl_kind r \<in> {''payment'', ''settlement'', ''adjustment''}, CheckViolation ''settlement_entries_kind_check''),
      (if sl_kind r = ''adjustment'' then sl_amount r \<noteq> 0 else 0 < sl_amount r, CheckViolation ''settlement_entries_amount_check''),
      (sl_kind r \<noteq> ''payment'' \<or> (sl_invoice_id r \<noteq> [] \<and> \<not> btrim_blank (sl_provider_reference r)),
       CheckViolation ''settlement_entries_payment_refs_check''),
      (\<forall>x \<in> set (d_settlements d). sl_id x \<noteq> sl_id r, UniqueViolation ''settlement_entries_pkey''),
      (e_org_type e (sl_org r) \<noteq> None, ForeignKeyViolation ''fk_settlement_entries_org'')]"

definition settlement_insert_payment_tx :: "SettlementPaymentParams \<Rightarrow> bool tx" where
  "settlement_insert_payment_tx p =
     chain new_id (\<lambda>sid. ask (\<lambda>e. e) (\<lambda>e. chain (numeric20 (sm_amount p)) (\<lambda>k. get (\<lambda>d. d) (\<lambda>d.
       let r = \<lparr>sl_id = sid, sl_org = sm_org p, sl_kind = ''payment'', sl_amount = k, sl_invoice_id = sm_invoice_id p,
                sl_provider_reference = sm_provider_reference p, sl_note = [], sl_created_by = [],
                sl_occurred_at = sm_occurred_at p, sl_created_at = e_now e\<rparr>
       in chain (guards (take 4 (settlement_checks e d r))) (\<lambda>_.
          if \<exists>x \<in> set (d_settlements d). sl_kind x = ''payment'' \<and> sl_provider_reference x = sm_provider_reference p
          then ret False
          else chain (guards (drop 4 (settlement_checks e d r))) (\<lambda>_.
               chain (put (\<lambda>d. d\<lparr>d_settlements := d_settlements d @ [r]\<rparr>)) (\<lambda>_. ret True)))))))"

definition Settlements_InsertPayment :: "SettlementPaymentParams \<Rightarrow> bool io" where
  "Settlements_InsertPayment p = with_tx (settlement_insert_payment_tx p)"

definition settlement_find_tx :: "string \<Rightarrow> SettlementPaymentParams tx" where
  "settlement_find_tx reference =
     get d_settlements (\<lambda>rows.
       chain (lift (query_row (\<lambda>r. sl_kind r = ''payment'' \<and> sl_provider_reference r = reference) rows)) (\<lambda>r.
       ret \<lparr>sm_org = sl_org r, sm_invoice_id = sl_invoice_id r, sm_provider_reference = sl_provider_reference r,
            sm_amount = cents_text (sl_amount r), sm_occurred_at = sl_occurred_at r\<rparr>))"

definition Settlements_FindPaymentByReference :: "string \<Rightarrow> SettlementPaymentParams io" where
  "Settlements_FindPaymentByReference reference = with_tx (settlement_find_tx reference)"

definition kind_sum :: "string \<Rightarrow> string \<Rightarrow> settlement_row list \<Rightarrow> int" where
  "kind_sum org kind rows = (\<Sum>r \<leftarrow> filter (\<lambda>r. sl_org r = org \<and> sl_kind r = kind) rows. sl_amount r)"

definition totals_in :: "string \<Rightarrow> settlement_row list \<Rightarrow> SettlementTotals" where
  "totals_in org rows =
     \<lparr>tt_paid_in = cents_text (kind_sum org ''payment'' rows), tt_settled = cents_text (kind_sum org ''settlement'' rows),
      tt_adjusted = cents_text (kind_sum org ''adjustment'' rows)\<rparr>"

definition queryTotals :: "string \<Rightarrow> SettlementTotals tx" where
  "queryTotals org = get d_settlements (\<lambda>rows. ret (totals_in org rows))"

definition Ledger_Totals :: "string \<Rightarrow> SettlementTotals io" where
  "Ledger_Totals org = with_tx (queryTotals org)"

definition beneficiary_type_tx :: "string \<Rightarrow> string tx" where
  "beneficiary_type_tx org =
     ask (\<lambda>e. e_org_type e org) (\<lambda>t. case t of None \<Rightarrow> raise ErrOrganizationNotFound | Some x \<Rightarrow> ret x)"

definition Ledger_BeneficiaryType :: "string \<Rightarrow> string io" where
  "Ledger_BeneficiaryType org = with_tx (beneficiary_type_tx org)"

text \<open>\<open>GROUP BY o.id ORDER BY o.name, o.id\<close>: organizations with at least one entry.\<close>

definition list_balances_tx :: "string \<Rightarrow> int \<Rightarrow> int \<Rightarrow> ((string \<times> string \<times> SettlementTotals) list \<times> nat) tx" where
  "list_balances_tx search limit off =
     (\<lambda>e d. let s = TrimSpace search; pat = (if s = [] then [] else ''%'' @ escapeLike s @ ''%'');
                orgs = remdups (map sl_org (d_settlements d));
                named = filter (\<lambda>o'. case e_org_name e o' of None \<Rightarrow> False | Some n \<Rightarrow> pat = [] \<or> e_ilike e n pat) orgs;
                ordered = sort_key (\<lambda>o'. (the (e_org_name e o'), o')) named
            in (Inr (map (\<lambda>o'. (o', the (e_org_name e o'), totals_in o' (d_settlements d))) (page limit off ordered), length named), d))"

definition Ledger_ListBalances :: "string \<Rightarrow> int \<Rightarrow> int \<Rightarrow> ((string \<times> string \<times> SettlementTotals) list \<times> nat) io" where
  "Ledger_ListBalances search limit off = with_tx (list_balances_tx search limit off)"

definition scanSettlementEntry :: "settlement_row \<Rightarrow> SettlementEntry" where
  "scanSettlementEntry r =
     \<lparr>sx_id = sl_id r, sx_org = sl_org r, sx_kind = sl_kind r, sx_amount = cents_text (sl_amount r),
      sx_invoice_id = sl_invoice_id r, sx_provider_reference = sl_provider_reference r, sx_note = sl_note r,
      sx_created_by = sl_created_by r, sx_occurred_at = sl_occurred_at r, sx_created_at = sl_created_at r\<rparr>"

definition list_entries_tx :: "string \<Rightarrow> int \<Rightarrow> int \<Rightarrow> (SettlementEntry list \<times> nat) tx" where
  "list_entries_tx org limit off =
     get d_settlements (\<lambda>rows.
       let hits = filter (\<lambda>r. sl_org r = org) rows;
           ordered = rev (sort_key (\<lambda>r. (sl_occurred_at r, sl_created_at r, sl_id r)) hits)
       in ret (map scanSettlementEntry (page limit off ordered), length hits))"

definition Ledger_ListEntries :: "string \<Rightarrow> int \<Rightarrow> int \<Rightarrow> (SettlementEntry list \<times> nat) io" where
  "Ledger_ListEntries org limit off = with_tx (list_entries_tx org limit off)"

text \<open>The totals are read under the organization's advisory lock, in the transaction of the insert.\<close>

definition insert_manual_tx :: "SettlementManualEntry \<Rightarrow> (SettlementTotals \<Rightarrow> err option) \<Rightarrow> SettlementEntry tx" where
  "insert_manual_tx i check =
     chain (queryTotals (sme_org i)) (\<lambda>t.
     case check t of
       Some er \<Rightarrow> raise er
     | None \<Rightarrow>
         chain new_id (\<lambda>sid. ask (\<lambda>e. e) (\<lambda>e. chain (numeric20 (sme_amount i)) (\<lambda>k. get (\<lambda>d. d) (\<lambda>d.
           let r = \<lparr>sl_id = sid, sl_org = sme_org i, sl_kind = sme_kind i, sl_amount = k, sl_invoice_id = [],
                    sl_provider_reference = [], sl_note = sme_note i, sl_created_by = sme_created_by i,
                    sl_occurred_at = sme_occurred_at i, sl_created_at = e_now e\<rparr>
           in chain (guards (settlement_checks e d r)) (\<lambda>_.
              chain (put (\<lambda>d. d\<lparr>d_settlements := d_settlements d @ [r]\<rparr>)) (\<lambda>_. ret (scanSettlementEntry r))))))))"

definition Ledger_InsertManualLocked :: "SettlementManualEntry \<Rightarrow> (SettlementTotals \<Rightarrow> err option) \<Rightarrow> SettlementEntry io" where
  "Ledger_InsertManualLocked i check = with_tx (insert_manual_tx i check)"

end
