(* ===== verification/Changes.thy ===== *)
theory Changes
  imports Directory
begin

text \<open>
  What each transaction that succeeds has done to the tables: one lemma per operation, with the
  checks that let it through.  The invariants and the service proofs use only these.
\<close>

declare guards.simps [simp del]

lemma findInTx_Inr: "findInTx org p e d = (Inr i, d') \<longleftrightarrow>
    d' = d \<and> (\<exists>r. query_row (\<lambda>r. ir_org r = org \<and> p r \<and> account_of d org (in_account_id r) \<noteq> None) (d_invoices d) = Inr r \<and> i = load_invoice d r)"
  by (auto simp: findInTx_def split: sum.splits)

lemma findContractInTx_Inr: "findContractInTx org p e d = (Inr i, d') \<longleftrightarrow>
    d' = d \<and> (\<exists>r. query_row (\<lambda>r. cr_org r = org \<and> p r \<and> account_of d org (ct_account_id r) \<noteq> None) (d_contracts d) = Inr r \<and>
      i = load_contract d r (loadContractItems d org (ct_id r)))"
  by (auto simp: findContractInTx_def split: sum.splits)

lemma account_find_Inr: "account_find_tx org i e d = (Inr a, d') \<longleftrightarrow>
    d' = d \<and> (\<exists>r. query_row (live_account org i) (d_accounts d) = Inr r \<and> a = Account.truncate r)"
  by (auto simp: account_find_tx_def tx_simps)

lemma counter_next_change:
  "counter_next_tx org typ year e d = (Inr n, d') \<Longrightarrow>
     d' = d\<lparr>d_counters := (d_counters d)((org, typ, year) \<mapsto> n)\<rparr> \<and>
     n = (case d_counters d (org, typ, year) of None \<Rightarrow> 1 | Some k \<Rightarrow> k + 1)"
  by (auto simp: counter_next_tx_def Let_def split: if_splits)

lemma settings_upsert_change:
  "settings_upsert_tx org s e d = (Inr x, d') \<Longrightarrow> d' = d\<lparr>d_settings := (d_settings d)(org \<mapsto> x)\<rparr> \<and>
     0 \<le> se_lead_days x \<and> se_lead_days x \<le> 60 \<and> 0 \<le> se_terms_days x \<and> se_terms_days x \<le> 90"
  by (auto simp: settings_upsert_tx_def Let_def tx_simps)

lemma insert_account_change:
  "insert_account org p by_user e d = (Inr a, d') \<Longrightarrow>
     \<exists>r. d' = d\<lparr>d_next := Suc (d_next d), d_accounts := d_accounts d @ [r]\<rparr> \<and> acr_org r = org \<and> a = Account.truncate r \<and>
       ac_source_type r = ap_source_type p \<and> ac_source_id r = ap_source_id p \<and> \<not> acr_deleted r \<and>
       (\<forall>x \<in> set (d_accounts d). ac_id x \<noteq> ac_id r) \<and> ((ap_source_type p = []) = (ap_source_id p = [])) \<and>
       (ap_source_id p = [] \<or> \<not> (\<exists>x \<in> set (d_accounts d). acr_org x = org \<and> ac_source_type x = ap_source_type p \<and>
          ac_source_id x = ap_source_id p \<and> \<not> acr_deleted x))"
  by (auto simp: insert_account_def Let_def tx_simps intro!: exI)

lemma account_update_change:
  "account_update_tx org i p e d = (Inr a, d') \<Longrightarrow>
     \<exists>f. d' = d\<lparr>d_accounts := update_where (live_account org i) f (d_accounts d)\<rparr> \<and>
       (\<forall>r. ac_id (f r) = ac_id r \<and> acr_org (f r) = acr_org r \<and> acr_deleted (f r) = acr_deleted r \<and>
            ac_source_type (f r) = ac_source_type r \<and> ac_source_id (f r) = ac_source_id r)"
  by (auto simp: account_update_tx_def tx_simps account_find_Inr intro!: exI)

lemma checks_next [simp]:
  "item_checks (d\<lparr>d_next := n\<rparr>) r = item_checks d r"
  "invoice_checks (d\<lparr>d_next := n\<rparr>) i = invoice_checks d i"
  "payment_checks e (d\<lparr>d_next := n\<rparr>) y = payment_checks e d y"
  "contract_checks (d\<lparr>d_next := n\<rparr>) c = contract_checks d c"
  "contract_item_checks (d\<lparr>d_next := n\<rparr>) k = contract_item_checks d k"
  by (simp_all add: item_checks_def invoice_checks_def account_of_def payment_checks_def contract_checks_def contract_item_checks_def)

abbreviation passes :: "(bool \<times> err) list \<Rightarrow> bool" where
  "passes cs \<equiv> \<forall>(b, er) \<in> set cs. b"

lemma insert_item_change:
  assumes "insert_item org rid i it e d = (Inr x, d')"
  shows "\<exists>r. d' = d\<lparr>d_next := Suc (d_next d), d_items := d_items d @ [r]\<rparr> \<and> iir_org r = org \<and> iir_invoice_id r = rid \<and>
       ii_contract_item_id r = ip_contract_item_id it \<and> ii_period_start r = ip_period_start it \<and>
       ii_period_end r = ip_period_end it \<and> ii_position r = i \<and> ii_pricing r = pl_attrs (ip_line it) \<and>
       ii_description r = pl_description (ip_line it) \<and> numeric_in (10 ^ 18) e (pl_line_total (ip_line it)) = Inr (iir_line_total r) \<and>
       passes (item_checks d r)"
  using assms
  by (clarsimp simp add: insert_item_def Let_def tx_simps split del: if_split) (rule exI, rule conjI, rule refl, simp)

lemma insert_invoice_change:
  assumes "insert_invoice org p e d = (Inr rid, d')"
  shows "\<exists>r. d' = d\<lparr>d_next := Suc (d_next d), d_invoices := d_invoices d @ [r]\<rparr> \<and> ir_org r = org \<and> in_id r = rid \<and>
       in_status r = InvoiceDraft \<and> in_number r = [] \<and> in_issue_date r = None \<and> in_due_date r = None \<and> ir_amount_paid r = 0 \<and>
       in_paid_at r = None \<and> in_voided_at r = None \<and>
       in_source_type r = (if cp_source_type p = [] then SourceManual else cp_source_type p) \<and>
       in_source_id r = cp_source_id p \<and> in_idempotency_key r = cp_idempotency_key p \<and> in_account_id r = cp_account_id p \<and>
       in_contract_id r = cp_contract_id p \<and> in_period_start r = cp_period_start p \<and>
       numeric_in (10 ^ 18) e (t_grand_total (cp_totals p)) = Inr (ir_grand_total r) \<and>
       passes (invoice_checks d r)"
  using assms
  by (clarsimp simp add: insert_invoice_def Let_def tx_simps split del: if_split) (rule exI, rule conjI, rule refl, simp)

lemma set_pdf_change:
  "set_pdf_tx org rid a e d = (Inr x, d') \<Longrightarrow>
     d' = d\<lparr>d_invoices := update_where (invoice_key org rid) (\<lambda>r. r\<lparr>in_pdf_asset_id := Some a, in_updated_at := e_now e\<rparr>) (d_invoices d)\<rparr>"
  by (auto simp: set_pdf_tx_def update_invoice_def tx_simps)

lemma lock_invoice_Inr: "lock_invoice org rid e d = (Inr r, d') \<longleftrightarrow> d' = d \<and> query_row (invoice_key org rid) (d_invoices d) = Inr r"
  by (auto simp: lock_invoice_def tx_simps)

lemma void_change:
  "void_tx org rid reason by_user e d = (Inr i, d') \<Longrightarrow>
     \<exists>r. query_row (invoice_key org rid) (d_invoices d) = Inr r \<and> \<not> 0 < ir_amount_paid r \<and> in_status r \<noteq> InvoiceVoid \<and> in_status r \<noteq> InvoicePaid \<and>
       d' = d\<lparr>d_invoices := update_where (invoice_key org rid) (\<lambda>r. r\<lparr>in_status := InvoiceVoid, in_voided_at := Some (e_now e),
                in_void_reason := reason, in_updated_at := e_now e, ir_updated_by := by_user\<rparr>) (d_invoices d)\<rparr>"
  by (auto simp: void_tx_def update_invoice_def tx_simps lock_invoice_Inr findInTx_Inr)

lemma mark_overdue_change:
  "mark_overdue_tx org today e d = (Inr n, d') \<Longrightarrow>
     d' = d\<lparr>d_invoices := update_where (past_due org today) (\<lambda>r. r\<lparr>in_status := InvoiceOverdue, in_updated_at := e_now e\<rparr>) (d_invoices d)\<rparr> \<and>
     n = affected (past_due org today) (d_invoices d)"
  by (auto simp: mark_overdue_tx_def tx_simps)

lemma issue_change:
  "issue_tx org rid number idate ddate by_user e d = (Inr i, d') \<Longrightarrow>
     \<exists>p. p = (\<lambda>r. invoice_key org rid r \<and> in_status r = InvoiceDraft) \<and> (\<exists>r \<in> set (d_invoices d). p r) \<and>
       \<not> (\<exists>r \<in> set (d_invoices d). ir_org r = org \<and> sql_eq (in_number r) number \<and> \<not> p r) \<and>
       d' = d\<lparr>d_invoices := update_where p (\<lambda>r. r\<lparr>in_status := InvoiceIssued, in_number := number, in_issue_date := Some idate,
                in_due_date := Some ddate, in_updated_at := e_now e, ir_updated_by := by_user\<rparr>) (d_invoices d)\<rparr>"
  by (auto simp: issue_tx_def Let_def tx_simps affected_0 findInTx_Inr split: if_splits)

section \<open>Keys that no two rows share\<close>

definition unique_on :: "('r \<Rightarrow> bool) \<Rightarrow> ('r \<Rightarrow> 'k) \<Rightarrow> 'r list \<Rightarrow> bool" where
  "unique_on p k rows \<longleftrightarrow> distinct (map k (filter p rows))"

lemma unique_on_Nil [simp]: "unique_on p k []"
  by (simp add: unique_on_def)

lemma unique_on_snoc [simp]:
  "unique_on p k (rows @ [r]) \<longleftrightarrow> unique_on p k rows \<and> (p r \<longrightarrow> (\<forall>x \<in> set rows. p x \<longrightarrow> k x \<noteq> k r))"
proof -
  have "k r \<notin> k ` {x \<in> set rows. p x} \<longleftrightarrow> (\<forall>x \<in> set rows. p x \<longrightarrow> k x \<noteq> k r)" by (auto simp: image_iff eq_commute)
  then show ?thesis by (auto simp: unique_on_def)
qed

lemma unique_on_update:
  assumes "\<And>r. r \<in> set rows \<Longrightarrow> q r \<Longrightarrow> p (f r) = p r \<and> k (f r) = k r"
  shows "unique_on p k (update_where q f rows) = unique_on p k rows"
proof -
  have "map k (filter p (update_where q f rows)) = map k (filter p rows)"
    using assms by (induction rows) (auto simp: update_where_def)
  then show ?thesis by (simp add: unique_on_def)
qed

lemma unique_on_filter: "unique_on p k rows \<Longrightarrow> unique_on p k (filter q rows)"
proof -
  have "filter p (filter q rows) = filter q (filter p rows)" by (simp add: conj_commute)
  then show "unique_on p k rows \<Longrightarrow> unique_on p k (filter q rows)" unfolding unique_on_def by (simp only: distinct_map_filter)
qed

lemma unique_onD: "unique_on p k rows \<Longrightarrow> x \<in> set rows \<Longrightarrow> y \<in> set rows \<Longrightarrow> p x \<Longrightarrow> p y \<Longrightarrow> k x = k y \<Longrightarrow> x = y"
  by (auto simp: unique_on_def distinct_map inj_on_def)

text \<open>The one row a key selects, in its place.\<close>

lemma split_at_key:
  assumes "r \<in> set rows" "unique_on (\<lambda>_. True) k rows"
  obtains xs ys where "rows = xs @ r # ys" "\<forall>x \<in> set xs \<union> set ys. k x \<noteq> k r"
proof -
  obtain xs ys where r: "rows = xs @ r # ys" using split_list [OF assms(1)] by blast
  then have "k r \<notin> k ` (set xs \<union> set ys)" using assms(2) by (auto simp: unique_on_def)
  then have "\<forall>x \<in> set xs \<union> set ys. k x \<noteq> k r" by (metis imageI)
  with r show thesis using that by blast
qed

lemma update_where_split:
  "q r \<Longrightarrow> \<forall>x \<in> set xs \<union> set ys. \<not> q x \<Longrightarrow> update_where q f (xs @ r # ys) = xs @ f r # ys"
  by (simp add: update_where_def map_idI)

lemma unique_on_split:
  "unique_on p k (xs @ r # ys) \<longleftrightarrow> unique_on p k (xs @ ys) \<and> (p r \<longrightarrow> (\<forall>x \<in> set xs \<union> set ys. p x \<longrightarrow> k x \<noteq> k r))"
proof -
  have "k r \<notin> k ` {x \<in> set zs. p x} \<longleftrightarrow> (\<forall>x \<in> set zs. p x \<longrightarrow> k x \<noteq> k r)" for zs by (auto simp: image_iff eq_commute)
  then show ?thesis by (auto simp: unique_on_def)
qed

section \<open>Invoices and their items\<close>

abbreviation billed :: "invoice_item_row \<Rightarrow> bool" where
  "billed i \<equiv> ii_contract_item_id i \<noteq> [] \<and> ii_period_start i \<noteq> None"

abbreviation billed_period :: "invoice_item_row \<Rightarrow> string \<times> string \<times> date option" where
  "billed_period i \<equiv> (iir_org i, ii_contract_item_id i, ii_period_start i)"

definition item_from :: "env \<Rightarrow> string \<Rightarrow> string \<Rightarrow> InvoiceItemParams \<Rightarrow> invoice_item_row \<Rightarrow> bool" where
  "item_from e org rid it r \<longleftrightarrow>
     iir_org r = org \<and> iir_invoice_id r = rid \<and> ii_contract_item_id r = ip_contract_item_id it \<and>
     ii_period_start r = ip_period_start it \<and> ii_period_end r = ip_period_end it \<and> ii_pricing r = pl_attrs (ip_line it) \<and>
     ii_description r = pl_description (ip_line it) \<and>
     numeric_in (10 ^ 18) e (pl_tax_amount (ip_line it)) = Inr (iir_tax_amount r) \<and>
     numeric_in (10 ^ 18) e (pl_line_total (ip_line it)) = Inr (iir_line_total r)"

lemma insert_item_Inr:
  assumes "insert_item org rid i it e d = (Inr x, d')"
  shows "\<exists>r. d' = d\<lparr>d_next := Suc (d_next d), d_items := d_items d @ [r]\<rparr> \<and> item_from e org rid it r \<and> passes (item_checks d r)"
  using assms
  by (clarsimp simp add: insert_item_def Let_def tx_simps item_from_def split del: if_split)
     (rule exI, rule conjI, rule refl, simp)

lemma insertItems_Inr:
  "insertItems org rid i its e d = (Inr x, d') \<Longrightarrow>
     \<exists>rs n. d' = d\<lparr>d_next := n, d_items := d_items d @ rs\<rparr> \<and> list_all2 (item_from e org rid) its rs \<and>
       (unique_on billed billed_period (d_items d) \<longrightarrow> unique_on billed billed_period (d_items d @ rs)) \<and>
       (unique_on (\<lambda>_. True) ii_id (d_items d) \<longrightarrow> unique_on (\<lambda>_. True) ii_id (d_items d @ rs))"
proof (induction org rid i its arbitrary: d x rule: insertItems.induct)
  case (1 org rid i)
  then show ?case by (auto simp: tx_simps intro!: exI [of _ "d_next d"])
next
  case (2 org rid i it its)
  then obtain y d1 where one: "insert_item org rid i it e d = (Inr y, d1)" and
    rest: "insertItems org rid (Suc i) its e d1 = (Inr x, d')" by (auto simp: tx_simps)
  obtain r where r: "d1 = d\<lparr>d_next := Suc (d_next d), d_items := d_items d @ [r]\<rparr>" "item_from e org rid it r" "passes (item_checks d r)"
    using insert_item_Inr [OF one] by blast
  obtain rs n where rs: "d' = d1\<lparr>d_next := n, d_items := d_items d1 @ rs\<rparr>" "list_all2 (item_from e org rid) its rs"
    "unique_on billed billed_period (d_items d1) \<longrightarrow> unique_on billed billed_period (d_items d1 @ rs)"
    "unique_on (\<lambda>_. True) ii_id (d_items d1) \<longrightarrow> unique_on (\<lambda>_. True) ii_id (d_items d1 @ rs)"
    using 2(1) [OF rest] by blast
  have "unique_on billed billed_period (d_items d) \<longrightarrow> unique_on billed billed_period (d_items d1)"
    "unique_on (\<lambda>_. True) ii_id (d_items d) \<longrightarrow> unique_on (\<lambda>_. True) ii_id (d_items d1)"
    using r(1,3) by (auto simp: item_checks_def)
  then show ?case using r(1,2) rs by (intro exI [of _ "r # rs"] exI [of _ n]) auto
qed

lemma invoice_create_Inr:
  assumes "invoice_create_tx org p e d = (Inr i, d')"
  obtains rid d1 where "insert_invoice org p e d = (Inr rid, d1)" "insertItems org rid 0 (cp_items p) e d1 = (Inr (), d')"
    "findInTx org (\<lambda>r. in_id r = rid) e d' = (Inr i, d')"
  using assms unfolding invoice_create_tx_def by (auto simp: tx_simps findInTx_Inr)

definition own_item :: "string \<Rightarrow> string \<Rightarrow> invoice_item_row \<Rightarrow> bool" where
  "own_item org rid i \<longleftrightarrow> iir_invoice_id i = rid \<and> iir_org i = org"

definition redrafts :: "env \<Rightarrow> CreateInvoiceParams \<Rightarrow> (invoice_row \<Rightarrow> invoice_row) \<Rightarrow> bool" where
  "redrafts e p f \<longleftrightarrow>
     (\<forall>r. in_id (f r) = in_id r \<and> ir_org (f r) = ir_org r \<and> in_number (f r) = in_number r \<and> in_status (f r) = in_status r \<and>
          in_source_type (f r) = in_source_type r \<and> in_source_id (f r) = in_source_id r \<and> in_contract_id (f r) = in_contract_id r \<and>
          in_idempotency_key (f r) = in_idempotency_key r \<and> in_issue_date (f r) = in_issue_date r \<and> in_due_date (f r) = in_due_date r \<and>
          in_paid_at (f r) = in_paid_at r \<and> in_voided_at (f r) = in_voided_at r \<and> ir_amount_paid (f r) = ir_amount_paid r \<and>
          numeric_in (10 ^ 18) e (t_grand_total (cp_totals p)) = Inr (ir_grand_total (f r)))"

lemma replace_draft_Inr:
  assumes "replace_draft_tx org rid p e d = (Inr i, d')"
  obtains r f d1 where "query_row (invoice_key org rid) (d_invoices d) = Inr r" "in_status r = InvoiceDraft"
    "redrafts e p f" "ir_amount_paid r \<le> ir_grand_total (f r)"
    "d1 = d\<lparr>d_invoices := update_where (invoice_key org rid) f (d_invoices d), d_items := filter (\<lambda>i. \<not> own_item org rid i) (d_items d)\<rparr>"
    "insertItems org rid 0 (cp_items p) e d1 = (Inr (), d')"
proof -
  define f where "f = (\<lambda>sub disc tax grand (r :: invoice_row). r\<lparr>in_account_id := cp_account_id p, in_period_start := cp_period_start p,
               in_period_end := cp_period_end p, in_currency := (if cp_currency p = [] then in_currency r else cp_currency p),
               in_channels := channelsOrDefault (cp_channels p), in_pic_user_id := cp_pic_user_id p, in_notes := cp_notes p,
               in_updated_at := e_now e, ir_subtotal := sub, ir_discount_total := disc, ir_tax_total := tax, ir_grand_total := grand,
               ir_updated_by := cp_created_by p\<rparr>)"
  from assms obtain r sub disc tax grand where
    r: "query_row (invoice_key org rid) (d_invoices d) = Inr r" "in_status r = InvoiceDraft" "ir_amount_paid r \<le> grand"
      "numeric_in (10 ^ 18) e (t_grand_total (cp_totals p)) = Inr grand" and
    ins: "insertItems org rid 0 (cp_items p) e (d\<lparr>d_invoices := update_where (invoice_key org rid) (f sub disc tax grand) (d_invoices d),
        d_items := filter (\<lambda>i. \<not> own_item org rid i) (d_items d)\<rparr>) = (Inr (), d')"
    unfolding replace_draft_tx_def f_def own_item_def
    by (clarsimp simp add: Let_def tx_simps lock_invoice_Inr update_invoice_def findInTx_Inr split del: if_split)
  have "redrafts e p (f sub disc tax grand)" "ir_amount_paid r \<le> ir_grand_total (f sub disc tax grand r)"
    using r by (simp_all add: redrafts_def f_def)
  then show thesis using that [OF r(1,2) _ _ refl ins] by blast
qed

section \<open>Payments and sends\<close>

lemma numeric_any_Inr [tx_simps]: "numeric_any s e d = (Inr a, d') \<longleftrightarrow> e_numeric e s = Some a \<and> d' = d"
  by (auto simp: numeric_any_def split: option.splits)

lemma numeric_in_Inr: "numeric_in b e s = Inr k \<longleftrightarrow> (\<exists>a. e_numeric e s = Some a \<and> k = round_cents a \<and> \<bar>k\<bar> < b)"
  by (auto simp: numeric_in_def split: option.splits)

definition payment_from :: "env \<Rightarrow> string \<Rightarrow> string \<Rightarrow> PaymentParams \<Rightarrow> payment_row \<Rightarrow> bool" where
  "payment_from e org rid p y \<longleftrightarrow>
     pr_org y = org \<and> pr_invoice_id y = rid \<and> pr_method y = pp_method p \<and> pr_reference y = pp_reference p \<and> pr_paid_at y = pp_paid_at p \<and>
     numeric_in (10 ^ 18) e (pp_amount p) = Inr (pr_amount y)"

lemma recorder_Inr [tx_simps]:
  "recorder s e d = (Inr u, d') \<longleftrightarrow> d' = d \<and> (if s = [] then u = [] else e_uuid_in e s = Some u)"
  by (auto simp: recorder_def tx_simps split: option.splits)

lemma insert_payment_Inr:
  assumes "insert_payment org rid p e d = (Inr y, d')"
  shows "d' = d\<lparr>d_next := Suc (d_next d), d_payments := d_payments d @ [y]\<rparr> \<and> payment_from e org rid p y \<and> passes (payment_checks e d y)"
  using assms by (clarsimp simp add: insert_payment_def Let_def tx_simps payment_from_def)

lemma record_new_Inr:
  assumes "record_new org rid p r e d = (Inr (i, y, b), d')"
  shows "\<exists>a row. (in_status r = InvoiceIssued \<or> in_status r = InvoiceOverdue) \<and> e_numeric e (pp_amount p) = Some a \<and>
     a \<le> cents (ir_grand_total r - ir_amount_paid r) \<and> payment_from e org rid p row \<and> passes (payment_checks e d row) \<and> b \<and>
     y = scanPayment row \<and>
     0 \<le> ir_amount_paid (apply_payment a (pp_paid_at p) (e_now e) r) \<and>
     ir_amount_paid (apply_payment a (pp_paid_at p) (e_now e) r) \<le> ir_grand_total r \<and>
     d' = d\<lparr>d_next := Suc (d_next d), d_payments := d_payments d @ [row],
            d_invoices := update_where (invoice_key org rid) (apply_payment a (pp_paid_at p) (e_now e)) (d_invoices d)\<rparr> \<and>
     findInTx org (\<lambda>x. in_id x = rid) e d' = (Inr i, d')"
proof -
  from assms obtain a row d1 where
    *: "in_status r = InvoiceIssued \<or> in_status r = InvoiceOverdue" "e_numeric e (pp_amount p) = Some a"
      "a \<le> cents (ir_grand_total r - ir_amount_paid r)" "insert_payment org rid p e d = (Inr row, d1)" "b" "y = scanPayment row"
      "0 \<le> ir_amount_paid (apply_payment a (pp_paid_at p) (e_now e) r)"
      "ir_amount_paid (apply_payment a (pp_paid_at p) (e_now e) r) \<le> ir_grand_total (apply_payment a (pp_paid_at p) (e_now e) r)"
      "d' = d1\<lparr>d_invoices := update_where (invoice_key org rid) (apply_payment a (pp_paid_at p) (e_now e)) (d_invoices d1)\<rparr>"
      "findInTx org (\<lambda>x. in_id x = rid) e d' = (Inr i, d')"
    unfolding record_new_def Let_def by (auto simp: tx_simps update_invoice_def findInTx_Inr)
  note ins = insert_payment_Inr [OF *(4)]
  have "ir_grand_total (apply_payment a t n r) = ir_grand_total r" for t n by (simp add: apply_payment_def Let_def)
  with * ins show ?thesis by (intro exI [of _ a] exI [of _ row]) simp
qed

lemma record_Inr:
  assumes "record_tx org rid p e d = (Inr (i, y, b), d')"
  obtains (replay) row where "d' = d" "b = False" "row \<in> set (d_payments d)" "provider_payment org p row"
    "pp_reference p \<noteq> []" "pp_method p \<noteq> ''manual''" "y = scanPayment row"
    "findInTx org (\<lambda>x. in_id x = pr_invoice_id row) e d = (Inr i, d)"
  | (fresh) r where "query_row (invoice_key org rid) (d_invoices d) = Inr r"
    "\<And>row. pp_reference p \<noteq> [] \<Longrightarrow> pp_method p \<noteq> ''manual'' \<Longrightarrow> row \<in> set (d_payments d) \<Longrightarrow> \<not> provider_payment org p row"
    "record_new org rid p r e d = (Inr (i, y, b), d')"
proof -
  from assms obtain r where r: "query_row (invoice_key org rid) (d_invoices d) = Inr r" and
    k: "(case (if pp_reference p \<noteq> [] \<and> pp_method p \<noteq> ''manual'' then List.find (provider_payment org p) (d_payments d) else None) of
         Some y \<Rightarrow> chain (findInTx org (\<lambda>i. in_id i = pr_invoice_id y)) (\<lambda>i. ret (i, scanPayment y, False))
       | None \<Rightarrow> record_new org rid p r) e d = (Inr (i, y, b), d')"
    by (auto simp: record_tx_def tx_simps lock_invoice_Inr)
  show thesis
  proof (cases "if pp_reference p \<noteq> [] \<and> pp_method p \<noteq> ''manual'' then List.find (provider_payment org p) (d_payments d) else None")
    case None
    then show thesis using r k by (intro fresh) (auto simp: find_None_iff split: if_splits)
  next
    case (Some row)
    then show thesis using k by (intro replay [of row]) (auto simp: find_Some_iff tx_simps findInTx_Inr split: if_splits)
  qed
qed

lemma send_record_Inr:
  assumes "send_record_tx org p e d = (Inr s, d')"
  shows "\<exists>r. d' = d\<lparr>d_next := Suc (d_next d), d_sends := d_sends d @ [r]\<rparr> \<and> sr_org r = org \<and> sd_invoice_id r = sp_invoice_id p \<and>
     sd_client_request_id r = sp_client_request_id p \<and> sd_status r = sp_status p \<and> sd_channel r = sp_channel p \<and> s = scanSend e r \<and>
     (\<forall>x \<in> set (d_sends d). sd_id x \<noteq> sd_id r) \<and>
     (sp_client_request_id p = [] \<or> \<not> (\<exists>x \<in> set (d_sends d). sr_org x = org \<and> sd_invoice_id x = sp_invoice_id p \<and>
        sd_client_request_id x = sp_client_request_id p))"
  using assms by (clarsimp simp add: send_record_tx_def Let_def tx_simps split del: if_split) (rule exI, rule conjI, rule refl, simp)

section \<open>Contracts\<close>

lemma insert_contract_Inr:
  assumes "insert_contract org p e d = (Inr rid, d')"
  shows "\<exists>r. d' = d\<lparr>d_next := Suc (d_next d), d_contracts := d_contracts d @ [r]\<rparr> \<and> cr_org r = org \<and> ct_id r = rid \<and>
     ct_status r = ContractActive \<and> ct_number r = ccp_number p \<and> ct_start_date r = ccp_start_date p \<and> ct_end_date r = None \<and>
     ct_source_id r = ccp_source_id p \<and> ct_source_type r = (if ccp_source_type p = [] then SourceManual else ccp_source_type p) \<and>
     ct_account_id r = ccp_account_id p \<and> ct_ended_at r = None \<and> passes (contract_checks d r)"
  using assms
  by (clarsimp simp add: insert_contract_def Let_def tx_simps split del: if_split) (rule exI, rule conjI, rule refl, simp)

definition citem_from :: "string \<Rightarrow> string \<Rightarrow> ContractItemParams \<Rightarrow> contract_item_row \<Rightarrow> bool" where
  "citem_from org rid it r \<longleftrightarrow>
     cir_org r = org \<and> cir_contract_id r = rid \<and> ci_frequency r = cip_frequency it \<and> ci_payment_timing r = cip_payment_timing it \<and>
     ci_period_index r = cip_period_index it \<and> ci_next_start r = cip_next_start it \<and> ci_next_end r = cip_next_end it \<and>
     0 \<le> ci_period_index r"

lemma insert_contract_item_Inr:
  assumes "insert_contract_item org rid i it e d = (Inr x, d')"
  shows "\<exists>r. d' = d\<lparr>d_next := Suc (d_next d), d_citems := d_citems d @ [r]\<rparr> \<and> citem_from org rid it r \<and> (\<forall>y \<in> set (d_citems d). ci_id y \<noteq> ci_id r)"
  using assms
  by (clarsimp simp add: insert_contract_item_def Let_def tx_simps citem_from_def contract_item_checks_def split del: if_split)
     (rule exI, rule conjI, rule refl, simp)

lemma insert_contract_items_Inr:
  "insert_contract_items org rid i its e d = (Inr x, d') \<Longrightarrow>
     \<exists>rs n. d' = d\<lparr>d_next := n, d_citems := d_citems d @ rs\<rparr> \<and> list_all2 (citem_from org rid) its rs \<and>
       (unique_on (\<lambda>_. True) ci_id (d_citems d) \<longrightarrow> unique_on (\<lambda>_. True) ci_id (d_citems d @ rs))"
proof (induction org rid i its arbitrary: d x rule: insert_contract_items.induct)
  case (1 org rid i)
  then show ?case by (auto simp: tx_simps intro!: exI [of _ "d_next d"])
next
  case (2 org rid i it its)
  then obtain y d1 where one: "insert_contract_item org rid i it e d = (Inr y, d1)" and
    rest: "insert_contract_items org rid (Suc i) its e d1 = (Inr x, d')" by (auto simp: tx_simps)
  obtain r where r: "d1 = d\<lparr>d_next := Suc (d_next d), d_citems := d_citems d @ [r]\<rparr>" "citem_from org rid it r"
    "\<forall>y \<in> set (d_citems d). ci_id y \<noteq> ci_id r"
    using insert_contract_item_Inr [OF one] by blast
  obtain rs n where rs: "d' = d1\<lparr>d_next := n, d_citems := d_citems d1 @ rs\<rparr>" "list_all2 (citem_from org rid) its rs"
    "unique_on (\<lambda>_. True) ci_id (d_citems d1) \<longrightarrow> unique_on (\<lambda>_. True) ci_id (d_citems d1 @ rs)"
    using 2(1) [OF rest] by blast
  show ?case using r rs by (intro exI [of _ "r # rs"] exI [of _ n]) auto
qed

lemma contract_create_Inr:
  assumes "contract_create_tx org p e d = (Inr c, d')"
  obtains rid d1 where "insert_contract org p e d = (Inr rid, d1)" "insert_contract_items org rid 0 (ccp_items p) e d1 = (Inr (), d')"
    "findContractInTx org (\<lambda>r. ct_id r = rid) e d' = (Inr c, d')"
  using assms unfolding contract_create_tx_def by (auto simp: tx_simps findContractInTx_Inr)

lemma updateActive_Inr:
  assumes "updateActive org rid check f e d = (Inr c, d')"
  shows "\<exists>p. p = (\<lambda>r. contract_key org rid r \<and> ct_status r = ContractActive) \<and> (\<exists>r \<in> set (d_contracts d). p r) \<and>
     (\<forall>r \<in> set (d_contracts d). p r \<longrightarrow> check r) \<and> d' = d\<lparr>d_contracts := update_where p (f (e_now e)) (d_contracts d)\<rparr> \<and>
     findContractInTx org (\<lambda>r. ct_id r = rid) e d' = (Inr c, d')"
  using assms by (auto simp: updateActive_def Let_def tx_simps affected_0 findContractInTx_Inr split: if_splits)

lemma advance_Inr:
  "advance_tx org itemID from s t e d = (Inr b, d') \<Longrightarrow>
     d' = d\<lparr>d_citems := update_where (item_at org itemID from)
            (\<lambda>i. i\<lparr>ci_period_index := ci_period_index i + 1, ci_next_start := s, ci_next_end := t\<rparr>) (d_citems d)\<rparr> \<and>
     b = (affected (item_at org itemID from) (d_citems d) = 1) \<and> (affected (item_at org itemID from) (d_citems d) = 0 \<or> 0 \<le> from + 1)"
  by (auto simp: advance_tx_def Let_def tx_simps)

lemma end_expired_Inr:
  "end_expired_tx org today e d = (Inr refs, d') \<Longrightarrow>
     d' = d\<lparr>d_contracts := update_where (expired org today d)
                (\<lambda>c. c\<lparr>ct_status := ContractEnded, ct_end_reason := ''Masa kontrak berakhir'', ct_ended_at := Some (e_now e),
                       ct_updated_at := e_now e\<rparr>) (d_contracts d)\<rparr> \<and>
     refs = map (\<lambda>c. \<lparr>cf_id = ct_id c, cf_number = ct_number c, cf_source_id = ct_source_id c, cf_source_type = ct_source_type c\<rparr>)
              (filter (expired org today d) (d_contracts d))"
  by (auto simp: end_expired_tx_def Let_def tx_simps)

section \<open>Links, checkouts, ledger\<close>

lemma link_insert_Inr:
  assumes "link_insert_tx org docType docID hash enc expiresAt u e d = (Inr l, d')"
  shows "\<exists>r. d' = d\<lparr>d_next := Suc (d_next d), d_links := d_links d @ [r]\<rparr> \<and> lk_org r = org \<and> active_link org docType docID r \<and>
     lr_token_enc r = enc \<and> lr_hash r = hash \<and> lk_expires_at r = expiresAt \<and> l = link_of r \<and>
     \<not> (\<exists>x \<in> set (d_links d). active_link org docType docID x) \<and> (\<forall>x \<in> set (d_links d). lr_hash x \<noteq> hash) \<and>
     (\<forall>x \<in> set (d_links d). lk_id x \<noteq> lk_id r)"
  using assms
  by (clarsimp simp add: link_insert_tx_def Let_def tx_simps split del: if_split) (rule exI, rule conjI, rule refl, simp add: active_link_def)

lemma checkout_create_Inr:
  assumes "checkout_create_tx org i num amount url t e d = (Inr c, d')"
  shows "d' = d\<lparr>d_next := Suc (d_next d), d_checkouts := d_checkouts d @ [c]\<rparr> \<and> ck_org c = org \<and> ck_invoice_id c = i \<and>
     ck_doku_number c = num \<and> ck_status c = ''pending'' \<and> ck_payment_url c = url \<and> ck_expires_at c = t \<and>
     (\<forall>x \<in> set (d_checkouts d). ck_id x \<noteq> ck_id c)"
  using assms by (clarsimp simp add: checkout_create_tx_def Let_def tx_simps)

lemma checkout_status_Inr:
  "checkout_status_tx cid s e d = (Inr x, d') \<Longrightarrow>
     d' = d\<lparr>d_checkouts := update_where (\<lambda>c. ck_id c = cid) (\<lambda>c. c\<lparr>ck_status := s\<rparr>) (d_checkouts d)\<rparr>"
  by (auto simp: checkout_status_tx_def tx_simps)

lemma numeric20_Inr [tx_simps]: "numeric20 s e d = (Inr k, d') \<longleftrightarrow> numeric_in (10 ^ 20) e s = Inr k \<and> d' = d"
  by (auto simp: numeric20_def)

lemma settlement_insert_payment_Inr:
  assumes "settlement_insert_payment_tx p e d = (Inr b, d')"
  shows "(\<not> b \<and> d' = d\<lparr>d_next := Suc (d_next d)\<rparr> \<and>
      (\<exists>x \<in> set (d_settlements d). sl_kind x = ''payment'' \<and> sl_provider_reference x = sm_provider_reference p)) \<or>
    (b \<and> (\<exists>r. d' = d\<lparr>d_next := Suc (d_next d), d_settlements := d_settlements d @ [r]\<rparr> \<and> sl_kind r = ''payment'' \<and> sl_org r = sm_org p \<and>
       sl_provider_reference r = sm_provider_reference p \<and> 0 < sl_amount r \<and> numeric_in (10 ^ 20) e (sm_amount p) = Inr (sl_amount r) \<and>
       \<not> (\<exists>x \<in> set (d_settlements d). sl_kind x = ''payment'' \<and> sl_provider_reference x = sm_provider_reference p)))"
  using assms
  by (cases "\<exists>x \<in> set (d_settlements d). sl_kind x = ''payment'' \<and> sl_provider_reference x = sm_provider_reference p")
     (clarsimp simp add: settlement_insert_payment_tx_def Let_def tx_simps settlement_checks_def,
      clarsimp simp add: settlement_insert_payment_tx_def Let_def tx_simps settlement_checks_def,
      rule exI, rule conjI, rule refl, simp)

lemma insert_manual_Inr:
  assumes "insert_manual_tx i check e d = (Inr x, d')"
  shows "\<exists>r. d' = d\<lparr>d_next := Suc (d_next d), d_settlements := d_settlements d @ [r]\<rparr> \<and> check (totals_in (sme_org i) (d_settlements d)) = None \<and>
     sl_kind r = sme_kind i \<and> sl_org r = sme_org i \<and> numeric_in (10 ^ 20) e (sme_amount i) = Inr (sl_amount r) \<and>
     passes (settlement_checks e d r) \<and> x = scanSettlementEntry r"
proof -
  have nx: "settlement_checks e (d\<lparr>d_next := n\<rparr>) r = settlement_checks e d r" for n r by (simp add: settlement_checks_def)
  from assms show ?thesis
    by (clarsimp simp add: insert_manual_tx_def Let_def tx_simps queryTotals_def nx split: option.splits)
       (rule exI, rule conjI, rule refl, simp)
qed

end
