(* ===== verification/Documents.thy ===== *)
theory Documents
  imports Changes
begin

text \<open>
  The documents of an invoice: its public link (\<open>src/internal/shared/publiclink/service.go\<close>) and its
  PDF snapshot (\<open>service/issue.go\<close>).  Calls to adapters are numbered by the tick, so that each of
  them may fail on its own, and leave an event behind.
\<close>

section \<open>Adapters\<close>

definition external :: "event \<Rightarrow> (env \<Rightarrow> nat \<Rightarrow> err + 'a) \<Rightarrow> 'a io" where
  "external ev f = (\<lambda>e w. (f e (w_tick w), (tick w)\<lparr>w_events := w_events w @ [ev]\<rparr>))"

text \<open>An error that is only logged.\<close>

definition ignore :: "'a io \<Rightarrow> unit io" where
  "ignore m = attempt m (\<lambda>_. ret ())"

section \<open>Public links (publiclink/service.go, token.go)\<close>

definition NewToken :: "string io" where
  "NewToken = (\<lambda>e w. (e_token e (w_tick w), tick w))"

definition Link_reuse :: "string \<Rightarrow> Link \<Rightarrow> string \<Rightarrow> instant \<Rightarrow> Link io" where
  "Link_reuse org link enc expiresAt =
     ask e_decrypt (\<lambda>decrypt. chain (lift (decrypt enc)) (\<lambda>token.
     chain (if lk_expires_at link \<noteq> expiresAt then Links_UpdateExpiry org (lk_id link) expiresAt else ret ()) (\<lambda>_.
     ret (link\<lparr>lk_expires_at := expiresAt, lk_token := token\<rparr>))))"

definition Link_Ensure :: "string \<Rightarrow> string \<Rightarrow> string \<Rightarrow> instant \<Rightarrow> string \<Rightarrow> Link io" where
  "Link_Ensure org docType docID expiresAt createdBy =
     attempt (Links_FindActive org docType docID) (\<lambda>found.
       case found of
         Inr (link, enc) \<Rightarrow> Link_reuse org link enc expiresAt
       | Inl er \<Rightarrow>
           if er \<noteq> NoRows then raise er
           else chain NewToken (\<lambda>token. ask e_encrypt (\<lambda>encrypt. chain (lift (encrypt token)) (\<lambda>enc. ask e_hash (\<lambda>hash.
                attempt (Links_Insert org docType docID (hash token) enc expiresAt createdBy) (\<lambda>inserted.
                  case inserted of
                    Inr link \<Rightarrow> ret (link\<lparr>lk_token := token\<rparr>)
                  | Inl (UniqueViolation _) \<Rightarrow>
                      chain (Links_FindActive org docType docID) (\<lambda>(link, enc'). Link_reuse org link enc' expiresAt)
                  | Inl er2 \<Rightarrow> raise er2))))))"

definition Link_Revoke :: "string \<Rightarrow> string \<Rightarrow> string \<Rightarrow> unit io" where
  "Link_Revoke org docType docID = ask e_now (\<lambda>now. Links_Revoke org docType docID now)"

definition Link_Resolve :: "string \<Rightarrow> Link io" where
  "Link_Resolve token =
     (if token = [] then raise ErrLinkInvalid
      else ask e_hash (\<lambda>hash. map_error (\<lambda>er. if er = NoRows then ErrLinkInvalid else er) (Links_FindByHash (hash token))))"

definition Link_Touch :: "Link \<Rightarrow> unit io" where
  "Link_Touch link = ask e_now (\<lambda>now. ignore (Links_Touch (lk_id link) now))"

section \<open>Reading an invoice (invoice_service.go)\<close>

definition invoice_not_found :: "err \<Rightarrow> err" where
  "invoice_not_found er = (if er = NoRows then ErrInvoiceNotFound else er)"

definition Invoice_Get :: "string \<Rightarrow> string \<Rightarrow> Invoice io" where
  "Invoice_Get org rid = map_error invoice_not_found (Invoices_FindByID org rid)"

section \<open>Dates (issue.go)\<close>

definition linkGraceDays :: int where "linkGraceDays = 90"

text \<open>23:59:59 of a day in WIB, as an instant.\<close>

definition LinkExpiry :: "Invoice \<Rightarrow> instant \<Rightarrow> instant" where
  "LinkExpiry i now =
     (let base = (case in_due_date i of
                    Some d \<Rightarrow> d
                  | None \<Rightarrow> (case in_issue_date i of Some d \<Rightarrow> d | None \<Rightarrow> DayOf now));
          d = AddDate base 0 0 linkGraceDays
      in DayStartUTC d + (23 * 3600 + 59 * 60 + 59) * 10 ^ 9)"

definition dueDate :: "date \<Rightarrow> int \<Rightarrow> date option \<Rightarrow> date" where
  "dueDate issue terms periodStart =
     (let due = AddDate issue 0 0 terms in
      case periodStart of Some s \<Rightarrow> (if due < s then s else due) | None \<Rightarrow> due)"

section \<open>The PDF snapshot (issue.go)\<close>

definition render :: "string \<Rightarrow> Invoice \<Rightarrow> (string \<times> string) io" where
  "render org i =
     ask e_issuers (\<lambda>issuers. ask e_renderer (\<lambda>renderer. ask e_now (\<lambda>now.
       case (issuers, renderer) of
         (Some profile, Some draw) \<Rightarrow>
           chain (lift (profile org)) (\<lambda>issuer.
             let doc = Build i issuer now in
             chain (lift (draw doc)) (\<lambda>content. ret (content, dc_filename doc)))
       | _ \<Rightarrow> raise ErrDocumentsUnavailable)))"

definition delete_object :: "string \<Rightarrow> string \<Rightarrow> unit io" where
  "delete_object org asset =
     ask e_files (\<lambda>files. case files of
         None \<Rightarrow> ret ()
       | Some fs \<Rightarrow> external (EvDelete org asset) (\<lambda>_ n. case fl_delete fs n org asset of None \<Rightarrow> Inr () | Some er \<Rightarrow> Inl er))"

text \<open>Returns the asset and its content.\<close>

definition storeSnapshot :: "string \<Rightarrow> string \<Rightarrow> string \<Rightarrow> (string \<times> string) io" where
  "storeSnapshot org rid userID =
     ask e_files (\<lambda>files. case files of
         None \<Rightarrow> raise ErrDocumentsUnavailable
       | Some fs \<Rightarrow>
           chain (Invoice_Get org rid) (\<lambda>i.
           chain (render org i) (\<lambda>(content, filename).
           chain (external (EvUpload org filename) (\<lambda>_ n. fl_upload fs n org filename content)) (\<lambda>asset.
           attempt (Invoices_SetPDF org rid asset) (\<lambda>linked.
             case linked of
               Inr _ \<Rightarrow> ret (asset, content)
             | Inl er \<Rightarrow> chain (ignore (delete_object org asset)) (\<lambda>_. raise er))))))"

definition RefreshSnapshot :: "string \<Rightarrow> string \<Rightarrow> unit io" where
  "RefreshSnapshot org rid =
     chain (Invoice_Get org rid) (\<lambda>i.
       if in_number i = [] then ret ()
       else chain (storeSnapshot org rid []) (\<lambda>_.
            case in_pdf_asset_id i of
              None \<Rightarrow> ret ()
            | Some old \<Rightarrow> ignore (delete_object org old)))"

definition maxInvoicePDFBytes :: nat where "maxInvoicePDFBytes = 10 * 2 ^ 20"

definition Invoice_PDF :: "string \<Rightarrow> string \<Rightarrow> (string \<times> string) io" where
  "Invoice_PDF org rid =
     chain (Invoice_Get org rid) (\<lambda>i.
       if in_status i = InvoiceDraft then chain (render org i) (\<lambda>(content, filename). ret (filename, content))
       else let filename = in_number i @ ''.pdf'' in
            case in_pdf_asset_id i of
              None \<Rightarrow> chain (storeSnapshot org rid []) (\<lambda>(_, content). ret (filename, content))
            | Some asset \<Rightarrow>
                ask e_files (\<lambda>files. case files of
                    None \<Rightarrow> raise ErrDocumentsUnavailable
                  | Some fs \<Rightarrow>
                      chain (\<lambda>e w. (fl_open fs (w_tick w) org asset, tick w)) (\<lambda>content.
                      ret (filename, take maxInvoicePDFBytes content))))"

fun trim_slashes :: "string \<Rightarrow> string" where
  "trim_slashes [] = []"
| "trim_slashes (c # cs) = (let r = trim_slashes cs in if r = [] \<and> c = CHR ''/'' then [] else c # r)"

definition linkable :: "InvoiceStatus \<Rightarrow> bool" where
  "linkable s \<longleftrightarrow> s = InvoiceIssued \<or> s = InvoiceOverdue \<or> s = InvoicePaid"

definition Invoice_Link :: "string \<Rightarrow> string \<Rightarrow> string \<Rightarrow> (string \<times> instant) io" where
  "Invoice_Link org rid userID =
     chain (Invoice_Get org rid) (\<lambda>i.
     chain (ensure (linkable (in_status i)) ErrInvoiceNotSendable) (\<lambda>_. ask e_links (\<lambda>links.
     chain (ensure links ErrDocumentsUnavailable) (\<lambda>_. ask e_now (\<lambda>now.
     chain (Link_Ensure org DocumentInvoice (in_id i) (LinkExpiry i now) userID) (\<lambda>link. ask e_frontend_url (\<lambda>url.
     ret (trim_slashes url @ ''/i/'' @ lk_token link, lk_expires_at link))))))))"

end
