(* ===== verification/Sending.thy ===== *)
theory Sending
  imports Documents
begin

text \<open>
  Delivery of an invoice: \<open>service/activation_payment.go\<close> (the online payment gate),
  \<open>send_message.go\<close> (the message) and \<open>send_service.go\<close> (manual and automatic sends, their log and the
  notice of a failure).
\<close>

section \<open>The online payment gate (activation_payment.go)\<close>

definition onlinePaymentFeature :: string where "onlinePaymentFeature = ''receivable.online_payment''"
definition activationPaymentFeature :: string where "activationPaymentFeature = ''landing.page_activation''"

definition onlinePaymentAllowed :: "env \<Rightarrow> string \<Rightarrow> string \<Rightarrow> bool" where
  "onlinePaymentAllowed e org invoiceID =
     (case e_entitled e of
        None \<Rightarrow> False
      | Some entitled \<Rightarrow>
          if entitled org onlinePaymentFeature then True
          else (case e_activation e of
                  None \<Rightarrow> False
                | Some isActivation \<Rightarrow>
                    (case isActivation org invoiceID of
                       Inl _ \<Rightarrow> False
                     | Inr b \<Rightarrow> b \<and> entitled org activationPaymentFeature)))"

section \<open>The message (send_message.go)\<close>

text \<open>\<open>html.EscapeString\<close>.\<close>

fun EscapeString :: "string \<Rightarrow> string" where
  "EscapeString [] = []"
| "EscapeString (c # cs) =
     (if c = CHR ''&'' then ''&amp;'' else if c = CHR 0x27 then ''&#39;'' else if c = CHR ''<'' then ''&lt;''
      else if c = CHR ''>'' then ''&gt;'' else if c = CHR 0x22 then ''&#34;'' else [c]) @ EscapeString cs"

fun break_lines :: "string \<Rightarrow> string" where
  "break_lines [] = []"
| "break_lines (c # cs) = (if c = CHR 0x0A then ''<br>'' else [c]) @ break_lines cs"

fun join_lines :: "string list \<Rightarrow> string" where
  "join_lines [] = []"
| "join_lines [l] = l"
| "join_lines (l # ls) = l @ CHR 0x0A # join_lines ls"

definition defaultOpening :: "Invoice \<Rightarrow> string" where
  "defaultOpening i =
     (let name = (let n = TrimSpace (ac_name (inv_account i)) in if n = [] then ''Bapak/Ibu'' else n);
          amount = FormatRupiah (inv_grand_total i)
      in if in_status i = InvoicePaid
         then ''Halo '' @ name @ '', terima kasih. Invoice '' @ in_number i @ '' sebesar '' @ amount @ '' sudah lunas.''
         else let due = (case in_due_date i of None \<Rightarrow> [] | Some d \<Rightarrow> '', jatuh tempo '' @ FormatDateID (at_midnight d))
              in ''Halo '' @ name @ '', berikut invoice '' @ in_number i @ '' sebesar '' @ amount @ due @ ''.'')"

definition message_lines :: "Invoice \<Rightarrow> string \<Rightarrow> string list" where
  "message_lines i opening =
     [if opening = [] then defaultOpening i else opening]
     @ (case (in_period_start i, in_period_end i) of
          (Some a, Some b) \<Rightarrow> [''Periode: '' @ FormatDateID (at_midnight a) @ en_dash @ FormatDateID (at_midnight b)]
        | _ \<Rightarrow> [])
     @ (case SetString (inv_amount_paid i) of
          Some paid \<Rightarrow> if 0 < paid \<and> in_status i \<noteq> InvoicePaid then [''Sisa tagihan: '' @ FormatRupiah (Balance i)] else []
        | None \<Rightarrow> [])"

definition link_label :: "Invoice \<Rightarrow> string \<Rightarrow> bool \<Rightarrow> string" where
  "link_label i link canPay =
     (if link = [] then [] else if canPay \<and> in_status i \<noteq> InvoicePaid then ''Lihat & bayar: '' else ''Lihat invoice: '')"

definition buildInvoiceMessage :: "Invoice \<Rightarrow> string \<Rightarrow> string \<Rightarrow> string \<Rightarrow> bool \<Rightarrow> string \<times> string \<times> string" where
  "buildInvoiceMessage i tenantName link opening canPay =
     (let subject = ''Invoice '' @ in_number i @ (if tenantName = [] then [] else en_dash @ tenantName);
          ls = message_lines i opening;
          label = link_label i link canPay;
          text = join_lines ls @ (if label = [] then [] else CHR 0x0A # label @ link);
          html = concat (map (\<lambda>l. ''<p>'' @ break_lines (EscapeString l) @ ''</p>'') ls)
                 @ (if label = [] then []
                    else ''<p>'' @ EscapeString label @ ''<a href='' @ CHR 0x22 # EscapeString link @ CHR 0x22 # CHR ''>'' #
                         EscapeString link @ ''</a></p>'')
      in (subject, text, html))"

record composed =
  co_subject :: string
  co_text :: string
  co_html :: string
  co_attachment :: Attachment

definition reasonNoSender :: string where
  "reasonNoSender = ''Belum ada pengirim. Atur PIC atau pengirim default di Pengaturan Penagihan.''"
definition reasonWANoContact :: string where
  "reasonWANoContact = ''WhatsApp hanya tersedia untuk pelanggan yang terhubung ke kontak CRM.''"
definition reasonPDFMissing :: string where "reasonPDFMissing = ''PDF invoice belum tersedia. Coba lagi.''"
definition reasonSendFailed :: string where "reasonSendFailed = ''Pengiriman gagal. Coba lagi nanti.''"

text \<open>The message with its attachment, or the reason it is not available.\<close>

definition compose :: "string \<Rightarrow> Invoice \<Rightarrow> string \<Rightarrow> string \<Rightarrow> (string + composed) io" where
  "compose org i opening sender =
     attempt (Invoice_PDF org (in_id i)) (\<lambda>pdf.
       case pdf of
         Inl _ \<Rightarrow> ret (Inl reasonPDFMissing)
       | Inr (filename, content) \<Rightarrow>
           attempt (Invoice_Link org (in_id i) sender) (\<lambda>linked. ask (\<lambda>e. e) (\<lambda>e.
             let link = (case linked of Inl _ \<Rightarrow> [] | Inr (url, _) \<Rightarrow> url);
                 tenantName = (case e_issuers e of
                     None \<Rightarrow> []
                   | Some profile \<Rightarrow> (case profile org of Inl _ \<Rightarrow> [] | Inr party \<Rightarrow> pa_name party));
                 (subject, text, html) =
                   buildInvoiceMessage i tenantName link (TrimSpace opening) (onlinePaymentAllowed e org (in_id i))
             in ret (Inr \<lparr>co_subject = subject, co_text = text, co_html = html,
                          co_attachment = \<lparr>at_filename = filename, at_mime = ''application/pdf'', at_content = content\<rparr>\<rparr>))))"

section \<open>One attempt on one channel (send_service.go)\<close>

record SendInput =
  si_channel :: string
  si_recipient :: string
  si_message :: string
  si_request_id :: string

record Attempt =
  tr_recipient :: string
  tr_external_id :: string
  tr_unavailable :: string
  tr_failure :: string

definition attempted :: "string \<Rightarrow> Attempt" where
  "attempted recipient = \<lparr>tr_recipient = recipient, tr_external_id = [], tr_unavailable = [], tr_failure = []\<rparr>"

definition attempt_ok :: "Attempt \<Rightarrow> bool" where
  "attempt_ok a \<longleftrightarrow> tr_unavailable a = [] \<and> tr_failure a = []"

definition attempt_reason :: "Attempt \<Rightarrow> string" where
  "attempt_reason a = (if tr_unavailable a \<noteq> [] then tr_unavailable a else tr_failure a)"

fun firstNonEmpty :: "string list \<Rightarrow> string" where
  "firstNonEmpty [] = []"
| "firstNonEmpty (v # vs) = (if v \<noteq> [] then v else firstNonEmpty vs)"

definition finish :: "Attempt \<Rightarrow> err + string \<Rightarrow> Attempt" where
  "finish res r =
     (case r of
        Inr ext \<Rightarrow> res\<lparr>tr_external_id := ext\<rparr>
      | Inl (ErrChannelUnavailable reason) \<Rightarrow> res\<lparr>tr_unavailable := reason\<rparr>
      | Inl _ \<Rightarrow> res\<lparr>tr_failure := reasonSendFailed\<rparr>)"

definition email_unavailable :: "env \<Rightarrow> string \<Rightarrow> string \<Rightarrow> string" where
  "email_unavailable e recipient sender =
     (if e_email e = None then ''Email belum dikonfigurasi.''
      else if recipient = [] then ''Pelanggan belum punya email.''
      else if \<not> e_valid_email e recipient then ''Alamat email penerima tidak valid.''
      else if sender = [] then reasonNoSender else [])"

definition attemptEmail :: "string \<Rightarrow> Invoice \<Rightarrow> SendInput \<Rightarrow> string \<Rightarrow> string \<Rightarrow> Attempt io" where
  "attemptEmail org i inp sender requestID =
     ask (\<lambda>e. e) (\<lambda>e.
     let recipient = (let t = TrimSpace (si_recipient inp) in if t = [] then TrimSpace (ac_email (inv_account i)) else t);
         res = attempted recipient;
         unavailable = email_unavailable e recipient sender
     in if unavailable \<noteq> [] then ret (res\<lparr>tr_unavailable := unavailable\<rparr>)
        else chain (compose org i (si_message inp) sender) (\<lambda>msg.
          case (msg, e_email e) of
            (Inl failure, _) \<Rightarrow> ret (res\<lparr>tr_failure := failure\<rparr>)
          | (Inr m, None) \<Rightarrow> ret res
          | (Inr m, Some send) \<Rightarrow>
              let mail = \<lparr>em_sender = sender, em_to = recipient, em_subject = co_subject m, em_html = co_html m,
                          em_contact_id = ContactID (inv_account i), em_request_id = requestID, em_attachment = co_attachment m\<rparr>
              in attempt (external (EvEmail org mail) (\<lambda>_ n. send n mail)) (\<lambda>r. ret (finish res r))))"

definition whatsapp_unavailable :: "env \<Rightarrow> Invoice \<Rightarrow> string \<Rightarrow> string" where
  "whatsapp_unavailable e i sender =
     (if e_whatsapp e = None then ''WhatsApp belum dikonfigurasi.''
      else if ContactID (inv_account i) = [] then reasonWANoContact
      else if sender = [] then reasonNoSender else [])"

text \<open>The adapter names the recipient it used, also when it fails.\<close>

definition attemptWhatsApp :: "string \<Rightarrow> Invoice \<Rightarrow> SendInput \<Rightarrow> string \<Rightarrow> Attempt io" where
  "attemptWhatsApp org i inp sender =
     ask (\<lambda>e. e) (\<lambda>e.
     let res = attempted (ac_phone (inv_account i));
         unavailable = whatsapp_unavailable e i sender
     in if unavailable \<noteq> [] then ret (res\<lparr>tr_unavailable := unavailable\<rparr>)
        else chain (compose org i (si_message inp) sender) (\<lambda>msg.
          case (msg, e_whatsapp e) of
            (Inl failure, _) \<Rightarrow> ret (res\<lparr>tr_failure := failure\<rparr>)
          | (Inr m, None) \<Rightarrow> ret res
          | (Inr m, Some send) \<Rightarrow>
              let wa = \<lparr>wa_sender = sender, wa_contact_id = ContactID (inv_account i), wa_text = co_text m,
                        wa_attachment = co_attachment m\<rparr>
              in chain (external (EvWhatsApp org wa) (\<lambda>_ n. Inr (send n wa))) (\<lambda>(r, used).
                 ret (finish (if used \<noteq> [] then res\<lparr>tr_recipient := used\<rparr> else res) r))))"

definition attempt_channel :: "string \<Rightarrow> Invoice \<Rightarrow> string \<Rightarrow> SendInput \<Rightarrow> string \<Rightarrow> string \<Rightarrow> Attempt io" where
  "attempt_channel org i channel inp sender requestID =
     (if channel = ''email'' then attemptEmail org i inp sender requestID
      else if channel = ''whatsapp'' then attemptWhatsApp org i inp sender
      else ret ((attempted [])\<lparr>tr_unavailable := ''Kanal tidak dikenal.''\<rparr>))"

section \<open>Log, notice, manual and automatic sends\<close>

definition record_send :: "string \<Rightarrow> Invoice \<Rightarrow> string \<Rightarrow> Attempt \<Rightarrow> string \<Rightarrow> string \<Rightarrow> string \<Rightarrow> Send io" where
  "record_send org i channel res trigger sentBy requestID =
     Sends_Record org \<lparr>sp_invoice_id = in_id i, sp_channel = channel, sp_recipient = tr_recipient res,
       sp_status = (if attempt_ok res then ''sent'' else ''failed''), sp_error = attempt_reason res,
       sp_external_id = tr_external_id res, sp_client_request_id = requestID, sp_trigger = trigger, sp_sent_by = sentBy\<rparr>"

definition channelLabel :: "string \<Rightarrow> string" where
  "channelLabel channel = (if channel = ''whatsapp'' then ''WhatsApp'' else ''Email'')"

definition failure_recipients :: "env \<Rightarrow> string \<Rightarrow> Invoice \<Rightarrow> Member list" where
  "failure_recipients e org i =
     (case e_members e of
        None \<Rightarrow> []
      | Some lookup \<Rightarrow>
          let pic = (if in_pic_user_id i = [] then []
                     else case lookup org (in_pic_user_id i) of Inr m \<Rightarrow> [m] | Inl _ \<Rightarrow> [])
          in if pic \<noteq> [] then pic
             else (case e_members_with e org ''invoice.send'' of Inl _ \<Rightarrow> [] | Inr ms \<Rightarrow> ms))"

definition notifyFailure :: "string \<Rightarrow> Invoice \<Rightarrow> string \<Rightarrow> Attempt \<Rightarrow> unit io" where
  "notifyFailure org i channel res =
     ask (\<lambda>e. e) (\<lambda>e.
       if \<not> e_notifier e then ret ()
       else each (\<lambda>m. event (EvNotify org \<lparr>fe_user_id = mb_user_id m, fe_user_name = mb_name m, fe_user_email = mb_email m,
              fe_invoice_id = in_id i, fe_invoice_number = in_number i, fe_recipient = tr_recipient res,
              fe_channel = channelLabel channel, fe_reason = attempt_reason res\<rparr>)) (failure_recipients e org i))"

definition SendService_Send :: "string \<Rightarrow> string \<Rightarrow> SendInput \<Rightarrow> string \<Rightarrow> Send io" where
  "SendService_Send org invoiceID inp userID =
     (let channel = TrimSpace (si_channel inp); req = si_request_id inp in
      if channel \<noteq> ''email'' \<and> channel \<noteq> ''whatsapp'' then raise (ErrInvalidInvoice ''channel'')
      else attempt (if req = [] then raise NoRows else Sends_FindByClientRequest org invoiceID req) (\<lambda>prev.
        case prev of
          Inr s \<Rightarrow> ret s
        | Inl er \<Rightarrow>
            if er \<noteq> NoRows then raise er
            else chain (map_error invoice_not_found (Invoices_FindByID org invoiceID)) (\<lambda>i.
              chain (ensure (linkable (in_status i)) ErrInvoiceNotSendable) (\<lambda>_.
              chain (Settings_Get org) (\<lambda>settings.
              let sender = firstNonEmpty [in_pic_user_id i, userID, se_sender settings] in
              chain (attempt_channel org i channel inp sender req) (\<lambda>res.
              if tr_unavailable res \<noteq> [] then raise (ErrChannelUnavailable (tr_unavailable res))
              else attempt (record_send org i channel res ''manual'' userID req) (\<lambda>rec.
                case rec of
                  Inr s \<Rightarrow> ret s
                | Inl er2 \<Rightarrow>
                    if req = [] then raise er2
                    else attempt (Sends_FindByClientRequest org invoiceID req) (\<lambda>again.
                      case again of Inr s \<Rightarrow> ret s | Inl _ \<Rightarrow> raise er2))))))))"

definition auto_request_id :: "Invoice \<Rightarrow> string \<Rightarrow> string" where
  "auto_request_id i channel = ''auto-'' @ in_id i @ CHR ''-'' # channel"

definition auto_send_channel :: "string \<Rightarrow> Invoice \<Rightarrow> string \<Rightarrow> string \<Rightarrow> string \<Rightarrow> unit io" where
  "auto_send_channel org i actor sender channel =
     (let req = auto_request_id i channel in
      chain (attempt_channel org i channel \<lparr>si_channel = channel, si_recipient = [], si_message = [], si_request_id = []\<rparr> sender req) (\<lambda>res.
      attempt (record_send org i channel res ''auto'' actor req) (\<lambda>rec.
        case rec of
          Inl _ \<Rightarrow> ret ()
        | Inr _ \<Rightarrow> if attempt_ok res then ret () else notifyFailure org i channel res)))"

definition AutoSend :: "string \<Rightarrow> Invoice \<Rightarrow> string \<Rightarrow> unit io" where
  "AutoSend org i actor =
     attempt (Settings_Get org) (\<lambda>r.
       case r of
         Inl _ \<Rightarrow> ret ()
       | Inr settings \<Rightarrow>
           let sender = firstNonEmpty [in_pic_user_id i, se_sender settings]
           in each (auto_send_channel org i actor sender) (in_channels i))"

definition SendService_List :: "string \<Rightarrow> string \<Rightarrow> Send list io" where
  "SendService_List org invoiceID = Sends_ListByInvoice org invoiceID"

definition SendService_LatestByInvoices :: "string \<Rightarrow> string list \<Rightarrow> (string \<Rightarrow> Send option) io" where
  "SendService_LatestByInvoices org ids = Sends_LatestByInvoices org ids"

end
