(* ===== verification/Invoicing.thy ===== *)
theory Invoicing
  imports Sending
begin

text \<open>
  \<open>service/invoice_service.go\<close> and the issuing half of \<open>service/issue.go\<close>: from an input to a priced
  draft, from a draft to an issued invoice, and back out of it by voiding.
\<close>

section \<open>Validation and pricing (buildParams)\<close>

record InvoiceLine =
  il_line :: LineInput
  il_unit :: string
  il_product_id :: string
  il_sku :: string
  il_contract_item_id :: string
  il_source_line_id :: string
  il_period_start :: "date option"
  il_period_end :: "date option"

record InvoiceInput =
  vi_account_id :: string
  vi_source_type :: SourceType
  vi_source_id :: string
  vi_contract_id :: string
  vi_idempotency_key :: string
  vi_currency :: string
  vi_notes :: string
  vi_pic_user_id :: string
  vi_channels :: "string list"
  vi_period_start :: "date option"
  vi_period_end :: "date option"
  vi_due_date :: "instant option"
  vi_lines :: "InvoiceLine list"

definition requireRoom :: "string \<Rightarrow> unit io" where
  "requireRoom org =
     ask e_quota (\<lambda>quota. case quota of
         None \<Rightarrow> ret ()
       | Some room \<Rightarrow> (case room org ''receivable.max_invoices_per_month'' of None \<Rightarrow> ret () | Some er \<Rightarrow> raise er))"

text \<open>\<open>^[A-Z]{3}$\<close>.\<close>

definition currency_ok :: "string \<Rightarrow> bool" where
  "currency_ok s \<longleftrightarrow> length s = 3 \<and> list_all (\<lambda>c. 65 \<le> (of_char c :: nat) \<and> (of_char c :: nat) \<le> 90) s"

definition validPeriod :: "date option \<Rightarrow> date option \<Rightarrow> bool" where
  "validPeriod s e = (case (s, e) of (Some a, Some b) \<Rightarrow> \<not> b < a | _ \<Rightarrow> True)"

definition line_checks :: "InvoiceLine \<Rightarrow> (bool \<times> err) list" where
  "line_checks l =
     [(validPeriod (il_period_start l) (il_period_end l), ErrInvalidInvoice ''line period''),
      (\<not> (RuneCount (TrimSpace (il_unit l)) > 30 \<or> RuneCount (TrimSpace (il_sku l)) > 64), ErrInvalidInvoice ''line unit'')]"

text \<open>The largest \<open>numeric(18,2)\<close>.\<close>

definition maxMoney :: rat where "maxMoney = cents 999999999999999999"

definition money_fits :: "string \<Rightarrow> bool" where
  "money_fits v = (case SetString v of None \<Rightarrow> False | Some r \<Rightarrow> r \<le> maxMoney)"

definition fitsMoneyColumns :: "Totals \<Rightarrow> PricedLine list \<Rightarrow> bool" where
  "fitsMoneyColumns t ls \<longleftrightarrow>
     list_all money_fits [t_subtotal t, t_discount_total t, t_tax_total t, t_grand_total t, t_one_time_total t, t_first_invoice_total t] \<and>
     list_all (\<lambda>f. case t_recurring_totals t f of None \<Rightarrow> True | Some v \<Rightarrow> money_fits v) Frequencies \<and>
     list_all (\<lambda>l. list_all money_fits [pl_quantity l, pl_unit_price l, pl_tax_amount l, pl_line_total l]) ls"

definition item_params :: "InvoiceLine \<Rightarrow> PricedLine \<Rightarrow> InvoiceItemParams" where
  "item_params l p =
     \<lparr>ip_line = p, ip_unit = TrimSpace (il_unit l), ip_product_id = il_product_id l, ip_sku = TrimSpace (il_sku l),
      ip_contract_item_id = il_contract_item_id l, ip_source_line_id = il_source_line_id l,
      ip_period_start = il_period_start l, ip_period_end = il_period_end l\<rparr>"

definition source_or_manual :: "SourceType \<Rightarrow> SourceType" where
  "source_or_manual s = (if s = [] then SourceManual else s)"

definition checkAccount :: "string \<Rightarrow> string \<Rightarrow> unit io" where
  "checkAccount org accountID =
     (if accountID = [] then raise ErrAccountNotFound
      else chain (map_error account_not_found (Accounts_FindByID org accountID)) (\<lambda>_. ret ()))"

definition channels_for :: "string \<Rightarrow> string list \<Rightarrow> string list io" where
  "channels_for org cs =
     chain (if cs = [] then chain (Settings_Get org) (\<lambda>s. ret (se_channels s)) else ret cs) (\<lambda>c. lift (normalizeChannels c))"

definition buildParams :: "string \<Rightarrow> InvoiceInput \<Rightarrow> string \<Rightarrow> CreateInvoiceParams io" where
  "buildParams org i userID =
     (let accountID = TrimSpace (vi_account_id i); sourceType = source_or_manual (vi_source_type i);
          currency = (let c = TrimSpace (vi_currency i) in if c = [] then ''IDR'' else c);
          pic = TrimSpace (vi_pic_user_id i)
      in
      chain (checkAccount org accountID) (\<lambda>_.
      chain (guards
        [(sourceType \<in> {SourceManual, SourceSalesOrder, SourceContract}, ErrInvalidInvoice ''source type''),
         (currency_ok currency, ErrInvalidInvoice ''currency''),
         (\<not> length (vi_idempotency_key i) > 100, ErrInvalidInvoice ''idempotency key''),
         (validPeriod (vi_period_start i) (vi_period_end i), ErrInvalidInvoice ''period'')]) (\<lambda>_.
      chain (if pic \<noteq> [] then find_member org pic (ErrInvalidInvoice ''pic'') else ret ()) (\<lambda>_.
      chain (channels_for org (vi_channels i)) (\<lambda>channels.
      chain (guards ((vi_lines i \<noteq> [], ErrInvalidInvoice ''no line'') # concat (map line_checks (vi_lines i)))) (\<lambda>_.
      case PriceLines (map il_line (vi_lines i)) of
        Inl _ \<Rightarrow> raise (ErrInvalidInvoice ''line'')
      | Inr (totals, priced) \<Rightarrow>
          if \<not> fitsMoneyColumns totals priced then raise (ErrInvalidInvoice ''too large'')
          else ret \<lparr>cp_account_id = accountID, cp_source_type = sourceType, cp_source_id = vi_source_id i,
                    cp_contract_id = vi_contract_id i, cp_idempotency_key = vi_idempotency_key i, cp_currency = currency,
                    cp_notes = TrimSpace (vi_notes i), cp_pic_user_id = vi_pic_user_id i, cp_created_by = userID,
                    cp_channels = channels, cp_period_start = vi_period_start i, cp_period_end = vi_period_end i,
                    cp_totals = totals, cp_items = map2 item_params (vi_lines i) priced\<rparr>))))))"

section \<open>Drafts\<close>

definition createDraft :: "string \<Rightarrow> InvoiceInput \<Rightarrow> string \<Rightarrow> bool \<Rightarrow> Invoice io" where
  "createDraft org i userID enforceQuota =
     chain (buildParams org i userID) (\<lambda>p.
     chain (if enforceQuota then requireRoom org else ret ()) (\<lambda>_.
     Invoices_Create org p))"

definition CreateDraft :: "string \<Rightarrow> InvoiceInput \<Rightarrow> string \<Rightarrow> Invoice io" where
  "CreateDraft org i userID = createDraft org i userID True"

definition UpdateDraft :: "string \<Rightarrow> string \<Rightarrow> InvoiceInput \<Rightarrow> string \<Rightarrow> Invoice io" where
  "UpdateDraft org rid i userID =
     chain (buildParams org i userID) (\<lambda>p. map_error invoice_not_found (Invoices_ReplaceDraft org rid p))"

definition InvoiceService_List :: "string \<Rightarrow> InvoiceListFilter \<Rightarrow> (Invoice list \<times> nat) io" where
  "InvoiceService_List org f = Invoices_List org f"

section \<open>Issue (issue.go)\<close>

definition invoiceNumber :: "int \<Rightarrow> int \<Rightarrow> string" where
  "invoiceNumber year seq = ''INV-'' @ dec_int year @ CHR ''-'' # dec_pad 4 seq"

text \<open>The due date an issue sets.\<close>

definition due_on :: "date \<Rightarrow> int \<Rightarrow> date option \<Rightarrow> instant option \<Rightarrow> date" where
  "due_on today terms periodStart override =
     (case override of
        None \<Rightarrow> dueDate today terms periodStart
      | Some t \<Rightarrow> (let d = DayOf t in if d < today then today else d))"

text \<open>What follows a successful issue; none of it can undo it.\<close>

definition after_issue :: "string \<Rightarrow> string \<Rightarrow> string \<Rightarrow> Invoice io" where
  "after_issue org rid actor =
     chain (ignore (storeSnapshot org rid actor)) (\<lambda>_.
     chain (Invoice_Get org rid) (\<lambda>final. ask (\<lambda>e. e) (\<lambda>e.
     chain (if e_links e then ignore (Link_Ensure org DocumentInvoice rid (LinkExpiry final (e_now e)) actor) else ret ()) (\<lambda>_.
     chain (if e_sender e then AutoSend org final actor else ret ()) (\<lambda>_.
     ret final)))))"

definition issue_draft :: "string \<Rightarrow> string \<Rightarrow> string \<Rightarrow> instant option \<Rightarrow> date option \<Rightarrow> Invoice io" where
  "issue_draft org rid actor override periodStart =
     chain (Settings_Get org) (\<lambda>settings. ask e_now (\<lambda>now.
     let today = DayOf now in
     chain (Counters_Next org ''invoice'' (Year today)) (\<lambda>seq.
     attempt (Invoices_Issue org rid (invoiceNumber (Year today) seq) today
                (due_on today (se_terms_days settings) periodStart override) actor) (\<lambda>r.
       case r of
         Inl er \<Rightarrow> if er = ErrInvoiceNotDraft then Invoice_Get org rid else raise er
       | Inr _ \<Rightarrow> after_issue org rid actor))))"

definition issue :: "string \<Rightarrow> string \<Rightarrow> string \<Rightarrow> instant option \<Rightarrow> Invoice io" where
  "issue org rid actor override =
     chain (Invoice_Get org rid) (\<lambda>i.
       case in_status i of
         InvoiceDraft \<Rightarrow> issue_draft org rid actor override (in_period_start i)
       | InvoiceIssued \<Rightarrow> ret i
       | InvoiceOverdue \<Rightarrow> ret i
       | InvoicePaid \<Rightarrow> ret i
       | InvoiceVoid \<Rightarrow> raise ErrInvoiceNotDraft)"

definition Issue :: "string \<Rightarrow> string \<Rightarrow> string \<Rightarrow> Invoice io" where
  "Issue org rid actor = issue org rid actor None"

definition issueExisting :: "string \<Rightarrow> Invoice \<Rightarrow> string \<Rightarrow> instant option \<Rightarrow> Invoice io" where
  "issueExisting org i actor override = (if in_status i = InvoiceDraft then issue org (in_id i) actor override else ret i)"

definition create_new_and_issue :: "string \<Rightarrow> InvoiceInput \<Rightarrow> string \<Rightarrow> Invoice io" where
  "create_new_and_issue org i actor =
     attempt (createDraft org i actor (vi_source_type i \<noteq> SourceContract)) (\<lambda>r.
       case r of
         Inr draft \<Rightarrow> issue org (in_id draft) actor (vi_due_date i)
       | Inl er \<Rightarrow>
           if er = ErrDuplicateSource \<and> vi_source_id i \<noteq> [] \<and> vi_idempotency_key i \<noteq> []
           then chain (Invoices_FindBySource org (source_or_manual (vi_source_type i)) (vi_source_id i) (vi_idempotency_key i))
                  (\<lambda>existing. issueExisting org existing actor (vi_due_date i))
           else raise er)"

definition CreateAndIssue :: "string \<Rightarrow> InvoiceInput \<Rightarrow> string \<Rightarrow> Invoice io" where
  "CreateAndIssue org i actor =
     (if vi_source_id i \<noteq> [] \<and> vi_idempotency_key i \<noteq> [] then
        attempt (Invoices_FindBySource org (source_or_manual (vi_source_type i)) (vi_source_id i) (vi_idempotency_key i)) (\<lambda>r.
          case r of
            Inr existing \<Rightarrow> issueExisting org existing actor (vi_due_date i)
          | Inl er \<Rightarrow> if er = NoRows then create_new_and_issue org i actor else raise er)
      else create_new_and_issue org i actor)"

section \<open>Void (invoice_service.go)\<close>

definition Void :: "string \<Rightarrow> string \<Rightarrow> string \<Rightarrow> string \<Rightarrow> Invoice io" where
  "Void org rid reason userID =
     (let reason' = TrimSpace reason in
      if RuneCount reason' < 1 \<or> RuneCount reason' > 500 then raise ErrVoidReasonRequired
      else chain (map_error invoice_not_found (Invoices_Void org rid reason' userID)) (\<lambda>i. ask e_links (\<lambda>links.
           chain (if links then ignore (Link_Revoke org DocumentInvoice (in_id i)) else ret ()) (\<lambda>_.
           chain (ignore (RefreshSnapshot org (in_id i))) (\<lambda>_.
           Invoice_Get org (in_id i))))))"

section \<open>Overdue (overdue.go)\<close>

definition MarkOverdue :: "string \<Rightarrow> date \<Rightarrow> nat io" where
  "MarkOverdue org today = Invoices_MarkOverdue org today"

definition OverdueWorkerIdentity :: string where "OverdueWorkerIdentity = ''receivable-overdue''"

definition overduePageSize :: int where "overduePageSize = 100"

text \<open>The worker resolver yields the organization's scope or an error.\<close>

definition markOrganization :: "string \<Rightarrow> date \<Rightarrow> nat io" where
  "markOrganization org today =
     ask (\<lambda>e. e_resolve e org OverdueWorkerIdentity) (\<lambda>r. chain (lift r) (\<lambda>scope.
     chain (ensure (scope_valid scope) ErrInvalidScope) (\<lambda>_. MarkOverdue scope today)))"

record OverdueResult =
  or_checked :: nat
  or_marked :: nat
  or_failed :: nat

definition add_marked :: "OverdueResult \<Rightarrow> err + nat \<Rightarrow> OverdueResult" where
  "add_marked res r =
     (case r of
        Inl _ \<Rightarrow> res\<lparr>or_checked := Suc (or_checked res), or_failed := Suc (or_failed res)\<rparr>
      | Inr n \<Rightarrow> res\<lparr>or_checked := Suc (or_checked res), or_marked := or_marked res + n\<rparr>)"

text \<open>One page, and whether the context was cancelled on the way.\<close>

fun mark_page :: "date \<Rightarrow> string list \<Rightarrow> OverdueResult \<Rightarrow> (OverdueResult \<times> err option) io" where
  "mark_page today [] res = ret (res, None)"
| "mark_page today (org # orgs) res =
     chain ctx_cancelled (\<lambda>cancelled. if cancelled then ret (res, Some ErrCancelled)
     else attempt (markOrganization org today) (\<lambda>r. mark_page today orgs (add_marked res r)))"

text \<open>
  The organizations are visited page by page until a page is not full.  The number of pages is
  bounded by fuel: with an adapter that lists a finite table, any number above the table's pages
  gives the result of the unbounded loop; running out is reported as a cancelled run.  What was done
  is reported with the error that stopped the run (\<open>return res, err\<close>).
\<close>

fun overdue_pages :: "nat \<Rightarrow> date \<Rightarrow> int \<Rightarrow> OverdueResult \<Rightarrow> (OverdueResult \<times> err option) io" where
  "overdue_pages 0 today off res = ret (res, Some ErrCancelled)"
| "overdue_pages (Suc k) today off res =
     chain ctx_cancelled (\<lambda>cancelled. if cancelled then ret (res, Some ErrCancelled) else
     ask (\<lambda>e. e_orgs e overduePageSize off) (\<lambda>r.
       case r of
         Inl er \<Rightarrow> ret (res, Some er)
       | Inr ids \<Rightarrow>
           chain (mark_page today ids res) (\<lambda>(res', stopped).
           if stopped \<noteq> None \<or> int (length ids) < overduePageSize then ret (res', stopped)
           else overdue_pages k today (off + overduePageSize) res')))"

definition OverdueRunner_RunOnce :: "nat \<Rightarrow> (OverdueResult \<times> err option) io" where
  "OverdueRunner_RunOnce fuel =
     ask e_now (\<lambda>now. overdue_pages fuel (DayOf now) 0 \<lparr>or_checked = 0, or_marked = 0, or_failed = 0\<rparr>)"

end
