(* ===== verification/Billing.thy ===== *)
theory Billing
  imports Invoicing
begin

text \<open>
  Payments (\<open>service/payment_service.go\<close>), contracts (\<open>contract_service.go\<close>), the recurring billing
  run (\<open>billing_run.go\<close>) and the billing of orders (\<open>order_billing.go\<close>).
\<close>

section \<open>Payments (payment_service.go)\<close>

text \<open>\<open>^\d{1,16}(\.\d{1,2})?$\<close>.\<close>

definition moneyPattern :: "string \<Rightarrow> bool" where
  "moneyPattern s \<longleftrightarrow>
     (let w = takeWhile is_digit s; r = dropWhile is_digit s in
      1 \<le> length w \<and> length w \<le> 16 \<and>
      (r = [] \<or> (hd r = CHR ''.'' \<and> list_all is_digit (tl r) \<and> 1 \<le> length (tl r) \<and> length (tl r) \<le> 2)))"

definition validAmount :: "string \<Rightarrow> bool" where
  "validAmount v \<longleftrightarrow> moneyPattern v \<and> (case SetString v of None \<Rightarrow> False | Some r \<Rightarrow> 0 < r)"

definition invoiceRef :: "Invoice \<Rightarrow> InvoiceRef" where
  "invoiceRef i = \<lparr>rf_id = in_id i, rf_number = in_number i, rf_contract_id = in_contract_id i,
     rf_source_id = in_source_id i, rf_source_type = in_source_type i\<rparr>"

definition afterPaid :: "string \<Rightarrow> Invoice \<Rightarrow> unit io" where
  "afterPaid org i = chain (Registry_InvoicePaid org (invoiceRef i)) (\<lambda>_. ignore (RefreshSnapshot org (in_id i)))"

definition payment_record :: "string \<Rightarrow> string \<Rightarrow> PaymentParams \<Rightarrow> (Invoice \<times> Payment) io" where
  "payment_record org invoiceID p =
     (if \<not> validAmount (pp_amount p) \<or> RuneCount (pp_reference p) > 150 \<or> RuneCount (pp_note p) > 500 then raise ErrInvalidPayment
      else ask e_now (\<lambda>now.
        let p' = (if IsZero (pp_paid_at p) then p\<lparr>pp_paid_at := now\<rparr> else p) in
        if now < pp_paid_at p' then raise ErrInvalidPayment
        else chain (map_error invoice_not_found (Payments_Record org invoiceID p')) (\<lambda>(i, pay, created).
             chain (if in_status i = InvoicePaid
                    then (if created then afterPaid org i else Registry_InvoicePaidReplay org (invoiceRef i))
                    else ret ()) (\<lambda>_.
             ret (i, pay)))))"

record ManualPaymentInput =
  mp_amount :: string
  mp_paid_at :: instant
  mp_reference :: string
  mp_note :: string

definition RecordManual :: "string \<Rightarrow> string \<Rightarrow> ManualPaymentInput \<Rightarrow> string \<Rightarrow> (Invoice \<times> Payment) io" where
  "RecordManual org invoiceID i userID =
     payment_record org invoiceID
       \<lparr>pp_amount = TrimSpace (mp_amount i), pp_method = ''manual'', pp_reference = TrimSpace (mp_reference i),
        pp_note = TrimSpace (mp_note i), pp_recorded_by = userID, pp_paid_at = mp_paid_at i\<rparr>"

definition RecordProvider :: "string \<Rightarrow> string \<Rightarrow> PaymentParams \<Rightarrow> (Invoice \<times> Payment) io" where
  "RecordProvider org invoiceID p =
     (if pp_method p \<noteq> ''doku'' \<or> TrimSpace (pp_reference p) = [] then raise ErrInvalidPayment
      else payment_record org invoiceID p)"

definition PaymentService_List :: "string \<Rightarrow> string \<Rightarrow> Payment list io" where
  "PaymentService_List org invoiceID = Payments_List org invoiceID"

definition PaymentService_ListAll :: "string \<Rightarrow> int \<Rightarrow> int \<Rightarrow> (Payment list \<times> nat) io" where
  "PaymentService_ListAll org limit off = Payments_ListAll org limit off"

section \<open>Contracts (contract_service.go)\<close>

definition contract_not_found :: "err \<Rightarrow> err" where
  "contract_not_found er = (if er = NoRows then ErrContractNotFound else er)"

definition ContractService_Get :: "string \<Rightarrow> string \<Rightarrow> Contract io" where
  "ContractService_Get org rid = map_error contract_not_found (Contracts_FindByID org rid)"

definition ContractService_List :: "string \<Rightarrow> ContractListFilter \<Rightarrow> (Contract list \<times> nat) io" where
  "ContractService_List org f = Contracts_List org (f\<lparr>clf_search := TrimSpace (clf_search f)\<rparr>)"

definition contractRef :: "Contract \<Rightarrow> ContractRef" where
  "contractRef c = \<lparr>cf_id = ct_id c, cf_number = ct_number c, cf_source_id = ct_source_id c, cf_source_type = ct_source_type c\<rparr>"

definition ContractService_SetEndDate :: "string \<Rightarrow> string \<Rightarrow> date option \<Rightarrow> string \<Rightarrow> Contract io" where
  "ContractService_SetEndDate org rid endDate userID =
     chain (ContractService_Get org rid) (\<lambda>c. ask e_now (\<lambda>now.
     chain (case endDate of
              None \<Rightarrow> ret ()
            | Some d \<Rightarrow> guards [(\<not> d < DayOf now, ErrInvalidContractInput ''end date before today''),
                             (\<not> d < ct_start_date c, ErrInvalidContractInput ''end date before start'')]) (\<lambda>_.
     map_error contract_not_found (Contracts_SetEndDate org rid endDate userID))))"

text \<open>The zero \<open>time.Time\<close> as a calendar date.\<close>

definition zero_date :: date where "zero_date = utc_day zero_time"

definition ContractService_End :: "string \<Rightarrow> string \<Rightarrow> date \<Rightarrow> string \<Rightarrow> string \<Rightarrow> Contract io" where
  "ContractService_End org rid endDate reason userID =
     (let reason' = TrimSpace reason in
      if RuneCount reason' < 1 \<or> RuneCount reason' > 500 then raise (ErrInvalidContractInput ''reason'')
      else chain (ContractService_Get org rid) (\<lambda>c. ask e_now (\<lambda>now.
        let d = (if endDate = zero_date then DayOf now else endDate) in
        if d < ct_start_date c then raise (ErrInvalidContractInput ''end date before start'')
        else chain (map_error contract_not_found (Contracts_End org rid d reason' userID)) (\<lambda>ended.
             chain (Registry_ContractEnded org (contractRef ended)) (\<lambda>_. ret ended)))))"

section \<open>The billing run (billing_run.go)\<close>

definition billingRunMaxRounds :: nat where "billingRunMaxRounds = 24"
definition billingRunBatch :: int where "billingRunBatch = 500"

record BillingRunResult =
  br_invoices :: nat
  br_advanced :: nat
  br_ended :: nat
  br_errors :: "(string \<times> date \<times> err) list"

record billGroup =
  bg_contract :: Contract
  bg_bill_on :: date
  bg_items :: "DueItem list"

definition in_group :: "DueItem \<Rightarrow> billGroup \<Rightarrow> bool" where
  "in_group d g \<longleftrightarrow> ct_id (bg_contract g) = ct_id (du_contract d) \<and> bg_bill_on g = du_bill_on d"

fun add_due :: "billGroup list \<Rightarrow> DueItem \<Rightarrow> billGroup list" where
  "add_due [] d = [\<lparr>bg_contract = du_contract d, bg_bill_on = du_bill_on d, bg_items = [d]\<rparr>]"
| "add_due (g # gs) d = (if in_group d g then g\<lparr>bg_items := bg_items g @ [d]\<rparr> # gs else g # add_due gs d)"

definition groupDue :: "DueItem list \<Rightarrow> string list \<Rightarrow> billGroup list" where
  "groupDue due failed =
     sort_key (\<lambda>g. (ct_id (bg_contract g), bg_bill_on g))
       (foldl add_due [] (filter (\<lambda>d. ci_id (du_item d) \<notin> set failed) due))"

definition period_key :: "date \<Rightarrow> string" where
  "period_key d = ''period:'' @ ymd d"

definition bill_line :: "DueItem \<Rightarrow> InvoiceLine" where
  "bill_line d =
     (let it = du_item d; s = ci_next_start it; t = ci_next_end it in
      \<lparr>il_line = \<lparr>li_description = ci_description it @ '' (periode '' @ FormatDateID (at_midnight s) @ en_dash @
                      FormatDateID (at_midnight t) @ '')'',
                 li_quantity = cit_quantity it, li_unit_price = cit_unit_price it, li_discount_percent = cit_discount_percent it,
                 li_tax_percent = cit_tax_percent it,
                 li_attrs = \<lparr>a_charge_type = Recurring, a_frequency = ci_frequency it, a_payment_timing = ci_payment_timing it\<rparr>\<rparr>,
       il_unit = ci_unit it, il_product_id = ci_product_id it, il_sku = ci_sku it, il_contract_item_id = ci_id it,
       il_source_line_id = ci_id it, il_period_start = Some s, il_period_end = Some t\<rparr>)"

definition samePeriod :: "DueItem list \<Rightarrow> bool" where
  "samePeriod ds \<longleftrightarrow>
     list_all (\<lambda>d. ci_next_start (du_item d) = ci_next_start (du_item (hd ds)) \<and> ci_next_end (du_item d) = ci_next_end (du_item (hd ds))) ds"

definition invoiceInputFor :: "billGroup \<Rightarrow> InvoiceInput" where
  "invoiceInputFor g =
     (let c = bg_contract g; same = samePeriod (bg_items g); first = du_item (hd (bg_items g)) in
      \<lparr>vi_account_id = ct_account_id c, vi_source_type = SourceContract, vi_source_id = ct_id c, vi_contract_id = ct_id c,
       vi_idempotency_key = period_key (bg_bill_on g), vi_currency = ct_currency c, vi_notes = [],
       vi_pic_user_id = ct_pic_user_id c, vi_channels = ct_channels c,
       vi_period_start = (if same then Some (ci_next_start first) else None),
       vi_period_end = (if same then Some (ci_next_end first) else None), vi_due_date = None,
       vi_lines = map bill_line (bg_items g)\<rparr>)"

type_synonym run_state = "string list \<times> BillingRunResult"

definition fail_group :: "billGroup \<Rightarrow> err \<Rightarrow> run_state \<Rightarrow> run_state" where
  "fail_group g er = (\<lambda>(failed, res).
     (map (\<lambda>d. ci_id (du_item d)) (bg_items g) @ failed,
      res\<lparr>br_errors := br_errors res @ [(ct_number (bg_contract g), bg_bill_on g, er)]\<rparr>))"

fun advance_items :: "string \<Rightarrow> billGroup \<Rightarrow> DueItem list \<Rightarrow> run_state \<Rightarrow> run_state io" where
  "advance_items org g [] st = ret st"
| "advance_items org g (d # ds) st =
     (let it = du_item d; (s, t) = PeriodRange (ct_start_date (bg_contract g)) (ci_frequency it) (ci_period_index it + 1) in
      attempt (Contracts_Advance org (ci_id it) (ci_period_index it) s t) (\<lambda>r.
        case r of
          Inl er \<Rightarrow> ret (fail_group g er st)
        | Inr advanced \<Rightarrow>
            advance_items org g ds (fst st, if advanced then (snd st)\<lparr>br_advanced := Suc (br_advanced (snd st))\<rparr> else snd st)))"

definition bill :: "string \<Rightarrow> billGroup \<Rightarrow> run_state \<Rightarrow> run_state io" where
  "bill org g st =
     attempt (CreateAndIssue org (invoiceInputFor g) []) (\<lambda>r.
       case r of
         Inl er \<Rightarrow> ret (fail_group g er st)
       | Inr _ \<Rightarrow> advance_items org g (bg_items g) (fst st, (snd st)\<lparr>br_invoices := Suc (br_invoices (snd st))\<rparr>))"

fun bill_groups :: "string \<Rightarrow> billGroup list \<Rightarrow> run_state \<Rightarrow> run_state io" where
  "bill_groups org [] st = ret st"
| "bill_groups org (g # gs) st = chain (bill org g st) (bill_groups org gs)"

text \<open>\<open>return res, err\<close>: what was done is reported with the error that stopped the run.\<close>

fun bill_rounds :: "nat \<Rightarrow> string \<Rightarrow> date \<Rightarrow> int \<Rightarrow> run_state \<Rightarrow> (run_state \<times> err option) io" where
  "bill_rounds 0 org today lead st = ret (st, None)"
| "bill_rounds (Suc k) org today lead st =
     chain ctx_cancelled (\<lambda>cancelled. if cancelled then ret (st, Some ErrCancelled) else
     attempt (Contracts_DueItems org today lead billingRunBatch) (\<lambda>r.
       case r of
         Inl er \<Rightarrow> ret (st, Some er)
       | Inr due \<Rightarrow>
           let groups = groupDue due (fst st) in
           if groups = [] then ret (st, None)
           else chain (bill_groups org groups st) (bill_rounds k org today lead)))"

definition no_result :: BillingRunResult where
  "no_result = \<lparr>br_invoices = 0, br_advanced = 0, br_ended = 0, br_errors = []\<rparr>"

definition finish_run :: "string \<Rightarrow> date \<Rightarrow> run_state \<times> err option \<Rightarrow> (BillingRunResult \<times> err option) io" where
  "finish_run org today = (\<lambda>(st, stopped).
     case stopped of
       Some er \<Rightarrow> ret (snd st, Some er)
     | None \<Rightarrow>
         attempt (Contracts_EndExpired org today) (\<lambda>r.
           case r of
             Inl er \<Rightarrow> ret (snd st, Some er)
           | Inr ended \<Rightarrow>
               chain (each (\<lambda>c. Registry_ContractEnded org c) ended) (\<lambda>_.
               ret ((snd st)\<lparr>br_ended := length ended\<rparr>, None))))"

definition BillingRun_Run :: "string \<Rightarrow> (BillingRunResult \<times> err option) io" where
  "BillingRun_Run org =
     ask e_now (\<lambda>now. let today = DayOf now in
     attempt (Settings_Get org) (\<lambda>r.
       case r of
         Inl er \<Rightarrow> ret (no_result, Some er)
       | Inr settings \<Rightarrow>
           chain (bill_rounds billingRunMaxRounds org today (se_lead_days settings) ([], no_result)) (finish_run org today)))"

definition BillingRunWorkerIdentity :: string where "BillingRunWorkerIdentity = ''receivable-billing-run''"

definition runOrganization :: "string \<Rightarrow> (BillingRunResult \<times> err option) io" where
  "runOrganization org =
     ask (\<lambda>e. e_resolve e org BillingRunWorkerIdentity) (\<lambda>r.
       case r of
         Inl er \<Rightarrow> ret (no_result, Some er)
       | Inr scope \<Rightarrow> if scope_valid scope then BillingRun_Run scope else ret (no_result, Some ErrInvalidScope))"

record BillingRunnerResult =
  rr_checked :: nat
  rr_invoices :: nat
  rr_advanced :: nat
  rr_ended :: nat
  rr_failed :: nat

definition add_result :: "BillingRunnerResult \<Rightarrow> BillingRunResult \<times> err option \<Rightarrow> BillingRunnerResult" where
  "add_result res = (\<lambda>(out, er).
     res\<lparr>rr_checked := Suc (rr_checked res), rr_invoices := rr_invoices res + br_invoices out,
         rr_advanced := rr_advanced res + br_advanced out, rr_ended := rr_ended res + br_ended out,
         rr_failed := (if er \<noteq> None \<or> br_errors out \<noteq> [] then Suc (rr_failed res) else rr_failed res)\<rparr>)"

text \<open>One page, and whether the context was cancelled on the way.\<close>

fun run_page :: "string list \<Rightarrow> BillingRunnerResult \<Rightarrow> (BillingRunnerResult \<times> err option) io" where
  "run_page [] res = ret (res, None)"
| "run_page (org # orgs) res =
     chain ctx_cancelled (\<lambda>cancelled. if cancelled then ret (res, Some ErrCancelled)
     else chain (runOrganization org) (\<lambda>r. run_page orgs (add_result res r)))"

text \<open>As the overdue runner: pages until one is not full, bounded by fuel.\<close>

fun run_pages :: "nat \<Rightarrow> int \<Rightarrow> BillingRunnerResult \<Rightarrow> (BillingRunnerResult \<times> err option) io" where
  "run_pages 0 off res = ret (res, Some ErrCancelled)"
| "run_pages (Suc k) off res =
     chain ctx_cancelled (\<lambda>cancelled. if cancelled then ret (res, Some ErrCancelled) else
     ask (\<lambda>e. e_orgs e overduePageSize off) (\<lambda>r.
       case r of
         Inl er \<Rightarrow> ret (res, Some er)
       | Inr ids \<Rightarrow>
           chain (run_page ids res) (\<lambda>(res', stopped).
           if stopped \<noteq> None \<or> int (length ids) < overduePageSize then ret (res', stopped)
           else run_pages k (off + overduePageSize) res')))"

definition BillingRunner_RunOnce :: "nat \<Rightarrow> (BillingRunnerResult \<times> err option) io" where
  "BillingRunner_RunOnce fuel =
     run_pages fuel 0 \<lparr>rr_checked = 0, rr_invoices = 0, rr_advanced = 0, rr_ended = 0, rr_failed = 0\<rparr>"

end
