(* ===== verification/OrderBilling.thy ===== *)
theory OrderBilling
  imports Billing
begin

text \<open>
  \<open>service/order_billing.go\<close>: an order becomes an account, a contract for its recurring lines and
  an initial invoice for its prepaid ones; deliveries are billed in batches.
\<close>

record OrderLine =
  ol_source_line_id :: string
  ol_description :: string
  ol_quantity :: string
  ol_unit :: string
  ol_unit_price :: string
  ol_discount_percent :: string
  ol_tax_percent :: string
  ol_product_id :: string
  ol_sku :: string
  ol_attrs :: Attributes
  ol_features :: string

record OrderBillingRequest =
  ob_source_type :: SourceType
  ob_source_id :: string
  ob_account :: AccountInput
  ob_start_date :: date
  ob_channels :: "string list"
  ob_pic_user_id :: string
  ob_currency :: string
  ob_notes :: string
  ob_actor_user_id :: string
  ob_lines :: "OrderLine list"

record OrderBillingResult =
  os_account_id :: string
  os_initial_invoice_id :: string
  os_contract_id :: string

definition indoDate :: "date \<Rightarrow> string" where
  "indoDate d = dec_int (Day d) @ CHR '' '' # monthsID ! nat (Month d - 1) @ CHR '' '' # dec_int (Year d)"

definition lineInput :: "OrderLine \<Rightarrow> Attributes \<Rightarrow> InvoiceLine" where
  "lineInput l attrs =
     \<lparr>il_line = \<lparr>li_description = ol_description l, li_quantity = ol_quantity l, li_unit_price = ol_unit_price l,
                li_discount_percent = ol_discount_percent l, li_tax_percent = ol_tax_percent l, li_attrs = attrs\<rparr>,
      il_unit = ol_unit l, il_product_id = ol_product_id l, il_sku = ol_sku l, il_contract_item_id = [],
      il_source_line_id = ol_source_line_id l, il_period_start = None, il_period_end = None\<rparr>"

definition orDefault :: "string \<Rightarrow> string \<Rightarrow> string" where
  "orDefault v fallback = (if TrimSpace v = [] then fallback else v)"

record classifiedLine =
  cl_line :: OrderLine
  cl_attrs :: Attributes
  cl_recurring_idx :: "nat option"

text \<open>The prepaid and the recurring lines; a line may be both.\<close>

fun classify_from :: "classifiedLine list \<Rightarrow> classifiedLine list \<Rightarrow> OrderLine list \<Rightarrow> err + classifiedLine list \<times> classifiedLine list" where
  "classify_from prepaid recurring [] = Inr (prepaid, recurring)"
| "classify_from prepaid recurring (l # ls) =
     (case Normalize (ol_attrs l) of
        Inl _ \<Rightarrow> Inl (ErrInvalidInvoice ''line attributes'')
      | Inr attrs \<Rightarrow>
          let rec = a_charge_type attrs = Recurring;
              c = \<lparr>cl_line = l, cl_attrs = attrs, cl_recurring_idx = (if rec then Some (length recurring) else None)\<rparr>
          in classify_from (if a_payment_timing attrs = Prepaid then prepaid @ [c] else prepaid)
               (if rec then recurring @ [c] else recurring) ls)"

definition classify :: "OrderLine list \<Rightarrow> err + classifiedLine list \<times> classifiedLine list" where
  "classify ls = classify_from [] [] ls"

section \<open>The account of an order\<close>

definition account_differs :: "Account \<Rightarrow> AccountParams \<Rightarrow> bool" where
  "account_differs a p \<longleftrightarrow>
     ac_name a \<noteq> ap_name p \<or> ac_company_name a \<noteq> ap_company_name p \<or> ac_email a \<noteq> ap_email p \<or> ac_phone a \<noteq> ap_phone p \<or>
     ac_address a \<noteq> ap_address p"

definition account_from_source :: "string \<Rightarrow> AccountParams \<Rightarrow> string \<Rightarrow> string io" where
  "account_from_source org p actor =
     attempt (Accounts_FindBySource org (ap_source_type p) (ap_source_id p)) (\<lambda>r.
       case r of
         Inr found \<Rightarrow>
           if account_differs found p then chain (Accounts_Update org (ac_id found) p) (\<lambda>a. ret (ac_id a)) else ret (ac_id found)
       | Inl er \<Rightarrow>
           if er \<noteq> NoRows then raise er
           else attempt (Accounts_Create org p actor) (\<lambda>c.
             case c of
               Inr a \<Rightarrow> ret (ac_id a)
             | Inl er2 \<Rightarrow>
                 if er2 = ErrDuplicateAccountSource
                 then chain (Accounts_FindBySource org (ap_source_type p) (ap_source_id p)) (\<lambda>a. ret (ac_id a))
                 else raise er2))"

definition account_from_order :: "string \<Rightarrow> SourceType \<Rightarrow> string \<Rightarrow> AccountParams \<Rightarrow> string \<Rightarrow> string io" where
  "account_from_order org sourceType sourceID p actor =
     attempt (Contracts_FindBySource org sourceType sourceID) (\<lambda>r.
       case r of
         Inr c \<Rightarrow> ret (ct_account_id c)
       | Inl er \<Rightarrow>
           if er \<noteq> NoRows then raise er
           else chain (Invoices_List org \<lparr>lf_status = [], lf_account_id = [], lf_source_type = sourceType, lf_source_id = sourceID,
                        lf_contract_id = [], lf_send_failed = False, lf_search = [], lf_due_before = None, lf_limit = 1,
                        lf_offset = 0\<rparr>) (\<lambda>(existing, _).
             case existing of
               i # _ \<Rightarrow> ret (in_account_id i)
             | [] \<Rightarrow> chain (Accounts_Create org p actor) (\<lambda>a. ret (ac_id a))))"

definition resolveAccount :: "string \<Rightarrow> SourceType \<Rightarrow> OrderBillingRequest \<Rightarrow> string \<Rightarrow> string io" where
  "resolveAccount org sourceType req sourceID =
     ask (\<lambda>e. normalizeAccount e (ob_account req) True) (\<lambda>r. chain (lift r) (\<lambda>p.
       if ap_source_id p \<noteq> [] then account_from_source org p (ob_actor_user_id req)
       else account_from_order org sourceType sourceID p (ob_actor_user_id req)))"

section \<open>The contract of an order\<close>

definition contractNumber :: "int \<Rightarrow> int \<Rightarrow> string" where
  "contractNumber year seq = ''CTR-'' @ dec_int year @ CHR ''-'' # dec_pad 4 seq"

definition nextContractNumber :: "string \<Rightarrow> string io" where
  "nextContractNumber org =
     ask e_now (\<lambda>now. let year = Year (DayOf now) in
     chain (Counters_Next org ''contract'' year) (\<lambda>seq. ret (contractNumber year seq)))"

text \<open>A prepaid item starts at period 1: the initial invoice bills period 0.\<close>

definition contract_item_params :: "date \<Rightarrow> classifiedLine \<Rightarrow> ContractItemParams" where
  "contract_item_params start c =
     (let l = cl_line c; index = (if a_payment_timing (cl_attrs c) = Prepaid then 1 else 0);
          (from_day, to_day) = PeriodRange start (a_frequency (cl_attrs c)) index
      in \<lparr>cip_description = ol_description l, cip_quantity = orDefault (ol_quantity l) ''1'', cip_unit = ol_unit l,
          cip_unit_price = orDefault (ol_unit_price l) ''0'', cip_discount_percent = ol_discount_percent l,
          cip_tax_percent = orDefault (ol_tax_percent l) ''0'', cip_product_id = ol_product_id l, cip_sku = ol_sku l,
          cip_source_line_id = ol_source_line_id l, cip_frequency = a_frequency (cl_attrs c),
          cip_payment_timing = a_payment_timing (cl_attrs c), cip_period_index = index, cip_next_start = from_day,
          cip_next_end = to_day, cip_features = ol_features l\<rparr>)"

definition create_contract :: "string \<Rightarrow> SourceType \<Rightarrow> string \<Rightarrow> date \<Rightarrow> OrderBillingRequest \<Rightarrow> classifiedLine list \<Rightarrow> Contract io" where
  "create_contract org sourceType accountID start req recurring =
     chain (lift (normalizeChannels (channelsOrDefault (ob_channels req)))) (\<lambda>channels.
     chain (nextContractNumber org) (\<lambda>number.
     attempt (Contracts_Create org
         \<lparr>ccp_number = number, ccp_account_id = accountID, ccp_source_type = sourceType, ccp_source_id = ob_source_id req,
          ccp_currency = ob_currency req, ccp_notes = ob_notes req, ccp_pic_user_id = ob_pic_user_id req,
          ccp_created_by = ob_actor_user_id req, ccp_start_date = start, ccp_channels = channels,
          ccp_items = map (contract_item_params start) recurring\<rparr>) (\<lambda>r.
       case r of
         Inr c \<Rightarrow>
           chain (Registry_ContractCreated org
             \<lparr>cf_id = ct_id c, cf_number = ct_number c, cf_source_id = ob_source_id req, cf_source_type = sourceType\<rparr>) (\<lambda>_. ret c)
       | Inl er \<Rightarrow> if er = ErrDuplicateSource then Contracts_FindBySource org sourceType (ob_source_id req) else raise er)))"

definition ensureContract :: "string \<Rightarrow> SourceType \<Rightarrow> string \<Rightarrow> date \<Rightarrow> OrderBillingRequest \<Rightarrow> classifiedLine list \<Rightarrow> Contract io" where
  "ensureContract org sourceType accountID start req recurring =
     attempt (Contracts_FindBySource org sourceType (ob_source_id req)) (\<lambda>r.
       case r of
         Inr c \<Rightarrow> ret c
       | Inl er \<Rightarrow> if er = NoRows then create_contract org sourceType accountID start req recurring else raise er)"

section \<open>The initial invoice\<close>

definition first_period :: "date \<Rightarrow> classifiedLine \<Rightarrow> date \<times> date" where
  "first_period start c = PeriodRange start (a_frequency (cl_attrs c)) 0"

definition initial_line :: "date \<Rightarrow> ContractItem list \<Rightarrow> classifiedLine \<Rightarrow> InvoiceLine" where
  "initial_line start items c =
     (let li = lineInput (cl_line c) (cl_attrs c) in
      case cl_recurring_idx c of
        None \<Rightarrow> li
      | Some k \<Rightarrow>
          let (from_day, to_day) = first_period start c in
          li\<lparr>il_line := (il_line li)\<lparr>li_description := ol_description (cl_line c) @ '' (periode '' @ indoDate from_day @ en_dash @
                                   indoDate to_day @ '')''\<rparr>,
             il_contract_item_id := (if k < length items then ci_id (items ! k) else []),
             il_period_start := Some from_day, il_period_end := Some to_day\<rparr>)"

definition shared_period :: "(date \<times> date) list \<Rightarrow> (date \<times> date) option" where
  "shared_period ps = (case ps of [] \<Rightarrow> None | p # rest \<Rightarrow> if list_all (\<lambda>q. q = p) rest then Some p else None)"

definition initial_invoice :: "OrderBillingRequest \<Rightarrow> SourceType \<Rightarrow> string \<Rightarrow> date \<Rightarrow> Contract option \<Rightarrow> classifiedLine list \<Rightarrow> InvoiceInput" where
  "initial_invoice req sourceType accountID start contract prepaid =
     (let recurring = filter (\<lambda>c. cl_recurring_idx c \<noteq> None) prepaid;
          period = shared_period (map (first_period start) recurring);
          items = (case contract of None \<Rightarrow> [] | Some c \<Rightarrow> con_items c);
          contractID = (case contract of None \<Rightarrow> [] | Some c \<Rightarrow> ct_id c)
      in \<lparr>vi_account_id = accountID, vi_source_type = sourceType, vi_source_id = ob_source_id req,
          vi_contract_id = (if recurring = [] then [] else contractID), vi_idempotency_key = ''initial'',
          vi_currency = ob_currency req, vi_notes = ob_notes req, vi_pic_user_id = ob_pic_user_id req,
          vi_channels = ob_channels req, vi_period_start = map_option fst period, vi_period_end = map_option snd period,
          vi_due_date = None, vi_lines = map (initial_line start items) prepaid\<rparr>)"

definition bill_initial :: "string \<Rightarrow> OrderBillingRequest \<Rightarrow> SourceType \<Rightarrow> string \<Rightarrow> date \<Rightarrow> Contract option \<Rightarrow> classifiedLine list \<Rightarrow> OrderBillingResult io" where
  "bill_initial org req sourceType accountID start contract prepaid =
     (let res = \<lparr>os_account_id = accountID, os_initial_invoice_id = [],
                 os_contract_id = (case contract of None \<Rightarrow> [] | Some c \<Rightarrow> ct_id c)\<rparr>
      in if prepaid = [] then ret res
         else chain (CreateAndIssue org (initial_invoice req sourceType accountID start contract prepaid) (ob_actor_user_id req)) (\<lambda>i.
              ret (res\<lparr>os_initial_invoice_id := in_id i\<rparr>)))"

definition order_source :: "SourceType \<Rightarrow> SourceType" where
  "order_source s = (if s = [] then SourceSalesOrder else s)"

definition BillOrder :: "string \<Rightarrow> OrderBillingRequest \<Rightarrow> OrderBillingResult io" where
  "BillOrder org req =
     (if ob_source_id req = [] \<or> ob_start_date req = zero_date then raise (ErrInvalidInvoice ''order source'')
      else let sourceType = order_source (ob_source_type req); start = AddPeriod (ob_start_date req) Daily 0 in
           chain (lift (classify (ob_lines req))) (\<lambda>(prepaid, recurring).
           chain (resolveAccount org sourceType req (ob_source_id req)) (\<lambda>accountID.
           chain (if recurring = [] then ret None
                  else chain (ensureContract org sourceType accountID start req recurring) (\<lambda>c. ret (Some c))) (\<lambda>contract.
           bill_initial org req sourceType accountID start contract prepaid))))"

section \<open>Deliveries\<close>

fun delivery_lines :: "OrderLine list \<Rightarrow> err + InvoiceLine list" where
  "delivery_lines [] = Inr []"
| "delivery_lines (l # ls) =
     (case Normalize (ol_attrs l) of
        Inl _ \<Rightarrow> Inl (ErrInvalidInvoice ''line attributes'')
      | Inr attrs \<Rightarrow> (case delivery_lines ls of Inl er \<Rightarrow> Inl er | Inr r \<Rightarrow> Inr (lineInput l attrs # r)))"

definition BillDelivery :: "string \<Rightarrow> SourceType \<Rightarrow> string \<Rightarrow> string \<Rightarrow> OrderLine list \<Rightarrow> OrderBillingRequest \<Rightarrow> string io" where
  "BillDelivery org sourceType0 sourceID batchKey ls req =
     (if sourceID = [] \<or> TrimSpace batchKey = [] \<or> ls = [] then raise (ErrInvalidInvoice ''delivery'')
      else let sourceType = order_source sourceType0 in
           chain (resolveAccount org sourceType req (ob_source_id req)) (\<lambda>accountID.
           chain (lift (delivery_lines ls)) (\<lambda>inputs.
           chain (CreateAndIssue org
             \<lparr>vi_account_id = accountID, vi_source_type = sourceType, vi_source_id = sourceID, vi_contract_id = [],
              vi_idempotency_key = ''delivery:'' @ batchKey, vi_currency = ob_currency req, vi_notes = ob_notes req,
              vi_pic_user_id = ob_pic_user_id req, vi_channels = ob_channels req, vi_period_start = None, vi_period_end = None,
              vi_due_date = None, vi_lines = inputs\<rparr> (ob_actor_user_id req)) (\<lambda>i.
           ret (in_id i)))))"

end
