(* ===== verification/Collecting.thy ===== *)
theory Collecting
  imports OrderBilling
begin

text \<open>
  What customers and the payment provider reach: the public invoice page (\<open>service/public.go\<close>), online
  payment (\<open>online_payment.go\<close>) and the settlement of what was collected (\<open>settlement.go\<close>).
\<close>

section \<open>The settlement ledger (settlement.go)\<close>

definition sameAmount :: "string \<Rightarrow> string \<Rightarrow> bool" where
  "sameAmount a b = (case (SetString a, SetString b) of (Some x, Some y) \<Rightarrow> x = y | _ \<Rightarrow> False)"

text \<open>A collision is only logged.\<close>

definition checkDuplicate :: "SettlementPaymentParams \<Rightarrow> unit io" where
  "checkDuplicate entry = chain (Settlements_FindPaymentByReference (sm_provider_reference entry)) (\<lambda>_. ret ())"

definition RecordPayment :: "string \<Rightarrow> string \<Rightarrow> string \<Rightarrow> string \<Rightarrow> instant \<Rightarrow> unit io" where
  "RecordPayment orgID0 invoiceID0 reference0 amount0 paidAt =
     (let orgID = TrimSpace orgID0; invoiceID = TrimSpace invoiceID0; reference = TrimSpace reference0; amount = TrimSpace amount0
      in if orgID = [] \<or> invoiceID = [] \<or> reference = [] \<or> IsZero paidAt \<or> \<not> validAmount amount then raise ErrInvalidSettlementEntry
         else let entry = \<lparr>sm_org = orgID, sm_invoice_id = invoiceID, sm_provider_reference = reference, sm_amount = amount,
                          sm_occurred_at = paidAt\<rparr>
              in chain (Settlements_InsertPayment entry) (\<lambda>created. if created then ret () else checkDuplicate entry))"

record SettlementBalance =
  sb_paid_in :: string
  sb_settled :: string
  sb_adjusted :: string
  sb_remaining :: string

definition newBalance :: "SettlementTotals \<Rightarrow> err + SettlementBalance" where
  "newBalance t =
     (case (SetString (tt_paid_in t), SetString (tt_settled t), SetString (tt_adjusted t)) of
        (Some paid, Some out, Some adj) \<Rightarrow>
          Inr \<lparr>sb_paid_in = FloatString2 paid, sb_settled = FloatString2 out, sb_adjusted = FloatString2 adj,
               sb_remaining = FloatString2 (paid - out + adj)\<rparr>
      | _ \<Rightarrow> Inl ErrMalformedTotals)"

definition SettlementService_Balance :: "string \<Rightarrow> SettlementBalance io" where
  "SettlementService_Balance org = chain (Ledger_Totals org) (\<lambda>t. lift (newBalance t))"

fun balances_of :: "(string \<times> string \<times> SettlementTotals) list \<Rightarrow> err + (string \<times> string \<times> SettlementBalance) list" where
  "balances_of [] = Inr []"
| "balances_of ((i, n, t) # rows) =
     (case newBalance t of
        Inl er \<Rightarrow> Inl er
      | Inr b \<Rightarrow> (case balances_of rows of Inl er \<Rightarrow> Inl er | Inr bs \<Rightarrow> Inr ((i, n, b) # bs)))"

definition SettlementService_ListBalances :: "string \<Rightarrow> int \<Rightarrow> int \<Rightarrow> ((string \<times> string \<times> SettlementBalance) list \<times> nat) io" where
  "SettlementService_ListBalances search limit off =
     chain (Ledger_ListBalances search limit off) (\<lambda>(rows, total). chain (lift (balances_of rows)) (\<lambda>bs. ret (bs, total)))"

definition SettlementService_ListEntries :: "string \<Rightarrow> int \<Rightarrow> int \<Rightarrow> (SettlementEntry list \<times> nat) io" where
  "SettlementService_ListEntries org limit off = Ledger_ListEntries org limit off"

definition signedAmount :: "string \<Rightarrow> bool \<Rightarrow> rat option" where
  "signedAmount v allowNegative =
     (let neg = (case v of c # _ \<Rightarrow> c = CHR ''-'' | [] \<Rightarrow> False); body = (if neg then tl v else v) in
      if neg \<and> \<not> allowNegative then None
      else if \<not> validAmount body then None
      else map_option (\<lambda>r. if neg then - r else r) (SetString body))"

record SettlementEntryInput =
  sei_kind :: string
  sei_amount :: string
  sei_note :: string
  sei_occurred_at :: instant

definition requireCustomerBeneficiary :: "string \<Rightarrow> unit io" where
  "requireCustomerBeneficiary org =
     chain (map_error (\<lambda>er. if er = ErrOrganizationNotFound then ErrSettlementBeneficiaryNotFound else er) (Ledger_BeneficiaryType org)) (\<lambda>t.
     ensure (t = ''customer'') ErrSettlementBeneficiaryInvalid)"

text \<open>Run by the repository under the organization's lock.\<close>

definition settlement_check :: "string \<Rightarrow> rat \<Rightarrow> SettlementTotals \<Rightarrow> err option" where
  "settlement_check kind amount t =
     (case newBalance t of
        Inl er \<Rightarrow> Some er
      | Inr b \<Rightarrow>
          let remaining = (case SetString (sb_remaining b) of None \<Rightarrow> 0 | Some r \<Rightarrow> r) in
          if kind = ''settlement'' then (if amount > remaining then Some ErrSettlementExceedsBalance else None)
          else if remaining + amount < 0 then Some ErrAdjustmentBelowZero else None)"

definition SettlementService_Record :: "string \<Rightarrow> SettlementEntryInput \<Rightarrow> string \<Rightarrow> SettlementEntry io" where
  "SettlementService_Record orgID0 i actor0 =
     (let orgID = TrimSpace orgID0; actor = TrimSpace actor0; kind = TrimSpace (sei_kind i); note = TrimSpace (sei_note i);
          amountText = TrimSpace (sei_amount i)
      in if orgID = [] \<or> (kind \<noteq> ''settlement'' \<and> kind \<noteq> ''adjustment'') \<or> RuneCount note > 500 then raise ErrInvalidSettlementEntry
         else case signedAmount amountText (kind = ''adjustment'') of
             None \<Rightarrow> raise ErrInvalidSettlementEntry
           | Some amount \<Rightarrow>
               if kind = ''adjustment'' \<and> note = [] then raise ErrAdjustmentNoteRequired
               else chain (requireCustomerBeneficiary orgID) (\<lambda>_. ask e_now (\<lambda>now.
                    Ledger_InsertManualLocked
                      \<lparr>sme_org = orgID, sme_kind = kind, sme_amount = FloatString2 amount, sme_note = note, sme_created_by = actor,
                       sme_occurred_at = (if IsZero (sei_occurred_at i) then now else sei_occurred_at i)\<rparr>
                      (settlement_check kind amount))))"

section \<open>The public page (public.go)\<close>

datatype PublicInvoiceState = StateOpen | StatePaid | StateVoid

fun stateOf :: "InvoiceStatus \<Rightarrow> PublicInvoiceState" where
  "stateOf InvoiceVoid = StateVoid"
| "stateOf InvoicePaid = StatePaid"
| "stateOf _ = StateOpen"

definition PublicLinkIdentity :: string where "PublicLinkIdentity = ''public-document-link''"

record publicInvoice =
  pi_scope :: string
  pi_link :: Link
  pi_inv :: Invoice
  pi_state :: PublicInvoiceState

definition public_scope_error :: "err \<Rightarrow> err" where
  "public_scope_error er = (if er = ErrOrgNotFound \<or> er = ErrOrgInactive then ErrLinkInvalid else er)"

definition loadPublicInvoice :: "string \<Rightarrow> publicInvoice io" where
  "loadPublicInvoice token =
     chain (Link_Resolve token) (\<lambda>link. ask (\<lambda>e. e) (\<lambda>e.
       if lk_doc_type link \<noteq> DocumentInvoice \<or> lk_expires_at link < e_now e then raise ErrLinkInvalid
       else case e_resolve e (lk_org link) PublicLinkIdentity of
           Inl er \<Rightarrow> raise (public_scope_error er)
         | Inr scope \<Rightarrow>
             chain (ensure (scope_valid scope) ErrInvalidScope) (\<lambda>_.
             chain (map_error (\<lambda>er. if er = ErrInvoiceNotFound then ErrLinkInvalid else er) (Invoice_Get scope (lk_doc_id link))) (\<lambda>i.
             if in_status i = InvoiceDraft then raise ErrLinkInvalid
             else if lk_revoked_at link \<noteq> None \<and> in_status i \<noteq> InvoiceVoid then raise ErrLinkInvalid
             else ret \<lparr>pi_scope = scope, pi_link = link, pi_inv = i, pi_state = stateOf (in_status i)\<rparr>))))"

record PublicInvoiceView =
  pv_tenant_name :: string
  pv_invoice :: Invoice
  pv_state :: PublicInvoiceState
  pv_can_pay :: bool

definition Public_View :: "string \<Rightarrow> PublicInvoiceView io" where
  "Public_View token =
     chain (loadPublicInvoice token) (\<lambda>p.
     chain (Link_Touch (pi_link p)) (\<lambda>_. ask (\<lambda>e. e) (\<lambda>e.
     ret \<lparr>pv_tenant_name = (case e_issuers e of
                             None \<Rightarrow> []
                           | Some profile \<Rightarrow> (case profile (pi_scope p) of Inl _ \<Rightarrow> [] | Inr party \<Rightarrow> pa_name party)),
          pv_invoice = pi_inv p, pv_state = pi_state p,
          pv_can_pay = (pi_state p = StateOpen \<and> onlinePaymentAllowed e (pi_scope p) (in_id (pi_inv p)))\<rparr>)))"

definition Public_PDF :: "string \<Rightarrow> (string \<times> string) io" where
  "Public_PDF token = chain (loadPublicInvoice token) (\<lambda>p. Invoice_PDF (pi_scope p) (in_id (pi_inv p)))"

section \<open>Online payment (online_payment.go)\<close>

definition DokuNumberPrefix :: string where "DokuNumberPrefix = ''RCV-''"
definition defaultCheckoutMinutes :: int where "defaultCheckoutMinutes = 60"
definition statusSyncMinInterval :: int where "statusSyncMinInterval = 10 * 10 ^ 9"

record DokuNotification =
  dn_invoice_number :: string
  dn_status :: string
  dn_amount :: string
  dn_reference :: string
  dn_paid_at :: "instant option"

definition payable :: "InvoiceStatus \<Rightarrow> bool" where
  "payable s \<longleftrightarrow> s = InvoiceIssued \<or> s = InvoiceOverdue"

definition remainingOf :: "Invoice \<Rightarrow> rat option" where
  "remainingOf i =
     (case (SetString (inv_grand_total i), SetString (inv_amount_paid i)) of
        (Some grand, Some paid) \<Rightarrow> Some (grand - paid)
      | _ \<Rightarrow> None)"

text \<open>\<open>big.Int.QuoRem\<close> truncates; \<open>Int64\<close> keeps the low 64 bits.\<close>

definition ceilRupiah :: "rat \<Rightarrow> int" where
  "ceilRupiah r =
     (let (n, d) = quotient_of r; q = sgn n * (\<bar>n\<bar> div d); m = n - q * d in int64 (if 0 < m then q + 1 else q))"

definition sessionMinutes :: "env \<Rightarrow> int" where
  "sessionMinutes e = (if e_session_minutes e \<le> 0 then defaultCheckoutMinutes else e_session_minutes e)"

definition start_checkout :: "publicInvoice \<Rightarrow> rat \<Rightarrow> string \<Rightarrow> (string \<times> instant) io" where
  "start_checkout p remaining token =
     ask (\<lambda>e. e) (\<lambda>e.
     let i = pi_inv p; amount = ceilRupiah remaining; number = DokuNumberPrefix @ in_id i;
         req = \<lparr>cq_number = number, cq_amount = amount, cq_currency = (if in_currency i = [] then ''IDR'' else in_currency i),
                cq_minutes = sessionMinutes e,
                cq_callback_url = trim_slashes (e_frontend_url e) @ ''/i/'' @ token @ ''?paid=1''\<rparr>
     in attempt (external (EvDokuCreate req) (\<lambda>e n. e_doku_create e n req)) (\<lambda>r.
        case r of
          Inl er \<Rightarrow> raise (ErrCheckoutFailed er)
        | Inr (url, expiry) \<Rightarrow>
            let expiresAt = (if IsZero expiry then e_now e + sessionMinutes e * 60 * 10 ^ 9 else expiry) in
            chain (Checkouts_Create (pi_scope p) (in_id i) number (dec_int amount) url expiresAt) (\<lambda>c.
            ret (ck_payment_url c, ck_expires_at c))))"

definition Checkout_Start :: "string \<Rightarrow> (string \<times> instant) io" where
  "Checkout_Start token =
     chain (loadPublicInvoice token) (\<lambda>p. ask (\<lambda>e. e) (\<lambda>e. let i = pi_inv p in
       if \<not> onlinePaymentAllowed e (pi_scope p) (in_id i) then raise ErrOnlinePaymentUnavailable
       else if \<not> payable (in_status i) then raise ErrInvoiceNotPayable
       else case remainingOf i of
           None \<Rightarrow> raise ErrInvoiceNotPayable
         | Some remaining \<Rightarrow>
             if remaining \<le> 0 then raise ErrInvoiceNotPayable
             else attempt (Checkouts_FindReusable (pi_scope p) (in_id i) (e_now e)) (\<lambda>existing.
               case existing of
                 Inr c \<Rightarrow> ret (ck_payment_url c, ck_expires_at c)
               | Inl er \<Rightarrow> if er = NoRows then start_checkout p remaining token else raise er)))"

text \<open>
  \<open>strings.ToUpper\<close> as far as a comparison with ASCII texts can see: the two runes outside ASCII whose
  upper case is an ASCII letter are the dotless i (C4 B1) and the long s (C5 BF).
\<close>

fun ToUpper :: "string \<Rightarrow> string" where
  "ToUpper [] = []"
| "ToUpper [c] = [if 97 \<le> (of_char c :: nat) \<and> (of_char c :: nat) \<le> 122 then char_of (of_char c - 32 :: nat) else c]"
| "ToUpper (c # c' # cs) =
     (if c = CHR 0xC4 \<and> c' = CHR 0xB1 then CHR ''I'' # ToUpper cs
      else if c = CHR 0xC5 \<and> c' = CHR 0xBF then CHR ''S'' # ToUpper cs
      else (if 97 \<le> (of_char c :: nat) \<and> (of_char c :: nat) \<le> 122 then char_of (of_char c - 32 :: nat) else c) # ToUpper (c' # cs))"

definition isDokuSuccess :: "string \<Rightarrow> bool" where
  "isDokuSuccess status \<longleftrightarrow> (let s = ToUpper (TrimSpace status) in s = ''SUCCESS'' \<or> s = ''PAID'')"

text \<open>What is recorded of a notified amount: at most what remains.\<close>

definition notified_amount :: "DokuNotification \<Rightarrow> Checkout \<Rightarrow> Invoice \<Rightarrow> string" where
  "notified_amount n c i =
     (let given = TrimSpace (dn_amount n); amount = (if validAmount given then given else ck_amount c) in
      if payable (in_status i) then
        (case (remainingOf i, SetString amount) of
           (Some remaining, Some got) \<Rightarrow> if 0 < remaining \<and> remaining < got then FloatString2 remaining else amount
         | _ \<Rightarrow> amount)
      else amount)"

definition notified_at :: "DokuNotification \<Rightarrow> instant \<Rightarrow> instant" where
  "notified_at n now = (case dn_paid_at n of Some t \<Rightarrow> if now < t then now else t | None \<Rightarrow> now)"

definition notified_reference :: "DokuNotification \<Rightarrow> instant \<Rightarrow> string" where
  "notified_reference n paidAt =
     (let r = TrimSpace (dn_reference n) in if r = [] then dn_invoice_number n @ CHR ''-'' # yyyymmdd (utc_day paidAt) else r)"

definition settlementPaymentReference :: "DokuNotification \<Rightarrow> string \<Rightarrow> string" where
  "settlementPaymentReference n paymentID =
     (let r = TrimSpace (dn_reference n) in if r \<noteq> [] then r else dn_invoice_number n @ CHR '':'' # paymentID)"

text \<open>\<open>strings.EqualFold(c, "IDR")\<close>: none of these letters folds with a rune outside ASCII.\<close>

definition is_idr :: "string \<Rightarrow> bool" where
  "is_idr c \<longleftrightarrow> (case c of [a, b, d] \<Rightarrow> a \<in> {CHR ''I'', CHR ''i''} \<and> b \<in> {CHR ''D'', CHR ''d''} \<and> d \<in> {CHR ''R'', CHR ''r''} | _ \<Rightarrow> False)"

definition creditSettlement :: "string \<Rightarrow> DokuNotification \<Rightarrow> string \<Rightarrow> Payment \<Rightarrow> unit io" where
  "creditSettlement org n currency pay =
     ask (\<lambda>e. e) (\<lambda>e. let c = TrimSpace currency in
       if \<not> e_settlements e \<or> e_org_type e org \<noteq> Some ''customer'' then ret ()
       else if c \<noteq> [] \<and> \<not> is_idr c then ret ()
       else ignore (RecordPayment org (py_invoice_id pay) (settlementPaymentReference n (py_id pay)) (py_amount pay) (py_paid_at pay)))"

definition settle_notification :: "string \<Rightarrow> DokuNotification \<Rightarrow> Checkout \<Rightarrow> bool io" where
  "settle_notification org n c =
     chain (Invoice_Get org (ck_invoice_id c)) (\<lambda>i. ask e_now (\<lambda>now. let paidAt = notified_at n now in
     attempt (RecordProvider org (ck_invoice_id c)
       \<lparr>pp_amount = notified_amount n c i, pp_method = ''doku'', pp_reference = notified_reference n paidAt, pp_note = [],
        pp_recorded_by = [], pp_paid_at = paidAt\<rparr>) (\<lambda>r.
       case r of
         Inl er \<Rightarrow> if er = ErrInvoiceNotPayable \<or> er = ErrPaymentExceeds then ret True else raise er
       | Inr (_, pay) \<Rightarrow>
           chain (ignore (Checkouts_SetStatus (ck_id c) ''paid'')) (\<lambda>_.
           chain (creditSettlement org n (in_currency i) pay) (\<lambda>_. ret True)))))"

definition HandleNotification :: "DokuNotification \<Rightarrow> bool io" where
  "HandleNotification n =
     attempt (Checkouts_FindByDokuNumber (dn_invoice_number n)) (\<lambda>r.
       case r of
         Inl er \<Rightarrow> if er = NoRows then ret False else raise er
       | Inr c \<Rightarrow>
           if \<not> isDokuSuccess (dn_status n) then ret False
           else ask (\<lambda>e. e_resolve e (ck_org c) PublicLinkIdentity) (\<lambda>s. chain (lift s) (\<lambda>org.
                chain (ensure (scope_valid org) ErrInvalidScope) (\<lambda>_. settle_notification org n c))))"

definition allowSync :: "string \<Rightarrow> bool io" where
  "allowSync invoiceID = (\<lambda>e w.
     case w_last_sync w invoiceID of
       Some prev \<Rightarrow> if e_now e - prev < statusSyncMinInterval then (Inr False, w)
                    else (Inr True, w\<lparr>w_last_sync := (w_last_sync w)(invoiceID \<mapsto> e_now e)\<rparr>)
     | None \<Rightarrow> (Inr True, w\<lparr>w_last_sync := (w_last_sync w)(invoiceID \<mapsto> e_now e)\<rparr>))"

definition sync_checkout :: "publicInvoice \<Rightarrow> InvoiceStatus io" where
  "sync_checkout p =
     (let i = pi_inv p; number = DokuNumberPrefix @ in_id i in
      attempt (Checkouts_FindByDokuNumber number) (\<lambda>r.
        case r of
          Inl er \<Rightarrow> if er = NoRows then ret (in_status i) else raise er
        | Inr c \<Rightarrow>
            if ck_status c \<noteq> ''pending'' then ret (in_status i)
            else attempt (external (EvDokuStatus number) (\<lambda>e n. e_doku_status e n number)) (\<lambda>st.
              case st of
                Inl er \<Rightarrow> raise (ErrStatusFailed er)
              | Inr s \<Rightarrow>
                  if \<not> ds_final_success s then ret (in_status i)
                  else chain (HandleNotification \<lparr>dn_invoice_number = number, dn_status = ds_status s, dn_amount = ds_amount s,
                                dn_reference = ds_reference s, dn_paid_at = None\<rparr>) (\<lambda>_.
                       chain (Invoice_Get (pi_scope p) (in_id i)) (\<lambda>i'. ret (in_status i'))))))"

definition SyncStatus :: "string \<Rightarrow> InvoiceStatus io" where
  "SyncStatus token =
     chain (loadPublicInvoice token) (\<lambda>p.
       if \<not> payable (in_status (pi_inv p)) then ret (in_status (pi_inv p))
       else chain (allowSync (in_id (pi_inv p))) (\<lambda>allowed.
            if allowed then sync_checkout p else ret (in_status (pi_inv p))))"

end
