(* ===== verification/Outlook.thy ===== *)
theory Outlook
  imports Collecting
begin

text \<open>
  \<open>repository/overview_repository.go\<close> and \<open>service/overview.go\<close>: the active contract items, what is
  unpaid, which sends failed, and the billings to come.
\<close>

section \<open>Repository\<close>

definition account_label :: "account_row \<Rightarrow> string" where
  "account_label a = (if ac_company_name a \<noteq> [] then ac_company_name a else ac_name a)"

definition active_rows :: "db \<Rightarrow> string \<Rightarrow> (contract_row \<times> contract_item_row) list" where
  "active_rows d org =
     sort_key (\<lambda>(c, i). (ct_id c, ci_position i, ci_id i))
       (filter (\<lambda>(c, i). cr_org c = org \<and> ct_status c = ContractActive \<and> account_of d org (ct_account_id c) \<noteq> None \<and>
                  cir_org i = org \<and> cir_contract_id i = ct_id c) (List.product (d_contracts d) (d_citems d)))"

definition active_item :: "db \<Rightarrow> contract_row \<times> contract_item_row \<Rightarrow> ActiveItem" where
  "active_item d = (\<lambda>(c, i).
     \<lparr>ai_contract_id = ct_id c, ai_contract_number = ct_number c,
      ai_account_name = account_label (the (account_of d (cr_org c) (ct_account_id c))), ai_start_date = ct_start_date c,
      ai_end_date = ct_end_date c,
      ai_item = (scanContractItem i)\<lparr>ci_product_id := [], ci_sku := [], ci_source_line_id := [], ci_features := []\<rparr>\<rparr>)"

definition active_items_tx :: "string \<Rightarrow> nat \<Rightarrow> ActiveItem list tx" where
  "active_items_tx org limit = get (\<lambda>d. d) (\<lambda>d. ret (map (active_item d) (take limit (active_rows d org))))"

definition Overview_ActiveItems :: "string \<Rightarrow> nat \<Rightarrow> ActiveItem list io" where
  "Overview_ActiveItems org limit = withScopedTx org (active_items_tx org limit)"

definition unpaid_row :: "string \<Rightarrow> invoice_row \<Rightarrow> bool" where
  "unpaid_row org r \<longleftrightarrow> ir_org r = org \<and> (in_status r = InvoiceIssued \<or> in_status r = InvoiceOverdue)"

definition overdue_row :: "date \<Rightarrow> invoice_row \<Rightarrow> bool" where
  "overdue_row today r \<longleftrightarrow> in_status r = InvoiceOverdue \<or> (case in_due_date r of None \<Rightarrow> False | Some x \<Rightarrow> x < today)"

definition unpaid_tx :: "string \<Rightarrow> date \<Rightarrow> UnpaidSummary tx" where
  "unpaid_tx org today =
     get d_invoices (\<lambda>rows. let un = filter (unpaid_row org) rows in
       ret \<lparr>us_count = length un, us_overdue_count = length (filter (overdue_row today) un),
            us_total_balance = cents_text (\<Sum>r \<leftarrow> un. ir_grand_total r - ir_amount_paid r)\<rparr>)"

definition Overview_Unpaid :: "string \<Rightarrow> date \<Rightarrow> UnpaidSummary io" where
  "Overview_Unpaid org today = withScopedTx org (unpaid_tx org today)"

text \<open>The latest unanswered failure of each invoice and channel, newest first; ties keep the order of the inner query.\<close>

definition latest_failure :: "db \<Rightarrow> string \<Rightarrow> send_row \<Rightarrow> bool" where
  "latest_failure d org s \<longleftrightarrow>
     sr_org s = org \<and> failed_unanswered d s \<and>
     \<not> (\<exists>k \<in> set (d_sends d). sr_org k = org \<and> failed_unanswered d k \<and> sd_invoice_id k = sd_invoice_id s \<and>
          sd_channel k = sd_channel s \<and> (sd_sent_at s, sd_id s) < (sd_sent_at k, sd_id k))"

definition failed_send :: "db \<Rightarrow> string \<Rightarrow> send_row \<Rightarrow> FailedSend option" where
  "failed_send d org s =
     (case List.find (invoice_key org (sd_invoice_id s)) (d_invoices d) of
        None \<Rightarrow> None
      | Some r \<Rightarrow>
          map_option (\<lambda>a. \<lparr>fs_invoice_id = sd_invoice_id s, fs_invoice_number = in_number r, fs_account_name = account_label a,
              fs_channel = sd_channel s, fs_error = sd_error s, fs_sent_at = sd_sent_at s\<rparr>)
            (account_of d org (in_account_id r)))"

definition failed_sends_tx :: "string \<Rightarrow> nat \<Rightarrow> FailedSend list tx" where
  "failed_sends_tx org limit =
     get (\<lambda>d. d) (\<lambda>d.
       let inner = sort_key (\<lambda>s. (sd_invoice_id s, sd_channel s)) (filter (latest_failure d org) (d_sends d));
           rows = List.map_filter (failed_send d org) inner
       in ret (take limit (sort_key (\<lambda>f. - fs_sent_at f) rows)))"

definition Overview_FailedSends :: "string \<Rightarrow> nat \<Rightarrow> FailedSend list io" where
  "Overview_FailedSends org limit = withScopedTx org (failed_sends_tx org limit)"

section \<open>Upcoming billings\<close>

record UpcomingBilling =
  ub_contract_id :: string
  ub_contract_number :: string
  ub_account_name :: string
  ub_item_id :: string
  ub_description :: string
  ub_amount :: string
  ub_bill_on :: date
  ub_period_start :: date
  ub_period_end :: date
  ub_payment_timing :: PaymentTiming

record Overview =
  ov_active_contracts :: nat
  ov_recurring :: "(Frequency \<times> string \<times> string) list"
  ov_upcoming :: "UpcomingBilling list"
  ov_unpaid :: UnpaidSummary
  ov_failed_sends :: "FailedSend list"

definition overviewHorizonDays :: int where "overviewHorizonDays = 30"
definition overviewMaxUpcoming :: nat where "overviewMaxUpcoming = 100"
definition overviewMaxFailed :: nat where "overviewMaxFailed = 50"
definition overviewMaxItems :: nat where "overviewMaxItems = 5000"
definition upcomingMaxPeriods :: nat where "upcomingMaxPeriods = 100"

definition item_line :: "ContractItem \<Rightarrow> LineInput" where
  "item_line it =
     \<lparr>li_description = ci_description it, li_quantity = cit_quantity it, li_unit_price = cit_unit_price it,
      li_discount_percent = cit_discount_percent it, li_tax_percent = cit_tax_percent it,
      li_attrs = \<lparr>a_charge_type = Recurring, a_frequency = ci_frequency it, a_payment_timing = ci_payment_timing it\<rparr>\<rparr>"

definition itemAmount :: "ContractItem \<Rightarrow> rat option" where
  "itemAmount it =
     (case PriceLines [item_line it] of
        Inl _ \<Rightarrow> None
      | Inr (totals, _) \<Rightarrow> SetString (t_grand_total totals))"

definition upcoming_bill_on :: "int \<Rightarrow> PaymentTiming \<Rightarrow> date \<Rightarrow> date \<Rightarrow> date" where
  "upcoming_bill_on leadDays timing s t = (if timing = Prepaid then AddDate s 0 0 (- leadDays) else AddDate t 0 0 1)"

text \<open>The loop over periods \<open>k\<close>, with as many left as the first argument says; \<open>found\<close> counts the billings kept.\<close>

fun upcoming_loop :: "nat \<Rightarrow> ActiveItem \<Rightarrow> rat \<Rightarrow> int \<Rightarrow> nat \<Rightarrow> date option \<Rightarrow> int \<Rightarrow> nat \<Rightarrow> UpcomingBilling list" where
  "upcoming_loop 0 a amount leadDays limit horizon k found = []"
| "upcoming_loop (Suc n) a amount leadDays limit horizon k found =
     (if limit \<noteq> 0 \<and> limit \<le> found then []
      else let it = ai_item a; (s, t) = PeriodRange (ai_start_date a) (ci_frequency it) (ci_period_index it + k);
               billOn = upcoming_bill_on leadDays (ci_payment_timing it) s t
           in if (case ai_end_date a of None \<Rightarrow> False | Some x \<Rightarrow> x < s) then []
              else if (case horizon of None \<Rightarrow> False | Some h \<Rightarrow> h < billOn) then []
              else \<lparr>ub_contract_id = ai_contract_id a, ub_contract_number = ai_contract_number a, ub_account_name = ai_account_name a,
                    ub_item_id = ci_id it, ub_description = ci_description it, ub_amount = FloatString2 amount, ub_bill_on = billOn,
                    ub_period_start = s, ub_period_end = t, ub_payment_timing = ci_payment_timing it\<rparr>
                   # upcoming_loop n a amount leadDays limit horizon (k + 1) (Suc found))"

definition upcomingFor :: "ActiveItem \<Rightarrow> int \<Rightarrow> nat \<Rightarrow> date option \<Rightarrow> UpcomingBilling list" where
  "upcomingFor a leadDays limit horizon =
     (case itemAmount (ai_item a) of
        None \<Rightarrow> []
      | Some amount \<Rightarrow> upcoming_loop upcomingMaxPeriods a amount leadDays limit horizon 0 0)"

definition sortUpcoming :: "UpcomingBilling list \<Rightarrow> UpcomingBilling list" where
  "sortUpcoming = sort_key (\<lambda>u. (ub_bill_on u, ub_contract_number u))"

text \<open>The sum of one period's amounts per frequency, of the items whose amount can be computed.\<close>

definition recurring_sum :: "ActiveItem list \<Rightarrow> Frequency \<Rightarrow> rat option" where
  "recurring_sum items f =
     (let amounts = List.map_filter (\<lambda>a. if ci_frequency (ai_item a) = f then itemAmount (ai_item a) else None) items
      in if amounts = [] then None else Some (sum_list amounts))"

definition recurring_totals :: "ActiveItem list \<Rightarrow> (Frequency \<times> string \<times> string) list" where
  "recurring_totals items =
     List.map_filter (\<lambda>f. map_option (\<lambda>s. (f, Frequency_Label f, FloatString2 s)) (recurring_sum items f)) Frequencies"

definition Overview_Get :: "string \<Rightarrow> Overview io" where
  "Overview_Get org =
     ask e_now (\<lambda>now. let today = DayOf now in
     chain (Settings_Get org) (\<lambda>settings.
     chain (Overview_ActiveItems org overviewMaxItems) (\<lambda>items.
     chain (Overview_Unpaid org today) (\<lambda>unpaid.
     chain (Overview_FailedSends org overviewMaxFailed) (\<lambda>failed.
     let horizon = AddDate today 0 0 overviewHorizonDays;
         upcoming = concat (map (\<lambda>a. upcomingFor a (se_lead_days settings) 0 (Some horizon)) items)
     in ret \<lparr>ov_active_contracts = card (set (map ai_contract_id items)), ov_recurring = recurring_totals items,
             ov_upcoming = take overviewMaxUpcoming (sortUpcoming upcoming), ov_unpaid = unpaid, ov_failed_sends = failed\<rparr>)))))"

definition ContractUpcoming :: "string \<Rightarrow> Contract \<Rightarrow> nat \<Rightarrow> UpcomingBilling list io" where
  "ContractUpcoming org c perItem =
     (if ct_status c \<noteq> ContractActive then ret []
      else chain (Settings_Get org) (\<lambda>settings.
        ret (sortUpcoming (concat (map (\<lambda>it. upcomingFor
          \<lparr>ai_contract_id = ct_id c, ai_contract_number = ct_number c, ai_account_name = ac_name (con_account c),
           ai_start_date = ct_start_date c, ai_end_date = ct_end_date c, ai_item = it\<rparr>
          (se_lead_days settings) perItem None) (con_items c))))))"

end
