(* ===== verification/Amounts.thy ===== *)
theory Amounts
  imports Outlook
begin

text \<open>
  Amounts between the services and the tables: a validated amount and a computed total are plain
  decimals of at most two places, so the column they are written to holds them exactly.
\<close>

section \<open>Plain decimals\<close>

lemma length_dec_nat: "n < 10 ^ m \<Longrightarrow> 1 \<le> m \<Longrightarrow> length (dec_nat n) \<le> m"
proof (induction n arbitrary: m rule: dec_nat.induct)
  case (1 n)
  show ?case
  proof (cases "n < 10")
    case True
    then show ?thesis using 1(3) by (simp add: dec_nat.simps [of n])
  next
    case False
    then obtain k where k: "m = Suc k" "1 \<le> k" using 1(2,3) by (cases m) (auto simp: not_less le_Suc_eq)
    then have "n div 10 < 10 ^ k" using 1(2) by (simp add: less_mult_imp_div_less mult.commute)
    then have "length (dec_nat (n div 10)) \<le> k" using 1(1) [OF False] k(2) by blast
    then show ?thesis using False k(1) by (simp add: dec_nat.simps [of n])
  qed
qed

lemma plain_decimal_text:
  assumes "\<forall>c \<in> set ds. is_digit c" "ds \<noteq> []" "\<forall>c \<in> set f. is_digit c" "f \<noteq> []"
  shows "plain_decimal (ds @ CHR ''.'' # f)" "plain_decimal (CHR ''-'' # ds @ CHR ''.'' # f)" "plain_decimal ds"
proof -
  have t: "takeWhile is_digit (ds @ CHR ''.'' # f) = ds" "dropWhile is_digit (ds @ CHR ''.'' # f) = CHR ''.'' # f"
    "takeWhile is_digit ds = ds" "dropWhile is_digit ds = []"
    using assms(1) by (simp_all add: takeWhile_append2 dropWhile_append2)
  obtain c cs where c: "ds = c # cs" "c \<noteq> CHR ''-''" using assms(1,2) is_digit_neqs by (cases ds) auto
  show "plain_decimal (ds @ CHR ''.'' # f)" "plain_decimal ds"
    using t assms c unfolding plain_decimal_def by (auto simp: Let_def list_all_iff)
  show "plain_decimal (CHR ''-'' # ds @ CHR ''.'' # f)"
    using t assms unfolding plain_decimal_def by (auto simp: Let_def list_all_iff)
qed

lemma plain_cents_text: "plain_decimal (cents_text k)"
proof -
  define n where "n = nat \<bar>k\<bar>"
  have z: "\<forall>c \<in> set (zero_pad 2 (dec_nat (n mod 100))). is_digit c" using zero_pad_digits [OF dec_nat_digits] .
  have ne: "zero_pad 2 (dec_nat (n mod 100)) \<noteq> []" using length_cents_frac [of n] by force
  show ?thesis
    using plain_decimal_text(1,2) [OF dec_nat_digits dec_nat_not_Nil z ne] unfolding cents_text_def n_def [symmetric] by simp
qed

lemma length_cents_text:
  assumes "\<bar>k\<bar> < 10 ^ 20"
  shows "length (cents_text k) \<le> 100"
proof -
  have "nat \<bar>k\<bar> < 10 ^ 20" using assms by (simp add: nat_less_iff)
  then have "nat \<bar>k\<bar> div 100 < 10 ^ 20" using div_le_dividend [of "nat \<bar>k\<bar>" 100] by (rule le_less_trans [rotated])
  then have "length (dec_nat (nat \<bar>k\<bar> div 100)) \<le> 20" by (rule length_dec_nat) simp
  moreover have "length (cents_text k) \<le> length (dec_nat (nat \<bar>k\<bar> div 100)) + 4"
    unfolding cents_text_def using length_cents_frac [of "nat \<bar>k\<bar>"] by (simp del: length_zero_pad length_cents_frac)
  ultimately show ?thesis by linarith
qed

lemma numeric_cents_text: "env_ok e \<Longrightarrow> \<bar>k\<bar> < 10 ^ 20 \<Longrightarrow> e_numeric e (cents_text k) = Some (cents k)"
proof -
  assume e: "env_ok e" and k: "\<bar>k\<bar> < 10 ^ 20"
  have "length (cents_text k) \<le> 1000" using length_cents_text [OF k] by simp
  then show ?thesis using e plain_cents_text [of k] by (simp add: env_okD)
qed

lemma numeric_in_cents_text:
  "env_ok e \<Longrightarrow> \<bar>k\<bar> < 10 ^ 20 \<Longrightarrow> numeric_in b e (cents_text k) = Inr j \<longleftrightarrow> j = k \<and> \<bar>k\<bar> < b"
  by (auto simp: numeric_in_Inr numeric_cents_text)

section \<open>A validated amount\<close>

lemma char_digit_le: "is_digit c \<Longrightarrow> char_digit c \<le> 9"
  unfolding is_digit_def by (simp only: list.set insert_iff empty_iff, elim disjE; simp add: char_digit_def)

lemma dec_value_bound: "\<forall>c \<in> set ds. is_digit c \<Longrightarrow> dec_value ds < 10 ^ length ds"
proof (induction ds rule: rev_induct)
  case (snoc c ds)
  then have "char_digit c \<le> 9" "dec_value ds < 10 ^ length ds" using char_digit_le by simp_all
  then show ?case by simp
qed simp

lemma validAmount_cents:
  assumes "validAmount s"
  shows "\<exists>k. 0 < k \<and> k < 10 ^ 18 \<and> SetString s = Some (cents k) \<and> plain_decimal s \<and> length s \<le> 19"
proof -
  define w where "w = takeWhile is_digit s"
  define r where "r = dropWhile is_digit s"
  have s: "s = w @ r" by (simp add: w_def r_def)
  have w: "w \<noteq> []" "length w \<le> 16" "\<forall>c \<in> set w. is_digit c"
    and r: "r = [] \<or> (hd r = CHR ''.'' \<and> (\<forall>c \<in> set (tl r). is_digit c) \<and> 1 \<le> length (tl r) \<and> length (tl r) \<le> 2)"
    using assms unfolding validAmount_def moneyPattern_def w_def [symmetric] r_def [symmetric]
    by (auto simp: Let_def list_all_iff w_def dest: set_takeWhileD)
  have pos: "\<And>x. SetString s = Some x \<Longrightarrow> 0 < x" using assms by (auto simp: validAmount_def)
  have "dec_value w < 10 ^ length w" "(10::nat) ^ length w \<le> 10 ^ 16" using w(3) dec_value_bound power_increasing [OF w(2), of "10::nat"] by simp_all
  then have dw: "int (dec_value w) < 10 ^ 16" by (simp flip: of_nat_less_iff)
  show ?thesis
  proof (cases "r = []")
    case True
    have "SetString (decimal_text w None) = Some (decimal_value w None)" using w by (intro SetString_decimal) auto
    moreover have "decimal_value w None = cents (int (dec_value w) * 100)" by (simp add: decimal_value_def cents_def)
    ultimately have v: "SetString s = Some (cents (int (dec_value w) * 100))" using s True by (simp add: decimal_text_def)
    have "plain_decimal w" using plain_decimal_text(3) [of w "''0''"] w by (simp add: is_digit_def)
    then show ?thesis using v pos [OF v] s True w dw by (intro exI [of _ "int (dec_value w) * 100"]) (simp add: money_simps)
  next
    case False
    define f where "f = tl r"
    have f: "r = CHR ''.'' # f" "\<forall>c \<in> set f. is_digit c" "f \<noteq> []" "length f = 1 \<or> length f = 2"
      using r False unfolding f_def by (cases r; auto)+
    let ?k = "int (dec_value w) * 100 + int (dec_value f) * (if length f = 1 then 10 else 1)"
    have "SetString (decimal_text w (Some f)) = Some (decimal_value w (Some f))" using w f by (intro SetString_decimal) auto
    moreover have "decimal_value w (Some f) = cents ?k"
      using f(4) by (auto simp: decimal_value_def cents_def add_divide_distrib)
    ultimately have v: "SetString s = Some (cents ?k)" using s f by (simp add: decimal_text_def)
    have "plain_decimal s" using plain_decimal_text(1) [of w f] w f s by simp
    moreover have "length s \<le> 19" using s f w by auto
    moreover have "dec_value f < 10 ^ length f" using dec_value_bound f(2) by blast
    then have "?k < 10 ^ 18" using dw f(4) by (cases "length f = 1") auto
    ultimately show ?thesis using v pos [OF v] by (intro exI [of _ ?k]) (simp add: money_simps)
  qed
qed

lemma validAmount_numeric:
  assumes "env_ok e" "validAmount s"
  obtains k where "0 < k" "SetString s = Some (cents k)" "e_numeric e s = Some (cents k)"
proof -
  obtain k where k: "0 < k" "SetString s = Some (cents k)" "plain_decimal s" "length s \<le> 19"
    using validAmount_cents [OF assms(2)] by blast
  then have "e_numeric e s = Some (cents k)" using assms(1) by (simp add: env_okD)
  with k that show thesis by blast
qed

lemma signedAmount_cents:
  assumes "signedAmount s b = Some a"
  obtains k where "a = cents k" "\<bar>k\<bar> < 10 ^ 18" "k \<noteq> 0" "\<not> b \<longrightarrow> 0 < k"
proof -
  define neg where "neg = (case s of c # _ \<Rightarrow> c = CHR ''-'' | [] \<Rightarrow> False)"
  define body where "body = (if neg then tl s else s)"
  have v: "validAmount body" "\<not> (neg \<and> \<not> b)" "map_option (\<lambda>r. if neg then - r else r) (SetString body) = Some a"
    using assms unfolding signedAmount_def neg_def [symmetric] body_def [symmetric] Let_def by (auto split: if_splits)
  obtain k where k: "0 < k" "k < 10 ^ 18" "SetString body = Some (cents k)" using validAmount_cents [OF v(1)] by blast
  show thesis
    by (rule that [of "if neg then - k else k"]) (use k v in \<open>auto simp: cents_minus\<close>)
qed

section \<open>Priced parameters\<close>

text \<open>Totals and lines come from the pricing engine and fit their columns.\<close>

definition priced :: "CreateInvoiceParams \<Rightarrow> bool" where
  "priced p \<longleftrightarrow>
     (\<exists>ls. PriceLines ls = Inr (cp_totals p, map ip_line (cp_items p))) \<and>
     fitsMoneyColumns (cp_totals p) (map ip_line (cp_items p))"

abbreviation item_amount :: "invoice_item_row \<Rightarrow> int" where
  "item_amount i \<equiv> iir_line_total i + iir_tax_amount i"

lemma money_fits_cents [simp]: "money_fits (cents_text k) \<longleftrightarrow> k \<le> 999999999999999999"
  by (simp add: money_fits_def maxMoney_def money_simps)

lemma item_amounts:
  assumes e: "env_ok e" and ok: "\<forall>l \<in> set ls. line_values l \<noteq> None"
    and fits: "\<forall>l \<in> set ls. money_fits (pl_tax_amount (priced_of l)) \<and> money_fits (pl_line_total (priced_of l))"
    and items: "list_all2 (item_from e org rid) its rs" and lines: "map ip_line its = map priced_of ls"
  shows "(\<Sum>r \<leftarrow> rs. item_amount r) = (\<Sum>l \<leftarrow> ls. line_gross l - line_discount l + line_tax l)"
  using items lines ok fits
proof (induction arbitrary: ls rule: list_all2_induct)
  case Nil
  then show ?case by simp
next
  case (Cons it its r rs)
  then obtain l ls' where ls: "ls = l # ls'" "ip_line it = priced_of l" "map ip_line its = map priced_of ls'" by (cases ls) auto
  obtain q p d x a where v: "line_values l = Some (q, p, d, x, a)" using Cons.prems ls(1) by (cases "line_values l") auto
  note b = line_bounds [of l]
  have t: "pl_tax_amount (priced_of l) = cents_text (line_tax l)" "pl_line_total (priced_of l) = cents_text (line_gross l - line_discount l)"
    using v by (simp_all add: priced_of_def)
  have f: "line_tax l \<le> 999999999999999999" "line_gross l - line_discount l \<le> 999999999999999999"
    using Cons.prems ls(1) by (simp_all add: t)
  have "iir_tax_amount r = line_tax l" "iir_line_total r = line_gross l - line_discount l"
    using Cons.hyps(1) b f unfolding item_from_def ls(2) t by (simp_all add: numeric_in_cents_text [OF e])
  moreover have "(\<Sum>r \<leftarrow> rs. item_amount r) = (\<Sum>l \<leftarrow> ls'. line_gross l - line_discount l + line_tax l)"
    using Cons.IH [OF ls(3)] Cons.prems ls(1) by simp
  ultimately show ?case by (simp add: ls(1))
qed

lemma priced_balance:
  assumes "env_ok e" "priced p" "numeric_in (10 ^ 18) e (t_grand_total (cp_totals p)) = Inr g"
    "list_all2 (item_from e org rid) (cp_items p) rs"
  shows "g = (\<Sum>r \<leftarrow> rs. item_amount r)"
proof -
  obtain ls where "PriceLines ls = Inr (cp_totals p, map ip_line (cp_items p))" using assms(2) by (auto simp: priced_def)
  then have ls: "\<forall>l \<in> set ls. line_values l \<noteq> None" "cp_totals p = totals_of ls" "map ip_line (cp_items p) = map priced_of ls"
    by (auto simp: PriceLines_eq split: if_splits)
  have f: "fitsMoneyColumns (totals_of ls) (map priced_of ls)" using assms(2) ls(2,3) by (simp add: priced_def)
  have s: "(\<Sum>r \<leftarrow> rs. item_amount r) = (\<Sum>l \<leftarrow> ls. line_gross l - line_discount l + line_tax l)"
    by (rule item_amounts [OF assms(1) ls(1) _ assms(4) ls(3)]) (use f in \<open>auto simp: fitsMoneyColumns_def list_all_iff\<close>)
  have a: "amount_of (\<lambda>_. True) ls = (\<Sum>l \<leftarrow> ls. line_gross l - line_discount l + line_tax l)"
    by (induction ls) (simp_all add: line_amount_def)
  have "amount_of (\<lambda>_. True) ls \<le> 999999999999999999" using f by (simp add: fitsMoneyColumns_def totals_of_def)
  moreover have "0 \<le> amount_of (\<lambda>_. True) ls"
    unfolding a using line_bounds by (intro sum_list_nonneg) (auto intro: add_nonneg_nonneg)
  ultimately show ?thesis
    using assms(3) unfolding ls(2) totals_of_def by (simp add: numeric_in_cents_text [OF assms(1)] s a)
qed

end
