(* ===== verification/Steps.thy ===== *)
theory Steps
  imports Amounts
begin

text \<open>
  The module as a state machine on its tables: \<open>db_step org\<close> has one rule per transaction an
  organization's request commits, with what the services know when they start it (the number comes
  from the counter, the amount was validated, the lines were priced, the period is the next of the
  contract's grid).  The writes that are made without an organization's scope (the view counter of a link, the state of
  a checkout, the settlement ledger) are steps of the organization whose row they write.  \<open>wf\<close> is the invariant of the tables, \<open>evolves\<close> what may happen to a row over time.
\<close>

section \<open>The step relation\<close>

text \<open>A number the organization's counter has handed out.\<close>

definition drawn :: "string \<Rightarrow> int \<Rightarrow> int \<Rightarrow> db \<Rightarrow> bool" where
  "drawn org y n d \<longleftrightarrow> 1 \<le> n \<and> (case d_counters d (org, ''invoice'', y) of None \<Rightarrow> False | Some m \<Rightarrow> n \<le> m)"

definition next_period :: "string \<Rightarrow> string \<Rightarrow> int \<Rightarrow> date \<Rightarrow> date \<Rightarrow> db \<Rightarrow> bool" where
  "next_period org itemID from s t d \<longleftrightarrow>
     (\<forall>i \<in> set (d_citems d). \<forall>c \<in> set (d_contracts d).
        item_at org itemID from i \<longrightarrow> contract_key org (cir_contract_id i) c \<longrightarrow>
        (s, t) = PeriodRange (ct_start_date c) (ci_frequency i) (from + 1))"

definition on_grid :: "CreateContractParams \<Rightarrow> bool" where
  "on_grid p \<longleftrightarrow>
     (\<forall>it \<in> set (ccp_items p).
        (cip_next_start it, cip_next_end it) = PeriodRange (ccp_start_date p) (cip_frequency it) (cip_period_index it))"

inductive db_step :: "string \<Rightarrow> db \<Rightarrow> db \<Rightarrow> bool" for org where
  counter: "counter_next_tx org typ y e d = (Inr n, d') \<Longrightarrow> db_step org d d'"
| settings: "settings_upsert_tx org s e d = (Inr x, d') \<Longrightarrow> db_step org d d'"
| account: "insert_account org ap u e d = (Inr a, d') \<Longrightarrow> db_step org d d'"
| account_edit: "account_update_tx org rid ap e d = (Inr a, d') \<Longrightarrow> db_step org d d'"
| invoice: "env_ok e \<Longrightarrow> priced p \<Longrightarrow> invoice_create_tx org p e d = (Inr i, d') \<Longrightarrow> db_step org d d'"
| redraft: "env_ok e \<Longrightarrow> priced p \<Longrightarrow> replace_draft_tx org rid p e d = (Inr i, d') \<Longrightarrow> db_step org d d'"
| issue: "drawn org y n d \<Longrightarrow> issue_tx org rid (invoiceNumber y n) today due u e d = (Inr i, d') \<Longrightarrow> db_step org d d'"
| snapshot: "set_pdf_tx org rid a e d = (Inr x, d') \<Longrightarrow> db_step org d d'"
| void: "void_tx org rid reason u e d = (Inr i, d') \<Longrightarrow> db_step org d d'"
| overdue: "mark_overdue_tx org today e d = (Inr k, d') \<Longrightarrow> db_step org d d'"
| pay: "env_ok e \<Longrightarrow> validAmount (pp_amount pp) \<Longrightarrow> record_tx org rid pp e d = (Inr z, d') \<Longrightarrow> db_step org d d'"
| send: "send_record_tx org sp e d = (Inr s, d') \<Longrightarrow> db_step org d d'"
| contract: "on_grid cp \<Longrightarrow> contract_create_tx org cp e d = (Inr c, d') \<Longrightarrow> db_step org d d'"
| end_date: "set_end_date_tx org rid ed u e d = (Inr c, d') \<Longrightarrow> db_step org d d'"
| end_contract: "end_contract_tx org rid day reason u e d = (Inr c, d') \<Longrightarrow> db_step org d d'"
| advance: "next_period org itemID from s t d \<Longrightarrow> advance_tx org itemID from s t e d = (Inr b, d') \<Longrightarrow> db_step org d d'"
| expire: "end_expired_tx org today e d = (Inr refs, d') \<Longrightarrow> db_step org d d'"
| link: "link_insert_tx org dt di h enc ex u e d = (Inr l, d') \<Longrightarrow> db_step org d d'"
| link_expiry: "link_expiry_tx org lid ex e d = (Inr x, d') \<Longrightarrow> db_step org d d'"
| link_revoke: "link_revoke_tx org dt di tm e d = (Inr x, d') \<Longrightarrow> db_step org d d'"
| link_touch: "\<forall>l \<in> set (d_links d). lk_id l = lid \<longrightarrow> lk_org l = org \<Longrightarrow> link_touch_tx lid tm e d = (Inr x, d') \<Longrightarrow> db_step org d d'"
| checkout: "checkout_create_tx org rid num amount url ex e d = (Inr c, d') \<Longrightarrow> db_step org d d'"
| checkout_status: "\<forall>c \<in> set (d_checkouts d). ck_id c = cid \<longrightarrow> ck_org c = org \<Longrightarrow> checkout_status_tx cid st e d = (Inr x, d') \<Longrightarrow>
    db_step org d d'"
| ledger_payment: "sm_org sp = org \<Longrightarrow> settlement_insert_payment_tx sp e d = (Inr b, d') \<Longrightarrow> db_step org d d'"
| ledger_manual: "sme_org me = org \<Longrightarrow> env_ok e \<Longrightarrow> signedAmount amount (sme_kind me = ''adjustment'') = Some a \<Longrightarrow> sme_amount me = FloatString2 a \<Longrightarrow>
    sme_kind me \<in> {''settlement'', ''adjustment''} \<Longrightarrow> insert_manual_tx me (settlement_check (sme_kind me) a) e d = (Inr x, d') \<Longrightarrow>
    db_step org d d'"

text \<open>Any number of transactions of the organizations in \<open>os\<close>, in any order.\<close>

definition steps :: "string set \<Rightarrow> db \<Rightarrow> db \<Rightarrow> bool" where
  "steps os = (\<lambda>d d'. \<exists>org \<in> os. db_step org d d')\<^sup>*\<^sup>*"

lemma steps_refl: "steps os d d"
  by (simp add: steps_def)

lemma steps_trans: "steps os a b \<Longrightarrow> steps os b c \<Longrightarrow> steps os a c"
  unfolding steps_def by (rule rtranclp_trans)

lemma steps_step: "db_step org d d' \<Longrightarrow> org \<in> os \<Longrightarrow> steps os d d'"
  unfolding steps_def by blast

lemma steps_larger: "steps os d d' \<Longrightarrow> os \<subseteq> os' \<Longrightarrow> steps os' d d'"
  unfolding steps_def by (erule rtranclp_mono [THEN predicate2D, rotated]) blast

lemma steps_induct [consumes 1, case_names none step]:
  assumes "steps os d d'" "P d" "\<And>a b org. steps os d a \<Longrightarrow> P a \<Longrightarrow> org \<in> os \<Longrightarrow> db_step org a b \<Longrightarrow> P b"
  shows "P d'"
  using assms(1) unfolding steps_def
  by (induction rule: rtranclp_induct) (use assms(2,3) in \<open>auto simp: steps_def\<close>)

section \<open>The invariant\<close>

abbreviation all_rows :: "'r \<Rightarrow> bool" where "all_rows \<equiv> \<lambda>_. True"

text \<open>Keys no two rows share: what the unique indexes say.\<close>

abbreviation sourced :: "invoice_row \<Rightarrow> bool" where
  "sourced r \<equiv> in_source_id r \<noteq> [] \<and> in_idempotency_key r \<noteq> []"

abbreviation source_of :: "invoice_row \<Rightarrow> string \<times> string \<times> string \<times> string" where
  "source_of r \<equiv> (ir_org r, in_source_type r, in_source_id r, in_idempotency_key r)"

abbreviation invoice_number_of :: "invoice_row \<Rightarrow> string \<times> string" where
  "invoice_number_of r \<equiv> (ir_org r, in_number r)"

abbreviation referenced :: "payment_row \<Rightarrow> bool" where
  "referenced y \<equiv> pr_reference y \<noteq> [] \<and> pr_method y \<noteq> ''manual''"

definition keys_ok :: "db \<Rightarrow> bool" where
  "keys_ok d \<longleftrightarrow>
     unique_on all_rows in_id (d_invoices d) \<and> unique_on sourced source_of (d_invoices d) \<and>
     unique_on (\<lambda>r. in_number r \<noteq> []) invoice_number_of (d_invoices d) \<and>
     unique_on billed billed_period (d_items d) \<and>
     unique_on all_rows ct_id (d_contracts d) \<and> unique_on all_rows ci_id (d_citems d) \<and>
     unique_on referenced (\<lambda>y. (pr_method y, pr_reference y)) (d_payments d)"

text \<open>What the status of an invoice says of its other columns.\<close>

definition row_ok :: "invoice_row \<Rightarrow> bool" where
  "row_ok r \<longleftrightarrow>
     0 \<le> ir_amount_paid r \<and> ir_amount_paid r \<le> ir_grand_total r \<and>
     ((in_voided_at r \<noteq> None) = (in_status r = InvoiceVoid)) \<and> ((in_paid_at r \<noteq> None) = (in_status r = InvoicePaid)) \<and>
     ((in_number r \<noteq> []) = (in_issue_date r \<noteq> None)) \<and> ((in_issue_date r \<noteq> None) = (in_due_date r \<noteq> None)) \<and>
     (case in_status r of
        InvoiceDraft \<Rightarrow> in_number r = [] \<and> ir_amount_paid r = 0
      | InvoicePaid \<Rightarrow> in_number r \<noteq> [] \<and> 0 < ir_grand_total r \<and> ir_amount_paid r = ir_grand_total r
      | InvoiceVoid \<Rightarrow> ir_amount_paid r = 0
      | _ \<Rightarrow> in_number r \<noteq> [] \<and> (ir_amount_paid r < ir_grand_total r \<or> ir_amount_paid r = 0))"

definition paid_sum :: "payment_row list \<Rightarrow> invoice_row \<Rightarrow> int" where
  "paid_sum ys r = (\<Sum>y \<leftarrow> filter (\<lambda>y. pr_org y = ir_org r \<and> pr_invoice_id y = in_id r) ys. pr_amount y)"

definition item_sum :: "invoice_item_row list \<Rightarrow> invoice_row \<Rightarrow> int" where
  "item_sum is r = (\<Sum>i \<leftarrow> filter (own_item (ir_org r) (in_id r)) is. item_amount i)"

definition amounts_ok :: "db \<Rightarrow> bool" where
  "amounts_ok d \<longleftrightarrow>
     (\<forall>r \<in> set (d_invoices d). ir_amount_paid r = paid_sum (d_payments d) r \<and> ir_grand_total r = item_sum (d_items d) r)"

definition refs_ok :: "db \<Rightarrow> bool" where
  "refs_ok d \<longleftrightarrow>
     (\<forall>y \<in> set (d_payments d). 0 < pr_amount y \<and> (\<exists>r \<in> set (d_invoices d). invoice_key (pr_org y) (pr_invoice_id y) r)) \<and>
     (\<forall>i \<in> set (d_items d). \<exists>r \<in> set (d_invoices d). invoice_key (iir_org i) (iir_invoice_id i) r)"

definition numbers_ok :: "db \<Rightarrow> bool" where
  "numbers_ok d \<longleftrightarrow>
     (\<forall>k m. d_counters d k = Some m \<longrightarrow> 1 \<le> m) \<and>
     (\<forall>r \<in> set (d_invoices d). in_number r \<noteq> [] \<longrightarrow> (\<exists>y n. in_number r = invoiceNumber y n \<and> drawn (ir_org r) y n d))"

text \<open>Every contract item waits for the period of the contract's grid that its index says.\<close>

definition periods_ok :: "db \<Rightarrow> bool" where
  "periods_ok d \<longleftrightarrow>
     (\<forall>i \<in> set (d_citems d). 0 \<le> ci_period_index i \<and>
        (\<exists>c \<in> set (d_contracts d). contract_key (cir_org i) (cir_contract_id i) c \<and>
           (ci_next_start i, ci_next_end i) = PeriodRange (ct_start_date c) (ci_frequency i) (ci_period_index i)))"

text \<open>The balance of an organization, what was collected and adjusted less what was paid out, is never negative, and a payment is credited once.\<close>

definition ledger_balance :: "string \<Rightarrow> settlement_row list \<Rightarrow> int" where
  "ledger_balance org rows = kind_sum org ''payment'' rows - kind_sum org ''settlement'' rows + kind_sum org ''adjustment'' rows"

definition ledger_ok :: "settlement_row list \<Rightarrow> bool" where
  "ledger_ok rows \<longleftrightarrow>
     (\<forall>r \<in> set rows. 0 \<le> ledger_balance (sl_org r) rows) \<and> unique_on (\<lambda>r. sl_kind r = ''payment'') sl_provider_reference rows"

text \<open>The primary keys of the tables that are looked up without an organization.\<close>

definition ids_ok :: "db \<Rightarrow> bool" where
  "ids_ok d \<longleftrightarrow> unique_on (\<lambda>_. True) lk_id (d_links d) \<and> unique_on (\<lambda>_. True) ck_id (d_checkouts d)"

lemma ids_ok_other [simp]:
  "ids_ok (d\<lparr>d_accounts := x1\<rparr>) = ids_ok d" "ids_ok (d\<lparr>d_invoices := x2\<rparr>) = ids_ok d" "ids_ok (d\<lparr>d_items := x3\<rparr>) = ids_ok d"
  "ids_ok (d\<lparr>d_contracts := x4\<rparr>) = ids_ok d" "ids_ok (d\<lparr>d_citems := x5\<rparr>) = ids_ok d" "ids_ok (d\<lparr>d_payments := x6\<rparr>) = ids_ok d"
  "ids_ok (d\<lparr>d_sends := x7\<rparr>) = ids_ok d" "ids_ok (d\<lparr>d_settings := x8\<rparr>) = ids_ok d" "ids_ok (d\<lparr>d_counters := x9\<rparr>) = ids_ok d"
  "ids_ok (d\<lparr>d_settlements := x10\<rparr>) = ids_ok d" "ids_ok (d\<lparr>d_next := x11\<rparr>) = ids_ok d"
  by (simp_all add: ids_ok_def)

definition wf :: "db \<Rightarrow> bool" where
  "wf d \<longleftrightarrow> keys_ok d \<and> (\<forall>r \<in> set (d_invoices d). row_ok r) \<and> amounts_ok d \<and> refs_ok d \<and> numbers_ok d \<and> periods_ok d \<and>
     ledger_ok (d_settlements d) \<and> ids_ok d"

lemmas wf_defs = wf_def keys_ok_def amounts_ok_def refs_ok_def numbers_ok_def periods_ok_def

text \<open>Seven of the tables are read by the invariant in more than the ids of their rows.\<close>

definition core :: "db \<Rightarrow> invoice_row list \<times> invoice_item_row list \<times> contract_row list \<times> contract_item_row list \<times>
    payment_row list \<times> (string \<times> string \<times> int \<Rightarrow> int option) \<times> settlement_row list" where
  "core d = (d_invoices d, d_items d, d_contracts d, d_citems d, d_payments d, d_counters d, d_settlements d)"

lemma wf_core: "core d = core d' \<Longrightarrow> ids_ok d = ids_ok d' \<Longrightarrow> wf d = wf d'"
  by (simp add: wf_defs core_def drawn_def)

lemma wf_empty: "wf empty_db"
  by (simp add: wf_defs ledger_ok_def ids_ok_def empty_db_def)

section \<open>What may happen to a row\<close>

fun status_next :: "InvoiceStatus \<Rightarrow> InvoiceStatus \<Rightarrow> bool" where
  "status_next InvoiceDraft s = True"
| "status_next InvoiceIssued s \<longleftrightarrow> s \<noteq> InvoiceDraft"
| "status_next InvoiceOverdue s \<longleftrightarrow> s \<in> {InvoiceOverdue, InvoicePaid, InvoiceVoid}"
| "status_next InvoicePaid s \<longleftrightarrow> s = InvoicePaid"
| "status_next InvoiceVoid s \<longleftrightarrow> s = InvoiceVoid"

definition invoice_evolves :: "invoice_row \<Rightarrow> invoice_row \<Rightarrow> bool" where
  "invoice_evolves r r' \<longleftrightarrow>
     in_id r' = in_id r \<and> ir_org r' = ir_org r \<and> source_of r' = source_of r \<and> in_contract_id r' = in_contract_id r \<and>
     status_next (in_status r) (in_status r') \<and> ir_amount_paid r \<le> ir_amount_paid r' \<and>
     (in_number r \<noteq> [] \<longrightarrow> in_number r' = in_number r \<and> in_issue_date r' = in_issue_date r \<and> in_due_date r' = in_due_date r) \<and>
     (in_status r \<noteq> InvoiceDraft \<longrightarrow> ir_grand_total r' = ir_grand_total r \<and> in_account_id r' = in_account_id r)"

definition contract_evolves :: "contract_row \<Rightarrow> contract_row \<Rightarrow> bool" where
  "contract_evolves c c' \<longleftrightarrow>
     ct_id c' = ct_id c \<and> cr_org c' = cr_org c \<and> ct_number c' = ct_number c \<and> ct_start_date c' = ct_start_date c \<and>
     ct_source_type c' = ct_source_type c \<and> ct_source_id c' = ct_source_id c \<and>
     (ct_status c \<noteq> ContractActive \<longrightarrow> c' = c)"

definition citem_evolves :: "contract_item_row \<Rightarrow> contract_item_row \<Rightarrow> bool" where
  "citem_evolves i i' \<longleftrightarrow>
     ci_id i' = ci_id i \<and> cir_org i' = cir_org i \<and> cir_contract_id i' = cir_contract_id i \<and> ci_frequency i' = ci_frequency i \<and>
     ci_period_index i \<le> ci_period_index i'"

text \<open>No row disappears, and each keeps its place.\<close>

definition rows_evolve :: "('r \<Rightarrow> 'r \<Rightarrow> bool) \<Rightarrow> 'r list \<Rightarrow> 'r list \<Rightarrow> bool" where
  "rows_evolve R xs ys \<longleftrightarrow> length xs \<le> length ys \<and> (\<forall>i < length xs. R (xs ! i) (ys ! i))"

definition evolves :: "db \<Rightarrow> db \<Rightarrow> bool" where
  "evolves d d' \<longleftrightarrow>
     rows_evolve invoice_evolves (d_invoices d) (d_invoices d') \<and>
     rows_evolve contract_evolves (d_contracts d) (d_contracts d') \<and>
     rows_evolve citem_evolves (d_citems d) (d_citems d') \<and>
     rows_evolve (=) (d_payments d) (d_payments d') \<and>
     rows_evolve (=) (d_settlements d) (d_settlements d') \<and>
     (\<forall>k m. d_counters d k = Some m \<longrightarrow> (\<exists>m'. d_counters d' k = Some m' \<and> m \<le> m'))"

lemma rows_evolve_refl: "(\<And>r. R r r) \<Longrightarrow> rows_evolve R xs xs"
  by (simp add: rows_evolve_def)

lemma rows_evolve_trans:
  "(\<And>a b c. R a b \<Longrightarrow> R b c \<Longrightarrow> R a c) \<Longrightarrow> rows_evolve R xs ys \<Longrightarrow> rows_evolve R ys zs \<Longrightarrow> rows_evolve R xs zs"
  unfolding rows_evolve_def by (meson le_trans less_le_trans)

lemma rows_evolve_append: "(\<And>r. R r r) \<Longrightarrow> rows_evolve R xs (xs @ ys)"
  by (simp add: rows_evolve_def nth_append)

lemma rows_evolve_update: "(\<And>r. r \<in> set xs \<Longrightarrow> \<not> q r \<Longrightarrow> R r r) \<Longrightarrow> (\<And>r. r \<in> set xs \<Longrightarrow> q r \<Longrightarrow> R r (f r)) \<Longrightarrow> rows_evolve R xs (update_where q f xs)"
  by (simp add: rows_evolve_def update_where_def)

lemma rows_evolveD: "rows_evolve R xs ys \<Longrightarrow> r \<in> set xs \<Longrightarrow> \<exists>r' \<in> set ys. R r r'"
  unfolding rows_evolve_def by (metis in_set_conv_nth less_le_trans)

lemma status_next_refl [simp]: "status_next s s"
  by (cases s) auto

lemma status_next_trans: "status_next a b \<Longrightarrow> status_next b c \<Longrightarrow> status_next a c"
  by (cases a; cases b; cases c) auto

lemma row_evolves_refl [simp]: "invoice_evolves r r" "contract_evolves c c" "citem_evolves i i"
  by (simp_all add: invoice_evolves_def contract_evolves_def citem_evolves_def)

lemma invoice_evolves_trans: "invoice_evolves a b \<Longrightarrow> invoice_evolves b c \<Longrightarrow> invoice_evolves a c"
  unfolding invoice_evolves_def
  by (cases "in_status a"; cases "in_status b"; auto intro: status_next_trans)

lemma contract_evolves_trans: "contract_evolves a b \<Longrightarrow> contract_evolves b c \<Longrightarrow> contract_evolves a c"
  by (auto simp: contract_evolves_def)

lemma citem_evolves_trans: "citem_evolves a b \<Longrightarrow> citem_evolves b c \<Longrightarrow> citem_evolves a c"
  by (auto simp: citem_evolves_def)

lemma evolves_refl: "evolves d d"
  by (simp add: evolves_def rows_evolve_refl)

lemma evolves_trans:
  assumes "evolves a b" "evolves b c"
  shows "evolves a c"
proof -
  have "\<exists>m''. d_counters c k = Some m'' \<and> m \<le> m''" if "d_counters a k = Some m" for k m
    using assms that unfolding evolves_def by (meson order_trans)
  moreover have "rows_evolve invoice_evolves (d_invoices a) (d_invoices c)"
    by (rule rows_evolve_trans [OF invoice_evolves_trans]) (use assms in \<open>auto simp: evolves_def\<close>)
  moreover have "rows_evolve contract_evolves (d_contracts a) (d_contracts c)"
    by (rule rows_evolve_trans [OF contract_evolves_trans]) (use assms in \<open>auto simp: evolves_def\<close>)
  moreover have "rows_evolve citem_evolves (d_citems a) (d_citems c)"
    by (rule rows_evolve_trans [OF citem_evolves_trans]) (use assms in \<open>auto simp: evolves_def\<close>)
  moreover have "rows_evolve (=) (d_payments a) (d_payments c)" "rows_evolve (=) (d_settlements a) (d_settlements c)"
    by (rule rows_evolve_trans [of "(=)"]; use assms in \<open>auto simp: evolves_def\<close>)+
  ultimately show ?thesis by (simp add: evolves_def)
qed

lemma drawn_evolves: "drawn org y n d \<Longrightarrow> evolves d d' \<Longrightarrow> drawn org y n d'"
  unfolding drawn_def evolves_def by (fastforce split: option.splits)

section \<open>Sums over the rows of an invoice\<close>

lemma item_sum_append: "item_sum (xs @ ys) r = item_sum xs r + item_sum ys r"
  by (simp add: item_sum_def)

lemma item_sum_none: "\<forall>i \<in> set xs. \<not> own_item (ir_org r) (in_id r) i \<Longrightarrow> item_sum xs r = 0"
  by (simp add: item_sum_def filter_False)

lemma item_sum_all: "\<forall>i \<in> set xs. own_item (ir_org r) (in_id r) i \<Longrightarrow> item_sum xs r = (\<Sum>i \<leftarrow> xs. item_amount i)"
  by (simp add: item_sum_def filter_True)

lemma item_sum_filter_other: "(org, rid) \<noteq> (ir_org r, in_id r) \<Longrightarrow> item_sum (filter (\<lambda>i. \<not> own_item org rid i) xs) r = item_sum xs r"
  unfolding item_sum_def filter_filter by (rule arg_cong [of _ _ "\<lambda>l. sum_list (map _ l)"], rule filter_cong) (auto simp: own_item_def)

lemma item_sum_cong: "in_id r = in_id r' \<Longrightarrow> ir_org r = ir_org r' \<Longrightarrow> item_sum xs r = item_sum xs r'"
  by (simp add: item_sum_def)

lemma paid_sum_cong: "in_id r = in_id r' \<Longrightarrow> ir_org r = ir_org r' \<Longrightarrow> paid_sum xs r = paid_sum xs r'"
  by (simp add: paid_sum_def)

lemma paid_sum_append: "paid_sum (xs @ ys) r = paid_sum xs r + paid_sum ys r"
  by (simp add: paid_sum_def)

lemma paid_sum_none: "\<forall>y \<in> set ys. \<not> invoice_key (pr_org y) (pr_invoice_id y) r \<Longrightarrow> paid_sum ys r = 0"
  unfolding paid_sum_def by (subst filter_False) (auto simp: invoice_key_def)

lemma own_items: "list_all2 (item_from e org rid) its rs \<Longrightarrow> \<forall>i \<in> set rs. own_item org rid i"
  by (induction rule: list_all2_induct) (auto simp: item_from_def own_item_def)

end
