(* ===== verification/Invariant.thy ===== *)
theory Invariant
  imports Steps
begin

text \<open>
  Every step keeps \<open>wf\<close> and lets rows evolve only as \<open>evolves\<close> allows: one lemma per kind of
  step, put together for the step relation and its closure at the end.
\<close>

section \<open>Each step keeps the invariant\<close>

lemma core_step:
  "wf d \<Longrightarrow> core d' = core d \<Longrightarrow> (ids_ok d \<Longrightarrow> ids_ok d') \<Longrightarrow> wf d' \<and> evolves d d'"
  using wf_core [of d d'] by (auto simp: wf_def simp: core_def evolves_def intro!: rows_evolve_refl)

text \<open>A row changed in columns the invariant does not relate to other rows.\<close>

definition same_role :: "invoice_row \<Rightarrow> invoice_row \<Rightarrow> bool" where
  "same_role r r' \<longleftrightarrow> in_id r' = in_id r \<and> ir_org r' = ir_org r \<and> source_of r' = source_of r \<and> in_number r' = in_number r \<and>
     ir_amount_paid r' = ir_amount_paid r \<and> ir_grand_total r' = ir_grand_total r"

lemma update_rows_step:
  assumes wf: "wf d" and f: "\<And>r. r \<in> set (d_invoices d) \<Longrightarrow> q r \<Longrightarrow> same_role r (f r) \<and> row_ok (f r) \<and> invoice_evolves r (f r)"
  shows "wf (d\<lparr>d_invoices := update_where q f (d_invoices d)\<rparr>) \<and> evolves d (d\<lparr>d_invoices := update_where q f (d_invoices d)\<rparr>)"
proof
  let ?d = "d\<lparr>d_invoices := update_where q f (d_invoices d)\<rparr>"
  have s: "same_role r (f r)" if "r \<in> set (d_invoices d)" "q r" for r using f that by blast
  have "unique_on all_rows in_id (d_invoices ?d) = unique_on all_rows in_id (d_invoices d)"
    "unique_on sourced source_of (d_invoices ?d) = unique_on sourced source_of (d_invoices d)"
    "unique_on (\<lambda>r. in_number r \<noteq> []) invoice_number_of (d_invoices ?d) = unique_on (\<lambda>r. in_number r \<noteq> []) invoice_number_of (d_invoices d)"
    using s by (simp_all add: unique_on_update same_role_def)
  then have keys: "keys_ok ?d" using wf by (simp add: wf_def keys_ok_def)
  have members: "\<exists>r0 \<in> set (d_invoices d). r = r0 \<or> (q r0 \<and> r = f r0)" if "r \<in> set (d_invoices ?d)" for r
    using that by (auto simp: set_update_where split: if_splits)
  have refs: "\<exists>r \<in> set (d_invoices ?d). invoice_key a b r" if "\<exists>r \<in> set (d_invoices d). invoice_key a b r" for a b
  proof -
    from that obtain r where r: "r \<in> set (d_invoices d)" "invoice_key a b r" by blast
    then have "(if q r then f r else r) \<in> set (d_invoices ?d)" by (simp add: set_update_where)
    moreover have "invoice_key a b (if q r then f r else r)" using r s by (simp add: same_role_def invoice_key_def)
    ultimately show ?thesis by blast
  qed
  have "refs_ok ?d" using wf refs by (simp add: wf_def refs_ok_def)
  moreover have "amounts_ok ?d"
    unfolding amounts_ok_def
  proof
    fix r assume "r \<in> set (d_invoices ?d)"
    from members [OF this] obtain r0 where r0: "r0 \<in> set (d_invoices d)" "same_role r0 r"
      using s by (auto simp: same_role_def)
    then show "ir_amount_paid r = paid_sum (d_payments ?d) r \<and> ir_grand_total r = item_sum (d_items ?d) r"
      using wf paid_sum_cong [of r r0] item_sum_cong [of r r0] by (simp add: wf_def amounts_ok_def same_role_def)
  qed
  moreover have "numbers_ok ?d"
    using wf s unfolding wf_def numbers_ok_def by (auto simp: set_update_where same_role_def drawn_def)
  moreover have "\<forall>r \<in> set (d_invoices ?d). row_ok r"
    using wf f by (auto simp: wf_def set_update_where)
  moreover have "periods_ok ?d" using wf by (simp add: wf_def periods_ok_def)
  ultimately show "wf ?d" using keys wf by (simp add: wf_def)
  show "evolves d ?d"
    using f by (auto simp: evolves_def intro!: rows_evolve_refl rows_evolve_update)
qed

lemma query_key:
  assumes "wf d" "query_row (invoice_key org rid) (d_invoices d) = Inr r"
  obtains xs ys where "d_invoices d = xs @ r # ys" "in_id r = rid" "ir_org r = org" "\<forall>x \<in> set xs \<union> set ys. in_id x \<noteq> rid"
    "\<And>f. update_where (invoice_key org rid) f (d_invoices d) = xs @ f r # ys"
proof -
  have r: "r \<in> set (d_invoices d)" "in_id r = rid" "ir_org r = org"
    using query_row_Inr [OF assms(2)] by (auto simp: invoice_key_def)
  have "unique_on all_rows in_id (d_invoices d)" using assms(1) by (simp add: wf_def keys_ok_def)
  from split_at_key [OF r(1) this] obtain xs ys where s: "d_invoices d = xs @ r # ys" "\<forall>x \<in> set xs \<union> set ys. in_id x \<noteq> in_id r"
    by blast
  have "update_where (invoice_key org rid) f (d_invoices d) = xs @ f r # ys" for f
    unfolding s(1) by (rule update_where_split) (use r s(2) in \<open>auto simp: invoice_key_def\<close>)
  then show thesis using that s r by blast
qed

lemma counter_step:
  assumes wf: "wf d" and s: "counter_next_tx org typ y e d = (Inr n, d')"
  shows "wf d' \<and> evolves d d'"
proof -
  let ?f = "(d_counters d)((org, typ, y) \<mapsto> n)"
  have d': "d' = d\<lparr>d_counters := ?f\<rparr>" and n: "n = (case d_counters d (org, typ, y) of None \<Rightarrow> 1 | Some k \<Rightarrow> k + 1)"
    using counter_next_change [OF s] by auto
  have pos: "\<And>k m. d_counters d k = Some m \<Longrightarrow> 1 \<le> m" using wf unfolding wf_def numbers_ok_def by blast
  have ev: "\<exists>m'. ?f k = Some m' \<and> m \<le> m'" if "d_counters d k = Some m" for k m
    using that n by (auto split: option.splits)
  then have evo: "evolves d d'" unfolding d' by (auto simp: evolves_def intro!: rows_evolve_refl)
  have p: "1 \<le> m" if "?f k = Some m" for k m
  proof (cases "k = (org, typ, y)")
    case True
    then show ?thesis using that n pos [of k] by (cases "d_counters d k") force+
  qed (use that pos [of k m] in simp)
  have "\<exists>y' n'. in_number r = invoiceNumber y' n' \<and> drawn (ir_org r) y' n' d'"
    if r: "r \<in> set (d_invoices d)" "in_number r \<noteq> []" for r
  proof -
    have "\<exists>y' n'. in_number r = invoiceNumber y' n' \<and> drawn (ir_org r) y' n' d"
      using wf r by (simp add: wf_def numbers_ok_def)
    then show ?thesis using drawn_evolves [OF _ evo] by blast
  qed
  then have "numbers_ok d'" using p unfolding numbers_ok_def by (auto simp: d' simp del: split_paired_All)
  then have "wf d'" using wf by (simp add: d' wf_def keys_ok_def amounts_ok_def refs_ok_def periods_ok_def)
  then show ?thesis using evo by blast
qed

lemma snapshot_step: "wf d \<Longrightarrow> set_pdf_tx org rid a e d = (Inr x, d') \<Longrightarrow> wf d' \<and> evolves d d'"
proof -
  assume wf: "wf d" and "set_pdf_tx org rid a e d = (Inr x, d')"
  then have d': "d' = d\<lparr>d_invoices := update_where (invoice_key org rid) (\<lambda>r. r\<lparr>in_pdf_asset_id := Some a, in_updated_at := e_now e\<rparr>) (d_invoices d)\<rparr>"
    using set_pdf_change by blast
  show ?thesis unfolding d'
    by (rule update_rows_step [OF wf]) (use wf in \<open>auto simp: same_role_def invoice_evolves_def wf_def row_ok_def split: InvoiceStatus.splits\<close>)
qed

lemma void_step:
  assumes wf: "wf d" and s: "void_tx org rid reason u e d = (Inr i, d')"
  shows "wf d' \<and> evolves d d'"
proof -
  obtain r where r: "query_row (invoice_key org rid) (d_invoices d) = Inr r" "\<not> 0 < ir_amount_paid r" "in_status r \<noteq> InvoiceVoid"
      "in_status r \<noteq> InvoicePaid" and
    d': "d' = d\<lparr>d_invoices := update_where (invoice_key org rid) (\<lambda>r. r\<lparr>in_status := InvoiceVoid, in_voided_at := Some (e_now e),
                in_void_reason := reason, in_updated_at := e_now e, ir_updated_by := u\<rparr>) (d_invoices d)\<rparr>"
    using void_change [OF s] by blast
  obtain xs ys where q: "d_invoices d = xs @ r # ys" "in_id r = rid" "\<forall>x \<in> set xs \<union> set ys. in_id x \<noteq> rid"
    using query_key [OF wf r(1)] by metis
  have ok: "row_ok r" using wf q(1) by (simp add: wf_def)
  show ?thesis unfolding d'
  proof (rule update_rows_step [OF wf])
    fix x assume "x \<in> set (d_invoices d)" "invoice_key org rid x"
    then have "x = r" using q by (auto simp: invoice_key_def)
    then show "same_role x (x\<lparr>in_status := InvoiceVoid, in_voided_at := Some (e_now e), in_void_reason := reason,
          in_updated_at := e_now e, ir_updated_by := u\<rparr>) \<and>
        row_ok (x\<lparr>in_status := InvoiceVoid, in_voided_at := Some (e_now e), in_void_reason := reason, in_updated_at := e_now e, ir_updated_by := u\<rparr>) \<and>
        invoice_evolves x (x\<lparr>in_status := InvoiceVoid, in_voided_at := Some (e_now e), in_void_reason := reason, in_updated_at := e_now e, ir_updated_by := u\<rparr>)"
      using ok r(2-4) by (cases "in_status r") (auto simp: same_role_def invoice_evolves_def row_ok_def)
  qed
qed

lemma overdue_step:
  assumes wf: "wf d" and s: "mark_overdue_tx org today e d = (Inr n, d')"
  shows "wf d' \<and> evolves d d'"
proof -
  have d': "d' = d\<lparr>d_invoices := update_where (past_due org today) (\<lambda>r. r\<lparr>in_status := InvoiceOverdue, in_updated_at := e_now e\<rparr>) (d_invoices d)\<rparr>"
    using mark_overdue_change [OF s] by blast
  show ?thesis unfolding d'
    by (rule update_rows_step [OF wf])
       (use wf in \<open>auto simp: same_role_def invoice_evolves_def wf_def row_ok_def past_due_def\<close>)
qed

text \<open>One invoice changed, with the payments and items that belong to it.\<close>

lemma single_row_step:
  assumes wf: "wf d" and q: "d_invoices d = xs @ r # ys" "d_invoices d' = xs @ r' # ys"
    and ev: "invoice_evolves r r'" and ok: "row_ok r'"
    and num: "in_number r' \<noteq> in_number r \<Longrightarrow> (\<exists>y n. in_number r' = invoiceNumber y n \<and> drawn (ir_org r) y n d) \<and>
        (\<forall>x \<in> set xs \<union> set ys. ir_org x = ir_org r \<longrightarrow> in_number x \<noteq> in_number r')"
    and pays: "d_payments d' = d_payments d @ ps" "\<forall>y \<in> set ps. 0 < pr_amount y \<and> invoice_key (pr_org y) (pr_invoice_id y) r"
      "unique_on referenced (\<lambda>y. (pr_method y, pr_reference y)) (d_payments d')" "ir_amount_paid r' = ir_amount_paid r + paid_sum ps r"
    and items: "unique_on billed billed_period (d_items d')" "item_sum (d_items d') r = ir_grand_total r'"
      "\<And>x. in_id x \<noteq> in_id r \<Longrightarrow> item_sum (d_items d') x = item_sum (d_items d) x"
      "\<forall>i \<in> set (d_items d'). i \<in> set (d_items d) \<or> own_item (ir_org r) (in_id r) i"
    and same: "d_contracts d' = d_contracts d" "d_citems d' = d_citems d" "d_counters d' = d_counters d" "d_settlements d' = d_settlements d"
      "d_links d' = d_links d" "d_checkouts d' = d_checkouts d"
  shows "wf d' \<and> evolves d d'"
proof
  have k: "in_id r' = in_id r" "ir_org r' = ir_org r" "source_of r' = source_of r" using ev by (simp_all add: invoice_evolves_def)
  have others: "in_id x \<noteq> in_id r" if "x \<in> set xs \<union> set ys" for x
    using wf that unfolding wf_def keys_ok_def q(1) unique_on_split by blast
  have amounts: "ir_amount_paid x = paid_sum (d_payments d) x \<and> ir_grand_total x = item_sum (d_items d) x" if "x \<in> set (d_invoices d)" for x
    using wf that by (simp add: wf_def amounts_ok_def)
  have "unique_on all_rows in_id (d_invoices d')" "unique_on sourced source_of (d_invoices d')"
    using wf k by (simp_all add: wf_def keys_ok_def q unique_on_split)
  moreover have "unique_on (\<lambda>r. in_number r \<noteq> []) invoice_number_of (d_invoices d')"
    using wf k num by (cases "in_number r' = in_number r") (auto simp: wf_def keys_ok_def q unique_on_split)
  ultimately have "keys_ok d'" using wf items(1) pays(3) same by (simp add: wf_def keys_ok_def)
  moreover have "\<forall>x \<in> set (d_invoices d'). row_ok x" using wf ok by (auto simp: wf_def q)
  moreover have "amounts_ok d'"
    unfolding amounts_ok_def
  proof
    fix x assume x: "x \<in> set (d_invoices d')"
    show "ir_amount_paid x = paid_sum (d_payments d') x \<and> ir_grand_total x = item_sum (d_items d') x"
    proof (cases "x = r'")
      case True
      then show ?thesis using amounts [of r] pays items(2) k paid_sum_cong [of r r' "d_payments d @ ps"] item_sum_cong [of r r' "d_items d'"]
        by (simp add: q paid_sum_append)
    next
      case False
      then have x: "x \<in> set xs \<union> set ys" using x q(2) by auto
      note others [OF this]
      moreover have "paid_sum ps x = 0"
        by (rule paid_sum_none) (use pays(2) others [OF x] in \<open>auto simp: invoice_key_def\<close>)
      ultimately show ?thesis using amounts [of x] items(3) [of x] x by (auto simp: q pays(1) paid_sum_append)
    qed
  qed
  moreover have key: "\<exists>x \<in> set (d_invoices d'). invoice_key a b x" if "\<exists>x \<in> set (d_invoices d). invoice_key a b x" for a b
    using that k by (auto simp: q invoice_key_def)
  have "refs_ok d'"
    unfolding refs_ok_def
  proof (intro conjI ballI)
    fix y assume "y \<in> set (d_payments d')"
    then have "y \<in> set (d_payments d) \<or> y \<in> set ps" by (simp add: pays(1))
    then have "0 < pr_amount y \<and> (\<exists>x \<in> set (d_invoices d). invoice_key (pr_org y) (pr_invoice_id y) x)"
      using wf pays(2) q(1) by (auto simp: wf_def refs_ok_def)
    then show "0 < pr_amount y" "\<exists>x \<in> set (d_invoices d'). invoice_key (pr_org y) (pr_invoice_id y) x" using key by blast+
  next
    fix i assume "i \<in> set (d_items d')"
    then have "i \<in> set (d_items d) \<or> invoice_key (iir_org i) (iir_invoice_id i) r" using items(4) by (auto simp: own_item_def invoice_key_def)
    then have "\<exists>x \<in> set (d_invoices d). invoice_key (iir_org i) (iir_invoice_id i) x"
      using wf q(1) by (auto simp: wf_def refs_ok_def)
    then show "\<exists>x \<in> set (d_invoices d'). invoice_key (iir_org i) (iir_invoice_id i) x" by (rule key)
  qed
  moreover have "numbers_ok d'"
    using wf num k same by (cases "in_number r' = in_number r") (auto simp: wf_def numbers_ok_def q drawn_def simp del: split_paired_All)
  moreover have "periods_ok d'" "ids_ok d'" using wf same by (simp_all add: wf_def periods_ok_def ids_ok_def)
  ultimately show "wf d'" using wf same by (simp add: wf_def)
  have "rows_evolve invoice_evolves (d_invoices d) (d_invoices d')"
    using ev by (simp add: q rows_evolve_def nth_append nth_Cons split: nat.split)
  moreover have "rows_evolve (=) (d_payments d) (d_payments d')" by (simp add: pays(1) rows_evolve_append)
  ultimately show "evolves d d'" by (simp add: evolves_def same rows_evolve_refl)
qed

lemma wf_unique:
  assumes "wf d"
  shows "unique_on all_rows in_id (d_invoices d)" "unique_on sourced source_of (d_invoices d)"
    "unique_on (\<lambda>r. in_number r \<noteq> []) invoice_number_of (d_invoices d)" "unique_on billed billed_period (d_items d)"
    "unique_on all_rows ct_id (d_contracts d)" "unique_on all_rows ci_id (d_citems d)"
    "unique_on referenced (\<lambda>y. (pr_method y, pr_reference y)) (d_payments d)"
  using assms by (simp_all add: wf_def keys_ok_def)

lemma wf_row: "wf d \<Longrightarrow> r \<in> set (d_invoices d) \<Longrightarrow>
    row_ok r \<and> ir_amount_paid r = paid_sum (d_payments d) r \<and> ir_grand_total r = item_sum (d_items d) r"
  by (simp add: wf_def amounts_ok_def)

lemma split_row:
  assumes "wf d" "r \<in> set (d_invoices d)"
  obtains xs ys where "d_invoices d = xs @ r # ys" "\<forall>x \<in> set xs \<union> set ys. in_id x \<noteq> in_id r"
proof -
  have "unique_on all_rows in_id (d_invoices d)" using assms(1) by (simp add: wf_def keys_ok_def)
  from split_at_key [OF assms(2) this] that show thesis by blast
qed

lemma issue_step:
  assumes wf: "wf d" and dr: "drawn org y n d" and s: "issue_tx org rid (invoiceNumber y n) today due u e d = (Inr i, d')"
  shows "wf d' \<and> evolves d d'"
proof -
  let ?p = "\<lambda>r. invoice_key org rid r \<and> in_status r = InvoiceDraft"
  let ?f = "\<lambda>r. r\<lparr>in_status := InvoiceIssued, in_number := invoiceNumber y n, in_issue_date := Some today,
                in_due_date := Some due, in_updated_at := e_now e, ir_updated_by := u\<rparr>"
  from issue_change [OF s] obtain r where r: "r \<in> set (d_invoices d)" "?p r" and
    fresh: "\<not> (\<exists>r \<in> set (d_invoices d). ir_org r = org \<and> sql_eq (in_number r) (invoiceNumber y n) \<and> \<not> ?p r)" and
    d': "d' = d\<lparr>d_invoices := update_where ?p ?f (d_invoices d)\<rparr>" by blast
  obtain xs ys where q: "d_invoices d = xs @ r # ys" "\<forall>x \<in> set xs \<union> set ys. in_id x \<noteq> in_id r"
    using split_row [OF wf r(1)] by blast
  have u: "update_where ?p ?f (d_invoices d) = xs @ ?f r # ys"
    unfolding q(1) by (rule update_where_split) (use r q(2) in \<open>auto simp: invoice_key_def\<close>)
  note ok = wf_row [OF wf r(1)]
  have new: "\<forall>x \<in> set xs \<union> set ys. ir_org x = ir_org r \<longrightarrow> in_number x \<noteq> invoiceNumber y n"
    using fresh q r(2) by (auto simp: invoice_key_def sql_eq_def invoiceNumber_def)
  show ?thesis
  proof (rule single_row_step [OF wf q(1), where ps = "[]"])
    show "d_invoices d' = xs @ ?f r # ys" by (simp add: d' u)
    show "invoice_evolves r (?f r)" "row_ok (?f r)"
      using ok r(2) by (auto simp: invoice_evolves_def row_ok_def invoiceNumber_def)
    show "(\<exists>y' n'. in_number (?f r) = invoiceNumber y' n' \<and> drawn (ir_org r) y' n' d) \<and>
        (\<forall>x \<in> set xs \<union> set ys. ir_org x = ir_org r \<longrightarrow> in_number x \<noteq> in_number (?f r))"
      using dr r(2) new by (auto simp: invoice_key_def)
  qed (use wf_unique [OF wf] ok in \<open>simp_all add: d' paid_sum_def\<close>)
qed

lemma pay_step:
  assumes wf: "wf d" and e: "env_ok e" and va: "validAmount (pp_amount pp)" and s: "record_tx org rid pp e d = (Inr z, d')"
  shows "wf d' \<and> evolves d d'"
proof -
  obtain i y b where z: "z = (i, y, b)" by (cases z)
  from s [unfolded z] show ?thesis
  proof (cases rule: record_Inr)
    case (replay row)
    then show ?thesis using wf evolves_refl by simp
  next
    case (fresh r)
    obtain k where k: "0 < k" "e_numeric e (pp_amount pp) = Some (cents k)" using validAmount_numeric [OF e va] by blast
    from record_new_Inr [OF fresh(3)] k(2) obtain row where
      st: "in_status r = InvoiceIssued \<or> in_status r = InvoiceOverdue" and le: "cents k \<le> cents (ir_grand_total r - ir_amount_paid r)" and
      row: "payment_from e org rid pp row" "passes (payment_checks e d row)" and
      d': "d' = d\<lparr>d_next := Suc (d_next d), d_payments := d_payments d @ [row],
            d_invoices := update_where (invoice_key org rid) (apply_payment (cents k) (pp_paid_at pp) (e_now e)) (d_invoices d)\<rparr>" by auto
    obtain xs ys where q: "d_invoices d = xs @ r # ys" "in_id r = rid" "ir_org r = org" "\<And>f. update_where (invoice_key org rid) f (d_invoices d) = xs @ f r # ys"
      using query_key [OF wf fresh(1)] by metis
    have ok: "row_ok r" "ir_amount_paid r = paid_sum (d_payments d) r" "ir_grand_total r = item_sum (d_items d) r"
      using wf_row [OF wf, of r] q(1) by auto
    let ?r = "apply_payment (cents k) (pp_paid_at pp) (e_now e) r"
    have amt: "pr_amount row = k" using row(1) k(2) by (auto simp: payment_from_def numeric_in_Inr)
    have f: "?r = r\<lparr>ir_amount_paid := ir_amount_paid r + k, in_status := (if ir_amount_paid r + k = ir_grand_total r then InvoicePaid else in_status r),
        in_paid_at := (if ir_amount_paid r + k = ir_grand_total r then Some (pp_paid_at pp) else in_paid_at r), in_updated_at := e_now e\<rparr>"
      by (simp add: apply_payment_def Let_def money_simps)
    have own: "pr_org row = org" "pr_invoice_id row = rid" using row(1) by (auto simp: payment_from_def)
    have le': "k \<le> ir_grand_total r - ir_amount_paid r" using le by (simp add: money_simps)
    have uniq: "unique_on referenced (\<lambda>y. (pr_method y, pr_reference y)) (d_payments d @ [row])"
      using wf_unique [OF wf] row(2) by (auto simp: payment_checks_def)
    show ?thesis
    proof (rule single_row_step [OF wf q(1), where ps = "[row]"])
      show "d_invoices d' = xs @ ?r # ys" by (simp add: d' q(4))
      show "invoice_evolves r ?r" "row_ok ?r"
        using ok st k(1) le' by (auto simp: f invoice_evolves_def row_ok_def)
      show "\<forall>y \<in> set [row]. 0 < pr_amount y \<and> invoice_key (pr_org y) (pr_invoice_id y) r"
        using own q k(1) amt by (simp add: invoice_key_def)
      show "item_sum (d_items d') r = ir_grand_total ?r" using ok by (simp add: d' f)
    qed (use wf_unique [OF wf] own amt q(2,3) uniq in \<open>simp_all add: d' f paid_sum_def\<close>)
  qed
qed

lemma item_sum_rebuilt:
  assumes "\<forall>i \<in> set rs. own_item (ir_org r) (in_id r) i"
  shows "item_sum (filter (\<lambda>i. \<not> own_item (ir_org r) (in_id r) i) is @ rs) r = (\<Sum>i \<leftarrow> rs. item_amount i)"
    "in_id x \<noteq> in_id r \<Longrightarrow> item_sum (filter (\<lambda>i. \<not> own_item (ir_org r) (in_id r) i) is @ rs) x = item_sum is x"
proof -
  have "\<forall>i \<in> set (filter (\<lambda>i. \<not> own_item (ir_org r) (in_id r) i) is). \<not> own_item (ir_org r) (in_id r) i" by simp
  then show "item_sum (filter (\<lambda>i. \<not> own_item (ir_org r) (in_id r) i) is @ rs) r = (\<Sum>i \<leftarrow> rs. item_amount i)"
    using assms by (simp only: item_sum_append item_sum_none item_sum_all)
next
  assume x: "in_id x \<noteq> in_id r"
  then have "\<forall>i \<in> set rs. \<not> own_item (ir_org x) (in_id x) i" using assms by (auto simp: own_item_def)
  then show "item_sum (filter (\<lambda>i. \<not> own_item (ir_org r) (in_id r) i) is @ rs) x = item_sum is x"
    using x by (simp add: item_sum_append item_sum_none item_sum_filter_other)
qed

lemma redraft_step:
  assumes wf: "wf d" and e: "env_ok e" and p: "priced p" and s: "replace_draft_tx org rid p e d = (Inr i, d')"
  shows "wf d' \<and> evolves d d'"
proof -
  from s obtain r f d1 where r: "query_row (invoice_key org rid) (d_invoices d) = Inr r" "in_status r = InvoiceDraft"
      "redrafts e p f" "ir_amount_paid r \<le> ir_grand_total (f r)" and
    d1: "d1 = d\<lparr>d_invoices := update_where (invoice_key org rid) f (d_invoices d), d_items := filter (\<lambda>i. \<not> own_item org rid i) (d_items d)\<rparr>" and
    ins: "insertItems org rid 0 (cp_items p) e d1 = (Inr (), d')"
    by (rule replace_draft_Inr)
  obtain xs ys where q: "d_invoices d = xs @ r # ys" "in_id r = rid" "ir_org r = org" "\<And>f. update_where (invoice_key org rid) f (d_invoices d) = xs @ f r # ys"
    using query_key [OF wf r(1)] by metis
  have ok: "row_ok r" "ir_amount_paid r = paid_sum (d_payments d) r"
    using wf_row [OF wf, of r] q(1) by auto
  from insertItems_Inr [OF ins] obtain rs n where
    d': "d' = d1\<lparr>d_next := n, d_items := d_items d1 @ rs\<rparr>" and rs: "list_all2 (item_from e org rid) (cp_items p) rs" and
    u: "unique_on billed billed_period (d_items d1) \<longrightarrow> unique_on billed billed_period (d_items d1 @ rs)" by blast
  have f: "redrafts e p f" by (fact r(3))
  have own: "\<forall>i \<in> set rs. own_item (ir_org r) (in_id r) i" using own_items [OF rs] q by simp
  have bal: "ir_grand_total (f r) = (\<Sum>i \<leftarrow> rs. item_amount i)"
    by (rule priced_balance [OF e p _ rs]) (use f in \<open>simp add: redrafts_def\<close>)
  show ?thesis
  proof (rule single_row_step [OF wf q(1), where ps = "[]"])
    show "d_invoices d' = xs @ f r # ys" by (simp add: d' d1 q(4))
    show "invoice_evolves r (f r)" "row_ok (f r)"
      using ok r(2,4) f by (auto simp: invoice_evolves_def row_ok_def redrafts_def)
    show "unique_on billed billed_period (d_items d')"
      using u unique_on_filter [OF wf_unique(4) [OF wf]] by (simp add: d' d1)
  qed (use wf_unique [OF wf] own q(2,3) bal f item_sum_rebuilt [OF own] in \<open>auto simp: d' d1 paid_sum_def redrafts_def\<close>)
qed

lemma invoice_step:
  assumes wf: "wf d" and e: "env_ok e" and p: "priced p" and s: "invoice_create_tx org p e d = (Inr i, d')"
  shows "wf d' \<and> evolves d d'"
proof -
  from s obtain rid d1 where one: "insert_invoice org p e d = (Inr rid, d1)" and ins: "insertItems org rid 0 (cp_items p) e d1 = (Inr (), d')"
    by (rule invoice_create_Inr)
  from insert_invoice_change [OF one] obtain r where
    d1: "d1 = d\<lparr>d_next := Suc (d_next d), d_invoices := d_invoices d @ [r]\<rparr>" and
    r: "ir_org r = org" "in_id r = rid" "in_status r = InvoiceDraft" "in_number r = []" "in_issue_date r = None" "in_due_date r = None"
      "ir_amount_paid r = 0" "in_paid_at r = None" "in_voided_at r = None"
      "numeric_in (10 ^ 18) e (t_grand_total (cp_totals p)) = Inr (ir_grand_total r)" "passes (invoice_checks d r)" by blast
  from insertItems_Inr [OF ins] obtain rs n where
    d': "d' = d1\<lparr>d_next := n, d_items := d_items d1 @ rs\<rparr>" and rs: "list_all2 (item_from e org rid) (cp_items p) rs" and
    u: "unique_on billed billed_period (d_items d1) \<longrightarrow> unique_on billed billed_period (d_items d1 @ rs)" by blast
  have own: "\<forall>i \<in> set rs. own_item org rid i" using own_items [OF rs] .
  have bal: "ir_grand_total r = (\<Sum>i \<leftarrow> rs. item_amount i)" by (rule priced_balance [OF e p r(10) rs])
  have new: "\<forall>x \<in> set (d_invoices d). in_id x \<noteq> rid" "0 \<le> ir_grand_total r" and
    src: "sourced r \<longrightarrow> (\<forall>x \<in> set (d_invoices d). source_of x \<noteq> source_of r)"
    using r(2,7,11) by (auto simp: invoice_checks_def)
  have refs: "refs_ok d" using wf by (simp add: wf_def)
  have "unique_on all_rows in_id (d_invoices d')" "unique_on sourced source_of (d_invoices d')"
      "unique_on (\<lambda>r. in_number r \<noteq> []) invoice_number_of (d_invoices d')"
    using wf_unique(1-3) [OF wf] new(1) src r(2,4) by (simp_all add: d' d1)
  moreover have "unique_on billed billed_period (d_items d')" using wf_unique(4) [OF wf] u by (simp add: d' d1)
  ultimately have "keys_ok d'" using wf_unique(5-7) [OF wf] by (simp add: keys_ok_def d' d1)
  moreover have "row_ok r" using r(3-9) new(2) by (simp add: row_ok_def)
  then have "\<forall>x \<in> set (d_invoices d'). row_ok x" using wf_row [OF wf] by (auto simp: d' d1)
  moreover have "amounts_ok d'"
  proof -
    have "paid_sum (d_payments d) r = 0" "item_sum (d_items d) r = 0"
      using refs new r(1,2) by (auto intro!: paid_sum_none item_sum_none simp: refs_ok_def invoice_key_def own_item_def)
    moreover have "item_sum rs r = ir_grand_total r" using own r(1,2) bal by (simp add: item_sum_all)
    moreover have "item_sum rs x = 0" if "x \<in> set (d_invoices d)" for x
      using own new that by (auto intro!: item_sum_none simp: own_item_def)
    ultimately show ?thesis
      using wf_row [OF wf] r(7) by (auto simp: amounts_ok_def d' d1 item_sum_append)
  qed
  moreover have "refs_ok d'" using refs own r(1,2) by (auto simp: refs_ok_def d' d1 own_item_def invoice_key_def)
  moreover have "numbers_ok d'" using wf r(4) by (auto simp: wf_def numbers_ok_def d' d1 drawn_def simp del: split_paired_All)
  moreover have "periods_ok d'" using wf by (simp add: wf_def periods_ok_def d' d1)
  moreover have "evolves d d'" by (simp add: evolves_def d' d1 rows_evolve_refl rows_evolve_append)
  ultimately show ?thesis using wf by (simp add: wf_def d' d1)
qed

section \<open>Contract steps\<close>

text \<open>Only contracts and their items change: the invoice side of the invariant stays.\<close>

lemma contract_side_step:
  assumes wf: "wf d" and d': "d' = d\<lparr>d_next := m, d_contracts := cs, d_citems := its\<rparr>"
    and keys: "unique_on all_rows ct_id cs" "unique_on all_rows ci_id its" and periods: "periods_ok d'"
    and ev: "rows_evolve contract_evolves (d_contracts d) cs" "rows_evolve citem_evolves (d_citems d) its"
  shows "wf d' \<and> evolves d d'"
  using assms
  by (simp add: wf_def keys_ok_def amounts_ok_def refs_ok_def numbers_ok_def drawn_def evolves_def rows_evolve_refl)

text \<open>A change of active contracts that keeps what their items refer to.\<close>

lemma contracts_step:
  assumes wf: "wf d" and act: "\<And>c. q c \<Longrightarrow> ct_status c = ContractActive"
    and f: "\<And>c. ct_id (f c) = ct_id c \<and> cr_org (f c) = cr_org c \<and> ct_number (f c) = ct_number c \<and> ct_start_date (f c) = ct_start_date c \<and>
      ct_source_type (f c) = ct_source_type c \<and> ct_source_id (f c) = ct_source_id c"
  shows "wf (d\<lparr>d_contracts := update_where q f (d_contracts d)\<rparr>) \<and> evolves d (d\<lparr>d_contracts := update_where q f (d_contracts d)\<rparr>)"
proof (rule contract_side_step [OF wf, where m = "d_next d" and its = "d_citems d"])
  let ?d = "d\<lparr>d_contracts := update_where q f (d_contracts d)\<rparr>"
  show "?d = d\<lparr>d_next := d_next d, d_contracts := update_where q f (d_contracts d), d_citems := d_citems d\<rparr>" by simp
  show "unique_on all_rows ct_id (update_where q f (d_contracts d))" using wf_unique [OF wf] f by (simp add: unique_on_update)
  have "\<exists>c' \<in> set (d_contracts ?d). contract_key a b c' \<and> ct_start_date c' = ct_start_date c"
    if "c \<in> set (d_contracts d)" "contract_key a b c" for a b c
    using that f by (intro bexI [of _ "if q c then f c else c"]) (auto simp: contract_key_def set_update_where)
  note moved = this
  show "periods_ok ?d"
    unfolding periods_ok_def
  proof
    fix i assume "i \<in> set (d_citems ?d)"
    then obtain c where c: "0 \<le> ci_period_index i" "c \<in> set (d_contracts d)" "contract_key (cir_org i) (cir_contract_id i) c"
        "(ci_next_start i, ci_next_end i) = PeriodRange (ct_start_date c) (ci_frequency i) (ci_period_index i)"
      using wf by (auto simp: wf_def periods_ok_def)
    from moved [OF c(2,3)] c(1,4)
    show "0 \<le> ci_period_index i \<and> (\<exists>c \<in> set (d_contracts ?d). contract_key (cir_org i) (cir_contract_id i) c \<and>
         (ci_next_start i, ci_next_end i) = PeriodRange (ct_start_date c) (ci_frequency i) (ci_period_index i))" by metis
  qed
  show "rows_evolve contract_evolves (d_contracts d) (update_where q f (d_contracts d))"
    using act f by (intro rows_evolve_update) (simp_all add: contract_evolves_def)
qed (use wf_unique [OF wf] in \<open>simp_all add: rows_evolve_refl\<close>)

definition keeps_contract :: "(contract_row \<Rightarrow> contract_row) \<Rightarrow> bool" where
  "keeps_contract f \<longleftrightarrow> (\<forall>c. ct_id (f c) = ct_id c \<and> cr_org (f c) = cr_org c \<and> ct_number (f c) = ct_number c \<and>
      ct_start_date (f c) = ct_start_date c \<and> ct_source_type (f c) = ct_source_type c \<and> ct_source_id (f c) = ct_source_id c)"

lemma updateActive_step:
  assumes wf: "wf d" and s: "updateActive org rid check f e d = (Inr c, d')" and f: "keeps_contract (f (e_now e))"
  shows "wf d' \<and> evolves d d'"
proof -
  let ?p = "\<lambda>r. contract_key org rid r \<and> ct_status r = ContractActive"
  have d': "d' = d\<lparr>d_contracts := update_where ?p (f (e_now e)) (d_contracts d)\<rparr>" using updateActive_Inr [OF s] by blast
  show ?thesis unfolding d' by (rule contracts_step [OF wf]) (use f in \<open>auto simp: keeps_contract_def\<close>)
qed

lemma end_date_step: "wf d \<Longrightarrow> set_end_date_tx org rid ed u e d = (Inr c, d') \<Longrightarrow> wf d' \<and> evolves d d'"
  unfolding set_end_date_tx_def by (erule updateActive_step) (auto simp: keeps_contract_def)

lemma end_contract_step: "wf d \<Longrightarrow> end_contract_tx org rid day reason u e d = (Inr c, d') \<Longrightarrow> wf d' \<and> evolves d d'"
  unfolding end_contract_tx_def by (erule updateActive_step) (auto simp: keeps_contract_def)

lemma expire_step:
  assumes wf: "wf d" and s: "end_expired_tx org today e d = (Inr refs, d')"
  shows "wf d' \<and> evolves d d'"
proof -
  have d': "d' = d\<lparr>d_contracts := update_where (expired org today d)
                (\<lambda>c. c\<lparr>ct_status := ContractEnded, ct_end_reason := ''Masa kontrak berakhir'', ct_ended_at := Some (e_now e),
                       ct_updated_at := e_now e\<rparr>) (d_contracts d)\<rparr>"
    using end_expired_Inr [OF s] by blast
  show ?thesis unfolding d' by (rule contracts_step [OF wf]) (auto simp: expired_def)
qed

lemma contract_step:
  assumes wf: "wf d" and grid: "on_grid cp" and s: "contract_create_tx org cp e d = (Inr c, d')"
  shows "wf d' \<and> evolves d d'"
proof -
  from s obtain rid d1 where one: "insert_contract org cp e d = (Inr rid, d1)" and
    ins: "insert_contract_items org rid 0 (ccp_items cp) e d1 = (Inr (), d')" by (rule contract_create_Inr)
  from insert_contract_Inr [OF one] obtain r where
    d1: "d1 = d\<lparr>d_next := Suc (d_next d), d_contracts := d_contracts d @ [r]\<rparr>" and
    r: "cr_org r = org" "ct_id r = rid" "ct_start_date r = ccp_start_date cp" "passes (contract_checks d r)" by blast
  from insert_contract_items_Inr [OF ins] obtain rs n where
    d': "d' = d1\<lparr>d_next := n, d_citems := d_citems d1 @ rs\<rparr>" and rs: "list_all2 (citem_from org rid) (ccp_items cp) rs" and
    u: "unique_on (\<lambda>_. True) ci_id (d_citems d1) \<longrightarrow> unique_on (\<lambda>_. True) ci_id (d_citems d1 @ rs)" by blast
  show ?thesis
  proof (rule contract_side_step [OF wf])
    show "d' = d\<lparr>d_next := n, d_contracts := d_contracts d @ [r], d_citems := d_citems d @ rs\<rparr>" by (simp add: d' d1)
    show "unique_on all_rows ct_id (d_contracts d @ [r])" using wf_unique [OF wf] r(4) by (simp add: contract_checks_def)
    show "unique_on all_rows ci_id (d_citems d @ rs)" using wf_unique [OF wf] u by (simp add: d1)
    show "periods_ok d'"
      unfolding periods_ok_def
    proof
      fix i assume "i \<in> set (d_citems d')"
      then consider "i \<in> set (d_citems d)" | "i \<in> set rs" by (auto simp: d' d1)
      then show "0 \<le> ci_period_index i \<and> (\<exists>c \<in> set (d_contracts d'). contract_key (cir_org i) (cir_contract_id i) c \<and>
           (ci_next_start i, ci_next_end i) = PeriodRange (ct_start_date c) (ci_frequency i) (ci_period_index i))"
      proof cases
        case 1
        then show ?thesis using wf by (auto simp: wf_def periods_ok_def d' d1)
      next
        case 2
        then obtain k where k: "k < length rs" "i = rs ! k" by (auto simp: in_set_conv_nth)
        then have "citem_from org rid (ccp_items cp ! k) i" "k < length (ccp_items cp)" using rs by (auto simp: list_all2_conv_all_nth)
        moreover have "(cip_next_start (ccp_items cp ! k), cip_next_end (ccp_items cp ! k)) =
            PeriodRange (ccp_start_date cp) (cip_frequency (ccp_items cp ! k)) (cip_period_index (ccp_items cp ! k))"
          using grid nth_mem [OF calculation(2)] unfolding on_grid_def by blast
        ultimately show ?thesis using r by (auto simp: citem_from_def d' d1 contract_key_def)
      qed
    qed
  qed (simp_all add: rows_evolve_append)
qed

lemma advance_step:
  assumes wf: "wf d" and np: "next_period org itemID from s t d" and a: "advance_tx org itemID from s t e d = (Inr b, d')"
  shows "wf d' \<and> evolves d d'"
proof -
  let ?f = "\<lambda>i. i\<lparr>ci_period_index := ci_period_index i + 1, ci_next_start := s, ci_next_end := t\<rparr>"
  have d': "d' = d\<lparr>d_citems := update_where (item_at org itemID from) ?f (d_citems d)\<rparr>" using advance_Inr [OF a] by simp
  show ?thesis
  proof (rule contract_side_step [OF wf])
    show "d' = d\<lparr>d_next := d_next d, d_contracts := d_contracts d, d_citems := update_where (item_at org itemID from) ?f (d_citems d)\<rparr>"
      by (simp add: d')
    show "unique_on all_rows ci_id (update_where (item_at org itemID from) ?f (d_citems d))"
      using wf_unique [OF wf] by (simp add: unique_on_update)
    show "periods_ok d'"
      unfolding periods_ok_def
    proof
      fix i assume "i \<in> set (d_citems d')"
      then obtain i0 where i0: "i0 \<in> set (d_citems d)" "i = (if item_at org itemID from i0 then ?f i0 else i0)"
        by (auto simp: d' set_update_where)
      from wf i0(1) obtain c where c: "0 \<le> ci_period_index i0" "c \<in> set (d_contracts d)" "contract_key (cir_org i0) (cir_contract_id i0) c"
          "(ci_next_start i0, ci_next_end i0) = PeriodRange (ct_start_date c) (ci_frequency i0) (ci_period_index i0)"
        unfolding wf_def periods_ok_def by blast
      have "(s, t) = PeriodRange (ct_start_date c) (ci_frequency i0) (from + 1)" if "item_at org itemID from i0"
        using np i0(1) c(2,3) that by (auto simp: next_period_def item_at_def)
      then show "0 \<le> ci_period_index i \<and> (\<exists>c \<in> set (d_contracts d'). contract_key (cir_org i) (cir_contract_id i) c \<and>
           (ci_next_start i, ci_next_end i) = PeriodRange (ct_start_date c) (ci_frequency i) (ci_period_index i))"
        using c i0(2) by (auto simp: d' item_at_def intro!: bexI [OF _ c(2)])
    qed
    show "rows_evolve citem_evolves (d_citems d) (update_where (item_at org itemID from) ?f (d_citems d))"
      by (rule rows_evolve_update) (simp_all add: citem_evolves_def)
  qed (use wf_unique [OF wf] in \<open>simp_all add: rows_evolve_refl\<close>)
qed

section \<open>Ledger steps\<close>

lemma kind_sum_snoc: "kind_sum org k (rows @ [r]) = kind_sum org k rows + (if sl_org r = org \<and> sl_kind r = k then sl_amount r else 0)"
  by (simp add: kind_sum_def)

lemma ledger_balance_snoc:
  "sl_kind r \<in> {''payment'', ''settlement'', ''adjustment''} \<Longrightarrow>
   ledger_balance org (rows @ [r]) = ledger_balance org rows +
     (if sl_org r = org then (if sl_kind r = ''settlement'' then - sl_amount r else sl_amount r) else 0)"
  by (auto simp: ledger_balance_def kind_sum_snoc)

lemma ledger_balance_nonneg: "ledger_ok rows \<Longrightarrow> 0 \<le> ledger_balance org rows"
proof (cases "org \<in> sl_org ` set rows")
  case False
  then have "filter (\<lambda>r. sl_org r = org \<and> sl_kind r = k) rows = []" for k by (auto simp: filter_empty_conv)
  then show ?thesis by (simp add: ledger_balance_def kind_sum_def)
qed (auto simp: ledger_ok_def)

lemma ledger_snoc:
  assumes wf: "wf d" and d': "d' = d\<lparr>d_next := n, d_settlements := d_settlements d @ [r]\<rparr>"
    and kind: "sl_kind r \<in> {''payment'', ''settlement'', ''adjustment''}"
    and ref: "sl_kind r = ''payment'' \<Longrightarrow> \<forall>x \<in> set (d_settlements d). sl_kind x = ''payment'' \<longrightarrow> sl_provider_reference x \<noteq> sl_provider_reference r"
    and bal: "0 \<le> ledger_balance (sl_org r) (d_settlements d) + (if sl_kind r = ''settlement'' then - sl_amount r else sl_amount r)"
  shows "wf d' \<and> evolves d d'"
proof -
  have old: "ledger_ok (d_settlements d)" using wf by (simp add: wf_def)
  have "0 \<le> ledger_balance org (d_settlements d @ [r])" for org
    using bal ledger_balance_nonneg [OF old, of org] by (auto simp: ledger_balance_snoc [OF kind])
  then have "ledger_ok (d_settlements d @ [r])" using old ref by (simp add: ledger_ok_def)
  then have "wf d'" using wf by (simp add: d' wf_def keys_ok_def amounts_ok_def refs_ok_def numbers_ok_def drawn_def periods_ok_def)
  then show ?thesis by (simp add: d' evolves_def rows_evolve_refl rows_evolve_append)
qed

lemma ledger_payment_step:
  assumes wf: "wf d" and s: "settlement_insert_payment_tx sp e d = (Inr b, d')"
  shows "wf d' \<and> evolves d d'"
  using settlement_insert_payment_Inr [OF s]
proof (elim disjE conjE exE)
  assume "d' = d\<lparr>d_next := Suc (d_next d)\<rparr>"
  then show ?thesis using core_step [OF wf, of d'] by (simp add: core_def)
next
  fix r assume "d' = d\<lparr>d_next := Suc (d_next d), d_settlements := d_settlements d @ [r]\<rparr>" and r: "sl_kind r = ''payment''" "0 < sl_amount r"
    "sl_provider_reference r = sm_provider_reference sp"
    "\<not> (\<exists>x \<in> set (d_settlements d). sl_kind x = ''payment'' \<and> sl_provider_reference x = sm_provider_reference sp)"
  moreover have "0 \<le> ledger_balance (sl_org r) (d_settlements d)" using wf by (simp add: wf_def ledger_balance_nonneg)
  ultimately show ?thesis by (intro ledger_snoc [OF wf]) auto
qed

text \<open>The check under the lock compares with the balance the totals add up to.\<close>

lemma settlement_check_None:
  "settlement_check kind (cents k) (totals_in org rows) = None \<longleftrightarrow>
     (if kind = ''settlement'' then k \<le> ledger_balance org rows else 0 \<le> ledger_balance org rows + k)"
  by (simp add: settlement_check_def newBalance_def totals_in_def ledger_balance_def money_simps)

lemma ledger_manual_step:
  assumes wf: "wf d" and e: "env_ok e" and a: "signedAmount amount (sme_kind me = ''adjustment'') = Some a" "sme_amount me = FloatString2 a"
    and kind: "sme_kind me \<in> {''settlement'', ''adjustment''}"
    and s: "insert_manual_tx me (settlement_check (sme_kind me) a) e d = (Inr x, d')"
  shows "wf d' \<and> evolves d d'"
proof -
  obtain k where k: "a = cents k" "\<bar>k\<bar> < 10 ^ 18" by (rule signedAmount_cents [OF a(1)])
  from insert_manual_Inr [OF s] obtain r where
    d': "d' = d\<lparr>d_next := Suc (d_next d), d_settlements := d_settlements d @ [r]\<rparr>" and
    check: "settlement_check (sme_kind me) a (totals_in (sme_org me) (d_settlements d)) = None" and
    r: "sl_kind r = sme_kind me" "sl_org r = sme_org me" "numeric_in (10 ^ 20) e (sme_amount me) = Inr (sl_amount r)" by blast
  have "sl_amount r = k" using r(3) k by (simp add: a(2) numeric_in_cents_text [OF e])
  then show ?thesis using check kind r(1,2) by (intro ledger_snoc [OF wf d']) (auto simp: k(1) settlement_check_None split: if_splits)
qed

section \<open>All steps\<close>

text \<open>Steps on the tables the invariant does not read.\<close>

lemma link_changes:
  "link_expiry_tx org lid ex e d = (Inr x, d') \<Longrightarrow> \<exists>q f. d' = d\<lparr>d_links := update_where q f (d_links d)\<rparr> \<and> (\<forall>l. lk_id (f l) = lk_id l)"
  "link_revoke_tx org dt di tm e d = (Inr x, d') \<Longrightarrow> \<exists>q f. d' = d\<lparr>d_links := update_where q f (d_links d)\<rparr> \<and> (\<forall>l. lk_id (f l) = lk_id l)"
  "link_touch_tx lid tm e d = (Inr x, d') \<Longrightarrow> \<exists>q f. d' = d\<lparr>d_links := update_where q f (d_links d)\<rparr> \<and> (\<forall>l. lk_id (f l) = lk_id l)"
  unfolding link_expiry_tx_def link_revoke_tx_def link_touch_tx_def tx_simps
  by (rule exI, rule exI, rule conjI, assumption, simp)+

lemma side_steps:
  assumes "wf d"
  shows "settings_upsert_tx org s e d = (Inr x1, d') \<Longrightarrow> wf d' \<and> evolves d d'"
    and "insert_account org ap u e d = (Inr x2, d') \<Longrightarrow> wf d' \<and> evolves d d'"
    and "account_update_tx org rid ap e d = (Inr x3, d') \<Longrightarrow> wf d' \<and> evolves d d'"
    and "send_record_tx org sp e d = (Inr x4, d') \<Longrightarrow> wf d' \<and> evolves d d'"
    and "link_insert_tx org dt di h enc ex u e d = (Inr x5, d') \<Longrightarrow> wf d' \<and> evolves d d'"
    and "link_expiry_tx org rid ex e d = (Inr x6, d') \<Longrightarrow> wf d' \<and> evolves d d'"
    and "link_revoke_tx org dt di tm e d = (Inr x7, d') \<Longrightarrow> wf d' \<and> evolves d d'"
    and "link_touch_tx rid tm e d = (Inr x8, d') \<Longrightarrow> wf d' \<and> evolves d d'"
    and "checkout_create_tx org rid num amount url exi e d = (Inr x9, d') \<Longrightarrow> wf d' \<and> evolves d d'"
    and "checkout_status_tx rid st e d = (Inr x10, d') \<Longrightarrow> wf d' \<and> evolves d d'"
  by (rule core_step [OF assms];
      auto simp: core_def ids_ok_def unique_on_update
        dest!: settings_upsert_change insert_account_change account_update_change send_record_Inr link_insert_Inr
          checkout_create_Inr checkout_status_Inr link_changes)+

theorem db_step_ok: "db_step org d d' \<Longrightarrow> wf d \<Longrightarrow> wf d' \<and> evolves d d'"
  by (induction rule: db_step.induct)
     (erule (1) side_steps counter_step snapshot_step void_step overdue_step end_date_step end_contract_step expire_step ledger_payment_step
      | erule (2) issue_step contract_step advance_step
      | erule (3) pay_step invoice_step redraft_step
      | erule (5) ledger_manual_step)+

theorem steps_ok:
  assumes "steps os d d'" "wf d"
  shows "wf d' \<and> evolves d d'"
  using assms(1)
proof (induction rule: steps_induct)
  case none
  then show ?case using assms(2) evolves_refl by blast
next
  case (step a b org)
  then show ?case using db_step_ok evolves_trans by blast
qed

end
