(* ===== verification/Tenants.thy ===== *)
theory Tenants
  imports Invariant
begin

text \<open>
  Row-level security as the transactions show it: the rows of an organization, whole, in every table
  are unchanged by every step of another one.  The writes made without a scope (the view
  counter of a link, the state of a checkout, the settlement ledger) are keyed by the id of a row or name
  the organization themselves; the ids being unique, they reach the rows of that organization only.
\<close>

record tenant_view =
  tv_accounts :: "account_row list"
  tv_invoices :: "invoice_row list"
  tv_items :: "invoice_item_row list"
  tv_contracts :: "contract_row list"
  tv_citems :: "contract_item_row list"
  tv_payments :: "payment_row list"
  tv_sends :: "send_row list"
  tv_links :: "link_row list"
  tv_checkouts :: "Checkout list"
  tv_settlements :: "settlement_row list"
  tv_settings :: "Settings option"
  tv_counters :: "string \<times> int \<Rightarrow> int option"

definition tenant_view :: "string \<Rightarrow> db \<Rightarrow> tenant_view" where
  "tenant_view org d =
     \<lparr>tv_accounts = filter (\<lambda>r. acr_org r = org) (d_accounts d), tv_invoices = filter (\<lambda>r. ir_org r = org) (d_invoices d),
      tv_items = filter (\<lambda>r. iir_org r = org) (d_items d), tv_contracts = filter (\<lambda>r. cr_org r = org) (d_contracts d),
      tv_citems = filter (\<lambda>r. cir_org r = org) (d_citems d), tv_payments = filter (\<lambda>r. pr_org r = org) (d_payments d),
      tv_sends = filter (\<lambda>r. sr_org r = org) (d_sends d), tv_links = filter (\<lambda>r. lk_org r = org) (d_links d),
      tv_checkouts = filter (\<lambda>c. ck_org c = org) (d_checkouts d), tv_settlements = filter (\<lambda>r. sl_org r = org) (d_settlements d),
      tv_settings = d_settings d org, tv_counters = (\<lambda>(typ, y). d_counters d (org, typ, y))\<rparr>"

lemma filter_update_other:
  "(\<And>r. q r \<Longrightarrow> \<not> p r \<and> \<not> p (f r)) \<Longrightarrow> filter p (update_where q f rows) = filter p rows"
  by (induction rows) (auto simp: update_where_def)

lemma filter_none: "\<forall>r \<in> set rows. \<not> p r \<Longrightarrow> filter p rows = []"
  by simp

lemma rows_of_other:
  "list_all2 (item_from e org rid) its rs \<Longrightarrow> other \<noteq> org \<Longrightarrow> filter (\<lambda>r. iir_org r = other) rs = []"
  "list_all2 (citem_from org rid) cts cs \<Longrightarrow> other \<noteq> org \<Longrightarrow> filter (\<lambda>r. cir_org r = other) cs = []"
  by (induction rule: list_all2_induct; simp add: item_from_def citem_from_def)+

lemma filter_own_items: "other \<noteq> org \<Longrightarrow> filter (\<lambda>i. \<not> own_item org rid i \<and> iir_org i = other) xs = filter (\<lambda>r. iir_org r = other) xs"
  by (induction xs) (auto simp: own_item_def)

text \<open>A row found by its id belongs to the organization of the step.\<close>

lemma filter_update_keyed:
  assumes "\<forall>r \<in> set rows. q r \<longrightarrow> g r = org" "other \<noteq> org" "\<And>r. g (f r) = g r"
  shows "filter (\<lambda>r. g r = other) (update_where q f rows) = filter (\<lambda>r. g r = other) rows"
  using assms(1) by (induction rows) (use assms(2,3) in \<open>auto simp: update_where_def\<close>)

lemma org_update:
  "other \<noteq> org \<Longrightarrow> (\<And>r. ir_org (f r) = ir_org r) \<Longrightarrow>
   filter (\<lambda>r. ir_org r = other) (update_where (invoice_key org rid) f rows) = filter (\<lambda>r. ir_org r = other) rows"
  by (rule filter_update_other) (auto simp: invoice_key_def)

theorem step_isolated:
  assumes "db_step org d d'" "other \<noteq> org"
  shows "tenant_view other d' = tenant_view other d"
  using assms
proof (induction rule: db_step.induct)
  case (counter ty y e d n d')
  then show ?case by (auto dest!: counter_next_change simp: tenant_view_def)
next
  case (settings s e d x d')
  then show ?case by (auto dest!: settings_upsert_change simp: tenant_view_def)
next
  case (account ap u e d a d')
  then show ?case by (auto dest!: insert_account_change simp: tenant_view_def)
next
  case (account_edit rid ap e d a d')
  then show ?case by (auto dest!: account_update_change simp: tenant_view_def live_account_def intro!: filter_update_other)
next
  case (invoice e p d i d')
  from invoice(3) obtain rid d1 where "insert_invoice org p e d = (Inr rid, d1)" "insertItems org rid 0 (cp_items p) e d1 = (Inr (), d')"
    by (rule invoice_create_Inr)
  then show ?case using invoice(4)
    by (auto dest!: insert_invoice_change insertItems_Inr simp: tenant_view_def rows_of_other)
next
  case (redraft e p rid d i d')
  from redraft(3) obtain r f d1 where f: "redrafts e p f" and
    d1: "d1 = d\<lparr>d_invoices := update_where (invoice_key org rid) f (d_invoices d), d_items := filter (\<lambda>i. \<not> own_item org rid i) (d_items d)\<rparr>" and
    ins: "insertItems org rid 0 (cp_items p) e d1 = (Inr (), d')" by (rule replace_draft_Inr)
  have "ir_org (f r) = ir_org r" for r using f by (simp add: redrafts_def)
  then show ?case using insertItems_Inr [OF ins] redraft(4)
    by (auto simp: d1 tenant_view_def rows_of_other org_update filter_own_items)
next
  case (issue y n d rid today due u e i d')
  then show ?case by (auto dest!: issue_change simp: tenant_view_def invoice_key_def intro!: filter_update_other)
next
  case (snapshot rid a e d x d')
  then show ?case by (auto dest!: set_pdf_change simp: tenant_view_def org_update)
next
  case (void rid reason u e d i d')
  then show ?case by (auto dest!: void_change simp: tenant_view_def org_update)
next
  case (overdue today e d k d')
  then show ?case by (auto dest!: mark_overdue_change simp: tenant_view_def past_due_def intro!: filter_update_other)
next
  case (pay e pp rid d z d')
  obtain i y b where z: "z = (i, y, b)" by (cases z)
  from pay(3) [unfolded z] show ?case
  proof (cases rule: record_Inr)
    case (fresh r)
    have "ir_org (apply_payment a t n r) = ir_org r" for a t n and r :: invoice_row by (simp add: apply_payment_def Let_def)
    then show ?thesis using record_new_Inr [OF fresh(3)] pay(4) by (auto simp: tenant_view_def org_update payment_from_def)
  qed simp
next
  case (send sp e d s d')
  then show ?case by (auto dest!: send_record_Inr simp: tenant_view_def)
next
  case (contract cp e d c d')
  from contract(2) obtain rid d1 where "insert_contract org cp e d = (Inr rid, d1)" "insert_contract_items org rid 0 (ccp_items cp) e d1 = (Inr (), d')"
    by (rule contract_create_Inr)
  then show ?case using contract(3)
    by (auto dest!: insert_contract_Inr insert_contract_items_Inr simp: tenant_view_def rows_of_other)
next
  case (end_date rid ed u e d c d')
  then show ?case unfolding set_end_date_tx_def
    by (auto dest!: updateActive_Inr simp: tenant_view_def contract_key_def intro!: filter_update_other)
next
  case (end_contract rid day reason u e d c d')
  then show ?case unfolding end_contract_tx_def
    by (auto dest!: updateActive_Inr simp: tenant_view_def contract_key_def intro!: filter_update_other)
next
  case (advance itemID "from" s t d e b d')
  then show ?case by (auto dest!: advance_Inr simp: tenant_view_def item_at_def intro!: filter_update_other)
next
  case (expire today e d refs d')
  then show ?case by (auto dest!: end_expired_Inr simp: tenant_view_def expired_def intro!: filter_update_other)
next
  case (link dt di h enc ex u e d l d')
  then show ?case by (auto dest!: link_insert_Inr simp: tenant_view_def)
next
  case (link_expiry lid ex e d x d')
  then show ?case by (auto simp: link_expiry_tx_def tx_simps tenant_view_def intro!: filter_update_other)
next
  case (link_revoke dt di tm e d x d')
  then show ?case by (auto simp: link_revoke_tx_def active_link_def tx_simps tenant_view_def intro!: filter_update_other)
next
  case (link_touch d lid tm e x d')
  then show ?case
    by (auto simp: link_touch_tx_def tx_simps tenant_view_def intro!: filter_update_keyed [where g = lk_org])
next
  case (checkout rid num amount url ex e d c d')
  then show ?case by (auto dest!: checkout_create_Inr simp: tenant_view_def)
next
  case (checkout_status d cid st e x d')
  then show ?case by (auto dest!: checkout_status_Inr simp: tenant_view_def intro!: filter_update_keyed [where g = ck_org])
next
  case (ledger_payment sp e d b d')
  then show ?case by (auto dest!: settlement_insert_payment_Inr simp: tenant_view_def)
next
  case (ledger_manual me e t a d x d')
  then show ?case by (auto dest!: insert_manual_Inr simp: tenant_view_def)
qed

theorem steps_isolated: "steps os d d' \<Longrightarrow> other \<notin> os \<Longrightarrow> tenant_view other d' = tenant_view other d"
proof (induction rule: steps_induct)
  case (step a b org)
  then have "other \<noteq> org" by blast
  then show ?case using step step_isolated by metis
qed simp

end
