(* ===== verification/Services.thy ===== *)
theory Services
  imports Tenants
begin

text \<open>
  The services as users of the step relation.  Every computation of the module keeps to \<open>steps os\<close>, the
  transactions of the organizations it works for, from well-formed tables, whatever the adapters
  answer and wherever the database fails.  The contract \<open>effect\<close> composes the proofs; what a
  service knows between two transactions (a number it drew, an item it found due) is the precondition
  of the interpretations \<open>drew\<close> and \<open>found\<close>.
\<close>

section \<open>Transactions that only read\<close>

lemma reads_app: "(\<And>e d. snd (m e d) = d) \<Longrightarrow> reads m"
  by (simp add: reads_def)

lemma reads_if: "reads a \<Longrightarrow> reads b \<Longrightarrow> reads (if c then a else b)"
  by simp

named_theorems reading \<open>transactions that only read\<close>

lemma reads_invoices [reading]:
  "reads (findInTx org p)" "reads (invoice_list_tx org f)" "reads (payment_list_tx org rid)" "reads (payment_list_all_tx org limit off)"
  "reads (send_by_request_tx org rid q)" "reads (send_list_tx org rid)" "reads (latest_failed_tx org rid)"
  "reads (latest_by_invoices_tx org ids)"
  unfolding findInTx_def invoice_list_tx_def payment_list_tx_def payment_list_all_tx_def send_by_request_tx_def send_list_tx_def
    latest_failed_tx_def latest_by_invoices_tx_def
  by (auto simp: Let_def intro!: reads_get reads_ask reads_chain intro: reads_app split: sum.split)

lemma reads_accounts [reading]:
  "reads (account_find_tx org rid)" "reads (account_by_source_tx org t i)" "reads (account_list_tx org s limit off)"
  "reads (settings_get_tx org)" "reads (findContractInTx org q)" "reads (contract_list_tx org cf)" "reads (due_items_tx org day lead n)"
  unfolding account_find_tx_def account_by_source_tx_def account_list_tx_def settings_get_tx_def findContractInTx_def
    contract_list_tx_def due_items_tx_def
  by (auto simp: Let_def intro!: reads_get reads_ask reads_chain intro: reads_app split: sum.split option.split)

lemma reads_directory [reading]:
  "reads (link_find_active_tx org t i)" "reads (link_by_hash_tx h)" "reads (checkout_reusable_tx org i now)"
  "reads (checkout_by_number_tx num)" "reads (settlement_find_tx ref)" "reads (queryTotals org)" "reads (beneficiary_type_tx org)"
  "reads (list_balances_tx s limit off)" "reads (list_entries_tx org limit off)"
  unfolding link_find_active_tx_def link_by_hash_tx_def checkout_reusable_tx_def checkout_by_number_tx_def settlement_find_tx_def
    queryTotals_def beneficiary_type_tx_def list_balances_tx_def list_entries_tx_def
  by (auto simp: Let_def intro!: reads_get reads_ask reads_chain intro: reads_app split: option.split)

lemma reads_outlook [reading]:
  "reads (active_items_tx org n)" "reads (unpaid_tx org day)" "reads (failed_sends_tx org n)"
  unfolding active_items_tx_def unpaid_tx_def failed_sends_tx_def
  by (auto simp: Let_def intro!: reads_get)

section \<open>The contract, on the module's steps\<close>

interpretation ok: effect wf "steps os" for os
  by unfold_locales (auto intro: steps_refl steps_trans dest: steps_ok)

abbreviation stays :: "string set \<Rightarrow> 'a io \<Rightarrow> bool" where
  "stays os \<equiv> io_pre wf (steps os)"

lemma scoped:
  assumes "org \<in> os" "\<And>e d x d'. env_ok e \<Longrightarrow> P d \<Longrightarrow> body e d = (Inr x, d') \<Longrightarrow> db_step org d d'"
  shows "io_pre P (steps os) (withScopedTx org body)"
proof -
  have "tx_pre P (steps os) body" unfolding tx_pre_def using steps_step [OF assms(2) assms(1)] by blast
  then show ?thesis
    unfolding withScopedTx_def with_tx_def io_pre_def tx_pre_def
    by (auto simp: steps_refl raise_def split: prod.split sum.split)
qed

lemma unscoped:
  assumes "org \<in> os" "\<And>e d x d'. env_ok e \<Longrightarrow> P d \<Longrightarrow> body e d = (Inr x, d') \<Longrightarrow> db_step org d d'"
  shows "io_pre P (steps os) (with_tx body)"
proof -
  have "tx_pre P (steps os) body" unfolding tx_pre_def using steps_step [OF assms(2) assms(1)] by blast
  then show ?thesis
    unfolding with_tx_def io_pre_def tx_pre_def
    by (auto simp: steps_refl split: prod.split sum.split)
qed

lemma scoped_read: "reads body \<Longrightarrow> stays os (withScopedTx org body)"
  by (intro ok.withScopedTx ok.tx_reads)

lemma unscoped_read: "reads body \<Longrightarrow> stays os (with_tx body)"
  by (intro ok.with_tx ok.tx_reads)

named_theorems stay \<open>computations that stay within the steps of their organizations\<close>

lemmas [stay] = ok.intros scoped_read unscoped_read reading

section \<open>The repositories\<close>

lemma repository_stays [stay]:
  assumes "org \<in> os"
  shows "stays os (Counters_Next org ty y)" "stays os (Settings_Upsert org s u)" "stays os (Accounts_Create org ap u)"
    "stays os (Accounts_Update org rid ap)" "stays os (Invoices_SetPDF org rid a)" "stays os (Invoices_Void org rid reason u)"
    "stays os (Invoices_MarkOverdue org day)" "stays os (Sends_Record org sp)" "stays os (Contracts_SetEndDate org rid ed u)"
    "stays os (Contracts_End org rid day' reason u)" "stays os (Contracts_EndExpired org day)"
    "stays os (Links_Insert org dt di h enc t u)" "stays os (Links_UpdateExpiry org lid t)" "stays os (Links_Revoke org dt di t)"
    "stays os (Checkouts_Create org rid num amount url t)"
  unfolding Counters_Next_def Settings_Upsert_def Accounts_Create_def Accounts_Update_def Invoices_SetPDF_def Invoices_Void_def
    Invoices_MarkOverdue_def Sends_Record_def Contracts_SetEndDate_def Contracts_End_def Contracts_EndExpired_def Links_Insert_def
    Links_UpdateExpiry_def Links_Revoke_def Checkouts_Create_def
  by (intro ok.map_error scoped [OF assms] db_step.intros; assumption)+

text \<open>A row found by its id alone: of whichever organization it is.\<close>

lemma keyed_org: "unique_on all_rows k rows \<Longrightarrow> \<exists>org. \<forall>r \<in> set rows. k r = i \<longrightarrow> g r = org"
proof (cases "\<exists>r \<in> set rows. k r = i")
  case True
  assume "unique_on all_rows k rows"
  moreover obtain r where "r \<in> set rows" "k r = i" using True by blast
  ultimately have "\<forall>x \<in> set rows. k x = i \<longrightarrow> g x = g r" by (auto dest: unique_onD)
  then show ?thesis by blast
qed simp

lemma keyed:
  assumes "\<And>e d x d'. env_ok e \<Longrightarrow> wf d \<Longrightarrow> body e d = (Inr x, d') \<Longrightarrow> \<exists>org. db_step org d d'"
  shows "stays UNIV (with_tx body)"
proof -
  have "tx_pre wf (steps UNIV) body" unfolding tx_pre_def using assms steps_step [OF _ UNIV_I] by blast
  then show ?thesis by (rule ok.with_tx)
qed

lemma shared_stays [stay]: "stays UNIV (Links_Touch lid t)" "stays UNIV (Checkouts_SetStatus cid st)"
proof -
  have ids: "unique_on all_rows lk_id (d_links d)" "unique_on all_rows ck_id (d_checkouts d)" if "wf d" for d
    using that by (simp_all add: wf_def ids_ok_def)
  show "stays UNIV (Links_Touch lid t)"
    unfolding Links_Touch_def by (rule keyed) (use keyed_org [OF ids(1), of _ lid lk_org] in \<open>blast intro: db_step.link_touch\<close>)
  show "stays UNIV (Checkouts_SetStatus cid st)"
    unfolding Checkouts_SetStatus_def
    by (rule keyed) (use keyed_org [OF ids(2), of _ cid ck_org] in \<open>blast intro: db_step.checkout_status\<close>)
qed

lemma ledger_stays [stay]: "sm_org sep \<in> os \<Longrightarrow> stays os (Settlements_InsertPayment sep)"
  unfolding Settlements_InsertPayment_def by (intro unscoped db_step.ledger_payment; (assumption | rule refl))

lemma priced_stays:
  assumes "org \<in> os"
  shows "priced p \<Longrightarrow> stays os (Invoices_Create org p)" "priced p \<Longrightarrow> stays os (Invoices_ReplaceDraft org rid p)"
    "validAmount (pp_amount pp) \<Longrightarrow> stays os (Payments_Record org rid pp)" "on_grid cp \<Longrightarrow> stays os (Contracts_Create org cp)"
  unfolding Invoices_Create_def Invoices_ReplaceDraft_def Payments_Record_def Contracts_Create_def
  by (intro ok.map_error scoped [OF assms] db_step.intros; assumption)+

lemma reads_stay [stay]:
  "stays os (Settings_Get org)" "stays os (Accounts_FindByID org rid)" "stays os (Accounts_FindBySource org t i)"
  "stays os (Accounts_List org s limit off)" "stays os (Invoices_FindByID org rid)" "stays os (Invoices_FindBySource org t i k)"
  "stays os (Invoices_List org f)" "stays os (Payments_List org rid)" "stays os (Payments_ListAll org limit off)"
  "stays os (Sends_FindByClientRequest org rid q)" "stays os (Sends_ListByInvoice org rid)" "stays os (Sends_LatestFailedByInvoice org rid)"
  "stays os (Sends_LatestByInvoices org ids)" "stays os (Contracts_FindByID org rid)" "stays os (Contracts_FindBySource org t i)"
  "stays os (Contracts_List org cf)" "stays os (Contracts_DueItems org day lead n')" "stays os (Links_FindActive org t i)"
  "stays os (Links_FindByHash h)" "stays os (Checkouts_FindReusable org i now)" "stays os (Checkouts_FindByDokuNumber num)"
  "stays os (Settlements_FindPaymentByReference ref)" "stays os (Ledger_Totals org)" "stays os (Ledger_BeneficiaryType org)"
  "stays os (Ledger_ListBalances s limit off)" "stays os (Ledger_ListEntries org limit off)" "stays os (Overview_ActiveItems org n)"
  "stays os (Overview_Unpaid org day)" "stays os (Overview_FailedSends org n)"
  unfolding Settings_Get_def Accounts_FindByID_def Accounts_FindBySource_def Accounts_List_def Invoices_FindByID_def
    Invoices_FindBySource_def Invoices_List_def Payments_List_def Payments_ListAll_def Sends_FindByClientRequest_def
    Sends_ListByInvoice_def Sends_LatestFailedByInvoice_def Sends_LatestByInvoices_def Contracts_FindByID_def
    Contracts_FindBySource_def Contracts_List_def Contracts_DueItems_def Links_FindActive_def Links_FindByHash_def
    Checkouts_FindReusable_def Checkouts_FindByDokuNumber_def Settlements_FindPaymentByReference_def Ledger_Totals_def
    Ledger_BeneficiaryType_def Ledger_ListBalances_def Ledger_ListEntries_def Overview_ActiveItems_def Overview_Unpaid_def
    Overview_FailedSends_def
  by (intro stay)+

section \<open>Documents and delivery\<close>

lemma external_stays [stay]: "stays os (external ev f)" "stays os NewToken" "stays os (allowSync rid)" "stays os (event ev)" "stays os ctx_cancelled"
  by (auto simp: external_def NewToken_def allowSync_def event_def ctx_cancelled_def split: option.split intro!: ok.quiet)

lemma ignore_stays [stay]: "stays os m \<Longrightarrow> stays os (ignore m)"
  unfolding ignore_def by (intro stay)

lemma link_stays [stay]:
  assumes "org \<in> os"
  shows "stays os (Link_reuse org l enc t)" "stays os (Link_Ensure org dt di t u)" "stays os (Link_Revoke org dt di)"
proof -
  show reuse: "stays os (Link_reuse org l enc t)" for l enc
    unfolding Link_reuse_def by (intro stay assms)
  show "stays os (Link_Ensure org dt di t u)"
    unfolding Link_Ensure_def by (auto split: sum.split err.split intro!: stay reuse assms)
  show "stays os (Link_Revoke org dt di)" unfolding Link_Revoke_def by (intro stay assms)
qed

lemma resolve_stays [stay]: "stays os (Link_Resolve token)" "stays UNIV (Link_Touch l)" "stays os (Invoice_Get org rid)"
  unfolding Link_Resolve_def Link_Touch_def Invoice_Get_def by (auto intro!: stay)

lemma document_stays [stay]:
  assumes "org \<in> os"
  shows "stays os (render org i)" "stays os (delete_object org a)" "stays os (storeSnapshot org rid u)" "stays os (RefreshSnapshot org rid)"
    "stays os (Invoice_PDF org rid)" "stays os (Invoice_Link org rid u)"
proof -
  show r: "stays os (render org i)" for i
    unfolding render_def Let_def by (auto split: option.split intro!: stay)
  show d: "stays os (delete_object org a)" for a
    unfolding delete_object_def by (auto split: option.split intro!: stay)
  show s: "stays os (storeSnapshot org rid u)" for u
    unfolding storeSnapshot_def by (auto split: option.split sum.split prod.split intro!: stay r d assms)
  show "stays os (RefreshSnapshot org rid)"
    unfolding RefreshSnapshot_def by (auto split: option.split intro!: stay s d)
  have "stays os (\<lambda>e w. (fl_open fs (w_tick w) org a, tick w))" for fs a by (rule ok.quiet) simp
  then show "stays os (Invoice_PDF org rid)"
    unfolding Invoice_PDF_def Let_def by (auto split: option.split prod.split intro!: stay s r)
  show "stays os (Invoice_Link org rid u)"
    unfolding Invoice_Link_def Let_def by (auto intro!: stay assms)
qed

lemma send_stays [stay]:
  assumes "org \<in> os"
  shows "stays os (compose org i m u)" "stays os (attempt_channel org i ch inp u q)" "stays os (record_send org i ch res tr u q)"
    "stays os (notifyFailure org i ch res)" "stays os (SendService_Send org rid inp u)" "stays os (AutoSend org i u)"
proof -
  show c: "stays os (compose org i m u)" for i m u
    unfolding compose_def Let_def by (auto split: sum.split prod.split intro!: stay assms)
  have "stays os (attemptEmail org i inp u q)" "stays os (attemptWhatsApp org i inp u)" for i inp u q
    unfolding attemptEmail_def attemptWhatsApp_def Let_def
    by (auto split: sum.split prod.split option.split intro!: stay c)
  then show a: "stays os (attempt_channel org i ch inp u q)" for i ch inp u q
    unfolding attempt_channel_def by (auto intro!: stay)
  show r: "stays os (record_send org i ch res tr u q)" for i ch res tr u q
    unfolding record_send_def by (intro stay assms)
  show n: "stays os (notifyFailure org i ch res)" for i ch res
    unfolding notifyFailure_def by (auto intro!: stay)
  show "stays os (SendService_Send org rid inp u)"
    unfolding SendService_Send_def Let_def by (auto split: sum.split intro!: stay a r)
  have "stays os (auto_send_channel org i actor u ch)" for actor u ch
    unfolding auto_send_channel_def Let_def by (auto split: sum.split intro!: stay a r n)
  then show "stays os (AutoSend org i u)"
    unfolding AutoSend_def Let_def by (auto split: sum.split intro!: stay)
qed

section \<open>Accounts, settings and invoices\<close>

lemma find_member_stays [stay]: "stays os (find_member org u er)" "stays os (requireRoom org)" "stays os (checkAccount org a)"
    "stays os (channels_for org cs)"
  unfolding find_member_def requireRoom_def checkAccount_def channels_for_def
  by (auto split: option.split sum.split intro!: stay)

lemma account_stays [stay]:
  assumes "org \<in> os"
  shows "stays os (AccountService_Create org ai u)" "stays os (EnsureForSource org ai u)" "stays os (AccountService_Update org rid ai)"
    "stays os (SettingsService_Update org s u)"
  unfolding AccountService_Create_def EnsureForSource_def AccountService_Update_def SettingsService_Update_def Let_def
  by (auto split: sum.split intro!: stay assms)

lemma buildParams_stays [stay]: "stays os (buildParams org i u)"
  unfolding buildParams_def Let_def by (auto split: sum.split intro!: stay)

lemma if_raise_Inr: "(if b then raise er else m) e s = (Inr y, s') \<longleftrightarrow> \<not> b \<and> m e s = (Inr y, s')"
  by (simp add: raise_Inr)

lemma buildParams_priced:
  assumes "buildParams org i u e w = (Inr p, w')"
  shows "priced p"
proof (cases "PriceLines (map il_line (vi_lines i))")
  case (Inl er)
  then show ?thesis using assms by (simp add: buildParams_def Let_def tx_simps)
next
  case (Inr tp)
  obtain totals ps where tp: "tp = (totals, ps)" by (cases tp)
  have fits: "fitsMoneyColumns totals ps" and p: "cp_totals p = totals" "cp_items p = map2 item_params (vi_lines i) ps"
    using assms Inr tp by (clarsimp simp: buildParams_def Let_def tx_simps if_raise_Inr split del: if_split)+
  have "length ps = length (vi_lines i)" using Inr tp by (auto simp: PriceLines_eq split: if_splits)
  then have "map ip_line (cp_items p) = ps" unfolding p(2) by (induction rule: list_induct2) (simp_all add: item_params_def)
  then show ?thesis using p(1) fits Inr tp by (auto simp: priced_def)
qed

lemma draft_stays [stay]:
  assumes "org \<in> os"
  shows "stays os (createDraft org i u b)" "stays os (CreateDraft org i u)" "stays os (UpdateDraft org rid i u)"
proof -
  show c: "stays os (createDraft org i u b)" for b
    unfolding createDraft_def by (rule ok.chain_if [OF buildParams_stays _ buildParams_priced]) (auto intro!: stay priced_stays assms)
  show "stays os (CreateDraft org i u)" unfolding CreateDraft_def by (rule c)
  show "stays os (UpdateDraft org rid i u)"
    unfolding UpdateDraft_def by (rule ok.chain_if [OF buildParams_stays _ buildParams_priced]) (auto intro!: stay priced_stays assms)
qed

text \<open>Issuing: the number was drawn in a transaction before, and stays drawn.\<close>

interpretation drew: effect "\<lambda>d. wf d \<and> drawn org y n d" "steps os" for org y n os
  by unfold_locales (auto intro: steps_refl steps_trans drawn_evolves dest: steps_ok)

lemma Counters_Next_drawn:
  assumes "wf (w_db w)" "Counters_Next org ''invoice'' y e w = (Inr n, w')" "env_ok e"
  shows "wf (w_db w') \<and> drawn org y n (w_db w')"
proof -
  have s: "counter_next_tx org ''invoice'' y e (w_db w) = (Inr n, w_db w')"
    using assms(2) by (simp add: Counters_Next_def withScopedTx_Inr)
  then have "d_counters (w_db w') (org, ''invoice'', y) = Some n" using counter_next_change [OF s] by simp
  moreover have "wf (w_db w')" using counter_step [OF assms(1) s] by blast
  ultimately show ?thesis by (auto simp: wf_def numbers_ok_def drawn_def)
qed

lemma Invoices_Issue_stays:
  "org \<in> os \<Longrightarrow> io_pre (\<lambda>d. wf d \<and> drawn org y n d) (steps os) (Invoices_Issue org rid (invoiceNumber y n) day due u)"
  unfolding Invoices_Issue_def by (rule scoped) (auto intro: db_step.issue)

lemma issue_stays [stay]:
  assumes "org \<in> os"
  shows "stays os (after_issue org rid u)" "stays os (issue_draft org rid u t p)" "stays os (issue org rid u t)" "stays os (Issue org rid u)"
    "stays os (issueExisting org i u t)"
proof -
  show a: "stays os (after_issue org rid u)" for rid
    unfolding after_issue_def by (auto intro!: stay assms)
  have k: "io_pre (\<lambda>d. wf d \<and> drawn org (Year day) n d) (steps os)
      (attempt (Invoices_Issue org rid (invoiceNumber (Year day) n) day due u)
        (\<lambda>r. case r of Inl er \<Rightarrow> if er = ErrInvoiceNotDraft then Invoice_Get org rid else raise er
             | Inr x \<Rightarrow> after_issue org rid u))" for rid day due n
    by (rule drew.attempt [OF Invoices_Issue_stays [OF assms]])
       (auto split: sum.split intro!: io_pre_weaken [where P = wf] stay a)
  show d: "stays os (issue_draft org rid u t p)" for rid t p
    unfolding issue_draft_def Let_def
    by (rule ok.chain [OF reads_stay(1)], rule ok.ask, rule io_pre_result [OF repository_stays(1) [OF assms] k])
       (auto dest: Counters_Next_drawn intro: steps_trans)
  show i: "stays os (issue org rid u t)" for rid t
    unfolding issue_def by (auto split: InvoiceStatus.split intro!: stay d)
  show "stays os (Issue org rid u)" unfolding Issue_def by (rule i)
  show "stays os (issueExisting org i u t)" unfolding issueExisting_def by (auto intro!: stay i)
qed

lemma invoice_stays [stay]:
  assumes "org \<in> os"
  shows "stays os (CreateAndIssue org i u)" "stays os (Void org rid reason u)" "stays os (MarkOverdue org day)"
proof -
  have "stays os (create_new_and_issue org i u)"
    unfolding create_new_and_issue_def by (auto split: sum.split intro!: stay assms)
  then show "stays os (CreateAndIssue org i u)"
    unfolding CreateAndIssue_def by (auto split: sum.split intro!: stay assms)
  show "stays os (Void org rid reason u)" unfolding Void_def Let_def by (auto intro!: stay assms)
  show "stays os (MarkOverdue org day)" unfolding MarkOverdue_def by (intro stay assms)
qed

section \<open>Payments and contracts\<close>

lemma payment_stays [stay]:
  assumes "org \<in> os"
  shows "stays os (payment_record org rid pp)" "stays os (RecordManual org rid mp u)" "stays os (RecordProvider org rid pp)"
proof -
  show r: "stays os (payment_record org rid pp)" for pp
    unfolding payment_record_def afterPaid_def Let_def by (auto split: prod.split intro!: stay priced_stays assms)
  show "stays os (RecordManual org rid mp u)" unfolding RecordManual_def by (rule r)
  show "stays os (RecordProvider org rid pp)" unfolding RecordProvider_def by (auto intro!: stay r)
qed

lemma contract_stays [stay]:
  assumes "org \<in> os"
  shows "stays os (ContractService_Get org rid)" "stays os (ContractService_SetEndDate org rid ed u)" "stays os (ContractService_End org rid day reason u)"
  unfolding ContractService_SetEndDate_def ContractService_End_def ContractService_Get_def Let_def
  by (auto split: option.split intro!: stay assms)

section \<open>The billing run\<close>

text \<open>What the run knows of an item it found due: the row is there, with its frequency and its contract's first day.\<close>

definition known :: "string \<Rightarrow> ContractItem \<Rightarrow> Contract \<Rightarrow> db \<Rightarrow> bool" where
  "known org it con d \<longleftrightarrow>
     (\<exists>i \<in> set (d_citems d). \<exists>c \<in> set (d_contracts d).
        ci_id i = ci_id it \<and> cir_org i = org \<and> ci_frequency i = ci_frequency it \<and> contract_key org (cir_contract_id i) c \<and>
        ct_id c = ct_id con \<and> ct_start_date c = ct_start_date con)"

definition groups_known :: "string \<Rightarrow> billGroup list \<Rightarrow> db \<Rightarrow> bool" where
  "groups_known org gs d \<longleftrightarrow> (\<forall>g \<in> set gs. \<forall>x \<in> set (bg_items g). known org (du_item x) (bg_contract g) d)"

lemma known_evolves: "known org it con d \<Longrightarrow> evolves d d' \<Longrightarrow> known org it con d'"
proof -
  assume k: "known org it con d" and ev: "evolves d d'"
  from k obtain i c where ic: "i \<in> set (d_citems d)" "c \<in> set (d_contracts d)" "ci_id i = ci_id it" "cir_org i = org"
      "ci_frequency i = ci_frequency it" "contract_key org (cir_contract_id i) c" "ct_id c = ct_id con" "ct_start_date c = ct_start_date con"
    by (auto simp: known_def)
  obtain i' where "i' \<in> set (d_citems d')" "citem_evolves i i'" using ev ic(1) rows_evolveD unfolding evolves_def by metis
  moreover obtain c' where "c' \<in> set (d_contracts d')" "contract_evolves c c'" using ev ic(2) rows_evolveD unfolding evolves_def by metis
  ultimately show ?thesis using ic unfolding known_def
    by (intro bexI [of _ i'] bexI [of _ c']) (auto simp: citem_evolves_def contract_evolves_def contract_key_def)
qed

lemma groups_known_evolves: "groups_known org gs d \<Longrightarrow> evolves d d' \<Longrightarrow> groups_known org gs d'"
  by (auto simp: groups_known_def intro: known_evolves)

lemma known_next:
  assumes wf: "wf d" and k: "known org it con d" and p: "(s, t) = PeriodRange (ct_start_date con) (ci_frequency it) (k + 1)"
  shows "next_period org (ci_id it) k s t d"
  unfolding next_period_def
proof (intro ballI impI)
  fix i c assume ic: "i \<in> set (d_citems d)" "c \<in> set (d_contracts d)" "item_at org (ci_id it) k i" "contract_key org (cir_contract_id i) c"
  from \<open>known org it con d\<close> obtain i' c' where ic': "i' \<in> set (d_citems d)" "c' \<in> set (d_contracts d)" "ci_id i' = ci_id it"
      "ci_frequency i' = ci_frequency it" "contract_key org (cir_contract_id i') c'" "ct_start_date c' = ct_start_date con"
    by (auto simp: known_def)
  have "i = i'" using unique_onD [OF wf_unique(6) [OF wf] ic(1) ic'(1)] ic(3) ic'(3) by (simp add: item_at_def)
  moreover have "c = c'" using unique_onD [OF wf_unique(5) [OF wf] ic(2) ic'(2)] ic(4) ic'(5) calculation by (simp add: contract_key_def)
  ultimately show "(s, t) = PeriodRange (ct_start_date c) (ci_frequency i) (k + 1)" using p ic' by simp
qed

interpretation found: effect "\<lambda>d. wf d \<and> groups_known org gs d" "steps os" for org gs os
  by unfold_locales (auto intro: steps_refl steps_trans groups_known_evolves dest: steps_ok)

lemma Contracts_Advance_found:
  assumes "org \<in> os" "g \<in> set gs" "x \<in> set (bg_items g)" and p: "PeriodRange (ct_start_date (bg_contract g)) (ci_frequency (du_item x)) (k + 1) = (s, t)"
  shows "io_pre (\<lambda>d. wf d \<and> groups_known org gs d) (steps os) (Contracts_Advance org (ci_id (du_item x)) k s t)"
  unfolding Contracts_Advance_def
  by (rule scoped [OF assms(1)], rule db_step.advance, rule known_next [where con = "bg_contract g"])
     (use assms(2,3) p in \<open>auto simp: groups_known_def\<close>)

lemma advance_items_found:
  assumes "org \<in> os" "g \<in> set gs"
  shows "set ds \<subseteq> set (bg_items g) \<Longrightarrow> io_pre (\<lambda>d. wf d \<and> groups_known org gs d) (steps os) (advance_items org g ds st)"
proof (induction ds arbitrary: st)
  case Nil
  then show ?case by (simp add: found.ret)
next
  case (Cons x ds)
  then show ?case
    by (auto simp: Let_def split: prod.split sum.split intro!: found.attempt found.ret Contracts_Advance_found [OF assms] Cons.IH)
qed

lemma bill_groups_found:
  assumes "org \<in> os"
  shows "set gs' \<subseteq> set gs \<Longrightarrow> io_pre (\<lambda>d. wf d \<and> groups_known org gs d) (steps os) (bill_groups org gs' st)"
proof (induction gs' arbitrary: st)
  case Nil
  then show ?case by (simp add: found.ret)
next
  case (Cons g gs')
  have "io_pre (\<lambda>d. wf d \<and> groups_known org gs d) (steps os) (bill org g st)"
    unfolding bill_def using Cons.prems
    by (auto split: sum.split intro!: found.attempt found.ret io_pre_weaken [OF invoice_stays(1) [OF assms]]
        advance_items_found [OF assms])
  then show ?case using Cons by (auto intro!: found.chain)
qed

text \<open>A group holds due items of its own contract.\<close>

definition group_of_due :: "DueItem set \<Rightarrow> billGroup \<Rightarrow> bool" where
  "group_of_due D g \<longleftrightarrow>
     (\<exists>y \<in> D. bg_contract g = du_contract y) \<and> (\<forall>x \<in> set (bg_items g). x \<in> D \<and> ct_id (du_contract x) = ct_id (bg_contract g))"

lemma add_due_groups: "x \<in> D \<Longrightarrow> \<forall>g \<in> set gs. group_of_due D g \<Longrightarrow> \<forall>g \<in> set (add_due gs x). group_of_due D g"
proof (induction gs)
  case Nil
  then show ?case by (auto simp: group_of_due_def)
next
  case (Cons g gs)
  show ?case
  proof (cases "in_group x g")
    case True
    then have "group_of_due D (g\<lparr>bg_items := bg_items g @ [x]\<rparr>)" using Cons.prems by (simp add: group_of_due_def in_group_def)
    then show ?thesis using True Cons.prems by simp
  next
    case False
    then show ?thesis using Cons by simp
  qed
qed

lemma groupDue_groups: "g \<in> set (groupDue due failed) \<Longrightarrow> group_of_due (set due) g"
proof -
  have "set xs \<subseteq> D \<Longrightarrow> \<forall>g \<in> set gs. group_of_due D g \<Longrightarrow> \<forall>g \<in> set (foldl add_due gs xs). group_of_due D g" for xs gs D
  proof (induction xs arbitrary: gs)
    case (Cons x xs)
    have "\<forall>g \<in> set (add_due gs x). group_of_due D g" by (rule add_due_groups) (use Cons.prems in auto)
    then have "\<forall>g \<in> set (foldl add_due (add_due gs x) xs). group_of_due D g" by (rule Cons.IH [rotated]) (use Cons.prems in auto)
    then show ?case by simp
  qed simp
  from this [of "filter (\<lambda>d. ci_id (du_item d) \<notin> set failed) due" "set due" "[]"]
  have "\<forall>g \<in> set (groupDue due failed). group_of_due (set due) g" by (simp add: groupDue_def)
  then show "g \<in> set (groupDue due failed) \<Longrightarrow> group_of_due (set due) g" by blast
qed

lemma due_known:
  assumes "x \<in> set (map (due_item lead d) (take n (due_rows org today lead d)))"
  shows "known org (du_item x) (du_contract x) d"
proof -
  obtain c i where x: "x = due_item lead d (c, i)" and ci: "(c, i) \<in> set (due_rows org today lead d)"
    using assms by (auto dest: in_set_takeD)
  then have "is_due org today lead d (c, i)" "c \<in> set (d_contracts d)" "i \<in> set (d_citems d)" by (auto simp: due_rows_def)
  then show ?thesis
    unfolding known_def x due_item_def
    by (intro bexI [of _ i] bexI [of _ c]) (auto simp: is_due_def contract_key_def scanContractItem_def load_contract_def scanContract_def)
qed

lemma groups_of_due_known:
  assumes wf: "wf d" and k: "\<forall>x \<in> set due. known org (du_item x) (du_contract x) d"
  shows "groups_known org (groupDue due failed) d"
  unfolding groups_known_def
proof (intro ballI)
  fix g x assume g: "g \<in> set (groupDue due failed)" "x \<in> set (bg_items g)"
  obtain y where y: "y \<in> set due" "bg_contract g = du_contract y" and x: "x \<in> set due" "ct_id (du_contract x) = ct_id (du_contract y)"
    using groupDue_groups [OF g(1)] g(2) by (auto simp: group_of_due_def)
  from k x(1) obtain i c where ic: "i \<in> set (d_citems d)" "c \<in> set (d_contracts d)" "ci_id i = ci_id (du_item x)" "cir_org i = org"
      "ci_frequency i = ci_frequency (du_item x)" "contract_key org (cir_contract_id i) c" "ct_id c = ct_id (du_contract x)"
    by (auto simp: known_def)
  from k y(1) obtain c' where c': "c' \<in> set (d_contracts d)" "ct_id c' = ct_id (du_contract y)" "ct_start_date c' = ct_start_date (du_contract y)"
    by (auto simp: known_def)
  have "c = c'" using unique_onD [OF wf_unique(5) [OF wf] ic(2) c'(1)] ic(7) c'(2) x(2) by simp
  then show "known org (du_item x) (bg_contract g) d"
    using ic c' x(2) unfolding known_def y(2) by (intro bexI [of _ i] bexI [of _ c']) auto
qed

lemma DueItems_known:
  assumes "wf (w_db w)" "Contracts_DueItems org today lead n e w = (Inr due, w')"
  shows "wf (w_db w') \<and> groups_known org (groupDue due failed) (w_db w')"
proof -
  have "due_items_tx org today lead n e (w_db w) = (Inr due, w_db w')"
    using assms(2) by (simp add: Contracts_DueItems_def withScopedTx_Inr)
  then have "w_db w' = w_db w" and due: "due = map (due_item lead (w_db w)) (take (clampLimit n) (due_rows org today lead (w_db w)))"
    by (auto simp: due_items_tx_def tx_simps)
  then show ?thesis using groups_of_due_known [of "w_db w" due org failed] assms(1) due_known by simp
qed

lemma io_pre_attempt:
  assumes "stays os m" "\<And>er. stays os (k (Inl er))" "\<And>x. io_pre (Q x) (steps os) (k (Inr x))"
    and "\<And>e w x w'. wf (w_db w) \<Longrightarrow> m e w = (Inr x, w') \<Longrightarrow> Q x (w_db w')"
  shows "stays os (attempt m k)"
  unfolding io_pre_def
proof (intro allI impI)
  fix e :: env and w :: world assume e: "env_ok e" and P: "wf (w_db w)"
  obtain r w' where m: "m e w = (r, w')" by (cases "m e w")
  have s: "steps os (w_db w) (w_db w')" using io_preD [OF assms(1) e P] m by simp
  have "steps os (w_db w') (w_db (snd (k r e w')))"
  proof (cases r)
    case (Inl er)
    then show ?thesis using io_preD [OF assms(2) e] steps_ok [OF s P] by simp
  next
    case (Inr x)
    then show ?thesis using io_preD [OF assms(3) e] assms(4) [OF P] m by simp
  qed
  then show "steps os (w_db w) (w_db (snd (attempt m k e w)))" using s m by (auto simp: attempt_def intro: steps_trans)
qed

lemma bill_rounds_stays:
  assumes "org \<in> os"
  shows "stays os (bill_rounds k org today lead st)"
proof (induction k arbitrary: st)
  case 0
  then show ?case by (simp add: ok.ret)
next
  case (Suc k)
  show ?case
    unfolding bill_rounds.simps
  proof (intro ok.chain ok.cond external_stays ok.ret, rule io_pre_attempt [where Q = "\<lambda>due d. wf d \<and> groups_known org (groupDue due (fst st)) d"])
    show "io_pre (\<lambda>d. wf d \<and> groups_known org (groupDue due (fst st)) d) (steps os)
        (case Inr due of Inl er \<Rightarrow> ret (st, Some er)
         | Inr due \<Rightarrow> let groups = groupDue due (fst st) in
             if groups = [] then ret (st, None) else chain (bill_groups org groups st) (bill_rounds k org today lead))" for due
      by (simp add: Let_def found.ret found.chain [OF bill_groups_found [OF assms] io_pre_weaken [OF Suc]])
    show "wf (w_db w') \<and> groups_known org (groupDue due (fst st)) (w_db w')"
      if "wf (w_db w)" "Contracts_DueItems org today lead billingRunBatch e w = (Inr due, w')" for e w due w'
      using that by (rule DueItems_known)
  qed (simp_all add: reads_stay ok.ret)
qed

lemma billing_stays [stay]:
  assumes "org \<in> os"
  shows "stays os (BillingRun_Run org)"
proof -
  have "stays os (finish_run org today st)" for today st
    unfolding finish_run_def by (auto split: prod.split option.split sum.split intro!: stay assms)
  then show ?thesis
    unfolding BillingRun_Run_def Let_def
    by (auto split: sum.split intro!: stay bill_rounds_stays [OF assms])
qed

section \<open>Orders\<close>

lemma resolveAccount_stays [stay]:
  assumes "org \<in> os"
  shows "stays os (resolveAccount org st req sid)"
proof -
  have "stays os (account_from_source org ap u)" "stays os (account_from_order org st sid ap u)" for ap u
    unfolding account_from_source_def account_from_order_def
    by (auto split: sum.split list.split prod.split intro!: stay assms)
  then show ?thesis unfolding resolveAccount_def by (auto intro!: stay)
qed

lemma create_contract_grid:
  "on_grid \<lparr>ccp_number = n, ccp_account_id = a, ccp_source_type = st, ccp_source_id = sid, ccp_currency = cur, ccp_notes = notes,
     ccp_pic_user_id = pic, ccp_created_by = u, ccp_start_date = start, ccp_channels = chs,
     ccp_items = map (contract_item_params start) cs\<rparr>"
  by (auto simp: on_grid_def contract_item_params_def Let_def split: prod.split)

lemma order_stays [stay]:
  assumes "org \<in> os"
  shows "stays os (ensureContract org st a start req cs)" "stays os (BillOrder org req)" "stays os (BillDelivery org st sid batch ls req)"
proof -
  have "stays os (create_contract org st a start req cs)" for a start cs st
    unfolding create_contract_def nextContractNumber_def Let_def
    by (auto split: sum.split intro!: stay assms priced_stays create_contract_grid)
  then show e: "stays os (ensureContract org st a start req cs)" for a start cs st
    unfolding ensureContract_def by (auto split: sum.split intro!: stay)
  have b: "stays os (bill_initial org req st a start c ps)" for st a start c ps
    unfolding bill_initial_def Let_def by (auto intro!: stay assms)
  show "stays os (BillOrder org req)"
    unfolding BillOrder_def Let_def by (auto split: prod.split intro!: stay e b assms)
  show "stays os (BillDelivery org st sid batch ls req)"
    unfolding BillDelivery_def Let_def by (auto intro!: stay assms)
qed

section \<open>The ledger, the public page and online payment\<close>

lemma RecordPayment_stays [stay]: "TrimSpace org \<in> os \<Longrightarrow> stays os (RecordPayment org rid ref amount t)"
  unfolding RecordPayment_def checkDuplicate_def Let_def by (auto intro!: stay)

lemma Ledger_InsertManualLocked_stays:
  assumes "sme_org me \<in> os" "signedAmount t (kind = ''adjustment'') = Some a" "kind \<in> {''settlement'', ''adjustment''}"
    "sme_kind me = kind" "sme_amount me = FloatString2 a"
  shows "stays os (Ledger_InsertManualLocked me (settlement_check kind a))"
  unfolding Ledger_InsertManualLocked_def
  by (rule unscoped [OF assms(1)], rule db_step.ledger_manual [of me _ _ t a]) (use assms in auto)

lemma settlement_stays [stay]:
  "TrimSpace org \<in> os \<Longrightarrow> stays os (SettlementService_Record org sei u)" "stays os (SettlementService_Balance org)"
    "stays os (SettlementService_ListBalances s limit off)" "stays os (SettlementService_ListEntries org limit off)"
proof -
  show "TrimSpace org \<in> os \<Longrightarrow> stays os (SettlementService_Record org sei u)"
    unfolding SettlementService_Record_def requireCustomerBeneficiary_def Let_def
    by (auto split: option.split intro!: stay Ledger_InsertManualLocked_stays)
  show "stays os (SettlementService_Balance org)" "stays os (SettlementService_ListBalances s limit off)"
    "stays os (SettlementService_ListEntries org limit off)"
    unfolding SettlementService_Balance_def SettlementService_ListBalances_def SettlementService_ListEntries_def
    by (auto split: prod.split intro!: stay)
qed

lemma public_stays [stay]:
  "stays os (loadPublicInvoice token)" "stays UNIV (Public_View token)" "stays UNIV (Public_PDF token)"
  "stays UNIV (Checkout_Start token)"
proof -
  show l: "stays os (loadPublicInvoice token)" for os
    unfolding loadPublicInvoice_def by (auto split: sum.split intro!: stay)
  show "stays UNIV (Public_View token)" unfolding Public_View_def by (auto intro!: stay l)
  show "stays UNIV (Public_PDF token)" unfolding Public_PDF_def by (auto intro!: stay l)
  have "stays UNIV (start_checkout p r token)" for p r
    unfolding start_checkout_def Let_def by (auto split: sum.split prod.split intro!: stay)
  then show "stays UNIV (Checkout_Start token)"
    unfolding Checkout_Start_def Let_def by (auto split: sum.split option.split intro!: stay l)
qed

lemma notification_stays [stay]: "stays UNIV (HandleNotification n)" "stays UNIV (SyncStatus token)"
proof -
  have "stays UNIV (creditSettlement org n c p)" for org n c p
    unfolding creditSettlement_def Let_def by (auto intro!: stay)
  then have "stays UNIV (settle_notification org n c)" for org n c
    unfolding settle_notification_def Let_def by (auto split: sum.split prod.split intro!: stay)
  then show h: "stays UNIV (HandleNotification n)" for n
    unfolding HandleNotification_def by (auto split: sum.split intro!: stay)
  have "stays UNIV (sync_checkout p)" for p
    unfolding sync_checkout_def Let_def by (auto split: sum.split intro!: stay h)
  then show "stays UNIV (SyncStatus token)" unfolding SyncStatus_def by (auto intro!: stay)
qed

section \<open>The workers\<close>

lemma mark_page_stays: "stays UNIV (mark_page day orgs res)"
proof (induction day orgs res rule: mark_page.induct)
  case (2 day org orgs res)
  have "stays UNIV (markOrganization org day)" unfolding markOrganization_def by (auto intro!: stay)
  then show ?case using 2 by (auto intro!: ok.attempt ok.chain ok.ret external_stays)
qed (simp add: ok.ret)

lemma overdue_pages_stays: "stays UNIV (overdue_pages k day off res)"
  by (induction k arbitrary: off res) (auto split: sum.split prod.split intro!: stay mark_page_stays)

lemma run_page_stays: "stays UNIV (run_page orgs res)"
proof (induction orgs res rule: run_page.induct)
  case (2 org orgs res)
  have "stays UNIV (runOrganization org)" unfolding runOrganization_def by (auto split: sum.split intro!: stay)
  then show ?case using 2 by (auto intro!: ok.chain ok.ret external_stays)
qed (simp add: ok.ret)

lemma run_pages_stays: "stays UNIV (run_pages k off res)"
  by (induction k arbitrary: off res) (auto split: sum.split prod.split intro!: stay run_page_stays)

lemma worker_stays [stay]: "stays UNIV (OverdueRunner_RunOnce k)" "stays UNIV (BillingRunner_RunOnce k)"
  unfolding OverdueRunner_RunOnce_def BillingRunner_RunOnce_def by (auto intro!: ok.ask overdue_pages_stays run_pages_stays)

end
