(* ===== verification/Machine.thy ===== *)
theory Machine
  imports Services
begin

text \<open>
  The module as one machine: the calls that handlers, workers, the payment provider and the other
  modules make, and any sequence of them, each with its own clock, adapters and faults.  Every such run
  keeps \<open>wf\<close> and moves rows only as \<open>evolves\<close> allows; what an organization sees changes only in
  calls made for it.
\<close>

datatype call =
    AccountCreate string AccountInput string
  | AccountEnsure string AccountInput string
  | AccountUpdate string string AccountInput
  | SettingsUpdate string Settings string
  | DraftCreate string InvoiceInput string
  | DraftUpdate string string InvoiceInput string
  | InvoiceIssue string string string
  | InvoiceCreateIssue string InvoiceInput string
  | InvoiceCancel string string string string
  | InvoicePDF string string
  | InvoiceLink string string string
  | InvoiceSend string string SendInput string
  | InvoicesOverdue string date
  | PaymentManual string string ManualPaymentInput string
  | PaymentProvider string string PaymentParams
  | ContractEndDate string string "date option" string
  | ContractEnd string string date string string
  | OrderBill string OrderBillingRequest
  | DeliveryBill string SourceType string string "OrderLine list" OrderBillingRequest
  | BillingRun string
  | PublicView string
  | PublicPDF string
  | CheckoutStart string
  | CheckoutSync string
  | ProviderNotice DokuNotification
  | LedgerCredit string string string string instant
  | LedgerRecord string SettlementEntryInput string
  | BillingWorker nat
  | OverdueWorker nat

definition discard :: "'a io \<Rightarrow> unit io" where
  "discard m = chain m (\<lambda>_. ret ())"

fun perform :: "call \<Rightarrow> unit io" where
  "perform (AccountCreate org i u) = discard (AccountService_Create org i u)"
| "perform (AccountEnsure org i u) = discard (EnsureForSource org i u)"
| "perform (AccountUpdate org rid i) = discard (AccountService_Update org rid i)"
| "perform (SettingsUpdate org s u) = discard (SettingsService_Update org s u)"
| "perform (DraftCreate org i u) = discard (CreateDraft org i u)"
| "perform (DraftUpdate org rid i u) = discard (UpdateDraft org rid i u)"
| "perform (InvoiceIssue org rid u) = discard (Issue org rid u)"
| "perform (InvoiceCreateIssue org i u) = discard (CreateAndIssue org i u)"
| "perform (InvoiceCancel org rid reason u) = discard (Void org rid reason u)"
| "perform (InvoicePDF org rid) = discard (Invoice_PDF org rid)"
| "perform (InvoiceLink org rid u) = discard (Invoice_Link org rid u)"
| "perform (InvoiceSend org rid s u) = discard (SendService_Send org rid s u)"
| "perform (InvoicesOverdue org today) = discard (MarkOverdue org today)"
| "perform (PaymentManual org rid p u) = discard (RecordManual org rid p u)"
| "perform (PaymentProvider org rid p) = discard (RecordProvider org rid p)"
| "perform (ContractEndDate org rid d u) = discard (ContractService_SetEndDate org rid d u)"
| "perform (ContractEnd org rid d reason u) = discard (ContractService_End org rid d reason u)"
| "perform (OrderBill org req) = discard (BillOrder org req)"
| "perform (DeliveryBill org st sid batch ls req) = discard (BillDelivery org st sid batch ls req)"
| "perform (BillingRun org) = discard (BillingRun_Run org)"
| "perform (PublicView token) = discard (Public_View token)"
| "perform (PublicPDF token) = discard (Public_PDF token)"
| "perform (CheckoutStart token) = discard (Checkout_Start token)"
| "perform (CheckoutSync token) = discard (SyncStatus token)"
| "perform (ProviderNotice n) = discard (HandleNotification n)"
| "perform (LedgerCredit org rid ref amount t) = discard (RecordPayment org rid ref amount t)"
| "perform (LedgerRecord org i u) = discard (SettlementService_Record org i u)"
| "perform (BillingWorker fuel) = discard (BillingRunner_RunOnce fuel)"
| "perform (OverdueWorker fuel) = discard (OverdueRunner_RunOnce fuel)"

text \<open>The organizations a call works for; those that find their organization themselves may be any.\<close>

fun call_orgs :: "call \<Rightarrow> string set" where
  "call_orgs (AccountCreate org i u) = {org}"
| "call_orgs (AccountEnsure org i u) = {org}"
| "call_orgs (AccountUpdate org rid i) = {org}"
| "call_orgs (SettingsUpdate org s u) = {org}"
| "call_orgs (DraftCreate org i u) = {org}"
| "call_orgs (DraftUpdate org rid i u) = {org}"
| "call_orgs (InvoiceIssue org rid u) = {org}"
| "call_orgs (InvoiceCreateIssue org i u) = {org}"
| "call_orgs (InvoiceCancel org rid reason u) = {org}"
| "call_orgs (InvoicePDF org rid) = {org}"
| "call_orgs (InvoiceLink org rid u) = {org}"
| "call_orgs (InvoiceSend org rid s u) = {org}"
| "call_orgs (InvoicesOverdue org today) = {org}"
| "call_orgs (PaymentManual org rid p u) = {org}"
| "call_orgs (PaymentProvider org rid p) = {org}"
| "call_orgs (ContractEndDate org rid d u) = {org}"
| "call_orgs (ContractEnd org rid d reason u) = {org}"
| "call_orgs (OrderBill org req) = {org}"
| "call_orgs (DeliveryBill org st sid batch ls req) = {org}"
| "call_orgs (BillingRun org) = {org}"
| "call_orgs (LedgerCredit org rid ref amount t) = {TrimSpace org}"
| "call_orgs (LedgerRecord org i u) = {TrimSpace org}"
| "call_orgs _ = UNIV"

definition perform_call :: "env \<times> call \<Rightarrow> world \<Rightarrow> world" where
  "perform_call ec w = snd (perform (snd ec) (fst ec) w)"

definition run :: "(env \<times> call) list \<Rightarrow> world \<Rightarrow> world" where
  "run tr w = fold perform_call tr w"

abbreviation envs_ok :: "(env \<times> call) list \<Rightarrow> bool" where
  "envs_ok tr \<equiv> list_all (\<lambda>ec. env_ok (fst ec)) tr"

lemma discard_stays [stay]: "stays os m \<Longrightarrow> stays os (discard m)"
  unfolding discard_def by (intro stay)

lemma perform_stays: "stays (call_orgs c) (perform c)"
  by (cases c) (auto intro!: stay)

lemma run_append: "run (tr @ tr') w = run tr' (run tr w)"
  by (simp add: run_def)

text \<open>A run is a sequence of the steps of its organizations.\<close>

lemma run_steps:
  "envs_ok tr \<Longrightarrow> wf (w_db w) \<Longrightarrow> \<forall>ec \<in> set tr. call_orgs (snd ec) \<subseteq> os \<Longrightarrow> steps os (w_db w) (w_db (run tr w))"
proof (induction tr arbitrary: w)
  case Nil
  then show ?case by (simp add: run_def steps_refl)
next
  case (Cons ec tr)
  have "steps (call_orgs (snd ec)) (w_db w) (w_db (perform_call ec w))"
    unfolding perform_call_def by (rule io_preD [OF perform_stays]) (use Cons.prems in simp_all)
  then have one: "steps os (w_db w) (w_db (perform_call ec w))" using Cons.prems(3) by (auto intro: steps_larger)
  then have "wf (w_db (perform_call ec w))" using steps_ok Cons.prems(2) by blast
  then have "steps os (w_db (perform_call ec w)) (w_db (run tr (perform_call ec w)))" using Cons by simp
  then show ?case using one by (auto simp: run_def intro: steps_trans)
qed

theorem run_ok: "envs_ok tr \<Longrightarrow> wf (w_db w) \<Longrightarrow> wf (w_db (run tr w)) \<and> evolves (w_db w) (w_db (run tr w))"
  using run_steps [of tr w UNIV] steps_ok by blast

theorem run_isolated:
  assumes "envs_ok tr" "wf (w_db w)" "\<forall>ec \<in> set tr. other \<notin> call_orgs (snd ec)"
  shows "tenant_view other (w_db (run tr w)) = tenant_view other (w_db w)"
proof -
  have "steps (- {other}) (w_db w) (w_db (run tr w))" using assms by (intro run_steps) auto
  then show ?thesis by (rule steps_isolated) simp
qed

end
