(* ===== verification/Book.thy ===== *)
theory Book
  imports Machine
begin

text \<open>
  The abstract specification of receivables: a book of entries, each a status, a total and what was
  paid, moved by six rules.  The tables refine it: every step of the module is a sequence of moves of the
  book, read off the invoices.
\<close>

record entry =
  en_status :: InvoiceStatus
  en_total :: int
  en_paid :: int

inductive move :: "entry list \<Rightarrow> entry list \<Rightarrow> bool" where
  open_draft: "0 \<le> t \<Longrightarrow> move es (es @ [\<lparr>en_status = InvoiceDraft, en_total = t, en_paid = 0\<rparr>])"
| revise: "en_status x = InvoiceDraft \<Longrightarrow> 0 \<le> t \<Longrightarrow> move (es @ x # fs) (es @ x\<lparr>en_total := t\<rparr> # fs)"
| issue: "en_status x = InvoiceDraft \<Longrightarrow> move (es @ x # fs) (es @ x\<lparr>en_status := InvoiceIssued\<rparr> # fs)"
| fall_due: "en_status x = InvoiceIssued \<Longrightarrow> move (es @ x # fs) (es @ x\<lparr>en_status := InvoiceOverdue\<rparr> # fs)"
| pay: "en_status x \<in> {InvoiceIssued, InvoiceOverdue} \<Longrightarrow> 0 < k \<Longrightarrow> en_paid x + k < en_total x \<Longrightarrow>
    move (es @ x # fs) (es @ x\<lparr>en_paid := en_paid x + k\<rparr> # fs)"
| settle: "en_status x \<in> {InvoiceIssued, InvoiceOverdue} \<Longrightarrow> en_paid x < en_total x \<Longrightarrow>
    move (es @ x # fs) (es @ x\<lparr>en_paid := en_total x, en_status := InvoicePaid\<rparr> # fs)"
| cancel: "en_status x \<in> {InvoiceDraft, InvoiceIssued, InvoiceOverdue} \<Longrightarrow> en_paid x = 0 \<Longrightarrow>
    move (es @ x # fs) (es @ x\<lparr>en_status := InvoiceVoid\<rparr> # fs)"

abbreviation moves :: "entry list \<Rightarrow> entry list \<Rightarrow> bool" where
  "moves \<equiv> move\<^sup>*\<^sup>*"

definition entry_of :: "invoice_row \<Rightarrow> entry" where
  "entry_of r = \<lparr>en_status = in_status r, en_total = ir_grand_total r, en_paid = ir_amount_paid r\<rparr>"

definition book :: "db \<Rightarrow> entry list" where
  "book d = map entry_of (d_invoices d)"

lemma book_same: "d_invoices d' = d_invoices d \<Longrightarrow> moves (book d) (book d')"
  by (simp add: book_def)

lemma book_update_same: "(\<And>r. entry_of (f r) = entry_of r) \<Longrightarrow> map entry_of (update_where q f rows) = map entry_of rows"
  by (simp add: update_where_def)

text \<open>One row changed by one move.\<close>

lemma book_row:
  assumes "d_invoices d = xs @ r # ys" "d_invoices d' = xs @ r' # ys"
    and "move (map entry_of xs @ entry_of r # map entry_of ys) (map entry_of xs @ entry_of r' # map entry_of ys)"
  shows "moves (book d) (book d')"
  using assms by (simp add: book_def r_into_rtranclp)

lemma move_Cons: "move es fs \<Longrightarrow> move (x # es) (x # fs)"
  by (induction rule: move.induct) (simp_all only: append_Cons [symmetric] move.intros)

lemma moves_Cons: "moves es fs \<Longrightarrow> moves (x # es) (x # fs)"
  by (induction rule: rtranclp_induct) (auto intro: move_Cons rtranclp.rtrancl_into_rtrancl)

lemma moves_overdue:
  "moves (map entry_of rows) (map entry_of (update_where (past_due org day) (\<lambda>r. r\<lparr>in_status := InvoiceOverdue, in_updated_at := t\<rparr>) rows))"
proof (induction rows)
  case (Cons r rows)
  let ?f = "\<lambda>r. if past_due org day r then r\<lparr>in_status := InvoiceOverdue, in_updated_at := t\<rparr> else r"
  let ?u = "update_where (past_due org day) (\<lambda>r. r\<lparr>in_status := InvoiceOverdue, in_updated_at := t\<rparr>)"
  have "moves (entry_of r # map entry_of rows) (entry_of (?f r) # map entry_of rows)"
    using move.fall_due [of "entry_of r" "[]" "map entry_of rows"] by (auto simp: past_due_def entry_of_def)
  moreover have "moves (entry_of (?f r) # map entry_of rows) (entry_of (?f r) # map entry_of (?u rows))"
    by (rule moves_Cons [OF Cons])
  ultimately have "moves (entry_of r # map entry_of rows) (entry_of (?f r) # map entry_of (?u rows))" by (rule rtranclp_trans)
  then show ?case by (simp add: update_where_def)
qed (simp add: update_where_def)

text \<open>The invoice steps, each read as a move.\<close>

lemma book_invoice:
  assumes "invoice_create_tx org p e d = (Inr i, d')"
  shows "moves (book d) (book d')"
proof -
  from assms obtain rid d1 where one: "insert_invoice org p e d = (Inr rid, d1)" and ins: "insertItems org rid 0 (cp_items p) e d1 = (Inr (), d')"
    by (rule invoice_create_Inr)
  from insert_invoice_change [OF one] obtain r where
    d1: "d_invoices d1 = d_invoices d @ [r]" and r: "in_status r = InvoiceDraft" "ir_amount_paid r = 0" "passes (invoice_checks d r)" by auto
  have "d_invoices d' = d_invoices d @ [r]" using insertItems_Inr [OF ins] d1 by auto
  then have "book d' = book d @ [\<lparr>en_status = InvoiceDraft, en_total = ir_grand_total r, en_paid = 0\<rparr>]"
    using r(1,2) by (simp add: book_def entry_of_def)
  moreover have "0 \<le> ir_grand_total r" using r(2,3) by (simp add: invoice_checks_def)
  ultimately show ?thesis using move.open_draft by (simp add: r_into_rtranclp)
qed

lemma book_redraft:
  assumes wf: "wf d" and s: "replace_draft_tx org rid p e d = (Inr i, d')"
  shows "moves (book d) (book d')"
proof -
  from s obtain r f d1 where r: "query_row (invoice_key org rid) (d_invoices d) = Inr r" "in_status r = InvoiceDraft"
      "redrafts e p f" "ir_amount_paid r \<le> ir_grand_total (f r)" and
    d1: "d1 = d\<lparr>d_invoices := update_where (invoice_key org rid) f (d_invoices d), d_items := filter (\<lambda>i. \<not> own_item org rid i) (d_items d)\<rparr>" and
    ins: "insertItems org rid 0 (cp_items p) e d1 = (Inr (), d')"
    by (rule replace_draft_Inr)
  obtain xs ys where q: "d_invoices d = xs @ r # ys" "\<And>f. update_where (invoice_key org rid) f (d_invoices d) = xs @ f r # ys"
    using query_key [OF wf r(1)] by metis
  have "0 \<le> ir_amount_paid r" using wf_row [OF wf, of r] q(1) by (simp add: row_ok_def)
  then have "0 \<le> ir_grand_total (f r)" "entry_of (f r) = (entry_of r)\<lparr>en_total := ir_grand_total (f r)\<rparr>"
    using r(3,4) by (simp_all add: redrafts_def entry_of_def)
  moreover have "d_invoices d' = xs @ f r # ys" using insertItems_Inr [OF ins] by (auto simp: d1 q(2))
  ultimately show ?thesis
    using r(2) move.revise [of "entry_of r" "ir_grand_total (f r)"] by (intro book_row [OF q(1)]) (auto simp: entry_of_def)
qed

lemma book_issue:
  assumes wf: "wf d" and s: "issue_tx org rid number today due u e d = (Inr i, d')"
  shows "moves (book d) (book d')"
proof -
  let ?p = "\<lambda>r. invoice_key org rid r \<and> in_status r = InvoiceDraft"
  let ?f = "\<lambda>r. r\<lparr>in_status := InvoiceIssued, in_number := number, in_issue_date := Some today,
                in_due_date := Some due, in_updated_at := e_now e, ir_updated_by := u\<rparr>"
  from issue_change [OF s] obtain r where r: "r \<in> set (d_invoices d)" "?p r" and
    d': "d' = d\<lparr>d_invoices := update_where ?p ?f (d_invoices d)\<rparr>" by blast
  obtain xs ys where q: "d_invoices d = xs @ r # ys" "\<forall>x \<in> set xs \<union> set ys. in_id x \<noteq> in_id r"
    using split_row [OF wf r(1)] by blast
  have "update_where ?p ?f (d_invoices d) = xs @ ?f r # ys"
    unfolding q(1) by (rule update_where_split) (use r q(2) in \<open>auto simp: invoice_key_def\<close>)
  then show ?thesis
    using r(2) move.issue [of "entry_of r"] by (intro book_row [OF q(1)]) (auto simp: d' entry_of_def)
qed

lemma book_void:
  assumes wf: "wf d" and s: "void_tx org rid reason u e d = (Inr i, d')"
  shows "moves (book d) (book d')"
proof -
  obtain r where r: "query_row (invoice_key org rid) (d_invoices d) = Inr r" "\<not> 0 < ir_amount_paid r" "in_status r \<noteq> InvoiceVoid"
      "in_status r \<noteq> InvoicePaid" and
    d': "d' = d\<lparr>d_invoices := update_where (invoice_key org rid) (\<lambda>r. r\<lparr>in_status := InvoiceVoid, in_voided_at := Some (e_now e),
                in_void_reason := reason, in_updated_at := e_now e, ir_updated_by := u\<rparr>) (d_invoices d)\<rparr>"
    using void_change [OF s] by blast
  obtain xs ys where q: "d_invoices d = xs @ r # ys" "\<And>f. update_where (invoice_key org rid) f (d_invoices d) = xs @ f r # ys"
    using query_key [OF wf r(1)] by metis
  have "ir_amount_paid r = 0" using wf_row [OF wf, of r] q(1) r(2) by (simp add: row_ok_def)
  moreover have "in_status r \<in> {InvoiceDraft, InvoiceIssued, InvoiceOverdue}" using r(3,4) by (cases "in_status r") auto
  ultimately show ?thesis
    using move.cancel [of "entry_of r"] by (intro book_row [OF q(1)]) (auto simp: d' q(2) entry_of_def)
qed

lemma book_pay:
  assumes wf: "wf d" and e: "env_ok e" and va: "validAmount (pp_amount pp)" and s: "record_tx org rid pp e d = (Inr z, d')"
  shows "moves (book d) (book d')"
proof -
  obtain i y b where z: "z = (i, y, b)" by (cases z)
  from s [unfolded z] show ?thesis
  proof (cases rule: record_Inr)
    case (fresh r)
    obtain k where k: "0 < k" "e_numeric e (pp_amount pp) = Some (cents k)" using validAmount_numeric [OF e va] by blast
    from record_new_Inr [OF fresh(3)] k(2) have
      st: "in_status r = InvoiceIssued \<or> in_status r = InvoiceOverdue" and le: "cents k \<le> cents (ir_grand_total r - ir_amount_paid r)" and
      d': "d_invoices d' = update_where (invoice_key org rid) (apply_payment (cents k) (pp_paid_at pp) (e_now e)) (d_invoices d)" by auto
    obtain xs ys where q: "d_invoices d = xs @ r # ys" "\<And>f. update_where (invoice_key org rid) f (d_invoices d) = xs @ f r # ys"
      using query_key [OF wf fresh(1)] by metis
    show ?thesis
      using move.pay [of "entry_of r" k] move.settle [of "entry_of r"] st k(1) le
      by (intro book_row [OF q(1)]) (auto simp: d' q(2) entry_of_def apply_payment_def Let_def money_simps)
  qed simp
qed

lemma invoices_untouched:
  "counter_next_tx org ty yr e d = (Inr n, d') \<Longrightarrow> d_invoices d' = d_invoices d"
  "settings_upsert_tx org se e d = (Inr x1, d') \<Longrightarrow> d_invoices d' = d_invoices d"
  "insert_account org ap u e d = (Inr x2, d') \<Longrightarrow> d_invoices d' = d_invoices d"
  "account_update_tx org rid ap e d = (Inr x3, d') \<Longrightarrow> d_invoices d' = d_invoices d"
  "send_record_tx org sp e d = (Inr x4, d') \<Longrightarrow> d_invoices d' = d_invoices d"
  "contract_create_tx org cp e d = (Inr x5, d') \<Longrightarrow> d_invoices d' = d_invoices d"
  "set_end_date_tx org rid ed u e d = (Inr x6, d') \<Longrightarrow> d_invoices d' = d_invoices d"
  "end_contract_tx org rid day reason u e d = (Inr x7, d') \<Longrightarrow> d_invoices d' = d_invoices d"
  "advance_tx org rid fr s t e d = (Inr x8, d') \<Longrightarrow> d_invoices d' = d_invoices d"
  "end_expired_tx org today e d = (Inr x9, d') \<Longrightarrow> d_invoices d' = d_invoices d"
  "link_insert_tx org dt di h enc ex u e d = (Inr x10, d') \<Longrightarrow> d_invoices d' = d_invoices d"
  "link_expiry_tx org rid ex e d = (Inr x11, d') \<Longrightarrow> d_invoices d' = d_invoices d"
  "link_revoke_tx org dt di tm e d = (Inr x12, d') \<Longrightarrow> d_invoices d' = d_invoices d"
  "link_touch_tx rid tm e d = (Inr x13, d') \<Longrightarrow> d_invoices d' = d_invoices d"
  "checkout_create_tx org rid num amount url exi e d = (Inr x14, d') \<Longrightarrow> d_invoices d' = d_invoices d"
  "checkout_status_tx rid st e d = (Inr x15, d') \<Longrightarrow> d_invoices d' = d_invoices d"
  "settlement_insert_payment_tx sep e d = (Inr x16, d') \<Longrightarrow> d_invoices d' = d_invoices d"
  "insert_manual_tx me check e d = (Inr x17, d') \<Longrightarrow> d_invoices d' = d_invoices d"
  unfolding set_end_date_tx_def end_contract_tx_def
  by (auto dest!: counter_next_change settings_upsert_change insert_account_change account_update_change send_record_Inr
      updateActive_Inr advance_Inr end_expired_Inr link_insert_Inr link_changes checkout_create_Inr checkout_status_Inr
      settlement_insert_payment_Inr insert_manual_Inr insert_contract_Inr insert_contract_items_Inr elim!: contract_create_Inr)

lemma db_step_book: "db_step org d d' \<Longrightarrow> wf d \<Longrightarrow> moves (book d) (book d')"
proof (induction rule: db_step.induct)
  case (snapshot rid a e d x d')
  show ?case using set_pdf_change [OF snapshot(1)] by (simp add: book_def book_update_same entry_of_def)
next
  case (overdue today e d k d')
  show ?case using mark_overdue_change [OF overdue(1)] moves_overdue by (simp add: book_def)
qed (auto intro: book_invoice book_redraft book_issue book_void book_pay book_same [OF invoices_untouched(1)]
    book_same [OF invoices_untouched(2)] book_same [OF invoices_untouched(3)] book_same [OF invoices_untouched(4)]
    book_same [OF invoices_untouched(5)] book_same [OF invoices_untouched(6)] book_same [OF invoices_untouched(7)]
    book_same [OF invoices_untouched(8)] book_same [OF invoices_untouched(9)] book_same [OF invoices_untouched(10)]
    book_same [OF invoices_untouched(11)] book_same [OF invoices_untouched(12)] book_same [OF invoices_untouched(13)]
    book_same [OF invoices_untouched(14)] book_same [OF invoices_untouched(15)] book_same [OF invoices_untouched(16)]
    book_same [OF invoices_untouched(17)] book_same [OF invoices_untouched(18)])

lemma steps_book: "steps os d d' \<Longrightarrow> wf d \<Longrightarrow> moves (book d) (book d')"
proof (induction rule: steps_induct)
  case (step a b org)
  then have "moves (book a) (book b)" using db_step_book steps_ok by blast
  then show ?case using step by simp
qed simp

end
