(* ===== verification/Example.thy ===== *)
theory Example
  imports Machine
begin

text \<open>A concrete environment and a run, on which the properties are applied.\<close>

definition example_env :: env where
  "example_env =
     \<lparr>e_now = 1735689600 * 10 ^ 9, e_uuid = (\<lambda>n. ''id'' @ dec_nat n), e_fault = (\<lambda>_. NoFault), e_numeric = SetString,
      e_ilike = (\<lambda>_ _. True), e_lower = (\<lambda>s. s), e_valid_email = (\<lambda>_. True), e_user_name = (\<lambda>_. []),
      e_org_type = (\<lambda>_. Some ''customer''), e_org_name = (\<lambda>_. Some ''Org''), e_members = None, e_members_with = (\<lambda>_ _. Inr []),
      e_members_active = (\<lambda>_. Inr []), e_quota = None, e_issuers = None, e_renderer = None, e_files = None, e_links = False,
      e_sender = False, e_email = None, e_whatsapp = None, e_notifier = False, e_entitled = None, e_activation = None,
      e_token = (\<lambda>n. Inr (''t'' @ dec_nat n)), e_hash = (\<lambda>s. s), e_encrypt = Inr, e_decrypt = Inr, e_frontend_url = [],
      e_session_minutes = 0, e_listeners = [], e_resolve = (\<lambda>org _. Inr org), e_orgs = (\<lambda>_ _. Inr []),
      e_doku_create = (\<lambda>_ _. Inr ([], 0)), e_doku_status = (\<lambda>_ _. Inl NoRows), e_settlements = False,
      e_uuid_in = Some, e_users = (\<lambda>_. True), e_cancelled = (\<lambda>_. False)\<rparr>"

definition empty_world :: world where
  "empty_world = \<lparr>w_db = empty_db, w_tick = 0, w_events = [], w_last_sync = (\<lambda>_. None)\<rparr>"

lemma example_env_ok: "env_ok example_env"
  by (simp add: env_ok_def example_env_def)

text \<open>Tables with a contract billed for its first week: one issued invoice, half paid through the provider.\<close>

definition example_account :: account_row where
  "example_account =
     \<lparr>ac_id = ''a1'', ac_name = ''Budi'', ac_company_name = [], ac_email = ''b@x.id'', ac_phone = [], ac_address = [],
      ac_source_type = ''crm_contact'', ac_source_id = ''k1'', ac_created_at = 0, ac_updated_at = 0,
      acr_org = ''o'', acr_created_by = ''u'', acr_deleted = False\<rparr>"

definition example_invoice :: invoice_row where
  "example_invoice =
     \<lparr>in_id = ''i1'', in_account_id = ''a1'', in_number = invoiceNumber 2025 1, in_status = InvoiceIssued,
      in_source_type = ''contract'', in_source_id = ''c1'', in_contract_id = ''c1'', in_idempotency_key = ''period:2025-01-01'',
      in_period_start = Some 20089, in_period_end = Some 20095, in_issue_date = Some 20089, in_due_date = Some 20096,
      in_currency = ''IDR'', in_channels = [''email''], in_pic_user_id = [], in_pdf_asset_id = None, in_notes = [],
      in_paid_at = None, in_voided_at = None, in_void_reason = [], in_created_by = ''u'', in_created_at = 0, in_updated_at = 0,
      ir_org = ''o'', ir_subtotal = 20000, ir_discount_total = 0, ir_tax_total = 2200, ir_grand_total = 22200,
      ir_amount_paid = 10000, ir_updated_by = ''u''\<rparr>"

definition example_item :: invoice_item_row where
  "example_item =
     \<lparr>ii_id = ''l1'', ii_description = ''Jasa'', ii_unit = [], ii_product_id = [], ii_sku = [], ii_contract_item_id = ''ci1'',
      ii_source_line_id = ''ci1'', ii_pricing = \<lparr>a_charge_type = Recurring, a_frequency = Weekly, a_payment_timing = Prepaid\<rparr>,
      ii_period_start = Some 20089, ii_period_end = Some 20095, ii_position = 0, iir_org = ''o'', iir_invoice_id = ''i1'',
      iir_quantity = 100, iir_unit_price = 20000, iir_discount_percent = None, iir_tax_percent = 1100, iir_tax_amount = 2200,
      iir_line_total = 20000, iir_created_at = 0\<rparr>"

definition example_contract :: contract_row where
  "example_contract =
     \<lparr>ct_id = ''c1'', ct_account_id = ''a1'', ct_number = ''CTR-2025-0001'', ct_status = ContractActive, ct_source_type = ''sales_order'',
      ct_source_id = ''so1'', ct_currency = ''IDR'', ct_notes = [], ct_pic_user_id = [], ct_end_reason = [], ct_start_date = 20089,
      ct_end_date = Some 20110, ct_ended_at = None, ct_channels = [''email''], ct_created_by = ''u'', ct_created_at = 0, ct_updated_at = 0,
      cr_org = ''o'', cr_updated_by = ''u''\<rparr>"

definition example_citem :: contract_item_row where
  "example_citem =
     \<lparr>ci_id = ''ci1'', ci_description = ''Jasa'', ci_unit = [], ci_product_id = [], ci_sku = [], ci_source_line_id = [],
      ci_frequency = Weekly, ci_payment_timing = Prepaid, ci_period_index = 1, ci_next_start = 20096, ci_next_end = 20102,
      ci_position = 0, ci_features = [], cir_org = ''o'', cir_contract_id = ''c1'', cir_quantity = 100, cir_unit_price = 20000,
      cir_discount_percent = None, cir_tax_percent = 1100, cir_created_at = 0\<rparr>"

definition example_payment :: payment_row where
  "example_payment =
     \<lparr>pr_id = ''p1'', pr_org = ''o'', pr_invoice_id = ''i1'', pr_amount = 10000, pr_method = ''doku'', pr_reference = ''r1'', pr_note = [],
      pr_recorded_by = [], pr_paid_at = 5, pr_created_at = 5\<rparr>"

definition example_credit :: settlement_row where
  "example_credit =
     \<lparr>sl_id = ''s1'', sl_org = ''o'', sl_kind = ''payment'', sl_amount = 10000, sl_invoice_id = ''i1'', sl_provider_reference = ''r1'',
      sl_note = [], sl_created_by = [], sl_occurred_at = 5, sl_created_at = 5\<rparr>"

definition example_db :: db where
  "example_db =
     empty_db\<lparr>d_accounts := [example_account], d_invoices := [example_invoice], d_items := [example_item],
       d_contracts := [example_contract], d_citems := [example_citem], d_payments := [example_payment],
       d_counters := (\<lambda>k. if k = (''o'', ''invoice'', 2025) then Some 1 else None), d_settlements := [example_credit]\<rparr>"

lemmas example_defs = example_account_def example_invoice_def example_item_def example_contract_def example_citem_def
  example_payment_def example_credit_def example_db_def empty_db_def

definition example_world :: world where
  "example_world = empty_world\<lparr>w_db := example_db\<rparr>"

lemma example_number: "in_number example_invoice = invoiceNumber 2025 1" "in_number example_invoice \<noteq> []"
  by (simp_all add: example_invoice_def invoiceNumber_def)

lemma example_wf: "wf example_db"
proof -
  have "keys_ok example_db" by (simp add: keys_ok_def example_defs unique_on_def)
  moreover have "row_ok example_invoice" using example_number(2) by (simp add: row_ok_def example_invoice_def)
  moreover have "amounts_ok example_db" by (simp add: amounts_ok_def paid_sum_def item_sum_def own_item_def example_defs)
  moreover have "refs_ok example_db" by (simp add: refs_ok_def invoice_key_def example_defs)
  moreover have "numbers_ok example_db"
    unfolding numbers_ok_def using example_number(1)
    by (auto simp: example_db_def empty_db_def drawn_def example_invoice_def intro!: exI [of _ 2025] exI [of _ 1] split: if_splits)
  moreover have "periods_ok example_db" by (simp add: periods_ok_def contract_key_def example_defs PeriodRange_def AddPeriod_days)
  moreover have "ledger_ok (d_settlements example_db)"
    by (simp add: ledger_ok_def ledger_balance_def kind_sum_def unique_on_def example_defs)
  moreover have "ids_ok example_db" by (simp add: ids_ok_def example_db_def empty_db_def)
  ultimately show ?thesis by (simp add: wf_def example_db_def)
qed

lemma scope_o [simp]: "scope_valid ''o''"
  by (simp add: scope_valid_def TrimSpace_graphic graphic_def)

text \<open>One call: the night after the due date.\<close>

definition example_run :: "(env \<times> call) list" where
  "example_run = [(example_env, InvoicesOverdue ''o'' 20097)]"

lemma example_run_ok: "envs_ok example_run"
  by (simp add: example_run_def example_env_ok)

lemma example_run_db:
  "w_db (run example_run example_world) = example_db\<lparr>d_invoices :=
     [example_invoice\<lparr>in_status := InvoiceOverdue, in_updated_at := e_now example_env\<rparr>]\<rparr>"
  by (simp add: example_run_def run_def perform_call_def discard_def MarkOverdue_def Invoices_MarkOverdue_def withScopedTx_def with_tx_def
      mark_overdue_tx_def comp_defs example_world_def empty_world_def example_db_def empty_db_def update_where_def past_due_def
      example_invoice_def tick_def) (simp add: example_env_def)

end
