(* ===== verification/Outcomes.thy ===== *)
theory Outcomes
  imports Example
begin

text \<open>
  What an operation returns when the database answers: the shared lemmas of the outcome
  theorems, which state the result of an operation on every branch.
\<close>

lemma with_tx_answers:
  "e_fault e (w_tick w) = NoFault \<Longrightarrow> with_tx body e w =
     (case body e (w_db w) of (Inl er, _) \<Rightarrow> (Inl er, tick w) | (Inr a, d) \<Rightarrow> (Inr a, (tick w)\<lparr>w_db := d\<rparr>))"
  by (simp add: with_tx_def split: prod.split sum.split)

lemma scoped_answers:
  "scope_valid org \<Longrightarrow> e_fault e (w_tick w) = NoFault \<Longrightarrow> withScopedTx org body e w =
     (case body e (w_db w) of (Inl er, _) \<Rightarrow> (Inl er, tick w) | (Inr a, d) \<Rightarrow> (Inr a, (tick w)\<lparr>w_db := d\<rparr>))"
  by (simp add: withScopedTx_def with_tx_answers)

lemma read_answers:
  "scope_valid org \<Longrightarrow> e_fault e (w_tick w) = NoFault \<Longrightarrow> reads body \<Longrightarrow> withScopedTx org body e w = (fst (body e (w_db w)), tick w)"
proof -
  assume a: "scope_valid org" "e_fault e (w_tick w) = NoFault" "reads body"
  then have "snd (body e (w_db w)) = w_db w" by (simp add: reads_def)
  then show ?thesis using a(1,2) by (cases "body e (w_db w)") (simp add: scoped_answers tick_def split: sum.split)
qed

lemma find_snoc: "List.find p xs = None \<Longrightarrow> p x \<Longrightarrow> List.find p (xs @ [x]) = Some x"
  by (induction xs) (auto split: if_splits)

lemma find_in_split:
  assumes "d_invoices d = xs @ r # ys" "in_id r = rid" "ir_org r = org" "account_of d org (in_account_id r) \<noteq> None"
    "\<forall>x \<in> set xs. in_id x \<noteq> rid"
  shows "findInTx org (\<lambda>x. in_id x = rid) e d = (Inr (load_invoice d r), d)"
proof -
  have "List.find (\<lambda>x. ir_org x = org \<and> in_id x = rid \<and> account_of d org (in_account_id x) \<noteq> None) (xs @ r # ys) = Some r"
    using assms(2-5) by (induction xs) auto
  then show ?thesis using assms(1) by (simp add: findInTx_def query_row_def)
qed

lemma load_invoice_fields [simp]:
  "in_id (load_invoice d r) = in_id r" "in_status (load_invoice d r) = in_status r" "in_number (load_invoice d r) = in_number r"
  "in_account_id (load_invoice d r) = in_account_id r" "in_period_start (load_invoice d r) = in_period_start r"
  "inv_grand_total (load_invoice d r) = cents_text (ir_grand_total r)" "inv_amount_paid (load_invoice d r) = cents_text (ir_amount_paid r)"
  "in_due_date (load_invoice d r) = in_due_date r" "in_issue_date (load_invoice d r) = in_issue_date r" "in_currency (load_invoice d r) = in_currency r"
  by (simp_all add: load_invoice_def scanInvoice_def)

lemma wf_query_split:
  assumes "wf d" "query_row (invoice_key org rid) (d_invoices d) = Inr r"
  shows "\<exists>xs ys. d_invoices d = xs @ r # ys \<and> in_id r = rid \<and> ir_org r = org \<and> (\<forall>x \<in> set xs \<union> set ys. in_id x \<noteq> rid) \<and>
    (\<forall>f. update_where (invoice_key org rid) f (d_invoices d) = xs @ f r # ys)"
  using query_key [OF assms] by metis

end
