(* ===== verification/Paying.thy ===== *)
theory Paying
  imports Outcomes
begin

text \<open>
  Payments one by one: what recording a payment does on every branch, that a provider's
  notification is applied once, and what of a notified amount is taken.
\<close>

section \<open>Recording\<close>

lemma record_fresh:
  assumes "query_row (invoice_key org rid) (d_invoices d) = Inr r"
    and "pp_reference p = [] \<or> pp_method p = ''manual'' \<or> (\<forall>y \<in> set (d_payments d). \<not> provider_payment org p y)"
  shows "record_tx org rid p e d = record_new org rid p r e d"
proof -
  have "(if pp_reference p \<noteq> [] \<and> pp_method p \<noteq> ''manual'' then List.find (provider_payment org p) (d_payments d) else None) = None"
    using assms(2) by (auto simp: find_None_iff)
  then show ?thesis using assms(1) by (simp add: record_tx_def lock_invoice_def comp_defs)
qed

lemma record_new_rejects:
  "in_status r \<noteq> InvoiceIssued \<Longrightarrow> in_status r \<noteq> InvoiceOverdue \<Longrightarrow> record_new org rid p r e d = (Inl ErrInvoiceNotPayable, d)"
  "in_status r = InvoiceIssued \<or> in_status r = InvoiceOverdue \<Longrightarrow> e_numeric e (pp_amount p) = Some (cents k) \<Longrightarrow>
   ir_grand_total r - ir_amount_paid r < k \<Longrightarrow> record_new org rid p r e d = (Inl ErrPaymentExceeds, d)"
  by (auto simp: record_new_def comp_defs numeric_any_def money_simps)

text \<open>Why the database refuses the row of a manual payment, in the order it looks.\<close>

definition payment_refusal :: "env \<Rightarrow> PaymentParams \<Rightarrow> err option" where
  "payment_refusal e p =
     (case (if pp_recorded_by p = [] then Some [] else e_uuid_in e (pp_recorded_by p)) of
        None \<Rightarrow> Some InvalidText
      | Some u \<Rightarrow>
          if 150 < RuneCount (pp_reference p) \<or> 500 < RuneCount (pp_note p) then Some StringTooLong
          else if u \<noteq> [] \<and> \<not> e_users e u then Some (ForeignKeyViolation ''fk_receivable_payments_recorded_by'')
          else None)"

lemma insert_payment_answers:
  assumes n: "e_numeric e (pp_amount p) = Some (cents k)" "0 < k" "k < 10 ^ 18" and m: "pp_method p = ''manual''"
    and new: "\<forall>y \<in> set (d_payments d). pr_id y \<noteq> e_uuid e (d_next d)"
  obtains (refused) er d' where "payment_refusal e p = Some er" "insert_payment org rid p e d = (Inl er, d')"
  | (inserted) y where "payment_refusal e p = None"
    "insert_payment org rid p e d = (Inr y, d\<lparr>d_next := Suc (d_next d), d_payments := d_payments d @ [y]\<rparr>)"
    "pr_org y = org" "pr_invoice_id y = rid" "pr_amount y = k" "pr_method y = ''manual''" "pr_reference y = pp_reference p"
    "pr_note y = pp_note p" "pr_paid_at y = pp_paid_at p"
proof -
  have amount: "numeric18 (pp_amount p) e s = (Inr k, s)" for s using n by (simp add: numeric18_def numeric_in_def)
  define u where "u = (if pp_recorded_by p = [] then Some [] else e_uuid_in e (pp_recorded_by p))"
  have rec: "recorder (pp_recorded_by p) e s = (case u of None \<Rightarrow> Inl InvalidText | Some v \<Rightarrow> Inr v, s)" for s
    by (simp add: recorder_def u_def comp_defs split: option.split)
  show thesis
  proof (cases "payment_refusal e p")
    case None
    then obtain v where v: "u = Some v" "\<not> (150 < RuneCount (pp_reference p) \<or> 500 < RuneCount (pp_note p))" "v = [] \<or> e_users e v"
      by (auto simp: payment_refusal_def u_def [symmetric] split: option.splits if_splits)
    let ?y = "\<lparr>pr_id = e_uuid e (d_next d), pr_org = org, pr_invoice_id = rid, pr_amount = k, pr_method = pp_method p,
      pr_reference = pp_reference p, pr_note = pp_note p, pr_recorded_by = v, pr_paid_at = pp_paid_at p, pr_created_at = e_now e\<rparr>"
    have "insert_payment org rid p e d = (Inr ?y, d\<lparr>d_next := Suc (d_next d), d_payments := d_payments d @ [?y]\<rparr>)"
      using v n(2) m new by (simp add: insert_payment_def Let_def comp_defs new_id_def amount rec payment_checks_def guards.simps)
    then show thesis by (rule inserted [OF None]) (simp_all add: m)
  next
    case (Some er)
    have "\<exists>d'. insert_payment org rid p e d = (Inl er, d')"
      using Some n(2) m new
      by (auto simp: payment_refusal_def u_def [symmetric] insert_payment_def Let_def comp_defs new_id_def amount rec payment_checks_def guards.simps
        split: option.splits if_splits)
    then show thesis using refused [OF Some] by blast
  qed
qed

lemma record_new_ok:
  assumes q: "d_invoices d = xs @ r # ys" "in_id r = rid" "ir_org r = org" "\<forall>x \<in> set xs \<union> set ys. in_id x \<noteq> rid"
    and st: "in_status r = InvoiceIssued \<or> in_status r = InvoiceOverdue" and n: "e_numeric e (pp_amount p) = Some (cents k)"
    and le: "0 \<le> ir_amount_paid r" "0 < k" "k \<le> ir_grand_total r - ir_amount_paid r" and acc: "account_of d org (in_account_id r) \<noteq> None"
    and ins: "insert_payment org rid p e d = (Inr y, d\<lparr>d_next := m, d_payments := d_payments d @ [y]\<rparr>)"
  shows "\<exists>i. record_new org rid p r e d = (Inr (i, scanPayment y, True), d\<lparr>d_next := m, d_payments := d_payments d @ [y],
    d_invoices := xs @ r\<lparr>ir_amount_paid := ir_amount_paid r + k,
            in_status := (if ir_amount_paid r + k = ir_grand_total r then InvoicePaid else in_status r),
            in_paid_at := (if ir_amount_paid r + k = ir_grand_total r then Some (pp_paid_at p) else in_paid_at r),
            in_updated_at := e_now e\<rparr> # ys\<rparr>)"
proof -
  let ?r = "apply_payment (cents k) (pp_paid_at p) (e_now e) r"
  let ?d = "d\<lparr>d_next := m, d_payments := d_payments d @ [y], d_invoices := xs @ ?r # ys\<rparr>"
  have f: "?r = r\<lparr>ir_amount_paid := ir_amount_paid r + k, in_status := (if ir_amount_paid r + k = ir_grand_total r then InvoicePaid else in_status r),
        in_paid_at := (if ir_amount_paid r + k = ir_grand_total r then Some (pp_paid_at p) else in_paid_at r), in_updated_at := e_now e\<rparr>"
    by (simp add: apply_payment_def Let_def money_simps)
  have u: "update_where (invoice_key org rid) g (d_invoices d) = xs @ g r # ys" for g
    unfolding q(1) by (rule update_where_split) (use q(2-4) in \<open>auto simp: invoice_key_def\<close>)
  have a: "account_of ?d org aid = account_of d org aid" for aid by (simp add: account_of_def)
  have "findInTx org (\<lambda>x. in_id x = rid) e ?d = (Inr (load_invoice ?d ?r), ?d)"
    by (rule find_in_split) (use q acc a in \<open>auto simp: f\<close>)
  then show ?thesis
    unfolding f [symmetric] record_new_def
    using st n le ins by (simp add: comp_defs numeric_any_def money_simps Let_def update_invoice_def u f)
qed

lemma record_new_refused:
  assumes "in_status r = InvoiceIssued \<or> in_status r = InvoiceOverdue" "e_numeric e (pp_amount p) = Some (cents k)"
    "k \<le> ir_grand_total r - ir_amount_paid r" "insert_payment org rid p e d = (Inl er, d')"
  shows "record_new org rid p r e d = (Inl er, d')"
  using assms by (simp add: record_new_def comp_defs numeric_any_def money_simps)

text \<open>
  C19. Recording a manual payment of a well-formed amount, on every branch (the transaction meeting no fault): without the invoice
  nothing is found; a draft, paid or void invoice is not payable; an amount above the balance is refused; a recorder that is no uuid,
  a reference above 150 characters, a note above 500 or an unknown recorder is refused by the table.  On each of these the
  answer is that error and the tables are as before.  Otherwise one payment of exactly that amount is added, the
  amount paid grows by it, and the invoice is paid exactly when that settles it.
\<close>

theorem payment_outcome:
  assumes wf: "wf (w_db w)" and e: "env_ok e" "e_fault e (w_tick w) = NoFault" and org: "scope_valid org"
    and va: "validAmount (pp_amount p)" and k: "SetString (pp_amount p) = Some (cents k)"
    and acc: "\<And>r. query_row (invoice_key org rid) (d_invoices (w_db w)) = Inr r \<Longrightarrow> account_of (w_db w) org (in_account_id r) \<noteq> None"
    and new: "\<forall>y \<in> set (d_payments (w_db w)). pr_id y \<noteq> e_uuid e (d_next (w_db w))" and m: "pp_method p = ''manual''"
  shows "case query_row (invoice_key org rid) (d_invoices (w_db w)) of
      Inl _ \<Rightarrow> Payments_Record org rid p e w = (Inl NoRows, tick w)
    | Inr r \<Rightarrow>
      (if in_status r \<noteq> InvoiceIssued \<and> in_status r \<noteq> InvoiceOverdue
       then Payments_Record org rid p e w = (Inl ErrInvoiceNotPayable, tick w)
       else if ir_grand_total r - ir_amount_paid r < k then Payments_Record org rid p e w = (Inl ErrPaymentExceeds, tick w)
       else case payment_refusal e p of
         Some er \<Rightarrow> Payments_Record org rid p e w = (Inl er, tick w)
       | None \<Rightarrow> \<exists>i y row. Payments_Record org rid p e w = (Inr (i, y, True), (tick w)\<lparr>w_db := (w_db w)\<lparr>
            d_next := Suc (d_next (w_db w)), d_payments := d_payments (w_db w) @ [row],
            d_invoices := update_where (invoice_key org rid) (\<lambda>x. x\<lparr>ir_amount_paid := ir_amount_paid r + k,
              in_status := (if ir_amount_paid r + k = ir_grand_total r then InvoicePaid else in_status r),
              in_paid_at := (if ir_amount_paid r + k = ir_grand_total r then Some (pp_paid_at p) else in_paid_at r),
              in_updated_at := e_now e\<rparr>) (d_invoices (w_db w))\<rparr>\<rparr>) \<and>
          pr_org row = org \<and> pr_invoice_id row = rid \<and> pr_amount row = k \<and> pr_method row = ''manual'' \<and>
          pr_reference row = pp_reference p \<and> pr_note row = pp_note p \<and> pr_paid_at row = pp_paid_at p \<and> y = scanPayment row)"
proof (cases "query_row (invoice_key org rid) (d_invoices (w_db w))")
  case (Inl er)
  then have "er = NoRows" by (simp add: query_row_def split: option.splits)
  with Inl have "record_tx org rid p e (w_db w) = (Inl NoRows, w_db w)" by (simp add: record_tx_def lock_invoice_def comp_defs)
  then show ?thesis using Inl org e(2) by (simp add: Payments_Record_def scoped_answers)
next
  case r: (Inr r)
  let ?d = "w_db w"
  obtain j where j: "0 < j" "j < 10 ^ 18" "SetString (pp_amount p) = Some (cents j)" "plain_decimal (pp_amount p)" "length (pp_amount p) \<le> 19"
    using validAmount_cents [OF va] by blast
  then have kk: "0 < k" "k < 10 ^ 18" and n: "e_numeric e (pp_amount p) = Some (cents k)"
    using k e(1) by (auto simp: cents_eq env_okD)
  obtain xs ys where q: "d_invoices ?d = xs @ r # ys" "in_id r = rid" "ir_org r = org" "\<forall>x \<in> set xs \<union> set ys. in_id x \<noteq> rid"
      "\<And>f. update_where (invoice_key org rid) f (d_invoices ?d) = xs @ f r # ys"
    using query_key [OF wf r] by metis
  have paid: "0 \<le> ir_amount_paid r" using wf_row [OF wf, of r] q(1) by (simp add: row_ok_def)
  have tx: "Payments_Record org rid p e w = (case record_new org rid p r e ?d of
      (Inl er, _) \<Rightarrow> (Inl er, tick w) | (Inr a, d) \<Rightarrow> (Inr a, (tick w)\<lparr>w_db := d\<rparr>))"
    using org e(2) record_fresh [OF r, of p e] m by (simp add: Payments_Record_def scoped_answers)
  consider (status) "in_status r \<noteq> InvoiceIssued \<and> in_status r \<noteq> InvoiceOverdue"
    | (above) "in_status r = InvoiceIssued \<or> in_status r = InvoiceOverdue" "ir_grand_total r - ir_amount_paid r < k"
    | (fits) "in_status r = InvoiceIssued \<or> in_status r = InvoiceOverdue" "k \<le> ir_grand_total r - ir_amount_paid r" by linarith
  then show ?thesis
  proof cases
    case status
    then show ?thesis by (simp add: r tx record_new_rejects(1))
  next
    case above
    then show ?thesis by (auto simp: r tx record_new_rejects(2) [OF above(1) n above(2)])
  next
    case fits
    show ?thesis
    proof (cases rule: insert_payment_answers [OF n kk m new, of org rid, case_names refused inserted])
      case (refused er d')
      then show ?thesis using fits record_new_refused [OF fits(1) n fits(2) refused(2)] by (auto simp: r tx)
    next
      case (inserted y)
      from record_new_ok [OF q(1-4) fits(1) n paid kk(1) fits(2) acc [OF r] inserted(2)] obtain i where
        "record_new org rid p r e ?d = (Inr (i, scanPayment y, True), ?d\<lparr>d_next := Suc (d_next ?d), d_payments := d_payments ?d @ [y],
          d_invoices := xs @ r\<lparr>ir_amount_paid := ir_amount_paid r + k,
            in_status := (if ir_amount_paid r + k = ir_grand_total r then InvoicePaid else in_status r),
            in_paid_at := (if ir_amount_paid r + k = ir_grand_total r then Some (pp_paid_at p) else in_paid_at r),
            in_updated_at := e_now e\<rparr> # ys\<rparr>)" ..
      moreover have "\<not> (in_status r \<noteq> InvoiceIssued \<and> in_status r \<noteq> InvoiceOverdue)" "\<not> ir_grand_total r - ir_amount_paid r < k" using fits by auto
      ultimately show ?thesis unfolding r tx q(5)
        by (simp only: inserted sum.case option.case prod.case if_False) (intro exI conjI; rule refl inserted)
    qed
  qed
qed

lemma validAmount_cents_text:
  assumes "0 < k" "k < 10 ^ 18"
  shows "validAmount (cents_text k)"
proof -
  define n where "n = nat \<bar>k\<bar>"
  let ?w = "dec_nat (n div 100)" and ?f = "zero_pad 2 (dec_nat (n mod 100))"
  have t: "cents_text k = ?w @ CHR ''.'' # ?f" using assms(1) by (simp add: cents_text_def n_def)
  have d: "\<forall>c \<in> set ?w. is_digit c" "\<forall>c \<in> set ?f. is_digit c" using dec_nat_digits zero_pad_digits [OF dec_nat_digits] by blast+
  have "n < 10 ^ 18" using assms by (simp add: n_def nat_less_iff)
  then have "n div 100 < 10 ^ 16" by (simp add: less_mult_imp_div_less)
  then have l: "length ?w \<le> 16" by (rule length_dec_nat) simp
  have "takeWhile is_digit (cents_text k) = ?w" "dropWhile is_digit (cents_text k) = CHR ''.'' # ?f"
    using d(1) by (simp_all add: t takeWhile_append2 dropWhile_append2)
  then have "moneyPattern (cents_text k)"
    unfolding moneyPattern_def Let_def using l d(2) dec_nat_not_Nil [of "n div 100"] length_cents_frac [of n]
    by (simp add: list_all_iff Suc_le_eq del: length_zero_pad length_cents_frac)
  then show ?thesis using assms(1) by (simp add: validAmount_def money_simps)
qed

lemma validAmount_50: "validAmount (cents_text 5000)" "SetString (cents_text 5000) = Some (cents 5000)"
  by (simp_all add: validAmount_cents_text)

definition example_params :: PaymentParams where
  "example_params = \<lparr>pp_amount = cents_text 5000, pp_method = ''manual'', pp_reference = [], pp_note = [], pp_recorded_by = ''u'', pp_paid_at = 7\<rparr>"

lemma payment_outcome_witness:
  "\<exists>i y row. Payments_Record ''o'' ''i1'' example_params example_env example_world = (Inr (i, y, True), (tick example_world)\<lparr>w_db := example_db\<lparr>
       d_next := 1, d_payments := [example_payment, row],
       d_invoices := [example_invoice\<lparr>ir_amount_paid := 15000, in_updated_at := e_now example_env\<rparr>]\<rparr>\<rparr>) \<and> pr_amount row = 5000"
proof -
  have w: "w_db example_world = example_db" by (simp add: example_world_def)
  have acc: "account_of example_db ''o'' (in_account_id example_invoice) \<noteq> None"
    by (simp add: account_of_def example_defs)
  have q: "query_row (invoice_key ''o'' ''i1'') (d_invoices example_db) = Inr example_invoice"
    by (simp add: query_row_def invoice_key_def example_defs)
  have new: "\<forall>y \<in> set (d_payments example_db). pr_id y \<noteq> e_uuid example_env (d_next example_db)"
    by (simp add: example_defs example_env_def)
  have upd: "update_where (invoice_key ''o'' ''i1'') f (d_invoices example_db) = [f example_invoice]" for f
    by (simp add: update_where_def invoice_key_def example_defs)
  have f: "e_fault example_env (w_tick example_world) = NoFault" by (simp add: example_env_def)
  have n: "pr_id example_payment \<noteq> e_uuid example_env (d_next example_db)" "d_next example_db = 0" "d_payments example_db = [example_payment]"
    by (simp_all add: example_defs example_env_def)
  show ?thesis
    using payment_outcome [of example_world example_env "''o''" example_params 5000 "''i1''"] example_wf example_env_ok f validAmount_50
      acc q new n(2,3) upd by (auto simp: w example_params_def example_invoice_def payment_refusal_def example_env_def)
qed

section \<open>Retries\<close>

text \<open>
  C20. A provider payment is recorded once: after a recording with a reference has succeeded, recording that reference again
  (whatever amount or time the retry names) returns the same invoice and payment, says that nothing was created, and leaves
  the tables alone.
\<close>

theorem provider_payment_idempotent:
  assumes wf: "wf (w_db w)" and e: "env_ok e" and va: "validAmount (pp_amount p)" and ref: "pp_method p \<noteq> ''manual''" "pp_reference p \<noteq> []"
    and first: "Payments_Record org rid p e w = (Inr (i, y, b), w1)"
    and retry: "pp_method p' = pp_method p" "pp_reference p' = pp_reference p" "w_db w2 = w_db w1" "e_fault e' (w_tick w2) = NoFault"
  shows "Payments_Record org rid p' e' w2 = (Inr (i, y, False), tick w2)"
proof -
  have tx: "record_tx org rid p e (w_db w) = (Inr (i, y, b), w_db w1)" and org: "scope_valid org"
    using withScopedTx_Inr [OF first [unfolded Payments_Record_def]] by blast+
  have wf1: "wf (w_db w1)" using pay_step [OF wf e va tx] by blast
  have pp: "provider_payment org p' = provider_payment org p" using retry(1,2) by (auto simp: provider_payment_def fun_eq_iff)
  have find: "findInTx org q e' d = (fst (findInTx org q e d), d)" for q d by (simp add: findInTx_def)
  have main: "\<exists>row r. List.find (provider_payment org p) (d_payments (w_db w1)) = Some row \<and> y = scanPayment row \<and>
      query_row (invoice_key org rid) (d_invoices (w_db w1)) = Inr r \<and>
      findInTx org (\<lambda>x. in_id x = pr_invoice_id row) e (w_db w1) = (Inr i, w_db w1)"
    using tx
  proof (cases rule: record_Inr)
    case (replay row)
    have "\<exists>r. query_row (invoice_key org rid) (d_invoices (w_db w)) = Inr r"
      using tx by (auto simp: record_tx_def tx_simps lock_invoice_Inr)
    moreover have "List.find (provider_payment org p) (d_payments (w_db w)) = Some row"
    proof -
      obtain x where x: "List.find (provider_payment org p) (d_payments (w_db w)) = Some x"
        using replay(3,4) by (cases "List.find (provider_payment org p) (d_payments (w_db w))") (auto simp: find_None_iff)
      then have "x \<in> set (d_payments (w_db w))" "provider_payment org p x" by (auto simp: find_Some_iff)
      moreover from this(2) replay(4) have "referenced x" "referenced row" "(pr_method x, pr_reference x) = (pr_method row, pr_reference row)"
        using ref by (auto simp: provider_payment_def sql_eq_def)
      ultimately have "x = row" using unique_onD [OF wf_unique(7) [OF wf] _ replay(3)] by blast
      with x show ?thesis by simp
    qed
    ultimately show ?thesis using replay by auto
  next
    case (fresh r)
    obtain k where k: "0 < k" "e_numeric e (pp_amount p) = Some (cents k)" using validAmount_numeric [OF e va] by blast
    from record_new_Inr [OF fresh(3)] k(2) obtain row where row: "payment_from e org rid p row" "y = scanPayment row" and
      d1: "w_db w1 = (w_db w)\<lparr>d_next := Suc (d_next (w_db w)), d_payments := d_payments (w_db w) @ [row],
            d_invoices := update_where (invoice_key org rid) (apply_payment (cents k) (pp_paid_at p) (e_now e)) (d_invoices (w_db w))\<rparr>" and
      found: "findInTx org (\<lambda>x. in_id x = rid) e (w_db w1) = (Inr i, w_db w1)" by auto
    have own: "provider_payment org p row" "pr_invoice_id row = rid" using row(1) ref by (auto simp: payment_from_def provider_payment_def sql_eq_def)
    have "List.find (provider_payment org p) (d_payments (w_db w)) = None" using fresh(2) ref by (auto simp: find_None_iff)
    then have "List.find (provider_payment org p) (d_payments (w_db w1)) = Some row"
      using own(1) by (simp add: d1 find_snoc)
    moreover obtain xs ys where q: "d_invoices (w_db w) = xs @ r # ys" "in_id r = rid" "ir_org r = org"
        "\<And>f. update_where (invoice_key org rid) f (d_invoices (w_db w)) = xs @ f r # ys"
      using query_key [OF wf fresh(1)] by metis
    then have "\<exists>x \<in> set (d_invoices (w_db w1)). invoice_key org rid x"
      by (simp add: d1 invoice_key_def apply_payment_def Let_def)
    then have "\<exists>r. query_row (invoice_key org rid) (d_invoices (w_db w1)) = Inr r"
      using query_row_Inl [of "invoice_key org rid" "d_invoices (w_db w1)"] by (cases "query_row (invoice_key org rid) (d_invoices (w_db w1))") auto
    ultimately show ?thesis using row(2) own(2) found by auto
  qed
  then obtain row r where "record_tx org rid p' e' (w_db w1) = (Inr (i, y, False), w_db w1)"
    using ref retry(1,2) find by (auto simp: record_tx_def comp_defs lock_invoice_def pp)
  then show ?thesis using org retry(3,4) by (simp add: Payments_Record_def scoped_answers tick_def)
qed

lemma provider_payment_idempotent_witness:
  "\<exists>i. Payments_Record ''o'' ''i1'' (example_params\<lparr>pp_method := ''doku'', pp_reference := ''r1''\<rparr>) example_env (tick example_world) =
     (Inr (i, scanPayment example_payment, False), tick (tick example_world))"
proof -
  let ?p = "example_params\<lparr>pp_method := ''doku'', pp_reference := ''r1''\<rparr>"
  have w: "w_db example_world = example_db" by (simp add: example_world_def)
  have q: "query_row (invoice_key ''o'' ''i1'') (d_invoices example_db) = Inr example_invoice"
    by (simp add: query_row_def invoice_key_def example_defs)
  have pay: "d_payments example_db = [example_payment]" "provider_payment ''o'' ?p example_payment" "pr_invoice_id example_payment = ''i1''"
    by (simp_all add: example_defs provider_payment_def sql_eq_def)
  have fd: "findInTx ''o'' (\<lambda>x. in_id x = ''i1'') example_env example_db = (Inr (load_invoice example_db example_invoice), example_db)"
    by (rule find_in_split [of _ "[]" _ "[]"]) (simp_all add: example_defs account_of_def)
  have f: "e_fault example_env n = NoFault" for n by (simp add: example_env_def)
  have tx: "record_tx ''o'' ''i1'' ?p example_env example_db = (Inr (load_invoice example_db example_invoice, scanPayment example_payment, False), example_db)"
    using q pay fd by (simp add: record_tx_def comp_defs lock_invoice_def example_params_def)
  then have first: "Payments_Record ''o'' ''i1'' ?p example_env example_world =
      (Inr (load_invoice example_db example_invoice, scanPayment example_payment, False), tick example_world)"
    using f by (simp add: Payments_Record_def scoped_answers w tick_def)
  show ?thesis
    using provider_payment_idempotent [OF _ example_env_ok _ _ _ first, of ?p "tick example_world" example_env] example_wf validAmount_50 f
    by (auto simp: w example_params_def)
qed

section \<open>Online payment\<close>

text \<open>
  C21. What a provider notifies never overpays: for a payable invoice with a balance the amount taken is a valid one, the
  smaller of the amount notified (or, when that is malformed, of the checkout's) and the balance.
\<close>

theorem notified_amount_capped:
  assumes "payable (in_status i)" "inv_grand_total i = cents_text g" "inv_amount_paid i = cents_text p" "p < g" "g - p < 10 ^ 18"
    and "got = (if validAmount (TrimSpace (dn_amount n)) then TrimSpace (dn_amount n) else ck_amount c)"
    and "validAmount got" "SetString got = Some (cents k)"
  shows "validAmount (notified_amount n c i) \<and> SetString (notified_amount n c i) = Some (cents (min k (g - p)))"
proof -
  have "remainingOf i = Some (cents (g - p))" using assms(2,3) by (simp add: remainingOf_def money_simps)
  then have "notified_amount n c i = (if g - p < k then cents_text (g - p) else got)"
    using assms(1,4,6,8) by (simp add: notified_amount_def Let_def money_simps)
  then show ?thesis using assms(4,5,7,8) validAmount_cents_text [of "g - p"] by (simp add: min_def)
qed

lemma notified_amount_capped_witness:
  "SetString (notified_amount \<lparr>dn_invoice_number = ''RCV-i1'', dn_status = ''SUCCESS'', dn_amount = [], dn_reference = ''r2'', dn_paid_at = None\<rparr>
     \<lparr>ck_id = ''k'', ck_org = ''o'', ck_invoice_id = ''i1'', ck_doku_number = ''RCV-i1'', ck_payment_url = [], ck_status = ''pending'',
      ck_amount = cents_text 20000, ck_expires_at = 0, ck_created_at = 0\<rparr> (load_invoice example_db example_invoice)) = Some (cents 12200)"
proof -
  have "\<not> validAmount []" by (simp add: validAmount_def moneyPattern_def)
  then show ?thesis
    using notified_amount_capped [of "load_invoice example_db example_invoice" 22200 10000 "cents_text 20000"
        "\<lparr>dn_invoice_number = ''RCV-i1'', dn_status = ''SUCCESS'', dn_amount = [], dn_reference = ''r2'', dn_paid_at = None\<rparr>"
        "\<lparr>ck_id = ''k'', ck_org = ''o'', ck_invoice_id = ''i1'', ck_doku_number = ''RCV-i1'', ck_payment_url = [], ck_status = ''pending'',
      ck_amount = cents_text 20000, ck_expires_at = 0, ck_created_at = 0\<rparr>" 20000] validAmount_cents_text [of 20000]
    by (simp add: example_invoice_def payable_def)
qed

text \<open>
  C22. A checkout asks for the balance rounded up to whole rupiah: the truncated quotient with its correction is the ceiling,
  for every balance up to the largest \<open>int64\<close> (the tables hold balances below 10^16).
\<close>

theorem ceilRupiah_ceiling:
  assumes "- (2 ^ 63) \<le> r" "r \<le> 2 ^ 63 - 1"
  shows "ceilRupiah r = \<lceil>r\<rceil>"
proof -
  obtain n d where q: "quotient_of r = (n, d)" by (cases "quotient_of r")
  have d: "0 < d" using quotient_of_denom_pos [OF q] .
  have r: "r = of_int n / of_int d" using quotient_of_div [OF q] .
  have c: "\<lceil>r\<rceil> = - ((- n) div d)" by (simp add: r ceiling_divide_eq_div)
  have "of_int (- (2 ^ 63)) \<le> r" "r \<le> of_int (2 ^ 63 - 1)" using assms by simp_all
  then have bounds: "- (2 ^ 63) \<le> \<lceil>r\<rceil>" "\<lceil>r\<rceil> < 2 ^ 63" by (meson ceiling_mono ceiling_of_int order_trans le_of_int_ceiling of_int_le_iff, simp add: ceiling_le_iff)
  have "ceilRupiah r = int64 \<lceil>r\<rceil>"
  proof (cases "0 < n")
    case True
    have e: "n div d * d + n mod d = n" by simp
    have "- ((- n) div d) = (if n mod d = 0 then n div d else n div d + 1)"
      using d by (auto simp: zdiv_zminus1_eq_if)
    moreover have "0 < n - n div d * d \<longleftrightarrow> n mod d \<noteq> 0" using e d pos_mod_sign [OF d, of n] by linarith
    ultimately show ?thesis using True by (simp add: ceilRupiah_def q c)
  next
    case False
    have "- n - (- n div d) * d = (- n) mod d" using minus_div_mult_eq_mod [of "- n" d] by simp
    then have "n - - ((- n) div d) * d \<le> 0" using pos_mod_sign [OF d, of "- n"] by simp
    then show ?thesis using False by (cases "n = 0") (auto simp: ceilRupiah_def q c)
  qed
  then show ?thesis using bounds by simp
qed

theorem ceilRupiah_ceiling_witness: "ceilRupiah (61 / 5) = 13 \<and> ceilRupiah (9999999999999999 + 99 / 100) = 10000000000000000"
proof
  have "\<lceil>61 / 5 :: rat\<rceil> = 13" by (rule ceiling_unique) simp_all
  then show "ceilRupiah (61 / 5) = 13" using ceilRupiah_ceiling [of "61 / 5"] by simp
  have "\<lceil>9999999999999999 + 99 / 100 :: rat\<rceil> = 10000000000000000" by (rule ceiling_unique) simp_all
  then show "ceilRupiah (9999999999999999 + 99 / 100) = 10000000000000000"
    using ceilRupiah_ceiling [of "9999999999999999 + 99 / 100"] by simp
qed

end
