(* ===== verification/Registers.thy ===== *)
theory Registers
  imports Machine
begin

text \<open>
  A second invariant, on the tables \<open>wf\<close> does not read: the keys of accounts, contracts, links and
  sends, and the references from invoices and contracts to the accounts they are joined with.  The find-or-create
  services and the joins rest on it.
\<close>

abbreviation live_sourced :: "account_row \<Rightarrow> bool" where
  "live_sourced a \<equiv> ac_source_id a \<noteq> [] \<and> \<not> acr_deleted a"

abbreviation account_source :: "account_row \<Rightarrow> string \<times> string \<times> string" where
  "account_source a \<equiv> (acr_org a, ac_source_type a, ac_source_id a)"

abbreviation unrevoked :: "link_row \<Rightarrow> bool" where
  "unrevoked l \<equiv> lk_revoked_at l = None"

abbreviation link_doc :: "link_row \<Rightarrow> string \<times> string \<times> string" where
  "link_doc l \<equiv> (lk_org l, lk_doc_type l, lk_doc_id l)"

abbreviation requested :: "send_row \<Rightarrow> bool" where
  "requested s \<equiv> sd_client_request_id s \<noteq> []"

abbreviation send_request :: "send_row \<Rightarrow> string \<times> string \<times> string" where
  "send_request s \<equiv> (sr_org s, sd_invoice_id s, sd_client_request_id s)"

abbreviation contract_sourced :: "contract_row \<Rightarrow> bool" where
  "contract_sourced c \<equiv> ct_source_id c \<noteq> []"

abbreviation contract_origin :: "contract_row \<Rightarrow> string \<times> string \<times> string" where
  "contract_origin c \<equiv> (cr_org c, ct_source_type c, ct_source_id c)"

definition registers_ok :: "db \<Rightarrow> bool" where
  "registers_ok d \<longleftrightarrow>
     unique_on live_sourced account_source (d_accounts d) \<and> unique_on all_rows ac_id (d_accounts d) \<and>
     unique_on unrevoked link_doc (d_links d) \<and> unique_on all_rows lr_hash (d_links d) \<and>
     unique_on requested send_request (d_sends d) \<and> unique_on contract_sourced contract_origin (d_contracts d) \<and>
     unique_on all_rows (\<lambda>c. (cr_org c, ct_number c)) (d_contracts d) \<and>
     (\<forall>r \<in> set (d_invoices d). account_of d (ir_org r) (in_account_id r) \<noteq> None) \<and>
     (\<forall>c \<in> set (d_contracts d). account_of d (cr_org c) (ct_account_id c) \<noteq> None)"

text \<open>Accounts keep their identity; none disappears.\<close>

definition account_kept :: "account_row \<Rightarrow> account_row \<Rightarrow> bool" where
  "account_kept a a' \<longleftrightarrow> ac_id a' = ac_id a \<and> acr_org a' = acr_org a \<and> ac_source_type a' = ac_source_type a \<and>
     ac_source_id a' = ac_source_id a \<and> acr_deleted a' = acr_deleted a"

lemma account_of_kept:
  "rows_evolve account_kept (d_accounts d) (d_accounts d') \<Longrightarrow> account_of d org aid \<noteq> None \<Longrightarrow> account_of d' org aid \<noteq> None"
proof -
  assume ev: "rows_evolve account_kept (d_accounts d) (d_accounts d')" and "account_of d org aid \<noteq> None"
  then obtain a where a: "a \<in> set (d_accounts d)" "ac_id a = aid" "acr_org a = org"
    by (auto simp: account_of_def find_None_iff)
  then obtain a' where "a' \<in> set (d_accounts d')" "account_kept a a'" using rows_evolveD [OF ev] by blast
  then show ?thesis using a by (auto simp: account_of_def find_None_iff account_kept_def)
qed

definition registers_step :: "db \<Rightarrow> db \<Rightarrow> bool" where
  "registers_step d d' \<longleftrightarrow> (registers_ok d \<longrightarrow> registers_ok d') \<and> rows_evolve account_kept (d_accounts d) (d_accounts d')"

lemma account_kept_refl [simp]: "account_kept a a"
  by (simp add: account_kept_def)

lemma rows_kept_refl [simp]: "rows_evolve account_kept as as"
  by (simp add: rows_evolve_refl)

text \<open>Invoices and contracts that come from old ones, or name an account that is there.\<close>

lemma registers_stepI:
  assumes acc: "rows_evolve account_kept (d_accounts d) (d_accounts d')"
    and keys: "registers_ok d \<Longrightarrow> unique_on live_sourced account_source (d_accounts d') \<and> unique_on all_rows ac_id (d_accounts d') \<and>
      unique_on unrevoked link_doc (d_links d') \<and> unique_on all_rows lr_hash (d_links d') \<and>
      unique_on requested send_request (d_sends d') \<and> unique_on contract_sourced contract_origin (d_contracts d') \<and>
      unique_on all_rows (\<lambda>c. (cr_org c, ct_number c)) (d_contracts d')"
    and inv: "\<And>r'. r' \<in> set (d_invoices d') \<Longrightarrow> account_of d (ir_org r') (in_account_id r') \<noteq> None \<or>
      (\<exists>r \<in> set (d_invoices d). ir_org r' = ir_org r \<and> in_account_id r' = in_account_id r)"
    and con: "\<And>c'. c' \<in> set (d_contracts d') \<Longrightarrow> account_of d (cr_org c') (ct_account_id c') \<noteq> None \<or>
      (\<exists>c \<in> set (d_contracts d). cr_org c' = cr_org c \<and> ct_account_id c' = ct_account_id c)"
  shows "registers_step d d'"
  unfolding registers_step_def
proof (intro conjI impI)
  assume ok: "registers_ok d"
  have "account_of d' (ir_org r) (in_account_id r) \<noteq> None" if "r \<in> set (d_invoices d')" for r
    using inv [OF that] ok account_of_kept [OF acc] unfolding registers_ok_def by metis
  moreover have "account_of d' (cr_org c) (ct_account_id c) \<noteq> None" if "c \<in> set (d_contracts d')" for c
    using con [OF that] ok account_of_kept [OF acc] unfolding registers_ok_def by metis
  ultimately show "registers_ok d'" using keys [OF ok] unfolding registers_ok_def by blast
qed (fact acc)

lemma registers_same:
  "d_accounts d' = d_accounts d \<Longrightarrow> d_links d' = d_links d \<Longrightarrow> d_sends d' = d_sends d \<Longrightarrow> d_contracts d' = d_contracts d \<Longrightarrow>
   (\<And>r'. r' \<in> set (d_invoices d') \<Longrightarrow> account_of d (ir_org r') (in_account_id r') \<noteq> None \<or>
      (\<exists>r \<in> set (d_invoices d). ir_org r' = ir_org r \<and> in_account_id r' = in_account_id r)) \<Longrightarrow> registers_step d d'"
  by (rule registers_stepI) (auto simp: registers_ok_def)

lemma registers_updated:
  "d' = d\<lparr>d_invoices := update_where q f (d_invoices d)\<rparr> \<Longrightarrow>
   (\<And>r. ir_org (f r) = ir_org r \<and> in_account_id (f r) = in_account_id r) \<Longrightarrow> registers_step d d'"
  by (rule registers_same) (auto simp: set_update_where)

lemma replace_draft_accounts:
  assumes "replace_draft_tx org rid p e d = (Inr i, d')"
  shows "d_accounts d' = d_accounts d \<and> d_links d' = d_links d \<and> d_sends d' = d_sends d \<and> d_contracts d' = d_contracts d \<and>
    (\<forall>r' \<in> set (d_invoices d'). account_of d (ir_org r') (in_account_id r') \<noteq> None \<or>
      (\<exists>r \<in> set (d_invoices d). ir_org r' = ir_org r \<and> in_account_id r' = in_account_id r))"
proof -
  define f where "f = (\<lambda>sub disc tax grand (r :: invoice_row). r\<lparr>in_account_id := cp_account_id p, in_period_start := cp_period_start p,
               in_period_end := cp_period_end p, in_currency := (if cp_currency p = [] then in_currency r else cp_currency p),
               in_channels := channelsOrDefault (cp_channels p), in_pic_user_id := cp_pic_user_id p, in_notes := cp_notes p,
               in_updated_at := e_now e, ir_subtotal := sub, ir_discount_total := disc, ir_tax_total := tax, ir_grand_total := grand,
               ir_updated_by := cp_created_by p\<rparr>)"
  from assms obtain sub disc tax grand where acc: "account_of d org (cp_account_id p) \<noteq> None" and
    ins: "insertItems org rid 0 (cp_items p) e (d\<lparr>d_invoices := update_where (invoice_key org rid) (f sub disc tax grand) (d_invoices d),
        d_items := filter (\<lambda>i. \<not> own_item org rid i) (d_items d)\<rparr>) = (Inr (), d')"
    unfolding replace_draft_tx_def f_def own_item_def
    by (clarsimp simp add: Let_def tx_simps lock_invoice_Inr update_invoice_def findInTx_Inr split del: if_split)
  show ?thesis
    using insertItems_Inr [OF ins] acc by (auto simp: f_def set_update_where invoice_key_def)
qed


section \<open>Every transaction keeps the registers\<close>

lemma registers_contracts:
  assumes "d' = d\<lparr>d_contracts := update_where q f (d_contracts d)\<rparr>"
    and "\<And>c. cr_org (f c) = cr_org c \<and> ct_number (f c) = ct_number c \<and> ct_source_type (f c) = ct_source_type c \<and>
      ct_source_id (f c) = ct_source_id c \<and> ct_account_id (f c) = ct_account_id c"
  shows "registers_step d d'"
  by (rule registers_stepI) (auto simp: assms registers_ok_def unique_on_update set_update_where)

lemma registers_links:
  assumes "d' = d\<lparr>d_links := update_where q f (d_links d)\<rparr>"
    and "\<And>l. link_doc (f l) = link_doc l \<and> lk_revoked_at (f l) = lk_revoked_at l \<and> lr_hash (f l) = lr_hash l"
  shows "registers_step d d'"
  by (rule registers_stepI) (use assms(2) in \<open>auto simp: assms(1) registers_ok_def unique_on_update\<close>)

lemma registers_account: "insert_account org ap u e d = (Inr a, d') \<Longrightarrow> registers_step d d'"
  by (rule registers_stepI)
     (auto dest!: insert_account_change simp: registers_ok_def rows_evolve_append, fastforce?)

lemma registers_account_edit: "account_update_tx org rid ap e d = (Inr a, d') \<Longrightarrow> registers_step d d'"
  by (rule registers_stepI)
     (auto dest!: account_update_change simp: registers_ok_def unique_on_update account_kept_def intro!: rows_evolve_update)

lemma registers_invoice:
  assumes "invoice_create_tx org p e d = (Inr i, d')"
  shows "registers_step d d'"
proof -
  obtain rid d1 where ins: "insert_invoice org p e d = (Inr rid, d1)" "insertItems org rid 0 (cp_items p) e d1 = (Inr (), d')"
    using invoice_create_Inr [OF assms] .
  obtain r where r: "d1 = d\<lparr>d_next := Suc (d_next d), d_invoices := d_invoices d @ [r]\<rparr>" "passes (invoice_checks d r)"
    using insert_invoice_change [OF ins(1)] by blast
  then have acc: "account_of d (ir_org r) (in_account_id r) \<noteq> None" by (simp add: invoice_checks_def)
  obtain rs n where rs: "d' = d1\<lparr>d_next := n, d_items := d_items d1 @ rs\<rparr>" using insertItems_Inr [OF ins(2)] by blast
  show ?thesis by (rule registers_same) (use acc in \<open>auto simp: rs r(1)\<close>)
qed

lemma registers_contract:
  assumes "contract_create_tx org p e d = (Inr c, d')"
  shows "registers_step d d'"
proof -
  obtain rid d1 where ins: "insert_contract org p e d = (Inr rid, d1)" "insert_contract_items org rid 0 (ccp_items p) e d1 = (Inr (), d')"
    using contract_create_Inr [OF assms] .
  obtain r where r: "d1 = d\<lparr>d_next := Suc (d_next d), d_contracts := d_contracts d @ [r]\<rparr>" "passes (contract_checks d r)"
    using insert_contract_Inr [OF ins(1)] by blast
  obtain rs n where rs: "d' = d1\<lparr>d_next := n, d_citems := d_citems d1 @ rs\<rparr>" using insert_contract_items_Inr [OF ins(2)] by blast
  have "account_of d (cr_org r) (ct_account_id r) \<noteq> None" using r(2) by (simp add: contract_checks_def)
  moreover have "registers_ok d \<Longrightarrow> unique_on contract_sourced contract_origin (d_contracts d @ [r]) \<and>
      unique_on all_rows (\<lambda>c. (cr_org c, ct_number c)) (d_contracts d @ [r])"
    using r(2) by (auto simp: contract_checks_def registers_ok_def)
  ultimately show ?thesis by (intro registers_stepI) (auto simp: rs r(1) registers_ok_def)
qed

lemma registers_pay:
  assumes "record_tx org rid p e d = (Inr (i, y, b), d')"
  shows "registers_step d d'"
  using assms
proof (cases rule: record_Inr)
  case replay
  then show ?thesis by (simp add: registers_step_def)
next
  case (fresh r)
  obtain a row where d': "d' = d\<lparr>d_next := Suc (d_next d), d_payments := d_payments d @ [row],
      d_invoices := update_where (invoice_key org rid) (apply_payment a (pp_paid_at p) (e_now e)) (d_invoices d)\<rparr>"
    using record_new_Inr [OF fresh(3)] by blast
  have "ir_org (apply_payment a s t x) = ir_org x \<and> in_account_id (apply_payment a s t x) = in_account_id x" for s t x
    by (simp add: apply_payment_def Let_def)
  then show ?thesis by (intro registers_same) (auto simp: d' set_update_where)
qed


lemma registers_link: "link_insert_tx org dt di h enc ex u e d = (Inr l, d') \<Longrightarrow> registers_step d d'"
  by (drule link_insert_Inr, elim exE conjE, rule registers_stepI) (auto simp: registers_ok_def active_link_def)

lemma registers_send: "send_record_tx org sp e d = (Inr s, d') \<Longrightarrow> registers_step d d'"
  by (drule send_record_Inr, elim exE conjE, rule registers_stepI) (auto simp: registers_ok_def)

lemma registers_link_revoke:
  assumes "link_revoke_tx org dt di tm e d = (Inr x, d')"
  shows "registers_step d d'"
proof (rule registers_stepI)
  let ?f = "\<lambda>l. l\<lparr>lk_revoked_at := Some tm\<rparr>"
  have d': "d' = d\<lparr>d_links := update_where (active_link org dt di) ?f (d_links d)\<rparr>"
    using assms by (simp add: link_revoke_tx_def tx_simps)
  have "filter unrevoked (update_where q ?f ls) = filter (\<lambda>l. \<not> q l) (filter unrevoked ls)" for q ls
    by (induction ls) (auto simp: update_where_def)
  then have "unique_on unrevoked link_doc (update_where q ?f ls)" if "unique_on unrevoked link_doc ls" for q ls
    using that by (simp only: unique_on_def distinct_map_filter)
  then show "unique_on live_sourced account_source (d_accounts d') \<and> unique_on all_rows ac_id (d_accounts d') \<and>
      unique_on unrevoked link_doc (d_links d') \<and> unique_on all_rows lr_hash (d_links d') \<and>
      unique_on requested send_request (d_sends d') \<and> unique_on contract_sourced contract_origin (d_contracts d') \<and>
      unique_on all_rows (\<lambda>c. (cr_org c, ct_number c)) (d_contracts d')" if "registers_ok d"
    using that by (simp add: d' registers_ok_def unique_on_update)
qed (use assms in \<open>auto simp: link_revoke_tx_def tx_simps\<close>)

lemma registers_untouched:
  "counter_next_tx org ty yr e d = (Inr n, d') \<Longrightarrow> registers_step d d'"
  "settings_upsert_tx org se e d = (Inr x1, d') \<Longrightarrow> registers_step d d'"
  "advance_tx org rid fr s t e d = (Inr x8, d') \<Longrightarrow> registers_step d d'"
  "checkout_create_tx org rid num amount url exi e d = (Inr x14, d') \<Longrightarrow> registers_step d d'"
  "checkout_status_tx rid st e d = (Inr x15, d') \<Longrightarrow> registers_step d d'"
  "settlement_insert_payment_tx sep e d = (Inr x16, d') \<Longrightarrow> registers_step d d'"
  "insert_manual_tx me check e d = (Inr x17, d') \<Longrightarrow> registers_step d d'"
  by (rule registers_same;
      auto dest!: counter_next_change settings_upsert_change advance_Inr checkout_create_Inr checkout_status_Inr
        settlement_insert_payment_Inr insert_manual_Inr)+

lemma registers_changed:
  "set_pdf_tx org rid a e d = (Inr x1, d') \<Longrightarrow> registers_step d d'"
  "issue_tx org rid num today due u e d = (Inr x2, d') \<Longrightarrow> registers_step d d'"
  "void_tx org rid reason u e d = (Inr x3, d') \<Longrightarrow> registers_step d d'"
  "mark_overdue_tx org today e d = (Inr k, d') \<Longrightarrow> registers_step d d'"
  by (drule set_pdf_change issue_change void_change mark_overdue_change, (elim exE conjE)?, erule registers_updated, simp)+

lemma registers_contracts_changed:
  "set_end_date_tx org rid ed u e d = (Inr x4, d') \<Longrightarrow> registers_step d d'"
  "end_contract_tx org rid day reason u e d = (Inr x5, d') \<Longrightarrow> registers_step d d'"
  "end_expired_tx org today e d = (Inr x6, d') \<Longrightarrow> registers_step d d'"
  unfolding set_end_date_tx_def end_contract_tx_def
  by (drule updateActive_Inr end_expired_Inr, elim exE conjE, erule registers_contracts, simp)+

lemma registers_links_changed:
  "link_expiry_tx org lid ex e d = (Inr x7, d') \<Longrightarrow> registers_step d d'"
  "link_touch_tx lid tm e d = (Inr x8, d') \<Longrightarrow> registers_step d d'"
  unfolding link_expiry_tx_def link_touch_tx_def
  by (auto simp: tx_simps intro!: registers_links [OF refl])

lemma registers_redraft: "replace_draft_tx org rid p e d = (Inr i, d') \<Longrightarrow> registers_step d d'"
  by (rule registers_same) (use replace_draft_accounts in \<open>blast+\<close>)


theorem db_step_registers: "db_step org d d' \<Longrightarrow> registers_step d d'"
proof (induction rule: db_step.induct)
  case (pay e pp rid d z d')
  then show ?case by (cases z) (auto intro: registers_pay)
qed (auto intro: registers_account registers_account_edit registers_invoice registers_redraft registers_contract registers_send
    registers_link registers_link_revoke registers_untouched registers_changed registers_contracts_changed registers_links_changed)

lemma registers_step_refl: "registers_step d d"
  by (simp add: registers_step_def)

lemma registers_step_trans: "registers_step a b \<Longrightarrow> registers_step b c \<Longrightarrow> registers_step a c"
  unfolding registers_step_def using rows_evolve_trans [of account_kept] by (auto simp: account_kept_def)

theorem steps_registers: "steps os d d' \<Longrightarrow> registers_step d d'"
  by (induction rule: steps_induct) (auto intro: registers_step_refl registers_step_trans db_step_registers)

theorem run_registers: "envs_ok tr \<Longrightarrow> wf (w_db w) \<Longrightarrow> registers_ok (w_db w) \<Longrightarrow> registers_ok (w_db (run tr w))"
  using steps_registers [OF run_steps [of tr w UNIV]] by (simp add: registers_step_def)

end
