(* ===== verification/Ensuring.thy ===== *)
theory Ensuring
  imports Registers Outcomes
begin

text \<open>
  Find or create: accounts, contracts and invoices of a source are looked up, created when there is none, and looked up
  again when another request created them in between.  The locale states what such a register promises and shows that
  asking again, with any calls in between, gives the same row; its interpretations are the services
  \<open>EnsureForSource\<close>, \<open>ensureContract\<close> and \<open>CreateAndIssue\<close>.
\<close>

lemma attempt_Inr: "attempt m k e w = (Inr b, w') \<longleftrightarrow> (\<exists>r v. m e w = (r, v) \<and> k r e v = (Inr b, w'))"
  by (simp add: attempt_def split: prod.split)

lemma attempt_case_Inr: "attempt m (case_sum f g) e w = (Inr b, w') \<longleftrightarrow>
    (\<exists>er v. m e w = (Inl er, v) \<and> f er e v = (Inr b, w')) \<or> (\<exists>x v. m e w = (Inr x, v) \<and> g x e v = (Inr b, w'))"
  by (auto simp: attempt_def split: prod.split sum.split)

definition ensured :: "string \<Rightarrow> 'a tx \<Rightarrow> ('a \<Rightarrow> 'b io) \<Rightarrow> 'b io \<Rightarrow> 'b io" where
  "ensured org look deliver create =
     attempt (withScopedTx org look) (\<lambda>r.
       case r of Inr a \<Rightarrow> deliver a | Inl er \<Rightarrow> if er = NoRows then create else raise er)"

locale find_or_create =
  fixes look :: "'a tx" and deliver :: "'a \<Rightarrow> 'b io" and create :: "'b io" and ident :: "'a \<Rightarrow> string" and ident' :: "'b \<Rightarrow> string"
    and P :: "db \<Rightarrow> bool" and R :: "db \<Rightarrow> db \<Rightarrow> bool"
  assumes reads: "reads look"
    and stable: "P d \<Longrightarrow> R d d' \<Longrightarrow> P d'"
    and kept: "P d \<Longrightarrow> R d d' \<Longrightarrow> look e d = (Inr a, d) \<Longrightarrow> \<exists>a'. look e' d' = (Inr a', d') \<and> ident a' = ident a"
    and deliver_stays: "io_pre P R (deliver a)"
    and create_stays: "io_pre P R create"
    and delivered: "env_ok e \<Longrightarrow> deliver a e w = (Inr b, w') \<Longrightarrow> ident' b = ident a"
    and created: "env_ok e \<Longrightarrow> P (w_db w) \<Longrightarrow> create e w = (Inr b, w') \<Longrightarrow> \<exists>a. look e (w_db w') = (Inr a, w_db w') \<and> ident a = ident' b"
begin

lemma look_unchanged: "w_db (snd (withScopedTx org look e w)) = w_db w"
  using reads unfolding withScopedTx_def with_tx_def reads_def
  by (auto simp: comp_defs tick_def split: prod.split sum.split) (metis snd_conv)+

lemma looked:
  assumes "withScopedTx org look e w = (Inr a, w')"
  shows "look e (w_db w) = (Inr a, w_db w) \<and> w_db w' = w_db w"
  using withScopedTx_Inr [OF assms] look_unchanged [of org e w] assms by simp

lemma present:
  assumes e: "env_ok e" and P: "P (w_db w)" and first: "ensured org look deliver create e w = (Inr b, w1)"
  shows "\<exists>a. look e (w_db w1) = (Inr a, w_db w1) \<and> ident a = ident' b" and "P (w_db w1)"
proof -
  obtain r w0 where l: "withScopedTx org look e w = (r, w0)" by force
  have w0: "w_db w0 = w_db w" using look_unchanged [of org e w] l by simp
  have "(\<exists>a. look e (w_db w1) = (Inr a, w_db w1) \<and> ident a = ident' b) \<and> P (w_db w1)"
  proof (cases r)
    case (Inr a)
    have f: "deliver a e w0 = (Inr b, w1)" using first l Inr by (simp add: ensured_def comp_defs)
    have "R (w_db w0) (w_db w1)" using io_preD [OF deliver_stays [of a] e, of w0] P w0 f by simp
    then show ?thesis using kept [OF P] looked [OF l [unfolded Inr]] delivered [OF e f] stable [OF P] w0 by metis
  next
    case (Inl er)
    then have c: "create e w0 = (Inr b, w1)" using first l by (auto simp: ensured_def comp_defs split: if_splits)
    have "R (w_db w0) (w_db w1)" using io_preD [OF create_stays e, of w0] P w0 c by simp
    then show ?thesis using created [OF e _ c] stable P w0 by metis
  qed
  then show "\<exists>a. look e (w_db w1) = (Inr a, w_db w1) \<and> ident a = ident' b" and "P (w_db w1)" by blast+
qed

text \<open>Asked again later: the row is found, whatever the second request would have created.\<close>

lemma again:
  assumes e: "env_ok e" "env_ok e'" and P: "P (w_db w)" and first: "ensured org look deliver create e w = (Inr b, w1)"
    and later: "R (w_db w1) (w_db w2)" and second: "ensured org look deliver' create' e' w2 = (Inr b', w3)"
    and same: "\<And>a v v'. deliver' a e' v = (Inr b', v') \<Longrightarrow> ident' b' = ident a"
  shows "ident' b' = ident' b"
proof -
  obtain a where "look e (w_db w1) = (Inr a, w_db w1)" "ident a = ident' b" "P (w_db w1)"
    using present [OF e(1) P first] by blast
  then obtain a' where a': "look e' (w_db w2) = (Inr a', w_db w2)" "ident a' = ident' b" using kept later by metis
  obtain r w0 where l: "withScopedTx org look e' w2 = (r, w0)" by force
  show ?thesis
  proof (cases r)
    case (Inr x)
    then show ?thesis using looked [of org e' w2 x w0] l a' second same by (auto simp: ensured_def comp_defs)
  next
    case (Inl er)
    then have "er \<noteq> NoRows" using l a'(1) unfolding withScopedTx_def with_tx_def
      by (auto simp: comp_defs split: if_splits fault.splits prod.splits sum.splits)
    then show ?thesis using second l Inl by (simp add: ensured_def comp_defs)
  qed
qed

text \<open>When the database answers, nothing is created again.\<close>

lemma found_again:
  assumes e: "env_ok e" and P: "P (w_db w)" and first: "ensured org look deliver create e w = (Inr b, w1)"
    and later: "R (w_db w1) (w_db w2)" and ok: "scope_valid org" "e_fault e' (w_tick w2) = NoFault"
  shows "\<exists>a. ident a = ident' b \<and> ensured org look deliver' create' e' w2 = deliver' a e' (tick w2)"
proof -
  obtain a where "look e (w_db w1) = (Inr a, w_db w1)" "ident a = ident' b" "P (w_db w1)"
    using present [OF e P first] by blast
  then obtain a' where "look e' (w_db w2) = (Inr a', w_db w2)" "ident a' = ident' b" using kept later by metis
  then show ?thesis using read_answers [OF ok reads] by (auto simp: ensured_def comp_defs intro!: exI [of _ a'])
qed

end

section \<open>Rows of a key stay where they are\<close>

lemma find_evolves:
  assumes "rows_evolve E xs ys" "List.find q xs = Some r" "\<And>r r'. r \<in> set xs \<Longrightarrow> r' \<in> set ys \<Longrightarrow> E r r' \<Longrightarrow> q' r' = q r"
  shows "\<exists>r'. List.find q' ys = Some r' \<and> E r r'"
proof -
  obtain i where i: "i < length xs" "q (xs ! i)" "r = xs ! i" "\<forall>j < i. \<not> q (xs ! j)" using assms(2) by (auto simp: find_Some_iff)
  have E: "E (xs ! j) (ys ! j) \<and> j < length ys" if "j < length xs" for j using assms(1) that by (auto simp: rows_evolve_def)
  have "q' (ys ! j) = q (xs ! j)" if "j < length xs" for j using assms(3) E that by (simp add: E)
  then have "List.find q' ys = Some (ys ! i)" using i E by (auto simp: find_Some_iff intro!: exI [of _ i])
  then show ?thesis using i E by blast
qed

abbreviation sound :: "db \<Rightarrow> bool" where "sound d \<equiv> wf d \<and> registers_ok d"

lemma sound_steps: "sound d \<Longrightarrow> steps os d d' \<Longrightarrow> sound d'"
  using steps_ok steps_registers by (auto simp: registers_step_def)


lemma example_sound: "sound example_db"
  by (simp add: example_wf) (simp add: registers_ok_def unique_on_def account_of_def example_defs)

lemma io_pre_sound: "io_pre wf R m \<Longrightarrow> io_pre sound R m"
  by (erule io_pre_weaken) auto

section \<open>Accounts of a source\<close>

definition account_created :: "string \<Rightarrow> AccountParams \<Rightarrow> string \<Rightarrow> Account io" where
  "account_created org p u =
     (if ap_source_id p = [] then raise (ErrInvalidAccount ''source required'')
      else attempt (Accounts_Create org p u) (\<lambda>r.
        case r of
          Inr a \<Rightarrow> ret a
        | Inl er \<Rightarrow>
            if er = ErrDuplicateAccountSource then Accounts_FindBySource org (ap_source_type p) (ap_source_id p) else raise er))"

lemma EnsureForSource_ensured:
  "EnsureForSource org i u e w = (Inr a, w') \<Longrightarrow>
     \<exists>p. normalizeAccount e i True = Inr p \<and> ap_source_type p = TrimSpace (ap_source_type i) \<and> ap_source_id p = TrimSpace (ap_source_id i) \<and>
       ensured org (account_by_source_tx org (ap_source_type p) (ap_source_id p)) ret (account_created org p u) e w = (Inr a, w')"
  by (cases "normalizeAccount e i True")
     (auto simp: EnsureForSource_def ensured_def account_created_def Accounts_FindBySource_def comp_defs normalizeAccount_def Let_def
       split: if_splits prod.splits sum.splits)

lemma account_look_Inr: "account_by_source_tx org t s e d = (Inr a, d') \<longleftrightarrow> d' = d \<and> (\<exists>r.
    List.find (\<lambda>a. acr_org a = org \<and> sql_eq (ac_source_type a) t \<and> sql_eq (ac_source_id a) s \<and> \<not> acr_deleted a) (d_accounts d) = Some r \<and>
    a = Account.truncate r)"
  by (auto simp: account_by_source_tx_def tx_simps query_row_def split: option.splits)

lemma account_look_kept:
  assumes "steps os d d'" "account_by_source_tx org t s e d = (Inr a, d)"
  shows "\<exists>a'. account_by_source_tx org t s e' d' = (Inr a', d') \<and> ac_id a' = ac_id a"
proof -
  let ?q = "\<lambda>a. acr_org a = org \<and> sql_eq (ac_source_type a) t \<and> sql_eq (ac_source_id a) s \<and> \<not> acr_deleted a"
  obtain r where r: "List.find ?q (d_accounts d) = Some r"
    "a = Account.truncate r" using assms(2) unfolding account_look_Inr by blast
  have ev: "rows_evolve account_kept (d_accounts d) (d_accounts d')" using steps_registers [OF assms(1)] by (simp add: registers_step_def)
  obtain r' where r': "List.find ?q (d_accounts d') = Some r'" "account_kept r r'"
    using find_evolves [OF ev r(1), of ?q] by (auto simp: account_kept_def)
  then show ?thesis
    by (intro exI [of _ "Account.truncate r'"]) (auto simp: account_look_Inr r(2) account_kept_def Account.truncate_def)
qed

lemma account_look_created:
  assumes "account_created org p u e w = (Inr a, w')"
  shows "account_by_source_tx org (ap_source_type p) (ap_source_id p) e (w_db w') = (Inr a, w_db w')"
proof -
  let ?look = "account_by_source_tx org (ap_source_type p) (ap_source_id p)"
  have found: "?look e (w_db v') = (Inr a, w_db v')" if "Accounts_FindBySource org (ap_source_type p) (ap_source_id p) e v = (Inr a, v')" for v v'
    using withScopedTx_Inr [OF that [unfolded Accounts_FindBySource_def]] by (auto simp: account_look_Inr)
  consider (made) "ap_source_id p \<noteq> []" "insert_account org p u e (w_db w) = (Inr a, w_db w')"
    | (other) v where "Accounts_FindBySource org (ap_source_type p) (ap_source_id p) e v = (Inr a, w')"
    using assms by (auto simp: account_created_def comp_defs Accounts_Create_def map_error_Inr split: if_splits prod.splits sum.splits
        dest: withScopedTx_Inr)
  then show ?thesis
  proof cases
    case made
    show ?thesis
      using insert_account_change [OF made(2)] made(1)
      by (elim exE conjE) (rule account_look_Inr [THEN iffD2], auto simp: sql_eq_def find_None_iff intro!: exI find_snoc)
  next
    case (other v)
    then show ?thesis by (rule found)
  qed
qed

interpretation accounts: find_or_create "account_by_source_tx org (ap_source_type p) (ap_source_id p)" ret "account_created org p u" ac_id ac_id sound "steps UNIV"
  for org p u
proof
  show "reads (account_by_source_tx org (ap_source_type p) (ap_source_id p))" by (rule reads_accounts)
  show "io_pre sound (steps UNIV) (account_created org p u)"
    unfolding account_created_def by (auto split: sum.split intro!: io_pre_sound stay)
  show "io_pre sound (steps UNIV) (ret a)" for a :: Account by (intro io_pre_sound stay)
  show "sound d'" if "sound d" "steps UNIV d d'" for d d' using sound_steps [OF that] .
  show "\<exists>a'. account_by_source_tx org (ap_source_type p) (ap_source_id p) e' d' = (Inr a', d') \<and> ac_id a' = ac_id a"
    if "steps UNIV d d'" "account_by_source_tx org (ap_source_type p) (ap_source_id p) e d = (Inr a, d)" for d d' e e' a
    using account_look_kept [OF that] .
  show "\<exists>a. account_by_source_tx org (ap_source_type p) (ap_source_id p) e (w_db w') = (Inr a, w_db w') \<and> ac_id a = ac_id b"
    if "account_created org p u e w = (Inr b, w')" for e w b w'
    using account_look_created [OF that] by blast
qed (simp add: ret_Inr)

text \<open>
  C25. One account per source: asking for the account of a source again, with other data and after any calls, gives the account
  the first request got, or an error; and once it has been given, a request that the database answers writes nothing.
\<close>

theorem EnsureForSource_once:
  assumes "env_ok e" "env_ok e'" "envs_ok tr" "sound (w_db w)" "EnsureForSource org i u e w = (Inr a, w1)"
    and "TrimSpace (ap_source_type i') = TrimSpace (ap_source_type i)" "TrimSpace (ap_source_id i') = TrimSpace (ap_source_id i)"
    and "EnsureForSource org i' u' e' (run tr w1) = (Inr a', w3)"
  shows "ac_id a' = ac_id a"
proof -
  obtain p where p: "ap_source_type p = TrimSpace (ap_source_type i)" "ap_source_id p = TrimSpace (ap_source_id i)"
    "ensured org (account_by_source_tx org (ap_source_type p) (ap_source_id p)) ret (account_created org p u) e w = (Inr a, w1)"
    using EnsureForSource_ensured [OF assms(5)] by blast
  obtain p' where p': "ap_source_type p' = ap_source_type p" "ap_source_id p' = ap_source_id p"
    "ensured org (account_by_source_tx org (ap_source_type p') (ap_source_id p')) ret (account_created org p' u') e' (run tr w1) = (Inr a', w3)"
    using EnsureForSource_ensured [OF assms(8)] p(1,2) assms(6,7) by metis
  have "steps UNIV (w_db w1) (w_db (run tr w1))"
    using accounts.present(2) [OF assms(1,4) p(3)] assms(3) by (intro run_steps) auto
  then show ?thesis using accounts.again [OF assms(1,2,4) p(3) _ p'(3) [unfolded p'(1,2)]] by (simp add: ret_Inr)
qed


section \<open>Contracts of a source\<close>

definition contract_created :: "string \<Rightarrow> SourceType \<Rightarrow> string \<Rightarrow> date \<Rightarrow> OrderBillingRequest \<Rightarrow> classifiedLine list \<Rightarrow> Contract io" where
  "contract_created org sourceType accountID start req recurring =
     (if sourceType = [] \<or> ob_source_id req = [] then raise NoRows else create_contract org sourceType accountID start req recurring)"

lemma ensureContract_ensured:
  "sourceType \<noteq> [] \<Longrightarrow> ob_source_id req \<noteq> [] \<Longrightarrow> ensureContract org sourceType aid start req recurring =
     ensured org (findContractInTx org (contract_source sourceType (ob_source_id req))) ret (contract_created org sourceType aid start req recurring)"
  by (simp add: ensureContract_def ensured_def contract_created_def Contracts_FindBySource_def)

lemma contract_look_Inr: "findContractInTx org q e d = (Inr c, d') \<longleftrightarrow> d' = d \<and> (\<exists>r.
    List.find (\<lambda>r. cr_org r = org \<and> q r \<and> account_of d org (ct_account_id r) \<noteq> None) (d_contracts d) = Some r \<and>
    c = load_contract d r (loadContractItems d org (ct_id r)))"
  by (auto simp: findContractInTx_Inr query_row_def split: option.splits)

lemma ct_id_load_contract [simp]: "ct_id (load_contract d r its) = ct_id r"
  by (simp add: load_contract_def scanContract_def)

lemma contract_look_kept:
  assumes d: "sound d" "steps os d d'" and look: "findContractInTx org (contract_source t s) e d = (Inr c, d)"
  shows "\<exists>c'. findContractInTx org (contract_source t s) e' d' = (Inr c', d') \<and> ct_id c' = ct_id c"
proof -
  let ?q = "\<lambda>d r. cr_org r = org \<and> contract_source t s r \<and> account_of d org (ct_account_id r) \<noteq> None"
  obtain r where r: "List.find (?q d) (d_contracts d) = Some r" "ct_id c = ct_id r" using look unfolding contract_look_Inr by auto
  have ev: "rows_evolve contract_evolves (d_contracts d) (d_contracts d')" using steps_ok [OF d(2)] d(1) by (simp add: evolves_def)
  have acc: "cr_org x = org \<Longrightarrow> account_of b org (ct_account_id x) \<noteq> None" if "registers_ok b" "x \<in> set (d_contracts b)" for b x
    using that by (auto simp: registers_ok_def)
  have "registers_ok d'" using sound_steps [OF d] by simp
  then obtain r' where "List.find (?q d') (d_contracts d') = Some r'" "contract_evolves r r'"
    using find_evolves [OF ev r(1), of "?q d'"] acc d(1) by (auto simp: contract_evolves_def contract_source_def)
  then show ?thesis by (simp add: contract_look_Inr r(2) contract_evolves_def)
qed


interpretation same: effect always "(=)"
  by unfold_locales auto

lemma create_contract_stays: "org \<in> os \<Longrightarrow> stays os (create_contract org t aid start req recurring)"
  unfolding create_contract_def nextContractNumber_def Let_def
  by (auto split: sum.split intro!: stay priced_stays create_contract_grid)

lemma contract_created_Inr:
  assumes "env_ok e" "contract_created org t aid start req recurring e w = (Inr c, w')"
  obtains (made) p d where "t \<noteq> []" "ob_source_id req \<noteq> []" "ccp_source_type p = t" "ccp_source_id p = ob_source_id req"
    "contract_create_tx org p e d = (Inr c, w_db w')"
  | (other) "findContractInTx org (contract_source t (ob_source_id req)) e (w_db w') = (Inr c, w_db w')"
proof -
  have quiet: "w_db v' = w_db v" if "Registry_ContractCreated org f e v = (Inr x, v')" for f v x v'
    using io_preD [OF same.registry(3) assms(1), of v org f] that by simp
  have found: "findContractInTx org (contract_source t (ob_source_id req)) e (w_db w') = (Inr c, w_db w')"
    if "Contracts_FindBySource org t (ob_source_id req) e v = (Inr c, w')" for v
    using withScopedTx_Inr [OF that [unfolded Contracts_FindBySource_def]] by (simp add: contract_look_Inr)
  have b: "t \<noteq> []" "ob_source_id req \<noteq> []" and c: "create_contract org t aid start req recurring e w = (Inr c, w')"
    using assms(2) by (auto simp: contract_created_def raise_Inr split: if_splits)
  from c obtain channels v1 number v2 r v3 where
    v: "Contracts_Create org
         \<lparr>ccp_number = number, ccp_account_id = aid, ccp_source_type = t, ccp_source_id = ob_source_id req,
          ccp_currency = ob_currency req, ccp_notes = ob_notes req, ccp_pic_user_id = ob_pic_user_id req,
          ccp_created_by = ob_actor_user_id req, ccp_start_date = start, ccp_channels = channels,
          ccp_items = map (contract_item_params start) recurring\<rparr> e v2 = (r, v3)" and
    rest: "(case r of
         Inr c \<Rightarrow>
           chain (Registry_ContractCreated org
             \<lparr>cf_id = ct_id c, cf_number = ct_number c, cf_source_id = ob_source_id req, cf_source_type = t\<rparr>) (\<lambda>_. ret c)
       | Inl er \<Rightarrow> if er = ErrDuplicateSource then Contracts_FindBySource org t (ob_source_id req) else raise er) e v3 = (Inr c, w')"
    unfolding create_contract_def chain_Inr attempt_Inr by blast
  show thesis
  proof (cases r)
    case (Inl er)
    then show thesis using rest found by (auto simp: raise_Inr split: if_splits intro: that(2))
  next
    case (Inr c')
    then obtain x where x: "Registry_ContractCreated org
        \<lparr>cf_id = ct_id c', cf_number = ct_number c', cf_source_id = ob_source_id req, cf_source_type = t\<rparr> e v3 = (Inr x, w')" "c' = c"
      using rest [unfolded Inr sum.case chain_Inr ret_Inr] by blast
    have tx: "contract_create_tx org
         \<lparr>ccp_number = number, ccp_account_id = aid, ccp_source_type = t, ccp_source_id = ob_source_id req,
          ccp_currency = ob_currency req, ccp_notes = ob_notes req, ccp_pic_user_id = ob_pic_user_id req,
          ccp_created_by = ob_actor_user_id req, ccp_start_date = start, ccp_channels = channels,
          ccp_items = map (contract_item_params start) recurring\<rparr> e (w_db v2) = (Inr c', w_db v3)"
      using withScopedTx_Inr [OF v [unfolded Inr Contracts_Create_def map_error_Inr]] by (rule conjunct1)
    show thesis
      by (rule that(1) [OF b _ _ tx [folded quiet [OF x(1)], unfolded x(2)]]) (simp_all only: CreateContractParams.simps)
  qed
qed

lemma contract_look_created:
  assumes "env_ok e" "contract_created org t aid start req recurring e w = (Inr c, w')"
  shows "\<exists>a. findContractInTx org (contract_source t (ob_source_id req)) e (w_db w') = (Inr a, w_db w') \<and> ct_id a = ct_id c"
  using assms
proof (cases rule: contract_created_Inr)
  case (made p d)
  obtain rid d1 where ins: "insert_contract org p e d = (Inr rid, d1)" "insert_contract_items org rid 0 (ccp_items p) e d1 = (Inr (), w_db w')"
    and got: "findContractInTx org (\<lambda>r. ct_id r = rid) e (w_db w') = (Inr c, w_db w')" using contract_create_Inr [OF made(5)] .
  obtain r where r: "d1 = d\<lparr>d_next := Suc (d_next d), d_contracts := d_contracts d @ [r]\<rparr>" "cr_org r = org" "ct_id r = rid"
    "ct_source_id r = ob_source_id req" "ct_source_type r = t" "passes (contract_checks d r)"
    using insert_contract_Inr [OF ins(1)] made(1-4) by (auto simp del: contract_checks_def)
  obtain rs n where d': "w_db w' = d1\<lparr>d_next := n, d_citems := d_citems d1 @ rs\<rparr>" using insert_contract_items_Inr [OF ins(2)] by blast
  have "ct_id c = rid" using got by (auto simp: contract_look_Inr find_Some_iff)
  moreover have "List.find (\<lambda>r. cr_org r = org \<and> contract_source t (ob_source_id req) r \<and> account_of (w_db w') org (ct_account_id r) \<noteq> None)
      (d_contracts (w_db w')) = Some r"
    using r made(2) unfolding d' by (auto simp: contract_checks_def contract_source_def sql_eq_def find_None_iff account_of_def intro!: find_snoc)
  ultimately show ?thesis using r(3) by (auto simp: contract_look_Inr)
qed blast

interpretation contracts: find_or_create "findContractInTx org (contract_source t (ob_source_id req))" ret
    "contract_created org t aid start req recurring" ct_id ct_id sound "steps UNIV"
  for org t aid start req recurring
proof
  show "reads (findContractInTx org (contract_source t (ob_source_id req)))" by (rule reads_accounts)
  show "io_pre sound (steps UNIV) (contract_created org t aid start req recurring)"
    unfolding contract_created_def by (auto intro!: io_pre_sound create_contract_stays stay)
  show "io_pre sound (steps UNIV) (ret a)" for a :: Contract by (intro io_pre_sound stay)
  show "sound d'" if "sound d" "steps UNIV d d'" for d d' using sound_steps [OF that] .
  show "\<exists>a'. findContractInTx org (contract_source t (ob_source_id req)) e' d' = (Inr a', d') \<and> ct_id a' = ct_id a"
    if "sound d" "steps UNIV d d'" "findContractInTx org (contract_source t (ob_source_id req)) e d = (Inr a, d)" for d d' e e' a
    using contract_look_kept [OF that] .
  show "\<exists>a. findContractInTx org (contract_source t (ob_source_id req)) e (w_db w') = (Inr a, w_db w') \<and> ct_id a = ct_id b"
    if "env_ok e" "contract_created org t aid start req recurring e w = (Inr b, w')" for e w b w'
    using contract_look_created [OF that] .
qed (simp add: ret_Inr)


section \<open>Invoices of a source\<close>

lemma Invoice_Get_id: "Invoice_Get org rid e w = (Inr i, w') \<Longrightarrow> in_id i = rid"
  by (auto simp: Invoice_Get_def Invoices_FindByID_def map_error_Inr findInTx_Inr query_row_def find_Some_iff
      dest!: withScopedTx_Inr split: option.splits)

lemma issue_result:
  assumes "issue org rid actor override e w = (Inr i, w')"
  shows "in_id i = rid"
proof -
  have after: "in_id i = rid" if "after_issue org rid actor e v = (Inr i, v')" for v v'
    using that by (auto simp: after_issue_def tx_simps dest: Invoice_Get_id)
  have draft: "in_id i = rid" if "issue_draft org rid actor override ps e v = (Inr i, v')" for v v' ps
    using that unfolding issue_draft_def Let_def
    by (auto simp: chain_Inr attempt_case_Inr ask_app raise_Inr split: if_splits dest: Invoice_Get_id after)
  show ?thesis
    using assms unfolding issue_def
    by (auto simp: chain_Inr raise_Inr ret_Inr split: InvoiceStatus.splits dest: draft Invoice_Get_id)
       (metis InvoiceStatus.exhaust)
qed

lemma buildParams_source:
  assumes "buildParams org i u e w = (Inr p, w')"
  shows "cp_source_type p = source_or_manual (vi_source_type i) \<and> cp_source_id p = vi_source_id i \<and> cp_idempotency_key p = vi_idempotency_key i"
proof (cases "PriceLines (map il_line (vi_lines i))")
  case (Inl er)
  then show ?thesis using assms by (simp add: buildParams_def Let_def tx_simps)
next
  case (Inr tp)
  obtain totals ps where tp: "tp = (totals, ps)" by (cases tp)
  show ?thesis using assms Inr tp by (clarsimp simp: buildParams_def Let_def tx_simps if_raise_Inr split del: if_split)
qed

lemma invoice_look_Inr: "findInTx org q e d = (Inr c, d') \<longleftrightarrow> d' = d \<and> (\<exists>r.
    List.find (\<lambda>r. ir_org r = org \<and> q r \<and> account_of d org (in_account_id r) \<noteq> None) (d_invoices d) = Some r \<and> c = load_invoice d r)"
  by (auto simp: findInTx_Inr query_row_def split: option.splits)

lemma invoice_look_kept:
  assumes d: "sound d" "steps os d d'" and look: "findInTx org (source_key t s k) e d = (Inr c, d)"
  shows "\<exists>c'. findInTx org (source_key t s k) e' d' = (Inr c', d') \<and> in_id c' = in_id c"
proof -
  let ?q = "\<lambda>d r. ir_org r = org \<and> source_key t s k r \<and> account_of d org (in_account_id r) \<noteq> None"
  obtain r where r: "List.find (?q d) (d_invoices d) = Some r" "in_id c = in_id r" using look unfolding invoice_look_Inr by auto
  have ev: "rows_evolve invoice_evolves (d_invoices d) (d_invoices d')" using steps_ok [OF d(2)] d(1) by (simp add: evolves_def)
  have acc: "ir_org x = org \<Longrightarrow> account_of b org (in_account_id x) \<noteq> None" if "registers_ok b" "x \<in> set (d_invoices b)" for b x
    using that by (auto simp: registers_ok_def)
  have "registers_ok d'" using sound_steps [OF d] by simp
  then obtain r' where "List.find (?q d') (d_invoices d') = Some r'" "invoice_evolves r r'"
    using find_evolves [OF ev r(1), of "?q d'"] acc d(1) by (auto simp: invoice_evolves_def source_key_def)
  then show ?thesis by (simp add: invoice_look_Inr r(2) invoice_evolves_def)
qed

lemma source_or_manual_idem [simp]: "(if source_or_manual s = [] then SourceManual else source_or_manual s) = source_or_manual s"
  by (simp add: source_or_manual_def)

lemma draft_look:
  assumes "createDraft org i u q e w = (Inr draft, w')" and key: "vi_source_id i \<noteq> []" "vi_idempotency_key i \<noteq> []"
  shows "\<exists>a. findInTx org (source_key (source_or_manual (vi_source_type i)) (vi_source_id i) (vi_idempotency_key i)) e (w_db w') = (Inr a, w_db w') \<and>
    in_id a = in_id draft"
proof -
  let ?s = "source_key (source_or_manual (vi_source_type i)) (vi_source_id i) (vi_idempotency_key i)"
  obtain p v v' where p: "buildParams org i u e w = (Inr p, v)" and c: "Invoices_Create org p e v' = (Inr draft, w')"
    using assms(1) unfolding createDraft_def chain_Inr by blast
  have tx: "invoice_create_tx org p e (w_db v') = (Inr draft, w_db w')"
    using withScopedTx_Inr [OF c [unfolded Invoices_Create_def map_error_Inr]] by (rule conjunct1)
  obtain rid d1 where ins: "insert_invoice org p e (w_db v') = (Inr rid, d1)" "insertItems org rid 0 (cp_items p) e d1 = (Inr (), w_db w')"
    and got: "findInTx org (\<lambda>r. in_id r = rid) e (w_db w') = (Inr draft, w_db w')" using invoice_create_Inr [OF tx] .
  obtain r where r: "d1 = (w_db v')\<lparr>d_next := Suc (d_next (w_db v')), d_invoices := d_invoices (w_db v') @ [r]\<rparr>" "ir_org r = org" "in_id r = rid"
    "in_source_type r = source_or_manual (vi_source_type i)" "in_source_id r = vi_source_id i" "in_idempotency_key r = vi_idempotency_key i"
    "passes (invoice_checks (w_db v') r)"
    using insert_invoice_change [OF ins(1)] buildParams_source [OF p] source_or_manual_idem by metis
  have free: "\<not> (ir_org x = org \<and> ?s x)" if "x \<in> set (d_invoices (w_db v'))" for x
    using r(2-7) key that by (auto simp: invoice_checks_def source_key_def sql_eq_def)
  have s: "?s r" "account_of (w_db v') org (in_account_id r) \<noteq> None"
    using r(2-7) key by (simp_all add: source_key_def sql_eq_def invoice_checks_def)
  obtain rs n where d': "w_db w' = d1\<lparr>d_next := n, d_items := d_items d1 @ rs\<rparr>" using insertItems_Inr [OF ins(2)] by blast
  have "in_id draft = rid" using got by (auto simp: invoice_look_Inr find_Some_iff)
  moreover have "List.find (\<lambda>r. ir_org r = org \<and> ?s r \<and> account_of (w_db w') org (in_account_id r) \<noteq> None) (d_invoices (w_db w')) = Some r"
    using free s r(1,2) unfolding d' by (auto simp: find_None_iff account_of_def intro!: find_snoc)
  ultimately show ?thesis using r(3) by (auto simp: invoice_look_Inr)
qed


definition invoice_created :: "string \<Rightarrow> InvoiceInput \<Rightarrow> string \<Rightarrow> Invoice io" where
  "invoice_created org i actor =
     (if vi_source_id i = [] \<or> vi_idempotency_key i = [] then raise NoRows else create_new_and_issue org i actor)"

abbreviation invoice_look :: "string \<Rightarrow> InvoiceInput \<Rightarrow> Invoice tx" where
  "invoice_look org i \<equiv> findInTx org (source_key (source_or_manual (vi_source_type i)) (vi_source_id i) (vi_idempotency_key i))"

lemma CreateAndIssue_ensured:
  "vi_source_id i \<noteq> [] \<Longrightarrow> vi_idempotency_key i \<noteq> [] \<Longrightarrow> CreateAndIssue org i actor =
     ensured org (invoice_look org i) (\<lambda>x. issueExisting org x actor (vi_due_date i)) (invoice_created org i actor)"
  by (simp add: CreateAndIssue_def ensured_def invoice_created_def Invoices_FindBySource_def)

lemma issueExisting_id: "issueExisting org x actor t e w = (Inr i, w') \<Longrightarrow> in_id i = in_id x"
  by (auto simp: issueExisting_def ret_Inr dest: issue_result split: if_splits)

lemma create_new_and_issue_stays: "org \<in> os \<Longrightarrow> stays os (create_new_and_issue org i actor)"
  unfolding create_new_and_issue_def by (auto split: sum.split intro!: stay)

lemma look_after:
  assumes "io_pre sound (steps UNIV) m" "env_ok e" "sound (w_db v)" "m e v = (x, w')" "invoice_look org i e (w_db v) = (Inr a, w_db v)"
  shows "\<exists>a'. invoice_look org i e (w_db w') = (Inr a', w_db w') \<and> in_id a' = in_id a"
  using invoice_look_kept [OF assms(3) _ assms(5)] io_preD [OF assms(1-3)] assms(4) by simp

lemma invoice_look_created:
  assumes e: "env_ok e" and d: "sound (w_db w)" and c: "invoice_created org i actor e w = (Inr b, w')"
  shows "\<exists>a. invoice_look org i e (w_db w') = (Inr a, w_db w') \<and> in_id a = in_id b"
proof -
  have key: "vi_source_id i \<noteq> []" "vi_idempotency_key i \<noteq> []" and c: "create_new_and_issue org i actor e w = (Inr b, w')"
    using c by (auto simp: invoice_created_def raise_Inr split: if_splits)
  have st: "io_pre sound (steps UNIV) (issue org rid actor t)" "io_pre sound (steps UNIV) (issueExisting org x actor t)" for rid x t
    by (auto intro!: io_pre_sound stay)
  have made: "stays UNIV (createDraft org i actor q)" for q by (auto intro!: stay)
  have sound: "sound (w_db v)" if "createDraft org i actor q e w = (r, v)" for q r v
    using sound_steps [OF d] io_preD [OF made [of q] e, of w] d that by simp
  from c consider (made) draft v where "createDraft org i actor (vi_source_type i \<noteq> SourceContract) e w = (Inr draft, v)"
      "issue org (in_id draft) actor (vi_due_date i) e v = (Inr b, w')"
    | (dup) er v v1 x where "createDraft org i actor (vi_source_type i \<noteq> SourceContract) e w = (Inl er, v)"
      "Invoices_FindBySource org (source_or_manual (vi_source_type i)) (vi_source_id i) (vi_idempotency_key i) e v = (Inr x, v1)"
      "issueExisting org x actor (vi_due_date i) e v1 = (Inr b, w')"
    unfolding create_new_and_issue_def attempt_case_Inr by (auto simp: chain_Inr raise_Inr split: if_splits)
  then show ?thesis
  proof cases
    case made
    then show ?thesis
      using draft_look [OF made(1) key] look_after [OF st(1) e sound [OF made(1)] made(2)] issue_result [OF made(2)] by metis
  next
    case dup
    have tx: "invoice_look org i e (w_db v) = (Inr x, w_db v1)"
      using withScopedTx_Inr [OF dup(2) [unfolded Invoices_FindBySource_def]] by (rule conjunct1)
    then have "w_db v1 = w_db v" by (auto simp: invoice_look_Inr)
    then show ?thesis
      using look_after [OF st(2) e _ dup(3)] tx sound [OF dup(1)] issueExisting_id [OF dup(3)] by metis
  qed
qed

interpretation invoices: find_or_create "invoice_look org i" "\<lambda>x. issueExisting org x actor (vi_due_date i)" "invoice_created org i actor"
    in_id in_id sound "steps UNIV"
  for org i actor
proof
  show "reads (invoice_look org i)" by (rule reads_invoices)
  show "io_pre sound (steps UNIV) (invoice_created org i actor)"
    unfolding invoice_created_def by (auto intro!: io_pre_sound create_new_and_issue_stays stay)
  show "io_pre sound (steps UNIV) (issueExisting org x actor (vi_due_date i))" for x by (auto intro!: io_pre_sound stay)
  show "sound d'" if "sound d" "steps UNIV d d'" for d d' using sound_steps [OF that] .
  show "\<exists>a'. invoice_look org i e' d' = (Inr a', d') \<and> in_id a' = in_id a"
    if "sound d" "steps UNIV d d'" "invoice_look org i e d = (Inr a, d)" for d d' e e' a
    using invoice_look_kept [OF that] .
  show "\<exists>a. invoice_look org i e (w_db w') = (Inr a, w_db w') \<and> in_id a = in_id b"
    if "env_ok e" "sound (w_db w)" "invoice_created org i actor e w = (Inr b, w')" for e w b w'
    using invoice_look_created [OF that] .
qed (rule issueExisting_id)


section \<open>Asking again\<close>

text \<open>
  C26. One contract per order: ensuring the contract of an order again, with other lines or another start and after any calls,
  gives the contract of the first request.
\<close>

theorem ensureContract_once:
  assumes "env_ok e" "env_ok e'" "envs_ok tr" "sound (w_db w)" and key: "t \<noteq> []" "ob_source_id req \<noteq> []" "ob_source_id req' = ob_source_id req"
    and "ensureContract org t aid start req ls e w = (Inr c, w1)" "ensureContract org t aid' start' req' ls' e' (run tr w1) = (Inr c', w3)"
  shows "ct_id c' = ct_id c"
proof -
  have key': "ob_source_id req' \<noteq> []" using key by simp
  note first = assms(8) [unfolded ensureContract_ensured [OF key(1,2)]]
    and second = assms(9) [unfolded ensureContract_ensured [OF key(1) key'], unfolded key(3)]
  have "steps UNIV (w_db w1) (w_db (run tr w1))" using contracts.present(2) [OF assms(1,4) first] assms(3) by (intro run_steps) auto
  then show ?thesis using contracts.again [OF assms(1,2,4) first _ second] by (simp add: ret_Inr)
qed

text \<open>
  C23. One invoice per source and idempotency key: creating and issuing it again, with other lines and after any calls, gives the
  invoice of the first request or an error, never a second invoice.
\<close>

theorem CreateAndIssue_once:
  assumes "env_ok e" "env_ok e'" "envs_ok tr" "sound (w_db w)" and key: "vi_source_id i \<noteq> []" "vi_idempotency_key i \<noteq> []"
      "vi_source_id i' = vi_source_id i" "vi_idempotency_key i' = vi_idempotency_key i" "vi_source_type i' = vi_source_type i"
    and "CreateAndIssue org i actor e w = (Inr b, w1)" "CreateAndIssue org i' actor' e' (run tr w1) = (Inr b', w3)"
  shows "in_id b' = in_id b"
proof -
  have key': "vi_source_id i' \<noteq> []" "vi_idempotency_key i' \<noteq> []" using key by simp_all
  note first = assms(10) [unfolded CreateAndIssue_ensured [OF key(1,2)]]
    and second = assms(11) [unfolded CreateAndIssue_ensured [OF key'], unfolded key(3-5)]
  have later: "steps UNIV (w_db w1) (w_db (run tr w1))" using invoices.present(2) [OF assms(1,4) first] assms(3) by (intro run_steps) auto
  show ?thesis using invoices.again [OF assms(1,2,4) first later second] issueExisting_id by blast
qed


section \<open>The example again\<close>

definition example_contact :: AccountInput where
  "example_contact = \<lparr>ap_name = ''Budi'', ap_company_name = [], ap_email = [], ap_phone = [], ap_address = [],
     ap_source_type = ''crm_contact'', ap_source_id = ''k1''\<rparr>"

lemma example_tables [simp]:
  "w_db example_world = example_db" "d_accounts example_db = [example_account]" "d_contracts example_db = [example_contract]"
  "d_invoices example_db = [example_invoice]"
  by (simp_all add: example_world_def example_db_def)

lemma example_faultless: "e_fault example_env n = NoFault"
  by (simp add: example_env_def)

lemma example_run_accounts:
  "d_accounts (w_db (run example_run w)) = d_accounts (w_db w)" "d_contracts (w_db (run example_run w)) = d_contracts (w_db w)"
proof -
  obtain r w' where w': "MarkOverdue ''o'' 20097 example_env w = (r, w')" by force
  then have "d_accounts (w_db w') = d_accounts (w_db w)" "d_contracts (w_db w') = d_contracts (w_db w)"
    by (auto simp: MarkOverdue_def Invoices_MarkOverdue_def scoped_answers example_faultless split: prod.splits sum.splits dest!: mark_overdue_change)
  then show "d_accounts (w_db (run example_run w)) = d_accounts (w_db w)" "d_contracts (w_db (run example_run w)) = d_contracts (w_db w)"
    using w' by (simp_all add: example_run_def run_def perform_call_def discard_def comp_defs split: sum.split)
qed

lemma example_ensure:
  assumes "d_accounts (w_db w) = [example_account]"
  shows "EnsureForSource ''o'' example_contact u example_env w = (Inr (Account.truncate example_account), tick w)"
proof -
  have n: "normalizeAccount example_env example_contact True = Inr example_contact"
    by (simp add: normalizeAccount_def example_contact_def TrimSpace_graphic graphic_def SourceTypeCRMContact_def RuneCount_def rune_start_def)
  have l: "account_by_source_tx ''o'' ''crm_contact'' ''k1'' example_env (w_db w) = (Inr (Account.truncate example_account), w_db w)"
    by (simp add: account_look_Inr sql_eq_def assms) (simp add: example_account_def)
  show ?thesis
    using read_answers [OF scope_o example_faultless reads_accounts(2) [of "''o''" "''crm_contact''" "''k1''"], where w = w] l n
    by (simp add: EnsureForSource_def Accounts_FindBySource_def comp_defs example_contact_def)
qed

lemma EnsureForSource_once_witness:
  "ac_id (projr (fst (EnsureForSource ''o'' example_contact ''v'' example_env (run example_run (tick example_world))))) =
   ac_id (projr (fst (EnsureForSource ''o'' example_contact ''u'' example_env example_world)))"
proof -
  have first: "EnsureForSource ''o'' example_contact ''u'' example_env example_world = (Inr (Account.truncate example_account), tick example_world)"
    by (rule example_ensure) simp
  have "d_accounts (w_db (run example_run (tick example_world))) = [example_account]" by (simp add: example_run_accounts)
  note second = example_ensure [OF this, of "''v''"]
  show ?thesis
    using EnsureForSource_once [OF example_env_ok example_env_ok example_run_ok _ first refl refl second] example_sound
    by (simp add: first second)
qed

definition example_order :: OrderBillingRequest where
  "example_order = \<lparr>ob_source_type = ''sales_order'', ob_source_id = ''so1'', ob_account = example_contact, ob_start_date = 20089,
     ob_channels = [], ob_pic_user_id = [], ob_currency = [], ob_notes = [], ob_actor_user_id = ''u'', ob_lines = []\<rparr>"

lemma example_order_key: "ob_source_id example_order \<noteq> []"
  by (simp add: example_order_def)

lemma example_contract_look:
  assumes "d_accounts d = [example_account]" "d_contracts d = [example_contract]"
  shows "\<exists>c. findContractInTx ''o'' (contract_source ''sales_order'' ''so1'') e d = (Inr c, d) \<and> ct_id c = ''c1''"
  by (simp add: contract_look_Inr contract_source_def sql_eq_def account_of_def assms) (simp add: example_account_def example_contract_def)

lemma example_ensure_contract:
  assumes "d_accounts (w_db w) = [example_account]" "d_contracts (w_db w) = [example_contract]"
  shows "\<exists>c. ensureContract ''o'' ''sales_order'' aid start example_order ls example_env w = (Inr c, tick w)"
proof -
  obtain c where "findContractInTx ''o'' (contract_source ''sales_order'' ''so1'') example_env (w_db w) = (Inr c, w_db w)"
    using example_contract_look [OF assms] by blast
  then show ?thesis
    using read_answers [OF scope_o example_faultless reads_accounts(5) [of "''o''" "contract_source ''sales_order'' ''so1''"], where w = w]
    by (simp add: ensureContract_def Contracts_FindBySource_def comp_defs example_order_def)
qed

lemma ensureContract_once_witness:
  "ct_id (projr (fst (ensureContract ''o'' ''sales_order'' ''a1'' 20096 example_order [] example_env (run example_run (tick example_world))))) =
   ct_id (projr (fst (ensureContract ''o'' ''sales_order'' ''a1'' 20089 example_order [] example_env example_world)))"
proof -
  obtain c where first: "ensureContract ''o'' ''sales_order'' ''a1'' 20089 example_order [] example_env example_world = (Inr c, tick example_world)"
    using example_ensure_contract [of example_world, unfolded example_tables, OF refl refl] by blast
  obtain c' where second: "ensureContract ''o'' ''sales_order'' ''a1'' 20096 example_order [] example_env (run example_run (tick example_world)) =
      (Inr c', tick (run example_run (tick example_world)))"
    using example_ensure_contract [of "run example_run (tick example_world)", unfolded example_run_accounts w_db_tick example_tables, OF refl refl]
    by blast
  show ?thesis
    using ensureContract_once [OF example_env_ok example_env_ok example_run_ok _ _ _ refl first second] example_sound example_order_key
    by (simp add: first second)
qed

definition example_billing :: InvoiceInput where
  "example_billing = \<lparr>vi_account_id = ''a1'', vi_source_type = ''contract'', vi_source_id = ''c1'', vi_contract_id = ''c1'',
     vi_idempotency_key = ''period:2025-01-01'', vi_currency = [], vi_notes = [], vi_pic_user_id = [], vi_channels = [],
     vi_period_start = None, vi_period_end = None, vi_due_date = None, vi_lines = []\<rparr>"

lemma example_billing_key: "vi_source_id example_billing \<noteq> []" "vi_idempotency_key example_billing \<noteq> []"
  by (simp_all add: example_billing_def)

lemma example_bill:
  assumes "d_accounts (w_db w) = [example_account]" "d_invoices (w_db w) = [r]" "source_of r = source_of example_invoice"
    "in_account_id r = ''a1''" "in_status r \<noteq> InvoiceDraft"
  shows "CreateAndIssue ''o'' example_billing u example_env w = (Inr (load_invoice (w_db w) r), tick w)"
proof -
  have "invoice_look ''o'' example_billing example_env (w_db w) = (Inr (load_invoice (w_db w) r), w_db w)"
    using assms by (simp add: invoice_look_Inr source_key_def sql_eq_def account_of_def source_or_manual_def example_billing_def)
      (simp add: example_account_def example_invoice_def)
  then show ?thesis
    using read_answers [OF scope_o example_faultless reads_invoices(1), where w = w] assms(5)
    by (simp add: CreateAndIssue_def Invoices_FindBySource_def issueExisting_def comp_defs) (simp add: example_billing_def)
qed

lemma CreateAndIssue_once_witness:
  "in_id (projr (fst (CreateAndIssue ''o'' example_billing ''v'' example_env (run [] (tick example_world))))) =
   in_id (projr (fst (CreateAndIssue ''o'' example_billing ''u'' example_env example_world)))"
proof -
  have row: "in_account_id example_invoice = ''a1''" "in_status example_invoice \<noteq> InvoiceDraft" by (simp_all add: example_invoice_def)
  have first: "CreateAndIssue ''o'' example_billing ''u'' example_env example_world = (Inr (load_invoice example_db example_invoice), tick example_world)"
    using example_bill [of example_world] row by simp
  have second: "CreateAndIssue ''o'' example_billing ''v'' example_env (run [] (tick example_world)) =
      (Inr (load_invoice example_db example_invoice), tick (tick example_world))"
    using example_bill [of "tick example_world"] row by (simp add: run_def)
  show ?thesis
    using CreateAndIssue_once [OF example_env_ok example_env_ok _ _ _ _ refl refl refl first second] example_sound example_billing_key
    by (simp add: first second)
qed


section \<open>Nothing is registered twice\<close>

text \<open>
  C24. After any sequence of calls a source has one live account and one contract, a document one unrevoked link, a client's request
  one send of an invoice, and every invoice and contract still finds the account it names.
\<close>

theorem registers_unique:
  assumes "envs_ok tr" "sound (w_db w)"
  shows "(\<forall>a \<in> set (d_accounts (w_db (run tr w))). \<forall>b \<in> set (d_accounts (w_db (run tr w))).
      live_sourced a \<longrightarrow> live_sourced b \<longrightarrow> account_source a = account_source b \<longrightarrow> a = b) \<and>
    (\<forall>c \<in> set (d_contracts (w_db (run tr w))). \<forall>c' \<in> set (d_contracts (w_db (run tr w))).
      ct_source_id c \<noteq> [] \<longrightarrow> contract_origin c = contract_origin c' \<longrightarrow> c = c') \<and>
    (\<forall>l \<in> set (d_links (w_db (run tr w))). \<forall>l' \<in> set (d_links (w_db (run tr w))).
      unrevoked l \<longrightarrow> unrevoked l' \<longrightarrow> link_doc l = link_doc l' \<longrightarrow> l = l') \<and>
    (\<forall>s \<in> set (d_sends (w_db (run tr w))). \<forall>s' \<in> set (d_sends (w_db (run tr w))).
      requested s \<longrightarrow> send_request s = send_request s' \<longrightarrow> s = s') \<and>
    (\<forall>r \<in> set (d_invoices (w_db (run tr w))). account_of (w_db (run tr w)) (ir_org r) (in_account_id r) \<noteq> None) \<and>
    (\<forall>c \<in> set (d_contracts (w_db (run tr w))). account_of (w_db (run tr w)) (cr_org c) (ct_account_id c) \<noteq> None)"
proof -
  let ?d = "w_db (run tr w)"
  have r: "registers_ok ?d" using run_registers assms by blast
  note u = r [unfolded registers_ok_def]
  have "a = b" if "a \<in> set (d_accounts ?d)" "b \<in> set (d_accounts ?d)" "live_sourced a" "live_sourced b" "account_source a = account_source b" for a b
    using u unique_onD [of live_sourced account_source "d_accounts ?d"] that by blast
  moreover have "c = c'" if "c \<in> set (d_contracts ?d)" "c' \<in> set (d_contracts ?d)" "ct_source_id c \<noteq> []" "contract_origin c = contract_origin c'" for c c'
    using u unique_onD [of contract_sourced contract_origin "d_contracts ?d"] that by fastforce
  moreover have "l = l'" if "l \<in> set (d_links ?d)" "l' \<in> set (d_links ?d)" "unrevoked l" "unrevoked l'" "link_doc l = link_doc l'" for l l'
    using u unique_onD [of unrevoked link_doc "d_links ?d"] that by blast
  moreover have "s = s'" if "s \<in> set (d_sends ?d)" "s' \<in> set (d_sends ?d)" "requested s" "send_request s = send_request s'" for s s'
    using u unique_onD [of requested send_request "d_sends ?d"] that by fastforce
  ultimately show ?thesis using u by blast
qed

lemma registers_unique_witness:
  "account_of (w_db (run example_run example_world)) ''o'' ''a1'' \<noteq> None"
  using registers_unique [OF example_run_ok, of example_world] example_sound
  by (simp add: example_run_accounts account_of_def) (simp add: example_account_def)

end
