(* ===== verification/Workers.thy ===== *)
theory Workers
  imports Example
begin

text \<open>
  The nightly workers: the organizations of the list are visited one after the other, each once, whatever
  fails for one of them, until the list is through or the context is cancelled; what a worker reports is
  what the visits answered.  The two workers are the same loop over pages, which is the locale \<open>paged_worker\<close>.
\<close>

section \<open>Computations that never fail\<close>

definition answers :: "('e, 's, 'a) comp \<Rightarrow> bool" where
  "answers m \<longleftrightarrow> (\<forall>e s. \<exists>x s'. m e s = (Inr x, s'))"

lemma answersE:
  assumes "answers m"
  obtains x s' where "m e s = (Inr x, s')"
  using assms unfolding answers_def by blast

lemma answers_ret [simp]: "answers (ret x)"
  by (simp add: answers_def ret_def)

lemma answers_chain [intro]:
  assumes "answers m" "\<And>x. answers (k x)"
  shows "answers (chain m k)"
  unfolding answers_def
proof (intro allI)
  fix e s
  obtain x s' where "m e s = (Inr x, s')" using answersE [OF assms(1)] .
  moreover obtain y s'' where "k x e s' = (Inr y, s'')" using answersE [OF assms(2)] .
  ultimately show "\<exists>y s''. chain m k e s = (Inr y, s'')" by (simp add: chain_def)
qed

lemma answers_attempt [intro]: "(\<And>r. answers (k r)) \<Longrightarrow> answers (attempt m k)"
  by (simp add: answers_def attempt_def split: prod.split)

lemma answers_ask [intro]: "(\<And>x. answers (k x)) \<Longrightarrow> answers (ask f k)"
  by (simp add: answers_def ask_def)

lemma answers_each: "(\<And>x. answers (f x)) \<Longrightarrow> answers (each f xs)"
  by (induction xs) auto

lemma answers_event: "answers (event ev)"
  by (simp add: answers_def event_def)

lemma answers_notify: "answers (notify_all f ls)"
  by (induction f ls rule: notify_all.induct) (auto intro: answers_event)

lemma answers_cancelled [simp]: "answers ctx_cancelled"
  by (simp add: answers_def ctx_cancelled_def)

text \<open>A billing run reports its errors in the result; it never fails.\<close>

lemma answers_advance: "answers (advance_items org g ds st)"
  by (induction org g ds st rule: advance_items.induct) (auto simp: Let_def split: prod.split sum.split intro!: answers_attempt)

lemma answers_bill: "answers (bill org g st)"
  unfolding bill_def by (auto split: sum.split intro!: answers_attempt answers_advance)

lemma answers_groups: "answers (bill_groups org gs st)"
  by (induction org gs st rule: bill_groups.induct) (auto intro: answers_bill)

lemma answers_rounds: "answers (bill_rounds k org today lead st)"
  by (induction k arbitrary: st) (auto simp: Let_def split: sum.split intro!: answers_attempt answers_chain answers_groups)

lemma answers_run: "answers (BillingRun_Run org)"
  unfolding BillingRun_Run_def finish_run_def Let_def Registry_ContractEnded_def
  by (auto split: sum.split prod.split option.split
      intro!: answers_ask answers_attempt answers_chain answers_rounds answers_each answers_notify)

lemma answers_organization: "answers (runOrganization org)"
  unfolding runOrganization_def by (auto split: sum.split intro!: answers_ask intro: answers_run)

section \<open>Visits\<close>

text \<open>
  Visiting organizations in order: each visit comes after a look at the context that found it not cancelled, and
  further looks (one for each page) may come between the visits.
\<close>

inductive visited :: "(string \<Rightarrow> 'r io) \<Rightarrow> env \<Rightarrow> string list \<Rightarrow> world \<Rightarrow> (err + 'r) list \<Rightarrow> world \<Rightarrow> bool" for m e where
  all_seen: "visited m e [] w [] w"
| look: "\<not> e_cancelled e (w_tick w) \<Longrightarrow> visited m e ids (tick w) rs w' \<Longrightarrow> visited m e ids w rs w'"
| visit: "\<not> e_cancelled e (w_tick w) \<Longrightarrow> m i e (tick w) = (r, w1) \<Longrightarrow> visited m e ids w1 rs w' \<Longrightarrow> visited m e (i # ids) w (r # rs) w'"

lemma visited_append:
  "visited m e xs w rs w1 \<Longrightarrow> visited m e ys w1 ss w2 \<Longrightarrow> visited m e (xs @ ys) w (rs @ ss) w2"
  by (induction rule: visited.induct) (auto intro: visited.look visited.visit)

lemma visited_length: "visited m e ids w rs w' \<Longrightarrow> length rs = length ids"
  by (induction rule: visited.induct) auto

text \<open>The visits ended: at the end of the list, or where the context was found cancelled.\<close>

definition stopped_at :: "env \<Rightarrow> nat \<Rightarrow> string list \<Rightarrow> world \<Rightarrow> err option \<Rightarrow> world \<Rightarrow> bool" where
  "stopped_at e k ids w stopped w' \<longleftrightarrow>
     k = length ids \<and> stopped = None \<and> w' = w \<or>
     k \<le> length ids \<and> stopped = Some ErrCancelled \<and> e_cancelled e (w_tick w) \<and> w' = tick w"

text \<open>The organization list as an adapter gives it: a window of one table.\<close>

definition lists_pages :: "env \<Rightarrow> string list \<Rightarrow> bool" where
  "lists_pages e ids \<longleftrightarrow> (\<forall>k. e_orgs e overduePageSize (overduePageSize * int k) = Inr (take 100 (drop (100 * k) ids)))"

section \<open>The loop of a worker\<close>

locale paged_worker =
  fixes visit :: "string \<Rightarrow> 'r io" and add :: "'s \<Rightarrow> err + 'r \<Rightarrow> 's"
    and page :: "string list \<Rightarrow> 's \<Rightarrow> ('s \<times> err option) io" and pages :: "nat \<Rightarrow> int \<Rightarrow> 's \<Rightarrow> ('s \<times> err option) io"
  assumes page_Nil: "page [] res e w = (Inr (res, None), w)"
    and page_cancelled: "e_cancelled e (w_tick w) \<Longrightarrow> page (i # ids) res e w = (Inr (res, Some ErrCancelled), tick w)"
    and page_visit: "\<not> e_cancelled e (w_tick w) \<Longrightarrow> visit i e (tick w) = (r, w1) \<Longrightarrow> page (i # ids) res e w = page ids (add res r) e w1"
    and pages_cancelled: "e_cancelled e (w_tick w) \<Longrightarrow> pages (Suc n) off res e w = (Inr (res, Some ErrCancelled), tick w)"
    and pages_page: "\<not> e_cancelled e (w_tick w) \<Longrightarrow> e_orgs e overduePageSize off = Inr ids \<Longrightarrow>
      page ids res e (tick w) = (Inr (res', stopped), w1) \<Longrightarrow>
      pages (Suc n) off res e w = (if stopped \<noteq> None \<or> int (length ids) < overduePageSize then (Inr (res', stopped), w1)
        else pages n (off + overduePageSize) res' e w1)"
begin

lemma page_visits:
  "\<exists>k rs stopped w1 w'. page ids res e w = (Inr (foldl add res rs, stopped), w') \<and>
     visited visit e (take k ids) w rs w1 \<and> stopped_at e k ids w1 stopped w'"
proof (induction ids arbitrary: res w)
  case Nil
  show ?case
    by (intro exI [of _ 0] exI [of _ "[]"] exI [of _ None] exI [of _ w]) (simp add: page_Nil stopped_at_def visited.all_seen)
next
  case (Cons i ids)
  show ?case
  proof (cases "e_cancelled e (w_tick w)")
    case True
    then show ?thesis
      by (intro exI [of _ 0] exI [of _ "[]"] exI [of _ "Some ErrCancelled"] exI [of _ w] exI [of _ "tick w"])
        (simp add: page_cancelled stopped_at_def visited.all_seen)
  next
    case False
    obtain r w0 where r: "visit i e (tick w) = (r, w0)" by fastforce
    obtain k rs stopped w1 w' where "page ids (add res r) e w0 = (Inr (foldl add (add res r) rs, stopped), w')"
        "visited visit e (take k ids) w0 rs w1" "stopped_at e k ids w1 stopped w'" using Cons.IH by blast
    then show ?thesis
      using page_visit [OF False r] visited.visit [of e w visit i, OF False r]
      by (intro exI [of _ "Suc k"] exI [of _ "r # rs"] exI [of _ stopped] exI [of _ w1] exI [of _ w']) (auto simp: stopped_at_def)
  qed
qed

lemma pages_visits:
  assumes "lists_pages e ids"
  shows "length ids < 100 * (k + n) \<Longrightarrow> 100 * k \<le> length ids \<Longrightarrow>
    \<exists>j rs stopped w1 w'. pages n (overduePageSize * int k) res e w = (Inr (foldl add res rs, stopped), w') \<and>
      visited visit e (take j (drop (100 * k) ids)) w rs w1 \<and> stopped_at e j (drop (100 * k) ids) w1 stopped w'"
proof (induction n arbitrary: k res w)
  case (Suc n)
  define xs where "xs = drop (100 * k) ids"
  have orgs: "e_orgs e overduePageSize (overduePageSize * int k) = Inr (take 100 xs)"
    using assms by (simp add: lists_pages_def xs_def)
  show ?case
  proof (cases "e_cancelled e (w_tick w)")
    case True
    then show ?thesis
      by (intro exI [of _ 0] exI [of _ "[]"] exI [of _ "Some ErrCancelled"] exI [of _ w] exI [of _ "tick w"])
        (simp add: pages_cancelled stopped_at_def visited.all_seen)
  next
    case False
    obtain i rs stopped w1 w' where page: "page (take 100 xs) res e (tick w) = (Inr (foldl add res rs, stopped), w')"
        "visited visit e (take i (take 100 xs)) (tick w) rs w1" "stopped_at e i (take 100 xs) w1 stopped w'"
      using page_visits by blast
    note turn = pages_page [OF False orgs page(1), of n]
    have here: "visited visit e (take i (take 100 xs)) w rs w1" using visited.look [OF False page(2)] .
    show ?thesis
    proof (cases "stopped = None \<and> \<not> length xs < 100")
      case True
      then have i: "i = 100" "w' = w1" "int (length (take 100 xs)) = overduePageSize" using page(3) by (auto simp: stopped_at_def overduePageSize_def)
      have "100 * Suc k \<le> length ids" "length ids < 100 * (Suc k + n)" using True Suc.prems by (auto simp: xs_def)
      then obtain j ss stopped' w2 w'' where rest: "pages n (overduePageSize * int (Suc k)) (foldl add res rs) e w1 = (Inr (foldl add (foldl add res rs) ss, stopped'), w'')"
          "visited visit e (take j (drop (100 * Suc k) ids)) w1 ss w2" "stopped_at e j (drop (100 * Suc k) ids) w2 stopped' w''"
        using Suc.IH by blast
      have next_off: "overduePageSize * int k + overduePageSize = overduePageSize * int (Suc k)" by (simp add: algebra_simps)
      have tail: "drop 100 xs = drop (100 * Suc k) ids" by (simp add: xs_def add.commute)
      have "visited visit e (take 100 xs @ take j (drop 100 xs)) w (rs @ ss) w2"
        using visited_append [OF here rest(2)] i(1) unfolding tail by simp
      moreover have "take 100 xs @ take j (drop 100 xs) = take (100 + j) xs" by (simp add: take_add)
      moreover have "stopped_at e (100 + j) xs w2 stopped' w''" using rest(3) True unfolding stopped_at_def tail [symmetric] by auto
      ultimately show ?thesis
        using turn rest(1) True i unfolding xs_def [symmetric] next_off
        by (intro exI [of _ "100 + j"] exI [of _ "rs @ ss"] exI [of _ stopped'] exI [of _ w2] exI [of _ w'']) simp
    next
      case stop: False
      then have "pages (Suc n) (overduePageSize * int k) res e w = (Inr (foldl add res rs, stopped), w')"
        using turn by (auto simp: overduePageSize_def)
      moreover have "stopped_at e (min i 100) xs w1 stopped w'" using page(3) stop by (auto simp: stopped_at_def)
      ultimately show ?thesis
        using here unfolding xs_def [symmetric] take_take by blast
    qed
  qed
qed simp

lemma worker_visits:
  assumes "lists_pages e ids" "length ids < 100 * n"
  shows "\<exists>k rs stopped w1 w'. pages n 0 res e w = (Inr (foldl add res rs, stopped), w') \<and>
    visited visit e (take k ids) w rs w1 \<and> stopped_at e k ids w1 stopped w'"
  using pages_visits [OF assms(1), of 0 n res w] assms(2) by simp

end

section \<open>The two workers\<close>

definition add_run :: "BillingRunnerResult \<Rightarrow> err + (BillingRunResult \<times> err option) \<Rightarrow> BillingRunnerResult" where
  "add_run res r = (case r of Inl _ \<Rightarrow> res | Inr out \<Rightarrow> add_result res out)"

lemma run_pages_turn:
  assumes "\<not> e_cancelled e (w_tick w)" "e_orgs e overduePageSize off = Inr ids" "run_page ids res e (tick w) = (Inr (res', stopped), w1)"
  shows "run_pages (Suc n) off res e w = (if stopped \<noteq> None \<or> int (length ids) < overduePageSize then (Inr (res', stopped), w1)
    else run_pages n (off + overduePageSize) res' e w1)"
  using assms by (simp add: ctx_cancelled_def chain_def ret_def ask_def del: run_page.simps)

lemma overdue_pages_turn:
  assumes "\<not> e_cancelled e (w_tick w)" "e_orgs e overduePageSize off = Inr ids" "mark_page today ids res e (tick w) = (Inr (res', stopped), w1)"
  shows "overdue_pages (Suc n) today off res e w = (if stopped \<noteq> None \<or> int (length ids) < overduePageSize then (Inr (res', stopped), w1)
    else overdue_pages n today (off + overduePageSize) res' e w1)"
  using assms by (simp add: ctx_cancelled_def chain_def ret_def ask_def del: mark_page.simps)

lemma run_page_turn:
  assumes "\<not> e_cancelled e (w_tick w)" "runOrganization i e (tick w) = (r, w1)"
  shows "run_page (i # ids) res e w = run_page ids (add_run res r) e w1"
proof -
  obtain x where "r = Inr x" using answersE [OF answers_organization, of i e "tick w"] assms(2) by (metis prod.inject)
  then show ?thesis using assms by (simp add: chain_def ctx_cancelled_def add_run_def)
qed

interpretation billing: paged_worker runOrganization add_run run_page run_pages
  by unfold_locales (simp_all add: run_page_turn run_pages_turn del: run_page.simps(2) run_pages.simps(2),
    simp_all add: ret_def ctx_cancelled_def chain_def)

interpretation overdue: paged_worker "\<lambda>org. markOrganization org today" add_marked "mark_page today" "\<lambda>n. overdue_pages n today" for today
  by unfold_locales (simp_all add: overdue_pages_turn del: mark_page.simps(2) overdue_pages.simps(2),
    simp_all add: ret_def ctx_cancelled_def chain_def attempt_def)

text \<open>What the visits answered, counted.\<close>

lemma foldl_add_run:
  "foldl add_run res (map Inr outs) = \<lparr>rr_checked = rr_checked res + length outs,
     rr_invoices = rr_invoices res + (\<Sum>(out, er) \<leftarrow> outs. br_invoices out), rr_advanced = rr_advanced res + (\<Sum>(out, er) \<leftarrow> outs. br_advanced out),
     rr_ended = rr_ended res + (\<Sum>(out, er) \<leftarrow> outs. br_ended out),
     rr_failed = rr_failed res + length (filter (\<lambda>(out, er). er \<noteq> None \<or> br_errors out \<noteq> []) outs)\<rparr>"
  by (induction outs arbitrary: res) (auto simp: add_run_def add_result_def)

lemma foldl_add_marked:
  "foldl add_marked res rs = \<lparr>or_checked = or_checked res + length rs,
     or_marked = or_marked res + (\<Sum>r \<leftarrow> rs. case r of Inl _ \<Rightarrow> 0 | Inr n \<Rightarrow> n), or_failed = or_failed res + length (filter isl rs)\<rparr>"
  by (induction rs arbitrary: res) (auto simp: add_marked_def split: sum.split)

lemma visited_runs: "visited runOrganization e ids w rs w' \<Longrightarrow> \<exists>outs. rs = map Inr outs"
proof (induction rule: visited.induct)
  case (visit w i r w1 ids rs w')
  then obtain outs where "rs = map Inr outs" by blast
  moreover obtain x where "r = Inr x" using answersE [OF answers_organization, of i e "tick w"] visit(2) by (metis prod.inject)
  ultimately have "r # rs = map Inr (x # outs)" by simp
  then show ?case by (rule exI)
qed auto

text \<open>
  C8. The nightly runs end and leave nobody out.  When the organization list is a window of one finite table and the loop may
  turn once more than the table has full pages, both workers return; they visit the organizations of the list in its order, each
  once, whatever the visits answer, up to the end of the list, or up to the first look at a context that is cancelled, which is then the error
  they return.  What they report is what the visits answered: how many there were, the sums of their results, and how many failed.
\<close>

theorem workers_return:
  assumes "lists_pages e ids" "length ids < 100 * fuel"
  shows "(\<exists>k outs stopped w1 w' res. BillingRunner_RunOnce fuel e w = (Inr (res, stopped), w') \<and>
      visited runOrganization e (take k ids) w (map Inr outs) w1 \<and> stopped_at e k ids w1 stopped w' \<and>
      res = \<lparr>rr_checked = k, rr_invoices = (\<Sum>(out, er) \<leftarrow> outs. br_invoices out), rr_advanced = (\<Sum>(out, er) \<leftarrow> outs. br_advanced out),
        rr_ended = (\<Sum>(out, er) \<leftarrow> outs. br_ended out),
        rr_failed = length (filter (\<lambda>(out, er). er \<noteq> None \<or> br_errors out \<noteq> []) outs)\<rparr>) \<and>
    (\<exists>k rs stopped w1 w' res. OverdueRunner_RunOnce fuel e w = (Inr (res, stopped), w') \<and>
      visited (\<lambda>org. markOrganization org (DayOf (e_now e))) e (take k ids) w rs w1 \<and> stopped_at e k ids w1 stopped w' \<and>
      res = \<lparr>or_checked = k, or_marked = (\<Sum>r \<leftarrow> rs. case r of Inl _ \<Rightarrow> 0 | Inr n \<Rightarrow> n), or_failed = length (filter isl rs)\<rparr>)"
proof
  have len: "length (take k ids) = k" if "stopped_at e k ids w1 stopped w'" for k w1 stopped w'
    using that by (auto simp: stopped_at_def)
  obtain k rs stopped w1 w' where b: "BillingRunner_RunOnce fuel e w = (Inr (foldl add_run \<lparr>rr_checked = 0, rr_invoices = 0, rr_advanced = 0, rr_ended = 0, rr_failed = 0\<rparr> rs, stopped), w')"
      "visited runOrganization e (take k ids) w rs w1" "stopped_at e k ids w1 stopped w'"
    using billing.worker_visits [OF assms] unfolding BillingRunner_RunOnce_def by blast
  obtain outs where outs: "rs = map Inr outs" using visited_runs [OF b(2)] by blast
  have "length outs = k" using visited_length [OF b(2)] len [OF b(3)] by (simp add: outs)
  then show "\<exists>k outs stopped w1 w' res. BillingRunner_RunOnce fuel e w = (Inr (res, stopped), w') \<and>
      visited runOrganization e (take k ids) w (map Inr outs) w1 \<and> stopped_at e k ids w1 stopped w' \<and>
      res = \<lparr>rr_checked = k, rr_invoices = (\<Sum>(out, er) \<leftarrow> outs. br_invoices out), rr_advanced = (\<Sum>(out, er) \<leftarrow> outs. br_advanced out),
        rr_ended = (\<Sum>(out, er) \<leftarrow> outs. br_ended out),
        rr_failed = length (filter (\<lambda>(out, er). er \<noteq> None \<or> br_errors out \<noteq> []) outs)\<rparr>"
    using b unfolding outs foldl_add_run by (intro exI conjI; assumption?) simp_all
  obtain j ss stopped' w2 w'' where o: "OverdueRunner_RunOnce fuel e w = (Inr (foldl add_marked \<lparr>or_checked = 0, or_marked = 0, or_failed = 0\<rparr> ss, stopped'), w'')"
      "visited (\<lambda>org. markOrganization org (DayOf (e_now e))) e (take j ids) w ss w2" "stopped_at e j ids w2 stopped' w''"
    using overdue.worker_visits [OF assms] unfolding OverdueRunner_RunOnce_def ask_def by blast
  have "length ss = j" using visited_length [OF o(2)] len [OF o(3)] by simp
  then show "\<exists>k rs stopped w1 w' res. OverdueRunner_RunOnce fuel e w = (Inr (res, stopped), w') \<and>
      visited (\<lambda>org. markOrganization org (DayOf (e_now e))) e (take k ids) w rs w1 \<and> stopped_at e k ids w1 stopped w' \<and>
      res = \<lparr>or_checked = k, or_marked = (\<Sum>r \<leftarrow> rs. case r of Inl _ \<Rightarrow> 0 | Inr n \<Rightarrow> n), or_failed = length (filter isl rs)\<rparr>"
    using o unfolding foldl_add_marked by (intro exI conjI; assumption?) simp_all
qed

definition paged_env :: env where
  "paged_env = example_env\<lparr>e_orgs := (\<lambda>n off. Inr (take (nat n) (drop (nat off) [''o'', ''p'', ''q''])))\<rparr>"

theorem workers_return_witness:
  "(\<exists>res w'. BillingRunner_RunOnce 1 paged_env example_world = (Inr (res, None), w') \<and> rr_checked res = 3)
    \<and> (\<exists>res w'. OverdueRunner_RunOnce 1 paged_env example_world = (Inr (res, None), w') \<and> or_checked res = 3)"
proof -
  have "lists_pages paged_env [''o'', ''p'', ''q'']"
    by (auto simp: lists_pages_def paged_env_def overduePageSize_def nat_mult_distrib)
  moreover have "stopped_at paged_env k [''o'', ''p'', ''q''] w1 stopped w' \<longleftrightarrow> k = 3 \<and> stopped = None \<and> w' = w1" for k w1 stopped w'
    by (auto simp: stopped_at_def paged_env_def example_env_def)
  ultimately show ?thesis using workers_return [of paged_env "[''o'', ''p'', ''q'']" 1 example_world] by force
qed

end
