(* ===== verification/FinTables.thy ===== *)
theory FinTables
  imports Amounts
begin

text \<open>
  The finance module's state: its tables (\<open>src/migrations/000095..000117\<close>; numeric columns
  hold hundredths, a nullable text is empty when null), the entry number sequence, and the helpers
  of \<open>service/helpers.go\<close> and \<open>repository/helpers.go\<close>.  The module is one ledger for the
  whole platform: nothing in it is scoped to an organization.
\<close>

section \<open>Models (finance/model)\<close>

record AccountType =
  ty_id :: string
  ty_code :: string
  ty_name :: string
  ty_normal :: string
  ty_statement :: string
  ty_sort :: int

record AccountCategory =
  cg_id :: string
  cg_type_id :: string
  cg_code :: string
  cg_name :: string
  cg_section :: string
  cg_sort :: int

record gl_account =
  gl_id :: string
  gl_code :: string
  gl_name :: string
  gl_category :: "string option"
  gl_parent :: "string option"
  gl_header :: bool
  gl_normal :: string
  gl_active :: bool
  gl_opening :: int
  gl_opening_date :: "date option"
  gl_description :: string
  gl_created_at :: instant
  gl_updated_at :: instant
  gl_deleted_at :: "instant option"

datatype FiscalStatus = FiscalStatusOpen | FiscalStatusClosed

record FiscalYear =
  fy_id :: string
  fy_year :: int
  fy_start :: date
  fy_end :: date
  fy_status :: FiscalStatus
  fy_closed_at :: "instant option"
  fy_closed_by :: "string option"

record FiscalPeriod =
  fp_id :: string
  fp_year_id :: string
  fp_number :: int
  fp_start :: date
  fp_end :: date
  fp_status :: FiscalStatus
  fp_closed_at :: "instant option"
  fp_closed_by :: "string option"

datatype JournalStatus = JournalStatusDraft | JournalStatusPosted | JournalStatusReversed

datatype JournalSourceType =
    JournalSourceManual | JournalSourceOpeningBalance | JournalSourceDepreciation
  | JournalSourceAR | JournalSourceAP | JournalSourceTax | JournalSourceCashBank

datatype SubledgerType = SubledgerNone | SubledgerCustomer | SubledgerVendor | SubledgerAsset | SubledgerTaxCode

record journal_entry =
  je_id :: string
  je_number :: string
  je_date :: date
  je_period :: string
  je_source :: JournalSourceType
  je_source_id :: "string option"
  je_reference :: string
  je_description :: string
  je_status :: JournalStatus
  je_posted_at :: "instant option"
  je_reversed_by :: "string option"
  je_created_by :: "string option"
  je_created_at :: instant
  je_updated_at :: instant

record journal_line =
  jl_id :: string
  jl_entry :: string
  jl_number :: int
  jl_account :: string
  jl_debit :: int
  jl_credit :: int
  jl_description :: string
  jl_subledger :: SubledgerType
  jl_subledger_id :: "string option"
  jl_created_at :: instant

datatype CashBankAccountType = CashBankAccountTypeCash | CashBankAccountTypeBank

record cash_account =
  cb_id :: string
  cb_account :: string
  cb_type :: CashBankAccountType
  cb_bank_name :: string
  cb_number :: string
  cb_holder :: string
  cb_currency :: string
  cb_active :: bool
  cb_created_at :: instant
  cb_updated_at :: instant

datatype CashTransactionType = CashTransactionTypeCashIn | CashTransactionTypeCashOut | CashTransactionTypeTransfer

record cash_transaction =
  cx_id :: string
  cx_account :: string
  cx_date :: date
  cx_type :: CashTransactionType
  cx_amount :: int
  cx_counter :: "string option"
  cx_contra :: "string option"
  cx_reference :: string
  cx_description :: string
  cx_entry :: string
  cx_created_by :: "string option"
  cx_created_at :: instant

datatype BankReconciliationStatus = BankReconciliationStatusDraft | BankReconciliationStatusCompleted

record BankReconciliation =
  br_id :: string
  br_account :: string
  br_date :: date
  br_statement :: int
  br_book :: int
  br_status :: BankReconciliationStatus
  br_notes :: string
  br_completed_at :: "instant option"
  br_completed_by :: "string option"
  br_created_at :: instant

datatype PartnerType = PartnerTypeCustomer | PartnerTypeVendor

record business_partner =
  bp_id :: string
  bp_type :: PartnerType
  bp_code :: string
  bp_name :: string
  bp_tax_id :: string
  bp_address :: string
  bp_control :: string
  bp_active :: bool
  bp_created_at :: instant
  bp_updated_at :: instant
  bp_deleted_at :: "instant option"

datatype ARAPTransactionType = ARAPTransactionTypeReceivable | ARAPTransactionTypePayable

datatype ARAPTransactionStatus = ARAPStatusOpen | ARAPStatusPartiallyPaid | ARAPStatusPaid | ARAPStatusVoid

record arap_transaction =
  ap_id :: string
  ap_partner :: string
  ap_type :: ARAPTransactionType
  ap_date :: date
  ap_due :: date
  ap_reference :: string
  ap_amount :: int
  ap_contra :: string
  ap_description :: string
  ap_status :: ARAPTransactionStatus
  ap_entry :: string
  ap_created_by :: "string option"
  ap_created_at :: instant
  ap_updated_at :: instant

record arap_payment =
  ay_id :: string
  ay_partner :: string
  ay_date :: date
  ay_amount :: int
  ay_cash :: string
  ay_entry :: string
  ay_notes :: string
  ay_created_by :: "string option"
  ay_created_at :: instant

record arap_allocation =
  al_id :: string
  al_payment :: string
  al_transaction :: string
  al_amount :: int

record asset_category =
  fc_id :: string
  fc_code :: string
  fc_name :: string
  fc_asset :: string
  fc_accumulated :: string
  fc_expense :: string
  fc_life :: "int option"
  fc_active :: bool

datatype AssetStatus = AssetStatusActive | AssetStatusFullyDepreciated

record fixed_asset =
  fa_id :: string
  fa_category :: string
  fa_code :: string
  fa_name :: string
  fa_date :: date
  fa_cost :: int
  fa_salvage :: int
  fa_life :: int
  fa_description :: string
  fa_contra :: string
  fa_entry :: string
  fa_status :: AssetStatus
  fa_created_by :: "string option"

datatype DepreciationStatus = DepreciationStatusPending | DepreciationStatusPosted

record depreciation_row =
  dp_id :: string
  dp_asset :: string
  dp_number :: int
  dp_date :: date
  dp_amount :: int
  dp_status :: DepreciationStatus
  dp_entry :: "string option"
  dp_posted_at :: "instant option"

datatype TaxDirection = TaxDirectionIncrease | TaxDirectionDecrease

record TaxType =
  tt_id :: string
  tt_code :: string
  tt_name :: string
  tt_category :: string

record tax_rate =
  tr_id :: string
  tr_type :: string
  tr_percent :: int
  tr_effective :: date
  tr_end :: "date option"
  tr_notes :: string

record tax_transaction =
  tx_id :: string
  tx_type :: string
  tx_date :: date
  tx_reference :: string
  tx_amount :: int
  tx_direction :: TaxDirection
  tx_account :: string
  tx_contra :: string
  tx_description :: string
  tx_entry :: string
  tx_created_by :: "string option"
  tx_created_at :: instant

section \<open>Tables and transactions\<close>

record fdb =
  f_types :: "AccountType list"
  f_categories :: "AccountCategory list"
  f_accounts :: "gl_account list"
  f_years :: "FiscalYear list"
  f_periods :: "FiscalPeriod list"
  f_entries :: "journal_entry list"
  f_lines :: "journal_line list"
  f_cash_accounts :: "cash_account list"
  f_cash_transactions :: "cash_transaction list"
  f_reconciliations :: "BankReconciliation list"
  f_partners :: "business_partner list"
  f_transactions :: "arap_transaction list"
  f_payments :: "arap_payment list"
  f_allocations :: "arap_allocation list"
  f_asset_categories :: "asset_category list"
  f_assets :: "fixed_asset list"
  f_schedules :: "depreciation_row list"
  f_tax_types :: "TaxType list"
  f_tax_rates :: "tax_rate list"
  f_tax_transactions :: "tax_transaction list"
  f_next :: nat

record fworld =
  fw_db :: fdb
  fw_seq :: nat
  fw_tick :: nat

type_synonym 'a ftx = "(env, fdb, 'a) comp"
type_synonym 'a fio = "(env, fworld, 'a) comp"

text \<open>
  One transaction, or one statement of its own: it may fail before anything is done, roll back, or
  commit with its acknowledgement lost.
\<close>

definition fin_tx :: "'a ftx \<Rightarrow> 'a fio" where
  "fin_tx body = (\<lambda>e w.
     let t = w\<lparr>fw_tick := Suc (fw_tick w)\<rparr> in
     if e_fault e (fw_tick w) = FailBefore then (Inl DbFault, t)
     else case body e (fw_db w) of
            (Inl er, _) \<Rightarrow> (Inl er, t)
          | (Inr a, d) \<Rightarrow> (if e_fault e (fw_tick w) = FailAfter then Inl DbFault else Inr a, t\<lparr>fw_db := d\<rparr>))"

text \<open>\<open>$1::uuid\<close>, \<open>$1::numeric\<close> written to a \<open>numeric(p,2)\<close> column, \<open>varchar(n)\<close>, and a reference to \<open>users\<close>.\<close>

definition uuid_arg :: "string \<Rightarrow> string ftx" where
  "uuid_arg s = ask (\<lambda>e. e_uuid_in e s) (\<lambda>r. case r of None \<Rightarrow> raise InvalidText | Some u \<Rightarrow> ret u)"

definition uuid_null :: "string option \<Rightarrow> string option ftx" where
  "uuid_null v = (case v of None \<Rightarrow> ret None | Some s \<Rightarrow> chain (uuid_arg s) (\<lambda>u. ret (Some u)))"

definition money_arg :: "string \<Rightarrow> int ftx" where
  "money_arg s = ask (\<lambda>e. numeric_in (10 ^ 18) e s) lift"

definition varchar :: "nat \<Rightarrow> string \<Rightarrow> unit ftx" where
  "varchar n s = ensure (RuneCount s \<le> n) StringTooLong"

definition user_ref :: "string option \<Rightarrow> unit ftx" where
  "user_ref u = ask (\<lambda>e. case u of None \<Rightarrow> True | Some i \<Rightarrow> e_users e i) (\<lambda>ok. ensure ok (ForeignKeyViolation ''users''))"

text \<open>A row's own id, different from the ids of its table.\<close>

definition fresh_id :: "(fdb \<Rightarrow> string list) \<Rightarrow> string ftx" where
  "fresh_id ids =
     chain (\<lambda>e d. (Inr (e_uuid e (f_next d)), d\<lparr>f_next := Suc (f_next d)\<rparr>)) (\<lambda>u.
     get ids (\<lambda>xs. chain (ensure (u \<notin> set xs) (UniqueViolation ''pkey'')) (\<lambda>_. ret u)))"

definition account_ref :: "string \<Rightarrow> unit ftx" where
  "account_ref a = get f_accounts (\<lambda>rows. ensure (a \<in> gl_id ` set rows) (ForeignKeyViolation ''finance_accounts''))"

section \<open>Helpers (service/helpers.go, repository/helpers.go)\<close>

definition nullableUUID :: "string option \<Rightarrow> string option" where
  "nullableUUID v =
     (case v of None \<Rightarrow> None | Some s \<Rightarrow> if TrimSpace s = [] then None else Some (TrimSpace s))"

definition amountOrZero :: "string \<Rightarrow> string" where
  "amountOrZero s = (if TrimSpace s = [] then ''0'' else TrimSpace s)"

definition parseMoneyForCompare :: "string \<Rightarrow> err + rat" where
  "parseMoneyForCompare s =
     (let v = TrimSpace s in
      if v = [] then Inr 0
      else case SetString v of
             None \<Rightarrow> Inl (Sentinel (ErrorText (''finance: invalid amount '' @ v)))
           | Some r \<Rightarrow> Inr r)"

text \<open>\<open>(page - 1) * perPage\<close> in 64-bit arithmetic.\<close>

definition page_offset :: "int \<Rightarrow> int \<Rightarrow> int" where
  "page_offset p n = int64 (int64 (p - 1) * n)"

definition pagination :: "int \<Rightarrow> int \<Rightarrow> int \<times> int" where
  "pagination limit offset = (if limit \<le> 0 then 20 else limit, if offset < 0 then 0 else offset)"

definition fin_page :: "int \<Rightarrow> int \<Rightarrow> 'a list \<Rightarrow> 'a list" where
  "fin_page limit offset xs =
     (let (l, off) = pagination limit offset in take (nat l) (drop (nat off) xs))"

definition normalizePage :: "int \<Rightarrow> int \<Rightarrow> int \<times> int" where
  "normalizePage p n = (if p \<le> 0 then 1 else p, if n \<le> 0 \<or> n > 200 then 20 else n)"

definition totalPagesOf :: "int \<Rightarrow> int \<Rightarrow> int" where
  "totalPagesOf perPage rows = (if rows \<le> 0 then 0 else int64 (int64 (rows + perPage) - 1) sdiv perPage)"

definition moneyRat :: "string \<Rightarrow> err + rat" where
  "moneyRat s =
     (let v = TrimSpace s in
      if v = [] then Inr 0
      else case SetString v of
             None \<Rightarrow> Inl (Finance (ValidationError (''invalid amount: '' @ v)))
           | Some r \<Rightarrow> Inr r)"

text \<open>\<open>amount, _ := moneyRat(s)\<close>: on an error the value is nil, which no caller meets.\<close>

definition money_of :: "string \<Rightarrow> rat" where
  "money_of s = (case moneyRat s of Inl _ \<Rightarrow> 0 | Inr r \<Rightarrow> r)"

abbreviation formatMoney :: "rat \<Rightarrow> string" where
  "formatMoney \<equiv> FloatString2"

definition roundMoney :: "rat \<Rightarrow> rat" where
  "roundMoney x = money_of (formatMoney x)"

text \<open>\<open>time.Parse("2006-01-02", s)\<close>.\<close>

definition parse_ymd :: "string \<Rightarrow> date option" where
  "parse_ymd s =
     (if length s = 10 \<and> s ! 4 = CHR ''-'' \<and> s ! 7 = CHR ''-'' \<and>
         list_all is_digit (take 4 s) \<and> list_all is_digit (take 2 (drop 5 s)) \<and> list_all is_digit (drop 8 s)
      then let y = int (dec_value (take 4 s)); m = int (dec_value (take 2 (drop 5 s))); d = int (dec_value (drop 8 s))
           in if 1 \<le> m \<and> m \<le> 12 \<and> 1 \<le> d \<and> d \<le> dim (12 * y + (m - 1)) then Some (Date y m d) else None
      else None)"

definition parseRequiredDate :: "string \<Rightarrow> err + date" where
  "parseRequiredDate s =
     (let v = TrimSpace s in
      if v = [] then Inl (Finance (ValidationError ''date is required''))
      else case parse_ymd v of
             None \<Rightarrow> Inl (Finance (ValidationError (''invalid date '' @ v @ '', expected YYYY-MM-DD'')))
           | Some d \<Rightarrow> Inr d)"

definition parseOptionalDate :: "string option \<Rightarrow> err + date option" where
  "parseOptionalDate v =
     (case v of
        None \<Rightarrow> Inr None
      | Some s \<Rightarrow> (if TrimSpace s = [] then Inr None
                  else case parseRequiredDate s of Inl er \<Rightarrow> Inl er | Inr d \<Rightarrow> Inr (Some d)))"

definition formatDate :: "date \<Rightarrow> string" where
  "formatDate d = (if IsZero (at_midnight d) then [] else ymd d)"

definition trimmedOrNil :: "string \<Rightarrow> string option" where
  "trimmedOrNil s = (if TrimSpace s = [] then None else Some (TrimSpace s))"

text \<open>\<open>isUniqueViolation\<close>, and the mappings of \<open>service/errors.go\<close>.\<close>

fun isUniqueViolation :: "err \<Rightarrow> bool" where
  "isUniqueViolation (UniqueViolation _) = True"
| "isUniqueViolation _ = False"

definition map_missing :: "finance_error \<Rightarrow> finance_error \<Rightarrow> err \<Rightarrow> err" where
  "map_missing missing taken er =
     (if er = NoRows then Finance missing else if isUniqueViolation er then Finance taken else er)"

definition mapAccountError :: "err \<Rightarrow> err" where
  "mapAccountError = map_missing AccountNotFoundError AccountCodeTakenError"

definition mapFiscalYearError :: "err \<Rightarrow> err" where
  "mapFiscalYearError = map_missing FiscalYearNotFoundError FiscalYearExistsError"

definition mapFiscalPeriodError :: "err \<Rightarrow> err" where
  "mapFiscalPeriodError er = (if er = NoRows then Finance FiscalPeriodNotFoundError else er)"

definition mapReconciliationError :: "err \<Rightarrow> err" where
  "mapReconciliationError er =
     (if er = Sentinel ErrBankReconciliationNotFound then Finance ReconciliationNotFoundError else er)"

definition mapPartnerError :: "err \<Rightarrow> err" where
  "mapPartnerError = map_missing PartnerNotFoundError (ValidationError ''partner code is already in use'')"

definition mapARAPError :: "err \<Rightarrow> err" where
  "mapARAPError er =
     (if er = Sentinel ErrARAPTransactionTypeMismatch
      then Finance (ValidationError ''transaction_type does not match the partner's type (customer=receivable, vendor=payable)'')
      else if er = Sentinel ErrARAPOverpayment
      then Finance (ValidationError ''payment amount exceeds the transaction's outstanding balance'')
      else if er = NoRows then Finance ARAPTransactionNotFoundError else er)"

definition mapAssetCategoryError :: "err \<Rightarrow> err" where
  "mapAssetCategoryError = map_missing AssetCategoryNotFoundError (ValidationError ''asset category code is already in use'')"

definition mapFixedAssetError :: "err \<Rightarrow> err" where
  "mapFixedAssetError = map_missing FixedAssetNotFoundError (ValidationError ''asset code is already in use'')"

definition mapTaxError :: "err \<Rightarrow> err" where
  "mapTaxError =
     map_missing TaxTypeNotFoundError (ValidationError ''a tax rate for this tax type already exists effective on this date'')"

definition mapJournalError :: "err \<Rightarrow> err" where
  "mapJournalError er =
     (if er = Sentinel ErrFiscalPeriodClosed then Finance PeriodClosedError
      else if er = Sentinel ErrNoFiscalPeriod then Finance NoFiscalPeriodError
      else if er = Sentinel ErrJournalEntryNotPosted then Finance JournalNotPostedError
      else if er = NoRows then Finance JournalNotFoundError else er)"

end
