(* ===== verification/Chart.thy ===== *)
theory Chart
  imports FinTables
begin

text \<open>
  The chart of accounts and the fiscal calendar: \<open>repository/account_repository.go\<close>,
  \<open>service/account_service.go\<close>, \<open>repository/fiscal_repository.go\<close> and
  \<open>service/fiscal_service.go\<close> of the finance module.
\<close>

section \<open>Accounts (account_repository.go)\<close>

record GLAccount =
  ga_row :: gl_account
  ga_category_code :: string
  ga_category_name :: string
  ga_type_code :: string

record CreateAccountParams =
  cap_code :: string
  cap_name :: string
  cap_category :: "string option"
  cap_parent :: "string option"
  cap_header :: bool
  cap_normal :: string
  cap_opening :: string
  cap_opening_date :: "date option"
  cap_description :: string

record UpdateAccountParams =
  uap_id :: string
  uap_name :: string
  uap_category :: "string option"
  uap_parent :: "string option"
  uap_active :: bool
  uap_opening :: string
  uap_opening_date :: "date option"
  uap_description :: string

definition GLAccounts_ListTypes :: "AccountType list ftx" where
  "GLAccounts_ListTypes = get f_types (\<lambda>rows. ret (sort_key ty_sort rows))"

definition GLAccounts_ListCategories :: "AccountCategory list ftx" where
  "GLAccounts_ListCategories = get f_categories (\<lambda>rows. ret (sort_key cg_sort rows))"

text \<open>\<open>RETURNING ... ''::text, ''::text, ''::text\<close>: the joined columns are empty.\<close>

definition returned_account :: "gl_account \<Rightarrow> GLAccount" where
  "returned_account a = \<lparr>ga_row = a, ga_category_code = [], ga_category_name = [], ga_type_code = []\<rparr>"

definition category_ref :: "string option \<Rightarrow> unit ftx" where
  "category_ref c = get f_categories (\<lambda>rows. ensure (case c of None \<Rightarrow> True | Some i \<Rightarrow> i \<in> cg_id ` set rows)
     (ForeignKeyViolation ''finance_account_categories''))"

definition parent_ref :: "string option \<Rightarrow> unit ftx" where
  "parent_ref p = (case p of None \<Rightarrow> ret () | Some i \<Rightarrow> account_ref i)"

definition account_checks :: "bool \<Rightarrow> string \<Rightarrow> string \<Rightarrow> string option \<Rightarrow> unit ftx" where
  "account_checks header normal name category =
     guards [(normal = ''debit'' \<or> normal = ''credit'', CheckViolation ''finance_accounts_normal_balance_check''),
             (header \<or> category \<noteq> None, CheckViolation ''finance_accounts_leaf_category_check''),
             (\<not> btrim_blank name, CheckViolation ''finance_accounts_name_not_blank_check'')]"

definition GLAccounts_Create :: "CreateAccountParams \<Rightarrow> GLAccount ftx" where
  "GLAccounts_Create p =
     chain (uuid_null (nullableUUID (cap_category p))) (\<lambda>category.
     chain (uuid_null (nullableUUID (cap_parent p))) (\<lambda>parent.
     chain (money_arg (amountOrZero (cap_opening p))) (\<lambda>opening.
     chain (varchar 20 (TrimSpace (cap_code p))) (\<lambda>_.
     chain (varchar 150 (TrimSpace (cap_name p))) (\<lambda>_.
     chain (account_checks (cap_header p) (cap_normal p) (TrimSpace (cap_name p)) category) (\<lambda>_.
     chain (fresh_id (\<lambda>d. map gl_id (f_accounts d))) (\<lambda>i.
     chain (get f_accounts (\<lambda>rows.
       ensure (\<forall>a \<in> set rows. gl_deleted_at a = None \<longrightarrow> gl_code a \<noteq> TrimSpace (cap_code p))
         (UniqueViolation ''idx_finance_accounts_code_active_unique''))) (\<lambda>_.
     chain (category_ref category) (\<lambda>_.
     chain (parent_ref parent) (\<lambda>_.
     ask e_now (\<lambda>now.
       let a = \<lparr>gl_id = i, gl_code = TrimSpace (cap_code p), gl_name = TrimSpace (cap_name p), gl_category = category,
                gl_parent = parent, gl_header = cap_header p, gl_normal = cap_normal p, gl_active = True,
                gl_opening = opening, gl_opening_date = cap_opening_date p, gl_description = cap_description p,
                gl_created_at = now, gl_updated_at = now, gl_deleted_at = None\<rparr>
       in chain (put (\<lambda>d. d\<lparr>f_accounts := f_accounts d @ [a]\<rparr>)) (\<lambda>_. ret (returned_account a)))))))))))))"

text \<open>The row is looked for before its new values are checked.\<close>

definition GLAccounts_Update :: "UpdateAccountParams \<Rightarrow> GLAccount ftx" where
  "GLAccounts_Update p =
     chain (uuid_arg (TrimSpace (uap_id p))) (\<lambda>i.
     chain (uuid_null (nullableUUID (uap_category p))) (\<lambda>category.
     chain (uuid_null (nullableUUID (uap_parent p))) (\<lambda>parent.
     ask (\<lambda>e. e_numeric e (amountOrZero (uap_opening p))) (\<lambda>r.
     chain (ensure (r \<noteq> None) NumericError) (\<lambda>_.
     get f_accounts (\<lambda>rows.
     chain (lift (query_row (\<lambda>a. gl_id a = i \<and> gl_deleted_at a = None) rows)) (\<lambda>old.
     chain (money_arg (amountOrZero (uap_opening p))) (\<lambda>opening.
     chain (varchar 150 (TrimSpace (uap_name p))) (\<lambda>_.
     chain (account_checks (gl_header old) (gl_normal old) (TrimSpace (uap_name p)) category) (\<lambda>_.
     chain (category_ref category) (\<lambda>_.
     chain (parent_ref parent) (\<lambda>_.
     ask e_now (\<lambda>now.
       let edit = (\<lambda>a. a\<lparr>gl_name := TrimSpace (uap_name p), gl_category := category, gl_parent := parent,
                         gl_active := uap_active p, gl_opening := opening, gl_opening_date := uap_opening_date p,
                         gl_description := uap_description p, gl_updated_at := now\<rparr>)
       in chain (put (\<lambda>d. d\<lparr>f_accounts := update_where (\<lambda>a. gl_id a = i \<and> gl_deleted_at a = None) edit (f_accounts d)\<rparr>))
                (\<lambda>_. ret (returned_account (edit old))))))))))))))))"

definition category_of :: "fdb \<Rightarrow> gl_account \<Rightarrow> AccountCategory option" where
  "category_of d a =
     (case gl_category a of None \<Rightarrow> None | Some c \<Rightarrow> List.find (\<lambda>x. cg_id x = c) (f_categories d))"

definition type_of :: "fdb \<Rightarrow> AccountCategory \<Rightarrow> AccountType option" where
  "type_of d c = List.find (\<lambda>t. ty_id t = cg_type_id c) (f_types d)"

definition joined_account :: "fdb \<Rightarrow> gl_account \<Rightarrow> GLAccount" where
  "joined_account d a =
     \<lparr>ga_row = a,
      ga_category_code = (case category_of d a of None \<Rightarrow> [] | Some c \<Rightarrow> cg_code c),
      ga_category_name = (case category_of d a of None \<Rightarrow> [] | Some c \<Rightarrow> cg_name c),
      ga_type_code = (case category_of d a of
                        None \<Rightarrow> [] | Some c \<Rightarrow> (case type_of d c of None \<Rightarrow> [] | Some t \<Rightarrow> ty_code t))\<rparr>"

definition GLAccounts_FindByID :: "string \<Rightarrow> GLAccount ftx" where
  "GLAccounts_FindByID s =
     chain (uuid_arg (TrimSpace s)) (\<lambda>i. get id (\<lambda>d.
     chain (lift (query_row (\<lambda>a. gl_id a = i \<and> gl_deleted_at a = None) (f_accounts d))) (\<lambda>a. ret (joined_account d a))))"

definition GLAccounts_List :: "bool \<Rightarrow> string \<Rightarrow> GLAccount list ftx" where
  "GLAccounts_List inactive category =
     chain (if category = [] then ret None else chain (uuid_arg (TrimSpace category)) (\<lambda>c. ret (Some c))) (\<lambda>c.
     get id (\<lambda>d. ret (map (joined_account d) (sort_key gl_code (filter (\<lambda>a. gl_deleted_at a = None \<and> (inactive \<or> gl_active a) \<and>
        (c = None \<or> gl_category a = c)) (f_accounts d))))))"

section \<open>AccountService (account_service.go)\<close>

record CreateAccountRequest =
  car_code :: string
  car_name :: string
  car_category :: string
  car_parent :: string
  car_header :: bool
  car_normal :: string
  car_opening :: string
  car_opening_date :: "string option"
  car_description :: string

record UpdateAccountRequest =
  uar_name :: string
  uar_category :: string
  uar_parent :: string
  uar_active :: bool
  uar_opening :: string
  uar_opening_date :: "string option"
  uar_description :: string

definition invalid :: "string \<Rightarrow> err" where
  "invalid m = Finance (ValidationError m)"

definition GLAccountService_Create :: "CreateAccountRequest \<Rightarrow> GLAccount fio" where
  "GLAccountService_Create r =
     chain (guards [(TrimSpace (car_code r) \<noteq> [], invalid ''account_code is required''),
                    (TrimSpace (car_name r) \<noteq> [], invalid ''account_name is required''),
                    (car_normal r = ''debit'' \<or> car_normal r = ''credit'', invalid (''normal_balance must be 'debit' or 'credit'' @ [CHR 0x27])),
                    (car_header r \<or> TrimSpace (car_category r) \<noteq> [], invalid ''account_category_id is required for non-header accounts'')]) (\<lambda>_.
     chain (lift (parseOptionalDate (car_opening_date r))) (\<lambda>opening_date.
     map_error mapAccountError (fin_tx (GLAccounts_Create
       \<lparr>cap_code = TrimSpace (car_code r), cap_name = TrimSpace (car_name r), cap_category = trimmedOrNil (car_category r),
        cap_parent = trimmedOrNil (car_parent r), cap_header = car_header r, cap_normal = car_normal r,
        cap_opening = car_opening r, cap_opening_date = opening_date, cap_description = car_description r\<rparr>))))"

definition GLAccountService_Update :: "string \<Rightarrow> UpdateAccountRequest \<Rightarrow> GLAccount fio" where
  "GLAccountService_Update i r =
     chain (ensure (TrimSpace (uar_name r) \<noteq> []) (invalid ''account_name is required'')) (\<lambda>_.
     chain (lift (parseOptionalDate (uar_opening_date r))) (\<lambda>opening_date.
     map_error mapAccountError (fin_tx (GLAccounts_Update
       \<lparr>uap_id = TrimSpace i, uap_name = TrimSpace (uar_name r), uap_category = trimmedOrNil (uar_category r),
        uap_parent = trimmedOrNil (uar_parent r), uap_active = uar_active r, uap_opening = uar_opening r,
        uap_opening_date = opening_date, uap_description = uar_description r\<rparr>))))"

definition GLAccountService_Get :: "string \<Rightarrow> GLAccount fio" where
  "GLAccountService_Get i = map_error mapAccountError (fin_tx (GLAccounts_FindByID (TrimSpace i)))"

definition GLAccountService_List :: "bool \<Rightarrow> string \<Rightarrow> GLAccount list fio" where
  "GLAccountService_List inactive category = fin_tx (GLAccounts_List inactive category)"

section \<open>Fiscal years and periods (fiscal_repository.go)\<close>

text \<open>One period per month, the last day being \<open>periodStart.AddDate(0, 1, -1)\<close>.\<close>

definition period_start :: "int \<Rightarrow> int \<Rightarrow> date" where
  "period_start year month = Date year month 1"

definition period_end :: "int \<Rightarrow> int \<Rightarrow> date" where
  "period_end year month = AddDate (period_start year month) 0 1 (- 1)"

definition insert_period :: "string \<Rightarrow> int \<Rightarrow> int \<Rightarrow> unit ftx" where
  "insert_period y year month =
     chain (guards [(1 \<le> month \<and> month \<le> 12, CheckViolation ''finance_fiscal_periods_number_check''),
                    (period_start year month < period_end year month, CheckViolation ''finance_fiscal_periods_date_range_check'')]) (\<lambda>_.
     chain (fresh_id (\<lambda>d. map fp_id (f_periods d))) (\<lambda>i.
     chain (get f_periods (\<lambda>rows. ensure (\<forall>p \<in> set rows. \<not> (fp_year_id p = y \<and> fp_number p = month))
       (UniqueViolation ''finance_fiscal_periods_number_unique''))) (\<lambda>_.
     put (\<lambda>d. d\<lparr>f_periods := f_periods d @
       [\<lparr>fp_id = i, fp_year_id = y, fp_number = month, fp_start = period_start year month, fp_end = period_end year month,
         fp_status = FiscalStatusOpen, fp_closed_at = None, fp_closed_by = None\<rparr>]\<rparr>))))"

definition Fiscal_CreateFiscalYear :: "int \<Rightarrow> FiscalYear ftx" where
  "Fiscal_CreateFiscalYear year =
     (let first = Date year 1 1; final = Date year 12 31 in
     chain (ensure (first < final) (CheckViolation ''finance_fiscal_years_date_range_check'')) (\<lambda>_.
     chain (fresh_id (\<lambda>d. map fy_id (f_years d))) (\<lambda>i.
     chain (get f_years (\<lambda>rows. ensure (\<forall>y \<in> set rows. fy_year y \<noteq> year) (UniqueViolation ''finance_fiscal_years_year_unique''))) (\<lambda>_.
       let y = \<lparr>fy_id = i, fy_year = year, fy_start = first, fy_end = final, fy_status = FiscalStatusOpen,
                fy_closed_at = None, fy_closed_by = None\<rparr>
       in chain (put (\<lambda>d. d\<lparr>f_years := f_years d @ [y]\<rparr>)) (\<lambda>_.
          chain (each (insert_period i year) [1..12]) (\<lambda>_. ret y))))))"

definition Fiscal_ListFiscalYears :: "FiscalYear list ftx" where
  "Fiscal_ListFiscalYears = get f_years (\<lambda>rows. ret (rev (sort_key fy_year rows)))"

definition Fiscal_ListFiscalPeriods :: "string \<Rightarrow> FiscalPeriod list ftx" where
  "Fiscal_ListFiscalPeriods y =
     chain (uuid_arg y) (\<lambda>i. get f_periods (\<lambda>rows. ret (sort_key fp_number (filter (\<lambda>p. fp_year_id p = i) rows))))"

definition covers :: "date \<Rightarrow> FiscalPeriod \<Rightarrow> bool" where
  "covers t p \<longleftrightarrow> fp_start p \<le> t \<and> t \<le> fp_end p"

definition Fiscal_FindPeriodByDate :: "date \<Rightarrow> FiscalPeriod ftx" where
  "Fiscal_FindPeriodByDate t = get f_periods (\<lambda>rows. lift (query_row (covers t) rows))"

definition Fiscal_FindPeriodByID :: "string \<Rightarrow> FiscalPeriod ftx" where
  "Fiscal_FindPeriodByID s = chain (uuid_arg s) (\<lambda>i. get f_periods (\<lambda>rows. lift (query_row (\<lambda>p. fp_id p = i) rows)))"

text \<open>Who and when, only of a closing.\<close>

definition closing :: "FiscalStatus \<Rightarrow> string option \<Rightarrow> (instant option \<times> string option) ftx" where
  "closing status actor =
     (if status = FiscalStatusClosed
      then ask e_now (\<lambda>now. chain (uuid_null (nullableUUID actor)) (\<lambda>who. ret (Some now, who)))
      else ret (None, None))"

definition Fiscal_SetPeriodStatus :: "string \<Rightarrow> FiscalStatus \<Rightarrow> string option \<Rightarrow> FiscalPeriod ftx" where
  "Fiscal_SetPeriodStatus s status actor =
     chain (uuid_arg s) (\<lambda>i.
     chain (closing status actor) (\<lambda>(closed_at, closed_by).
     get f_periods (\<lambda>rows.
     chain (lift (query_row (\<lambda>p. fp_id p = i) rows)) (\<lambda>old.
     chain (user_ref closed_by) (\<lambda>_.
       let set_status = (\<lambda>p. p\<lparr>fp_status := status, fp_closed_at := closed_at, fp_closed_by := closed_by\<rparr>)
       in chain (put (\<lambda>d. d\<lparr>f_periods := update_where (\<lambda>p. fp_id p = i) set_status (f_periods d)\<rparr>))
                (\<lambda>_. ret (set_status old)))))))"

definition Fiscal_SetFiscalYearStatus :: "string \<Rightarrow> FiscalStatus \<Rightarrow> string option \<Rightarrow> FiscalYear ftx" where
  "Fiscal_SetFiscalYearStatus s status actor =
     chain (uuid_arg s) (\<lambda>i.
     chain (closing status actor) (\<lambda>(closed_at, closed_by).
     get f_years (\<lambda>rows.
     chain (lift (query_row (\<lambda>y. fy_id y = i) rows)) (\<lambda>old.
     chain (user_ref closed_by) (\<lambda>_.
       let set_year = (\<lambda>y. y\<lparr>fy_status := status, fy_closed_at := closed_at, fy_closed_by := closed_by\<rparr>);
           set_period = (\<lambda>p. p\<lparr>fp_status := status, fp_closed_at := closed_at, fp_closed_by := closed_by\<rparr>)
       in chain (put (\<lambda>d. d\<lparr>f_years := update_where (\<lambda>y. fy_id y = i) set_year (f_years d),
                           f_periods := update_where (\<lambda>p. fp_year_id p = i) set_period (f_periods d)\<rparr>))
                (\<lambda>_. ret (set_year old)))))))"

section \<open>FiscalService (fiscal_service.go)\<close>

definition year_with_periods :: "FiscalYear \<Rightarrow> (FiscalYear \<times> FiscalPeriod list) fio" where
  "year_with_periods y = chain (fin_tx (Fiscal_ListFiscalPeriods (fy_id y))) (\<lambda>ps. ret (y, ps))"

definition FiscalService_CreateFiscalYear :: "int \<Rightarrow> (FiscalYear \<times> FiscalPeriod list) fio" where
  "FiscalService_CreateFiscalYear year =
     chain (ensure (2000 \<le> year \<and> year \<le> 2100) (invalid ''year is out of range'')) (\<lambda>_.
     chain (map_error mapFiscalYearError (fin_tx (Fiscal_CreateFiscalYear year))) year_with_periods)"

fun years_with_periods :: "FiscalYear list \<Rightarrow> (FiscalYear \<times> FiscalPeriod list) list fio" where
  "years_with_periods [] = ret []"
| "years_with_periods (y # ys) =
     chain (year_with_periods y) (\<lambda>r. chain (years_with_periods ys) (\<lambda>rs. ret (r # rs)))"

definition FiscalService_ListFiscalYears :: "(FiscalYear \<times> FiscalPeriod list) list fio" where
  "FiscalService_ListFiscalYears = chain (fin_tx Fiscal_ListFiscalYears) years_with_periods"

definition FiscalService_ClosePeriod :: "string \<Rightarrow> string \<Rightarrow> FiscalPeriod fio" where
  "FiscalService_ClosePeriod i actor =
     map_error mapFiscalPeriodError (fin_tx (Fiscal_SetPeriodStatus i FiscalStatusClosed (trimmedOrNil actor)))"

definition FiscalService_ReopenPeriod :: "string \<Rightarrow> string \<Rightarrow> FiscalPeriod fio" where
  "FiscalService_ReopenPeriod i actor =
     map_error mapFiscalPeriodError (fin_tx (Fiscal_SetPeriodStatus i FiscalStatusOpen (trimmedOrNil actor)))"

definition FiscalService_CloseFiscalYear :: "string \<Rightarrow> string \<Rightarrow> (FiscalYear \<times> FiscalPeriod list) fio" where
  "FiscalService_CloseFiscalYear i actor =
     chain (map_error mapFiscalYearError (fin_tx (Fiscal_SetFiscalYearStatus i FiscalStatusClosed (trimmedOrNil actor)))) year_with_periods"

definition FiscalService_ReopenFiscalYear :: "string \<Rightarrow> string \<Rightarrow> (FiscalYear \<times> FiscalPeriod list) fio" where
  "FiscalService_ReopenFiscalYear i actor =
     chain (map_error mapFiscalYearError (fin_tx (Fiscal_SetFiscalYearStatus i FiscalStatusOpen (trimmedOrNil actor)))) year_with_periods"

end
