(* ===== verification/Journal.thy ===== *)
theory Journal
  imports Chart
begin

text \<open>
  Journal entries: \<open>repository/journal_repository.go\<close>, \<open>service/journal_service.go\<close> and the
  entry's part of \<open>service/response_mapper.go\<close> of the finance module.  \<open>InsertJournalEntryTx\<close>
  is the one way into the ledger, called by every subledger inside its own transaction.
\<close>

section \<open>Inserting an entry (journal_repository.go)\<close>

record CreateJournalLineParams =
  lp_account :: string
  lp_debit :: string
  lp_credit :: string
  lp_description :: string
  lp_subledger :: "SubledgerType option"
  lp_subledger_id :: "string option"

record CreateJournalEntryParams =
  ep_number :: string
  ep_date :: date
  ep_source :: JournalSourceType
  ep_source_id :: "string option"
  ep_reference :: string
  ep_description :: string
  ep_created_by :: "string option"
  ep_lines :: "CreateJournalLineParams list"

record JournalEntryListFilter =
  jf_start :: "date option"
  jf_end :: "date option"
  jf_status :: string
  jf_limit :: int
  jf_offset :: int

text \<open>The period of a date, locked, and open for posting; the same statement in \<open>Reverse\<close>.\<close>

definition open_period :: "date \<Rightarrow> string ftx" where
  "open_period t =
     get f_periods (\<lambda>rows.
       case query_row (covers t) rows of
         Inl _ \<Rightarrow> raise (Sentinel ErrNoFiscalPeriod)
       | Inr p \<Rightarrow> if fp_status p = FiscalStatusClosed then raise (Sentinel ErrFiscalPeriodClosed) else ret (fp_id p))"

text \<open>The row of an entry, always posted, with the constraints of the table.\<close>

definition insert_entry ::
    "string \<Rightarrow> date \<Rightarrow> string \<Rightarrow> JournalSourceType \<Rightarrow> string option \<Rightarrow> string \<Rightarrow> string \<Rightarrow> string option \<Rightarrow> string ftx" where
  "insert_entry number t period source source_id reference description created_by =
     chain (varchar 40 number) (\<lambda>_.
     chain (varchar 150 reference) (\<lambda>_.
     chain (fresh_id (\<lambda>d. map je_id (f_entries d))) (\<lambda>i.
     chain (get f_entries (\<lambda>rows. ensure (number \<notin> je_number ` set rows)
       (UniqueViolation ''finance_journal_entries_entry_number_unique''))) (\<lambda>_.
     chain (user_ref created_by) (\<lambda>_.
     ask e_now (\<lambda>now.
     chain (put (\<lambda>d. d\<lparr>f_entries := f_entries d @
       [\<lparr>je_id = i, je_number = number, je_date = t, je_period = period, je_source = source, je_source_id = source_id,
         je_reference = reference, je_description = description, je_status = JournalStatusPosted,
         je_posted_at = Some now, je_reversed_by = None, je_created_by = created_by, je_created_at = now, je_updated_at = now\<rparr>]\<rparr>)) (\<lambda>_.
     ret i)))))))"

definition put_line ::
    "string \<Rightarrow> int \<Rightarrow> string \<Rightarrow> int \<Rightarrow> int \<Rightarrow> string \<Rightarrow> SubledgerType \<Rightarrow> string option \<Rightarrow> unit ftx" where
  "put_line entry number account debit credit description subledger subledger_id =
     chain (guards [(0 \<le> debit, CheckViolation ''finance_journal_lines_debit_nonneg_check''),
                    (0 \<le> credit, CheckViolation ''finance_journal_lines_credit_nonneg_check''),
                    (\<not> (0 < debit \<and> 0 < credit), CheckViolation ''finance_journal_lines_single_side_check''),
                    (0 < debit + credit, CheckViolation ''finance_journal_lines_nonzero_check'')]) (\<lambda>_.
     chain (fresh_id (\<lambda>d. map jl_id (f_lines d))) (\<lambda>i.
     chain (get f_lines (\<lambda>rows. ensure (\<forall>l \<in> set rows. \<not> (jl_entry l = entry \<and> jl_number l = number))
       (UniqueViolation ''finance_journal_lines_line_unique''))) (\<lambda>_.
     chain (account_ref account) (\<lambda>_.
     ask e_now (\<lambda>now.
     put (\<lambda>d. d\<lparr>f_lines := f_lines d @
       [\<lparr>jl_id = i, jl_entry = entry, jl_number = number, jl_account = account, jl_debit = debit, jl_credit = credit,
         jl_description = description, jl_subledger = subledger, jl_subledger_id = subledger_id, jl_created_at = now\<rparr>]\<rparr>))))))"

definition subledgerTypeOrDefault :: "SubledgerType option \<Rightarrow> SubledgerType" where
  "subledgerTypeOrDefault v = (case v of None \<Rightarrow> SubledgerNone | Some s \<Rightarrow> s)"

definition insert_line :: "string \<Rightarrow> int \<Rightarrow> CreateJournalLineParams \<Rightarrow> unit ftx" where
  "insert_line entry number l =
     chain (uuid_arg (lp_account l)) (\<lambda>account.
     chain (money_arg (amountOrZero (lp_debit l))) (\<lambda>debit.
     chain (money_arg (amountOrZero (lp_credit l))) (\<lambda>credit.
     chain (uuid_null (nullableUUID (lp_subledger_id l))) (\<lambda>subledger_id.
     put_line entry number account debit credit (lp_description l) (subledgerTypeOrDefault (lp_subledger l)) subledger_id))))"

fun insert_lines :: "string \<Rightarrow> int \<Rightarrow> CreateJournalLineParams list \<Rightarrow> unit ftx" where
  "insert_lines entry n [] = ret ()"
| "insert_lines entry n (l # ls) = chain (insert_line entry n l) (\<lambda>_. insert_lines entry (n + 1) ls)"

definition InsertJournalEntryTx :: "CreateJournalEntryParams \<Rightarrow> string ftx" where
  "InsertJournalEntryTx p =
     chain (open_period (ep_date p)) (\<lambda>period.
     chain (uuid_null (nullableUUID (ep_source_id p))) (\<lambda>source_id.
     chain (uuid_null (nullableUUID (ep_created_by p))) (\<lambda>created_by.
     chain (insert_entry (ep_number p) (ep_date p) period (ep_source p) source_id (ep_reference p) (ep_description p) created_by) (\<lambda>i.
     chain (insert_lines i 1 (ep_lines p)) (\<lambda>_. ret i)))))"

section \<open>Reading entries\<close>

record JournalLine =
  jlv_row :: journal_line
  jlv_code :: string
  jlv_name :: string

record JournalEntry =
  jv_row :: journal_entry
  jv_lines :: "JournalLine list"

definition account_by_id :: "fdb \<Rightarrow> string \<Rightarrow> gl_account option" where
  "account_by_id d i = List.find (\<lambda>a. gl_id a = i) (f_accounts d)"

definition listLines :: "fdb \<Rightarrow> string \<Rightarrow> JournalLine list" where
  "listLines d entry =
     [\<lparr>jlv_row = l, jlv_code = gl_code a, jlv_name = gl_name a\<rparr>.
        l \<leftarrow> sort_key jl_number (filter (\<lambda>l. jl_entry l = entry) (f_lines d)),
        a \<leftarrow> (case account_by_id d (jl_account l) of None \<Rightarrow> [] | Some a \<Rightarrow> [a])]"

definition Journals_FindByID :: "string \<Rightarrow> JournalEntry ftx" where
  "Journals_FindByID s =
     chain (uuid_arg (TrimSpace s)) (\<lambda>i. get id (\<lambda>d.
     chain (lift (query_row (\<lambda>j. je_id j = i) (f_entries d))) (\<lambda>j. ret \<lparr>jv_row = j, jv_lines = listLines d (je_id j)\<rparr>)))"

definition journal_status_text :: "JournalStatus \<Rightarrow> string" where
  "journal_status_text s =
     (case s of JournalStatusDraft \<Rightarrow> ''draft'' | JournalStatusPosted \<Rightarrow> ''posted'' | JournalStatusReversed \<Rightarrow> ''reversed'')"

definition journalWhere :: "JournalEntryListFilter \<Rightarrow> journal_entry \<Rightarrow> bool" where
  "journalWhere f j \<longleftrightarrow>
     (case jf_start f of None \<Rightarrow> True | Some t \<Rightarrow> t \<le> je_date j) \<and>
     (case jf_end f of None \<Rightarrow> True | Some t \<Rightarrow> je_date j \<le> t) \<and>
     (jf_status f = [] \<or> journal_status_text (je_status j) = jf_status f)"

text \<open>The count, the page, and the lines of each entry, read one after the other.\<close>

definition Journals_List :: "JournalEntryListFilter \<Rightarrow> (JournalEntry list \<times> nat) ftx" where
  "Journals_List f =
     get id (\<lambda>d.
       let hits = filter (journalWhere f) (f_entries d);
           ordered = rev (sort_key (\<lambda>j. (je_date j, je_number j)) hits)
       in ret (map (\<lambda>j. \<lparr>jv_row = j, jv_lines = listLines d (je_id j)\<rparr>) (fin_page (jf_limit f) (jf_offset f) ordered), length hits))"

definition entry_number :: "int \<Rightarrow> nat \<Rightarrow> string" where
  "entry_number year k = ''JE-'' @ dec_int year @ ''-'' @ dec_pad 6 (int k)"

text \<open>\<open>nextval\<close> is not undone when what follows fails.\<close>

definition NextEntryNumber :: "int \<Rightarrow> string fio" where
  "NextEntryNumber year = (\<lambda>e w.
     let t = w\<lparr>fw_tick := Suc (fw_tick w)\<rparr>; k = Suc (fw_seq w) in
     if e_fault e (fw_tick w) = FailBefore then (Inl DbFault, t)
     else (if e_fault e (fw_tick w) = FailAfter then Inl DbFault else Inr (entry_number year k), t\<lparr>fw_seq := k\<rparr>))"

definition Journals_Create :: "CreateJournalEntryParams \<Rightarrow> JournalEntry fio" where
  "Journals_Create p = chain (fin_tx (InsertJournalEntryTx p)) (\<lambda>i. fin_tx (Journals_FindByID i))"

section \<open>Reversal\<close>

fun mirror_lines :: "string \<Rightarrow> journal_line list \<Rightarrow> unit ftx" where
  "mirror_lines entry [] = ret ()"
| "mirror_lines entry (l # ls) =
     chain (put_line entry (jl_number l) (jl_account l) (jl_credit l) (jl_debit l) (jl_description l) (jl_subledger l)
              (jl_subledger_id l)) (\<lambda>_.
     mirror_lines entry ls)"

definition reversal_description :: "string \<Rightarrow> string \<Rightarrow> string" where
  "reversal_description number reason =
     ''Reversal of '' @ number @ (if TrimSpace reason = [] then [] else '': '' @ reason)"

definition reverse_tx :: "string \<Rightarrow> date \<Rightarrow> string \<Rightarrow> string \<Rightarrow> string option \<Rightarrow> string ftx" where
  "reverse_tx original t number reason actor =
     chain (uuid_arg original) (\<lambda>i.
     get f_entries (\<lambda>rows.
     chain (lift (query_row (\<lambda>j. je_id j = i) rows)) (\<lambda>j.
     chain (ensure (je_status j = JournalStatusPosted) (Sentinel ErrJournalEntryNotPosted)) (\<lambda>_.
     chain (open_period t) (\<lambda>period.
     chain (uuid_null (nullableUUID actor)) (\<lambda>created_by.
     chain (insert_entry number t period (je_source j) None (je_number j) (reversal_description (je_number j) reason) created_by) (\<lambda>new.
     get f_lines (\<lambda>lines.
     chain (mirror_lines new (sort_key jl_number (filter (\<lambda>l. jl_entry l = i) lines))) (\<lambda>_.
     ask e_now (\<lambda>now.
     chain (put (\<lambda>d. d\<lparr>f_entries := update_where (\<lambda>x. je_id x = i)
       (\<lambda>x. x\<lparr>je_status := JournalStatusReversed, je_reversed_by := Some new, je_updated_at := now\<rparr>) (f_entries d)\<rparr>)) (\<lambda>_.
     ret new)))))))))))"

definition Journals_Reverse :: "string \<Rightarrow> date \<Rightarrow> string \<Rightarrow> string \<Rightarrow> string option \<Rightarrow> JournalEntry fio" where
  "Journals_Reverse original t number reason actor =
     chain (fin_tx (reverse_tx original t number reason actor)) (\<lambda>new. fin_tx (Journals_FindByID new))"

section \<open>JournalService (journal_service.go)\<close>

record CreateJournalLineRequest =
  lr_account :: string
  lr_debit :: string
  lr_credit :: string
  lr_description :: string

record CreateJournalEntryRequest =
  jr_date :: string
  jr_reference :: string
  jr_description :: string
  jr_lines :: "CreateJournalLineRequest list"

record JournalEntryListQuery =
  jq_page :: int
  jq_per_page :: int
  jq_start :: string
  jq_end :: string
  jq_status :: string

record JournalEntryResponse =
  jx_entry :: JournalEntry
  jx_date :: string
  jx_total_debit :: string
  jx_total_credit :: string

text \<open>\<open>journalEntryResponse\<close>: the totals are added up from the texts of the lines.\<close>

definition line_debit_text :: "JournalLine \<Rightarrow> string" where
  "line_debit_text l = cents_text (jl_debit (jlv_row l))"

definition line_credit_text :: "JournalLine \<Rightarrow> string" where
  "line_credit_text l = cents_text (jl_credit (jlv_row l))"

fun add_money :: "string list \<Rightarrow> rat \<Rightarrow> rat" where
  "add_money [] r = r"
| "add_money (s # ss) r = add_money ss (r + money_of s)"

definition journalEntryResponse :: "JournalEntry \<Rightarrow> JournalEntryResponse" where
  "journalEntryResponse j =
     \<lparr>jx_entry = j, jx_date = formatDate (je_date (jv_row j)),
      jx_total_debit = formatMoney (add_money (map line_debit_text (jv_lines j)) 0),
      jx_total_credit = formatMoney (add_money (map line_credit_text (jv_lines j)) 0)\<rparr>"

text \<open>The loop over the requested lines: the amounts checked, totalled exactly, and formatted for the tables.\<close>

definition check_line :: "CreateJournalLineRequest \<Rightarrow> err + rat \<times> rat \<times> CreateJournalLineParams" where
  "check_line l =
     (if TrimSpace (lr_account l) = [] then Inl (invalid ''line account_id is required'')
      else case moneyRat (lr_debit l) of
        Inl _ \<Rightarrow> Inl (invalid ''line debit amount is invalid'')
      | Inr debit \<Rightarrow> (case moneyRat (lr_credit l) of
          Inl _ \<Rightarrow> Inl (invalid ''line credit amount is invalid'')
        | Inr credit \<Rightarrow>
            if debit < 0 \<or> credit < 0 then Inl (invalid ''line amounts cannot be negative'')
            else if 0 < debit \<and> 0 < credit then Inl (invalid ''a line cannot have both debit and credit amounts'')
            else if debit = 0 \<and> credit = 0 then Inl (invalid ''each line must have a non-zero debit or credit amount'')
            else Inr (debit, credit, \<lparr>lp_account = TrimSpace (lr_account l), lp_debit = formatMoney debit,
                   lp_credit = formatMoney credit, lp_description = lr_description l, lp_subledger = None, lp_subledger_id = None\<rparr>)))"

fun check_lines ::
    "CreateJournalLineRequest list \<Rightarrow> rat \<Rightarrow> rat \<Rightarrow> CreateJournalLineParams list \<Rightarrow> err + rat \<times> rat \<times> CreateJournalLineParams list" where
  "check_lines [] td tc ls = Inr (td, tc, ls)"
| "check_lines (r # rs) td tc ls =
     (case check_line r of
        Inl er \<Rightarrow> Inl er
      | Inr (debit, credit, l) \<Rightarrow> check_lines rs (td + debit) (tc + credit) (ls @ [l]))"

definition JournalService_Create :: "CreateJournalEntryRequest \<Rightarrow> string \<Rightarrow> JournalEntryResponse fio" where
  "JournalService_Create r actor =
     chain (lift (parseRequiredDate (jr_date r))) (\<lambda>t.
     chain (ensure (2 \<le> length (jr_lines r)) (invalid ''a journal entry needs at least two lines'')) (\<lambda>_.
     chain (lift (check_lines (jr_lines r) 0 0 [])) (\<lambda>(td, tc, ls).
     chain (ensure (td = tc) (Finance JournalUnbalancedError)) (\<lambda>_.
     chain (NextEntryNumber (Year t)) (\<lambda>number.
     chain (map_error mapJournalError (Journals_Create
       \<lparr>ep_number = number, ep_date = t, ep_source = JournalSourceManual, ep_source_id = None, ep_reference = jr_reference r,
        ep_description = jr_description r, ep_created_by = trimmedOrNil actor, ep_lines = ls\<rparr>)) (\<lambda>j.
     ret (journalEntryResponse j)))))))"

definition JournalService_Get :: "string \<Rightarrow> JournalEntryResponse fio" where
  "JournalService_Get i =
     chain (map_error mapJournalError (fin_tx (Journals_FindByID (TrimSpace i)))) (\<lambda>j. ret (journalEntryResponse j))"

text \<open>An empty bound of a date range is no bound.\<close>

definition date_bound :: "string \<Rightarrow> err + date option" where
  "date_bound s = (if TrimSpace s = [] then Inr None
     else case parseRequiredDate s of Inl er \<Rightarrow> Inl er | Inr t \<Rightarrow> Inr (Some t))"

record 'a listing =
  li_items :: "'a list"
  li_page :: int
  li_per_page :: int
  li_rows :: int
  li_pages :: int

definition listing_of :: "int \<Rightarrow> int \<Rightarrow> 'a list \<Rightarrow> nat \<Rightarrow> 'a listing" where
  "listing_of p n items rows =
     \<lparr>li_items = items, li_page = p, li_per_page = n, li_rows = int rows, li_pages = totalPagesOf n (int rows)\<rparr>"

definition JournalService_List :: "JournalEntryListQuery \<Rightarrow> JournalEntryResponse listing fio" where
  "JournalService_List q =
     (let (p, n) = normalizePage (jq_page q) (jq_per_page q) in
      chain (lift (date_bound (jq_start q))) (\<lambda>start.
      chain (lift (date_bound (jq_end q))) (\<lambda>end_date.
      chain (fin_tx (Journals_List \<lparr>jf_start = start, jf_end = end_date, jf_status = TrimSpace (jq_status q),
        jf_limit = n, jf_offset = page_offset p n\<rparr>)) (\<lambda>(js, rows).
      ret (listing_of p n (map journalEntryResponse js) rows)))))"

definition JournalService_Reverse :: "string \<Rightarrow> string \<Rightarrow> string \<Rightarrow> string \<Rightarrow> JournalEntryResponse fio" where
  "JournalService_Reverse i reversal_date reason actor =
     ask e_now (\<lambda>now.
     chain (if TrimSpace reversal_date = [] then ret (utc_day now) else lift (parseRequiredDate reversal_date)) (\<lambda>t.
     chain (NextEntryNumber (Year t)) (\<lambda>number.
     chain (map_error mapJournalError (Journals_Reverse (TrimSpace i) t number reason (trimmedOrNil actor))) (\<lambda>j.
     ret (journalEntryResponse j)))))"

end
