(* ===== verification/Ledger.thy ===== *)
theory Ledger
  imports Journal
begin

text \<open>
  The ledger read back: \<open>repository/ledger_repository.go\<close>, \<open>service/ledger_service.go\<close> and
  \<open>service/report_service.go\<close> of the finance module.  Amounts leave the database as text, as the
  services parse, add and format them.
\<close>

section \<open>LedgerRepository (ledger_repository.go)\<close>

text \<open>\<open>JOIN finance_journal_entries je ON je.id = jl.journal_entry_id ... je.status = 'posted'\<close>.\<close>

definition journal_of :: "fdb \<Rightarrow> journal_line \<Rightarrow> journal_entry option" where
  "journal_of d l = List.find (\<lambda>j. je_id j = jl_entry l) (f_entries d)"

definition posted_lines :: "fdb \<Rightarrow> (journal_line \<times> journal_entry) list" where
  "posted_lines d =
     [(l, j). l \<leftarrow> f_lines d,
        j \<leftarrow> (case journal_of d l of None \<Rightarrow> [] | Some j \<Rightarrow> if je_status j = JournalStatusPosted then [j] else [])]"

text \<open>The posted lines of an account within dates.\<close>

definition postings :: "fdb \<Rightarrow> (date \<Rightarrow> bool) \<Rightarrow> string \<Rightarrow> journal_line list" where
  "postings d within_dates a =
     map fst (filter (\<lambda>(l, j). within_dates (je_date j) \<and> jl_account l = a) (posted_lines d))"

text \<open>\<open>SUM(...)\<close> of no row is null.\<close>

definition sql_sum :: "('r \<Rightarrow> int) \<Rightarrow> 'r list \<Rightarrow> int option" where
  "sql_sum f rows = (if rows = [] then None else Some (sum_list (map f rows)))"

text \<open>\<open>(COALESCE(x, 0) + COALESCE(y, 0))::text\<close>: the literal \<open>0\<close> has no decimals.\<close>

definition sql_plus :: "int option \<Rightarrow> int option \<Rightarrow> string" where
  "sql_plus x y =
     (if x = None \<and> y = None then ''0''
      else cents_text ((case x of None \<Rightarrow> 0 | Some k \<Rightarrow> k) + (case y of None \<Rightarrow> 0 | Some k \<Rightarrow> k)))"

definition signed_amount :: "string \<Rightarrow> journal_line \<Rightarrow> int" where
  "signed_amount normal l = (if normal = ''debit'' then jl_debit l - jl_credit l else jl_credit l - jl_debit l)"

definition signed_credit :: "string \<Rightarrow> journal_line \<Rightarrow> int" where
  "signed_credit normal l = (if normal = ''credit'' then jl_credit l - jl_debit l else jl_debit l - jl_credit l)"

definition opening_by :: "(date \<Rightarrow> bool) \<Rightarrow> gl_account \<Rightarrow> int option" where
  "opening_by within_dates a =
     (case gl_opening_date a of None \<Rightarrow> None | Some t \<Rightarrow> if within_dates t then Some (gl_opening a) else None)"

definition opening_side :: "string \<Rightarrow> date \<Rightarrow> gl_account \<Rightarrow> int option" where
  "opening_side side t a =
     (if gl_normal a = side then (case opening_by (\<lambda>x. x \<le> t) a of Some k \<Rightarrow> (if k \<noteq> 0 then Some k else None) | None \<Rightarrow> None) else None)"

definition has_opening :: "date \<Rightarrow> gl_account \<Rightarrow> bool" where
  "has_opening t a \<longleftrightarrow> (case opening_by (\<lambda>x. x \<le> t) a of None \<Rightarrow> False | Some k \<Rightarrow> k \<noteq> 0)"

record TrialBalanceRow =
  tb_id :: string
  tb_code :: string
  tb_name :: string
  tb_debit :: string
  tb_credit :: string

definition trial_row :: "fdb \<Rightarrow> date \<Rightarrow> gl_account \<Rightarrow> TrialBalanceRow" where
  "trial_row d t a =
     (let ls = postings d (\<lambda>x. x \<le> t) (gl_id a) in
      \<lparr>tb_id = gl_id a, tb_code = gl_code a, tb_name = gl_name a,
       tb_debit = sql_plus (sql_sum jl_debit ls) (opening_side ''debit'' t a),
       tb_credit = sql_plus (sql_sum jl_credit ls) (opening_side ''credit'' t a)\<rparr>)"

definition in_trial_balance :: "fdb \<Rightarrow> date \<Rightarrow> gl_account \<Rightarrow> bool" where
  "in_trial_balance d t a \<longleftrightarrow>
     \<not> gl_header a \<and> gl_deleted_at a = None \<and> (postings d (\<lambda>x. x \<le> t) (gl_id a) \<noteq> [] \<or> has_opening t a)"

definition Ledger_TrialBalance :: "date \<Rightarrow> TrialBalanceRow list ftx" where
  "Ledger_TrialBalance t =
     get id (\<lambda>d. ret (map (trial_row d t) (sort_key gl_code (filter (in_trial_balance d t) (f_accounts d)))))"

record ReportAccountRow =
  rr_id :: string
  rr_code :: string
  rr_name :: string
  rr_section :: string
  rr_category :: string
  rr_sort :: int
  rr_amount :: string

text \<open>\<open>JOIN\<close> of an account with its category and type, of one financial statement.\<close>

definition reported :: "fdb \<Rightarrow> string \<Rightarrow> gl_account \<Rightarrow> AccountCategory option" where
  "reported d statement a =
     (case category_of d a of
        None \<Rightarrow> None
      | Some c \<Rightarrow> (case type_of d c of None \<Rightarrow> None | Some t \<Rightarrow> if ty_statement t = statement then Some c else None))"

definition report_row :: "gl_account \<Rightarrow> AccountCategory \<Rightarrow> string \<Rightarrow> ReportAccountRow" where
  "report_row a c amount =
     \<lparr>rr_id = gl_id a, rr_code = gl_code a, rr_name = gl_name a, rr_section = cg_section c, rr_category = cg_name c,
      rr_sort = cg_sort c, rr_amount = amount\<rparr>"

definition between :: "date \<Rightarrow> date \<Rightarrow> date \<Rightarrow> bool" where
  "between a b t \<longleftrightarrow> a \<le> t \<and> t \<le> b"

definition profit_rows :: "fdb \<Rightarrow> date \<Rightarrow> date \<Rightarrow> ReportAccountRow list" where
  "profit_rows d a b =
     sort_key (\<lambda>r. (rr_sort r, rr_code r))
       [report_row x c (cents_text (sum_list (map (signed_credit (gl_normal x)) (postings d (between a b) (gl_id x))))).
          x \<leftarrow> f_accounts d, c \<leftarrow> (case reported d ''profit_loss'' x of None \<Rightarrow> [] | Some c \<Rightarrow> [c]),
          postings d (between a b) (gl_id x) \<noteq> []]"

definition Ledger_ProfitLoss :: "date \<Rightarrow> date \<Rightarrow> ReportAccountRow list ftx" where
  "Ledger_ProfitLoss a b = get id (\<lambda>d. ret (profit_rows d a b))"

definition balance_rows :: "fdb \<Rightarrow> date \<Rightarrow> ReportAccountRow list" where
  "balance_rows d t =
     sort_key (\<lambda>r. (rr_sort r, rr_code r))
       [report_row x c (sql_plus (sql_sum (signed_amount (gl_normal x)) (postings d (\<lambda>y. y \<le> t) (gl_id x)))
                                 (if has_opening t x then Some (gl_opening x) else None)).
          x \<leftarrow> f_accounts d, in_trial_balance d t x,
          c \<leftarrow> (case reported d ''balance_sheet'' x of None \<Rightarrow> [] | Some c \<Rightarrow> [c])]"

definition Ledger_BalanceSheet :: "date \<Rightarrow> ReportAccountRow list ftx" where
  "Ledger_BalanceSheet t = get id (\<lambda>d. ret (balance_rows d t))"

record LedgerLineRow =
  lg_date :: date
  lg_number :: string
  lg_account :: string
  lg_code :: string
  lg_name :: string
  lg_description :: string
  lg_debit :: string
  lg_credit :: string

text \<open>
  \<open>COALESCE(NULLIF(jl.description, ''), je.description)\<close> is null when both are empty, and a null
  cannot be scanned into a string.
\<close>

fun scan_ledger :: "(journal_line \<times> journal_entry \<times> gl_account) list \<Rightarrow> LedgerLineRow list ftx" where
  "scan_ledger [] = ret []"
| "scan_ledger ((l, j, a) # rows) =
     (if jl_description l = [] \<and> je_description j = [] then raise ScanNull
      else chain (scan_ledger rows) (\<lambda>rs.
        ret (\<lparr>lg_date = je_date j, lg_number = je_number j, lg_account = gl_id a, lg_code = gl_code a, lg_name = gl_name a,
              lg_description = (if jl_description l = [] then je_description j else jl_description l),
              lg_debit = cents_text (jl_debit l), lg_credit = cents_text (jl_credit l)\<rparr> # rs)))"

definition ledger_rows :: "fdb \<Rightarrow> date \<Rightarrow> date \<Rightarrow> string option \<Rightarrow> (journal_line \<times> journal_entry \<times> gl_account) list" where
  "ledger_rows d a b account =
     sort_key (\<lambda>(l, j, x). (je_date j, je_number j, jl_number l))
       [(l, j, x). (l, j) \<leftarrow> posted_lines d, between a b (je_date j) \<and> (account = None \<or> Some (jl_account l) = account),
          x \<leftarrow> (case account_by_id d (jl_account l) of None \<Rightarrow> [] | Some x \<Rightarrow> [x])]"

definition Ledger_GeneralLedger :: "date \<Rightarrow> date \<Rightarrow> string \<Rightarrow> LedgerLineRow list ftx" where
  "Ledger_GeneralLedger a b account =
     chain (if account = [] then ret None else chain (uuid_arg account) (\<lambda>u. ret (Some u))) (\<lambda>u.
     get id (\<lambda>d. scan_ledger (ledger_rows d a b u)))"

definition balance_text :: "fdb \<Rightarrow> (date \<Rightarrow> bool) \<Rightarrow> string \<Rightarrow> string" where
  "balance_text d within_dates i =
     (case account_by_id d i of
        None \<Rightarrow> ''0''
      | Some a \<Rightarrow> sql_plus (sql_sum (signed_amount (gl_normal a)) (postings d within_dates i)) (opening_by within_dates a))"

definition Ledger_AccountBalanceAsOf :: "string \<Rightarrow> date \<Rightarrow> string ftx" where
  "Ledger_AccountBalanceAsOf account t = chain (uuid_arg account) (\<lambda>i. get id (\<lambda>d. ret (balance_text d (\<lambda>x. x \<le> t) i)))"

definition Ledger_AccountOpeningBalanceBefore :: "string \<Rightarrow> date \<Rightarrow> string ftx" where
  "Ledger_AccountOpeningBalanceBefore account t = chain (uuid_arg account) (\<lambda>i. get id (\<lambda>d. ret (balance_text d (\<lambda>x. x < t) i)))"

section \<open>LedgerService (ledger_service.go)\<close>

record TrialBalanceResponse =
  tbr_as_of :: string
  tbr_lines :: "TrialBalanceRow list"
  tbr_total_debit :: string
  tbr_total_credit :: string
  tbr_is_balanced :: bool

definition trial_balance_response :: "date \<Rightarrow> TrialBalanceRow list \<Rightarrow> TrialBalanceResponse" where
  "trial_balance_response t rows =
     (let dr = add_money (map tb_debit rows) 0; cr = add_money (map tb_credit rows) 0 in
      \<lparr>tbr_as_of = formatDate t, tbr_lines = rows, tbr_total_debit = formatMoney dr, tbr_total_credit = formatMoney cr,
       tbr_is_balanced = (dr = cr)\<rparr>)"

definition LedgerService_TrialBalance :: "string \<Rightarrow> TrialBalanceResponse fio" where
  "LedgerService_TrialBalance as_of =
     chain (lift (parseRequiredDate as_of)) (\<lambda>t.
     chain (fin_tx (Ledger_TrialBalance t)) (\<lambda>rows. ret (trial_balance_response t rows)))"

definition LedgerService_GeneralLedger :: "string \<Rightarrow> string \<Rightarrow> string \<Rightarrow> (string \<times> string \<times> LedgerLineRow list) fio" where
  "LedgerService_GeneralLedger start end_date account =
     chain (lift (parseRequiredDate start)) (\<lambda>a.
     chain (lift (parseRequiredDate end_date)) (\<lambda>b.
     chain (fin_tx (Ledger_GeneralLedger a b account)) (\<lambda>rows. ret (formatDate a, formatDate b, rows))))"

record AccountLedgerLine =
  all_row :: LedgerLineRow
  all_running :: string

record AccountLedgerResponse =
  alr_account :: GLAccount
  alr_start :: string
  alr_end :: string
  alr_opening :: string
  alr_lines :: "AccountLedgerLine list"
  alr_closing :: string

definition move_running :: "string \<Rightarrow> rat \<Rightarrow> LedgerLineRow \<Rightarrow> rat" where
  "move_running normal running r =
     (if normal = ''debit'' then running + money_of (lg_debit r) - money_of (lg_credit r)
      else running + money_of (lg_credit r) - money_of (lg_debit r))"

fun run_ledger :: "string \<Rightarrow> rat \<Rightarrow> LedgerLineRow list \<Rightarrow> AccountLedgerLine list \<times> rat" where
  "run_ledger normal running [] = ([], running)"
| "run_ledger normal running (r # rs) =
     (let x = move_running normal running r; (ls, closing) = run_ledger normal x rs
      in (\<lparr>all_row = r, all_running = formatMoney x\<rparr> # ls, closing))"

definition LedgerService_AccountLedger :: "string \<Rightarrow> string \<Rightarrow> string \<Rightarrow> AccountLedgerResponse fio" where
  "LedgerService_AccountLedger account start end_date =
     chain (lift (parseRequiredDate start)) (\<lambda>a.
     chain (lift (parseRequiredDate end_date)) (\<lambda>b.
     chain (map_error mapAccountError (fin_tx (GLAccounts_FindByID account))) (\<lambda>acc.
     chain (fin_tx (Ledger_AccountOpeningBalanceBefore account a)) (\<lambda>raw.
     chain (lift (moneyRat raw)) (\<lambda>opening.
     chain (fin_tx (Ledger_GeneralLedger a b account)) (\<lambda>rows.
       let (ls, closing) = run_ledger (gl_normal (ga_row acc)) opening rows
       in ret \<lparr>alr_account = acc, alr_start = formatDate a, alr_end = formatDate b, alr_opening = formatMoney opening,
               alr_lines = ls, alr_closing = formatMoney closing\<rparr>))))))"

section \<open>ReportService (report_service.go)\<close>

definition reportSectionLabels :: "string \<Rightarrow> string" where
  "reportSectionLabels s =
     (case map_of [(''current_asset'', ''Aset Lancar''), (''fixed_asset'', ''Aset Tetap''), (''other_asset'', ''Aset Lainnya''),
        (''current_liability'', ''Kewajiban Jangka Pendek''), (''long_term_liability'', ''Kewajiban Jangka Panjang''),
        (''equity'', ''Ekuitas''), (''revenue'', ''Pendapatan Usaha''), (''other_income'', ''Pendapatan Lain-lain''),
        (''cogs'', ''Beban Pokok''), (''operating_expense'', ''Beban Operasional''), (''other_expense'', ''Beban Lain-lain''),
        (''current_year_earnings'', ''Laba (Rugi) Tahun Berjalan'')] s of None \<Rightarrow> [] | Some l \<Rightarrow> l)"

definition profitLossIncreasingSections :: "string \<Rightarrow> bool" where
  "profitLossIncreasingSections s \<longleftrightarrow> s = ''revenue'' \<or> s = ''other_income''"

record ReportLine =
  rl_id :: string
  rl_code :: string
  rl_name :: string
  rl_amount :: string

record ReportSection =
  rs_section :: string
  rs_label :: string
  rs_accounts :: "ReportLine list"
  rs_subtotal :: string

definition report_line :: "ReportAccountRow \<Rightarrow> ReportLine" where
  "report_line r = \<lparr>rl_id = rr_id r, rl_code = rr_code r, rl_name = rr_name r, rl_amount = rr_amount r\<rparr>"

definition extend_section :: "ReportAccountRow \<Rightarrow> ReportSection \<Rightarrow> ReportSection" where
  "extend_section r s = s\<lparr>rs_accounts := rs_accounts s @ [report_line r],
     rs_subtotal := formatMoney (money_of (rs_subtotal s) + money_of (rr_amount r))\<rparr>"

definition new_section :: "ReportAccountRow \<Rightarrow> ReportSection" where
  "new_section r =
     \<lparr>rs_section = rr_section r,
      rs_label = (if reportSectionLabels (rr_section r) = [] then rr_category r else reportSectionLabels (rr_section r)),
      rs_accounts = [], rs_subtotal = ''0.00''\<rparr>"

fun add_row :: "ReportAccountRow \<Rightarrow> ReportSection list \<Rightarrow> ReportSection list" where
  "add_row r [] = [extend_section r (new_section r)]"
| "add_row r (s # ss) = (if rs_section s = rr_section r then extend_section r s # ss else s # add_row r ss)"

definition buildReportSections :: "ReportAccountRow list \<Rightarrow> ReportSection list" where
  "buildReportSections rows = foldl (\<lambda>ss r. add_row r ss) [] rows"

fun netIncomeFromRows :: "ReportAccountRow list \<Rightarrow> rat \<Rightarrow> rat" where
  "netIncomeFromRows [] net = net"
| "netIncomeFromRows (r # rs) net =
     netIncomeFromRows rs
       (case moneyRat (rr_amount r) of
          Inl _ \<Rightarrow> net
        | Inr a \<Rightarrow> (if profitLossIncreasingSections (rr_section r) then net + a else net - a))"

definition filterRowsBySection :: "string \<Rightarrow> ReportAccountRow list \<Rightarrow> ReportAccountRow list" where
  "filterRowsBySection s = filter (\<lambda>r. rr_section r = s)"

record ProfitLossResponse =
  pl_start :: string
  pl_end :: string
  pl_sections :: "ReportSection list"
  pl_net :: string

definition ReportService_ProfitLoss :: "string \<Rightarrow> string \<Rightarrow> ProfitLossResponse fio" where
  "ReportService_ProfitLoss start end_date =
     chain (lift (parseRequiredDate start)) (\<lambda>a.
     chain (lift (parseRequiredDate end_date)) (\<lambda>b.
     chain (fin_tx (Ledger_ProfitLoss a b)) (\<lambda>rows.
     ret \<lparr>pl_start = formatDate a, pl_end = formatDate b, pl_sections = buildReportSections rows,
          pl_net = formatMoney (netIncomeFromRows rows 0)\<rparr>)))"

record BalanceSheetResponse =
  bs_as_of :: string
  bs_assets :: "ReportSection list"
  bs_liabilities :: "ReportSection list"
  bs_equity :: "ReportSection list"
  bs_net :: string
  bs_total_assets :: string
  bs_total_liabilities :: string
  bs_total_equity :: string
  bs_is_balanced :: bool

definition asset_section :: "ReportSection \<Rightarrow> bool" where
  "asset_section s \<longleftrightarrow> rs_section s \<in> {''current_asset'', ''fixed_asset'', ''other_asset''}"

definition liability_section :: "ReportSection \<Rightarrow> bool" where
  "liability_section s \<longleftrightarrow> rs_section s \<in> {''current_liability'', ''long_term_liability''}"

definition equity_section :: "ReportSection \<Rightarrow> bool" where
  "equity_section s \<longleftrightarrow> rs_section s = ''equity''"

definition current_earnings :: "rat \<Rightarrow> ReportSection" where
  "current_earnings net =
     \<lparr>rs_section = ''current_year_earnings'', rs_label = reportSectionLabels ''current_year_earnings'',
      rs_accounts = [\<lparr>rl_id = [], rl_code = [], rl_name = reportSectionLabels ''current_year_earnings'', rl_amount = formatMoney net\<rparr>],
      rs_subtotal = formatMoney net\<rparr>"

definition balance_sheet_response :: "date \<Rightarrow> ReportAccountRow list \<Rightarrow> rat \<Rightarrow> BalanceSheetResponse" where
  "balance_sheet_response t rows net =
     (let sections = buildReportSections rows;
          assets = filter asset_section sections; liabilities = filter liability_section sections;
          total_assets = add_money (map rs_subtotal assets) 0;
          total_liabilities = add_money (map rs_subtotal liabilities) 0;
          total_equity = add_money (map rs_subtotal (filter equity_section sections)) 0 + net
      in \<lparr>bs_as_of = formatDate t, bs_assets = assets, bs_liabilities = liabilities,
          bs_equity = buildReportSections (filterRowsBySection ''equity'' rows) @ [current_earnings net],
          bs_net = formatMoney net, bs_total_assets = formatMoney total_assets,
          bs_total_liabilities = formatMoney total_liabilities, bs_total_equity = formatMoney total_equity,
          bs_is_balanced = (total_assets = total_liabilities + total_equity)\<rparr>)"

definition ReportService_BalanceSheet :: "string \<Rightarrow> BalanceSheetResponse fio" where
  "ReportService_BalanceSheet as_of =
     chain (lift (parseRequiredDate as_of)) (\<lambda>t.
     chain (fin_tx (Ledger_BalanceSheet t)) (\<lambda>rows.
     chain (fin_tx (Ledger_ProfitLoss (Date (Year t) 1 1) t)) (\<lambda>pl.
     ret (balance_sheet_response t rows (netIncomeFromRows pl 0)))))"

end
