(* ===== verification/CashBank.thy ===== *)
theory CashBank
  imports Ledger
begin

text \<open>
  Cash and bank accounts, their movements and reconciliations:
  \<open>repository/cash_bank_repository.go\<close> and \<open>service/cash_bank_service.go\<close> of the finance module.
\<close>

section \<open>CashBankRepository (cash_bank_repository.go)\<close>

record CashBankAccount =
  cbv_row :: cash_account
  cbv_code :: string
  cbv_name :: string

record CreateCashBankAccountParams =
  ccp_account :: string
  ccp_type :: CashBankAccountType
  ccp_bank_name :: string
  ccp_number :: string
  ccp_holder :: string

record UpdateCashBankAccountParams =
  ucp_id :: string
  ucp_bank_name :: string
  ucp_number :: string
  ucp_holder :: string
  ucp_active :: bool

definition cash_account_view :: "fdb \<Rightarrow> cash_account \<Rightarrow> CashBankAccount list" where
  "cash_account_view d c =
     (case account_by_id d (cb_account c) of
        None \<Rightarrow> [] | Some a \<Rightarrow> [\<lparr>cbv_row = c, cbv_code = gl_code a, cbv_name = gl_name a\<rparr>])"

definition Cash_FindByID :: "string \<Rightarrow> CashBankAccount ftx" where
  "Cash_FindByID s =
     chain (uuid_arg (TrimSpace s)) (\<lambda>i. get id (\<lambda>d.
     lift (query_row (\<lambda>v. cb_id (cbv_row v) = i) (concat (map (cash_account_view d) (f_cash_accounts d))))))"

definition Cash_Insert :: "CreateCashBankAccountParams \<Rightarrow> string ftx" where
  "Cash_Insert p =
     chain (uuid_arg (TrimSpace (ccp_account p))) (\<lambda>account.
     chain (varchar 150 (ccp_bank_name p)) (\<lambda>_.
     chain (varchar 50 (ccp_number p)) (\<lambda>_.
     chain (varchar 150 (ccp_holder p)) (\<lambda>_.
     chain (fresh_id (\<lambda>d. map cb_id (f_cash_accounts d))) (\<lambda>i.
     chain (get f_cash_accounts (\<lambda>rows. ensure (account \<notin> cb_account ` set rows)
       (UniqueViolation ''finance_cash_bank_accounts_account_id_unique''))) (\<lambda>_.
     chain (account_ref account) (\<lambda>_.
     ask e_now (\<lambda>now.
     chain (put (\<lambda>d. d\<lparr>f_cash_accounts := f_cash_accounts d @
       [\<lparr>cb_id = i, cb_account = account, cb_type = ccp_type p, cb_bank_name = ccp_bank_name p, cb_number = ccp_number p,
         cb_holder = ccp_holder p, cb_currency = ''IDR'', cb_active = True, cb_created_at = now, cb_updated_at = now\<rparr>]\<rparr>)) (\<lambda>_.
     ret i)))))))))"

definition Cash_Create :: "CreateCashBankAccountParams \<Rightarrow> CashBankAccount fio" where
  "Cash_Create p = chain (fin_tx (Cash_Insert p)) (\<lambda>i. fin_tx (Cash_FindByID i))"

text \<open>\<open>Exec\<close>: no row is no error; the read that follows finds none.\<close>

definition Cash_Edit :: "UpdateCashBankAccountParams \<Rightarrow> unit ftx" where
  "Cash_Edit p =
     chain (uuid_arg (TrimSpace (ucp_id p))) (\<lambda>i.
     get f_cash_accounts (\<lambda>rows.
     chain (ensure (\<forall>c \<in> set rows. cb_id c = i \<longrightarrow> RuneCount (ucp_bank_name p) \<le> 150 \<and> RuneCount (ucp_number p) \<le> 50 \<and>
       RuneCount (ucp_holder p) \<le> 150) StringTooLong) (\<lambda>_.
     ask e_now (\<lambda>now.
     put (\<lambda>d. d\<lparr>f_cash_accounts := update_where (\<lambda>c. cb_id c = i)
       (\<lambda>c. c\<lparr>cb_bank_name := ucp_bank_name p, cb_number := ucp_number p, cb_holder := ucp_holder p,
             cb_active := ucp_active p, cb_updated_at := now\<rparr>) (f_cash_accounts d)\<rparr>)))))"

definition Cash_Update :: "UpdateCashBankAccountParams \<Rightarrow> CashBankAccount fio" where
  "Cash_Update p = chain (fin_tx (Cash_Edit p)) (\<lambda>_. fin_tx (Cash_FindByID (ucp_id p)))"

definition Cash_List :: "bool \<Rightarrow> CashBankAccount list ftx" where
  "Cash_List inactive = get id (\<lambda>d.
     ret (sort_key cbv_code (concat (map (cash_account_view d) (filter (\<lambda>c. inactive \<or> cb_active c) (f_cash_accounts d))))))"

record CreateCashTransactionParams =
  ctp_account :: string
  ctp_date :: date
  ctp_type :: CashTransactionType
  ctp_amount :: string
  ctp_counter :: "string option"
  ctp_contra :: "string option"
  ctp_reference :: string
  ctp_description :: string
  ctp_number :: string
  ctp_created_by :: "string option"

definition cash_gl_account :: "string \<Rightarrow> string ftx" where
  "cash_gl_account s =
     chain (uuid_arg s) (\<lambda>i. get f_cash_accounts (\<lambda>rows.
     chain (lift (query_row (\<lambda>c. cb_id c = i) rows)) (\<lambda>c. ret (cb_account c))))"

text \<open>\<open>*p\<close> of a nil pointer.\<close>

definition deref :: "string option \<Rightarrow> string ftx" where
  "deref p = (case p of None \<Rightarrow> raise (External ''nil pointer dereference'') | Some s \<Rightarrow> ret s)"

text \<open>The account debited and the account credited.\<close>

definition cash_sides :: "CreateCashTransactionParams \<Rightarrow> string \<Rightarrow> (string \<times> string) ftx" where
  "cash_sides p this =
     (case ctp_type p of
        CashTransactionTypeCashIn \<Rightarrow> chain (deref (ctp_contra p)) (\<lambda>c. ret (this, c))
      | CashTransactionTypeCashOut \<Rightarrow> chain (deref (ctp_contra p)) (\<lambda>c. ret (c, this))
      | CashTransactionTypeTransfer \<Rightarrow>
          chain (deref (ctp_counter p)) (\<lambda>c. chain (cash_gl_account c) (\<lambda>counter. ret (counter, this))))"

definition debit_line :: "string \<Rightarrow> string \<Rightarrow> CreateJournalLineParams" where
  "debit_line account amount =
     \<lparr>lp_account = account, lp_debit = amount, lp_credit = [], lp_description = [], lp_subledger = None, lp_subledger_id = None\<rparr>"

definition credit_line :: "string \<Rightarrow> string \<Rightarrow> CreateJournalLineParams" where
  "credit_line account amount =
     \<lparr>lp_account = account, lp_debit = [], lp_credit = amount, lp_description = [], lp_subledger = None, lp_subledger_id = None\<rparr>"

definition cash_ref :: "string option \<Rightarrow> unit ftx" where
  "cash_ref c = get f_cash_accounts (\<lambda>rows. ensure (case c of None \<Rightarrow> True | Some i \<Rightarrow> i \<in> cb_id ` set rows)
     (ForeignKeyViolation ''finance_cash_bank_accounts''))"

definition insert_cash_row :: "CreateCashTransactionParams \<Rightarrow> string \<Rightarrow> string ftx" where
  "insert_cash_row p entry =
     chain (uuid_arg (ctp_account p)) (\<lambda>account.
     chain (money_arg (amountOrZero (ctp_amount p))) (\<lambda>amount.
     chain (uuid_null (nullableUUID (ctp_counter p))) (\<lambda>counter.
     chain (uuid_null (nullableUUID (ctp_contra p))) (\<lambda>contra.
     chain (uuid_null (nullableUUID (ctp_created_by p))) (\<lambda>created_by.
     chain (varchar 150 (ctp_reference p)) (\<lambda>_.
     chain (guards [(0 < amount, CheckViolation ''finance_cash_transactions_amount_check''),
                    (if ctp_type p = CashTransactionTypeTransfer then counter \<noteq> None \<and> contra = None else contra \<noteq> None \<and> counter = None,
                     CheckViolation ''finance_cash_transactions_counterparty_check'')]) (\<lambda>_.
     chain (fresh_id (\<lambda>d. map cx_id (f_cash_transactions d))) (\<lambda>i.
     chain (cash_ref (Some account)) (\<lambda>_.
     chain (cash_ref counter) (\<lambda>_.
     chain (parent_ref contra) (\<lambda>_.
     chain (user_ref created_by) (\<lambda>_.
     ask e_now (\<lambda>now.
     chain (put (\<lambda>d. d\<lparr>f_cash_transactions := f_cash_transactions d @
       [\<lparr>cx_id = i, cx_account = account, cx_date = ctp_date p, cx_type = ctp_type p, cx_amount = amount, cx_counter = counter,
         cx_contra = contra, cx_reference = ctp_reference p, cx_description = ctp_description p, cx_entry = entry,
         cx_created_by = created_by, cx_created_at = now\<rparr>]\<rparr>)) (\<lambda>_. ret i))))))))))))))"

definition cash_tx :: "CreateCashTransactionParams \<Rightarrow> string ftx" where
  "cash_tx p =
     chain (cash_gl_account (ctp_account p)) (\<lambda>this.
     chain (cash_sides p this) (\<lambda>(dr, cr).
     chain (InsertJournalEntryTx
       \<lparr>ep_number = ctp_number p, ep_date = ctp_date p, ep_source = JournalSourceCashBank, ep_source_id = None,
        ep_reference = ctp_reference p, ep_description = ctp_description p, ep_created_by = ctp_created_by p,
        ep_lines = [debit_line dr (ctp_amount p), credit_line cr (ctp_amount p)]\<rparr>) (\<lambda>entry.
     insert_cash_row p entry)))"

record CashTransaction =
  cxv_row :: cash_transaction
  cxv_code :: string
  cxv_label :: string
  cxv_counter_code :: string
  cxv_contra_code :: string
  cxv_contra_name :: string

definition opt_account :: "fdb \<Rightarrow> string option \<Rightarrow> gl_account option" where
  "opt_account d i = (case i of None \<Rightarrow> None | Some x \<Rightarrow> account_by_id d x)"

definition cash_account_by_id :: "fdb \<Rightarrow> string \<Rightarrow> cash_account option" where
  "cash_account_by_id d i = List.find (\<lambda>c. cb_id c = i) (f_cash_accounts d)"

definition code_or_empty :: "gl_account option \<Rightarrow> string" where
  "code_or_empty a = (case a of None \<Rightarrow> [] | Some x \<Rightarrow> gl_code x)"

definition name_or_empty :: "gl_account option \<Rightarrow> string" where
  "name_or_empty a = (case a of None \<Rightarrow> [] | Some x \<Rightarrow> gl_name x)"

definition cash_transaction_view :: "fdb \<Rightarrow> cash_transaction \<Rightarrow> CashTransaction list" where
  "cash_transaction_view d t =
     (case cash_account_by_id d (cx_account t) of
        None \<Rightarrow> []
      | Some c \<Rightarrow> (case account_by_id d (cb_account c) of
          None \<Rightarrow> []
        | Some a \<Rightarrow>
            [\<lparr>cxv_row = t, cxv_code = gl_code a, cxv_label = gl_name a,
              cxv_counter_code = (case cx_counter t of None \<Rightarrow> [] | Some k \<Rightarrow> (case cash_account_by_id d k of None \<Rightarrow> []
                 | Some k' \<Rightarrow> code_or_empty (account_by_id d (cb_account k')))),
              cxv_contra_code = code_or_empty (opt_account d (cx_contra t)),
              cxv_contra_name = name_or_empty (opt_account d (cx_contra t))\<rparr>]))"

definition Cash_FindTransactionByID :: "string \<Rightarrow> CashTransaction ftx" where
  "Cash_FindTransactionByID s =
     chain (uuid_arg (TrimSpace s)) (\<lambda>i. get id (\<lambda>d.
     lift (query_row (\<lambda>v. cx_id (cxv_row v) = i) (concat (map (cash_transaction_view d) (f_cash_transactions d))))))"

definition Cash_CreateTransaction :: "CreateCashTransactionParams \<Rightarrow> CashTransaction fio" where
  "Cash_CreateTransaction p = chain (fin_tx (cash_tx p)) (\<lambda>i. fin_tx (Cash_FindTransactionByID i))"

record CashTransactionListFilter =
  ctf_account :: string
  ctf_start :: "date option"
  ctf_end :: "date option"
  ctf_limit :: int
  ctf_offset :: int

definition within_bounds :: "date option \<Rightarrow> date option \<Rightarrow> date \<Rightarrow> bool" where
  "within_bounds a b t \<longleftrightarrow> (case a of None \<Rightarrow> True | Some x \<Rightarrow> x \<le> t) \<and> (case b of None \<Rightarrow> True | Some x \<Rightarrow> t \<le> x)"

text \<open>An optional filter by id.\<close>

definition uuid_filter :: "string \<Rightarrow> string option ftx" where
  "uuid_filter s = (if s = [] then ret None else chain (uuid_arg s) (\<lambda>u. ret (Some u)))"

definition Cash_ListTransactions :: "CashTransactionListFilter \<Rightarrow> (CashTransaction list \<times> nat) ftx" where
  "Cash_ListTransactions f =
     chain (uuid_filter (ctf_account f)) (\<lambda>account. get id (\<lambda>d.
       let hits = concat (map (cash_transaction_view d) (filter (\<lambda>t. (account = None \<or> Some (cx_account t) = account) \<and>
                    within_bounds (ctf_start f) (ctf_end f) (cx_date t)) (f_cash_transactions d)));
           ordered = rev (sort_key (\<lambda>v. (cx_date (cxv_row v), cx_created_at (cxv_row v))) hits)
       in ret (fin_page (ctf_limit f) (ctf_offset f) ordered, length hits)))"

record CreateBankReconciliationParams =
  crp_account :: string
  crp_date :: date
  crp_statement :: string
  crp_book :: string
  crp_notes :: string

definition Cash_CreateReconciliation :: "CreateBankReconciliationParams \<Rightarrow> BankReconciliation ftx" where
  "Cash_CreateReconciliation p =
     chain (uuid_arg (crp_account p)) (\<lambda>account.
     chain (money_arg (amountOrZero (crp_statement p))) (\<lambda>statement.
     chain (money_arg (amountOrZero (crp_book p))) (\<lambda>book.
     chain (fresh_id (\<lambda>d. map br_id (f_reconciliations d))) (\<lambda>i.
     chain (cash_ref (Some account)) (\<lambda>_.
     ask e_now (\<lambda>now.
       let r = \<lparr>br_id = i, br_account = account, br_date = crp_date p, br_statement = statement, br_book = book,
                br_status = BankReconciliationStatusDraft, br_notes = crp_notes p, br_completed_at = None,
                br_completed_by = None, br_created_at = now\<rparr>
       in chain (put (\<lambda>d. d\<lparr>f_reconciliations := f_reconciliations d @ [r]\<rparr>)) (\<lambda>_. ret r)))))))"

definition Cash_ListReconciliations :: "string \<Rightarrow> BankReconciliation list ftx" where
  "Cash_ListReconciliations s =
     chain (uuid_arg s) (\<lambda>i. get f_reconciliations (\<lambda>rows. ret (rev (sort_key br_date (filter (\<lambda>r. br_account r = i) rows)))))"

definition Cash_CompleteReconciliation :: "string \<Rightarrow> string option \<Rightarrow> BankReconciliation ftx" where
  "Cash_CompleteReconciliation s actor =
     chain (uuid_arg (TrimSpace s)) (\<lambda>i.
     chain (uuid_null (nullableUUID actor)) (\<lambda>who.
     get f_reconciliations (\<lambda>rows.
       case query_row (\<lambda>r. br_id r = i) rows of
         Inl _ \<Rightarrow> raise (Sentinel ErrBankReconciliationNotFound)
       | Inr old \<Rightarrow>
           chain (user_ref who) (\<lambda>_. ask e_now (\<lambda>now.
             let complete = (\<lambda>r. r\<lparr>br_status := BankReconciliationStatusCompleted, br_completed_at := Some now, br_completed_by := who\<rparr>)
             in chain (put (\<lambda>d. d\<lparr>f_reconciliations := update_where (\<lambda>r. br_id r = i) complete (f_reconciliations d)\<rparr>))
                      (\<lambda>_. ret (complete old)))))))"

section \<open>CashBankService (cash_bank_service.go)\<close>

definition cash_account_type :: "string \<Rightarrow> CashBankAccountType option" where
  "cash_account_type s =
     (if s = ''cash'' then Some CashBankAccountTypeCash else if s = ''bank'' then Some CashBankAccountTypeBank else None)"

definition cash_transaction_type :: "string \<Rightarrow> CashTransactionType option" where
  "cash_transaction_type s =
     (if s = ''cash_in'' then Some CashTransactionTypeCashIn else if s = ''cash_out'' then Some CashTransactionTypeCashOut
      else if s = ''transfer'' then Some CashTransactionTypeTransfer else None)"

text \<open>A value that may be missing, with the error of its absence.\<close>

definition require :: "'a option \<Rightarrow> err \<Rightarrow> ('e, 's, 'a) comp" where
  "require v er = (case v of None \<Rightarrow> raise er | Some x \<Rightarrow> ret x)"

definition CashBankService_CreateAccount :: "string \<Rightarrow> string \<Rightarrow> string \<Rightarrow> string \<Rightarrow> string \<Rightarrow> CashBankAccount fio" where
  "CashBankService_CreateAccount account kind bank_name number holder =
     chain (require (cash_account_type (TrimSpace kind)) (invalid (''type must be 'cash' or 'bank'' @ [CHR 0x27]))) (\<lambda>t.
     chain (ensure (TrimSpace account \<noteq> []) (invalid ''account_id is required'')) (\<lambda>_.
     map_error mapAccountError (Cash_Create
       \<lparr>ccp_account = account, ccp_type = t, ccp_bank_name = bank_name, ccp_number = number, ccp_holder = holder\<rparr>)))"

definition CashBankService_UpdateAccount :: "string \<Rightarrow> string \<Rightarrow> string \<Rightarrow> string \<Rightarrow> bool \<Rightarrow> CashBankAccount fio" where
  "CashBankService_UpdateAccount i bank_name number holder active =
     map_error mapAccountError (Cash_Update
       \<lparr>ucp_id = TrimSpace i, ucp_bank_name = bank_name, ucp_number = number, ucp_holder = holder, ucp_active = active\<rparr>)"

definition CashBankService_ListAccounts :: "bool \<Rightarrow> CashBankAccount list fio" where
  "CashBankService_ListAccounts inactive = fin_tx (Cash_List inactive)"

record CreateCashTransactionRequest =
  ctr_account :: string
  ctr_date :: string
  ctr_type :: string
  ctr_amount :: string
  ctr_counter :: string
  ctr_contra :: string
  ctr_reference :: string
  ctr_description :: string

text \<open>\<open>amount, err := moneyRat(s); if err != nil || amount.Sign() <= 0\<close>.\<close>

definition positive_amount :: "string \<Rightarrow> err + rat" where
  "positive_amount s =
     (case moneyRat s of
        Inl _ \<Rightarrow> Inl (invalid ''amount must be greater than zero'')
      | Inr a \<Rightarrow> if a \<le> 0 then Inl (invalid ''amount must be greater than zero'') else Inr a)"

definition cash_counterparty :: "CashTransactionType \<Rightarrow> string option \<Rightarrow> string option \<Rightarrow> err + string option \<times> string option" where
  "cash_counterparty t counter contra =
     (if t = CashTransactionTypeTransfer
      then (if counter = None then Inl (invalid ''counter_cash_bank_account_id is required for transfer'') else Inr (counter, None))
      else (if contra = None then Inl (invalid ''contra_account_id is required for cash_in/cash_out'') else Inr (None, contra)))"

definition em_dash :: string where
  "em_dash = [CHR '' '', CHR 0xE2, CHR 0x80, CHR 0x94, CHR '' '']"

definition cashTransactionLabel :: "CashTransaction \<Rightarrow> string" where
  "cashTransactionLabel t = (if cxv_label t = [] then cxv_code t else cxv_code t @ em_dash @ cxv_label t)"

definition CashBankService_CreateTransaction :: "CreateCashTransactionRequest \<Rightarrow> string \<Rightarrow> CashTransaction fio" where
  "CashBankService_CreateTransaction r actor =
     chain (require (cash_transaction_type (TrimSpace (ctr_type r)))
              (invalid ''transaction_type must be cash_in, cash_out, or transfer'')) (\<lambda>kind.
     chain (lift (parseRequiredDate (ctr_date r))) (\<lambda>t.
     chain (lift (positive_amount (ctr_amount r))) (\<lambda>amount.
     chain (lift (cash_counterparty kind (trimmedOrNil (ctr_counter r)) (trimmedOrNil (ctr_contra r)))) (\<lambda>(counter, contra).
     chain (NextEntryNumber (Year t)) (\<lambda>number.
     map_error mapJournalError (Cash_CreateTransaction
       \<lparr>ctp_account = TrimSpace (ctr_account r), ctp_date = t, ctp_type = kind, ctp_amount = formatMoney amount,
        ctp_counter = counter, ctp_contra = contra, ctp_reference = ctr_reference r, ctp_description = ctr_description r,
        ctp_number = number, ctp_created_by = trimmedOrNil actor\<rparr>))))))"

definition CashBankService_ListTransactions ::
    "string \<Rightarrow> string \<Rightarrow> string \<Rightarrow> int \<Rightarrow> int \<Rightarrow> CashTransaction listing fio" where
  "CashBankService_ListTransactions account start end_date pg per_page =
     (let (p, n) = normalizePage pg per_page in
      chain (lift (date_bound start)) (\<lambda>a.
      chain (lift (date_bound end_date)) (\<lambda>b.
      chain (fin_tx (Cash_ListTransactions \<lparr>ctf_account = account, ctf_start = a, ctf_end = b, ctf_limit = n, ctf_offset = page_offset p n\<rparr>)) (\<lambda>(ts, rows).
      ret (listing_of p n ts rows)))))"

definition bookBalanceForAccount :: "string \<Rightarrow> date \<Rightarrow> string fio" where
  "bookBalanceForAccount cash t =
     chain (map_error mapAccountError (fin_tx (Cash_FindByID (TrimSpace cash)))) (\<lambda>c.
     fin_tx (Ledger_AccountBalanceAsOf (cb_account (cbv_row c)) t))"

record BankReconciliationResponse =
  brr_row :: BankReconciliation
  brr_difference :: string

definition bankReconciliationResponse :: "BankReconciliation \<Rightarrow> BankReconciliationResponse" where
  "bankReconciliationResponse r =
     \<lparr>brr_row = r, brr_difference = formatMoney (money_of (cents_text (br_statement r)) - money_of (cents_text (br_book r)))\<rparr>"

definition CashBankService_CreateReconciliation :: "string \<Rightarrow> string \<Rightarrow> string \<Rightarrow> string \<Rightarrow> BankReconciliationResponse fio" where
  "CashBankService_CreateReconciliation cash statement_date statement notes =
     chain (lift (parseRequiredDate statement_date)) (\<lambda>t.
     chain (case moneyRat statement of Inl _ \<Rightarrow> raise (invalid ''statement_ending_balance is invalid'') | Inr a \<Rightarrow> ret a) (\<lambda>amount.
     chain (bookBalanceForAccount cash t) (\<lambda>book.
     chain (fin_tx (Cash_CreateReconciliation
       \<lparr>crp_account = TrimSpace cash, crp_date = t, crp_statement = formatMoney amount, crp_book = book, crp_notes = notes\<rparr>)) (\<lambda>r.
     ret (bankReconciliationResponse r)))))"

definition CashBankService_ListReconciliations :: "string \<Rightarrow> BankReconciliationResponse list fio" where
  "CashBankService_ListReconciliations cash =
     chain (fin_tx (Cash_ListReconciliations (TrimSpace cash))) (\<lambda>rs. ret (map bankReconciliationResponse rs))"

definition CashBankService_CompleteReconciliation :: "string \<Rightarrow> string \<Rightarrow> BankReconciliationResponse fio" where
  "CashBankService_CompleteReconciliation i actor =
     chain (map_error mapReconciliationError (fin_tx (Cash_CompleteReconciliation (TrimSpace i) (trimmedOrNil actor)))) (\<lambda>r.
     ret (bankReconciliationResponse r))"

end
