(* ===== verification/Partners.thy ===== *)
theory Partners
  imports CashBank
begin

text \<open>
  Customers and vendors, what they owe or are owed, payments and the aging report:
  \<open>repository/ar_ap_repository.go\<close>, \<open>service/ar_ap_service.go\<close> and the aging part of
  \<open>service/response_mapper.go\<close> of the finance module.
\<close>

section \<open>ARAPRepository (ar_ap_repository.go)\<close>

record BusinessPartner =
  bpv_row :: business_partner
  bpv_code :: string
  bpv_name :: string

record CreateBusinessPartnerParams =
  cbp_type :: PartnerType
  cbp_code :: string
  cbp_name :: string
  cbp_tax_id :: string
  cbp_address :: string
  cbp_control :: string

record UpdateBusinessPartnerParams =
  ubp_id :: string
  ubp_name :: string
  ubp_tax_id :: string
  ubp_address :: string
  ubp_active :: bool

definition partner_view :: "fdb \<Rightarrow> business_partner \<Rightarrow> BusinessPartner list" where
  "partner_view d p =
     (case account_by_id d (bp_control p) of
        None \<Rightarrow> [] | Some a \<Rightarrow> [\<lparr>bpv_row = p, bpv_code = gl_code a, bpv_name = gl_name a\<rparr>])"

definition ARAP_FindPartnerByID :: "string \<Rightarrow> BusinessPartner ftx" where
  "ARAP_FindPartnerByID s =
     chain (uuid_arg (TrimSpace s)) (\<lambda>i. get id (\<lambda>d.
     lift (query_row (\<lambda>v. bp_id (bpv_row v) = i \<and> bp_deleted_at (bpv_row v) = None) (concat (map (partner_view d) (f_partners d))))))"

definition insert_partner :: "CreateBusinessPartnerParams \<Rightarrow> string ftx" where
  "insert_partner p =
     chain (uuid_arg (TrimSpace (cbp_control p))) (\<lambda>control.
     chain (varchar 30 (TrimSpace (cbp_code p))) (\<lambda>_.
     chain (varchar 150 (TrimSpace (cbp_name p))) (\<lambda>_.
     chain (varchar 30 (cbp_tax_id p)) (\<lambda>_.
     chain (ensure (\<not> btrim_blank (TrimSpace (cbp_name p))) (CheckViolation ''finance_business_partners_name_not_blank_check'')) (\<lambda>_.
     chain (fresh_id (\<lambda>d. map bp_id (f_partners d))) (\<lambda>i.
     chain (get f_partners (\<lambda>rows.
       ensure (\<forall>x \<in> set rows. bp_deleted_at x = None \<longrightarrow> bp_code x \<noteq> TrimSpace (cbp_code p))
         (UniqueViolation ''idx_finance_business_partners_code_active_unique''))) (\<lambda>_.
     chain (account_ref control) (\<lambda>_.
     ask e_now (\<lambda>now.
     chain (put (\<lambda>d. d\<lparr>f_partners := f_partners d @
       [\<lparr>bp_id = i, bp_type = cbp_type p, bp_code = TrimSpace (cbp_code p), bp_name = TrimSpace (cbp_name p),
         bp_tax_id = cbp_tax_id p, bp_address = cbp_address p, bp_control = control, bp_active = True,
         bp_created_at = now, bp_updated_at = now, bp_deleted_at = None\<rparr>]\<rparr>)) (\<lambda>_. ret i))))))))))"

definition ARAP_CreatePartner :: "CreateBusinessPartnerParams \<Rightarrow> BusinessPartner fio" where
  "ARAP_CreatePartner p = chain (fin_tx (insert_partner p)) (\<lambda>i. fin_tx (ARAP_FindPartnerByID i))"

definition edit_partner :: "UpdateBusinessPartnerParams \<Rightarrow> unit ftx" where
  "edit_partner p =
     chain (uuid_arg (TrimSpace (ubp_id p))) (\<lambda>i.
     get f_partners (\<lambda>rows.
     chain (if \<exists>x \<in> set rows. bp_id x = i \<and> bp_deleted_at x = None
            then chain (varchar 150 (TrimSpace (ubp_name p))) (\<lambda>_. chain (varchar 30 (ubp_tax_id p)) (\<lambda>_.
                 ensure (\<not> btrim_blank (TrimSpace (ubp_name p))) (CheckViolation ''finance_business_partners_name_not_blank_check'')))
            else ret ()) (\<lambda>_.
     ask e_now (\<lambda>now.
     put (\<lambda>d. d\<lparr>f_partners := update_where (\<lambda>x. bp_id x = i \<and> bp_deleted_at x = None)
       (\<lambda>x. x\<lparr>bp_name := TrimSpace (ubp_name p), bp_tax_id := ubp_tax_id p, bp_address := ubp_address p,
             bp_active := ubp_active p, bp_updated_at := now\<rparr>) (f_partners d)\<rparr>)))))"

definition ARAP_UpdatePartner :: "UpdateBusinessPartnerParams \<Rightarrow> BusinessPartner fio" where
  "ARAP_UpdatePartner p = chain (fin_tx (edit_partner p)) (\<lambda>_. fin_tx (ARAP_FindPartnerByID (ubp_id p)))"

definition partner_type_text :: "PartnerType \<Rightarrow> string" where
  "partner_type_text t = (case t of PartnerTypeCustomer \<Rightarrow> ''customer'' | PartnerTypeVendor \<Rightarrow> ''vendor'')"

definition ARAP_ListPartners :: "string \<Rightarrow> bool \<Rightarrow> BusinessPartner list ftx" where
  "ARAP_ListPartners kind inactive = get id (\<lambda>d.
     ret (sort_key (\<lambda>v. bp_code (bpv_row v)) (concat (map (partner_view d) (filter (\<lambda>p. bp_deleted_at p = None \<and>
       (kind = [] \<or> partner_type_text (bp_type p) = kind) \<and> (inactive \<or> bp_active p)) (f_partners d))))))"

record CreateARAPTransactionParams =
  cat_partner :: string
  cat_type :: ARAPTransactionType
  cat_date :: date
  cat_due :: date
  cat_reference :: string
  cat_amount :: string
  cat_contra :: string
  cat_description :: string
  cat_number :: string
  cat_created_by :: "string option"

definition arapJournalSourceType :: "ARAPTransactionType \<Rightarrow> JournalSourceType" where
  "arapJournalSourceType t = (if t = ARAPTransactionTypeReceivable then JournalSourceAR else JournalSourceAP)"

text \<open>A line of the control account, carrying the partner as its subledger.\<close>

definition control_line :: "string \<Rightarrow> string \<Rightarrow> string \<Rightarrow> SubledgerType \<Rightarrow> string \<Rightarrow> CreateJournalLineParams" where
  "control_line account debit credit subledger partner =
     \<lparr>lp_account = account, lp_debit = debit, lp_credit = credit, lp_description = [], lp_subledger = Some subledger,
      lp_subledger_id = Some partner\<rparr>"

definition recognition_lines ::
    "ARAPTransactionType \<Rightarrow> string \<Rightarrow> string \<Rightarrow> string \<Rightarrow> string \<Rightarrow> CreateJournalLineParams list" where
  "recognition_lines t control contra partner amount =
     (if t = ARAPTransactionTypeReceivable
      then [control_line control amount [] SubledgerCustomer partner, credit_line contra amount]
      else [debit_line contra amount, control_line control [] amount SubledgerVendor partner])"

definition insert_arap_row :: "CreateARAPTransactionParams \<Rightarrow> string \<Rightarrow> string ftx" where
  "insert_arap_row p entry =
     chain (uuid_arg (cat_partner p)) (\<lambda>partner.
     chain (money_arg (amountOrZero (cat_amount p))) (\<lambda>amount.
     chain (uuid_arg (cat_contra p)) (\<lambda>contra.
     chain (uuid_null (nullableUUID (cat_created_by p))) (\<lambda>created_by.
     chain (varchar 150 (cat_reference p)) (\<lambda>_.
     chain (guards [(0 < amount, CheckViolation ''finance_ar_ap_transactions_amount_check''),
                    (cat_date p \<le> cat_due p, CheckViolation ''finance_ar_ap_transactions_due_after_date_check'')]) (\<lambda>_.
     chain (fresh_id (\<lambda>d. map ap_id (f_transactions d))) (\<lambda>i.
     chain (get f_partners (\<lambda>rows. ensure (partner \<in> bp_id ` set rows) (ForeignKeyViolation ''finance_business_partners''))) (\<lambda>_.
     chain (account_ref contra) (\<lambda>_.
     chain (user_ref created_by) (\<lambda>_.
     ask e_now (\<lambda>now.
     chain (put (\<lambda>d. d\<lparr>f_transactions := f_transactions d @
       [\<lparr>ap_id = i, ap_partner = partner, ap_type = cat_type p, ap_date = cat_date p, ap_due = cat_due p,
         ap_reference = cat_reference p, ap_amount = amount, ap_contra = contra, ap_description = cat_description p,
         ap_status = ARAPStatusOpen, ap_entry = entry, ap_created_by = created_by, ap_created_at = now, ap_updated_at = now\<rparr>]\<rparr>)) (\<lambda>_.
     ret i))))))))))))"

definition arap_tx :: "CreateARAPTransactionParams \<Rightarrow> string ftx" where
  "arap_tx p =
     chain (uuid_arg (cat_partner p)) (\<lambda>pid.
     get f_partners (\<lambda>rows.
     chain (lift (query_row (\<lambda>x. bp_id x = pid) rows)) (\<lambda>b.
     chain (ensure (\<not> (cat_type p = ARAPTransactionTypeReceivable \<and> bp_type b \<noteq> PartnerTypeCustomer \<or>
                       cat_type p = ARAPTransactionTypePayable \<and> bp_type b \<noteq> PartnerTypeVendor))
              (Sentinel ErrARAPTransactionTypeMismatch)) (\<lambda>_.
     chain (InsertJournalEntryTx
       \<lparr>ep_number = cat_number p, ep_date = cat_date p, ep_source = arapJournalSourceType (cat_type p), ep_source_id = None,
        ep_reference = cat_reference p, ep_description = cat_description p, ep_created_by = cat_created_by p,
        ep_lines = recognition_lines (cat_type p) (bp_control b) (cat_contra p) (cat_partner p) (cat_amount p)\<rparr>) (\<lambda>entry.
     insert_arap_row p entry)))))"

record ARAPTransaction =
  apv_row :: arap_transaction
  apv_partner_code :: string
  apv_partner_name :: string
  apv_contra_code :: string
  apv_contra_name :: string
  apv_paid :: string
  apv_outstanding :: string

definition partner_by_id :: "fdb \<Rightarrow> string \<Rightarrow> business_partner option" where
  "partner_by_id d i = List.find (\<lambda>p. bp_id p = i) (f_partners d)"

text \<open>The allocations of a transaction.\<close>

definition allocations_of :: "fdb \<Rightarrow> string \<Rightarrow> arap_allocation list" where
  "allocations_of d t = filter (\<lambda>a. al_transaction a = t) (f_allocations d)"

definition allocated :: "fdb \<Rightarrow> string \<Rightarrow> int" where
  "allocated d t = sum_list (map al_amount (allocations_of d t))"

definition arap_view :: "fdb \<Rightarrow> arap_transaction \<Rightarrow> ARAPTransaction list" where
  "arap_view d t =
     (case partner_by_id d (ap_partner t) of
        None \<Rightarrow> []
      | Some b \<Rightarrow> (case account_by_id d (ap_contra t) of
          None \<Rightarrow> []
        | Some a \<Rightarrow>
            [\<lparr>apv_row = t, apv_partner_code = bp_code b, apv_partner_name = bp_name b, apv_contra_code = gl_code a,
              apv_contra_name = gl_name a, apv_paid = sql_plus (sql_sum al_amount (allocations_of d (ap_id t))) None,
              apv_outstanding = cents_text (ap_amount t - allocated d (ap_id t))\<rparr>]))"

definition ARAP_FindTransactionByID :: "string \<Rightarrow> ARAPTransaction ftx" where
  "ARAP_FindTransactionByID s =
     chain (uuid_arg (TrimSpace s)) (\<lambda>i. get id (\<lambda>d.
     lift (query_row (\<lambda>v. ap_id (apv_row v) = i) (concat (map (arap_view d) (f_transactions d))))))"

definition ARAP_CreateTransaction :: "CreateARAPTransactionParams \<Rightarrow> ARAPTransaction fio" where
  "ARAP_CreateTransaction p = chain (fin_tx (arap_tx p)) (\<lambda>i. fin_tx (ARAP_FindTransactionByID i))"

record ARAPTransactionListFilter =
  atf_partner :: string
  atf_type :: string
  atf_status :: string
  atf_limit :: int
  atf_offset :: int

definition arap_type_text :: "ARAPTransactionType \<Rightarrow> string" where
  "arap_type_text t = (case t of ARAPTransactionTypeReceivable \<Rightarrow> ''receivable'' | ARAPTransactionTypePayable \<Rightarrow> ''payable'')"

definition arap_status_text :: "ARAPTransactionStatus \<Rightarrow> string" where
  "arap_status_text s =
     (case s of ARAPStatusOpen \<Rightarrow> ''open'' | ARAPStatusPartiallyPaid \<Rightarrow> ''partially_paid'' | ARAPStatusPaid \<Rightarrow> ''paid''
      | ARAPStatusVoid \<Rightarrow> ''void'')"

definition ARAP_ListTransactions :: "ARAPTransactionListFilter \<Rightarrow> (ARAPTransaction list \<times> nat) ftx" where
  "ARAP_ListTransactions f =
     chain (uuid_filter (atf_partner f)) (\<lambda>partner. get id (\<lambda>d.
       let hits = concat (map (arap_view d) (filter (\<lambda>t. (partner = None \<or> Some (ap_partner t) = partner) \<and>
                    (atf_type f = [] \<or> arap_type_text (ap_type t) = atf_type f) \<and>
                    (atf_status f = [] \<or> arap_status_text (ap_status t) = atf_status f)) (f_transactions d)));
           ordered = sort_key (\<lambda>v. (ap_due (apv_row v), ap_created_at (apv_row v))) hits
       in ret (fin_page (atf_limit f) (atf_offset f) ordered, length hits)))"

record CreateARAPPaymentParams =
  pap_transaction :: string
  pap_date :: date
  pap_amount :: string
  pap_cash :: string
  pap_notes :: string
  pap_number :: string
  pap_created_by :: "string option"

definition settlement_lines ::
    "ARAPTransactionType \<Rightarrow> string \<Rightarrow> string \<Rightarrow> string \<Rightarrow> string \<Rightarrow> CreateJournalLineParams list" where
  "settlement_lines t control cash partner amount =
     (if t = ARAPTransactionTypeReceivable
      then [debit_line cash amount, control_line control [] amount SubledgerCustomer partner]
      else [control_line control amount [] SubledgerVendor partner, credit_line cash amount])"

definition insert_payment_row :: "CreateARAPPaymentParams \<Rightarrow> string \<Rightarrow> string \<Rightarrow> string ftx" where
  "insert_payment_row p partner entry =
     chain (money_arg (amountOrZero (pap_amount p))) (\<lambda>amount.
     chain (uuid_arg (pap_cash p)) (\<lambda>cash.
     chain (uuid_null (nullableUUID (pap_created_by p))) (\<lambda>created_by.
     chain (ensure (0 < amount) (CheckViolation ''finance_ar_ap_payments_amount_check'')) (\<lambda>_.
     chain (fresh_id (\<lambda>d. map ay_id (f_payments d))) (\<lambda>i.
     chain (cash_ref (Some cash)) (\<lambda>_.
     chain (user_ref created_by) (\<lambda>_.
     ask e_now (\<lambda>now.
     chain (put (\<lambda>d. d\<lparr>f_payments := f_payments d @
       [\<lparr>ay_id = i, ay_partner = partner, ay_date = pap_date p, ay_amount = amount, ay_cash = cash, ay_entry = entry,
         ay_notes = pap_notes p, ay_created_by = created_by, ay_created_at = now\<rparr>]\<rparr>)) (\<lambda>_. ret i)))))))))"

definition insert_allocation :: "string \<Rightarrow> string \<Rightarrow> string \<Rightarrow> unit ftx" where
  "insert_allocation payment t amount_text =
     chain (money_arg (amountOrZero amount_text)) (\<lambda>amount.
     chain (ensure (0 < amount) (CheckViolation ''finance_ar_ap_payment_allocations_amount_check'')) (\<lambda>_.
     chain (fresh_id (\<lambda>d. map al_id (f_allocations d))) (\<lambda>i.
     put (\<lambda>d. d\<lparr>f_allocations := f_allocations d @
       [\<lparr>al_id = i, al_payment = payment, al_transaction = t, al_amount = amount\<rparr>]\<rparr>))))"

definition arapStatusFromPayments :: "string \<Rightarrow> string \<Rightarrow> ARAPTransactionStatus" where
  "arapStatusFromPayments total_text paid_text =
     (case (parseMoneyForCompare total_text, parseMoneyForCompare paid_text) of
        (Inr amount, Inr paid) \<Rightarrow>
          (if amount \<le> paid then ARAPStatusPaid else if 0 < paid then ARAPStatusPartiallyPaid else ARAPStatusOpen)
      | _ \<Rightarrow> ARAPStatusOpen)"

definition payment_tx :: "CreateARAPPaymentParams \<Rightarrow> string ftx" where
  "payment_tx p =
     chain (uuid_arg (pap_transaction p)) (\<lambda>tid.
     get f_transactions (\<lambda>rows.
     chain (lift (query_row (\<lambda>t. ap_id t = tid) rows)) (\<lambda>t.
     chain (ensure (ap_status t \<noteq> ARAPStatusPaid \<and> ap_status t \<noteq> ARAPStatusVoid)
              (Sentinel (ErrorText (''finance: ar/ap transaction is already '' @ arap_status_text (ap_status t))))) (\<lambda>_.
     get f_partners (\<lambda>partners.
     chain (lift (query_row (\<lambda>b. bp_id b = ap_partner t) partners)) (\<lambda>b.
     chain (cash_gl_account (pap_cash p)) (\<lambda>cash.
     chain (InsertJournalEntryTx
       \<lparr>ep_number = pap_number p, ep_date = pap_date p, ep_source = arapJournalSourceType (ap_type t), ep_source_id = None,
        ep_reference = [], ep_description = pap_notes p, ep_created_by = pap_created_by p,
        ep_lines = settlement_lines (ap_type t) (bp_control b) cash (ap_partner t) (pap_amount p)\<rparr>) (\<lambda>entry.
     chain (insert_payment_row p (ap_partner t) entry) (\<lambda>payment.
     chain (insert_allocation payment tid (pap_amount p)) (\<lambda>_.
     get (\<lambda>d. sql_plus (sql_sum al_amount (allocations_of d tid)) None) (\<lambda>paid_text.
     chain (case (parseMoneyForCompare (cents_text (ap_amount t)), parseMoneyForCompare paid_text) of
              (Inr amount, Inr paid) \<Rightarrow> ret (amount, paid)
            | _ \<Rightarrow> raise (Sentinel (ErrorText (''finance: invalid amount on transaction '' @ pap_transaction p)))) (\<lambda>(amount, paid).
     chain (ensure (paid \<le> amount) (Sentinel ErrARAPOverpayment)) (\<lambda>_.
     ask e_now (\<lambda>now.
     chain (put (\<lambda>d. d\<lparr>f_transactions := update_where (\<lambda>x. ap_id x = tid)
       (\<lambda>x. x\<lparr>ap_status := arapStatusFromPayments (cents_text (ap_amount t)) paid_text, ap_updated_at := now\<rparr>) (f_transactions d)\<rparr>)) (\<lambda>_.
     ret payment)))))))))))))))"

record ARAPPayment =
  ayv_row :: arap_payment
  ayv_label :: string

definition payment_view :: "fdb \<Rightarrow> arap_payment \<Rightarrow> ARAPPayment list" where
  "payment_view d y =
     (case cash_account_by_id d (ay_cash y) of
        None \<Rightarrow> []
      | Some c \<Rightarrow> (case account_by_id d (cb_account c) of
          None \<Rightarrow> [] | Some a \<Rightarrow> [\<lparr>ayv_row = y, ayv_label = gl_code a @ em_dash @ gl_name a\<rparr>]))"

definition ARAP_FindPaymentByID :: "string \<Rightarrow> ARAPPayment ftx" where
  "ARAP_FindPaymentByID s =
     chain (uuid_arg (TrimSpace s)) (\<lambda>i. get id (\<lambda>d.
     lift (query_row (\<lambda>v. ay_id (ayv_row v) = i) (concat (map (payment_view d) (f_payments d))))))"

definition ARAP_CreatePayment :: "CreateARAPPaymentParams \<Rightarrow> ARAPPayment fio" where
  "ARAP_CreatePayment p = chain (fin_tx (payment_tx p)) (\<lambda>i. fin_tx (ARAP_FindPaymentByID i))"

record AgingBucketRow =
  ag_partner :: string
  ag_code :: string
  ag_name :: string
  ag_due :: date
  ag_outstanding :: string

text \<open>What of a transaction was paid by a day.\<close>

definition paid_by :: "fdb \<Rightarrow> date \<Rightarrow> string \<Rightarrow> int" where
  "paid_by d t i =
     sum_list (map al_amount (filter (\<lambda>a. \<exists>y \<in> set (f_payments d). ay_id y = al_payment a \<and> ay_date y \<le> t) (allocations_of d i)))"

definition aging_rows :: "fdb \<Rightarrow> ARAPTransactionType \<Rightarrow> date \<Rightarrow> AgingBucketRow list" where
  "aging_rows d kind t =
     sort_key (\<lambda>r. (ag_code r, ag_due r))
       [\<lparr>ag_partner = ap_partner x, ag_code = bp_code b, ag_name = bp_name b, ag_due = ap_due x,
         ag_outstanding = cents_text (ap_amount x - paid_by d t (ap_id x))\<rparr>.
          x \<leftarrow> f_transactions d,
          ap_type x = kind \<and> ap_status x \<noteq> ARAPStatusVoid \<and> ap_date x \<le> t \<and> cents (ap_amount x - paid_by d t (ap_id x)) > 5 / 1000,
          b \<leftarrow> (case partner_by_id d (ap_partner x) of None \<Rightarrow> [] | Some b \<Rightarrow> [b])]"

definition ARAP_AgingReport :: "ARAPTransactionType \<Rightarrow> date \<Rightarrow> AgingBucketRow list ftx" where
  "ARAP_AgingReport kind t = get id (\<lambda>d. ret (aging_rows d kind t))"

section \<open>The aging report (response_mapper.go)\<close>

definition agingBucketLabels :: "string list" where
  "agingBucketLabels = [''Belum Jatuh Tempo'', ''1-30 Hari'', ''31-60 Hari'', ''61-90 Hari'', ''Lebih dari 90 Hari'']"

text \<open>Both are midnights: \<open>int(asOf.Sub(dueDate).Hours() / 24)\<close> is the number of days between.\<close>

definition agingBucketIndex :: "date \<Rightarrow> date \<Rightarrow> nat" where
  "agingBucketIndex due as_of =
     (if as_of < due then 0
      else let days = as_of - due in if days \<le> 30 then 1 else if days \<le> 60 then 2 else if days \<le> 90 then 3 else 4)"

record aging_acc =
  aa_partner :: string
  aa_code :: string
  aa_name :: string
  aa_buckets :: "rat list"
  aa_total :: rat

definition aging_add :: "date \<Rightarrow> AgingBucketRow \<Rightarrow> aging_acc \<Rightarrow> aging_acc" where
  "aging_add as_of r a =
     (case moneyRat (ag_outstanding r) of
        Inl _ \<Rightarrow> a
      | Inr x \<Rightarrow> (let i = agingBucketIndex (ag_due r) as_of
                 in a\<lparr>aa_buckets := (aa_buckets a)[i := aa_buckets a ! i + x], aa_total := aa_total a + x\<rparr>))"

definition aging_new :: "AgingBucketRow \<Rightarrow> aging_acc" where
  "aging_new r = \<lparr>aa_partner = ag_partner r, aa_code = ag_code r, aa_name = ag_name r,
     aa_buckets = replicate (length agingBucketLabels) 0, aa_total = 0\<rparr>"

fun aging_step :: "date \<Rightarrow> AgingBucketRow \<Rightarrow> aging_acc list \<Rightarrow> aging_acc list" where
  "aging_step as_of r [] = [aging_add as_of r (aging_new r)]"
| "aging_step as_of r (a # as) =
     (if aa_partner a = ag_partner r then aging_add as_of r a # as else a # aging_step as_of r as)"

record AgingRowResponse =
  agr_partner :: string
  agr_code :: string
  agr_name :: string
  agr_buckets :: "(string \<times> string) list"
  agr_total :: string

record AgingReportResponse =
  agp_as_of :: string
  agp_rows :: "AgingRowResponse list"
  agp_grand_total :: string

definition aging_response_row :: "aging_acc \<Rightarrow> AgingRowResponse" where
  "aging_response_row a =
     \<lparr>agr_partner = aa_partner a, agr_code = aa_code a, agr_name = aa_name a,
      agr_buckets = zip agingBucketLabels (map formatMoney (aa_buckets a)), agr_total = formatMoney (aa_total a)\<rparr>"

definition aging_accs :: "AgingBucketRow list \<Rightarrow> date \<Rightarrow> aging_acc list" where
  "aging_accs rows as_of = foldl (\<lambda>as r. aging_step as_of r as) [] rows"

definition buildAgingReport :: "AgingBucketRow list \<Rightarrow> date \<Rightarrow> AgingReportResponse" where
  "buildAgingReport rows as_of =
     (let accs = aging_accs rows as_of in
      \<lparr>agp_as_of = formatDate as_of, agp_rows = map aging_response_row accs,
       agp_grand_total = formatMoney (foldl (\<lambda>g a. g + aa_total a) 0 accs)\<rparr>)"

section \<open>ARAPService (ar_ap_service.go)\<close>

definition partner_type :: "string \<Rightarrow> PartnerType option" where
  "partner_type s =
     (if s = ''customer'' then Some PartnerTypeCustomer else if s = ''vendor'' then Some PartnerTypeVendor else None)"

definition arap_type :: "string \<Rightarrow> ARAPTransactionType option" where
  "arap_type s =
     (if s = ''receivable'' then Some ARAPTransactionTypeReceivable else if s = ''payable'' then Some ARAPTransactionTypePayable else None)"

record CreateBusinessPartnerRequest =
  bpr_type :: string
  bpr_code :: string
  bpr_name :: string
  bpr_tax_id :: string
  bpr_address :: string
  bpr_control :: string

definition ARAPService_CreatePartner :: "CreateBusinessPartnerRequest \<Rightarrow> BusinessPartner fio" where
  "ARAPService_CreatePartner r =
     chain (require (partner_type (TrimSpace (bpr_type r))) (invalid (''partner_type must be 'customer' or 'vendor'' @ [CHR 0x27]))) (\<lambda>t.
     chain (ensure (\<not> (TrimSpace (bpr_code r) = [] \<or> TrimSpace (bpr_name r) = [])) (invalid ''code and name are required'')) (\<lambda>_.
     map_error mapPartnerError (ARAP_CreatePartner
       \<lparr>cbp_type = t, cbp_code = bpr_code r, cbp_name = bpr_name r, cbp_tax_id = bpr_tax_id r, cbp_address = bpr_address r,
        cbp_control = bpr_control r\<rparr>)))"

definition ARAPService_UpdatePartner :: "string \<Rightarrow> string \<Rightarrow> string \<Rightarrow> string \<Rightarrow> bool \<Rightarrow> BusinessPartner fio" where
  "ARAPService_UpdatePartner i name tax_id address active =
     map_error mapPartnerError (ARAP_UpdatePartner
       \<lparr>ubp_id = TrimSpace i, ubp_name = name, ubp_tax_id = tax_id, ubp_address = address, ubp_active = active\<rparr>)"

definition ARAPService_ListPartners :: "string \<Rightarrow> bool \<Rightarrow> BusinessPartner list fio" where
  "ARAPService_ListPartners kind inactive = fin_tx (ARAP_ListPartners (TrimSpace kind) inactive)"

record CreateARAPTransactionRequest =
  atr_partner :: string
  atr_type :: string
  atr_date :: string
  atr_due :: string
  atr_reference :: string
  atr_amount :: string
  atr_contra :: string
  atr_description :: string

definition ARAPService_CreateTransaction :: "CreateARAPTransactionRequest \<Rightarrow> string \<Rightarrow> ARAPTransaction fio" where
  "ARAPService_CreateTransaction r actor =
     chain (require (arap_type (TrimSpace (atr_type r))) (invalid (''transaction_type must be 'receivable' or 'payable'' @ [CHR 0x27]))) (\<lambda>kind.
     chain (lift (parseRequiredDate (atr_date r))) (\<lambda>t.
     chain (lift (parseRequiredDate (atr_due r))) (\<lambda>due.
     chain (lift (positive_amount (atr_amount r))) (\<lambda>amount.
     chain (NextEntryNumber (Year t)) (\<lambda>number.
     map_error mapARAPError (ARAP_CreateTransaction
       \<lparr>cat_partner = TrimSpace (atr_partner r), cat_type = kind, cat_date = t, cat_due = due, cat_reference = atr_reference r,
        cat_amount = formatMoney amount, cat_contra = TrimSpace (atr_contra r), cat_description = atr_description r,
        cat_number = number, cat_created_by = trimmedOrNil actor\<rparr>))))))"

definition ARAPService_ListTransactions :: "string \<Rightarrow> string \<Rightarrow> string \<Rightarrow> int \<Rightarrow> int \<Rightarrow> ARAPTransaction listing fio" where
  "ARAPService_ListTransactions partner kind status pg per_page =
     (let (p, n) = normalizePage pg per_page in
      chain (fin_tx (ARAP_ListTransactions \<lparr>atf_partner = partner, atf_type = TrimSpace kind, atf_status = TrimSpace status,
        atf_limit = n, atf_offset = page_offset p n\<rparr>)) (\<lambda>(ts, rows).
      ret (listing_of p n ts rows)))"

record CreateARAPPaymentRequest =
  ayr_transaction :: string
  ayr_date :: string
  ayr_amount :: string
  ayr_cash :: string
  ayr_notes :: string

definition ARAPService_CreatePayment :: "CreateARAPPaymentRequest \<Rightarrow> string \<Rightarrow> ARAPPayment fio" where
  "ARAPService_CreatePayment r actor =
     chain (lift (parseRequiredDate (ayr_date r))) (\<lambda>t.
     chain (lift (positive_amount (ayr_amount r))) (\<lambda>amount.
     chain (NextEntryNumber (Year t)) (\<lambda>number.
     map_error mapARAPError (ARAP_CreatePayment
       \<lparr>pap_transaction = TrimSpace (ayr_transaction r), pap_date = t, pap_amount = formatMoney amount,
        pap_cash = TrimSpace (ayr_cash r), pap_notes = ayr_notes r, pap_number = number, pap_created_by = trimmedOrNil actor\<rparr>))))"

definition ARAPService_AgingReport :: "string \<Rightarrow> string \<Rightarrow> AgingReportResponse fio" where
  "ARAPService_AgingReport kind as_of =
     chain (require (arap_type (TrimSpace kind)) (invalid (''transaction_type must be 'receivable' or 'payable'' @ [CHR 0x27]))) (\<lambda>k.
     chain (lift (parseRequiredDate as_of)) (\<lambda>t.
     chain (fin_tx (ARAP_AgingReport k t)) (\<lambda>rows. ret (buildAgingReport rows t))))"

end
