(* ===== verification/FixedAssets.thy ===== *)
theory FixedAssets
  imports Partners
begin

text \<open>
  Fixed assets and their depreciation: \<open>repository/fixed_asset_repository.go\<close> and
  \<open>service/fixed_asset_service.go\<close> of the finance module.
\<close>

section \<open>The straight-line schedule (fixed_asset_service.go)\<close>

record ScheduleAmount =
  sa_number :: int
  sa_date :: date
  sa_amount :: string

definition lastDayOfMonth :: "date \<Rightarrow> date" where
  "lastDayOfMonth t = AddDate (AddDate (Date (Year t) (Month t) 1) 0 1 0) 0 0 (- 1)"

text \<open>The loop over the months left, carrying \<open>previousCumulative\<close>.\<close>

function schedule_from :: "date \<Rightarrow> rat \<Rightarrow> int \<Rightarrow> int \<Rightarrow> rat \<Rightarrow> ScheduleAmount list" where
  "schedule_from acquired base life i previous =
     (if i > life then []
      else let cumulative = roundMoney (base * (rat_of_int i / rat_of_int life))
           in \<lparr>sa_number = i, sa_date = lastDayOfMonth (AddDate acquired 0 (i - 1) 0), sa_amount = formatMoney (cumulative - previous)\<rparr>
              # schedule_from acquired base life (i + 1) cumulative)"
  by auto
termination by (relation "measure (\<lambda>(a, b, life, i, p). nat (life + 1 - i))") auto

declare schedule_from.simps [simp del]

definition generateStraightLineSchedule :: "date \<Rightarrow> rat \<Rightarrow> rat \<Rightarrow> int \<Rightarrow> ScheduleAmount list" where
  "generateStraightLineSchedule acquired cost salvage life = schedule_from acquired (cost - salvage) life 1 0"

section \<open>FixedAssetRepository (fixed_asset_repository.go)\<close>

record AssetCategory =
  fcv_row :: asset_category
  fcv_asset :: gl_account
  fcv_accumulated :: gl_account
  fcv_expense :: gl_account

record CreateAssetCategoryParams =
  acp_code :: string
  acp_name :: string
  acp_asset :: string
  acp_accumulated :: string
  acp_expense :: string
  acp_life :: "int option"

definition category_view :: "fdb \<Rightarrow> asset_category \<Rightarrow> AssetCategory list" where
  "category_view d c =
     (case (account_by_id d (fc_asset c), account_by_id d (fc_accumulated c), account_by_id d (fc_expense c)) of
        (Some a, Some b, Some x) \<Rightarrow> [\<lparr>fcv_row = c, fcv_asset = a, fcv_accumulated = b, fcv_expense = x\<rparr>]
      | _ \<Rightarrow> [])"

definition Assets_FindCategoryByID :: "string \<Rightarrow> AssetCategory ftx" where
  "Assets_FindCategoryByID s =
     chain (uuid_arg (TrimSpace s)) (\<lambda>i. get id (\<lambda>d.
     lift (query_row (\<lambda>v. fc_id (fcv_row v) = i) (concat (map (category_view d) (f_asset_categories d))))))"

definition insert_category :: "CreateAssetCategoryParams \<Rightarrow> string ftx" where
  "insert_category p =
     chain (uuid_arg (TrimSpace (acp_asset p))) (\<lambda>asset.
     chain (uuid_arg (TrimSpace (acp_accumulated p))) (\<lambda>accumulated.
     chain (uuid_arg (TrimSpace (acp_expense p))) (\<lambda>expense.
     chain (varchar 30 (TrimSpace (acp_code p))) (\<lambda>_.
     chain (varchar 150 (TrimSpace (acp_name p))) (\<lambda>_.
     chain (guards [(case acp_life p of None \<Rightarrow> True | Some n \<Rightarrow> - (2 ^ 31) \<le> n \<and> n < 2 ^ 31, NumericError),
                    (\<not> btrim_blank (TrimSpace (acp_name p)), CheckViolation ''finance_asset_categories_name_not_blank_check''),
                    (case acp_life p of None \<Rightarrow> True | Some n \<Rightarrow> 0 < n, CheckViolation ''finance_asset_categories_useful_life_check'')]) (\<lambda>_.
     chain (fresh_id (\<lambda>d. map fc_id (f_asset_categories d))) (\<lambda>i.
     chain (get f_asset_categories (\<lambda>rows. ensure (TrimSpace (acp_code p) \<notin> fc_code ` set rows)
       (UniqueViolation ''idx_finance_asset_categories_code_unique''))) (\<lambda>_.
     chain (account_ref asset) (\<lambda>_.
     chain (account_ref accumulated) (\<lambda>_.
     chain (account_ref expense) (\<lambda>_.
     chain (put (\<lambda>d. d\<lparr>f_asset_categories := f_asset_categories d @
       [\<lparr>fc_id = i, fc_code = TrimSpace (acp_code p), fc_name = TrimSpace (acp_name p), fc_asset = asset,
         fc_accumulated = accumulated, fc_expense = expense, fc_life = acp_life p, fc_active = True\<rparr>]\<rparr>)) (\<lambda>_. ret i))))))))))))"

definition Assets_CreateCategory :: "CreateAssetCategoryParams \<Rightarrow> AssetCategory fio" where
  "Assets_CreateCategory p = chain (fin_tx (insert_category p)) (\<lambda>i. fin_tx (Assets_FindCategoryByID i))"

definition Assets_ListCategories :: "bool \<Rightarrow> AssetCategory list ftx" where
  "Assets_ListCategories inactive = get id (\<lambda>d.
     ret (sort_key (\<lambda>v. fc_code (fcv_row v)) (concat (map (category_view d) (filter (\<lambda>c. inactive \<or> fc_active c) (f_asset_categories d))))))"

record CreateFixedAssetParams =
  fap_category :: string
  fap_code :: string
  fap_name :: string
  fap_date :: date
  fap_cost :: string
  fap_salvage :: string
  fap_life :: int
  fap_description :: string
  fap_contra :: string
  fap_number :: string
  fap_created_by :: "string option"

definition insert_asset_row :: "CreateFixedAssetParams \<Rightarrow> string \<Rightarrow> string ftx" where
  "insert_asset_row p entry =
     chain (uuid_arg (fap_category p)) (\<lambda>category.
     chain (money_arg (amountOrZero (fap_cost p))) (\<lambda>cost.
     chain (money_arg (amountOrZero (fap_salvage p))) (\<lambda>salvage.
     chain (uuid_arg (fap_contra p)) (\<lambda>contra.
     chain (uuid_null (nullableUUID (fap_created_by p))) (\<lambda>created_by.
     chain (varchar 30 (TrimSpace (fap_code p))) (\<lambda>_.
     chain (varchar 150 (TrimSpace (fap_name p))) (\<lambda>_.
     chain (guards [(fap_life p < 2 ^ 31, NumericError),
                    (\<not> btrim_blank (TrimSpace (fap_name p)), CheckViolation ''finance_fixed_assets_name_not_blank_check''),
                    (0 < cost, CheckViolation ''finance_fixed_assets_cost_check''),
                    (0 \<le> salvage \<and> salvage < cost, CheckViolation ''finance_fixed_assets_salvage_check''),
                    (0 < fap_life p, CheckViolation ''finance_fixed_assets_useful_life_check'')]) (\<lambda>_.
     chain (fresh_id (\<lambda>d. map fa_id (f_assets d))) (\<lambda>i.
     chain (get f_assets (\<lambda>rows. ensure (TrimSpace (fap_code p) \<notin> fa_code ` set rows)
       (UniqueViolation ''idx_finance_fixed_assets_code_unique''))) (\<lambda>_.
     chain (account_ref contra) (\<lambda>_.
     chain (user_ref created_by) (\<lambda>_.
     chain (put (\<lambda>d. d\<lparr>f_assets := f_assets d @
       [\<lparr>fa_id = i, fa_category = category, fa_code = TrimSpace (fap_code p), fa_name = TrimSpace (fap_name p), fa_date = fap_date p,
         fa_cost = cost, fa_salvage = salvage, fa_life = fap_life p, fa_description = fap_description p, fa_contra = contra,
         fa_entry = entry, fa_status = AssetStatusActive, fa_created_by = created_by\<rparr>]\<rparr>)) (\<lambda>_. ret i)))))))))))))"

definition insert_schedule_row :: "string \<Rightarrow> ScheduleAmount \<Rightarrow> unit ftx" where
  "insert_schedule_row asset s =
     chain (money_arg (amountOrZero (sa_amount s))) (\<lambda>amount.
     chain (guards [(0 < sa_number s, CheckViolation ''finance_depreciation_schedules_sequence_check''),
                    (0 \<le> amount, CheckViolation ''finance_depreciation_schedules_amount_check'')]) (\<lambda>_.
     chain (fresh_id (\<lambda>d. map dp_id (f_schedules d))) (\<lambda>i.
     chain (get f_schedules (\<lambda>rows. ensure (\<forall>x \<in> set rows. \<not> (dp_asset x = asset \<and> dp_number x = sa_number s))
       (UniqueViolation ''idx_finance_depreciation_schedules_asset_sequence_unique''))) (\<lambda>_.
     put (\<lambda>d. d\<lparr>f_schedules := f_schedules d @
       [\<lparr>dp_id = i, dp_asset = asset, dp_number = sa_number s, dp_date = sa_date s, dp_amount = amount,
         dp_status = DepreciationStatusPending, dp_entry = None, dp_posted_at = None\<rparr>]\<rparr>)))))"

definition acquisition_description :: "string \<Rightarrow> string \<Rightarrow> string" where
  "acquisition_description code name = ''Perolehan aset tetap '' @ code @ '' ('' @ name @ '')''"

definition asset_tx :: "CreateFixedAssetParams \<Rightarrow> ScheduleAmount list \<Rightarrow> string ftx" where
  "asset_tx p schedule =
     chain (uuid_arg (fap_category p)) (\<lambda>category.
     get f_asset_categories (\<lambda>rows.
     chain (lift (query_row (\<lambda>c. fc_id c = category) rows)) (\<lambda>c.
     chain (InsertJournalEntryTx
       \<lparr>ep_number = fap_number p, ep_date = fap_date p, ep_source = JournalSourceManual, ep_source_id = None, ep_reference = [],
        ep_description = acquisition_description (fap_code p) (fap_name p), ep_created_by = fap_created_by p,
        ep_lines = [debit_line (fc_asset c) (fap_cost p), credit_line (fap_contra p) (fap_cost p)]\<rparr>) (\<lambda>entry.
     chain (insert_asset_row p entry) (\<lambda>asset.
     chain (each (insert_schedule_row asset) schedule) (\<lambda>_. ret asset))))))"

record FixedAsset =
  fav_row :: fixed_asset
  fav_category_code :: string
  fav_category_name :: string
  fav_accumulated :: string
  fav_book_value :: string

definition posted_depreciation :: "fdb \<Rightarrow> string \<Rightarrow> depreciation_row list" where
  "posted_depreciation d asset = filter (\<lambda>s. dp_asset s = asset \<and> dp_status s = DepreciationStatusPosted) (f_schedules d)"

definition asset_view :: "fdb \<Rightarrow> fixed_asset \<Rightarrow> FixedAsset list" where
  "asset_view d a =
     (case List.find (\<lambda>c. fc_id c = fa_category a) (f_asset_categories d) of
        None \<Rightarrow> []
      | Some c \<Rightarrow>
          [\<lparr>fav_row = a, fav_category_code = fc_code c, fav_category_name = fc_name c,
            fav_accumulated = sql_plus (sql_sum dp_amount (posted_depreciation d (fa_id a))) None,
            fav_book_value = cents_text (fa_cost a - sum_list (map dp_amount (posted_depreciation d (fa_id a))))\<rparr>])"

definition Assets_FindAssetByID :: "string \<Rightarrow> FixedAsset ftx" where
  "Assets_FindAssetByID s =
     chain (uuid_arg (TrimSpace s)) (\<lambda>i. get id (\<lambda>d.
     lift (query_row (\<lambda>v. fa_id (fav_row v) = i) (concat (map (asset_view d) (f_assets d))))))"

definition Assets_CreateAsset :: "CreateFixedAssetParams \<Rightarrow> ScheduleAmount list \<Rightarrow> FixedAsset fio" where
  "Assets_CreateAsset p schedule = chain (fin_tx (asset_tx p schedule)) (\<lambda>i. fin_tx (Assets_FindAssetByID i))"

definition asset_status_text :: "AssetStatus \<Rightarrow> string" where
  "asset_status_text s = (case s of AssetStatusActive \<Rightarrow> ''active'' | AssetStatusFullyDepreciated \<Rightarrow> ''fully_depreciated'')"

definition Assets_ListAssets :: "string \<Rightarrow> string \<Rightarrow> int \<Rightarrow> int \<Rightarrow> (FixedAsset list \<times> nat) ftx" where
  "Assets_ListAssets category_id status limit offset =
     chain (uuid_filter category_id) (\<lambda>c. get id (\<lambda>d.
       let hits = concat (map (asset_view d) (filter (\<lambda>a. (c = None \<or> Some (fa_category a) = c) \<and>
                    (status = [] \<or> asset_status_text (fa_status a) = status)) (f_assets d)))
       in ret (fin_page limit offset (sort_key (\<lambda>v. fa_code (fav_row v)) hits), length hits)))"

definition asset_by_id :: "fdb \<Rightarrow> string \<Rightarrow> fixed_asset option" where
  "asset_by_id d i = List.find (\<lambda>a. fa_id a = i) (f_assets d)"

definition Assets_ListSchedules :: "string \<Rightarrow> (depreciation_row \<times> fixed_asset) list ftx" where
  "Assets_ListSchedules s =
     chain (uuid_arg (TrimSpace s)) (\<lambda>i. get id (\<lambda>d.
     ret [(r, a). r \<leftarrow> sort_key dp_number (filter (\<lambda>r. dp_asset r = i) (f_schedules d)),
            a \<leftarrow> (case asset_by_id d (dp_asset r) of None \<Rightarrow> [] | Some a \<Rightarrow> [a])]))"

section \<open>Posting depreciation\<close>

record pending_row =
  pd_schedule :: string
  pd_asset :: string
  pd_code :: string
  pd_date :: date
  pd_amount :: string
  pd_expense :: string
  pd_accumulated :: string

definition pending_rows :: "fdb \<Rightarrow> date \<Rightarrow> pending_row list" where
  "pending_rows d as_of =
     sort_key (\<lambda>r. (pd_date r, pd_code r))
       [\<lparr>pd_schedule = dp_id s, pd_asset = dp_asset s, pd_code = fa_code a, pd_date = dp_date s, pd_amount = cents_text (dp_amount s),
         pd_expense = fc_expense c, pd_accumulated = fc_accumulated c\<rparr>.
          s \<leftarrow> f_schedules d, dp_status s = DepreciationStatusPending \<and> dp_date s \<le> as_of,
          a \<leftarrow> (case asset_by_id d (dp_asset s) of None \<Rightarrow> [] | Some a \<Rightarrow> [a]),
          c \<leftarrow> (case List.find (\<lambda>c. fc_id c = fa_category a) (f_asset_categories d) of None \<Rightarrow> [] | Some c \<Rightarrow> [c])]"

definition depreciation_lines :: "pending_row \<Rightarrow> CreateJournalLineParams list" where
  "depreciation_lines r =
     [debit_line (pd_expense r) (pd_amount r), control_line (pd_accumulated r) [] (pd_amount r) SubledgerAsset (pd_asset r)]"

definition depreciation_tx :: "pending_row \<Rightarrow> string \<Rightarrow> string option \<Rightarrow> unit ftx" where
  "depreciation_tx r number actor =
     chain (InsertJournalEntryTx
       \<lparr>ep_number = number, ep_date = pd_date r, ep_source = JournalSourceDepreciation, ep_source_id = Some (pd_schedule r),
        ep_reference = [], ep_description = ''Beban depresiasi periode berjalan'', ep_created_by = actor,
        ep_lines = depreciation_lines r\<rparr>) (\<lambda>entry.
     chain (uuid_arg (pd_schedule r)) (\<lambda>i.
     ask e_now (\<lambda>now.
     put (\<lambda>d. d\<lparr>f_schedules := update_where (\<lambda>s. dp_id s = i)
       (\<lambda>s. s\<lparr>dp_status := DepreciationStatusPosted, dp_entry := Some entry, dp_posted_at := Some now\<rparr>) (f_schedules d)\<rparr>))))"

text \<open>Opening the transaction has no effect of its own; the number is drawn on another connection.\<close>

definition postOneDepreciationRow :: "pending_row \<Rightarrow> string option \<Rightarrow> unit fio" where
  "postOneDepreciationRow r actor =
     chain (NextEntryNumber (Year (pd_date r))) (\<lambda>number. fin_tx (depreciation_tx r number actor))"

text \<open>\<open>Reason\<close>: two texts of its own, otherwise the error's text.\<close>

datatype depreciation_reason = Reason string | ErrorReason err

definition depreciationFailureReason :: "err \<Rightarrow> depreciation_reason" where
  "depreciationFailureReason er =
     (if er = Sentinel ErrNoFiscalPeriod then Reason ''fiscal period for this period_date has not been created yet''
      else if er = Sentinel ErrFiscalPeriodClosed then Reason ''fiscal period for this period_date is closed''
      else ErrorReason er)"

record DepreciationPostResult =
  dr_schedule :: string
  dr_code :: string
  dr_date :: date
  dr_failure :: "depreciation_reason option"

definition post_result :: "pending_row \<Rightarrow> err + unit \<Rightarrow> DepreciationPostResult" where
  "post_result r x =
     \<lparr>dr_schedule = pd_schedule r, dr_code = pd_code r, dr_date = pd_date r,
      dr_failure = (case x of Inl er \<Rightarrow> Some (depreciationFailureReason er) | Inr _ \<Rightarrow> None)\<rparr>"

fun post_rows :: "string option \<Rightarrow> pending_row list \<Rightarrow> DepreciationPostResult list fio" where
  "post_rows actor [] = ret []"
| "post_rows actor (r # rs) =
     attempt (postOneDepreciationRow r actor) (\<lambda>x. chain (post_rows actor rs) (\<lambda>res. ret (post_result r x # res)))"

definition PostDepreciationThroughDate :: "date \<Rightarrow> string option \<Rightarrow> DepreciationPostResult list fio" where
  "PostDepreciationThroughDate as_of actor =
     chain (fin_tx (get id (\<lambda>d. ret (pending_rows d as_of)))) (post_rows actor)"

section \<open>FixedAssetService\<close>

record CreateAssetCategoryRequest =
  crq_code :: string
  crq_name :: string
  crq_asset :: string
  crq_accumulated :: string
  crq_expense :: string
  crq_life :: "int option"

definition FixedAssetService_CreateCategory :: "CreateAssetCategoryRequest \<Rightarrow> AssetCategory fio" where
  "FixedAssetService_CreateCategory r =
     chain (guards [(\<not> (TrimSpace (crq_code r) = [] \<or> TrimSpace (crq_name r) = []), invalid ''code and name are required''),
                    (case crq_life r of None \<Rightarrow> True | Some n \<Rightarrow> 0 < n, invalid ''default_useful_life_months must be greater than zero'')]) (\<lambda>_.
     map_error mapAssetCategoryError (Assets_CreateCategory
       \<lparr>acp_code = crq_code r, acp_name = crq_name r, acp_asset = TrimSpace (crq_asset r),
        acp_accumulated = TrimSpace (crq_accumulated r), acp_expense = TrimSpace (crq_expense r), acp_life = crq_life r\<rparr>))"

definition FixedAssetService_ListCategories :: "bool \<Rightarrow> AssetCategory list fio" where
  "FixedAssetService_ListCategories inactive = fin_tx (Assets_ListCategories inactive)"

record CreateFixedAssetRequest =
  far_category :: string
  far_code :: string
  far_name :: string
  far_date :: string
  far_cost :: string
  far_salvage :: string
  far_life :: int
  far_description :: string
  far_contra :: string

definition asset_cost :: "string \<Rightarrow> err + rat" where
  "asset_cost s =
     (case moneyRat s of
        Inl _ \<Rightarrow> Inl (invalid ''acquisition_cost must be greater than zero'')
      | Inr a \<Rightarrow> if a \<le> 0 then Inl (invalid ''acquisition_cost must be greater than zero'') else Inr a)"

definition asset_salvage :: "string \<Rightarrow> err + rat" where
  "asset_salvage s =
     (if TrimSpace s = [] then Inr 0
      else case moneyRat s of
             Inl _ \<Rightarrow> Inl (invalid ''salvage_value must not be negative'')
           | Inr a \<Rightarrow> if a < 0 then Inl (invalid ''salvage_value must not be negative'') else Inr a)"

definition FixedAssetService_CreateAsset :: "CreateFixedAssetRequest \<Rightarrow> string \<Rightarrow> FixedAsset fio" where
  "FixedAssetService_CreateAsset r actor =
     chain (guards [(\<not> (TrimSpace (far_code r) = [] \<or> TrimSpace (far_name r) = []), invalid ''asset_code and asset_name are required''),
                    (0 < far_life r, invalid ''useful_life_months must be greater than zero'')]) (\<lambda>_.
     chain (lift (parseRequiredDate (far_date r))) (\<lambda>t.
     chain (lift (asset_cost (far_cost r))) (\<lambda>cost.
     chain (lift (asset_salvage (far_salvage r))) (\<lambda>salvage.
     chain (ensure (salvage < cost) (invalid ''salvage_value must be less than acquisition_cost'')) (\<lambda>_.
     chain (NextEntryNumber (Year t)) (\<lambda>number.
     map_error mapFixedAssetError (Assets_CreateAsset
       \<lparr>fap_category = TrimSpace (far_category r), fap_code = far_code r, fap_name = far_name r, fap_date = t,
        fap_cost = formatMoney cost, fap_salvage = formatMoney salvage, fap_life = far_life r,
        fap_description = far_description r, fap_contra = TrimSpace (far_contra r), fap_number = number,
        fap_created_by = trimmedOrNil actor\<rparr>
       (generateStraightLineSchedule t cost salvage (far_life r)))))))))"

definition FixedAssetService_ListAssets :: "string \<Rightarrow> string \<Rightarrow> int \<Rightarrow> int \<Rightarrow> FixedAsset listing fio" where
  "FixedAssetService_ListAssets category_id status pg per_page =
     (let (p, n) = normalizePage pg per_page in
      chain (fin_tx (Assets_ListAssets category_id (TrimSpace status) n (page_offset p n))) (\<lambda>(as, rows). ret (listing_of p n as rows)))"

definition FixedAssetService_ListSchedules :: "string \<Rightarrow> (depreciation_row \<times> fixed_asset) list fio" where
  "FixedAssetService_ListSchedules i = fin_tx (Assets_ListSchedules i)"

record PostDepreciationResponse =
  pdr_posted :: nat
  pdr_failed :: nat
  pdr_items :: "DepreciationPostResult list"

definition FixedAssetService_PostDepreciation :: "string \<Rightarrow> string \<Rightarrow> PostDepreciationResponse fio" where
  "FixedAssetService_PostDepreciation as_of actor =
     chain (lift (parseRequiredDate as_of)) (\<lambda>t.
     chain (PostDepreciationThroughDate t (trimmedOrNil actor)) (\<lambda>results.
     ret \<lparr>pdr_posted = length (filter (\<lambda>x. dr_failure x = None) results),
          pdr_failed = length (filter (\<lambda>x. dr_failure x \<noteq> None) results), pdr_items = results\<rparr>))"

end
