(* ===== verification/Taxes.thy ===== *)
theory Taxes
  imports FixedAssets
begin

text \<open>
  Tax rates, tax postings and their summary: \<open>repository/tax_repository.go\<close> and
  \<open>service/tax_service.go\<close> of the finance module.
\<close>

section \<open>TaxRepository (tax_repository.go)\<close>

definition Tax_ListTypes :: "TaxType list ftx" where
  "Tax_ListTypes = get f_tax_types (\<lambda>rows. ret (sort_key tt_code rows))"

record TaxRate =
  trv_row :: tax_rate
  trv_code :: string

record CreateTaxRateParams =
  trp_type :: string
  trp_percent :: string
  trp_effective :: date
  trp_end :: "date option"
  trp_notes :: string

definition tax_type_by_id :: "fdb \<Rightarrow> string \<Rightarrow> TaxType option" where
  "tax_type_by_id d i = List.find (\<lambda>t. tt_id t = i) (f_tax_types d)"

definition tax_type_ref :: "string \<Rightarrow> unit ftx" where
  "tax_type_ref t = get f_tax_types (\<lambda>rows. ensure (t \<in> tt_id ` set rows) (ForeignKeyViolation ''finance_tax_types''))"

definition rate_view :: "fdb \<Rightarrow> tax_rate \<Rightarrow> TaxRate list" where
  "rate_view d r = (case tax_type_by_id d (tr_type r) of None \<Rightarrow> [] | Some t \<Rightarrow> [\<lparr>trv_row = r, trv_code = tt_code t\<rparr>])"

definition insert_rate :: "CreateTaxRateParams \<Rightarrow> string ftx" where
  "insert_rate p =
     chain (uuid_arg (TrimSpace (trp_type p))) (\<lambda>kind.
     chain (ask (\<lambda>e. numeric_in (10 ^ 5) e (amountOrZero (trp_percent p))) lift) (\<lambda>percent.
     chain (guards [(0 \<le> percent, CheckViolation ''finance_tax_rates_rate_check''),
                    (case trp_end p of None \<Rightarrow> True | Some t \<Rightarrow> trp_effective p \<le> t,
                     CheckViolation ''finance_tax_rates_end_after_effective_check'')]) (\<lambda>_.
     chain (fresh_id (\<lambda>d. map tr_id (f_tax_rates d))) (\<lambda>i.
     chain (get f_tax_rates (\<lambda>rows. ensure (\<forall>r \<in> set rows. \<not> (tr_type r = kind \<and> tr_effective r = trp_effective p))
       (UniqueViolation ''idx_finance_tax_rates_type_effective_unique''))) (\<lambda>_.
     chain (tax_type_ref kind) (\<lambda>_.
     chain (put (\<lambda>d. d\<lparr>f_tax_rates := f_tax_rates d @
       [\<lparr>tr_id = i, tr_type = kind, tr_percent = percent, tr_effective = trp_effective p, tr_end = trp_end p,
         tr_notes = trp_notes p\<rparr>]\<rparr>)) (\<lambda>_. ret i)))))))"

definition Tax_FindRateByID :: "string \<Rightarrow> TaxRate ftx" where
  "Tax_FindRateByID s =
     chain (uuid_arg (TrimSpace s)) (\<lambda>i. get id (\<lambda>d.
     lift (query_row (\<lambda>v. tr_id (trv_row v) = i) (concat (map (rate_view d) (f_tax_rates d))))))"

definition Tax_CreateRate :: "CreateTaxRateParams \<Rightarrow> TaxRate fio" where
  "Tax_CreateRate p = chain (fin_tx (insert_rate p)) (\<lambda>i. fin_tx (Tax_FindRateByID i))"

definition Tax_ListRates :: "string \<Rightarrow> TaxRate list ftx" where
  "Tax_ListRates s =
     chain (uuid_arg (TrimSpace s)) (\<lambda>i. get id (\<lambda>d.
     ret (rev (sort_key (\<lambda>v. tr_effective (trv_row v)) (concat (map (rate_view d) (filter (\<lambda>r. tr_type r = i) (f_tax_rates d))))))))"

definition taxAccountIsDebited :: "TaxDirection \<Rightarrow> string \<Rightarrow> bool" where
  "taxAccountIsDebited direction normal \<longleftrightarrow> (direction = TaxDirectionIncrease) = (normal = ''debit'')"

record CreateTaxTransactionParams =
  txp_type :: string
  txp_date :: date
  txp_reference :: string
  txp_amount :: string
  txp_direction :: TaxDirection
  txp_account :: string
  txp_contra :: string
  txp_description :: string
  txp_number :: string
  txp_created_by :: "string option"

definition tax_lines :: "CreateTaxTransactionParams \<Rightarrow> string \<Rightarrow> CreateJournalLineParams list" where
  "tax_lines p normal =
     (if taxAccountIsDebited (txp_direction p) normal
      then [control_line (txp_account p) (txp_amount p) [] SubledgerTaxCode (txp_type p), credit_line (txp_contra p) (txp_amount p)]
      else [debit_line (txp_contra p) (txp_amount p), control_line (txp_account p) [] (txp_amount p) SubledgerTaxCode (txp_type p)])"

definition insert_tax_row :: "CreateTaxTransactionParams \<Rightarrow> string \<Rightarrow> string ftx" where
  "insert_tax_row p entry =
     chain (uuid_arg (txp_type p)) (\<lambda>kind.
     chain (money_arg (amountOrZero (txp_amount p))) (\<lambda>amount.
     chain (uuid_arg (txp_account p)) (\<lambda>account.
     chain (uuid_arg (txp_contra p)) (\<lambda>contra.
     chain (uuid_null (nullableUUID (txp_created_by p))) (\<lambda>created_by.
     chain (varchar 150 (txp_reference p)) (\<lambda>_.
     chain (ensure (0 < amount) (CheckViolation ''finance_tax_transactions_amount_check'')) (\<lambda>_.
     chain (fresh_id (\<lambda>d. map tx_id (f_tax_transactions d))) (\<lambda>i.
     chain (tax_type_ref kind) (\<lambda>_.
     chain (account_ref account) (\<lambda>_.
     chain (account_ref contra) (\<lambda>_.
     chain (user_ref created_by) (\<lambda>_.
     ask e_now (\<lambda>now.
     chain (put (\<lambda>d. d\<lparr>f_tax_transactions := f_tax_transactions d @
       [\<lparr>tx_id = i, tx_type = kind, tx_date = txp_date p, tx_reference = txp_reference p, tx_amount = amount,
         tx_direction = txp_direction p, tx_account = account, tx_contra = contra, tx_description = txp_description p,
         tx_entry = entry, tx_created_by = created_by, tx_created_at = now\<rparr>]\<rparr>)) (\<lambda>_. ret i))))))))))))))"

definition tax_tx :: "CreateTaxTransactionParams \<Rightarrow> string ftx" where
  "tax_tx p =
     chain (uuid_arg (txp_account p)) (\<lambda>aid.
     get f_accounts (\<lambda>rows.
     chain (lift (query_row (\<lambda>a. gl_id a = aid) rows)) (\<lambda>a.
     chain (InsertJournalEntryTx
       \<lparr>ep_number = txp_number p, ep_date = txp_date p, ep_source = JournalSourceTax, ep_source_id = None,
        ep_reference = txp_reference p, ep_description = txp_description p, ep_created_by = txp_created_by p,
        ep_lines = tax_lines p (gl_normal a)\<rparr>) (\<lambda>entry.
     insert_tax_row p entry))))"

record TaxTransaction =
  txv_row :: tax_transaction
  txv_type :: TaxType
  txv_account :: gl_account
  txv_contra :: gl_account

definition tax_view :: "fdb \<Rightarrow> tax_transaction \<Rightarrow> TaxTransaction list" where
  "tax_view d t =
     (case (tax_type_by_id d (tx_type t), account_by_id d (tx_account t), account_by_id d (tx_contra t)) of
        (Some k, Some a, Some c) \<Rightarrow> [\<lparr>txv_row = t, txv_type = k, txv_account = a, txv_contra = c\<rparr>]
      | _ \<Rightarrow> [])"

definition Tax_FindTransactionByID :: "string \<Rightarrow> TaxTransaction ftx" where
  "Tax_FindTransactionByID s =
     chain (uuid_arg (TrimSpace s)) (\<lambda>i. get id (\<lambda>d.
     lift (query_row (\<lambda>v. tx_id (txv_row v) = i) (concat (map (tax_view d) (f_tax_transactions d))))))"

definition Tax_CreateTransaction :: "CreateTaxTransactionParams \<Rightarrow> TaxTransaction fio" where
  "Tax_CreateTransaction p = chain (fin_tx (tax_tx p)) (\<lambda>i. fin_tx (Tax_FindTransactionByID i))"

definition Tax_ListTransactions ::
    "string \<Rightarrow> date option \<Rightarrow> date option \<Rightarrow> int \<Rightarrow> int \<Rightarrow> (TaxTransaction list \<times> nat) ftx" where
  "Tax_ListTransactions kind start end_date limit offset =
     chain (uuid_filter kind) (\<lambda>k. get id (\<lambda>d.
       let hits = concat (map (tax_view d) (filter (\<lambda>t. (k = None \<or> Some (tx_type t) = k) \<and>
                    within_bounds start end_date (tx_date t)) (f_tax_transactions d)));
           ordered = rev (sort_key (\<lambda>v. (tx_date (txv_row v), tx_created_at (txv_row v))) hits)
       in ret (fin_page limit offset ordered, length hits)))"

record TaxSummaryRow =
  ts_id :: string
  ts_code :: string
  ts_name :: string
  ts_increase :: string
  ts_decrease :: string
  ts_net :: string

definition tax_postings :: "fdb \<Rightarrow> string \<Rightarrow> date \<Rightarrow> date \<Rightarrow> tax_transaction list" where
  "tax_postings d kind a b = filter (\<lambda>t. tx_type t = kind \<and> between a b (tx_date t)) (f_tax_transactions d)"

text \<open>
  A sum over joined rows, with the literal \<open>0\<close> standing for the rows of the other direction and
  for a type that has none: it has decimals when an amount is among its terms.
\<close>

definition sum_text :: "(tax_transaction \<Rightarrow> bool) \<Rightarrow> (tax_transaction \<Rightarrow> int) \<Rightarrow> tax_transaction list \<Rightarrow> string" where
  "sum_text p f rows = sql_plus (sql_sum f (filter p rows)) None"

definition summary_row :: "fdb \<Rightarrow> date \<Rightarrow> date \<Rightarrow> TaxType \<Rightarrow> TaxSummaryRow" where
  "summary_row d a b k =
     (let rows = tax_postings d (tt_id k) a b in
      \<lparr>ts_id = tt_id k, ts_code = tt_code k, ts_name = tt_name k,
       ts_increase = sum_text (\<lambda>t. tx_direction t = TaxDirectionIncrease) tx_amount rows,
       ts_decrease = sum_text (\<lambda>t. tx_direction t = TaxDirectionDecrease) tx_amount rows,
       ts_net = sum_text (\<lambda>_. True) (\<lambda>t. if tx_direction t = TaxDirectionIncrease then tx_amount t else - tx_amount t) rows\<rparr>)"

definition Tax_Summary :: "date \<Rightarrow> date \<Rightarrow> TaxSummaryRow list ftx" where
  "Tax_Summary a b = get id (\<lambda>d. ret (map (summary_row d a b) (sort_key tt_code (f_tax_types d))))"

section \<open>TaxService (tax_service.go)\<close>

definition TaxService_ListTypes :: "TaxType list fio" where
  "TaxService_ListTypes = fin_tx Tax_ListTypes"

definition TaxService_CreateRate :: "string \<Rightarrow> string \<Rightarrow> string \<Rightarrow> string \<Rightarrow> string \<Rightarrow> TaxRate fio" where
  "TaxService_CreateRate kind percent effective end_date notes =
     chain (case moneyRat percent of
              Inl _ \<Rightarrow> raise (invalid ''rate_percent must not be negative'')
            | Inr r \<Rightarrow> (if r < 0 then raise (invalid ''rate_percent must not be negative'') else ret r)) (\<lambda>rate.
     chain (lift (parseRequiredDate effective)) (\<lambda>t.
     chain (lift (parseOptionalDate (Some end_date))) (\<lambda>u.
     map_error mapTaxError (Tax_CreateRate
       \<lparr>trp_type = TrimSpace kind, trp_percent = formatMoney rate, trp_effective = t, trp_end = u, trp_notes = notes\<rparr>))))"

definition TaxService_ListRates :: "string \<Rightarrow> TaxRate list fio" where
  "TaxService_ListRates kind = fin_tx (Tax_ListRates kind)"

record CreateTaxTransactionRequest =
  txr_type :: string
  txr_date :: string
  txr_reference :: string
  txr_amount :: string
  txr_direction :: string
  txr_account :: string
  txr_contra :: string
  txr_description :: string

definition tax_direction :: "string \<Rightarrow> TaxDirection option" where
  "tax_direction s =
     (if s = ''increase'' then Some TaxDirectionIncrease else if s = ''decrease'' then Some TaxDirectionDecrease else None)"

definition TaxService_CreateTransaction :: "CreateTaxTransactionRequest \<Rightarrow> string \<Rightarrow> TaxTransaction fio" where
  "TaxService_CreateTransaction r actor =
     chain (require (tax_direction (TrimSpace (txr_direction r))) (invalid (''direction must be 'increase' or 'decrease'' @ [CHR 0x27]))) (\<lambda>dir.
     chain (lift (parseRequiredDate (txr_date r))) (\<lambda>t.
     chain (lift (positive_amount (txr_amount r))) (\<lambda>amount.
     chain (NextEntryNumber (Year t)) (\<lambda>number.
     map_error mapTaxError (Tax_CreateTransaction
       \<lparr>txp_type = TrimSpace (txr_type r), txp_date = t, txp_reference = txr_reference r, txp_amount = formatMoney amount,
        txp_direction = dir, txp_account = TrimSpace (txr_account r), txp_contra = TrimSpace (txr_contra r),
        txp_description = txr_description r, txp_number = number, txp_created_by = trimmedOrNil actor\<rparr>)))))"

definition TaxService_ListTransactions :: "string \<Rightarrow> string \<Rightarrow> string \<Rightarrow> int \<Rightarrow> int \<Rightarrow> TaxTransaction listing fio" where
  "TaxService_ListTransactions kind start end_date pg per_page =
     (let (p, n) = normalizePage pg per_page in
      chain (lift (parseOptionalDate (Some start))) (\<lambda>a.
      chain (lift (parseOptionalDate (Some end_date))) (\<lambda>b.
      chain (fin_tx (Tax_ListTransactions kind a b n (page_offset p n))) (\<lambda>(ts, rows). ret (listing_of p n ts rows)))))"

definition TaxService_Summary :: "string \<Rightarrow> string \<Rightarrow> (string \<times> string \<times> TaxSummaryRow list) fio" where
  "TaxService_Summary start end_date =
     chain (lift (parseRequiredDate start)) (\<lambda>a.
     chain (lift (parseRequiredDate end_date)) (\<lambda>b.
     chain (fin_tx (Tax_Summary a b)) (\<lambda>rows. ret (formatDate a, formatDate b, rows))))"

end
