(* ===== verification/FinFacts.thy ===== *)
theory FinFacts
  imports Taxes
begin

text \<open>
  What a successful transaction of the finance module did to the tables: one lemma per
  transaction, of the form \<open>m e d = (Inr x, d') \<Longrightarrow> ...\<close>, with the rows it added and the checks they
  passed.  \<open>enters\<close> is the contract of \<open>InsertJournalEntryTx\<close>, the one way into the ledger.
\<close>

section \<open>Arguments and references\<close>

named_theorems fin_simps \<open>a successful result of the finance module, taken apart\<close>

lemmas [fin_simps] = tx_simps

lemma uuid_arg_Inr [fin_simps]: "uuid_arg s e d = (Inr u, d') \<longleftrightarrow> e_uuid_in e s = Some u \<and> d' = d"
  by (auto simp: uuid_arg_def comp_defs split: option.split)

lemma uuid_null_Inr [fin_simps]:
  "uuid_null v e d = (Inr u, d') \<longleftrightarrow> d' = d \<and> (case v of None \<Rightarrow> u = None | Some s \<Rightarrow> e_uuid_in e s \<noteq> None \<and> u = e_uuid_in e s)"
  by (cases v) (auto simp: uuid_null_def fin_simps)

lemma money_arg_Inr [fin_simps]: "money_arg s e d = (Inr k, d') \<longleftrightarrow> numeric_in (10 ^ 18) e s = Inr k \<and> d' = d"
  by (auto simp: money_arg_def fin_simps)

lemma varchar_Inr [fin_simps]: "varchar n s e d = (Inr u, d') \<longleftrightarrow> RuneCount s \<le> n \<and> d' = d"
  by (auto simp: varchar_def fin_simps)

lemma user_ref_Inr [fin_simps]:
  "user_ref v e d = (Inr u, d') \<longleftrightarrow> d' = d \<and> (case v of None \<Rightarrow> True | Some i \<Rightarrow> e_users e i)"
  by (auto simp: user_ref_def fin_simps)

lemma account_ref_Inr [fin_simps]: "account_ref a e d = (Inr u, d') \<longleftrightarrow> d' = d \<and> a \<in> gl_id ` set (f_accounts d)"
  by (auto simp: account_ref_def fin_simps)

lemma parent_ref_Inr [fin_simps]:
  "parent_ref v e d = (Inr u, d') \<longleftrightarrow> d' = d \<and> (case v of None \<Rightarrow> True | Some i \<Rightarrow> i \<in> gl_id ` set (f_accounts d))"
  by (cases v) (auto simp: parent_ref_def fin_simps)

lemma cash_ref_Inr [fin_simps]:
  "cash_ref v e d = (Inr u, d') \<longleftrightarrow> d' = d \<and> (case v of None \<Rightarrow> True | Some i \<Rightarrow> i \<in> cb_id ` set (f_cash_accounts d))"
  by (auto simp: cash_ref_def fin_simps)

lemma category_ref_Inr [fin_simps]:
  "category_ref v e d = (Inr u, d') \<longleftrightarrow> d' = d \<and> (case v of None \<Rightarrow> True | Some i \<Rightarrow> i \<in> cg_id ` set (f_categories d))"
  by (auto simp: category_ref_def fin_simps)

lemma tax_type_ref_Inr [fin_simps]: "tax_type_ref t e d = (Inr u, d') \<longleftrightarrow> d' = d \<and> t \<in> tt_id ` set (f_tax_types d)"
  by (auto simp: tax_type_ref_def fin_simps)

lemma fresh_id_Inr [fin_simps]:
  "fresh_id ids e d = (Inr u, d') \<longleftrightarrow>
     u = e_uuid e (f_next d) \<and> d' = d\<lparr>f_next := Suc (f_next d)\<rparr> \<and> u \<notin> set (ids (d\<lparr>f_next := Suc (f_next d)\<rparr>))"
  by (auto simp: fresh_id_def fin_simps)

lemma account_checks_Inr [fin_simps]:
  "account_checks h n s c e d = (Inr u, d') \<longleftrightarrow>
     d' = d \<and> (n = ''debit'' \<or> n = ''credit'') \<and> (h \<or> c \<noteq> None) \<and> \<not> btrim_blank s"
  by (auto simp: account_checks_def fin_simps)

lemma deref_Inr [fin_simps]: "deref p e d = (Inr s, d') \<longleftrightarrow> p = Some s \<and> d' = d"
  by (cases p) (auto simp: deref_def fin_simps)

lemma require_Inr [fin_simps]: "require v er e s = (Inr x, s') \<longleftrightarrow> v = Some x \<and> s' = s"
  by (cases v) (auto simp: require_def fin_simps)

lemma cash_gl_account_Inr [fin_simps]:
  "cash_gl_account s e d = (Inr a, d') \<longleftrightarrow>
     d' = d \<and> (\<exists>i c. e_uuid_in e s = Some i \<and> query_row (\<lambda>c. cb_id c = i) (f_cash_accounts d) = Inr c \<and> a = cb_account c)"
  by (auto simp: cash_gl_account_def fin_simps)

section \<open>Transactions and statements\<close>

lemma fin_tx_Inr: "fin_tx body e w = (Inr a, w') \<Longrightarrow> body e (fw_db w) = (Inr a, fw_db w')"
  by (auto simp: fin_tx_def Let_def split: if_splits prod.splits sum.splits)

lemma fin_tx_cases:
  assumes "fin_tx body e w = (r, w')"
  obtains (rolled_back) er where "r = Inl er" "w' = w\<lparr>fw_tick := Suc (fw_tick w)\<rparr>"
  | (committed) a d where "body e (fw_db w) = (Inr a, d)" "w' = w\<lparr>fw_tick := Suc (fw_tick w), fw_db := d\<rparr>"
      "r = Inr a \<or> r = Inl DbFault"
  using assms unfolding fin_tx_def by (auto simp: Let_def split: if_splits prod.splits sum.splits)

lemma NextEntryNumber_db: "NextEntryNumber y e w = (r, w') \<Longrightarrow> fw_db w' = fw_db w"
  by (auto simp: NextEntryNumber_def Let_def split: if_splits)

section \<open>Into the ledger\<close>

definition line_ok :: "journal_line \<Rightarrow> bool" where
  "line_ok r \<longleftrightarrow> 0 \<le> jl_debit r \<and> 0 \<le> jl_credit r \<and> \<not> (0 < jl_debit r \<and> 0 < jl_credit r) \<and> 0 < jl_debit r + jl_credit r"

lemma line_okE:
  assumes "line_ok r"
  obtains (debit) "0 < jl_debit r" "jl_credit r = 0" | (credit) "jl_debit r = 0" "0 < jl_credit r"
  using assms unfolding line_ok_def by fastforce

lemma put_line_Inr:
  "put_line i n a dr cr t s sid e d = (Inr u, d') \<longleftrightarrow>
     (\<exists>r. d' = d\<lparr>f_lines := f_lines d @ [r], f_next := Suc (f_next d)\<rparr> \<and>
        r = \<lparr>jl_id = e_uuid e (f_next d), jl_entry = i, jl_number = n, jl_account = a, jl_debit = dr, jl_credit = cr,
             jl_description = t, jl_subledger = s, jl_subledger_id = sid, jl_created_at = e_now e\<rparr> \<and>
        line_ok r \<and> jl_id r \<notin> jl_id ` set (f_lines d) \<and> (\<forall>l \<in> set (f_lines d). \<not> (jl_entry l = i \<and> jl_number l = n)) \<and>
        a \<in> gl_id ` set (f_accounts d))"
  by (auto simp: put_line_def fin_simps line_ok_def)

text \<open>A line in the tables carries what was asked for.\<close>

definition fits_line :: "env \<Rightarrow> CreateJournalLineParams \<Rightarrow> journal_line \<Rightarrow> bool" where
  "fits_line e l r \<longleftrightarrow>
     e_uuid_in e (lp_account l) = Some (jl_account r) \<and>
     numeric_in (10 ^ 18) e (amountOrZero (lp_debit l)) = Inr (jl_debit r) \<and>
     numeric_in (10 ^ 18) e (amountOrZero (lp_credit l)) = Inr (jl_credit r) \<and>
     jl_description r = lp_description l \<and> jl_subledger r = subledgerTypeOrDefault (lp_subledger l) \<and>
     (case nullableUUID (lp_subledger_id l) of None \<Rightarrow> jl_subledger_id r = None
      | Some s \<Rightarrow> e_uuid_in e s \<noteq> None \<and> jl_subledger_id r = e_uuid_in e s)"

primrec numbered :: "int \<Rightarrow> journal_line list \<Rightarrow> bool" where
  "numbered n [] = True"
| "numbered n (r # rs) = (jl_number r = n \<and> numbered (n + 1) rs)"

lemma numbered_above: "numbered n rs \<Longrightarrow> r \<in> set rs \<Longrightarrow> n \<le> jl_number r"
  by (induction rs arbitrary: n) force+

lemma numbered_distinct: "numbered n rs \<Longrightarrow> distinct (map jl_number rs)"
  by (induction rs arbitrary: n) (auto dest: numbered_above)

text \<open>Lines of one entry added to the tables.\<close>

definition adds_lines :: "string \<Rightarrow> fdb \<Rightarrow> journal_line list \<Rightarrow> fdb \<Rightarrow> bool" where
  "adds_lines i d rs d' \<longleftrightarrow>
     d' = d\<lparr>f_lines := f_lines d @ rs, f_next := f_next d'\<rparr> \<and> distinct (map jl_number rs) \<and>
     (\<forall>r \<in> set rs. jl_entry r = i \<and> line_ok r \<and> jl_account r \<in> gl_id ` set (f_accounts d))"

lemma insert_line_Inr:
  assumes "insert_line i n l e d = (Inr u, d')"
  obtains r where "d' = d\<lparr>f_lines := f_lines d @ [r], f_next := Suc (f_next d)\<rparr>" "fits_line e l r" "line_ok r"
    "jl_entry r = i" "jl_number r = n" "jl_account r \<in> gl_id ` set (f_accounts d)"
proof -
  from assms show thesis
    by (rule_tac r = "last (f_lines d')" in that)
       (auto simp: insert_line_def fin_simps put_line_Inr fits_line_def split: option.splits)
qed

lemma insert_lines_Inr:
  assumes "insert_lines i n ls e d = (Inr u, d')"
  obtains rs where "adds_lines i d rs d'" "list_all2 (fits_line e) ls rs" "numbered n rs"
proof -
  have "\<exists>rs. d' = d\<lparr>f_lines := f_lines d @ rs, f_next := f_next d'\<rparr> \<and> list_all2 (fits_line e) ls rs \<and> numbered n rs \<and>
     (\<forall>r \<in> set rs. jl_entry r = i \<and> line_ok r \<and> jl_account r \<in> gl_id ` set (f_accounts d))"
    using assms
  proof (induction ls arbitrary: n d)
    case Nil
    then show ?case by (auto simp: fin_simps)
  next
    case (Cons l ls)
    then obtain d1 where 1: "insert_line i n l e d = (Inr (), d1)" and 2: "insert_lines i (n + 1) ls e d1 = (Inr u, d')"
      by (auto simp: fin_simps)
    obtain r where r: "d1 = d\<lparr>f_lines := f_lines d @ [r], f_next := Suc (f_next d)\<rparr>" "fits_line e l r" "line_ok r"
      "jl_entry r = i" "jl_number r = n" "jl_account r \<in> gl_id ` set (f_accounts d)"
      using insert_line_Inr [OF 1] .
    obtain rs where rs: "d' = d1\<lparr>f_lines := f_lines d1 @ rs, f_next := f_next d'\<rparr>" "list_all2 (fits_line e) ls rs"
      "numbered (n + 1) rs" "\<forall>r \<in> set rs. jl_entry r = i \<and> line_ok r \<and> jl_account r \<in> gl_id ` set (f_accounts d1)"
      using Cons.IH [OF 2] by blast
    have "d' = d\<lparr>f_lines := f_lines d @ (r # rs), f_next := f_next d'\<rparr>" by (subst rs(1)) (simp add: r(1))
    then show ?case using r rs by (intro exI [of _ "r # rs"]) auto
  qed
  then show thesis using that numbered_distinct unfolding adds_lines_def by blast
qed

definition enters :: "fdb \<Rightarrow> journal_entry \<Rightarrow> journal_line list \<Rightarrow> fdb \<Rightarrow> bool" where
  "enters d j rs d' \<longleftrightarrow>
     d' = d\<lparr>f_entries := f_entries d @ [j], f_lines := f_lines d @ rs, f_next := f_next d'\<rparr> \<and>
     je_id j \<notin> je_id ` set (f_entries d) \<and> je_number j \<notin> je_number ` set (f_entries d) \<and>
     je_status j = JournalStatusPosted \<and> je_reversed_by j = None \<and>
     (\<exists>p \<in> set (f_periods d). fp_id p = je_period j \<and> covers (je_date j) p \<and> fp_status p = FiscalStatusOpen) \<and>
     distinct (map jl_number rs) \<and>
     (\<forall>r \<in> set rs. jl_entry r = je_id j \<and> line_ok r \<and> jl_account r \<in> gl_id ` set (f_accounts d))"

lemma open_period_Inr:
  "open_period t e d = (Inr i, d') \<Longrightarrow>
     d' = d \<and> (\<exists>p \<in> set (f_periods d). fp_id p = i \<and> covers t p \<and> fp_status p = FiscalStatusOpen)"
  by (cases "query_row (covers t) (f_periods d)")
     (auto simp: open_period_def fin_simps dest!: query_row_Inr split: if_splits, metis FiscalStatus.exhaust)

lemma insert_entry_Inr:
  "insert_entry number t period source sid ref desc who e d = (Inr i, d') \<Longrightarrow>
     \<exists>j. d' = d\<lparr>f_entries := f_entries d @ [j], f_next := f_next d'\<rparr> \<and> je_id j = i \<and>
       je_id j \<notin> je_id ` set (f_entries d) \<and> number \<notin> je_number ` set (f_entries d) \<and>
       j = \<lparr>je_id = i, je_number = number, je_date = t, je_period = period, je_source = source, je_source_id = sid,
         je_reference = ref, je_description = desc, je_status = JournalStatusPosted,
         je_posted_at = Some (e_now e), je_reversed_by = None, je_created_by = who, je_created_at = e_now e, je_updated_at = e_now e\<rparr>"
  by (auto simp: insert_entry_def fin_simps)

lemma InsertJournalEntryTx_Inr:
  assumes "InsertJournalEntryTx p e d = (Inr i, d')"
  obtains j rs where "enters d j rs d'" "je_id j = i" "je_number j = ep_number p" "je_date j = ep_date p"
    "je_source j = ep_source p" "je_reference j = ep_reference p" "je_description j = ep_description p"
    "list_all2 (fits_line e) (ep_lines p) rs" "numbered 1 rs"
proof -
  obtain period s1 sid who d1 where 1: "open_period (ep_date p) e d = (Inr period, s1)"
      and 2: "insert_entry (ep_number p) (ep_date p) period (ep_source p) sid (ep_reference p) (ep_description p) who e s1 = (Inr i, d1)"
      and 3: "insert_lines i 1 (ep_lines p) e d1 = (Inr (), d')"
    using assms unfolding InsertJournalEntryTx_def chain_Inr ret_Inr uuid_null_Inr by auto
  have "s1 = d" using open_period_Inr [OF 1] by blast
  note 1 = 1 [unfolded this] and 2 = 2 [unfolded this]
  obtain q where q: "q \<in> set (f_periods d)" "fp_id q = period" "covers (ep_date p) q" "fp_status q = FiscalStatusOpen"
    using open_period_Inr [OF 1] by blast
  obtain j where j: "d1 = d\<lparr>f_entries := f_entries d @ [j], f_next := f_next d1\<rparr>" "je_id j = i"
      "je_id j \<notin> je_id ` set (f_entries d)" "ep_number p \<notin> je_number ` set (f_entries d)"
      "j = \<lparr>je_id = i, je_number = ep_number p, je_date = ep_date p, je_period = period, je_source = ep_source p, je_source_id = sid,
         je_reference = ep_reference p, je_description = ep_description p, je_status = JournalStatusPosted,
         je_posted_at = Some (e_now e), je_reversed_by = None, je_created_by = who, je_created_at = e_now e, je_updated_at = e_now e\<rparr>"
    using insert_entry_Inr [OF 2] by blast
  obtain rs where rs: "adds_lines i d1 rs d'" "list_all2 (fits_line e) (ep_lines p) rs" "numbered 1 rs"
    using insert_lines_Inr [OF 3] .
  have same: "f_accounts d1 = f_accounts d" "f_lines d1 = f_lines d" by (subst j(1), simp)+
  have d': "d' = d\<lparr>f_entries := f_entries d @ [j], f_lines := f_lines d @ rs, f_next := f_next d'\<rparr>"
    using rs(1) unfolding adds_lines_def same by (subst (asm) j(1)) simp
  have "enters d j rs d'"
    unfolding enters_def using d' rs(1) j(2-4) q unfolding adds_lines_def same by (auto simp: j(5))
  then show thesis using that rs(2,3) j(5) by simp
qed

end
