(* ===== verification/FinSteps.thy ===== *)
theory FinSteps
  imports FinFacts "HOL-Library.Multiset"
begin

text \<open>
  The finance ledger as a state machine: \<open>fin_step Q\<close> has one rule per kind of transaction, with
  the rows it adds, the rows it changes and the checks it made; \<open>Q\<close> is what is known of the lines
  of manual entries.  Every transaction that commits is one step (\<open>..._step\<close>), which is what the
  invariants of \<open>Books\<close> are proved on.
\<close>

section \<open>Lines of an entry\<close>

definition lines_of :: "fdb \<Rightarrow> string \<Rightarrow> journal_line list" where
  "lines_of d i = filter (\<lambda>l. jl_entry l = i) (f_lines d)"

definition total_debit :: "journal_line list \<Rightarrow> int" where
  "total_debit rs = sum_list (map jl_debit rs)"

definition total_credit :: "journal_line list \<Rightarrow> int" where
  "total_credit rs = sum_list (map jl_credit rs)"

definition balanced :: "journal_line list \<Rightarrow> bool" where
  "balanced rs \<longleftrightarrow> total_debit rs = total_credit rs"

text \<open>An amount on the debit side of one line and on the credit side of the other.\<close>

definition double_entry :: "int \<Rightarrow> journal_line list \<Rightarrow> bool" where
  "double_entry k rs \<longleftrightarrow>
     (\<exists>r1 r2. rs = [r1, r2] \<and> jl_debit r1 = k \<and> jl_credit r1 = 0 \<and> jl_debit r2 = 0 \<and> jl_credit r2 = k)"

lemma double_entry_balanced: "double_entry k rs \<Longrightarrow> balanced rs"
  by (auto simp: double_entry_def balanced_def total_debit_def total_credit_def)

definition mirrored :: "journal_line \<Rightarrow> journal_line \<Rightarrow> bool" where
  "mirrored l r \<longleftrightarrow>
     jl_number r = jl_number l \<and> jl_account r = jl_account l \<and> jl_debit r = jl_credit l \<and> jl_credit r = jl_debit l \<and>
     jl_subledger r = jl_subledger l \<and> jl_subledger_id r = jl_subledger_id l"

lemma mirrored_totals:
  "list_all2 mirrored ls rs \<Longrightarrow> total_debit rs = total_credit ls \<and> total_credit rs = total_debit ls"
  by (induction rule: list_all2_induct) (auto simp: mirrored_def total_debit_def total_credit_def)

lemma sum_sort_key: "sum_list (map (g :: 'a \<Rightarrow> int) (sort_key f xs)) = sum_list (map g xs)"
  by (metis mset_map mset_sort sum_mset_sum_list)

lemma totals_sort [simp]: "total_debit (sort_key f rs) = total_debit rs" "total_credit (sort_key f rs) = total_credit rs"
  by (simp_all add: total_debit_def total_credit_def sum_sort_key)

lemma balanced_sort [simp]: "balanced (sort_key f rs) = balanced rs"
  by (simp add: balanced_def)

section \<open>Identifiers\<close>

text \<open>The text form of a \<open>uuid\<close>: what \<open>gen_random_uuid()\<close> prints, and what the type reads back unchanged.\<close>

definition hex_char :: "char \<Rightarrow> bool" where
  "hex_char c \<longleftrightarrow> is_digit c \<or> c \<in> set ''abcdef''"

definition canonical_uuid :: "string \<Rightarrow> bool" where
  "canonical_uuid s \<longleftrightarrow>
     (\<exists>a b c d f. s = a @ ''-'' @ b @ ''-'' @ c @ ''-'' @ d @ ''-'' @ f \<and>
        length a = 8 \<and> length b = 4 \<and> length c = 4 \<and> length d = 4 \<and> length f = 12 \<and>
        list_all hex_char (a @ b @ c @ d @ f))"

definition fin_env_ok :: "env \<Rightarrow> bool" where
  "fin_env_ok e \<longleftrightarrow>
     env_ok e \<and> (\<forall>n. canonical_uuid (e_uuid e n)) \<and> (\<forall>s. canonical_uuid s \<longrightarrow> e_uuid_in e s = Some s)"

lemma fin_env_okD:
  assumes "fin_env_ok e"
  shows "env_ok e" "canonical_uuid (e_uuid e n)" "canonical_uuid s \<Longrightarrow> e_uuid_in e s = Some s"
  using assms by (simp_all add: fin_env_ok_def)

section \<open>The step relation\<close>

definition set_status :: "FiscalStatus \<Rightarrow> instant option \<Rightarrow> string option \<Rightarrow> FiscalPeriod \<Rightarrow> FiscalPeriod" where
  "set_status s a b p = p\<lparr>fp_status := s, fp_closed_at := a, fp_closed_by := b\<rparr>"

definition set_year_status :: "FiscalStatus \<Rightarrow> instant option \<Rightarrow> string option \<Rightarrow> FiscalYear \<Rightarrow> FiscalYear" where
  "set_year_status s a b y = y\<lparr>fy_status := s, fy_closed_at := a, fy_closed_by := b\<rparr>"

definition status_after :: "int \<Rightarrow> int \<Rightarrow> ARAPTransactionStatus" where
  "status_after amount paid =
     (if amount \<le> paid then ARAPStatusPaid else if 0 < paid then ARAPStatusPartiallyPaid else ARAPStatusOpen)"

text \<open>The twelve periods of a year.\<close>

definition year_periods :: "FiscalYear \<Rightarrow> FiscalPeriod list \<Rightarrow> bool" where
  "year_periods y ps \<longleftrightarrow>
     map fp_number ps = [1..12] \<and> distinct (map fp_id ps) \<and>
     (\<forall>p \<in> set ps. fp_year_id p = fy_id y \<and> fp_start p = period_start (fy_year y) (fp_number p) \<and>
        fp_end p = period_end (fy_year y) (fp_number p) \<and> fp_status p = FiscalStatusOpen)"

definition cash_core :: "cash_account \<Rightarrow> string \<times> string" where
  "cash_core c = (cb_id c, cb_account c)"

definition partner_core :: "business_partner \<Rightarrow> string \<times> PartnerType \<times> string" where
  "partner_core p = (bp_id p, bp_type p, bp_control p)"

text \<open>Registers beside the ledger: rows are added, and edited in what is not part of their core.\<close>

definition registers_grow :: "fdb \<Rightarrow> fdb \<Rightarrow> bool" where
  "registers_grow d d' \<longleftrightarrow>
     d' = d\<lparr>f_cash_accounts := f_cash_accounts d', f_reconciliations := f_reconciliations d', f_partners := f_partners d',
           f_asset_categories := f_asset_categories d', f_tax_rates := f_tax_rates d', f_next := f_next d'\<rparr> \<and>
     (\<exists>cs. map cash_core (f_cash_accounts d') = map cash_core (f_cash_accounts d) @ cs) \<and>
     (\<exists>ps. map partner_core (f_partners d') = map partner_core (f_partners d) @ ps) \<and>
     (distinct (map bp_id (f_partners d)) \<longrightarrow> distinct (map bp_id (f_partners d'))) \<and>
     (distinct (map cb_id (f_cash_accounts d)) \<longrightarrow> distinct (map cb_id (f_cash_accounts d'))) \<and>
     (distinct (map cb_account (f_cash_accounts d)) \<longrightarrow> distinct (map cb_account (f_cash_accounts d'))) \<and>
     (\<exists>as. f_asset_categories d' = f_asset_categories d @ as)"

definition account_core :: "gl_account \<Rightarrow> string \<times> string \<times> bool \<times> string \<times> instant option" where
  "account_core a = (gl_id a, gl_code a, gl_header a, gl_normal a, gl_deleted_at a)"

text \<open>What is known of the lines of manual entries, and the statuses given to periods and years.\<close>

record policy =
  may_enter :: "journal_line list \<Rightarrow> bool"
  may_set :: "FiscalStatus \<Rightarrow> bool"

definition any_call :: policy where
  "any_call = \<lparr>may_enter = (\<lambda>_. True), may_set = (\<lambda>_. True)\<rparr>"

inductive fin_step :: "policy \<Rightarrow> fdb \<Rightarrow> fdb \<Rightarrow> bool" for Q where
  manual:
    "enters d j rs d' \<Longrightarrow> je_source j = JournalSourceManual \<Longrightarrow> may_enter Q rs \<Longrightarrow> fin_step Q d d'"
| cash:
    "enters d j rs d1 \<Longrightarrow> je_source j = JournalSourceCashBank \<Longrightarrow> double_entry (cx_amount x) rs \<Longrightarrow> 0 < cx_amount x \<Longrightarrow>
     cx_entry x = je_id j \<Longrightarrow> cx_date x = je_date j \<Longrightarrow>
     d' = d1\<lparr>f_cash_transactions := f_cash_transactions d1 @ [x], f_next := n\<rparr> \<Longrightarrow> fin_step Q d d'"
| arap:
    "enters d j rs d1 \<Longrightarrow> je_source j = arapJournalSourceType (ap_type t) \<Longrightarrow> double_entry (ap_amount t) rs \<Longrightarrow> 0 < ap_amount t \<Longrightarrow>
     ap_entry t = je_id j \<Longrightarrow> ap_date t = je_date j \<Longrightarrow> ap_status t = ARAPStatusOpen \<Longrightarrow> ap_id t \<notin> ap_id ` set (f_transactions d) \<Longrightarrow>
     b \<in> set (f_partners d) \<Longrightarrow> bp_id b = ap_partner t \<Longrightarrow> bp_type b = (if ap_type t = ARAPTransactionTypeReceivable then PartnerTypeCustomer else PartnerTypeVendor) \<Longrightarrow>
     d' = d1\<lparr>f_transactions := f_transactions d1 @ [t], f_next := n\<rparr> \<Longrightarrow> fin_step Q d d'"
| payment:
    "enters d j rs d1 \<Longrightarrow> t \<in> set (f_transactions d) \<Longrightarrow> ap_status t \<notin> {ARAPStatusPaid, ARAPStatusVoid} \<Longrightarrow>
     je_source j = arapJournalSourceType (ap_type t) \<Longrightarrow> double_entry (ay_amount y) rs \<Longrightarrow> 0 < ay_amount y \<Longrightarrow>
     ay_entry y = je_id j \<Longrightarrow> ay_date y = je_date j \<Longrightarrow> ay_partner y = ap_partner t \<Longrightarrow> ay_id y \<notin> ay_id ` set (f_payments d) \<Longrightarrow>
     al_payment a = ay_id y \<Longrightarrow> al_transaction a = ap_id t \<Longrightarrow> al_amount a = ay_amount y \<Longrightarrow>
     allocated d (ap_id t) + ay_amount y \<le> ap_amount t \<Longrightarrow>
     d' = d1\<lparr>f_payments := f_payments d1 @ [y], f_allocations := f_allocations d1 @ [a],
             f_transactions := update_where (\<lambda>x. ap_id x = ap_id t)
               (\<lambda>x. x\<lparr>ap_status := status_after (ap_amount t) (allocated d (ap_id t) + ay_amount y), ap_updated_at := now\<rparr>) (f_transactions d1),
             f_next := n\<rparr> \<Longrightarrow> fin_step Q d d'"
| asset:
    "enters d j rs d1 \<Longrightarrow> je_source j = JournalSourceManual \<Longrightarrow> double_entry (fa_cost a) rs \<Longrightarrow> 0 < fa_cost a \<Longrightarrow>
     fa_entry a = je_id j \<Longrightarrow> fa_date a = je_date j \<Longrightarrow> fa_id a \<notin> fa_id ` set (f_assets d) \<Longrightarrow>
     \<forall>s \<in> set ss. dp_asset s = fa_id a \<and> dp_status s = DepreciationStatusPending \<and> dp_entry s = None \<and> 0 \<le> dp_amount s \<and> dp_amount s < 10 ^ 18 \<and>
       canonical_uuid (dp_id s) \<and> dp_id s \<notin> dp_id ` set (f_schedules d) \<Longrightarrow>
     distinct (map dp_id ss) \<Longrightarrow>
     d' = d1\<lparr>f_assets := f_assets d1 @ [a], f_schedules := f_schedules d1 @ ss, f_next := n\<rparr> \<Longrightarrow> fin_step Q d d'"
| depreciation:
    "enters d j rs d1 \<Longrightarrow> je_source j = JournalSourceDepreciation \<Longrightarrow> s \<in> set (f_schedules d) \<Longrightarrow> double_entry (dp_amount s) rs \<Longrightarrow>
     je_date j = dp_date s \<Longrightarrow>
     d' = d1\<lparr>f_schedules := update_where (\<lambda>x. dp_id x = dp_id s)
               (\<lambda>x. x\<lparr>dp_status := DepreciationStatusPosted, dp_entry := Some (je_id j), dp_posted_at := Some now\<rparr>) (f_schedules d1),
             f_next := n\<rparr> \<Longrightarrow> fin_step Q d d'"
| tax:
    "enters d j rs d1 \<Longrightarrow> je_source j = JournalSourceTax \<Longrightarrow> double_entry (tx_amount t) rs \<Longrightarrow> 0 < tx_amount t \<Longrightarrow>
     tx_entry t = je_id j \<Longrightarrow> tx_date t = je_date j \<Longrightarrow>
     d' = d1\<lparr>f_tax_transactions := f_tax_transactions d1 @ [t], f_next := n\<rparr> \<Longrightarrow> fin_step Q d d'"
| reverse:
    "j0 \<in> set (f_entries d) \<Longrightarrow> je_status j0 = JournalStatusPosted \<Longrightarrow> enters d j rs d1 \<Longrightarrow> je_source j = je_source j0 \<Longrightarrow>
     list_all2 mirrored (sort_key jl_number (lines_of d (je_id j0))) rs \<Longrightarrow>
     d' = d1\<lparr>f_entries := update_where (\<lambda>x. je_id x = je_id j0)
               (\<lambda>x. x\<lparr>je_status := JournalStatusReversed, je_reversed_by := Some (je_id j), je_updated_at := now\<rparr>) (f_entries d1),
             f_next := n\<rparr> \<Longrightarrow> fin_step Q d d'"
| year:
    "fy_id y \<notin> fy_id ` set (f_years d) \<Longrightarrow> fy_year y \<notin> fy_year ` set (f_years d) \<Longrightarrow> fy_start y = Date (fy_year y) 1 1 \<Longrightarrow>
     fy_end y = Date (fy_year y) 12 31 \<Longrightarrow> year_periods y ps \<Longrightarrow> \<forall>p \<in> set ps. fp_id p \<notin> fp_id ` set (f_periods d) \<Longrightarrow>
     d' = d\<lparr>f_years := f_years d @ [y], f_periods := f_periods d @ ps, f_next := n\<rparr> \<Longrightarrow> fin_step Q d d'"
| period_status:
    "may_set Q s \<Longrightarrow> d' = d\<lparr>f_periods := update_where (\<lambda>p. fp_id p = i) (set_status s a b) (f_periods d)\<rparr> \<Longrightarrow> fin_step Q d d'"
| year_status:
    "may_set Q s \<Longrightarrow> d' = d\<lparr>f_years := update_where (\<lambda>y. fy_id y = i) (set_year_status s a b) (f_years d),
           f_periods := update_where (\<lambda>p. fp_year_id p = i) (set_status s a b) (f_periods d)\<rparr> \<Longrightarrow> fin_step Q d d'"
| account_new:
    "gl_id a \<notin> gl_id ` set (f_accounts d) \<Longrightarrow> gl_normal a \<in> {''debit'', ''credit''} \<Longrightarrow> gl_deleted_at a = None \<Longrightarrow>
     \<forall>x \<in> set (f_accounts d). gl_deleted_at x = None \<longrightarrow> gl_code x \<noteq> gl_code a \<Longrightarrow>
     d' = d\<lparr>f_accounts := f_accounts d @ [a], f_next := n\<rparr> \<Longrightarrow> fin_step Q d d'"
| account_edit:
    "(\<And>a. account_core (f a) = account_core a) \<Longrightarrow>
     d' = d\<lparr>f_accounts := update_where P f (f_accounts d)\<rparr> \<Longrightarrow> fin_step Q d d'"
| registers: "registers_grow d d' \<Longrightarrow> fin_step Q d d'"

abbreviation fin_steps :: "policy \<Rightarrow> fdb \<Rightarrow> fdb \<Rightarrow> bool" where
  "fin_steps Q \<equiv> (fin_step Q)\<^sup>*\<^sup>*"

lemma fin_step_mono: "fin_step Q d d' \<Longrightarrow> (\<And>rs. may_enter Q rs \<Longrightarrow> may_enter Q' rs) \<Longrightarrow> (\<And>s. may_set Q s \<Longrightarrow> may_set Q' s) \<Longrightarrow> fin_step Q' d d'"
  by (induction rule: fin_step.induct) (blast intro: fin_step.intros)+

section \<open>Every transaction is a step\<close>

lemma uuid_null_reads: "uuid_null v e d = (Inr u, d') \<Longrightarrow> d' = d"
  by (simp add: fin_simps)

lemma closing_Inr: "closing s actor e d = (Inr x, d') \<Longrightarrow> d' = d"
  by (auto simp: closing_def fin_simps split: if_splits)

lemma GLAccounts_Create_step:
  assumes "GLAccounts_Create p e d = (Inr a, d')"
  shows "fin_step Q d d'"
proof (rule fin_step.account_new)
  note r = assms [unfolded GLAccounts_Create_def Let_def fin_simps, simplified]
  show "gl_id (ga_row a) \<notin> gl_id ` set (f_accounts d)" "gl_normal (ga_row a) \<in> {''debit'', ''credit''}"
    "gl_deleted_at (ga_row a) = None" "\<forall>x \<in> set (f_accounts d). gl_deleted_at x = None \<longrightarrow> gl_code x \<noteq> gl_code (ga_row a)"
    "d' = d\<lparr>f_accounts := f_accounts d @ [ga_row a], f_next := Suc (f_next d)\<rparr>"
    using r by (clarsimp simp: returned_account_def)+
qed

lemma GLAccounts_Update_step:
  assumes "GLAccounts_Update p e d = (Inr a, d')"
  shows "fin_step Q d d'"
  using assms unfolding GLAccounts_Update_def Let_def fin_simps
  by (elim exE conjE) (rule fin_step.account_edit [rotated], simp, simp add: account_core_def)

lemma SetPeriodStatus_step: "may_set Q st \<Longrightarrow> Fiscal_SetPeriodStatus s st actor e d = (Inr p, d') \<Longrightarrow> fin_step Q d d'"
  unfolding Fiscal_SetPeriodStatus_def
  by (clarsimp simp: fin_simps Let_def dest!: closing_Inr) (rule fin_step.period_status, assumption, simp add: set_status_def [abs_def])

lemma SetFiscalYearStatus_step: "may_set Q st \<Longrightarrow> Fiscal_SetFiscalYearStatus s st actor e d = (Inr y, d') \<Longrightarrow> fin_step Q d d'"
  unfolding Fiscal_SetFiscalYearStatus_def
  by (clarsimp simp: fin_simps Let_def dest!: closing_Inr)
     (rule fin_step.year_status, assumption, simp add: set_status_def [abs_def] set_year_status_def [abs_def])

subsection \<open>Registers\<close>

lemma registers_growI:
  assumes "d' = d\<lparr>f_cash_accounts := f_cash_accounts d', f_reconciliations := f_reconciliations d', f_partners := f_partners d',
           f_asset_categories := f_asset_categories d', f_tax_rates := f_tax_rates d', f_next := f_next d'\<rparr>"
    and "f_cash_accounts d' = f_cash_accounts d \<or> (\<exists>c. f_cash_accounts d' = f_cash_accounts d @ [c] \<and>
           cb_id c \<notin> cb_id ` set (f_cash_accounts d) \<and> cb_account c \<notin> cb_account ` set (f_cash_accounts d)) \<or>
         map cash_core (f_cash_accounts d') = map cash_core (f_cash_accounts d)"
    and "f_partners d' = f_partners d \<or> (\<exists>p. f_partners d' = f_partners d @ [p] \<and> bp_id p \<notin> bp_id ` set (f_partners d)) \<or>
         map partner_core (f_partners d') = map partner_core (f_partners d)"
    and "\<exists>as. f_asset_categories d' = f_asset_categories d @ as"
  shows "fin_step Q d d'"
proof (rule fin_step.registers)
  have cash: "map cb_id cs = map fst (map cash_core cs)" "map cb_account cs = map snd (map cash_core cs)" for cs
    by (simp_all add: cash_core_def)
  have partner: "map bp_id ps = map fst (map partner_core ps)" for ps
    by (simp add: partner_core_def)
  have [simp]: "fst (cash_core c) = cb_id c" "snd (cash_core c) = cb_account c" "fst (partner_core p) = bp_id p" for c p
    by (simp_all add: cash_core_def partner_core_def)
  have "(\<exists>cs. map cash_core (f_cash_accounts d') = map cash_core (f_cash_accounts d) @ cs) \<and>
     (distinct (map cb_id (f_cash_accounts d)) \<longrightarrow> distinct (map cb_id (f_cash_accounts d'))) \<and>
     (distinct (map cb_account (f_cash_accounts d)) \<longrightarrow> distinct (map cb_account (f_cash_accounts d')))"
    using assms(2) by (elim disjE exE conjE) (simp_all add: cash image_image del: map_map)
  moreover have "(\<exists>ps. map partner_core (f_partners d') = map partner_core (f_partners d) @ ps) \<and>
     (distinct (map bp_id (f_partners d)) \<longrightarrow> distinct (map bp_id (f_partners d')))"
    using assms(3) by (elim disjE exE conjE) (simp_all add: partner image_image del: map_map)
  ultimately show "registers_grow d d'" unfolding registers_grow_def using assms(1,4) by blast
qed

lemma Cash_Insert_step: "Cash_Insert p e d = (Inr i, d') \<Longrightarrow> fin_step Q d d'"
  unfolding Cash_Insert_def fin_simps by (elim exE conjE) (rule registers_growI; simp)

lemma Cash_Edit_step: "Cash_Edit p e d = (Inr u, d') \<Longrightarrow> fin_step Q d d'"
  unfolding Cash_Edit_def fin_simps
  by (elim exE conjE) (rule registers_growI; simp add: map_update_where cash_core_def)

lemma CreateReconciliation_step: "Cash_CreateReconciliation p e d = (Inr r, d') \<Longrightarrow> fin_step Q d d'"
  unfolding Cash_CreateReconciliation_def Let_def fin_simps by (elim exE conjE) (rule registers_growI; simp)

lemma CompleteReconciliation_step: "Cash_CompleteReconciliation s actor e d = (Inr r, d') \<Longrightarrow> fin_step Q d d'"
  unfolding Cash_CompleteReconciliation_def Let_def fin_simps
  by (elim exE conjE) (rule registers_growI; simp add: fin_simps split: sum.splits)

lemma insert_partner_step: "insert_partner p e d = (Inr i, d') \<Longrightarrow> fin_step Q d d'"
  unfolding insert_partner_def fin_simps by (elim exE conjE) (rule registers_growI; simp)

lemma edit_partner_step: "edit_partner p e d = (Inr u, d') \<Longrightarrow> fin_step Q d d'"
  unfolding edit_partner_def fin_simps
  by (elim exE conjE) (rule registers_growI; simp add: fin_simps map_update_where partner_core_def split: if_splits)

lemma insert_category_step: "insert_category p e d = (Inr i, d') \<Longrightarrow> fin_step Q d d'"
  unfolding insert_category_def fin_simps by (elim exE conjE) (rule registers_growI; simp)

lemma insert_rate_step: "insert_rate p e d = (Inr i, d') \<Longrightarrow> fin_step Q d d'"
  unfolding insert_rate_def fin_simps by (elim exE conjE) (rule registers_growI; simp)

end
