(* ===== verification/FinMoney.thy ===== *)
theory FinMoney
  imports Ledger
begin

text \<open>
  Amounts on their way through texts: an amount the database wrote is read back exactly, by
  \<open>moneyRat\<close> and \<open>parseMoneyForCompare\<close> and by \<open>numeric_in\<close>, and the totals the services
  compute from texts are the totals of the amounts.
\<close>

section \<open>Texts without spaces\<close>

definition amount_char :: "char \<Rightarrow> bool" where
  "amount_char c \<longleftrightarrow> is_digit c \<or> c = CHR ''-'' \<or> c = CHR ''.''"

lemma amount_char_graphic: "amount_char c \<Longrightarrow> graphic c"
  by (auto simp: amount_char_def is_digit_def graphic_def)

lemma amount_chars_cents_text: "c \<in> set (cents_text k) \<Longrightarrow> amount_char c"
  using dec_nat_digits zero_pad_digits [OF dec_nat_digits]
  by (auto simp: cents_text_def Let_def amount_char_def split: if_splits)

lemma cents_text_ne [simp]: "cents_text k \<noteq> []"
  by (simp add: cents_text_def Let_def)

lemma TrimSpace_cents_text [simp]: "TrimSpace (cents_text k) = cents_text k"
  by (rule TrimSpace_graphic) (simp_all add: amount_char_graphic amount_chars_cents_text [of _ k])

lemma moneyRat_cents_text [simp]: "moneyRat (cents_text k) = Inr (cents k)"
  by (simp add: moneyRat_def)

lemma money_of_cents_text [simp]: "money_of (cents_text k) = cents k"
  by (simp add: money_of_def)

lemma parse_cents_text [simp]: "parseMoneyForCompare (cents_text k) = Inr (cents k)"
  by (simp add: parseMoneyForCompare_def)

lemma amountOrZero_cents_text [simp]: "amountOrZero (cents_text k) = cents_text k"
  by (simp add: amountOrZero_def)

lemma SetString_zero: "SetString ''0'' = Some 0"
proof -
  have "SetString (decimal_text ''0'' None) = Some (decimal_value ''0'' None)"
    by (intro SetString_decimal) (auto simp: is_digit_def)
  then show ?thesis by (simp add: decimal_text_def decimal_value_def dec_value_def char_digit_def)
qed

lemma TrimSpace_zero [simp]: "TrimSpace ''0'' = ''0''"
  by (rule TrimSpace_graphic) (simp_all add: graphic_def)

lemma cents_simps: "cents 0 = 0" "cents (a + b) = cents a + cents b" "cents (a - b) = cents a - cents b" "cents (- a) = - cents a"
  by (simp_all add: cents_def add_divide_distrib diff_divide_distrib)

lemma cents_le [simp]: "cents a \<le> cents b \<longleftrightarrow> a \<le> b" "cents a < cents b \<longleftrightarrow> a < b" "cents a = cents b \<longleftrightarrow> a = b"
  "0 \<le> cents a \<longleftrightarrow> 0 \<le> a" "0 < cents a \<longleftrightarrow> 0 < a" "cents a = 0 \<longleftrightarrow> a = 0"
  by (simp_all add: cents_def divide_le_cancel divide_less_cancel)

section \<open>Sums\<close>

definition sum_or_zero :: "int option \<Rightarrow> int" where
  "sum_or_zero x = (case x of None \<Rightarrow> 0 | Some k \<Rightarrow> k)"

lemma sum_or_zero_sql_sum [simp]: "sum_or_zero (sql_sum f rows) = sum_list (map f rows)"
  by (simp add: sum_or_zero_def sql_sum_def)

lemma sum_or_zero_simps [simp]: "sum_or_zero None = 0" "sum_or_zero (Some k) = k"
  by (simp_all add: sum_or_zero_def)

lemma sql_plus_reads [simp]:
  "moneyRat (sql_plus x y) = Inr (cents (sum_or_zero x + sum_or_zero y))"
  "parseMoneyForCompare (sql_plus x y) = Inr (cents (sum_or_zero x + sum_or_zero y))"
  by (auto simp: sql_plus_def moneyRat_def parseMoneyForCompare_def SetString_zero cents_simps sum_or_zero_def)

lemma money_of_sql_plus [simp]: "money_of (sql_plus x y) = cents (sum_or_zero x + sum_or_zero y)"
  by (simp add: money_of_def)

lemma add_money_sum: "add_money ss r = r + sum_list (map money_of ss)"
  by (induction ss arbitrary: r) (simp_all add: add.assoc)

lemma sum_cents: "sum_list (map (\<lambda>x. cents (f x)) xs) = cents (sum_list (map f xs))"
  by (induction xs) (simp_all add: cents_simps)

end
