(* ===== verification/FinCommits.thy ===== *)
theory FinCommits
  imports FinSteps FinMoney
begin

text \<open>
  The transactions that post an entry, one lemma each: what commits is one step of \<open>fin_step\<close>.
  The two lines a subledger writes carry the same amount text, so they carry the same amount.
\<close>

section \<open>Two lines of one amount\<close>

lemma numeric_in_zero: "env_ok e \<Longrightarrow> numeric_in (10 ^ 18) e (amountOrZero []) = Inr 0"
proof -
  assume e: "env_ok e"
  have "plain_decimal ''0''" by (simp add: plain_decimal_def is_digit_def)
  then have "e_numeric e ''0'' = Some 0" using env_okD [OF e, of "''0''"] SetString_zero by simp
  then show ?thesis by (simp add: numeric_in_def amountOrZero_def TrimSpace_def round_cents_def floor_eq_iff)
qed

definition opposite_lines :: "string \<Rightarrow> CreateJournalLineParams list \<Rightarrow> bool" where
  "opposite_lines s ls \<longleftrightarrow>
     (\<exists>l1 l2. ls = [l1, l2] \<and> lp_debit l1 = s \<and> lp_credit l1 = [] \<and> lp_debit l2 = [] \<and> lp_credit l2 = s)"

lemma opposite_lines [simp]:
  "opposite_lines s [debit_line a s, credit_line b s]" "opposite_lines s (recognition_lines t control contra partner s)"
  "opposite_lines s (settlement_lines t control cash partner s)" "opposite_lines (txp_amount p) (tax_lines p n)"
  "opposite_lines (pd_amount r) (depreciation_lines r)"
  by (simp_all add: opposite_lines_def debit_line_def credit_line_def control_line_def recognition_lines_def settlement_lines_def
      tax_lines_def depreciation_lines_def)

lemma double_entry_lines:
  assumes "env_ok e" "list_all2 (fits_line e) ls rs" "numeric_in (10 ^ 18) e (amountOrZero s) = Inr k" "opposite_lines s ls"
  shows "double_entry k rs"
  using assms numeric_in_zero [OF assms(1)]
  by (auto simp: double_entry_def opposite_lines_def list_all2_Cons1 fits_line_def)

text \<open>An entry of two opposite lines, posted.\<close>

lemma posts_double:
  assumes "InsertJournalEntryTx q e d = (Inr i, d1)" "env_ok e" "opposite_lines s (ep_lines q)"
    and "numeric_in (10 ^ 18) e (amountOrZero s) = Inr k"
  obtains j rs where "enters d j rs d1" "je_id j = i" "je_date j = ep_date q" "je_source j = ep_source q" "double_entry k rs"
  using assms(1) by (rule InsertJournalEntryTx_Inr) (blast intro: that double_entry_lines [OF assms(2) _ assms(4,3)])

section \<open>Rows of the subledgers\<close>

lemma insert_cash_row_Inr:
  "insert_cash_row p entry e d = (Inr i, d') \<Longrightarrow>
     \<exists>x. d' = d\<lparr>f_cash_transactions := f_cash_transactions d @ [x], f_next := Suc (f_next d)\<rparr> \<and> 0 < cx_amount x \<and>
       numeric_in (10 ^ 18) e (amountOrZero (ctp_amount p)) = Inr (cx_amount x) \<and> cx_entry x = entry \<and> cx_date x = ctp_date p"
  by (rule_tac x = "last (f_cash_transactions d')" in exI) (auto simp: insert_cash_row_def fin_simps)

lemma insert_arap_row_Inr:
  "insert_arap_row p entry e d = (Inr i, d') \<Longrightarrow>
     \<exists>t. d' = d\<lparr>f_transactions := f_transactions d @ [t], f_next := Suc (f_next d)\<rparr> \<and> 0 < ap_amount t \<and>
       numeric_in (10 ^ 18) e (amountOrZero (cat_amount p)) = Inr (ap_amount t) \<and> ap_entry t = entry \<and> ap_date t = cat_date p \<and>
       ap_type t = cat_type p \<and> ap_status t = ARAPStatusOpen \<and> ap_id t \<notin> ap_id ` set (f_transactions d) \<and> ap_date t \<le> ap_due t \<and>
       e_uuid_in e (cat_partner p) = Some (ap_partner t)"
  by (rule_tac x = "last (f_transactions d')" in exI) (auto simp: insert_arap_row_def fin_simps)

lemma insert_tax_row_Inr:
  "insert_tax_row p entry e d = (Inr i, d') \<Longrightarrow>
     \<exists>t. d' = d\<lparr>f_tax_transactions := f_tax_transactions d @ [t], f_next := Suc (f_next d)\<rparr> \<and> 0 < tx_amount t \<and>
       numeric_in (10 ^ 18) e (amountOrZero (txp_amount p)) = Inr (tx_amount t) \<and> tx_entry t = entry \<and> tx_date t = txp_date p"
  by (rule_tac x = "last (f_tax_transactions d')" in exI) (auto simp: insert_tax_row_def fin_simps)

lemma insert_asset_row_Inr:
  "insert_asset_row p entry e d = (Inr i, d') \<Longrightarrow>
     \<exists>a. d' = d\<lparr>f_assets := f_assets d @ [a], f_next := Suc (f_next d)\<rparr> \<and> 0 < fa_cost a \<and> fa_id a = i \<and>
       numeric_in (10 ^ 18) e (amountOrZero (fap_cost p)) = Inr (fa_cost a) \<and> fa_entry a = entry \<and> fa_date a = fap_date p \<and>
       0 \<le> fa_salvage a \<and> fa_salvage a < fa_cost a \<and> fa_id a \<notin> fa_id ` set (f_assets d)"
  by (rule_tac x = "last (f_assets d')" in exI) (auto simp: insert_asset_row_def fin_simps)

section \<open>Entries\<close>

lemma manual_step:
  assumes "InsertJournalEntryTx p e d = (Inr i, d')" "ep_source p = JournalSourceManual"
    and "\<And>rs. list_all2 (fits_line e) (ep_lines p) rs \<Longrightarrow> may_enter Q rs"
  shows "fin_step Q d d'"
  using assms(1)
proof (rule InsertJournalEntryTx_Inr)
  fix j rs
  assume "enters d j rs d'" "je_source j = ep_source p" "list_all2 (fits_line e) (ep_lines p) rs"
  with assms(2,3) show ?thesis by (intro fin_step.manual) auto
qed

lemma enters_same:
  assumes "enters d j rs d1"
  shows "f_cash_transactions d1 = f_cash_transactions d" "f_transactions d1 = f_transactions d" "f_payments d1 = f_payments d"
    "f_allocations d1 = f_allocations d" "f_assets d1 = f_assets d" "f_schedules d1 = f_schedules d"
    "f_tax_transactions d1 = f_tax_transactions d" "f_partners d1 = f_partners d" "f_periods d1 = f_periods d" "f_years d1 = f_years d"
    "f_accounts d1 = f_accounts d" "f_cash_accounts d1 = f_cash_accounts d" "f_asset_categories d1 = f_asset_categories d"
    "f_entries d1 = f_entries d @ [j]" "f_lines d1 = f_lines d @ rs" "f_categories d1 = f_categories d" "f_types d1 = f_types d"
proof -
  have "d1 = d\<lparr>f_entries := f_entries d @ [j], f_lines := f_lines d @ rs, f_next := f_next d1\<rparr>" using assms unfolding enters_def by blast
  from arg_cong [OF this, of f_cash_transactions] arg_cong [OF this, of f_transactions] arg_cong [OF this, of f_payments]
    arg_cong [OF this, of f_allocations] arg_cong [OF this, of f_assets] arg_cong [OF this, of f_schedules]
    arg_cong [OF this, of f_tax_transactions] arg_cong [OF this, of f_partners] arg_cong [OF this, of f_periods]
    arg_cong [OF this, of f_years] arg_cong [OF this, of f_accounts] arg_cong [OF this, of f_cash_accounts]
    arg_cong [OF this, of f_asset_categories] arg_cong [OF this, of f_entries] arg_cong [OF this, of f_lines]
    arg_cong [OF this, of f_categories] arg_cong [OF this, of f_types]
  show "f_cash_transactions d1 = f_cash_transactions d" "f_transactions d1 = f_transactions d" "f_payments d1 = f_payments d"
    "f_allocations d1 = f_allocations d" "f_assets d1 = f_assets d" "f_schedules d1 = f_schedules d"
    "f_tax_transactions d1 = f_tax_transactions d" "f_partners d1 = f_partners d" "f_periods d1 = f_periods d" "f_years d1 = f_years d"
    "f_accounts d1 = f_accounts d" "f_cash_accounts d1 = f_cash_accounts d" "f_asset_categories d1 = f_asset_categories d"
    "f_entries d1 = f_entries d @ [j]" "f_lines d1 = f_lines d @ rs" "f_categories d1 = f_categories d" "f_types d1 = f_types d"
    by simp_all
qed

lemma cash_sides_reads: "cash_sides p this e d = (Inr x, d') \<Longrightarrow> d' = d"
  by (cases "ctp_type p") (auto simp: cash_sides_def fin_simps)

lemma cash_sides_Inr: "cash_sides p this e d = (Inr x, d') \<longleftrightarrow> d' = d \<and> fst (cash_sides p this e d) = Inr x"
  using cash_sides_reads by (metis fst_conv surjective_pairing)

lemma cash_tx_step:
  assumes "cash_tx p e d = (Inr i, d')" "env_ok e"
  shows "fin_step Q d d'"
proof -
  obtain q entry d1 where q: "InsertJournalEntryTx q e d = (Inr entry, d1)" "opposite_lines (ctp_amount p) (ep_lines q)"
      "ep_date q = ctp_date p" "ep_source q = JournalSourceCashBank" and row: "insert_cash_row p entry e d1 = (Inr i, d')"
    using assms(1) unfolding cash_tx_def fin_simps case_prod_beta cash_sides_Inr
    by (elim exE conjE, hypsubst) ((rule that, assumption); simp)
  obtain x where x: "d' = d1\<lparr>f_cash_transactions := f_cash_transactions d1 @ [x], f_next := Suc (f_next d1)\<rparr>" "0 < cx_amount x"
      "numeric_in (10 ^ 18) e (amountOrZero (ctp_amount p)) = Inr (cx_amount x)" "cx_entry x = entry" "cx_date x = ctp_date p"
    using insert_cash_row_Inr [OF row] by blast
  obtain j rs where j: "enters d j rs d1" "je_id j = entry" "je_date j = ep_date q" "je_source j = ep_source q" "double_entry (cx_amount x) rs"
    using posts_double [OF q(1) assms(2) q(2) x(3)] .
  show ?thesis using j q x by (intro fin_step.cash [of d j rs d1 x]) (auto simp: enters_same [OF j(1)])
qed

lemma arap_tx_step:
  assumes "arap_tx p e d = (Inr i, d')" "env_ok e"
  shows "fin_step Q d d'"
proof -
  obtain q entry d1 b where q: "InsertJournalEntryTx q e d = (Inr entry, d1)" "opposite_lines (cat_amount p) (ep_lines q)"
      "ep_date q = cat_date p" "ep_source q = arapJournalSourceType (cat_type p)" and row: "insert_arap_row p entry e d1 = (Inr i, d')"
      and b: "query_row (\<lambda>x. bp_id x = the (e_uuid_in e (cat_partner p))) (f_partners d) = Inr b"
        "\<not> (cat_type p = ARAPTransactionTypeReceivable \<and> bp_type b \<noteq> PartnerTypeCustomer \<or>
             cat_type p = ARAPTransactionTypePayable \<and> bp_type b \<noteq> PartnerTypeVendor)"
    using assms(1) unfolding arap_tx_def fin_simps by (elim exE conjE, hypsubst) ((rule that, assumption); simp)
  obtain t where t: "d' = d1\<lparr>f_transactions := f_transactions d1 @ [t], f_next := Suc (f_next d1)\<rparr>" "0 < ap_amount t"
      "numeric_in (10 ^ 18) e (amountOrZero (cat_amount p)) = Inr (ap_amount t)" "ap_entry t = entry" "ap_date t = cat_date p"
      "ap_type t = cat_type p" "ap_status t = ARAPStatusOpen" "ap_id t \<notin> ap_id ` set (f_transactions d1)"
      "e_uuid_in e (cat_partner p) = Some (ap_partner t)"
    using insert_arap_row_Inr [OF row] by blast
  obtain j rs where j: "enters d j rs d1" "je_id j = entry" "je_date j = ep_date q" "je_source j = ep_source q" "double_entry (ap_amount t) rs"
    using posts_double [OF q(1) assms(2) q(2) t(3)] .
  have "b \<in> set (f_partners d)" "bp_id b = ap_partner t" using query_row_Inr [OF b(1)] t(9) by simp_all
  moreover have "bp_type b = (if ap_type t = ARAPTransactionTypeReceivable then PartnerTypeCustomer else PartnerTypeVendor)"
    using b(2) t(6) by (cases "cat_type p") auto
  ultimately show ?thesis using j q t by (intro fin_step.arap [of d j rs d1 t b]) (auto simp: enters_same [OF j(1)])
qed

lemma tax_tx_step:
  assumes "tax_tx p e d = (Inr i, d')" "env_ok e"
  shows "fin_step Q d d'"
proof -
  obtain q entry d1 where q: "InsertJournalEntryTx q e d = (Inr entry, d1)" "opposite_lines (txp_amount p) (ep_lines q)"
      "ep_date q = txp_date p" "ep_source q = JournalSourceTax" and row: "insert_tax_row p entry e d1 = (Inr i, d')"
    using assms(1) unfolding tax_tx_def fin_simps by (elim exE conjE, hypsubst) ((rule that, assumption); simp)
  obtain t where t: "d' = d1\<lparr>f_tax_transactions := f_tax_transactions d1 @ [t], f_next := Suc (f_next d1)\<rparr>" "0 < tx_amount t"
      "numeric_in (10 ^ 18) e (amountOrZero (txp_amount p)) = Inr (tx_amount t)" "tx_entry t = entry" "tx_date t = txp_date p"
    using insert_tax_row_Inr [OF row] by blast
  obtain j rs where j: "enters d j rs d1" "je_id j = entry" "je_date j = ep_date q" "je_source j = ep_source q" "double_entry (tx_amount t) rs"
    using posts_double [OF q(1) assms(2) q(2) t(3)] .
  show ?thesis using j q t by (intro fin_step.tax [of d j rs d1 t]) (auto simp: enters_same [OF j(1)])
qed

section \<open>Payments\<close>

lemma insert_payment_row_Inr:
  "insert_payment_row p partner entry e d = (Inr i, d') \<Longrightarrow>
     \<exists>y. d' = d\<lparr>f_payments := f_payments d @ [y], f_next := Suc (f_next d)\<rparr> \<and> 0 < ay_amount y \<and> ay_id y = i \<and>
       numeric_in (10 ^ 18) e (amountOrZero (pap_amount p)) = Inr (ay_amount y) \<and> ay_entry y = entry \<and> ay_date y = pap_date p \<and>
       ay_partner y = partner \<and> ay_id y \<notin> ay_id ` set (f_payments d)"
  by (rule_tac x = "last (f_payments d')" in exI) (auto simp: insert_payment_row_def fin_simps)

lemma insert_allocation_Inr:
  "insert_allocation payment t s e d = (Inr u, d') \<Longrightarrow>
     \<exists>a. d' = d\<lparr>f_allocations := f_allocations d @ [a], f_next := Suc (f_next d)\<rparr> \<and> al_payment a = payment \<and> al_transaction a = t \<and>
       numeric_in (10 ^ 18) e (amountOrZero s) = Inr (al_amount a) \<and> 0 < al_amount a"
  by (rule_tac x = "last (f_allocations d')" in exI) (auto simp: insert_allocation_def fin_simps)

lemma arapStatusFromPayments_cents:
  "arapStatusFromPayments (cents_text a) (sql_plus (sql_sum f rows) None) = status_after a (sum_list (map f rows))"
  by (simp add: arapStatusFromPayments_def status_after_def)

text \<open>What \<open>CreatePayment\<close> did before its last update.\<close>

lemma payment_tx_Inr:
  assumes "payment_tx p e d = (Inr i, d')"
  obtains t q entry d1 d2 d3 where "InsertJournalEntryTx q e d = (Inr entry, d1)"
    "insert_payment_row p (ap_partner t) entry e d1 = (Inr i, d2)" "insert_allocation i (ap_id t) (pap_amount p) e d2 = (Inr (), d3)"
    "t \<in> set (f_transactions d)" "e_uuid_in e (pap_transaction p) = Some (ap_id t)"
    "ap_status t \<notin> {ARAPStatusPaid, ARAPStatusVoid}"
    "opposite_lines (pap_amount p) (ep_lines q)" "ep_date q = pap_date p" "ep_source q = arapJournalSourceType (ap_type t)"
    "allocated d3 (ap_id t) \<le> ap_amount t"
    "d' = d3\<lparr>f_transactions := update_where (\<lambda>x. ap_id x = ap_id t)
       (\<lambda>x. x\<lparr>ap_status := status_after (ap_amount t) (allocated d3 (ap_id t)), ap_updated_at := e_now e\<rparr>) (f_transactions d3)\<rparr>"
  using assms unfolding payment_tx_def parse_cents_text sql_plus_reads arapStatusFromPayments_cents prod.case sum.case case_prod_beta fst_conv snd_conv fin_simps
  apply (elim exE conjE, hypsubst)
  apply (drule query_row_Inr [of "\<lambda>t. ap_id t = _"])
  apply (elim conjE, hypsubst)
  apply (rule that, assumption, assumption, simp)
  apply (simp_all add: allocated_def)
  done

lemma payment_tx_paid:
  assumes "payment_tx p e d = (Inr i, d')" "env_ok e"
  obtains t y a j rs d1 n where "t \<in> set (f_transactions d)" "e_uuid_in e (pap_transaction p) = Some (ap_id t)"
    "numeric_in (10 ^ 18) e (amountOrZero (pap_amount p)) = Inr (ay_amount y)" "ap_status t \<notin> {ARAPStatusPaid, ARAPStatusVoid}"
    "enters d j rs d1" "je_source j = arapJournalSourceType (ap_type t)" "double_entry (ay_amount y) rs" "0 < ay_amount y"
    "ay_entry y = je_id j" "ay_date y = je_date j" "ay_partner y = ap_partner t" "ay_id y \<notin> ay_id ` set (f_payments d)"
    "al_payment a = ay_id y" "al_transaction a = ap_id t" "al_amount a = ay_amount y"
    "allocated d (ap_id t) + ay_amount y \<le> ap_amount t"
    "d' = d1\<lparr>f_payments := f_payments d1 @ [y], f_allocations := f_allocations d1 @ [a],
      f_transactions := update_where (\<lambda>x. ap_id x = ap_id t)
        (\<lambda>x. x\<lparr>ap_status := status_after (ap_amount t) (allocated d (ap_id t) + ay_amount y), ap_updated_at := e_now e\<rparr>) (f_transactions d1),
      f_next := n\<rparr>"
proof -
  obtain t q entry d1 d2 d3 where q: "InsertJournalEntryTx q e d = (Inr entry, d1)"
      and row: "insert_payment_row p (ap_partner t) entry e d1 = (Inr i, d2)"
      and alloc: "insert_allocation i (ap_id t) (pap_amount p) e d2 = (Inr (), d3)"
      and tid: "e_uuid_in e (pap_transaction p) = Some (ap_id t)"
      and t: "t \<in> set (f_transactions d)" "ap_status t \<notin> {ARAPStatusPaid, ARAPStatusVoid}" "allocated d3 (ap_id t) \<le> ap_amount t"
      and ql: "opposite_lines (pap_amount p) (ep_lines q)" "ep_date q = pap_date p" "ep_source q = arapJournalSourceType (ap_type t)"
      and d': "d' = d3\<lparr>f_transactions := update_where (\<lambda>x. ap_id x = ap_id t)
       (\<lambda>x. x\<lparr>ap_status := status_after (ap_amount t) (allocated d3 (ap_id t)), ap_updated_at := e_now e\<rparr>) (f_transactions d3)\<rparr>"
    using payment_tx_Inr [OF assms(1)] by metis
  obtain y where y: "d2 = d1\<lparr>f_payments := f_payments d1 @ [y], f_next := Suc (f_next d1)\<rparr>" "0 < ay_amount y" "ay_id y = i"
      "numeric_in (10 ^ 18) e (amountOrZero (pap_amount p)) = Inr (ay_amount y)" "ay_entry y = entry" "ay_date y = pap_date p"
      "ay_partner y = ap_partner t" "ay_id y \<notin> ay_id ` set (f_payments d1)"
    using insert_payment_row_Inr [OF row] by blast
  obtain a where a: "d3 = d2\<lparr>f_allocations := f_allocations d2 @ [a], f_next := Suc (f_next d2)\<rparr>" "al_payment a = i"
      "al_transaction a = ap_id t" "al_amount a = ay_amount y"
    using insert_allocation_Inr [OF alloc] y(4) by auto
  obtain j rs where j: "enters d j rs d1" "je_id j = entry" "je_date j = ep_date q" "je_source j = ep_source q" "double_entry (ay_amount y) rs"
    using posts_double [OF q assms(2) ql(1) y(4)] .
  have paid: "allocated d3 (ap_id t) = allocated d (ap_id t) + ay_amount y"
    using a y(1) by (simp add: allocated_def allocations_of_def enters_same [OF j(1)])
  have "d' = d1\<lparr>f_payments := f_payments d1 @ [y], f_allocations := f_allocations d1 @ [a],
      f_transactions := update_where (\<lambda>x. ap_id x = ap_id t)
        (\<lambda>x. x\<lparr>ap_status := status_after (ap_amount t) (allocated d (ap_id t) + ay_amount y), ap_updated_at := e_now e\<rparr>) (f_transactions d1),
      f_next := f_next d3\<rparr>"
    unfolding d' paid by (simp add: a(1) y(1))
  then show thesis
    by (rule that [OF t(1) tid y(4) t(2) j(1), rotated -1])
       (use t(3) j(2-) ql y a paid in \<open>simp_all add: enters_same [OF j(1)]\<close>)
qed

lemma payment_tx_step:
  assumes "payment_tx p e d = (Inr i, d')" "env_ok e"
  shows "fin_step Q d d'"
  by (rule payment_tx_paid [OF assms]) (rule fin_step.payment)

section \<open>Several rows\<close>

lemma each_appends:
  fixes get :: "'s \<Rightarrow> 'r list" and put :: "'r list \<Rightarrow> nat \<Rightarrow> 's \<Rightarrow> 's"
  assumes laws: "\<And>rs n d. get (put rs n d) = rs" "\<And>rs n rs' n' d. put rs n (put rs' n' d) = put rs n d" "\<And>d. \<exists>n. put (get d) n d = d"
    and inv: "\<And>rs n d. I d \<Longrightarrow> I (put rs n d)" "I d"
    and step: "\<And>x d d'. x \<in> set xs \<Longrightarrow> I d \<Longrightarrow> f x e d = (Inr (), d') \<Longrightarrow>
                 \<exists>r n. d' = put (get d @ [r]) n d \<and> P x r \<and> key r \<notin> key ` set (get d)"
    and run: "each f xs e d = (Inr (), d')"
  shows "\<exists>rs n. d' = put (get d @ rs) n d \<and> list_all2 P xs rs \<and> distinct (map key rs) \<and> key ` set rs \<inter> key ` set (get d) = {}"
  using inv(2) step run
proof (induction xs arbitrary: d)
  case Nil
  obtain n where "put (get d) n d = d" using laws(3) by blast
  with Nil show ?case by (intro exI [of _ "[]"] exI [of _ n]) (simp add: fin_simps)
next
  case (Cons x xs)
  then obtain d1 where 1: "f x e d = (Inr (), d1)" "each f xs e d1 = (Inr (), d')" by (auto simp: fin_simps)
  obtain r n where r: "d1 = put (get d @ [r]) n d" "P x r" "key r \<notin> key ` set (get d)" using Cons.prems(2) [OF _ Cons.prems(1) 1(1)] by auto
  have "\<exists>rs n. d' = put (get d1 @ rs) n d1 \<and> list_all2 P xs rs \<and> distinct (map key rs) \<and> key ` set rs \<inter> key ` set (get d1) = {}"
    by (rule Cons.IH [OF _ _ 1(2)]) (use Cons.prems(1,2) inv(1) r(1) in auto)
  then obtain rs n' where rs: "d' = put (get d1 @ rs) n' d1" "list_all2 P xs rs" "distinct (map key rs)"
      "key ` set rs \<inter> key ` set (get d1) = {}" by blast
  show ?case using r rs by (intro exI [of _ "r # rs"] exI [of _ n']) (auto simp: laws)
qed

lemma next_unchanged: "\<exists>n. d\<lparr>f_next := n\<rparr> = d"
  by (rule exI [of _ "f_next d"]) simp

lemma insert_schedule_row_Inr:
  "insert_schedule_row asset s e d = (Inr u, d') \<Longrightarrow>
     \<exists>r. d' = d\<lparr>f_schedules := f_schedules d @ [r], f_next := Suc (f_next d)\<rparr> \<and> dp_id r \<notin> dp_id ` set (f_schedules d) \<and>
       (\<exists>n. dp_id r = e_uuid e n) \<and>
       dp_asset r = asset \<and> dp_number r = sa_number s \<and> dp_date r = sa_date s \<and> dp_status r = DepreciationStatusPending \<and> dp_entry r = None \<and>
       0 \<le> dp_amount r \<and> numeric_in (10 ^ 18) e (amountOrZero (sa_amount s)) = Inr (dp_amount r)"
  by (rule_tac x = "last (f_schedules d')" in exI) (auto simp: insert_schedule_row_def fin_simps)

text \<open>The rows of a schedule, as asked for.\<close>

definition schedule_row_of :: "env \<Rightarrow> string \<Rightarrow> ScheduleAmount \<Rightarrow> depreciation_row \<Rightarrow> bool" where
  "schedule_row_of e asset s r \<longleftrightarrow>
     (\<exists>n. dp_id r = e_uuid e n) \<and> dp_asset r = asset \<and> dp_number r = sa_number s \<and> dp_date r = sa_date s \<and> dp_status r = DepreciationStatusPending \<and> dp_entry r = None \<and>
     0 \<le> dp_amount r \<and> numeric_in (10 ^ 18) e (amountOrZero (sa_amount s)) = Inr (dp_amount r)"

lemma insert_schedule_Inr:
  assumes "each (insert_schedule_row asset) schedule e d = (Inr (), d')"
  obtains ss where "d' = d\<lparr>f_schedules := f_schedules d @ ss, f_next := f_next d'\<rparr>" "list_all2 (schedule_row_of e asset) schedule ss"
    "distinct (map dp_id ss)" "dp_id ` set ss \<inter> dp_id ` set (f_schedules d) = {}"
proof -
  have "\<exists>ss n. d' = d\<lparr>f_schedules := f_schedules d @ ss, f_next := n\<rparr> \<and> list_all2 (schedule_row_of e asset) schedule ss \<and>
      distinct (map dp_id ss) \<and> dp_id ` set ss \<inter> dp_id ` set (f_schedules d) = {}"
    by (rule each_appends [where get = f_schedules and put = "\<lambda>ss n d. d\<lparr>f_schedules := ss, f_next := n\<rparr>" and I = "\<lambda>_. True", OF _ _ _ _ _ _ assms])
       (auto dest!: insert_schedule_row_Inr simp: schedule_row_of_def next_unchanged)
  then show thesis by (auto intro: that)
qed

section \<open>Assets and depreciation\<close>

lemma asset_tx_step:
  assumes "asset_tx p schedule e d = (Inr i, d')" "fin_env_ok e"
  shows "fin_step Q d d'"
proof -
  obtain q entry d1 d2 where q: "InsertJournalEntryTx q e d = (Inr entry, d1)" "opposite_lines (fap_cost p) (ep_lines q)"
      "ep_date q = fap_date p" "ep_source q = JournalSourceManual" and row: "insert_asset_row p entry e d1 = (Inr i, d2)"
      and rows: "each (insert_schedule_row i) schedule e d2 = (Inr (), d')"
    using assms(1) unfolding asset_tx_def fin_simps by (elim exE conjE, hypsubst) ((rule that, assumption); simp)
  obtain a where a: "d2 = d1\<lparr>f_assets := f_assets d1 @ [a], f_next := Suc (f_next d1)\<rparr>" "0 < fa_cost a" "fa_id a = i"
      "numeric_in (10 ^ 18) e (amountOrZero (fap_cost p)) = Inr (fa_cost a)" "fa_entry a = entry" "fa_date a = fap_date p"
      "fa_id a \<notin> fa_id ` set (f_assets d1)"
    using insert_asset_row_Inr [OF row] by blast
  obtain ss where ss: "d' = d2\<lparr>f_schedules := f_schedules d2 @ ss, f_next := f_next d'\<rparr>" "list_all2 (schedule_row_of e i) schedule ss"
      "distinct (map dp_id ss)" "dp_id ` set ss \<inter> dp_id ` set (f_schedules d2) = {}"
    using insert_schedule_Inr [OF rows] .
  obtain j rs where j: "enters d j rs d1" "je_id j = entry" "je_date j = ep_date q" "je_source j = ep_source q" "double_entry (fa_cost a) rs"
    using posts_double [OF q(1) fin_env_okD(1) [OF assms(2)] q(2) a(4)] .
  have "\<forall>s \<in> set ss. dp_asset s = fa_id a \<and> dp_status s = DepreciationStatusPending \<and> dp_entry s = None \<and> 0 \<le> dp_amount s \<and> dp_amount s < 10 ^ 18 \<and>
       canonical_uuid (dp_id s) \<and> dp_id s \<notin> dp_id ` set (f_schedules d)"
  proof
    fix s assume s: "s \<in> set ss"
    then obtain x where "schedule_row_of e i x s" using ss(2) by (auto simp: list_all2_conv_all_nth in_set_conv_nth)
    then have "dp_asset s = fa_id a" "dp_status s = DepreciationStatusPending" "dp_entry s = None" "0 \<le> dp_amount s" "canonical_uuid (dp_id s)"
      and "numeric_in (10 ^ 18) e (amountOrZero (sa_amount x)) = Inr (dp_amount s)"
      using a(3) fin_env_okD(2) [OF assms(2)] by (auto simp: schedule_row_of_def)
    moreover from this(6) have "dp_amount s < 10 ^ 18" by (auto simp: numeric_in_Inr)
    moreover have "dp_id s \<notin> dp_id ` set (f_schedules d)" using s ss(4) a(1) by (auto simp: enters_same [OF j(1)])
    ultimately show "dp_asset s = fa_id a \<and> dp_status s = DepreciationStatusPending \<and> dp_entry s = None \<and> 0 \<le> dp_amount s \<and>
       dp_amount s < 10 ^ 18 \<and> canonical_uuid (dp_id s) \<and> dp_id s \<notin> dp_id ` set (f_schedules d)" by simp
  qed
  moreover have "d' = d1\<lparr>f_assets := f_assets d1 @ [a], f_schedules := f_schedules d1 @ ss, f_next := f_next d'\<rparr>"
    by (subst ss(1)) (simp add: a(1))
  ultimately show ?thesis
    using j q a(2-7) ss(3) by (intro fin_step.asset [of d j rs d1 a ss]) (auto simp: enters_same [OF j(1)])
qed

text \<open>A row of the list of pending rows is a row of the table, with its amount as a text.\<close>

lemma pending_rows_row:
  assumes "r \<in> set (pending_rows d t)"
  obtains s where "s \<in> set (f_schedules d)" "pd_schedule r = dp_id s" "pd_amount r = cents_text (dp_amount s)" "pd_date r = dp_date s"
    "dp_status s = DepreciationStatusPending" "dp_date s \<le> t" "pd_asset r = dp_asset s"
  using assms unfolding pending_rows_def by (auto split: option.splits)

lemma depreciation_tx_Inr:
  assumes "depreciation_tx r number actor e d = (Inr u, d')"
  obtains q entry d1 i where "InsertJournalEntryTx q e d = (Inr entry, d1)" "opposite_lines (pd_amount r) (ep_lines q)"
      "ep_date q = pd_date r" "ep_source q = JournalSourceDepreciation" "e_uuid_in e (pd_schedule r) = Some i"
      "d' = d1\<lparr>f_schedules := update_where (\<lambda>s. dp_id s = i)
       (\<lambda>s. s\<lparr>dp_status := DepreciationStatusPosted, dp_entry := Some entry, dp_posted_at := Some (e_now e)\<rparr>) (f_schedules d1)\<rparr>"
  using assms unfolding depreciation_tx_def fin_simps by (elim exE conjE, hypsubst) ((rule that, assumption); simp)

lemma depreciation_tx_step:
  assumes "depreciation_tx r number actor e d = (Inr u, d')" "env_ok e"
    and s: "s \<in> set (f_schedules d)" "e_uuid_in e (pd_schedule r) = Some (dp_id s)" "pd_amount r = cents_text (dp_amount s)"
      "pd_date r = dp_date s" "\<bar>dp_amount s\<bar> < 10 ^ 18"
  shows "fin_step Q d d'"
proof -
  obtain q entry d1 i where q: "InsertJournalEntryTx q e d = (Inr entry, d1)" "opposite_lines (pd_amount r) (ep_lines q)"
      "ep_date q = pd_date r" "ep_source q = JournalSourceDepreciation" and i: "e_uuid_in e (pd_schedule r) = Some i"
    and d': "d' = d1\<lparr>f_schedules := update_where (\<lambda>x. dp_id x = i)
       (\<lambda>s. s\<lparr>dp_status := DepreciationStatusPosted, dp_entry := Some entry, dp_posted_at := Some (e_now e)\<rparr>) (f_schedules d1)\<rparr>"
    using depreciation_tx_Inr [OF assms(1)] .
  have "numeric_in (10 ^ 18) e (amountOrZero (pd_amount r)) = Inr (dp_amount s)"
    using s(3,5) numeric_in_cents_text [OF assms(2), of "dp_amount s" "10 ^ 18" "dp_amount s"] by simp
  then obtain j rs where j: "enters d j rs d1" "je_id j = entry" "je_date j = ep_date q" "je_source j = ep_source q"
      "double_entry (dp_amount s) rs"
    using posts_double [OF q(1) assms(2) q(2)] by blast
  show ?thesis
    using j q s(1,2,4) i d' by (intro fin_step.depreciation [where j = j and rs = rs and s = s and now = "e_now e" and n = "f_next d1"]) auto
qed

section \<open>Reversals\<close>

lemma mirror_lines_each:
  "mirror_lines entry ls =
     each (\<lambda>l. put_line entry (jl_number l) (jl_account l) (jl_credit l) (jl_debit l) (jl_description l) (jl_subledger l) (jl_subledger_id l)) ls"
  by (induction ls) simp_all

definition mirror_row :: "fdb \<Rightarrow> string \<Rightarrow> journal_line \<Rightarrow> journal_line \<Rightarrow> bool" where
  "mirror_row d entry l r \<longleftrightarrow> mirrored l r \<and> jl_entry r = entry \<and> line_ok r \<and> jl_account r \<in> gl_id ` set (f_accounts d)"

lemma mirror_lines_Inr:
  assumes "mirror_lines entry ls e d = (Inr (), d')"
  obtains rs where "adds_lines entry d rs d'" "list_all2 mirrored ls rs"
proof -
  define put where "put ls n d = d\<lparr>f_lines := ls, f_next := n\<rparr>" for ls n and d :: fdb
  have step: "\<exists>r n. x' = put (f_lines x @ [r]) n x \<and> mirror_row x entry l r \<and>
      (jl_entry r, jl_number r) \<notin> (\<lambda>r. (jl_entry r, jl_number r)) ` set (f_lines x)"
    if "put_line entry (jl_number l) (jl_account l) (jl_credit l) (jl_debit l) (jl_description l) (jl_subledger l) (jl_subledger_id l) e x = (Inr (), x')"
    for l x x'
    using that unfolding put_line_Inr mirror_row_def by (fastforce simp: mirrored_def put_def)
  have "\<exists>rs n. d' = put (f_lines d @ rs) n d \<and> list_all2 (mirror_row d entry) ls rs \<and> distinct (map (\<lambda>r. (jl_entry r, jl_number r)) rs) \<and>
      (\<lambda>r. (jl_entry r, jl_number r)) ` set rs \<inter> (\<lambda>r. (jl_entry r, jl_number r)) ` set (f_lines d) = {}"
    by (rule each_appends [where get = f_lines and put = put and I = "\<lambda>x. f_accounts x = f_accounts d", OF _ _ _ _ _ _ assms [unfolded mirror_lines_each]])
       (use step in \<open>fastforce simp: put_def next_unchanged mirror_row_def\<close>)+
  then obtain rs n where rs: "d' = put (f_lines d @ rs) n d" "list_all2 (mirror_row d entry) ls rs"
      "distinct (map (\<lambda>r. (jl_entry r, jl_number r)) rs)" by blast
  have all: "\<forall>r \<in> set rs. jl_entry r = entry \<and> line_ok r \<and> jl_account r \<in> gl_id ` set (f_accounts d)" and "list_all2 mirrored ls rs"
    using rs(2) by (auto simp: list_all2_conv_all_nth in_set_conv_nth mirror_row_def)
  moreover have "distinct (map jl_number rs)" using rs(3) all by (auto simp: distinct_map inj_on_def)
  ultimately show thesis using that rs(1) unfolding adds_lines_def put_def by auto
qed

lemma reverse_tx_Inr:
  assumes "reverse_tx original t number reason actor e d = (Inr i, d')"
  obtains j0 period who d1 d2 where "insert_entry number t period (je_source j0) None (je_number j0)
        (reversal_description (je_number j0) reason) who e d = (Inr i, d1)"
    "open_period t e d = (Inr period, d)" "j0 \<in> set (f_entries d)" "e_uuid_in e original = Some (je_id j0)" "je_status j0 = JournalStatusPosted"
    "mirror_lines i (sort_key jl_number (lines_of d1 (je_id j0))) e d1 = (Inr (), d2)"
    "d' = d2\<lparr>f_entries := update_where (\<lambda>x. je_id x = je_id j0)
       (\<lambda>x. x\<lparr>je_status := JournalStatusReversed, je_reversed_by := Some i, je_updated_at := e_now e\<rparr>) (f_entries d2)\<rparr>"
proof -
  obtain x j0 s1 period who d1 d2 where r: "e_uuid_in e original = Some x" "query_row (\<lambda>j. je_id j = x) (f_entries d) = Inr j0"
      "je_status j0 = JournalStatusPosted" "open_period t e d = (Inr period, s1)"
      "insert_entry number t period (je_source j0) None (je_number j0) (reversal_description (je_number j0) reason) who e s1 = (Inr i, d1)"
      "mirror_lines i (sort_key jl_number (lines_of d1 x)) e d1 = (Inr (), d2)"
      "d' = d2\<lparr>f_entries := update_where (\<lambda>y. je_id y = x)
       (\<lambda>y. y\<lparr>je_status := JournalStatusReversed, je_reversed_by := Some i, je_updated_at := e_now e\<rparr>) (f_entries d2)\<rparr>"
    using assms unfolding reverse_tx_def fin_simps lines_of_def [symmetric]
    by (elim exE conjE, hypsubst) ((rule that, assumption, assumption, assumption); (assumption | simp))
  have "s1 = d" "je_id j0 = x" "j0 \<in> set (f_entries d)" using open_period_Inr [OF r(4)] query_row_Inr [OF r(2)] by auto
  with r that show thesis by blast
qed

lemma reverse_tx_step:
  assumes "reverse_tx original t number reason actor e d = (Inr i, d')"
  shows "fin_step Q d d'"
proof -
  obtain j0 period who d1 d2 where new: "insert_entry number t period (je_source j0) None (je_number j0)
        (reversal_description (je_number j0) reason) who e d = (Inr i, d1)"
    and per: "open_period t e d = (Inr period, d)" and j0: "j0 \<in> set (f_entries d)" "je_status j0 = JournalStatusPosted"
    and lines: "mirror_lines i (sort_key jl_number (lines_of d1 (je_id j0))) e d1 = (Inr (), d2)"
    and d': "d' = d2\<lparr>f_entries := update_where (\<lambda>x. je_id x = je_id j0)
       (\<lambda>x. x\<lparr>je_status := JournalStatusReversed, je_reversed_by := Some i, je_updated_at := e_now e\<rparr>) (f_entries d2)\<rparr>"
    using reverse_tx_Inr [OF assms] .
  obtain p where p: "p \<in> set (f_periods d)" "fp_id p = period" "covers t p" "fp_status p = FiscalStatusOpen"
    using open_period_Inr [OF per] by blast
  obtain j where j: "d1 = d\<lparr>f_entries := f_entries d @ [j], f_next := f_next d1\<rparr>" "je_id j = i" "je_id j \<notin> je_id ` set (f_entries d)"
      "number \<notin> je_number ` set (f_entries d)"
      "j = \<lparr>je_id = i, je_number = number, je_date = t, je_period = period, je_source = je_source j0, je_source_id = None,
         je_reference = je_number j0, je_description = reversal_description (je_number j0) reason, je_status = JournalStatusPosted,
         je_posted_at = Some (e_now e), je_reversed_by = None, je_created_by = who, je_created_at = e_now e, je_updated_at = e_now e\<rparr>"
    using insert_entry_Inr [OF new] by blast
  have je: "je_number j = number" "je_date j = t" "je_period j = period" "je_source j = je_source j0"
      "je_status j = JournalStatusPosted" "je_reversed_by j = None"
    by (simp_all add: j(5))
  obtain rs where rs: "adds_lines i d1 rs d2" "list_all2 mirrored (sort_key jl_number (lines_of d1 (je_id j0))) rs"
    using mirror_lines_Inr [OF lines] .
  have same: "f_accounts d1 = f_accounts d" "f_lines d1 = f_lines d" by (subst j(1), simp)+
  have "d2 = d\<lparr>f_entries := f_entries d @ [j], f_lines := f_lines d @ rs, f_next := f_next d2\<rparr>"
    using rs(1) unfolding adds_lines_def same by (subst (asm) j(1)) simp
  then have "enters d j rs d2"
    using j(2-4) je rs(1) p unfolding enters_def adds_lines_def same by auto
  moreover have "list_all2 mirrored (sort_key jl_number (lines_of d (je_id j0))) rs" using rs(2) by (simp add: lines_of_def same)
  moreover have "d' = d2\<lparr>f_entries := update_where (\<lambda>x. je_id x = je_id j0)
       (\<lambda>x. x\<lparr>je_status := JournalStatusReversed, je_reversed_by := Some (je_id j), je_updated_at := e_now e\<rparr>) (f_entries d2), f_next := f_next d2\<rparr>"
    by (simp add: d' j(2))
  ultimately show ?thesis using fin_step.reverse [OF j0] je(4) by blast
qed

section \<open>A fiscal year\<close>

lemma insert_period_Inr:
  "insert_period y year month e d = (Inr u, d') \<Longrightarrow>
     \<exists>p. d' = d\<lparr>f_periods := f_periods d @ [p], f_next := Suc (f_next d)\<rparr> \<and> fp_id p \<notin> fp_id ` set (f_periods d) \<and> fp_year_id p = y \<and>
       fp_number p = month \<and> fp_start p = period_start year month \<and> fp_end p = period_end year month \<and> fp_status p = FiscalStatusOpen"
  by (rule_tac x = "last (f_periods d')" in exI) (auto simp: insert_period_def fin_simps)

lemma CreateFiscalYear_step:
  assumes "Fiscal_CreateFiscalYear year e d = (Inr y, d')"
  shows "fin_step Q d d'"
proof -
  define row where "row m p \<longleftrightarrow> fp_year_id p = fy_id y \<and> fp_number p = m \<and> fp_start p = period_start year m \<and>
      fp_end p = period_end year m \<and> fp_status p = FiscalStatusOpen" for m and p :: FiscalPeriod
  obtain d1 where d1: "d1 = d\<lparr>f_years := f_years d @ [y], f_next := Suc (f_next d)\<rparr>" "each (insert_period (fy_id y) year) [1..12] e d1 = (Inr (), d')"
      and y: "fy_id y \<notin> fy_id ` set (f_years d)" "fy_year y \<notin> fy_year ` set (f_years d)" "fy_year y = year" "fy_start y = Date year 1 1" "fy_end y = Date year 12 31"
    using assms unfolding Fiscal_CreateFiscalYear_def Let_def fin_simps by (elim exE conjE, hypsubst) (rule that; force)
  have "\<exists>ps n. d' = d1\<lparr>f_periods := f_periods d1 @ ps, f_next := n\<rparr> \<and> list_all2 row [1..12] ps \<and>
      distinct (map fp_id ps) \<and> fp_id ` set ps \<inter> fp_id ` set (f_periods d1) = {}"
    by (rule each_appends [where get = f_periods and put = "\<lambda>ps n d. d\<lparr>f_periods := ps, f_next := n\<rparr>" and I = "\<lambda>_. True", OF _ _ _ _ _ _ d1(2)])
       (auto dest!: insert_period_Inr simp: row_def next_unchanged)
  then obtain ps n where ps: "d' = d1\<lparr>f_periods := f_periods d1 @ ps, f_next := n\<rparr>" "list_all2 row [1..12] ps" "distinct (map fp_id ps)"
      "fp_id ` set ps \<inter> fp_id ` set (f_periods d1) = {}" by blast
  have nums: "map fp_number ps = [1..12]"
    using ps(2) by (intro nth_equalityI) (auto simp: list_all2_conv_all_nth row_def)
  have rows: "row (fp_number p) p" if "p \<in> set ps" for p
    using ps(2) that by (auto simp: list_all2_conv_all_nth in_set_conv_nth row_def)
  have "year_periods y ps" using nums ps(3) rows y(3) by (auto simp: year_periods_def row_def)
  moreover have "d' = d\<lparr>f_years := f_years d @ [y], f_periods := f_periods d @ ps, f_next := n\<rparr>" using ps(1) d1(1) by simp
  ultimately show ?thesis using y ps(4) d1(1) by (intro fin_step.year [of y d ps d' n]) auto
qed

end
