(* ===== verification/Books.thy ===== *)
theory Books
  imports FinCommits
begin

text \<open>
  What is always true of the books.  The parts of \<open>books_ok\<close>: the keys are keys; every line
  belongs to an entry and an account, on one side, with a positive amount; every entry lies in a
  period that covers its date and is posted or reversed by its mirror; the calendar has the twelve
  months of each year; every document of a subledger was booked by an entry of two opposite lines of
  its amount and date; receivables are never paid beyond their amount and their status says how far.
\<close>

lemma entersE:
  assumes "enters d j rs d1"
  obtains n p where "d1 = d\<lparr>f_entries := f_entries d @ [j], f_lines := f_lines d @ rs, f_next := n\<rparr>"
    "je_id j \<notin> je_id ` set (f_entries d)" "je_number j \<notin> je_number ` set (f_entries d)"
    "je_status j = JournalStatusPosted" "je_reversed_by j = None"
    "p \<in> set (f_periods d)" "fp_id p = je_period j" "covers (je_date j) p" "fp_status p = FiscalStatusOpen"
    "distinct (map jl_number rs)" "\<forall>r \<in> set rs. jl_entry r = je_id j \<and> line_ok r \<and> jl_account r \<in> gl_id ` set (f_accounts d)"
  using assms unfolding enters_def by blast

section \<open>Keys\<close>

definition keys_ok :: "fdb \<Rightarrow> bool" where
  "keys_ok d \<longleftrightarrow>
     distinct (map gl_id (f_accounts d)) \<and> distinct (map je_id (f_entries d)) \<and> distinct (map je_number (f_entries d)) \<and>
     distinct (map (\<lambda>l. (jl_entry l, jl_number l)) (f_lines d)) \<and> distinct (map fy_id (f_years d)) \<and> distinct (map fy_year (f_years d)) \<and>
     distinct (map fp_id (f_periods d)) \<and> distinct (map ap_id (f_transactions d)) \<and> distinct (map ay_id (f_payments d)) \<and>
     distinct (map fa_id (f_assets d)) \<and> distinct (map dp_id (f_schedules d)) \<and> distinct (map bp_id (f_partners d)) \<and>
     distinct (map cb_id (f_cash_accounts d)) \<and> distinct (map cb_account (f_cash_accounts d)) \<and>
     distinct (map gl_code (filter (\<lambda>a. gl_deleted_at a = None) (f_accounts d)))"

text \<open>Every line belongs to an entry and to an account.\<close>

definition lines_ok :: "fdb \<Rightarrow> bool" where
  "lines_ok d \<longleftrightarrow>
     (\<forall>l \<in> set (f_lines d). line_ok l \<and> jl_entry l \<in> je_id ` set (f_entries d) \<and> jl_account l \<in> gl_id ` set (f_accounts d))"

lemma image_update_where: "(\<And>r. g (f r) = g r) \<Longrightarrow> g ` set (update_where p f rows) = g ` set rows"
  unfolding set_update_where image_image by (rule image_cong) simp_all

lemma registers_grow_same:
  assumes "registers_grow d d'"
  shows "f_accounts d' = f_accounts d" "f_entries d' = f_entries d" "f_lines d' = f_lines d" "f_years d' = f_years d"
    "f_periods d' = f_periods d" "f_transactions d' = f_transactions d" "f_payments d' = f_payments d"
    "f_allocations d' = f_allocations d" "f_assets d' = f_assets d" "f_schedules d' = f_schedules d"
    "f_cash_transactions d' = f_cash_transactions d" "f_tax_transactions d' = f_tax_transactions d"
proof -
  have "d' = d\<lparr>f_cash_accounts := f_cash_accounts d', f_reconciliations := f_reconciliations d', f_partners := f_partners d',
           f_asset_categories := f_asset_categories d', f_tax_rates := f_tax_rates d', f_next := f_next d'\<rparr>"
    using assms unfolding registers_grow_def by blast
  from arg_cong [OF this, of f_accounts] arg_cong [OF this, of f_entries] arg_cong [OF this, of f_lines] arg_cong [OF this, of f_years]
    arg_cong [OF this, of f_periods] arg_cong [OF this, of f_transactions] arg_cong [OF this, of f_payments]
    arg_cong [OF this, of f_allocations] arg_cong [OF this, of f_assets] arg_cong [OF this, of f_schedules]
    arg_cong [OF this, of f_cash_transactions] arg_cong [OF this, of f_tax_transactions]
  show "f_accounts d' = f_accounts d" "f_entries d' = f_entries d" "f_lines d' = f_lines d" "f_years d' = f_years d"
    "f_periods d' = f_periods d" "f_transactions d' = f_transactions d" "f_payments d' = f_payments d"
    "f_allocations d' = f_allocations d" "f_assets d' = f_assets d" "f_schedules d' = f_schedules d"
    "f_cash_transactions d' = f_cash_transactions d" "f_tax_transactions d' = f_tax_transactions d"
    by simp_all
qed

lemma registers_grow_keys:
  assumes "registers_grow d d'"
  shows "distinct (map bp_id (f_partners d)) \<Longrightarrow> distinct (map bp_id (f_partners d'))"
    "distinct (map cb_id (f_cash_accounts d)) \<Longrightarrow> distinct (map cb_id (f_cash_accounts d'))"
    "distinct (map cb_account (f_cash_accounts d)) \<Longrightarrow> distinct (map cb_account (f_cash_accounts d'))"
  using assms by (simp_all add: registers_grow_def)

lemma account_edit_same:
  assumes "\<And>a. account_core (f a) = account_core a"
  shows "map gl_id (update_where P f rows) = map gl_id rows"
    "map gl_code (filter (\<lambda>a. gl_deleted_at a = None) (update_where P f rows)) = map gl_code (filter (\<lambda>a. gl_deleted_at a = None) rows)"
    "gl_id ` set (update_where P f rows) = gl_id ` set rows"
proof -
  have core: "gl_id (f a) = gl_id a" "gl_code (f a) = gl_code a" "gl_deleted_at (f a) = gl_deleted_at a" for a
    using assms [of a] by (simp_all add: account_core_def)
  show "map gl_id (update_where P f rows) = map gl_id rows" "gl_id ` set (update_where P f rows) = gl_id ` set rows"
    by (simp_all add: map_update_where image_update_where core)
  show "map gl_code (filter (\<lambda>a. gl_deleted_at a = None) (update_where P f rows)) = map gl_code (filter (\<lambda>a. gl_deleted_at a = None) rows)"
    by (induction rows) (simp_all add: update_where_def core)
qed

lemma status_keeps:
  "fp_id (set_status s a b p) = fp_id p" "fp_year_id (set_status s a b p) = fp_year_id p" "fp_number (set_status s a b p) = fp_number p"
  "fp_start (set_status s a b p) = fp_start p" "fp_end (set_status s a b p) = fp_end p"
  "fy_id (set_year_status s a b y) = fy_id y" "fy_year (set_year_status s a b y) = fy_year y"
  "fy_start (set_year_status s a b y) = fy_start y" "fy_end (set_year_status s a b y) = fy_end y"
  by (simp_all add: set_status_def set_year_status_def)

text \<open>New rows, with keys of their own.\<close>

definition adds :: "('r \<Rightarrow> 'k) \<Rightarrow> 'r list \<Rightarrow> 'r list \<Rightarrow> bool" where
  "adds g xs ys \<longleftrightarrow> (\<exists>ks. map g ys = map g xs @ ks \<and> distinct ks \<and> set ks \<inter> g ` set xs = {})"

lemma adds_distinct: "adds g xs ys \<Longrightarrow> distinct (map g xs) \<Longrightarrow> distinct (map g ys)"
  by (auto simp: adds_def simp flip: set_map)

lemma adds_keys: "adds g xs ys \<Longrightarrow> g ` set xs \<subseteq> g ` set ys"
  unfolding adds_def by (metis Un_upper1 image_set set_append)

lemma adds_same: "adds g xs xs"
  by (auto simp: adds_def)

lemma adds_append: "distinct (map g ys) \<Longrightarrow> \<forall>y \<in> set ys. g y \<notin> g ` set xs \<Longrightarrow> adds g xs (xs @ ys)"
  by (auto simp: adds_def)

lemma adds_one: "g y \<notin> g ` set xs \<Longrightarrow> adds g xs (xs @ [y])"
  by (simp add: adds_append)

lemma adds_update: "adds g xs ys \<Longrightarrow> (\<And>r. g (f r) = g r) \<Longrightarrow> adds g xs (update_where p f ys)"
  by (simp add: adds_def map_update_where)

lemma adds_update_same: "(\<And>r. g (f r) = g r) \<Longrightarrow> adds g xs (update_where p f xs)"
  by (intro adds_update adds_same)

named_theorems step_simps \<open>one step, field by field\<close>

lemmas [step_simps] = adds_same adds_append adds_one adds_update adds_update_same status_keeps registers_grow_same

lemma step_entry_ids: "fin_step Q d d' \<Longrightarrow> adds je_id (f_entries d) (f_entries d')"
  by (erule fin_step.cases; (elim entersE)?; simp add: step_simps)

lemma step_entry_numbers: "fin_step Q d d' \<Longrightarrow> adds je_number (f_entries d) (f_entries d')"
  by (erule fin_step.cases; (elim entersE)?; simp add: step_simps)

lemma step_account_ids: "fin_step Q d d' \<Longrightarrow> adds gl_id (f_accounts d) (f_accounts d')"
  by (erule fin_step.cases; (elim entersE)?; simp add: step_simps account_core_def)

lemma step_year_ids: "fin_step Q d d' \<Longrightarrow> adds fy_id (f_years d) (f_years d')"
  by (erule fin_step.cases; (elim entersE)?; simp add: step_simps)

lemma step_years: "fin_step Q d d' \<Longrightarrow> adds fy_year (f_years d) (f_years d')"
  by (erule fin_step.cases; (elim entersE)?; simp add: step_simps)

lemma step_period_ids: "fin_step Q d d' \<Longrightarrow> adds fp_id (f_periods d) (f_periods d')"
  by (erule fin_step.cases; (elim entersE)?; simp add: step_simps year_periods_def disjoint_iff)

lemma step_transaction_ids: "fin_step Q d d' \<Longrightarrow> adds ap_id (f_transactions d) (f_transactions d')"
  by (erule fin_step.cases; (elim entersE)?; simp add: step_simps)

lemma step_payment_ids: "fin_step Q d d' \<Longrightarrow> adds ay_id (f_payments d) (f_payments d')"
  by (erule fin_step.cases; (elim entersE)?; simp add: step_simps)

lemma step_asset_ids: "fin_step Q d d' \<Longrightarrow> adds fa_id (f_assets d) (f_assets d')"
  by (erule fin_step.cases; (elim entersE)?; simp add: step_simps)

lemma step_schedule_ids: "fin_step Q d d' \<Longrightarrow> adds dp_id (f_schedules d) (f_schedules d')"
  by (erule fin_step.cases; (elim entersE)?; simp add: step_simps disjoint_iff)


text \<open>The lines a step adds are those of the entry it adds.\<close>

lemma step_lines:
  assumes "fin_step Q d d'"
  shows "f_lines d' = f_lines d \<and> map je_id (f_entries d') = map je_id (f_entries d) \<or>
    (\<exists>i rs. f_lines d' = f_lines d @ rs \<and> map je_id (f_entries d') = map je_id (f_entries d) @ [i] \<and> i \<notin> je_id ` set (f_entries d) \<and>
       distinct (map jl_number rs) \<and> (\<forall>r \<in> set rs. jl_entry r = i \<and> line_ok r \<and> jl_account r \<in> gl_id ` set (f_accounts d)))"
  using assms by (elim fin_step.cases; (elim entersE)?; simp add: step_simps map_update_where)

lemma step_lines_ok:
  assumes "fin_step Q d d'" "lines_ok d"
  shows "lines_ok d'"
proof -
  have acc: "gl_id ` set (f_accounts d) \<subseteq> gl_id ` set (f_accounts d')" using adds_keys [OF step_account_ids [OF assms(1)]] .
  have ent: "je_id ` set (f_entries d) \<subseteq> je_id ` set (f_entries d')" using adds_keys [OF step_entry_ids [OF assms(1)]] .
  have new: "i \<in> je_id ` set (f_entries d')" if "map je_id (f_entries d') = map je_id (f_entries d) @ [i]" for i
    using arg_cong [OF that, of set] by simp
  have old: "\<forall>l \<in> set (f_lines d). line_ok l \<and> jl_entry l \<in> je_id ` set (f_entries d') \<and> jl_account l \<in> gl_id ` set (f_accounts d')"
    using assms(2) acc ent unfolding lines_ok_def by blast
  from step_lines [OF assms(1)] show ?thesis
    unfolding lines_ok_def using old acc new by (elim disjE exE conjE) auto
qed

lemma step_line_keys:
  assumes "fin_step Q d d'" "lines_ok d"
  shows "adds (\<lambda>l. (jl_entry l, jl_number l)) (f_lines d) (f_lines d')"
  using step_lines [OF assms(1)]
proof (elim disjE exE conjE)
  fix i rs assume rs: "f_lines d' = f_lines d @ rs" "i \<notin> je_id ` set (f_entries d)" "distinct (map jl_number rs)"
    "\<forall>r \<in> set rs. jl_entry r = i \<and> line_ok r \<and> jl_account r \<in> gl_id ` set (f_accounts d)"
  have "distinct (map (\<lambda>l. (jl_entry l, jl_number l)) rs)" using rs(3) by (auto simp: distinct_map inj_on_def)
  moreover have "\<forall>r \<in> set rs. (jl_entry r, jl_number r) \<notin> (\<lambda>l. (jl_entry l, jl_number l)) ` set (f_lines d)"
    using rs(2,4) assms(2) unfolding lines_ok_def by auto
  ultimately show ?thesis unfolding rs(1) by (rule adds_append)
qed (simp add: adds_same)

lemma step_accounts:
  assumes "fin_step Q d d'"
  obtains (same) "f_accounts d' = f_accounts d"
  | (new) a where "f_accounts d' = f_accounts d @ [a]" "gl_id a \<notin> gl_id ` set (f_accounts d)" "gl_normal a \<in> {''debit'', ''credit''}"
      "gl_deleted_at a = None" "\<forall>x \<in> set (f_accounts d). gl_deleted_at x = None \<longrightarrow> gl_code x \<noteq> gl_code a"
  | (edited) P f where "f_accounts d' = update_where P f (f_accounts d)" "\<And>a. account_core (f a) = account_core a"
  using assms
proof (cases rule: fin_step.cases)
  case (registers)
  then show thesis by (intro same) (rule registers_grow_same)
next
  case (account_new a n)
  then show thesis by (intro new) simp_all
next
  case (account_edit f P)
  then show thesis by (intro edited [of P f]) simp_all
qed (rule same; (elim entersE)?; simp)+

lemma step_codes:
  assumes "fin_step Q d d'" "distinct (map gl_code (filter (\<lambda>a. gl_deleted_at a = None) (f_accounts d)))"
  shows "distinct (map gl_code (filter (\<lambda>a. gl_deleted_at a = None) (f_accounts d')))"
  using assms(1)
proof (cases rule: step_accounts)
  case (new a)
  then show ?thesis using assms(2) by auto
qed (use assms(2) in \<open>simp_all add: account_edit_same\<close>)

lemma step_keys_ok:
  assumes "fin_step Q d d'" "keys_ok d" "lines_ok d"
  shows "keys_ok d'"
proof -
  have "distinct (map bp_id (f_partners d')) \<and> distinct (map cb_id (f_cash_accounts d')) \<and> distinct (map cb_account (f_cash_accounts d'))"
    using assms(1,2) unfolding keys_ok_def by (elim fin_step.cases; (elim entersE)?; simp add: registers_grow_keys)
  then show ?thesis
    using assms(2) step_codes [OF assms(1)] adds_distinct [OF step_line_keys [OF assms(1,3)]] adds_distinct [OF step_entry_ids [OF assms(1)]]
      adds_distinct [OF step_entry_numbers [OF assms(1)]] adds_distinct [OF step_account_ids [OF assms(1)]]
      adds_distinct [OF step_year_ids [OF assms(1)]] adds_distinct [OF step_years [OF assms(1)]] adds_distinct [OF step_period_ids [OF assms(1)]]
      adds_distinct [OF step_transaction_ids [OF assms(1)]] adds_distinct [OF step_payment_ids [OF assms(1)]]
      adds_distinct [OF step_asset_ids [OF assms(1)]] adds_distinct [OF step_schedule_ids [OF assms(1)]]
    unfolding keys_ok_def by simp
qed

section \<open>Entries\<close>

definition je_core :: "journal_entry \<Rightarrow> string \<times> string \<times> date \<times> string \<times> JournalSourceType" where
  "je_core j = (je_id j, je_number j, je_date j, je_period j, je_source j)"

definition new_entry :: "fdb \<Rightarrow> journal_entry \<Rightarrow> journal_line list \<Rightarrow> bool" where
  "new_entry d j rs \<longleftrightarrow>
     je_id j \<notin> je_id ` set (f_entries d) \<and> je_status j = JournalStatusPosted \<and> je_reversed_by j = None \<and>
     (\<exists>p \<in> set (f_periods d). fp_id p = je_period j \<and> covers (je_date j) p \<and> fp_status p = FiscalStatusOpen) \<and>
     (\<forall>r \<in> set rs. jl_entry r = je_id j \<and> line_ok r)"

lemma enters_new: "enters d j rs d1 \<Longrightarrow> new_entry d j rs"
  unfolding enters_def new_entry_def by blast

lemma enters_rows: "enters d j rs d1 \<Longrightarrow> f_entries d1 = f_entries d @ [j] \<and> f_lines d1 = f_lines d @ rs"
  by (elim entersE) simp

text \<open>What a step does to the entries: nothing, one more, or one more and its mirror reversed.\<close>

lemma step_entries:
  assumes "fin_step Q d d'"
  obtains (same) "f_entries d' = f_entries d" "f_lines d' = f_lines d"
  | (posted) j rs where "new_entry d j rs" "f_entries d' = f_entries d @ [j]" "f_lines d' = f_lines d @ rs"
      "may_enter Q rs \<and> je_source j = JournalSourceManual \<or> (\<exists>k. double_entry k rs)"
  | (reversed) j0 j rs now where "new_entry d j rs" "j0 \<in> set (f_entries d)" "je_status j0 = JournalStatusPosted" "je_source j = je_source j0"
      "list_all2 mirrored (sort_key jl_number (lines_of d (je_id j0))) rs" "f_lines d' = f_lines d @ rs"
      "f_entries d' = update_where (\<lambda>x. je_id x = je_id j0)
         (\<lambda>x. x\<lparr>je_status := JournalStatusReversed, je_reversed_by := Some (je_id j), je_updated_at := now\<rparr>) (f_entries d @ [j])"
  using assms
proof (cases rule: fin_step.cases)
  case (registers)
  then show thesis by (intro same) (simp_all add: registers_grow_same)
next
  case (reverse j0 j rs d1 n now)
  then show thesis
    using enters_rows [OF reverse(3)] by (intro reversed [of j rs j0 now] enters_new [OF reverse(3)]) simp_all
qed (rule posted same; (erule enters_new)?; (drule enters_rows)?; auto simp: enters_rows)+

lemma lines_of_append: "lines_of (d\<lparr>f_lines := ls @ rs\<rparr>) i = lines_of (d\<lparr>f_lines := ls\<rparr>) i @ lines_of (d\<lparr>f_lines := rs\<rparr>) i"
  by (simp add: lines_of_def)

lemma lines_of_cong: "f_lines d' = f_lines d \<Longrightarrow> lines_of d' i = lines_of d i"
  by (simp add: lines_of_def)

lemma lines_of_new:
  assumes "f_lines d' = f_lines d @ rs" "new_entry d j rs" "lines_ok d"
  shows "lines_of d' (je_id j) = rs" "i \<in> je_id ` set (f_entries d) \<Longrightarrow> lines_of d' i = lines_of d i"
proof -
  have "\<forall>l \<in> set (f_lines d). jl_entry l \<noteq> je_id j" using assms(2,3) unfolding new_entry_def lines_ok_def by metis
  then have "filter (\<lambda>l. jl_entry l = je_id j) (f_lines d) = []" by (simp add: filter_empty_conv)
  moreover have "filter (\<lambda>l. jl_entry l = je_id j) rs = rs" using assms(2) unfolding new_entry_def by simp
  ultimately show "lines_of d' (je_id j) = rs" by (simp add: lines_of_def assms(1))
  assume "i \<in> je_id ` set (f_entries d)"
  then have "filter (\<lambda>l. jl_entry l = i) rs = []" using assms(2) unfolding new_entry_def by (auto simp: filter_empty_conv)
  then show "lines_of d' i = lines_of d i" by (simp add: lines_of_def assms(1))
qed

lemma step_lines_of:
  assumes "fin_step Q d d'" "lines_ok d" "i \<in> je_id ` set (f_entries d)"
  shows "lines_of d' i = lines_of d i"
  using assms(1)
proof (cases rule: step_entries)
  case same
  then show ?thesis by (intro lines_of_cong)
next
  case (posted j rs)
  then show ?thesis by (intro lines_of_new(2) [OF posted(3,1) assms(2,3)])
next
  case (reversed j0 j rs now)
  then show ?thesis by (intro lines_of_new(2) [OF reversed(6,1) assms(2,3)])
qed

lemma step_core:
  assumes "fin_step Q d d'"
  shows "\<exists>js. map je_core (f_entries d') = map je_core (f_entries d) @ js"
  using assms by (cases rule: step_entries) (simp_all add: map_update_where je_core_def)

lemma step_core_in:
  assumes "fin_step Q d d'" "j \<in> set (f_entries d)"
  obtains j' where "j' \<in> set (f_entries d')" "je_core j' = je_core j"
proof -
  have "je_core j \<in> set (map je_core (f_entries d'))" using step_core [OF assms(1)] assms(2) by (metis UnI1 image_eqI set_append set_map)
  then show thesis using that by auto
qed

text \<open>A document booked: an entry of its own kind and date, of two opposite lines of its amount.\<close>

definition booked :: "fdb \<Rightarrow> JournalSourceType \<Rightarrow> date \<Rightarrow> int \<Rightarrow> string \<Rightarrow> bool" where
  "booked d src t k i \<longleftrightarrow> (\<exists>j \<in> set (f_entries d). je_id j = i \<and> je_source j = src \<and> je_date j = t) \<and> double_entry k (lines_of d i)"

lemma step_booked:
  assumes "fin_step Q d d'" "lines_ok d" "booked d src t k i"
  shows "booked d' src t k i"
proof -
  obtain j where j: "j \<in> set (f_entries d)" "je_id j = i" "je_source j = src" "je_date j = t" "double_entry k (lines_of d i)"
    using assms(3) unfolding booked_def by blast
  obtain j' where "j' \<in> set (f_entries d')" "je_core j' = je_core j" using step_core_in [OF assms(1) j(1)] .
  moreover have "lines_of d' i = lines_of d i" using step_lines_of [OF assms(1,2)] j(1,2) by blast
  ultimately show ?thesis using j unfolding booked_def je_core_def by auto
qed

lemma new_booked:
  assumes "f_entries d' = f_entries d @ [j]" "f_lines d' = f_lines d @ rs" "new_entry d j rs" "lines_ok d" "double_entry k rs"
  shows "booked d' (je_source j) (je_date j) k (je_id j)"
  using lines_of_new(1) [OF assms(2,3,4)] assms(1,5) unfolding booked_def by auto

section \<open>The calendar\<close>

definition calendar_ok :: "fdb \<Rightarrow> bool" where
  "calendar_ok d \<longleftrightarrow>
     distinct (map (\<lambda>p. (fp_year_id p, fp_number p)) (f_periods d)) \<and>
     (\<forall>p \<in> set (f_periods d). \<exists>y \<in> set (f_years d). fp_year_id p = fy_id y \<and> fp_number p \<in> {1..12} \<and>
        fp_start p = period_start (fy_year y) (fp_number p) \<and> fp_end p = period_end (fy_year y) (fp_number p)) \<and>
     (\<forall>y \<in> set (f_years d). fy_start y = Date (fy_year y) 1 1 \<and> fy_end y = Date (fy_year y) 12 31 \<and>
        (\<forall>n \<in> {1..12}. \<exists>p \<in> set (f_periods d). fp_year_id p = fy_id y \<and> fp_number p = n))"

text \<open>A step leaves the days of a period alone, and its number.\<close>

definition fp_core :: "FiscalPeriod \<Rightarrow> string \<times> string \<times> int \<times> date \<times> date" where
  "fp_core p = (fp_id p, fp_year_id p, fp_number p, fp_start p, fp_end p)"

definition fy_core :: "FiscalYear \<Rightarrow> string \<times> int \<times> date \<times> date" where
  "fy_core y = (fy_id y, fy_year y, fy_start y, fy_end y)"

lemma step_calendar:
  assumes "fin_step Q d d'"
  obtains (same) "map fp_core (f_periods d') = map fp_core (f_periods d)" "map fy_core (f_years d') = map fy_core (f_years d)"
  | (year) y ps where "f_periods d' = f_periods d @ ps" "f_years d' = f_years d @ [y]" "fy_id y \<notin> fy_id ` set (f_years d)"
      "fy_year y \<notin> fy_year ` set (f_years d)" "fy_start y = Date (fy_year y) 1 1" "fy_end y = Date (fy_year y) 12 31" "year_periods y ps"
  using assms
proof (cases rule: fin_step.cases)
  case (year y ps n)
  then show thesis by (intro that(2) [of ps y]) simp_all
qed (rule same; (elim entersE)?; simp add: map_update_where status_keeps fp_core_def fy_core_def registers_grow_same)+

lemma step_period_core:
  assumes "fin_step Q d d'"
  shows "\<exists>ps. map fp_core (f_periods d') = map fp_core (f_periods d) @ ps"
  using assms by (cases rule: step_calendar) simp_all

lemma step_covered:
  assumes "fin_step Q d d'" "p \<in> set (f_periods d)"
  obtains p' where "p' \<in> set (f_periods d')" "fp_core p' = fp_core p"
proof -
  have "fp_core p \<in> set (map fp_core (f_periods d'))" using step_period_core [OF assms(1)] assms(2) by (metis UnI1 image_eqI set_append set_map)
  then show thesis using that by auto
qed

lemma calendar_ok_core:
  assumes "map fp_core (f_periods d') = map fp_core (f_periods d)" "map fy_core (f_years d') = map fy_core (f_years d)" "calendar_ok d"
  shows "calendar_ok d'"
proof -
  define pc where "pc = set (map fp_core (f_periods d))"
  define yc where "yc = set (map fy_core (f_years d))"
  have *: "calendar_ok x \<longleftrightarrow> distinct (map (\<lambda>(i, y, n, s, t). (y, n)) (map fp_core (f_periods x))) \<and>
      (\<forall>(i, y, n, s, t) \<in> set (map fp_core (f_periods x)). \<exists>(j, k, a, b) \<in> set (map fy_core (f_years x)). y = j \<and> n \<in> {1..12} \<and>
         s = period_start k n \<and> t = period_end k n) \<and>
      (\<forall>(j, k, a, b) \<in> set (map fy_core (f_years x)). a = Date k 1 1 \<and> b = Date k 12 31 \<and>
         (\<forall>n \<in> {1..12}. \<exists>(i, y, m, s, t) \<in> set (map fp_core (f_periods x)). y = j \<and> m = n))" for x
    unfolding calendar_ok_def by (simp add: fp_core_def fy_core_def comp_def)
  show ?thesis using assms(3) unfolding * assms(1,2) .
qed

lemma step_calendar_ok:
  assumes "fin_step Q d d'" "calendar_ok d"
  shows "calendar_ok d'"
  using assms(1)
proof (cases rule: step_calendar)
  case same
  then show ?thesis by (rule calendar_ok_core) (rule assms(2))
next
  case (year y ps)
  have years: "\<forall>p \<in> set (f_periods d). fp_year_id p \<in> fy_id ` set (f_years d)" using assms(2) unfolding calendar_ok_def by force
  have nums: "map fp_number ps = [1..12]" and rows: "\<forall>p \<in> set ps. fp_year_id p = fy_id y \<and>
      fp_start p = period_start (fy_year y) (fp_number p) \<and> fp_end p = period_end (fy_year y) (fp_number p)"
    using year(7) unfolding year_periods_def by auto
  have in12: "fp_number ` set ps = {1..12}" using arg_cong [OF nums, of set] by simp
  have "distinct (map fp_number ps)" using nums by simp
  then have keys: "distinct (map (\<lambda>p. (fp_year_id p, fp_number p)) ps)" by (auto simp: distinct_map inj_on_def)
  have new: "\<forall>p \<in> set ps. (fp_year_id p, fp_number p) \<notin> (\<lambda>p. (fp_year_id p, fp_number p)) ` set (f_periods d)"
    using years rows year(3) by auto
  have all: "\<forall>n \<in> {1..12}. \<exists>p \<in> set ps. fp_year_id p = fy_id y \<and> fp_number p = n" using in12 rows by (metis imageE)
  have range: "\<forall>p \<in> set ps. fp_number p \<in> {1..12}" using in12 by blast
  note old = assms(2) [unfolded calendar_ok_def]
  show ?thesis
    unfolding calendar_ok_def year(1,2)
  proof (intro conjI)
    show "distinct (map (\<lambda>p. (fp_year_id p, fp_number p)) (f_periods d @ ps))" using adds_distinct [OF adds_append [OF keys new]] old by blast
    show "\<forall>p \<in> set (f_periods d @ ps). \<exists>z \<in> set (f_years d @ [y]). fp_year_id p = fy_id z \<and> fp_number p \<in> {1..12} \<and>
        fp_start p = period_start (fy_year z) (fp_number p) \<and> fp_end p = period_end (fy_year z) (fp_number p)"
      unfolding set_append ball_Un bex_Un using old rows range by simp
    show "\<forall>z \<in> set (f_years d @ [y]). fy_start z = Date (fy_year z) 1 1 \<and> fy_end z = Date (fy_year z) 12 31 \<and>
        (\<forall>n \<in> {1..12}. \<exists>p \<in> set (f_periods d @ ps). fp_year_id p = fy_id z \<and> fp_number p = n)"
      unfolding set_append ball_Un bex_Un using old all year(5,6) by simp
  qed
qed

section \<open>Every entry in its period, posted or reversed by its mirror\<close>

definition entry_state :: "fdb \<Rightarrow> journal_entry \<Rightarrow> bool" where
  "entry_state d j \<longleftrightarrow>
     je_status j = JournalStatusPosted \<and> je_reversed_by j = None \<or>
     je_status j = JournalStatusReversed \<and>
       (\<exists>r \<in> set (f_entries d). je_reversed_by j = Some (je_id r) \<and> je_source r = je_source j \<and>
          list_all2 mirrored (sort_key jl_number (lines_of d (je_id j))) (lines_of d (je_id r)))"

definition entries_ok :: "fdb \<Rightarrow> bool" where
  "entries_ok d \<longleftrightarrow>
     (\<forall>j \<in> set (f_entries d). (\<exists>p \<in> set (f_periods d). fp_id p = je_period j \<and> covers (je_date j) p) \<and> entry_state d j)"

lemma step_entry_state:
  assumes "fin_step Q d d'" "lines_ok d" "j \<in> set (f_entries d)" "entry_state d j"
  shows "entry_state d' j"
proof -
  have same: "lines_of d' (je_id x) = lines_of d (je_id x)" if "x \<in> set (f_entries d)" for x
    using step_lines_of [OF assms(1,2)] that by blast
  consider "je_status j = JournalStatusPosted" "je_reversed_by j = None"
    | r where "je_status j = JournalStatusReversed" "r \<in> set (f_entries d)" "je_reversed_by j = Some (je_id r)" "je_source r = je_source j"
        "list_all2 mirrored (sort_key jl_number (lines_of d (je_id j))) (lines_of d (je_id r))"
    using assms(4) unfolding entry_state_def by (elim disjE conjE bexE) (rule that(1); assumption | rule that(2); assumption)+
  then show ?thesis
  proof cases
    case (2 r)
    obtain r' where "r' \<in> set (f_entries d')" "je_core r' = je_core r" using step_core_in [OF assms(1) 2(2)] .
    then show ?thesis using 2 same [OF assms(3)] same [OF 2(2)] unfolding entry_state_def je_core_def
      by (intro disjI2 conjI bexI [of _ r']) auto
  qed (simp add: entry_state_def)
qed

lemma step_entry_period:
  assumes "fin_step Q d d'" "\<exists>p \<in> set (f_periods d). fp_id p = i \<and> covers t p"
  shows "\<exists>p \<in> set (f_periods d'). fp_id p = i \<and> covers t p"
proof -
  obtain p where p: "p \<in> set (f_periods d)" "fp_id p = i" "covers t p" using assms(2) by blast
  obtain p' where "p' \<in> set (f_periods d')" "fp_core p' = fp_core p" using step_covered [OF assms(1) p(1)] .
  with p show ?thesis by (intro bexI [of _ p']) (auto simp: fp_core_def covers_def)
qed

lemma key_unique: "distinct (map g xs) \<Longrightarrow> x \<in> set xs \<Longrightarrow> y \<in> set xs \<Longrightarrow> g x = g y \<Longrightarrow> x = y"
  by (auto simp: distinct_map dest: inj_onD)

lemma step_entries_ok:
  assumes "fin_step Q d d'" "keys_ok d" "lines_ok d" "entries_ok d"
  shows "entries_ok d'"
proof -
  have per: "\<exists>p \<in> set (f_periods d'). fp_id p = je_period j \<and> covers (je_date j) p" if "j \<in> set (f_entries d)" for j
    using step_entry_period [OF assms(1)] assms(4) that unfolding entries_ok_def by blast
  have state: "entry_state d' j" if "j \<in> set (f_entries d)" for j
    using step_entry_state [OF assms(1,3) that] assms(4) that unfolding entries_ok_def by blast
  have new: "\<exists>p \<in> set (f_periods d'). fp_id p = je_period j \<and> covers (je_date j) p" "entry_state d' j" if "new_entry d j rs" for j rs
    using that step_entry_period [OF assms(1)] unfolding new_entry_def entry_state_def by blast+
  show ?thesis
    using assms(1)
  proof (cases rule: step_entries)
    case same
    then show ?thesis using per state unfolding entries_ok_def by simp
  next
    case (posted j rs)
    then show ?thesis using per state new [OF posted(1)] unfolding entries_ok_def by auto
  next
    case (reversed j0 j rs now)
    define f where "f x = x\<lparr>je_status := JournalStatusReversed, je_reversed_by := Some (je_id j), je_updated_at := now\<rparr>" for x :: journal_entry
    have ent: "f_entries d' = update_where (\<lambda>x. je_id x = je_id j0) f (f_entries d @ [j])" using reversed(7) by (simp add: f_def [abs_def])
    have ne: "je_id j \<noteq> je_id j0" using reversed(1,2) unfolding new_entry_def by force
    have j': "j \<in> set (f_entries d')" using ne by (simp add: ent update_where_def)
    have mirror: "list_all2 mirrored (sort_key jl_number (lines_of d' (je_id j0))) (lines_of d' (je_id j))"
      using reversed(5) lines_of_new [OF reversed(6,1) assms(3)] reversed(2) by simp
    have "entry_state d' (f x) \<and> (\<exists>p \<in> set (f_periods d'). fp_id p = je_period (f x) \<and> covers (je_date (f x)) p)"
      if x: "x \<in> set (f_entries d)" "je_id x = je_id j0" "je_source x = je_source j0" for x
      using per [OF x(1)] x mirror j' reversed(4) unfolding entry_state_def f_def by auto
    moreover have "je_source x = je_source j0" if "x \<in> set (f_entries d)" "je_id x = je_id j0" for x
      using key_unique [of je_id "f_entries d"] assms(2) that reversed(2) unfolding keys_ok_def by metis
    ultimately show ?thesis
      using per state new [OF reversed(1)] ne unfolding entries_ok_def ent by (auto simp: update_where_def)
  qed
qed

section \<open>Balance\<close>

text \<open>Every entry balances: with \<open>M\<close>, the manual ones too.\<close>

definition entries_balanced :: "bool \<Rightarrow> fdb \<Rightarrow> bool" where
  "entries_balanced M d \<longleftrightarrow>
     (\<forall>j \<in> set (f_entries d). M \<or> je_source j \<noteq> JournalSourceManual \<longrightarrow> balanced (lines_of d (je_id j)))"

lemma mirrored_balanced: "list_all2 mirrored ls rs \<Longrightarrow> balanced rs = balanced ls"
  using mirrored_totals unfolding balanced_def by metis

lemma step_balanced:
  assumes "fin_step Q d d'" "keys_ok d" "lines_ok d" "entries_balanced M d" "\<And>rs. M \<Longrightarrow> may_enter Q rs \<Longrightarrow> balanced rs"
  shows "entries_balanced M d'"
proof -
  have old: "balanced (lines_of d' (je_id j))" if "j \<in> set (f_entries d)" "M \<or> je_source j \<noteq> JournalSourceManual" for j
    using step_lines_of [OF assms(1,3)] assms(4) that unfolding entries_balanced_def by auto
  show ?thesis
    using assms(1)
  proof (cases rule: step_entries)
    case same
    then show ?thesis using old unfolding entries_balanced_def by simp
  next
    case (posted j rs)
    have "M \<or> je_source j \<noteq> JournalSourceManual \<longrightarrow> balanced rs" using posted(4) assms(5) double_entry_balanced by blast
    then show ?thesis
      using old lines_of_new(1) [OF posted(3,1) assms(3)] unfolding entries_balanced_def posted(2) by simp
  next
    case (reversed j0 j rs now)
    have "M \<or> je_source j \<noteq> JournalSourceManual \<longrightarrow> balanced rs"
      using assms(4) reversed(2,4) mirrored_balanced [OF reversed(5)] unfolding entries_balanced_def by simp
    then have new: "M \<or> je_source j \<noteq> JournalSourceManual \<longrightarrow> balanced (lines_of d' (je_id j))"
      using lines_of_new(1) [OF reversed(6,1) assms(3)] by simp
    have "\<exists>x \<in> set (f_entries d @ [j]). je_id x = je_id z \<and> je_source x = je_source z" if "z \<in> set (f_entries d')" for z
      using that unfolding reversed(7) set_update_where by fastforce
    then show ?thesis using old new unfolding entries_balanced_def by fastforce
  qed
qed

section \<open>Documents\<close>

definition schedule_ok :: "fdb \<Rightarrow> depreciation_row \<Rightarrow> bool" where
  "schedule_ok d s \<longleftrightarrow>
     0 \<le> dp_amount s \<and> dp_amount s < 10 ^ 18 \<and> canonical_uuid (dp_id s) \<and>
     (dp_status s = DepreciationStatusPending \<and> dp_entry s = None \<or>
      dp_status s = DepreciationStatusPosted \<and>
        (\<exists>i. dp_entry s = Some i \<and> booked d JournalSourceDepreciation (dp_date s) (dp_amount s) i))"

definition cash_ok :: "fdb \<Rightarrow> cash_transaction \<Rightarrow> bool" where
  "cash_ok d x \<longleftrightarrow> 0 < cx_amount x \<and> booked d JournalSourceCashBank (cx_date x) (cx_amount x) (cx_entry x)"

definition transaction_ok :: "fdb \<Rightarrow> arap_transaction \<Rightarrow> bool" where
  "transaction_ok d t \<longleftrightarrow> 0 < ap_amount t \<and> booked d (arapJournalSourceType (ap_type t)) (ap_date t) (ap_amount t) (ap_entry t)"

definition payment_ok :: "fdb \<Rightarrow> arap_payment \<Rightarrow> bool" where
  "payment_ok d y \<longleftrightarrow> 0 < ay_amount y \<and> (\<exists>k. booked d (arapJournalSourceType k) (ay_date y) (ay_amount y) (ay_entry y))"

definition asset_ok :: "fdb \<Rightarrow> fixed_asset \<Rightarrow> bool" where
  "asset_ok d a \<longleftrightarrow> 0 < fa_cost a \<and> booked d JournalSourceManual (fa_date a) (fa_cost a) (fa_entry a)"

definition tax_ok :: "fdb \<Rightarrow> tax_transaction \<Rightarrow> bool" where
  "tax_ok d t \<longleftrightarrow> 0 < tx_amount t \<and> booked d JournalSourceTax (tx_date t) (tx_amount t) (tx_entry t)"

definition documents_ok :: "fdb \<Rightarrow> bool" where
  "documents_ok d \<longleftrightarrow>
     (\<forall>x \<in> set (f_cash_transactions d). cash_ok d x) \<and> (\<forall>t \<in> set (f_transactions d). transaction_ok d t) \<and>
     (\<forall>y \<in> set (f_payments d). payment_ok d y) \<and> (\<forall>a \<in> set (f_assets d). asset_ok d a) \<and>
     (\<forall>t \<in> set (f_tax_transactions d). tax_ok d t) \<and> (\<forall>s \<in> set (f_schedules d). schedule_ok d s)"

lemma step_document:
  assumes "fin_step Q d d'" "lines_ok d"
  shows "cash_ok d x \<Longrightarrow> cash_ok d' x" "transaction_ok d t \<Longrightarrow> transaction_ok d' t" "payment_ok d y \<Longrightarrow> payment_ok d' y"
    "asset_ok d a \<Longrightarrow> asset_ok d' a" "tax_ok d z \<Longrightarrow> tax_ok d' z"
  using step_booked [OF assms] unfolding cash_ok_def transaction_ok_def payment_ok_def asset_ok_def tax_ok_def by blast+

lemma enters_booked:
  assumes "enters d j rs d1" "lines_ok d" "double_entry k rs" "f_entries d' = f_entries d1" "f_lines d' = f_lines d1"
  shows "booked d' (je_source j) (je_date j) k (je_id j)"
  using new_booked [OF _ _ enters_new [OF assms(1)] assms(2,3), of d'] enters_rows [OF assms(1)] assms(4,5) by simp

lemma step_documents:
  assumes "fin_step Q d d'" "lines_ok d"
  shows "\<exists>xs. f_cash_transactions d' = f_cash_transactions d @ xs \<and> list_all (cash_ok d') xs" (is ?cash)
    and "\<exists>ys. f_payments d' = f_payments d @ ys \<and> list_all (payment_ok d') ys" (is ?payment)
    and "\<exists>as. f_assets d' = f_assets d @ as \<and> list_all (asset_ok d') as" (is ?asset)
    and "\<exists>ts. f_tax_transactions d' = f_tax_transactions d @ ts \<and> list_all (tax_ok d') ts" (is ?tax)
proof -
  have "?cash \<and> ?payment \<and> ?asset \<and> ?tax"
    using assms(1)
  proof (cases rule: fin_step.cases)
    case (cash j rs d1 x n)
    then show ?thesis
      using enters_booked [OF cash(1) assms(2) cash(3), of d'] enters_same [OF cash(1)] by (simp add: cash_ok_def)
  next
    case (payment j rs d1 t y a n now)
    then show ?thesis
      using enters_booked [OF payment(1) assms(2) payment(5), of d'] enters_same [OF payment(1)] by (auto simp: payment_ok_def)
  next
    case (asset j rs d1 a ss n)
    then show ?thesis
      using enters_booked [OF asset(1) assms(2) asset(3), of d'] enters_same [OF asset(1)] by (simp add: asset_ok_def)
  next
    case (tax j rs d1 t n)
    then show ?thesis
      using enters_booked [OF tax(1) assms(2) tax(3), of d'] enters_same [OF tax(1)] by (simp add: tax_ok_def)
  qed (simp_all add: enters_same registers_grow_same)
  then show ?cash ?payment ?asset ?tax by blast+
qed

lemma step_schedules:
  assumes "fin_step Q d d'" "keys_ok d" "lines_ok d" "\<forall>s \<in> set (f_schedules d). schedule_ok d s" "s \<in> set (f_schedules d')"
  shows "schedule_ok d' s"
proof -
  have old: "schedule_ok d' s" if "s \<in> set (f_schedules d)" for s
    using assms(4) that step_booked [OF assms(1,3)] unfolding schedule_ok_def by metis
  show ?thesis
    using assms(1)
  proof (cases rule: fin_step.cases)
    case (asset j rs d1 a ss n)
    have "s \<in> set (f_schedules d) \<or> s \<in> set ss" using assms(5) asset enters_same(6) [OF asset(1)] by simp
    then show ?thesis using old asset(8) unfolding schedule_ok_def by metis
  next
    case (depreciation j rs d1 s0 n now)
    have b: "booked d' JournalSourceDepreciation (dp_date s0) (dp_amount s0) (je_id j)"
      using enters_booked [OF depreciation(1) assms(3) depreciation(4), of d'] depreciation by simp
    let ?f = "\<lambda>x. x\<lparr>dp_status := DepreciationStatusPosted, dp_entry := Some (je_id j), dp_posted_at := Some now\<rparr>"
    have "s \<in> set (update_where (\<lambda>x. dp_id x = dp_id s0) ?f (f_schedules d))"
      using assms(5) depreciation(6) enters_same(6) [OF depreciation(1)] by simp
    then obtain x where x: "x \<in> set (f_schedules d)" "s = (if dp_id x = dp_id s0 then ?f x else x)" by (auto simp: set_update_where)
    have "x = s0" if "dp_id x = dp_id s0"
      using key_unique [OF _ x(1) depreciation(3) that] assms(2) unfolding keys_ok_def by blast
    then show ?thesis using x old [OF x(1)] old [OF depreciation(3)] b unfolding schedule_ok_def by (cases "dp_id x = dp_id s0") auto
  qed (use old assms(5) in \<open>simp_all add: enters_same registers_grow_same\<close>)
qed

section \<open>Receivables and payables\<close>

definition partner_kind :: "ARAPTransactionType \<Rightarrow> PartnerType" where
  "partner_kind t = (if t = ARAPTransactionTypeReceivable then PartnerTypeCustomer else PartnerTypeVendor)"

definition ap_core :: "arap_transaction \<Rightarrow> string \<times> string \<times> ARAPTransactionType \<times> date \<times> int \<times> string" where
  "ap_core t = (ap_id t, ap_partner t, ap_type t, ap_date t, ap_amount t, ap_entry t)"

definition set_paid :: "string \<Rightarrow> ARAPTransactionStatus \<Rightarrow> instant \<Rightarrow> arap_transaction list \<Rightarrow> arap_transaction list" where
  "set_paid i s now = update_where (\<lambda>x. ap_id x = i) (\<lambda>x. x\<lparr>ap_status := s, ap_updated_at := now\<rparr>)"

lemma step_arap:
  assumes "fin_step Q d d'"
  obtains (same) "f_transactions d' = f_transactions d" "f_allocations d' = f_allocations d" "f_payments d' = f_payments d"
  | (new) j rs d1 t b where "enters d j rs d1" "je_source j = arapJournalSourceType (ap_type t)" "double_entry (ap_amount t) rs" "0 < ap_amount t"
      "ap_entry t = je_id j" "ap_date t = je_date j" "ap_status t = ARAPStatusOpen" "ap_id t \<notin> ap_id ` set (f_transactions d)"
      "b \<in> set (f_partners d)" "bp_id b = ap_partner t" "bp_type b = partner_kind (ap_type t)"
      "f_transactions d' = f_transactions d @ [t]" "f_allocations d' = f_allocations d" "f_payments d' = f_payments d"
      "f_entries d' = f_entries d1" "f_lines d' = f_lines d1"
  | (paid) t y a now where "t \<in> set (f_transactions d)" "0 < ay_amount y" "ay_partner y = ap_partner t" "ay_id y \<notin> ay_id ` set (f_payments d)"
      "al_payment a = ay_id y" "al_transaction a = ap_id t" "al_amount a = ay_amount y" "allocated d (ap_id t) + ay_amount y \<le> ap_amount t"
      "f_transactions d' = set_paid (ap_id t) (status_after (ap_amount t) (allocated d (ap_id t) + ay_amount y)) now (f_transactions d)"
      "f_allocations d' = f_allocations d @ [a]" "f_payments d' = f_payments d @ [y]"
  using assms
proof (cases rule: fin_step.cases)
  case (arap j rs d1 t b n)
  then show thesis using enters_same [OF arap(1)] by (intro new [of j rs d1 t b]) (simp_all add: partner_kind_def)
next
  case (payment j rs d1 t y a n now)
  then show thesis using enters_same [OF payment(1)] by (intro paid [of t y a now]) (simp_all add: set_paid_def)
qed (rule same; simp add: enters_same registers_grow_same)+

definition paid_ok :: "fdb \<Rightarrow> arap_transaction \<Rightarrow> bool" where
  "paid_ok d t \<longleftrightarrow>
     ap_status t = status_after (ap_amount t) (allocated d (ap_id t)) \<and> allocated d (ap_id t) \<le> ap_amount t \<and>
     (\<exists>b \<in> set (f_partners d). bp_id b = ap_partner t \<and> bp_type b = partner_kind (ap_type t))"

definition allocation_ok :: "fdb \<Rightarrow> arap_allocation \<Rightarrow> bool" where
  "allocation_ok d a \<longleftrightarrow>
     0 < al_amount a \<and> (al_transaction a, al_payment a, al_amount a) \<in>
       {(ap_id t, ay_id y, ay_amount y) |t y. t \<in> set (f_transactions d) \<and> y \<in> set (f_payments d) \<and> ay_partner y = ap_partner t}"

definition arap_ok :: "fdb \<Rightarrow> bool" where
  "arap_ok d \<longleftrightarrow> (\<forall>t \<in> set (f_transactions d). paid_ok d t) \<and> (\<forall>a \<in> set (f_allocations d). allocation_ok d a)"

lemma step_partner_core: "fin_step Q d d' \<Longrightarrow> \<exists>ps. map partner_core (f_partners d') = map partner_core (f_partners d) @ ps"
  by (erule fin_step.cases; simp add: enters_same registers_grow_def)

lemma step_partners:
  assumes "fin_step Q d d'" "b \<in> set (f_partners d)"
  shows "\<exists>b' \<in> set (f_partners d'). bp_id b' = bp_id b \<and> bp_type b' = bp_type b"
proof -
  have "partner_core b \<in> set (map partner_core (f_partners d'))"
    using step_partner_core [OF assms(1)] assms(2) by (metis UnI1 image_eqI set_append set_map)
  then obtain b' where "b' \<in> set (f_partners d')" "partner_core b' = partner_core b" by auto
  then show ?thesis unfolding partner_core_def by (intro bexI [of _ b']) simp_all
qed

lemma allocation_okI:
  "t \<in> set (f_transactions d) \<Longrightarrow> y \<in> set (f_payments d) \<Longrightarrow> ay_partner y = ap_partner t \<Longrightarrow> 0 < al_amount a \<Longrightarrow>
     al_transaction a = ap_id t \<Longrightarrow> al_payment a = ay_id y \<Longrightarrow> al_amount a = ay_amount y \<Longrightarrow> allocation_ok d a"
  unfolding allocation_ok_def by blast

text \<open>The keys of transactions and payments stay.\<close>

lemma step_allocation:
  assumes "fin_step Q d d'" "allocation_ok d a"
  shows "allocation_ok d' a"
proof -
  obtain t y where t: "t \<in> set (f_transactions d)" "y \<in> set (f_payments d)" "ay_partner y = ap_partner t" "0 < al_amount a"
      "al_transaction a = ap_id t" "al_payment a = ay_id y" "al_amount a = ay_amount y"
    using assms(2) unfolding allocation_ok_def by blast
  have "y \<in> set (f_payments d')" using assms(1) t(2) by (cases rule: step_arap) simp_all
  moreover have "\<exists>t' \<in> set (f_transactions d'). ap_id t' = ap_id t \<and> ap_partner t' = ap_partner t"
    using assms(1)
  proof (cases rule: step_arap)
    case (paid t1 y a now)
    then show ?thesis unfolding paid(9) set_paid_def set_update_where by (intro bexI [OF _ imageI [OF t(1)]]) simp
  qed (use t(1) in auto)
  ultimately obtain t' where "t' \<in> set (f_transactions d')" "ap_id t' = ap_id t" "ap_partner t' = ap_partner t" "y \<in> set (f_payments d')"
    by blast
  then show ?thesis using t by (intro allocation_okI [of t' d' y]) simp_all
qed

lemma step_arap_ok:
  assumes "fin_step Q d d'" "keys_ok d" "arap_ok d"
  shows "arap_ok d'"
proof -
  have partner: "\<exists>b \<in> set (f_partners d'). bp_id b = ap_partner t \<and> bp_type b = partner_kind (ap_type t)"
    if "\<exists>b \<in> set (f_partners d). bp_id b = ap_partner t \<and> bp_type b = partner_kind (ap_type t)" for t
    using step_partners [OF assms(1)] that by metis
  have olds: "paid_ok d t" if "t \<in> set (f_transactions d)" for t using assms(3) that unfolding arap_ok_def by blast
  have keep: "paid_ok d' t" if "t \<in> set (f_transactions d)" "allocated d' (ap_id t) = allocated d (ap_id t)" for t
    unfolding paid_ok_def that(2) using olds [OF that(1), unfolded paid_ok_def] partner [of t] by blast
  have allocs: "\<forall>a \<in> set (f_allocations d). allocation_ok d' a" using step_allocation [OF assms(1)] assms(3) unfolding arap_ok_def by blast
  have refs: "al_transaction a \<in> ap_id ` set (f_transactions d)" if "a \<in> set (f_allocations d)" for a
    using assms(3) that unfolding arap_ok_def allocation_ok_def by blast
  show ?thesis
    using assms(1)
  proof (cases rule: step_arap)
    case same
    then have "allocated d' = allocated d" by (simp add: allocated_def [abs_def] allocations_of_def)
    then show ?thesis using keep allocs same unfolding arap_ok_def by simp
  next
    case (new j rs d1 t b)
    have alloc: "allocated d' = allocated d" using new(13) by (simp add: allocated_def [abs_def] allocations_of_def)
    have "\<forall>a \<in> set (f_allocations d). al_transaction a \<noteq> ap_id t" using refs new(8) by metis
    then have "allocated d (ap_id t) = 0" by (simp add: allocated_def allocations_of_def)
    then have "paid_ok d' t" using new(4,7,9-11) partner [of t] unfolding paid_ok_def alloc status_after_def by auto
    then show ?thesis using keep allocs new(12,13) alloc unfolding arap_ok_def by simp
  next
    case (paid t y a now)
    have alloc: "allocated d' i = allocated d i + (if i = ap_id t then ay_amount y else 0)" for i
      using paid(6,7,10) by (simp add: allocated_def allocations_of_def)
    let ?f = "\<lambda>x. x\<lparr>ap_status := status_after (ap_amount t) (allocated d (ap_id t) + ay_amount y), ap_updated_at := now\<rparr>"
    have "paid_ok d' z" if z: "z \<in> set (f_transactions d')" for z
    proof -
      obtain x where x: "x \<in> set (f_transactions d)" "z = (if ap_id x = ap_id t then ?f x else x)"
        using z unfolding paid(9) set_paid_def set_update_where by blast
      show ?thesis
      proof (cases "ap_id x = ap_id t")
        case True
        then have "x = t" using key_unique [OF _ x(1) paid(1)] assms(2) unfolding keys_ok_def by blast
        then show ?thesis using x(2) paid(8) olds [OF paid(1)] partner [of t] alloc unfolding paid_ok_def by simp
      qed (use x keep [OF x(1)] alloc in simp)
    qed
    moreover have "allocation_ok d' a"
    proof -
      have "?f t \<in> set (f_transactions d')" using paid(1) unfolding paid(9) set_paid_def set_update_where by force
      moreover have "y \<in> set (f_payments d')" using paid(11) by simp
      ultimately show ?thesis using paid(2,3,5-7) by (intro allocation_okI [of "?f t" d' y]) simp_all
    qed
    ultimately show ?thesis using allocs paid(10) unfolding arap_ok_def by simp
  qed
qed

section \<open>The invariant\<close>

lemma set_paid_core: "map ap_core (set_paid i s now ts) = map ap_core ts"
  by (simp add: set_paid_def map_update_where ap_core_def)

lemma transaction_ok_core: "ap_core t = ap_core t' \<Longrightarrow> transaction_ok d t = transaction_ok d t'"
  by (simp add: transaction_ok_def ap_core_def)

lemma step_transactions_ok:
  assumes "fin_step Q d d'" "lines_ok d" "\<forall>t \<in> set (f_transactions d). transaction_ok d t" "t \<in> set (f_transactions d')"
  shows "transaction_ok d' t"
  using assms(1)
proof (cases rule: step_arap)
  case same
  then show ?thesis using step_document(2) [OF assms(1,2)] assms(3,4) by simp
next
  case (new j rs d1 t1 b)
  have "booked d' (je_source j) (je_date j) (ap_amount t1) (je_id j)" by (rule enters_booked [OF new(1) assms(2) new(3,15,16)])
  then have "transaction_ok d' t1" using new(2,4-6) by (simp add: transaction_ok_def)
  then show ?thesis using step_document(2) [OF assms(1,2)] assms(3,4) new(12) by auto
next
  case (paid t1 y a now)
  have "ap_core t \<in> set (map ap_core (f_transactions d))" using assms(4) unfolding paid(9) by (metis image_eqI set_map set_paid_core)
  then obtain x where "x \<in> set (f_transactions d)" "ap_core t = ap_core x" by auto
  then show ?thesis using step_document(2) [OF assms(1,2)] assms(3) transaction_ok_core by metis
qed

lemma step_documents_ok:
  assumes "fin_step Q d d'" "keys_ok d" "lines_ok d" "documents_ok d"
  shows "documents_ok d'"
proof -
  note keep = step_document [OF assms(1,3)] and new = step_documents [OF assms(1,3)]
  have old: "\<forall>x \<in> set (f_cash_transactions d). cash_ok d x" "\<forall>t \<in> set (f_transactions d). transaction_ok d t"
    "\<forall>y \<in> set (f_payments d). payment_ok d y" "\<forall>a \<in> set (f_assets d). asset_ok d a"
    "\<forall>t \<in> set (f_tax_transactions d). tax_ok d t" "\<forall>s \<in> set (f_schedules d). schedule_ok d s"
    using assms(4) unfolding documents_ok_def by blast+
  show ?thesis
    unfolding documents_ok_def
  proof (intro conjI ballI)
    fix x assume "x \<in> set (f_cash_transactions d')"
    then show "cash_ok d' x" using new(1) keep(1) old(1) by (auto simp: list_all_iff)
  next
    fix t assume "t \<in> set (f_transactions d')"
    then show "transaction_ok d' t" by (rule step_transactions_ok [OF assms(1,3) old(2)])
  next
    fix y assume "y \<in> set (f_payments d')"
    then show "payment_ok d' y" using new(2) keep(3) old(3) by (auto simp: list_all_iff)
  next
    fix a assume "a \<in> set (f_assets d')"
    then show "asset_ok d' a" using new(3) keep(4) old(4) by (auto simp: list_all_iff)
  next
    fix t assume "t \<in> set (f_tax_transactions d')"
    then show "tax_ok d' t" using new(4) keep(5) old(5) by (auto simp: list_all_iff)
  next
    fix s assume "s \<in> set (f_schedules d')"
    then show "schedule_ok d' s" by (rule step_schedules [OF assms(1-3) old(6)])
  qed
qed

definition books_ok :: "fdb \<Rightarrow> bool" where
  "books_ok d \<longleftrightarrow> keys_ok d \<and> lines_ok d \<and> entries_ok d \<and> calendar_ok d \<and> entries_balanced False d \<and> documents_ok d \<and> arap_ok d"

theorem step_books_ok: "fin_step Q d d' \<Longrightarrow> books_ok d \<Longrightarrow> books_ok d'"
  unfolding books_ok_def
  by (intro conjI; elim conjE)
     (blast intro: step_keys_ok step_lines_ok step_entries_ok step_calendar_ok step_balanced step_documents_ok step_arap_ok)+

end
