(* ===== verification/FinServices.thy ===== *)
theory FinServices
  imports Books
begin

text \<open>
  The services of the finance module over its step relation.  The locale \<open>ledger_effect\<close> is the
  contract between the repositories' transactions and the services: the transactions respect a
  preorder \<open>R\<close> and leave a precondition \<open>P\<close> standing; then every service composed of them does,
  whatever errors, faults and early returns occur on the way.  It is interpreted on \<open>fin_steps\<close>.
\<close>

definition fio_pre :: "(fdb \<Rightarrow> bool) \<Rightarrow> (fdb \<Rightarrow> fdb \<Rightarrow> bool) \<Rightarrow> 'a fio \<Rightarrow> bool" where
  "fio_pre P R m \<longleftrightarrow> (\<forall>e w. fin_env_ok e \<longrightarrow> P (fw_db w) \<longrightarrow> R (fw_db w) (fw_db (snd (m e w))))"

text \<open>A transaction that only reads, when it commits.\<close>

definition looks :: "'a ftx \<Rightarrow> bool" where
  "looks m \<longleftrightarrow> (\<forall>e d x d'. m e d = (Inr x, d') \<longrightarrow> d' = d)"

named_theorems looking \<open>transactions that only read\<close>

lemma looks_basic [looking]: "looks (ret x)" "looks (raise er)" "looks (lift r)" "looks (ensure b er)" "looks (uuid_arg s)"
  by (auto simp: looks_def fin_simps)

lemma looks_chain [looking]: "looks m \<Longrightarrow> (\<And>x. looks (k x)) \<Longrightarrow> looks (chain m k)"
  unfolding looks_def by (simp add: fin_simps) metis

lemma looks_get [looking]: "(\<And>x. looks (k x)) \<Longrightarrow> looks (get f k)"
  unfolding looks_def by (auto simp: fin_simps)

lemma looks_cases [looking]:
  "looks m \<Longrightarrow> looks n \<Longrightarrow> looks (if b then m else n)"
  "looks m \<Longrightarrow> (\<And>x. looks (f x)) \<Longrightarrow> looks (case v of None \<Rightarrow> m | Some x \<Rightarrow> f x)"
  "(\<And>x y. looks (g x y)) \<Longrightarrow> looks (case p of (x, y) \<Rightarrow> g x y)"
  by (auto split: option.split prod.split)

lemma looks_scan_ledger [looking]: "looks (scan_ledger rows)"
  by (induction rows rule: scan_ledger.induct) (auto intro!: looking)

lemma looks_uuid_filter [looking]: "looks (uuid_filter s)"
  unfolding uuid_filter_def by (intro looking)

lemmas reading_defs =
  GLAccounts_FindByID_def GLAccounts_List_def Fiscal_ListFiscalYears_def Fiscal_ListFiscalPeriods_def
  Journals_FindByID_def Journals_List_def Ledger_TrialBalance_def Ledger_ProfitLoss_def Ledger_BalanceSheet_def
  Ledger_GeneralLedger_def Ledger_AccountBalanceAsOf_def Ledger_AccountOpeningBalanceBefore_def
  Cash_FindByID_def Cash_List_def Cash_FindTransactionByID_def Cash_ListTransactions_def Cash_ListReconciliations_def
  ARAP_FindPartnerByID_def ARAP_ListPartners_def ARAP_FindTransactionByID_def ARAP_ListTransactions_def ARAP_FindPaymentByID_def
  ARAP_AgingReport_def Assets_FindCategoryByID_def Assets_ListCategories_def Assets_FindAssetByID_def Assets_ListAssets_def
  Assets_ListSchedules_def Tax_ListTypes_def Tax_FindRateByID_def Tax_ListRates_def Tax_FindTransactionByID_def
  Tax_ListTransactions_def Tax_Summary_def

lemma looks_reads [looking]:
  "looks (GLAccounts_FindByID s)" "looks (GLAccounts_List b s)" "looks Fiscal_ListFiscalYears" "looks (Fiscal_ListFiscalPeriods s)"
  "looks (Journals_FindByID s)" "looks (Journals_List f)" "looks (Ledger_TrialBalance t)" "looks (Ledger_ProfitLoss t u)"
  "looks (Ledger_BalanceSheet t)" "looks (Ledger_GeneralLedger t u s)" "looks (Ledger_AccountBalanceAsOf s t)"
  "looks (Ledger_AccountOpeningBalanceBefore s t)" "looks (Cash_FindByID s)" "looks (Cash_List b)" "looks (Cash_FindTransactionByID s)"
  unfolding reading_defs Let_def by (intro looking)+

lemma looks_subledgers [looking]:
  "looks (Cash_ListTransactions cf)" "looks (Cash_ListReconciliations s)" "looks (ARAP_FindPartnerByID s)" "looks (ARAP_ListPartners s b)"
  "looks (ARAP_FindTransactionByID s)" "looks (ARAP_ListTransactions af)" "looks (ARAP_FindPaymentByID s)" "looks (ARAP_AgingReport k t)"
  "looks (Assets_FindCategoryByID s)" "looks (Assets_ListCategories b)" "looks (Assets_FindAssetByID s)" "looks (Assets_ListAssets s z i n)"
  "looks (Assets_ListSchedules s)" "looks Tax_ListTypes" "looks (Tax_FindRateByID s)" "looks (Tax_ListRates s)"
  "looks (Tax_FindTransactionByID s)" "looks (Tax_ListTransactions s ta tb i n)" "looks (Tax_Summary t u)"
  unfolding reading_defs Let_def by (intro looking)+

section \<open>The contract\<close>

lemma fio_preD: "fio_pre P R m \<Longrightarrow> fin_env_ok e \<Longrightarrow> P (fw_db w) \<Longrightarrow> R (fw_db w) (fw_db (snd (m e w)))"
  by (simp add: fio_pre_def)

locale ledger_effect =
  fixes P :: "fdb \<Rightarrow> bool" and R :: "fdb \<Rightarrow> fdb \<Rightarrow> bool"
  assumes refl: "R d d"
    and trans: "R a b \<Longrightarrow> R b c \<Longrightarrow> R a c"
    and stable: "P d \<Longrightarrow> R d d' \<Longrightarrow> P d'"
begin

lemma quiet: "(\<And>e w. fw_db (snd (m e w)) = fw_db w) \<Longrightarrow> fio_pre P R m"
  by (simp add: fio_pre_def refl)

lemma basics: "fio_pre P R (ret x)" "fio_pre P R (raise er)" "fio_pre P R (lift r)" "fio_pre P R (ensure b er)" "fio_pre P R (require v er)"
  by (auto simp: fio_pre_def comp_defs require_def refl split: option.split)

lemma guards: "fio_pre P R (guards gs)"
  by (simp add: fio_pre_def guards_result refl)

lemma number: "fio_pre P R (NextEntryNumber y)"
  by (intro quiet) (metis NextEntryNumber_db surjective_pairing)

lemma fin_tx: "(\<And>e d x d'. fin_env_ok e \<Longrightarrow> P d \<Longrightarrow> body e d = (Inr x, d') \<Longrightarrow> R d d') \<Longrightarrow> fio_pre P R (fin_tx body)"
  unfolding fio_pre_def
proof (intro allI impI)
  fix e :: env and w :: fworld
  assume body: "\<And>e d x d'. fin_env_ok e \<Longrightarrow> P d \<Longrightarrow> body e d = (Inr x, d') \<Longrightarrow> R d d'" and e: "fin_env_ok e" and P: "P (fw_db w)"
  obtain r w' where rw: "fin_tx body e w = (r, w')" by (cases "fin_tx body e w") blast
  from rw show "R (fw_db w) (fw_db (snd (fin_tx body e w)))"
    by (cases rule: fin_tx_cases) (simp_all add: rw refl body [OF e P])
qed

lemma reading: "looks body \<Longrightarrow> fio_pre P R (fin_tx body)"
  by (rule fin_tx) (metis looks_def refl)

lemma chain_result:
  assumes "fio_pre P R m" "\<And>e w x w'. fin_env_ok e \<Longrightarrow> P (fw_db w) \<Longrightarrow> m e w = (Inr x, w') \<Longrightarrow> R (fw_db w') (fw_db (snd (k x e w')))"
  shows "fio_pre P R (chain m k)"
  unfolding fio_pre_def
proof (intro allI impI)
  fix e :: env and w :: fworld assume e: "fin_env_ok e" and P: "P (fw_db w)"
  have m: "R (fw_db w) (fw_db (snd (m e w)))" using fio_preD [OF assms(1) e P] .
  show "R (fw_db w) (fw_db (snd (chain m k e w)))"
  proof (cases "m e w")
    case (Pair r w')
    show ?thesis
    proof (cases r)
      case (Inr x)
      have "R (fw_db w') (fw_db (snd (k x e w')))" using assms(2) [OF e P] Pair Inr by simp
      then show ?thesis using trans m Pair Inr by (auto simp: chain_def)
    qed (use m Pair in \<open>simp add: chain_def\<close>)
  qed
qed

lemma after:
  assumes "fio_pre P R m" "m e w = (r, w')" "fin_env_ok e" "P (fw_db w)"
  shows "P (fw_db w')"
  using stable [OF assms(4)] fio_preD [OF assms(1,3,4)] assms(2) by simp

lemma chain:
  assumes "fio_pre P R m" "\<And>x. fio_pre P R (k x)"
  shows "fio_pre P R (chain m k)"
  by (rule chain_result [OF assms(1)]) (blast intro: fio_preD [OF assms(2)] after [OF assms(1)])

lemma attempt:
  assumes "fio_pre P R m" "\<And>r. fio_pre P R (k r)"
  shows "fio_pre P R (attempt m k)"
  unfolding fio_pre_def
proof (intro allI impI)
  fix e :: env and w :: fworld assume e: "fin_env_ok e" and P: "P (fw_db w)"
  have m: "R (fw_db w) (fw_db (snd (m e w)))" using fio_preD [OF assms(1) e P] .
  have "R (fw_db (snd (m e w))) (fw_db (snd (k (fst (m e w)) e (snd (m e w)))))"
    using fio_preD [OF assms(2) e] stable [OF P m] by simp
  then show "R (fw_db w) (fw_db (snd (attempt m k e w)))"
    using trans m by (auto simp: attempt_def split: prod.split)
qed

lemma ask: "(\<And>x. fio_pre P R (k x)) \<Longrightarrow> fio_pre P R (ask f k)"
  by (auto simp: fio_pre_def ask_def)

lemma map_error: "fio_pre P R m \<Longrightarrow> fio_pre P R (map_error f m)"
  unfolding map_error_def by (rule attempt) (auto split: sum.split intro: basics)

lemma cases: "fio_pre P R m \<Longrightarrow> fio_pre P R n \<Longrightarrow> fio_pre P R (if b then m else n)"
  "(\<And>x y. fio_pre P R (f x y)) \<Longrightarrow> fio_pre P R (case p of (x, y) \<Rightarrow> f x y)"
  "(\<And>x. fio_pre P R (g x)) \<Longrightarrow> (\<And>y. fio_pre P R (h y)) \<Longrightarrow> fio_pre P R (case s of Inl x \<Rightarrow> g x | Inr y \<Rightarrow> h y)"
  by (auto split: prod.split sum.split)

lemma chain_lift: "(\<And>x. v = Inr x \<Longrightarrow> fio_pre P R (k x)) \<Longrightarrow> fio_pre P R (chain (lift v) k)"
  by (rule chain_result [OF basics(3)]) (auto simp: fin_simps dest: fio_preD)

lemma chain_ensure: "(b \<Longrightarrow> fio_pre P R (k ())) \<Longrightarrow> fio_pre P R (chain (ensure b er) k)"
  by (rule chain_result [OF basics(4)]) (auto simp: fin_simps dest: fio_preD)

lemmas rules = basics guards number map_error ask cases reading chain

end

lemma ledger_effect_steps: "ledger_effect books_ok (fin_steps Q)"
proof
  fix d d' :: fdb assume "books_ok d" "fin_steps Q d d'"
  from this(2,1) show "books_ok d'" by (induction rule: rtranclp_induct) (auto intro: step_books_ok)
qed auto

interpretation ledger: ledger_effect books_ok "fin_steps Q" for Q
  by (rule ledger_effect_steps)

section \<open>The services\<close>

abbreviation keeps_books :: "policy \<Rightarrow> 'a fio \<Rightarrow> bool" where
  "keeps_books Q \<equiv> fio_pre books_ok (fin_steps Q)"

text \<open>A transaction that is one step.\<close>

lemma one_step: "(\<And>e d x d'. fin_env_ok e \<Longrightarrow> books_ok d \<Longrightarrow> body e d = (Inr x, d') \<Longrightarrow> fin_step Q d d') \<Longrightarrow> keeps_books Q (fin_tx body)"
  by (rule ledger.fin_tx) blast

named_theorems booking \<open>operations that keep the books\<close>

lemma chart_books [booking]:
  "keeps_books Q (GLAccountService_Create r)" "keeps_books Q (GLAccountService_Update i ur)"
  unfolding GLAccountService_Create_def GLAccountService_Update_def
  by (intro ledger.rules one_step GLAccounts_Create_step GLAccounts_Update_step; assumption)+

lemma fiscal_books [booking]:
  "keeps_books Q (FiscalService_CreateFiscalYear y)"
  "may_set Q FiscalStatusClosed \<Longrightarrow> keeps_books Q (FiscalService_ClosePeriod i actor)"
  "may_set Q FiscalStatusOpen \<Longrightarrow> keeps_books Q (FiscalService_ReopenPeriod i actor)"
  "may_set Q FiscalStatusClosed \<Longrightarrow> keeps_books Q (FiscalService_CloseFiscalYear i actor)"
  "may_set Q FiscalStatusOpen \<Longrightarrow> keeps_books Q (FiscalService_ReopenFiscalYear i actor)"
  unfolding FiscalService_CreateFiscalYear_def FiscalService_ClosePeriod_def FiscalService_ReopenPeriod_def
    FiscalService_CloseFiscalYear_def FiscalService_ReopenFiscalYear_def year_with_periods_def
  by (intro ledger.rules one_step CreateFiscalYear_step SetPeriodStatus_step SetFiscalYearStatus_step looking; assumption)+

text \<open>What the checks of a manual entry leave possible for its lines.\<close>

definition accepts :: "policy \<Rightarrow> CreateJournalEntryRequest \<Rightarrow> bool" where
  "accepts Q r \<longleftrightarrow>
     (\<forall>e a ls rs. fin_env_ok e \<longrightarrow> check_lines (jr_lines r) 0 0 [] = Inr (a, a, ls) \<longrightarrow> list_all2 (fits_line e) ls rs \<longrightarrow> may_enter Q rs)"

lemma journal_books:
  assumes "accepts Q r"
  shows "keeps_books Q (JournalService_Create r actor)"
  unfolding JournalService_Create_def case_prod_beta Journals_Create_def
  by (intro ledger.chain_lift ledger.chain_ensure ledger.rules one_step looking)
     (rule manual_step, assumption, simp, use assms in \<open>force simp: accepts_def\<close>)

lemma reverse_books [booking]: "keeps_books Q (JournalService_Reverse i t reason actor)"
  unfolding JournalService_Reverse_def Journals_Reverse_def
  by (intro ledger.rules one_step looking; (rule reverse_tx_step)?; assumption)

lemma cash_books [booking]:
  "keeps_books Q (CashBankService_CreateAccount s1 s2 s3 s4 s5)" "keeps_books Q (CashBankService_UpdateAccount s1 s2 s3 s4 b)"
  "keeps_books Q (CashBankService_CreateTransaction r actor)" "keeps_books Q (CashBankService_CreateReconciliation s1 s2 s3 s4)"
  "keeps_books Q (CashBankService_CompleteReconciliation s1 s2)"
  unfolding CashBankService_CreateAccount_def CashBankService_UpdateAccount_def CashBankService_CreateTransaction_def
    CashBankService_CreateReconciliation_def CashBankService_CompleteReconciliation_def bookBalanceForAccount_def
    Cash_Create_def Cash_Update_def Cash_CreateTransaction_def
  by (intro ledger.rules one_step looking Cash_Insert_step Cash_Edit_step CreateReconciliation_step CompleteReconciliation_step
      cash_tx_step fin_env_okD; assumption)+

lemma partner_books [booking]:
  "keeps_books Q (ARAPService_CreatePartner pr)" "keeps_books Q (ARAPService_UpdatePartner s1 s2 s3 s4 b)"
  "keeps_books Q (ARAPService_CreateTransaction tr actor)" "keeps_books Q (ARAPService_CreatePayment yr actor)"
  unfolding ARAPService_CreatePartner_def ARAPService_UpdatePartner_def ARAPService_CreateTransaction_def ARAPService_CreatePayment_def
    ARAP_CreatePartner_def ARAP_UpdatePartner_def ARAP_CreateTransaction_def ARAP_CreatePayment_def
  by (intro ledger.rules one_step looking insert_partner_step edit_partner_step arap_tx_step payment_tx_step fin_env_okD; assumption)+

lemma tax_books [booking]:
  "keeps_books Q (TaxService_CreateRate s1 s2 s3 s4 s5)" "keeps_books Q (TaxService_CreateTransaction r actor)"
  unfolding TaxService_CreateRate_def TaxService_CreateTransaction_def Tax_CreateRate_def Tax_CreateTransaction_def
  by (intro ledger.rules one_step looking insert_rate_step tax_tx_step fin_env_okD; assumption)+

lemma asset_books [booking]:
  "keeps_books Q (FixedAssetService_CreateCategory cr)" "keeps_books Q (FixedAssetService_CreateAsset ar actor)"
  unfolding FixedAssetService_CreateCategory_def FixedAssetService_CreateAsset_def Assets_CreateCategory_def Assets_CreateAsset_def
  by (intro ledger.rules one_step looking insert_category_step asset_tx_step fin_env_okD; assumption)+

end
