(* ===== verification/FinMachine.thy ===== *)
theory FinMachine
  imports FinServices
begin

text \<open>
  The finance module as one machine: the calls that write, what each does to the world, and runs of
  them.  Every run keeps the books, whatever faults, errors and requests occur on the way, and is a
  sequence of ledger steps.
\<close>

section \<open>Posting depreciation row by row\<close>

text \<open>A row read earlier still describes its schedule: the identity, amount and date of a schedule never change.\<close>

definition scheduled :: "fdb \<Rightarrow> pending_row \<Rightarrow> bool" where
  "scheduled d r \<longleftrightarrow>
     (\<exists>s \<in> set (f_schedules d). pd_schedule r = dp_id s \<and> pd_amount r = cents_text (dp_amount s) \<and> pd_date r = dp_date s)"

definition schedules_kept :: "fdb \<Rightarrow> fdb \<Rightarrow> bool" where
  "schedules_kept d d' \<longleftrightarrow>
     (\<forall>s \<in> set (f_schedules d). \<exists>s' \<in> set (f_schedules d'). dp_id s' = dp_id s \<and> dp_amount s' = dp_amount s \<and> dp_date s' = dp_date s)"

lemma schedules_kept_append: "f_schedules d' = f_schedules d @ ss \<Longrightarrow> schedules_kept d d'"
  by (auto simp: schedules_kept_def)

lemma schedules_kept_posted:
  assumes "f_schedules d' = update_where P (\<lambda>s. s\<lparr>dp_status := a, dp_entry := b, dp_posted_at := c\<rparr>) (f_schedules d)"
  shows "schedules_kept d d'"
  unfolding schedules_kept_def assms
proof
  fix s assume s: "s \<in> set (f_schedules d)"
  let ?f = "\<lambda>s. if P s then s\<lparr>dp_status := a, dp_entry := b, dp_posted_at := c\<rparr> else s"
  have "?f s \<in> set (update_where P (\<lambda>s. s\<lparr>dp_status := a, dp_entry := b, dp_posted_at := c\<rparr>) (f_schedules d))"
    using s by (auto simp: set_update_where)
  then show "\<exists>s' \<in> set (update_where P (\<lambda>s. s\<lparr>dp_status := a, dp_entry := b, dp_posted_at := c\<rparr>) (f_schedules d)).
      dp_id s' = dp_id s \<and> dp_amount s' = dp_amount s \<and> dp_date s' = dp_date s"
    by (rule bexI [rotated]) simp
qed

lemma step_schedules_kept: "fin_step Q d d' \<Longrightarrow> schedules_kept d d'"
proof (induction rule: fin_step.induct)
  case (depreciation d j rs d1 s d' now n)
  then show ?case by (intro schedules_kept_posted) (simp add: enters_same)
next
  case (asset d j rs d1 a ss d' n)
  then show ?case by (intro schedules_kept_append) (simp add: enters_same)
qed (rule schedules_kept_append [where ss = "[]"], simp add: enters_same registers_grow_same)+

lemma steps_scheduled: "fin_steps Q d d' \<Longrightarrow> scheduled d r \<Longrightarrow> scheduled d' r"
proof (induction rule: rtranclp_induct)
  case (step d1 d2)
  then show ?case using step_schedules_kept [OF step.hyps(2)] unfolding scheduled_def schedules_kept_def by metis
qed

text \<open>The books, with the rows of a batch still described.\<close>

definition books_due :: "pending_row set \<Rightarrow> fdb \<Rightarrow> bool" where
  "books_due rs d \<longleftrightarrow> books_ok d \<and> (\<forall>r \<in> rs. scheduled d r)"

interpretation due: ledger_effect "books_due rs" "fin_steps Q" for rs Q
proof
  fix d d' :: fdb assume "books_due rs d" "fin_steps Q d d'"
  then show "books_due rs d'" unfolding books_due_def using steps_scheduled ledger.stable by blast
qed auto

lemma books_okD: "books_ok d \<Longrightarrow> s \<in> set (f_schedules d) \<Longrightarrow> schedule_ok d s"
  unfolding books_ok_def documents_ok_def by blast

lemma postOne_due: "r \<in> rs \<Longrightarrow> fio_pre (books_due rs) (fin_steps Q) (postOneDepreciationRow r actor)"
  unfolding postOneDepreciationRow_def
proof (intro due.chain due.number due.fin_tx)
  fix number e d and u :: unit and d'
  assume r: "r \<in> rs" and e: "fin_env_ok e" and d: "books_due rs d" and t: "depreciation_tx r number actor e d = (Inr u, d')"
  from r d obtain s where s: "s \<in> set (f_schedules d)" "pd_schedule r = dp_id s" "pd_amount r = cents_text (dp_amount s)"
      "pd_date r = dp_date s"
    unfolding books_due_def scheduled_def by blast
  have ok: "schedule_ok d s" using books_okD d s(1) unfolding books_due_def by blast
  have "fin_step Q d d'"
    using depreciation_tx_step [OF t fin_env_okD(1) [OF e] s(1) _ s(3,4)] fin_env_okD(3) [OF e] ok s(2) by (simp add: schedule_ok_def)
  then show "fin_steps Q d d'" by blast
qed

lemma post_rows_due: "set rows \<subseteq> rs \<Longrightarrow> fio_pre (books_due rs) (fin_steps Q) (post_rows actor rows)"
  by (induction rows) (auto intro!: due.basics due.attempt due.chain postOne_due)

lemma pending_rows_scheduled: "r \<in> set (pending_rows d t) \<Longrightarrow> scheduled d r"
  by (erule pending_rows_row) (auto simp: scheduled_def)

lemma depreciation_books [booking]: "keeps_books Q (FixedAssetService_PostDepreciation as_of actor)"
proof -
  have "fin_steps Q (fw_db w') (fw_db (snd (post_rows a rows e w')))"
    if "fin_env_ok e" "books_ok (fw_db w)" "fin_tx (get id (\<lambda>d. ret (pending_rows d t))) e w = (Inr rows, w')" for e w rows w' t a
  proof -
    have w: "rows = pending_rows (fw_db w) t" "fw_db w' = fw_db w" using fin_tx_Inr [OF that(3)] by (simp_all add: fin_simps)
    then have "books_due (set rows) (fw_db w')" unfolding books_due_def using that(2) pending_rows_scheduled by simp
    then show ?thesis using fio_preD [OF post_rows_due [OF subset_refl] that(1)] by blast
  qed
  then show ?thesis
    unfolding FixedAssetService_PostDepreciation_def PostDepreciationThroughDate_def
    by (intro ledger.chain ledger.basics ledger.chain_result) (auto intro!: ledger.reading looking)
qed

section \<open>Calls and runs\<close>

datatype finance_call =
    NewAccount CreateAccountRequest
  | EditAccount string UpdateAccountRequest
  | NewFiscalYear int
  | ClosePeriod string string
  | ReopenPeriod string string
  | CloseYear string string
  | ReopenYear string string
  | NewEntry CreateJournalEntryRequest string
  | ReverseEntry string string string string
  | NewCashAccount string string string string string
  | EditCashAccount string string string string bool
  | NewCashTransaction CreateCashTransactionRequest string
  | NewReconciliation string string string string
  | CompleteReconciliation string string
  | NewPartner CreateBusinessPartnerRequest
  | EditPartner string string string string bool
  | NewBill CreateARAPTransactionRequest string
  | NewPayment CreateARAPPaymentRequest string
  | NewCategory CreateAssetCategoryRequest
  | NewAsset CreateFixedAssetRequest string
  | PostDepreciation string string
  | NewTaxRate string string string string string
  | NewTaxTransaction CreateTaxTransactionRequest string

text \<open>The world after a call, its answer forgotten.\<close>

fun fin_perform :: "finance_call \<Rightarrow> env \<Rightarrow> fworld \<Rightarrow> fworld" where
  "fin_perform (NewAccount r) e w = snd (GLAccountService_Create r e w)"
| "fin_perform (EditAccount i r) e w = snd (GLAccountService_Update i r e w)"
| "fin_perform (NewFiscalYear y) e w = snd (FiscalService_CreateFiscalYear y e w)"
| "fin_perform (ClosePeriod i actor) e w = snd (FiscalService_ClosePeriod i actor e w)"
| "fin_perform (ReopenPeriod i actor) e w = snd (FiscalService_ReopenPeriod i actor e w)"
| "fin_perform (CloseYear i actor) e w = snd (FiscalService_CloseFiscalYear i actor e w)"
| "fin_perform (ReopenYear i actor) e w = snd (FiscalService_ReopenFiscalYear i actor e w)"
| "fin_perform (NewEntry r actor) e w = snd (JournalService_Create r actor e w)"
| "fin_perform (ReverseEntry i t reason actor) e w = snd (JournalService_Reverse i t reason actor e w)"
| "fin_perform (NewCashAccount a b c d f) e w = snd (CashBankService_CreateAccount a b c d f e w)"
| "fin_perform (EditCashAccount i a b c active) e w = snd (CashBankService_UpdateAccount i a b c active e w)"
| "fin_perform (NewCashTransaction r actor) e w = snd (CashBankService_CreateTransaction r actor e w)"
| "fin_perform (NewReconciliation a b c d) e w = snd (CashBankService_CreateReconciliation a b c d e w)"
| "fin_perform (CompleteReconciliation i actor) e w = snd (CashBankService_CompleteReconciliation i actor e w)"
| "fin_perform (NewPartner r) e w = snd (ARAPService_CreatePartner r e w)"
| "fin_perform (EditPartner i a b c active) e w = snd (ARAPService_UpdatePartner i a b c active e w)"
| "fin_perform (NewBill r actor) e w = snd (ARAPService_CreateTransaction r actor e w)"
| "fin_perform (NewPayment r actor) e w = snd (ARAPService_CreatePayment r actor e w)"
| "fin_perform (NewCategory r) e w = snd (FixedAssetService_CreateCategory r e w)"
| "fin_perform (NewAsset r actor) e w = snd (FixedAssetService_CreateAsset r actor e w)"
| "fin_perform (PostDepreciation t actor) e w = snd (FixedAssetService_PostDepreciation t actor e w)"
| "fin_perform (NewTaxRate a b c d f) e w = snd (TaxService_CreateRate a b c d f e w)"
| "fin_perform (NewTaxTransaction r actor) e w = snd (TaxService_CreateTransaction r actor e w)"

fun run_finance :: "(env \<times> finance_call) list \<Rightarrow> fworld \<Rightarrow> fworld" where
  "run_finance [] w = w"
| "run_finance ((e, c) # cs) w = run_finance cs (fin_perform c e w)"

definition accepts_call :: "policy \<Rightarrow> finance_call \<Rightarrow> bool" where
  "accepts_call Q c \<longleftrightarrow> 
     (case c of
        NewEntry r actor \<Rightarrow> accepts Q r
      | ClosePeriod i actor \<Rightarrow> may_set Q FiscalStatusClosed
      | CloseYear i actor \<Rightarrow> may_set Q FiscalStatusClosed
      | ReopenPeriod i actor \<Rightarrow> may_set Q FiscalStatusOpen
      | ReopenYear i actor \<Rightarrow> may_set Q FiscalStatusOpen
      | _ \<Rightarrow> True)"

lemma perform_steps:
  assumes "fin_env_ok e" "accepts_call Q c" "books_ok (fw_db w)"
  shows "fin_steps Q (fw_db w) (fw_db (fin_perform c e w))"
proof -
  show ?thesis
    using assms(2) by (cases c) (auto simp: accepts_call_def intro!: fio_preD [OF _ assms(1), where P = books_ok] assms(3) booking journal_books)
qed

lemma run_finance_steps:
  assumes "books_ok (fw_db w)" "\<forall>(e, c) \<in> set cs. fin_env_ok e \<and> accepts_call Q c"
  shows "fin_steps Q (fw_db w) (fw_db (run_finance cs w))"
  using assms
proof (induction cs arbitrary: w)
  case (Cons x cs)
  obtain e c where x: "x = (e, c)" by fastforce
  have s: "fin_steps Q (fw_db w) (fw_db (fin_perform c e w))" using Cons.prems by (intro perform_steps) (auto simp: x)
  also have "fin_steps Q (fw_db (fin_perform c e w)) (fw_db (run_finance cs (fin_perform c e w)))"
    using Cons.prems ledger.stable [OF _ s] by (intro Cons.IH) auto
  finally show ?case by (simp add: x)
qed simp

lemma accepts_any: "accepts_call any_call c"
  by (simp add: accepts_call_def accepts_def any_call_def split: finance_call.split)

lemma run_finance_books:
  assumes "books_ok (fw_db w)" "\<forall>(e, c) \<in> set cs. fin_env_ok e"
  shows "books_ok (fw_db (run_finance cs w))" "fin_steps any_call (fw_db w) (fw_db (run_finance cs w))"
proof -
  show "fin_steps any_call (fw_db w) (fw_db (run_finance cs w))"
    using run_finance_steps [OF assms(1)] assms(2) accepts_any by blast
  then show "books_ok (fw_db (run_finance cs w))" using ledger.stable [OF assms(1)] by blast
qed

end
