(* ===== verification/FinLaws.thy ===== *)
theory FinLaws
  imports FinMachine
begin

text \<open>
  Laws of the finance machine drawn from its invariant: every day has one period, a closed period is
  frozen, but for the marks of reversals, until it is reopened, and what whole-cent manual entries add up to.
\<close>

section \<open>The calendar\<close>

lemma period_span:
  assumes "n \<in> {1..12}"
  shows "period_start y n = month_start (12 * y + (n - 1))" "period_end y n = month_start (12 * y + n) - 1"
proof -
  have d: "1 \<le> (1::int)" "1 \<le> dim (12 * y + (n - 1))" using dim_bounds(1) [of "12 * y + (n - 1)"] by simp_all
  have c: "Year (Date y n 1) = y" "Month (Date y n 1) = n" "Day (Date y n 1) = 1" using civil_Date [of n 1 y] assms d by auto
  show "period_start y n = month_start (12 * y + (n - 1))" by (simp add: period_start_def Date_def)
  show "period_end y n = month_start (12 * y + n) - 1"
    by (simp add: period_end_def period_start_def AddDate_def c) (simp add: Date_def)
qed

lemma between_months: "month_start M \<le> t \<and> t \<le> month_start (M + 1) - 1 \<longleftrightarrow> month_of t = M"
  using month_of_bounds [of t] month_of_unique [of M t] by auto

lemma month_index_inject:
  fixes a b :: int
  assumes "12 * a + (m - 1) = 12 * b + (n - 1)" "m \<in> {1..12}" "n \<in> {1..12}"
  shows "a = b \<and> m = n"
proof -
  have "12 * (a - b) = n - m" "- 12 < n - m" "n - m < 12" using assms by auto
  then show ?thesis by (cases "a - b" "0::int" rule: linorder_cases) auto
qed

lemma covers_month:
  assumes "calendar_ok d" "p \<in> set (f_periods d)"
  shows "\<exists>y \<in> set (f_years d). fp_year_id p = fy_id y \<and> fp_number p \<in> {1..12} \<and>
    (\<forall>t. covers t p \<longleftrightarrow> Year t = fy_year y \<and> Month t = fp_number p)"
proof -
  obtain y where y: "y \<in> set (f_years d)" "fp_year_id p = fy_id y" "fp_number p \<in> {1..12}"
      "fp_start p = period_start (fy_year y) (fp_number p)" "fp_end p = period_end (fy_year y) (fp_number p)"
    using assms unfolding calendar_ok_def by blast
  define M where "M = 12 * fy_year y + (fp_number p - 1)"
  have M1: "12 * fy_year y + fp_number p = M + 1" by (simp add: M_def)
  have "covers t p \<longleftrightarrow> Year t = fy_year y \<and> Month t = fp_number p" for t
  proof -
    have m: "Month t \<in> {1..12}" using Month_bounds [of t] by simp
    have "covers t p \<longleftrightarrow> month_of t = M"
      unfolding covers_def y(4,5) period_span [OF y(3)] M1 M_def [symmetric] by (rule between_months)
    also have "\<dots> \<longleftrightarrow> 12 * Year t + (Month t - 1) = 12 * fy_year y + (fp_number p - 1)"
      unfolding month_index M_def ..
    also have "\<dots> \<longleftrightarrow> Year t = fy_year y \<and> Month t = fp_number p"
      by (intro iffI month_index_inject [OF _ m y(3)]) simp_all
    finally show ?thesis .
  qed
  then show ?thesis using y(1-3) by blast
qed

lemma covered_by:
  assumes "books_ok d" "y \<in> set (f_years d)" "Year t = fy_year y"
  obtains p where "p \<in> set (f_periods d)" "covers t p" "fp_year_id p = fy_id y" "fp_number p = Month t"
    "\<And>q. q \<in> set (f_periods d) \<Longrightarrow> covers t q \<Longrightarrow> q = p"
proof -
  have cal: "calendar_ok d" and keys: "keys_ok d" using assms(1) unfolding books_ok_def by blast+
  have "distinct (map fy_id (f_years d))" "distinct (map fy_year (f_years d))" using keys unfolding keys_ok_def by simp_all
  then have year: "z = y" if "z \<in> set (f_years d)" "fy_id z = fy_id y \<or> fy_year z = fy_year y" for z
    using key_unique [of fy_id "f_years d" z y] key_unique [of fy_year "f_years d" z y] that assms(2) by blast
  have m: "Month t \<in> {1..12}" using Month_bounds [of t] by simp
  obtain p where p: "p \<in> set (f_periods d)" "fp_year_id p = fy_id y" "fp_number p = Month t"
    using cal assms(2) m unfolding calendar_ok_def by blast
  have cov: "fp_year_id q = fy_id y \<and> fp_number q = Month t" if q: "q \<in> set (f_periods d)" "covers t q" for q
  proof -
    obtain z where z: "z \<in> set (f_years d)" "fp_year_id q = fy_id z"
        "\<forall>t. covers t q \<longleftrightarrow> Year t = fy_year z \<and> Month t = fp_number q" using covers_month [OF cal q(1)] by blast
    then show ?thesis using q(2) assms(3) year by auto
  qed
  obtain z where z: "z \<in> set (f_years d)" "fp_year_id p = fy_id z"
      "\<forall>t. covers t p \<longleftrightarrow> Year t = fy_year z \<and> Month t = fp_number p" using covers_month [OF cal p(1)] by blast
  have "z = y" by (rule year [OF z(1)]) (simp add: z(2) [symmetric] p(2))
  then have "covers t p" using z(3) p(3) assms(3) by simp
  moreover have "q = p" if "q \<in> set (f_periods d)" "covers t q" for q
  proof -
    have "distinct (map (\<lambda>p. (fp_year_id p, fp_number p)) (f_periods d))" using cal unfolding calendar_ok_def by blast
    then show ?thesis by (rule key_unique [OF _ that(1) p(1)]) (simp add: cov [OF that] p(2,3))
  qed
  ultimately show thesis using that p by blast
qed

lemma not_covered:
  assumes "books_ok d" "Year t \<notin> fy_year ` set (f_years d)" "p \<in> set (f_periods d)"
  shows "\<not> covers t p"
proof -
  have cal: "calendar_ok d" using assms(1) unfolding books_ok_def by blast
  obtain y where "y \<in> set (f_years d)" "\<forall>t. covers t p \<longleftrightarrow> Year t = fy_year y \<and> Month t = fp_number p"
    using covers_month [OF cal assms(3)] by blast
  then show ?thesis using assms(2) by auto
qed

section \<open>Closed periods\<close>

definition closed_period :: "fdb \<Rightarrow> string \<Rightarrow> bool" where
  "closed_period d i \<longleftrightarrow> i \<in> fp_id ` set (f_periods d) \<and> (\<forall>p \<in> set (f_periods d). fp_id p = i \<longrightarrow> fp_status p = FiscalStatusClosed)"

text \<open>
  What a period holds.  Between two moments its entries are the same, one by one, with the same lines, but for the mark of a
  reversal: its status, the entry that reverses it, and the time of that update.
\<close>

definition period_entries :: "fdb \<Rightarrow> string \<Rightarrow> journal_entry list" where
  "period_entries d i = filter (\<lambda>j. je_period j = i) (f_entries d)"

definition but_reversal :: "journal_entry \<Rightarrow> journal_entry \<Rightarrow> bool" where
  "but_reversal j j' \<longleftrightarrow> j' = j \<or> je_status j = JournalStatusPosted \<and>
     (\<exists>r t. j' = j\<lparr>je_status := JournalStatusReversed, je_reversed_by := Some r, je_updated_at := t\<rparr>)"

definition period_kept :: "fdb \<Rightarrow> fdb \<Rightarrow> string \<Rightarrow> bool" where
  "period_kept d d' i \<longleftrightarrow>
     list_all2 (\<lambda>j j'. but_reversal j j' \<and> lines_of d' (je_id j') = lines_of d (je_id j)) (period_entries d i) (period_entries d' i)"

lemma but_reversal_refl [simp]: "but_reversal j j"
  by (simp add: but_reversal_def)

lemma but_reversal_trans: "but_reversal a b \<Longrightarrow> but_reversal b c \<Longrightarrow> but_reversal a c"
  by (auto simp: but_reversal_def)

lemma but_reversal_id [simp]: "but_reversal j j' \<Longrightarrow> je_id j' = je_id j"
  by (auto simp: but_reversal_def)

lemma period_kept_refl: "period_kept d d i"
  by (simp add: period_kept_def list_all2_refl)

lemma period_kept_trans: "period_kept a b i \<Longrightarrow> period_kept b c i \<Longrightarrow> period_kept a c i"
  unfolding period_kept_def by (erule (1) list_all2_trans [rotated 1]) (auto intro: but_reversal_trans)

lemma list_all2_update_where: "(\<And>x. x \<in> set xs \<Longrightarrow> P x (if q x then f x else x)) \<Longrightarrow> list_all2 P xs (update_where q f xs)"
  by (simp add: update_where_def list_all2_conv_all_nth)

lemma filter_update_where: "(\<And>x. p (f x) = p x) \<Longrightarrow> filter p (update_where q f xs) = update_where q f (filter p xs)"
  by (induction xs) (auto simp: update_where_def)

lemma closed_update:
  assumes "closed_period d i" "f_periods d' = update_where P (set_status FiscalStatusClosed a b) (f_periods d)"
  shows "closed_period d' i"
proof -
  have "fp_id ` set (f_periods d') = fp_id ` set (f_periods d)" unfolding assms(2) by (rule image_update_where) (simp add: set_status_def)
  then show ?thesis using assms unfolding closed_period_def by (auto simp: set_update_where set_status_def)
qed

lemma closed_append:
  assumes "closed_period d i" "f_periods d' = f_periods d @ ps" "i \<notin> fp_id ` set ps"
  shows "closed_period d' i"
  using assms unfolding closed_period_def by (auto simp: image_iff)

lemma step_stays_closed:
  assumes "fin_step Q d d'" "\<not> may_set Q FiscalStatusOpen" "closed_period d i"
  shows "closed_period d' i"
  using assms(1)
proof (cases rule: fin_step.cases)
  case (year y ps n)
  have "i \<notin> fp_id ` set ps" using year(6) assms(3) unfolding closed_period_def by blast
  then show ?thesis using year by (intro closed_append [OF assms(3), of d' ps]) simp_all
next
  case (period_status s k a b)
  then show ?thesis using assms(2) by (cases s) (auto intro: closed_update [OF assms(3)])
next
  case (year_status s k a b)
  then show ?thesis using assms(2) by (cases s) (auto intro: closed_update [OF assms(3)])
qed (rule closed_append [OF assms(3), where ps = "[]"]; auto simp: enters_same registers_grow_same elim!: entersE)+

lemma new_entry_period: "new_entry d j rs \<Longrightarrow> closed_period d i \<Longrightarrow> je_period j \<noteq> i"
  unfolding new_entry_def closed_period_def by force

lemma step_period_kept:
  assumes "fin_step Q d d'" "lines_ok d" "keys_ok d" "closed_period d i"
  shows "period_kept d d' i"
proof -
  have lines: "lines_of d' (je_id j) = lines_of d (je_id j)" if "j \<in> set (f_entries d)" for j
    using step_lines_of [OF assms(1,2)] that by blast
  show ?thesis
    using assms(1)
  proof (cases rule: step_entries)
    case same
    then have "period_entries d' i = period_entries d i" by (simp add: period_entries_def)
    then show ?thesis unfolding period_kept_def using lines by (auto simp: period_entries_def intro: list.rel_refl_strong)
  next
    case (posted j rs)
    then have "period_entries d' i = period_entries d i" using new_entry_period [OF posted(1) assms(4)] by (simp add: period_entries_def)
    then show ?thesis unfolding period_kept_def using lines by (auto simp: period_entries_def intro: list.rel_refl_strong)
  next
    case (reversed j0 j rs now)
    let ?mark = "\<lambda>x. x\<lparr>je_status := JournalStatusReversed, je_reversed_by := Some (je_id j), je_updated_at := now\<rparr>"
    have ent: "period_entries d' i = update_where (\<lambda>x. je_id x = je_id j0) ?mark (period_entries d i)"
      unfolding period_entries_def reversed(7)
      by (subst filter_update_where) (use new_entry_period [OF reversed(1) assms(4)] in simp_all)
    have posted: "je_status x = JournalStatusPosted" if "x \<in> set (f_entries d)" "je_id x = je_id j0" for x
      using that reversed(2,3) assms(3) key_unique [of je_id "f_entries d" x j0] unfolding keys_ok_def by metis
    show ?thesis
      unfolding period_kept_def ent
    proof (rule list_all2_update_where)
      fix x assume "x \<in> set (period_entries d i)"
      then have x: "x \<in> set (f_entries d)" by (simp add: period_entries_def)
      have "but_reversal x (?mark x)" if "je_id x = je_id j0" using posted [OF x that] unfolding but_reversal_def by blast
      then show "but_reversal x (if je_id x = je_id j0 then ?mark x else x) \<and>
          lines_of d' (je_id (if je_id x = je_id j0 then ?mark x else x)) = lines_of d (je_id x)"
        using lines [OF x] by (cases "je_id x = je_id j0") (simp_all del: but_reversal_id)
    qed
  qed
qed

lemma steps_frozen:
  assumes "fin_steps Q d d'" "books_ok d" "\<not> may_set Q FiscalStatusOpen" "closed_period d i"
  shows "closed_period d' i \<and> period_kept d d' i"
  using assms(1)
proof (induction rule: rtranclp_induct)
  case (step d1 d2)
  have "lines_ok d1" "keys_ok d1" using ledger.stable [OF assms(2) step.hyps(1)] unfolding books_ok_def by blast+
  then show ?case using step_stays_closed [OF step.hyps(2) assms(3)] step_period_kept [OF step.hyps(2)] step.IH period_kept_trans by blast
qed (use assms(4) period_kept_refl in simp)

section \<open>Manual entries in whole cents\<close>

text \<open>Every amount of the request is a whole number of hundredths: nothing is lost when its lines are stored.\<close>

definition whole_cents :: "CreateJournalEntryRequest \<Rightarrow> bool" where
  "whole_cents r \<longleftrightarrow>
     list_all (\<lambda>l. (\<exists>a. moneyRat (lr_debit l) = Inr (cents a)) \<and> (\<exists>b. moneyRat (lr_credit l) = Inr (cents b))) (jr_lines r)"

lemma numeric_in_stored:
  assumes "env_ok e" "numeric_in b e (cents_text k) = Inr j"
  shows "j = k"
proof -
  have "e_numeric e (cents_text k) = Some (cents k) \<or> e_numeric e (cents_text k) = None"
    using assms(1) plain_cents_text [of k] unfolding env_ok_def by auto
  then show ?thesis using assms(2) by (auto simp: numeric_in_def split: if_splits)
qed

lemma check_line_stored:
  assumes "check_line l = Inr (a, b, m)" "\<exists>a. moneyRat (lr_debit l) = Inr (cents a)" "\<exists>b. moneyRat (lr_credit l) = Inr (cents b)"
    and "fits_line e m q" "env_ok e"
  shows "a = cents (jl_debit q) \<and> b = cents (jl_credit q)"
proof -
  obtain i j where ij: "moneyRat (lr_debit l) = Inr (cents i)" "moneyRat (lr_credit l) = Inr (cents j)" using assms(2,3) by blast
  have m: "a = cents i" "b = cents j" "lp_debit m = cents_text i" "lp_credit m = cents_text j"
    using assms(1) by (auto simp: check_line_def ij split: if_splits)
  have "jl_debit q = i" "jl_credit q = j"
    using assms(4) numeric_in_stored [OF assms(5)] unfolding fits_line_def m(3,4) amountOrZero_cents_text by blast+
  with m show ?thesis by simp
qed

lemma check_lines_stored:
  assumes "check_lines rs td tc ls = Inr (td', tc', ls')" "list_all (\<lambda>l. (\<exists>a. moneyRat (lr_debit l) = Inr (cents a)) \<and> (\<exists>b. moneyRat (lr_credit l) = Inr (cents b))) rs"
    and "env_ok e"
  shows "\<exists>ms. ls' = ls @ ms \<and> (\<forall>qs. list_all2 (fits_line e) ms qs \<longrightarrow>
     td' = td + cents (total_debit qs) \<and> tc' = tc + cents (total_credit qs))"
  using assms(1,2)
proof (induction rs td tc ls rule: check_lines.induct)
  case (1 td tc ls)
  then show ?case by (simp add: total_debit_def total_credit_def cents_simps)
next
  case (2 r rs td tc ls)
  obtain a b l where l: "check_line r = Inr (a, b, l)" "check_lines rs (td + a) (tc + b) (ls @ [l]) = Inr (td', tc', ls')"
    using 2(2) by (auto split: sum.splits)
  obtain ms where ms: "ls' = (ls @ [l]) @ ms"
      "\<And>qs. list_all2 (fits_line e) ms qs \<Longrightarrow> td' = td + a + cents (total_debit qs) \<and> tc' = tc + b + cents (total_credit qs)"
    using "2.IH" [OF l(1) refl refl l(2)] 2(3) by auto
  have "td' = td + cents (total_debit qs) \<and> tc' = tc + cents (total_credit qs)" if qs: "list_all2 (fits_line e) (l # ms) qs" for qs
  proof -
    obtain q ps where q: "qs = q # ps" "fits_line e l q" "list_all2 (fits_line e) ms ps" using qs by (auto simp: list_all2_Cons1)
    show ?thesis
      using ms(2) [OF q(3)] check_line_stored [OF l(1) _ _ q(2) assms(3)] 2(3) q(1)
      by (simp add: total_debit_def total_credit_def cents_simps)
  qed
  then show ?case using ms(1) by (intro exI [of _ "l # ms"]) simp
qed

lemma whole_cents_balanced:
  assumes "whole_cents r" "\<And>rs. balanced rs \<Longrightarrow> may_enter Q rs"
  shows "accepts Q r"
  unfolding accepts_def
proof (intro allI impI)
  fix e a ls rs
  assume e: "fin_env_ok e" and l: "check_lines (jr_lines r) 0 0 [] = Inr (a, a, ls)" and f: "list_all2 (fits_line e) ls rs"
  have "a = cents (total_debit rs)" "a = cents (total_credit rs)"
    using check_lines_stored [OF l _ fin_env_okD(1) [OF e]] assms(1) f unfolding whole_cents_def by auto
  then have "balanced rs" unfolding balanced_def by (metis cents_le(3))
  then show "may_enter Q rs" by (rule assms(2))
qed

lemma steps_balanced:
  assumes "fin_steps Q d d'" "books_ok d" "entries_balanced True d" "\<And>rs. may_enter Q rs \<Longrightarrow> balanced rs"
  shows "entries_balanced True d'"
  using assms(1)
proof (induction rule: rtranclp_induct)
  case (step d1 d2)
  have "books_ok d1" using ledger.stable [OF assms(2) step.hyps(1)] .
  then show ?case using step_balanced [OF step.hyps(2) _ _ step.IH assms(4)] unfolding books_ok_def by blast
qed (use assms(3) in simp)

end
