(* ===== verification/FinExample.thy ===== *)
theory FinExample
  imports Example FinLaws
begin

text \<open>
  A concrete environment and ledger for the finance module, on which its properties are applied: the
  year 2025 with January closed, a capital entry, an invoice to a customer half collected, and a
  machine with two months of depreciation to post.
\<close>

section \<open>Identifiers and environment\<close>

definition uid :: "int \<Rightarrow> string" where
  "uid k = ''00000000-0000-0000-0000-'' @ dec_pad 12 k"

lemma uid_inject [simp]: "0 \<le> a \<Longrightarrow> 0 \<le> b \<Longrightarrow> uid a = uid b \<longleftrightarrow> a = b"
  using dec_pad_inject [of a b 12] by (auto simp: uid_def)

lemma length_dec_pad: "0 \<le> k \<Longrightarrow> k < 10 ^ w \<Longrightarrow> 0 < w \<Longrightarrow> length (dec_pad w k) = w"
  using length_dec_nat [of "nat k" w] by (simp add: dec_pad_def length_zero_pad nat_less_iff)

lemma canonical_uid:
  assumes "0 \<le> k" "k < 10 ^ 12"
  shows "canonical_uuid (uid k)"
proof -
  have "\<forall>c \<in> set (dec_pad 12 k). is_digit c" using assms(1) zero_pad_digits [OF dec_nat_digits] by (simp add: dec_pad_def)
  then have h: "list_all hex_char (dec_pad 12 k)" by (auto simp: list_all_iff hex_char_def)
  have z: "list_all hex_char ''00000000''" "list_all hex_char ''0000''" by (simp_all add: hex_char_def is_digit_def)
  have l: "length (dec_pad 12 k) = 12" using assms by (simp add: length_dec_pad)
  have "uid k = ''00000000'' @ ''-'' @ ''0000'' @ ''-'' @ ''0000'' @ ''-'' @ ''0000'' @ ''-'' @ dec_pad 12 k" by (simp add: uid_def)
  moreover have "list_all hex_char (''00000000'' @ ''0000'' @ ''0000'' @ ''0000'' @ dec_pad 12 k)"
    unfolding list_all_append using h z by blast
  ultimately show ?thesis
    unfolding canonical_uuid_def
    by (intro exI [of _ "''00000000''"] exI [of _ "''0000''"] exI [of _ "dec_pad 12 k"] conjI) (simp_all add: l)
qed

definition fin_example_env :: env where
  "fin_example_env = example_env\<lparr>e_uuid := (\<lambda>n. uid (int n mod 10 ^ 12))\<rparr>"

lemma fin_example_env_ok: "fin_env_ok fin_example_env"
  using example_env_ok
  by (auto simp: fin_env_ok_def fin_example_env_def env_ok_def example_env_def intro!: canonical_uid)

lemma fin_example_env_fields [simp]:
  "e_uuid_in fin_example_env = Some" "e_fault fin_example_env = (\<lambda>_. NoFault)" "e_users fin_example_env = (\<lambda>_. True)"
  "e_numeric fin_example_env = SetString" "e_uuid fin_example_env = (\<lambda>n. uid (int n mod 10 ^ 12))"
  by (simp_all add: fin_example_env_def example_env_def)

section \<open>Tables\<close>

text \<open>Accounts: cash, receivables, capital, revenue, machines, their accumulated depreciation and its expense.\<close>

definition example_gl :: "int \<Rightarrow> string \<Rightarrow> string \<Rightarrow> string \<Rightarrow> gl_account" where
  "example_gl k code nm side =
     \<lparr>gl_id = uid k, gl_code = code, gl_name = nm, gl_category = Some (uid k), gl_parent = None, gl_header = False,
      gl_normal = side, gl_active = True, gl_opening = 0, gl_opening_date = None, gl_description = [],
      gl_created_at = 0, gl_updated_at = 0, gl_deleted_at = None\<rparr>"

definition example_accounts :: "gl_account list" where
  "example_accounts =
     [example_gl 1 ''111'' ''Kas'' ''debit'', example_gl 2 ''112'' ''Piutang'' ''debit'', example_gl 3 ''311'' ''Modal'' ''credit'',
      example_gl 4 ''411'' ''Pendapatan'' ''credit'', example_gl 5 ''121'' ''Mesin'' ''debit'',
      example_gl 6 ''122'' ''Akumulasi'' ''credit'', example_gl 7 ''511'' ''Beban'' ''debit'']"

definition example_period :: "int \<Rightarrow> FiscalPeriod" where
  "example_period n =
     \<lparr>fp_id = uid (20 + n), fp_year_id = uid 10, fp_number = n, fp_start = period_start 2025 n, fp_end = period_end 2025 n,
      fp_status = (if n = 1 then FiscalStatusClosed else FiscalStatusOpen), fp_closed_at = None, fp_closed_by = None\<rparr>"

definition example_year :: FiscalYear where
  "example_year =
     \<lparr>fy_id = uid 10, fy_year = 2025, fy_start = Date 2025 1 1, fy_end = Date 2025 12 31, fy_status = FiscalStatusOpen,
      fy_closed_at = None, fy_closed_by = None\<rparr>"

definition example_entry :: "int \<Rightarrow> date \<Rightarrow> JournalSourceType \<Rightarrow> journal_entry" where
  "example_entry k t source =
     \<lparr>je_id = uid (40 + k), je_number = entry_number 2025 (nat k), je_date = t, je_period = uid (20 + Month t), je_source = source,
      je_source_id = None, je_reference = [], je_description = ''x'', je_status = JournalStatusPosted, je_posted_at = Some 0,
      je_reversed_by = None, je_created_by = None, je_created_at = 0, je_updated_at = 0\<rparr>"

definition example_line :: "int \<Rightarrow> int \<Rightarrow> int \<Rightarrow> int \<Rightarrow> int \<Rightarrow> journal_line" where
  "example_line k n account debit credit =
     \<lparr>jl_id = uid (60 + 2 * k + n), jl_entry = uid (40 + k), jl_number = n, jl_account = uid account, jl_debit = debit,
      jl_credit = credit, jl_description = [], jl_subledger = SubledgerNone, jl_subledger_id = None, jl_created_at = 0\<rparr>"

text \<open>15 January, 1, 10 and 5 February 2025.\<close>

definition example_entries :: "journal_entry list" where
  "example_entries =
     [example_entry 1 20103 JournalSourceManual, example_entry 2 20120 JournalSourceAR, example_entry 3 20129 JournalSourceAR,
      example_entry 4 20124 JournalSourceManual]"

definition example_lines :: "journal_line list" where
  "example_lines =
     [example_line 1 1 1 50000000 0, example_line 1 2 3 0 50000000, example_line 2 1 2 1000000 0, example_line 2 2 4 0 1000000,
      example_line 3 1 1 400000 0, example_line 3 2 2 0 400000, example_line 4 1 5 2000000 0, example_line 4 2 1 0 2000000]"

definition example_partner :: business_partner where
  "example_partner =
     \<lparr>bp_id = uid 101, bp_type = PartnerTypeCustomer, bp_code = ''C1'', bp_name = ''Budi'', bp_tax_id = [], bp_address = [],
      bp_control = uid 2, bp_active = True, bp_created_at = 0, bp_updated_at = 0, bp_deleted_at = None\<rparr>"

definition example_bill :: arap_transaction where
  "example_bill =
     \<lparr>ap_id = uid 102, ap_partner = uid 101, ap_type = ARAPTransactionTypeReceivable, ap_date = 20120, ap_due = 20150,
      ap_reference = [], ap_amount = 1000000, ap_contra = uid 4, ap_description = [], ap_status = ARAPStatusPartiallyPaid,
      ap_entry = uid 42, ap_created_by = None, ap_created_at = 0, ap_updated_at = 0\<rparr>"

definition example_collected :: arap_payment where
  "example_collected =
     \<lparr>ay_id = uid 103, ay_partner = uid 101, ay_date = 20129, ay_amount = 400000, ay_cash = uid 104, ay_entry = uid 43,
      ay_notes = [], ay_created_by = None, ay_created_at = 0\<rparr>"

definition example_cash :: cash_account where
  "example_cash =
     \<lparr>cb_id = uid 104, cb_account = uid 1, cb_type = CashBankAccountTypeCash, cb_bank_name = [], cb_number = [], cb_holder = [],
      cb_currency = ''IDR'', cb_active = True, cb_created_at = 0, cb_updated_at = 0\<rparr>"

definition example_category :: asset_category where
  "example_category =
     \<lparr>fc_id = uid 105, fc_code = ''M'', fc_name = ''Mesin'', fc_asset = uid 5, fc_accumulated = uid 6, fc_expense = uid 7,
      fc_life = Some 2, fc_active = True\<rparr>"

definition example_machine :: fixed_asset where
  "example_machine =
     \<lparr>fa_id = uid 106, fa_category = uid 105, fa_code = ''M1'', fa_name = ''Bubut'', fa_date = 20124, fa_cost = 2000000, fa_salvage = 0,
      fa_life = 2, fa_description = [], fa_contra = uid 1, fa_entry = uid 44, fa_status = AssetStatusActive, fa_created_by = None\<rparr>"

definition example_schedule :: "int \<Rightarrow> date \<Rightarrow> depreciation_row" where
  "example_schedule n t =
     \<lparr>dp_id = uid (106 + n), dp_asset = uid 106, dp_number = n, dp_date = t, dp_amount = 1000000, dp_status = DepreciationStatusPending,
      dp_entry = None, dp_posted_at = None\<rparr>"

definition fin_example_db :: fdb where
  "fin_example_db =
     \<lparr>f_types = [], f_categories = [], f_accounts = example_accounts, f_years = [example_year],
      f_periods = map example_period [1..12], f_entries = example_entries, f_lines = example_lines,
      f_cash_accounts = [example_cash], f_cash_transactions = [], f_reconciliations = [], f_partners = [example_partner],
      f_transactions = [example_bill], f_payments = [example_collected],
      f_allocations = [\<lparr>al_id = uid 109, al_payment = uid 103, al_transaction = uid 102, al_amount = 400000\<rparr>],
      f_asset_categories = [example_category], f_assets = [example_machine],
      f_schedules = [example_schedule 1 20152, example_schedule 2 20183], f_tax_types = [], f_tax_rates = [],
      f_tax_transactions = [], f_next = 1000\<rparr>"

definition fin_example_world :: fworld where
  "fin_example_world = \<lparr>fw_db = fin_example_db, fw_seq = 4, fw_tick = 0\<rparr>"

lemmas fin_example_defs = example_accounts_def example_gl_def example_year_def example_entries_def example_entry_def
  example_lines_def example_line_def example_partner_def example_bill_def example_collected_def example_cash_def
  example_category_def example_machine_def example_schedule_def fin_example_db_def

section \<open>The books of the example\<close>

lemma upto_12: "[1..12] = [1, 2, 3, 4, 5, 6, 7, 8, 9, 10, 11, 12 :: int]"
  by (simp add: upto_rec1)

lemma set_upto_12: "{1..12 :: int} = {1, 2, 3, 4, 5, 6, 7, 8, 9, 10, 11, 12}"
  using arg_cong [OF upto_12, of set] by (simp only: set_upto list.set)

lemma fin_example_tables [simp]:
  "f_accounts fin_example_db = example_accounts" "f_years fin_example_db = [example_year]"
  "f_periods fin_example_db = map example_period [1..12]" "f_entries fin_example_db = example_entries"
  "f_lines fin_example_db = example_lines" "f_cash_accounts fin_example_db = [example_cash]"
  "f_cash_transactions fin_example_db = []" "f_partners fin_example_db = [example_partner]"
  "f_transactions fin_example_db = [example_bill]" "f_payments fin_example_db = [example_collected]"
  "f_allocations fin_example_db = [\<lparr>al_id = uid 109, al_payment = uid 103, al_transaction = uid 102, al_amount = 400000\<rparr>]"
  "f_asset_categories fin_example_db = [example_category]" "f_assets fin_example_db = [example_machine]"
  "f_schedules fin_example_db = [example_schedule 1 20152, example_schedule 2 20183]" "f_tax_transactions fin_example_db = []"
  "f_next fin_example_db = 1000"
  by (simp_all add: fin_example_db_def)

lemma example_rows [simp]:
  "gl_id (example_gl k code nm side) = uid k" "gl_code (example_gl k code nm side) = code" "gl_normal (example_gl k code nm side) = side"
  "gl_deleted_at (example_gl k code nm side) = None" "gl_header (example_gl k code nm side) = False"
  "gl_opening (example_gl k code nm side) = 0" "gl_opening_date (example_gl k code nm side) = None" "gl_name (example_gl k code nm side) = nm"
  "fp_id (example_period n) = uid (20 + n)" "fp_year_id (example_period n) = uid 10" "fp_number (example_period n) = n"
  "fp_start (example_period n) = period_start 2025 n" "fp_end (example_period n) = period_end 2025 n"
  "fp_status (example_period n) = (if n = 1 then FiscalStatusClosed else FiscalStatusOpen)"
  "fy_id example_year = uid 10" "fy_year example_year = 2025" "fy_start example_year = Date 2025 1 1" "fy_end example_year = Date 2025 12 31"
  "je_id (example_entry k t source) = uid (40 + k)" "je_number (example_entry k t source) = entry_number 2025 (nat k)"
  "je_date (example_entry k t source) = t" "je_period (example_entry k t source) = uid (20 + Month t)"
  "je_source (example_entry k t source) = source" "je_status (example_entry k t source) = JournalStatusPosted"
  "je_reversed_by (example_entry k t source) = None"
  "jl_entry (example_line k n a x y) = uid (40 + k)" "jl_number (example_line k n a x y) = n" "jl_account (example_line k n a x y) = uid a"
  "jl_debit (example_line k n a x y) = x" "jl_credit (example_line k n a x y) = y"
  by (simp_all add: example_gl_def example_period_def example_year_def example_entry_def example_line_def)

lemma example_months: "month_of 20103 = 24300" "month_of 20120 = 24301" "month_of 20129 = 24301" "month_of 20124 = 24301"
  "month_of 20152 = 24302" "month_of 20183 = 24303"
  by (rule month_of_unique; simp add: month_start_def year_start_def Let_def)+

lemma example_dates [simp]:
  "Month 20103 = 1" "Month 20120 = 2" "Month 20129 = 2" "Month 20124 = 2" "Month 20152 = 3" "Month 20183 = 4"
  "Year 20103 = 2025" "Year 20120 = 2025" "Year 20129 = 2025" "Year 20124 = 2025" "Year 20152 = 2025" "Year 20183 = 2025"
  by (simp_all add: Month_def Year_def example_months)

lemma example_numbers [simp]: "entry_number 2025 a = entry_number 2025 b \<longleftrightarrow> a = b"
  using dec_pad_inject [of "int a" "int b" 6] by (auto simp: entry_number_def)

lemma example_keys: "keys_ok fin_example_db"
  by (simp add: keys_ok_def example_accounts_def example_entries_def example_lines_def upto_12 example_bill_def example_collected_def
      example_machine_def example_schedule_def example_partner_def example_cash_def)

lemma example_lines_ok: "lines_ok fin_example_db"
  by (simp add: lines_ok_def line_ok_def example_lines_def example_entries_def example_accounts_def)

lemma example_calendar_ok: "calendar_ok fin_example_db"
  unfolding calendar_ok_def set_upto_12 by (simp add: upto_12)

lemma example_covers: "n \<in> {1..12} \<Longrightarrow> covers t (example_period n) \<longleftrightarrow> Year t = 2025 \<and> Month t = n"
  using covers_month [OF example_calendar_ok, of "example_period n"] by simp

lemma example_entries_ok: "entries_ok fin_example_db"
  unfolding entries_ok_def entry_state_def by (simp add: example_entries_def upto_12 example_covers)

lemma example_lines_of:
  "lines_of fin_example_db (uid 41) = [example_line 1 1 1 50000000 0, example_line 1 2 3 0 50000000]"
  "lines_of fin_example_db (uid 42) = [example_line 2 1 2 1000000 0, example_line 2 2 4 0 1000000]"
  "lines_of fin_example_db (uid 43) = [example_line 3 1 1 400000 0, example_line 3 2 2 0 400000]"
  "lines_of fin_example_db (uid 44) = [example_line 4 1 5 2000000 0, example_line 4 2 1 0 2000000]"
  by (simp_all add: lines_of_def example_lines_def)

lemma example_balanced: "entries_balanced M fin_example_db"
  by (simp add: entries_balanced_def example_entries_def example_lines_of balanced_def total_debit_def total_credit_def)

lemma example_documents_ok: "documents_ok fin_example_db"
  by (simp add: documents_ok_def transaction_ok_def payment_ok_def asset_ok_def schedule_ok_def booked_def double_entry_def
      example_bill_def example_collected_def example_machine_def example_schedule_def example_lines_of arapJournalSourceType_def
      example_entries_def canonical_uid exI [of _ ARAPTransactionTypeReceivable])

lemma example_arap_ok: "arap_ok fin_example_db"
  by (simp add: arap_ok_def paid_ok_def allocation_ok_def allocated_def allocations_of_def status_after_def partner_kind_def
      example_bill_def example_collected_def example_partner_def)

lemma fin_example_books: "books_ok fin_example_db"
  unfolding books_ok_def
  using example_keys example_lines_ok example_entries_ok example_calendar_ok example_balanced example_documents_ok example_arap_ok by blast

end
