(* ===== verification/Finance.thy ===== *)
theory Finance
  imports FinExample
begin

text \<open>
  The properties of the finance module as a whole, over any sequence of its writing calls with any
  clock, requests and database faults; each is applied to the example ledger.
\<close>

section \<open>The example run\<close>

definition fin_example_run :: "(env \<times> finance_call) list" where
  "fin_example_run = [(fin_example_env, ClosePeriod (uid 22) [])]"

lemma fin_example_run_ok: "\<forall>(e, c) \<in> set fin_example_run. fin_env_ok e"
  by (simp add: fin_example_run_def fin_example_env_ok)

definition closed_february :: fdb where
  "closed_february = fin_example_db\<lparr>f_periods := update_where (\<lambda>p. fp_id p = uid 22)
     (\<lambda>p. p\<lparr>fp_status := FiscalStatusClosed, fp_closed_at := Some (e_now fin_example_env), fp_closed_by := None\<rparr>)
     (map example_period [1..12])\<rparr>"

lemma fin_example_run_db: "fw_db (run_finance fin_example_run fin_example_world) = closed_february"
proof -
  have f: "query_row (\<lambda>p. fp_id p = uid 22) (map example_period [1..12]) = Inr (example_period 2)"
    by (simp add: upto_12 query_row_def)
  have "\<exists>p. Fiscal_SetPeriodStatus (uid 22) FiscalStatusClosed None fin_example_env fin_example_db = (Inr p, closed_february)"
    by (simp add: Fiscal_SetPeriodStatus_def closing_def uuid_arg_def uuid_null_def user_ref_def nullableUUID_def comp_defs f
        closed_february_def)
  then show ?thesis
    by (auto simp: fin_example_run_def FiscalService_ClosePeriod_def fin_tx_def Let_def trimmedOrNil_def comp_defs fin_example_world_def)
qed

lemma mirrored_nets:
  assumes "list_all2 mirrored (sort_key jl_number ls) rs"
  shows "(\<Sum>l \<leftarrow> filter (\<lambda>l. jl_account l = a) rs. jl_debit l - jl_credit l) =
    - (\<Sum>l \<leftarrow> filter (\<lambda>l. jl_account l = a) ls. jl_debit l - jl_credit l)"
proof -
  have "(\<Sum>l \<leftarrow> filter (\<lambda>l. jl_account l = a) rs. jl_debit l - jl_credit l) =
      - (\<Sum>l \<leftarrow> filter (\<lambda>l. jl_account l = a) ls. jl_debit l - jl_credit l)" if "list_all2 mirrored ls rs" for ls rs
    using that by (induction rule: list_all2_induct) (auto simp: mirrored_def)
  from this [OF assms] show ?thesis by (simp add: filter_sort sum_sort_key)
qed

section \<open>The properties\<close>

text \<open>
  C9. After any sequence of calls the books are in order: every cash transaction, invoice, collected or paid amount,
  asset, posted depreciation and tax transaction is booked by an entry of two opposite lines of exactly its amount,
  and every entry but the manual ones balances.
\<close>

theorem documents_booked:
  assumes "books_ok (fw_db w)" "\<forall>(e, c) \<in> set cs. fin_env_ok e"
  defines "d \<equiv> fw_db (run_finance cs w)"
  shows "books_ok d \<and>
    (\<forall>x \<in> set (f_cash_transactions d). double_entry (cx_amount x) (lines_of d (cx_entry x))) \<and>
    (\<forall>t \<in> set (f_transactions d). double_entry (ap_amount t) (lines_of d (ap_entry t))) \<and>
    (\<forall>y \<in> set (f_payments d). double_entry (ay_amount y) (lines_of d (ay_entry y))) \<and>
    (\<forall>a \<in> set (f_assets d). double_entry (fa_cost a) (lines_of d (fa_entry a))) \<and>
    (\<forall>s \<in> set (f_schedules d). \<forall>i. dp_entry s = Some i \<longrightarrow> double_entry (dp_amount s) (lines_of d i)) \<and>
    (\<forall>t \<in> set (f_tax_transactions d). double_entry (tx_amount t) (lines_of d (tx_entry t))) \<and>
    (\<forall>j \<in> set (f_entries d). je_source j \<noteq> JournalSourceManual \<longrightarrow>
       total_debit (lines_of d (je_id j)) = total_credit (lines_of d (je_id j)))"
proof -
  have ok: "books_ok d" using run_finance_books(1) [OF assms(1,2)] unfolding d_def .
  then have "documents_ok d" "entries_balanced False d" unfolding books_ok_def by blast+
  then show ?thesis
    using ok unfolding documents_ok_def entries_balanced_def balanced_def cash_ok_def transaction_ok_def payment_ok_def asset_ok_def
      tax_ok_def schedule_ok_def booked_def by auto
qed

lemma documents_booked_witness:
  "double_entry 1000000 (lines_of closed_february (uid 42)) \<and> books_ok closed_february"
  using documents_booked [OF _ fin_example_run_ok, of fin_example_world]
  unfolding fin_example_run_db by (simp add: fin_example_world_def fin_example_books) (simp add: closed_february_def example_bill_def)

text \<open>
  C12. When every amount of the manual entries is a whole number of hundredths, every entry of the ledger balances, after any
  sequence of calls.
\<close>

theorem whole_cent_entries_balance:
  assumes "books_ok (fw_db w)" "entries_balanced True (fw_db w)"
    and "\<forall>(e, c) \<in> set cs. fin_env_ok e \<and> (\<forall>r actor. c = NewEntry r actor \<longrightarrow> whole_cents r)"
    and "j \<in> set (f_entries (fw_db (run_finance cs w)))"
  shows "total_debit (lines_of (fw_db (run_finance cs w)) (je_id j)) = total_credit (lines_of (fw_db (run_finance cs w)) (je_id j))"
proof -
  define Q where "Q = \<lparr>may_enter = balanced, may_set = (\<lambda>_. True)\<rparr>"
  have "accepts_call Q c" if "\<forall>r actor. c = NewEntry r actor \<longrightarrow> whole_cents r" for c
    using that by (cases c) (auto simp: accepts_call_def Q_def intro: whole_cents_balanced)
  then have "fin_steps Q (fw_db w) (fw_db (run_finance cs w))" using assms(3) by (intro run_finance_steps [OF assms(1)]) auto
  then have "entries_balanced True (fw_db (run_finance cs w))" by (rule steps_balanced [OF _ assms(1,2)]) (simp add: Q_def)
  then show ?thesis using assms(4) unfolding entries_balanced_def balanced_def by blast
qed

lemma whole_cent_entries_balance_witness:
  "total_debit (lines_of closed_february (uid 41)) = total_credit (lines_of closed_february (uid 41))"
  using whole_cent_entries_balance [of fin_example_world fin_example_run "example_entry 1 20103 JournalSourceManual"]
  unfolding fin_example_run_db
  by (simp add: fin_example_world_def fin_example_books example_balanced fin_example_run_def fin_example_env_ok)
     (simp add: closed_february_def example_entries_def)

text \<open>
  C10. After any sequence of calls no customer has paid more than was invoiced and no vendor was paid more than was billed: the
  allocations of a transaction add up to at most its amount, its status says how far it is settled, and its partner
  is a customer for a receivable and a vendor for a payable.
\<close>

theorem never_overpaid:
  assumes "books_ok (fw_db w)" "\<forall>(e, c) \<in> set cs. fin_env_ok e"
  defines "d \<equiv> fw_db (run_finance cs w)"
  assumes "t \<in> set (f_transactions d)"
  shows "(\<Sum>a \<leftarrow> filter (\<lambda>a. al_transaction a = ap_id t) (f_allocations d). al_amount a) \<le> ap_amount t \<and>
    ap_status t =
      (if ap_amount t \<le> allocated d (ap_id t) then ARAPStatusPaid
       else if 0 < allocated d (ap_id t) then ARAPStatusPartiallyPaid else ARAPStatusOpen) \<and>
    (\<exists>b \<in> set (f_partners d). bp_id b = ap_partner t \<and>
       bp_type b = (if ap_type t = ARAPTransactionTypeReceivable then PartnerTypeCustomer else PartnerTypeVendor))"
proof -
  have "paid_ok d t" using run_finance_books(1) [OF assms(1,2)] assms(4) unfolding d_def books_ok_def arap_ok_def by blast
  then show ?thesis unfolding paid_ok_def status_after_def partner_kind_def allocated_def allocations_of_def by simp
qed

lemma never_overpaid_witness: "ap_status example_bill = ARAPStatusPartiallyPaid \<and> allocated closed_february (uid 102) \<le> 1000000"
  using never_overpaid [OF _ fin_example_run_ok, of fin_example_world example_bill]
  unfolding fin_example_run_db
  by (simp add: fin_example_world_def fin_example_books)
     (simp add: closed_february_def example_bill_def allocated_def allocations_of_def)

text \<open>
  C11. A closed period is frozen but for the mark of a reversal: as long as no period or year is reopened it stays closed, no entry is
  added to it, moved or dropped, the lines of its entries do not change, and each entry keeps every column,
  unless it was posted and is now marked as reversed, with the reversing entry and the time of the update.
\<close>

theorem closed_period_frozen:
  assumes "books_ok (fw_db w)" "closed_period (fw_db w) i"
    and "\<forall>(e, c) \<in> set cs. fin_env_ok e \<and> (\<forall>x actor. c \<noteq> ReopenPeriod x actor \<and> c \<noteq> ReopenYear x actor)"
  shows "closed_period (fw_db (run_finance cs w)) i \<and>
    list_all2 (\<lambda>j j'. lines_of (fw_db (run_finance cs w)) (je_id j') = lines_of (fw_db w) (je_id j) \<and>
        (j' = j \<or> je_status j = JournalStatusPosted \<and>
          (\<exists>r t. j' = j\<lparr>je_status := JournalStatusReversed, je_reversed_by := Some r, je_updated_at := t\<rparr>)))
      (period_entries (fw_db w) i) (period_entries (fw_db (run_finance cs w)) i)"
proof -
  define Q where "Q = \<lparr>may_enter = (\<lambda>_. True), may_set = (\<lambda>s. s = FiscalStatusClosed)\<rparr>"
  have "accepts_call Q c" if "\<forall>x actor. c \<noteq> ReopenPeriod x actor \<and> c \<noteq> ReopenYear x actor" for c
    using that by (cases c) (auto simp: accepts_call_def accepts_def Q_def)
  then have "fin_steps Q (fw_db w) (fw_db (run_finance cs w))" using assms(3) by (intro run_finance_steps [OF assms(1)]) auto
  then have "closed_period (fw_db (run_finance cs w)) i \<and> period_kept (fw_db w) (fw_db (run_finance cs w)) i"
    by (rule steps_frozen [OF _ assms(1) _ assms(2)]) (simp add: Q_def)
  then show ?thesis unfolding period_kept_def but_reversal_def by (simp add: conj_commute)
qed

lemma closed_period_frozen_witness:
  "closed_period closed_february (uid 21) \<and>
   (\<exists>j. period_entries closed_february (uid 21) = [j] \<and> je_number j = je_number (example_entry 1 20103 JournalSourceManual))"
proof -
  have "closed_period fin_example_db (uid 21)" by (simp add: closed_period_def upto_12)
  moreover have "period_entries fin_example_db (uid 21) = [example_entry 1 20103 JournalSourceManual]"
    by (simp add: period_entries_def example_entries_def)
  ultimately show ?thesis
    using closed_period_frozen [of fin_example_world "uid 21" fin_example_run]
    unfolding fin_example_run_db
    by (auto simp: fin_example_world_def fin_example_books fin_example_run_def fin_example_env_ok list_all2_Cons1)
qed

text \<open>
  C14. The periods of the fiscal calendar never overlap and leave no gap: after any sequence of calls the period of a day
  is found exactly when its year was opened, it is the period of the day's month, and no other period covers the day.
\<close>

theorem period_of_a_day:
  assumes "books_ok (fw_db w)" "\<forall>(e, c) \<in> set cs. fin_env_ok e"
  defines "d \<equiv> fw_db (run_finance cs w)"
  shows "if Year t \<in> fy_year ` set (f_years d)
    then \<exists>p. Fiscal_FindPeriodByDate t e d = (Inr p, d) \<and> fp_number p = Month t \<and> {q \<in> set (f_periods d). covers t q} = {p}
    else Fiscal_FindPeriodByDate t e d = (Inl NoRows, d) \<and> {q \<in> set (f_periods d). covers t q} = {}"
proof -
  have ok: "books_ok d" using run_finance_books(1) [OF assms(1,2)] unfolding d_def .
  show ?thesis
  proof (cases "Year t \<in> fy_year ` set (f_years d)")
    case True
    then obtain y where y: "y \<in> set (f_years d)" "Year t = fy_year y" by auto
    obtain p where p: "p \<in> set (f_periods d)" "covers t p" "fp_year_id p = fy_id y" "fp_number p = Month t"
        "\<And>q. q \<in> set (f_periods d) \<Longrightarrow> covers t q \<Longrightarrow> q = p"
      using covered_by [OF ok y] by blast
    obtain q where q: "query_row (covers t) (f_periods d) = Inr q"
      using p(1,2) query_row_Inl [of "covers t" "f_periods d"] by (cases "query_row (covers t) (f_periods d)") auto
    then have "q = p" using p(5) query_row_Inr [OF q] by blast
    moreover have "{q \<in> set (f_periods d). covers t q} = {p}" using p(1,2,5) by blast
    ultimately show ?thesis
      using True p(4) q by (simp add: Fiscal_FindPeriodByDate_def comp_defs)
  next
    case False
    then have "query_row (covers t) (f_periods d) = Inl NoRows" using not_covered [OF ok False] by (simp add: query_row_Inl)
    then show ?thesis using False not_covered [OF ok False] by (auto simp: Fiscal_FindPeriodByDate_def comp_defs)
  qed
qed

lemma period_of_a_day_witness:
  "\<exists>p. Fiscal_FindPeriodByDate 20129 fin_example_env closed_february = (Inr p, closed_february) \<and> fp_number p = 2"
  using period_of_a_day [OF _ fin_example_run_ok, of fin_example_world 20129 fin_example_env]
  unfolding fin_example_run_db by (auto simp: fin_example_world_def fin_example_books closed_february_def)

text \<open>
  C15. The ledger is well-typed after any sequence of calls: every line has an amount on exactly one side, belongs to an entry
  and to an account, no two lines of an entry share a number, and every entry lies in a period that covers its date.
\<close>

theorem ledger_well_typed:
  assumes "books_ok (fw_db w)" "\<forall>(e, c) \<in> set cs. fin_env_ok e"
  defines "d \<equiv> fw_db (run_finance cs w)"
  shows "(\<forall>l \<in> set (f_lines d). (0 < jl_debit l \<and> jl_credit l = 0 \<or> jl_debit l = 0 \<and> 0 < jl_credit l) \<and>
       jl_entry l \<in> je_id ` set (f_entries d) \<and> jl_account l \<in> gl_id ` set (f_accounts d)) \<and>
    distinct (map (\<lambda>l. (jl_entry l, jl_number l)) (f_lines d)) \<and>
    (\<forall>j \<in> set (f_entries d). \<exists>p \<in> set (f_periods d). fp_id p = je_period j \<and> fp_start p \<le> je_date j \<and> je_date j \<le> fp_end p)"
proof -
  have "lines_ok d" "keys_ok d" "entries_ok d"
    using run_finance_books(1) [OF assms(1,2)] unfolding d_def books_ok_def by blast+
  then show ?thesis unfolding lines_ok_def keys_ok_def entries_ok_def covers_def by (meson line_okE)
qed

lemma ledger_well_typed_witness:
  "distinct (map (\<lambda>l. (jl_entry l, jl_number l)) (f_lines closed_february)) \<and> jl_account (example_line 1 1 1 50000000 0) \<in> gl_id ` set (f_accounts closed_february)"
  using ledger_well_typed [OF _ fin_example_run_ok, of fin_example_world]
  unfolding fin_example_run_db by (simp add: fin_example_world_def fin_example_books) (simp add: closed_february_def example_lines_def)

text \<open>The example with the capital entry of January reversed in February.\<close>

definition reversed_entry :: journal_entry where
  "reversed_entry = (example_entry 1 20103 JournalSourceManual)
     \<lparr>je_status := JournalStatusReversed, je_reversed_by := Some (uid 45), je_updated_at := 1\<rparr>"

definition reversed_db :: fdb where
  "reversed_db = fin_example_db\<lparr>f_entries := reversed_entry # tl example_entries @ [example_entry 5 20129 JournalSourceManual],
     f_lines := example_lines @ [example_line 5 1 1 0 50000000, example_line 5 2 3 50000000 0]\<rparr>"

lemma reversed_books: "books_ok reversed_db"
proof (rule step_books_ok [OF fin_step.reverse fin_example_books])
  let ?j = "example_entry 5 20129 JournalSourceManual" and ?rs = "[example_line 5 1 1 0 50000000, example_line 5 2 3 50000000 0]"
  let ?d1 = "fin_example_db\<lparr>f_entries := example_entries @ [?j], f_lines := example_lines @ ?rs, f_next := f_next fin_example_db\<rparr>"
  show "example_entry 1 20103 JournalSourceManual \<in> set (f_entries fin_example_db)" by (simp add: example_entries_def)
  show "enters fin_example_db ?j ?rs ?d1"
    by (simp add: enters_def example_entries_def line_ok_def example_accounts_def upto_12 example_covers)
  show "list_all2 mirrored (sort_key jl_number (lines_of fin_example_db (je_id (example_entry 1 20103 JournalSourceManual)))) ?rs"
    by (simp add: example_lines_of mirrored_def example_line_def)
  show "reversed_db = ?d1\<lparr>f_entries := update_where (\<lambda>x. je_id x = je_id (example_entry 1 20103 JournalSourceManual))
      (\<lambda>x. x\<lparr>je_status := JournalStatusReversed, je_reversed_by := Some (je_id ?j), je_updated_at := 1\<rparr>) (f_entries ?d1), f_next := 1000\<rparr>"
    by (simp add: reversed_db_def reversed_entry_def example_entries_def update_where_def)
qed simp_all

text \<open>
  C13. A reversal undoes its entry exactly: after any sequence of calls every entry is posted, or reversed and names an entry of the
  same source that, line by line, moves the same accounts by the opposite amounts.
\<close>

theorem reversal_mirrors:
  assumes "books_ok (fw_db w)" "\<forall>(e, c) \<in> set cs. fin_env_ok e"
  defines "d \<equiv> fw_db (run_finance cs w)"
  assumes "j \<in> set (f_entries d)"
  shows "je_status j = JournalStatusPosted \<and> je_reversed_by j = None \<or>
    je_status j = JournalStatusReversed \<and>
      (\<exists>r \<in> set (f_entries d). je_reversed_by j = Some (je_id r) \<and> je_source r = je_source j \<and>
        (\<forall>a. (\<Sum>l \<leftarrow> filter (\<lambda>l. jl_account l = a) (lines_of d (je_id r)). jl_debit l - jl_credit l) =
           - (\<Sum>l \<leftarrow> filter (\<lambda>l. jl_account l = a) (lines_of d (je_id j)). jl_debit l - jl_credit l)))"
proof -
  have "entry_state d j" using run_finance_books(1) [OF assms(1,2)] assms(4) unfolding d_def books_ok_def entries_ok_def by blast
  then show ?thesis unfolding entry_state_def by (blast intro: mirrored_nets)
qed

lemma reversal_mirrors_witness:
  "\<exists>r \<in> set (f_entries reversed_db). je_reversed_by reversed_entry = Some (je_id r) \<and>
     (\<Sum>l \<leftarrow> filter (\<lambda>l. jl_account l = uid 1) (lines_of reversed_db (je_id r)). jl_debit l - jl_credit l) = - 50000000"
proof -
  have l: "(\<Sum>l \<leftarrow> filter (\<lambda>l. jl_account l = uid 1) (lines_of reversed_db (je_id reversed_entry)). jl_debit l - jl_credit l) = 50000000"
    by (simp add: reversed_db_def reversed_entry_def lines_of_def example_lines_def)
  have "reversed_entry \<in> set (f_entries reversed_db)" "je_status reversed_entry \<noteq> JournalStatusPosted"
    by (simp_all add: reversed_db_def reversed_entry_def)
  then obtain r where "r \<in> set (f_entries reversed_db)" "je_reversed_by reversed_entry = Some (je_id r)"
      "(\<Sum>l \<leftarrow> filter (\<lambda>l. jl_account l = uid 1) (lines_of reversed_db (je_id r)). jl_debit l - jl_credit l) =
       - (\<Sum>l \<leftarrow> filter (\<lambda>l. jl_account l = uid 1) (lines_of reversed_db (je_id reversed_entry)). jl_debit l - jl_credit l)"
    using reversal_mirrors [of "fin_example_world\<lparr>fw_db := reversed_db\<rparr>" "[]" reversed_entry] reversed_books by auto
  then show ?thesis unfolding l by blast
qed

end
