(* ===== verification/Numbering.thy ===== *)
theory Numbering
  imports Finance
begin

text \<open>
  The numbers of journal entries.  Every service that posts draws a number from the entry sequence first and gives it to the one entry
  its transaction writes; numbers that were drawn and not used are gaps.  The locale \<open>world_effect\<close> is the composition of
  services for any preorder on worlds; it is interpreted on worlds with the same entries, and on worlds that differ by entries with fresh numbers.
\<close>

section \<open>What a transaction writes into the entries\<close>

definition entry_keys :: "fdb \<Rightarrow> (string \<times> date) list" where
  "entry_keys d = map (\<lambda>j. (je_number j, je_date j)) (f_entries d)"

definition writes :: "(string \<times> date) list \<Rightarrow> 'a ftx \<Rightarrow> bool" where
  "writes ks m \<longleftrightarrow> (\<forall>e d x d'. m e d = (Inr x, d') \<longrightarrow> entry_keys d' = entry_keys d @ ks)"

named_theorems silent \<open>transactions that write no entry\<close>

lemma writes_looks: "looks m \<Longrightarrow> writes [] m"
  by (auto simp: writes_def looks_def)

lemma writes_chain: "writes [] m \<Longrightarrow> (\<And>x. writes ks (k x)) \<Longrightarrow> writes ks (chain m k)"
  unfolding writes_def by (auto simp: chain_def split: prod.splits sum.splits)

lemma writes_then: "writes ks m \<Longrightarrow> (\<And>x. writes [] (k x)) \<Longrightarrow> writes ks (chain m k)"
  unfolding writes_def by (auto simp: chain_def split: prod.splits sum.splits)

lemma writes_get: "(\<And>x. writes ks (k x)) \<Longrightarrow> writes ks (get f k)"
  by (auto simp: writes_def comp_defs)

lemma writes_ask: "(\<And>x. writes ks (k x)) \<Longrightarrow> writes ks (ask f k)"
  by (auto simp: writes_def comp_defs)

lemma writes_raise: "writes ks (raise er)"
  by (simp add: writes_def comp_defs)

lemma writes_cases:
  "writes ks m \<Longrightarrow> writes ks n \<Longrightarrow> writes ks (if b then m else n)"
  "writes ks m \<Longrightarrow> (\<And>x. writes ks (f x)) \<Longrightarrow> writes ks (case v of None \<Rightarrow> m | Some x \<Rightarrow> f x)"
  "(\<And>er. writes ks (h er)) \<Longrightarrow> (\<And>x. writes ks (f x)) \<Longrightarrow> writes ks (case r of Inl er \<Rightarrow> h er | Inr x \<Rightarrow> f x)"
  "(\<And>x y. writes ks (g x y)) \<Longrightarrow> writes ks (case p of (x, y) \<Rightarrow> g x y)"
  by (auto split: option.split sum.split prod.split)

lemma writes_put: "(\<And>d. entry_keys (f d) = entry_keys d) \<Longrightarrow> writes [] (put f)"
  by (auto simp: writes_def comp_defs)

lemma writes_each [silent]: "(\<And>x. writes [] (f x)) \<Longrightarrow> writes [] (each f xs)"
  by (induction xs) (auto intro: writes_chain looks_basic [THEN writes_looks])

lemma writes_fresh_id [silent]: "writes [] (fresh_id f)"
  by (auto simp: writes_def fin_simps entry_keys_def)

lemmas writes_rules = writes_get writes_ask writes_raise writes_cases writes_chain

lemma looks_checks [looking]:
  "looks (uuid_null v)" "looks (money_arg s)" "looks (varchar n s)" "looks (user_ref u)" "looks (account_ref a)" "looks (parent_ref u)"
  "looks (cash_ref u)" "looks (category_ref u)" "looks (tax_type_ref s)" "looks (account_checks b s s2 u)" "looks (guards gs)"
  "looks (cash_gl_account s)" "looks (cash_sides p s)" "looks (open_period t)" "looks (closing st actor)"
  by (auto simp: looks_def fin_simps closing_def cash_sides_reads dest: open_period_Inr split: if_splits)

lemmas writes_checks [silent] = looks_basic [THEN writes_looks] looks_checks [THEN writes_looks]

lemma writes_line [silent]: "writes [] (put_line i n a dr cr t s sid)"
  unfolding put_line_def by (intro writes_rules silent writes_put) (simp add: entry_keys_def)

lemma writes_lines [silent]: "writes [] (insert_lines i n ls)"
  by (induction ls arbitrary: n) (auto simp: insert_line_def intro!: writes_chain silent)

lemma writes_mirror [silent]: "writes [] (mirror_lines i ls)"
  by (induction ls) (auto intro!: writes_chain silent)

lemma writes_insert_entry: "writes [(n, t)] (insert_entry n t p src sid ref desc who)"
  unfolding writes_def
proof (intro allI impI)
  fix e d i d' assume "insert_entry n t p src sid ref desc who e d = (Inr i, d')"
  from insert_entry_Inr [OF this] obtain j where j: "d' = d\<lparr>f_entries := f_entries d @ [j], f_next := f_next d'\<rparr>" "je_number j = n" "je_date j = t"
    by auto
  show "entry_keys d' = entry_keys d @ [(n, t)]" by (subst j(1)) (simp add: entry_keys_def j(2,3))
qed

lemma writes_entered: "(\<And>i. writes [] (k i)) \<Longrightarrow> writes [(n, t)] (chain (insert_entry n t p src sid ref desc who) k)"
  by (rule writes_then [OF writes_insert_entry])

lemma writes_InsertJournalEntryTx: "writes [(ep_number p, ep_date p)] (InsertJournalEntryTx p)"
  unfolding InsertJournalEntryTx_def
  by (intro writes_entered writes_chain silent)

lemma writes_posted:
  assumes "\<And>i. writes [] (k i)" "ep_number p = n" "ep_date p = t"
  shows "writes [(n, t)] (chain (InsertJournalEntryTx p) k)"
  using writes_then [OF writes_InsertJournalEntryTx assms(1), of p] assms(2,3) by simp

lemma writes_rows [silent]:
  "writes [] (insert_cash_row cp i)" "writes [] (insert_arap_row tp i)" "writes [] (insert_tax_row xp i)"
  "writes [] (insert_payment_row yp s i)" "writes [] (insert_allocation s s2 s3)" "writes [] (insert_asset_row ap i)"
  "writes [] (insert_schedule_row s sa)"
  unfolding insert_cash_row_def insert_arap_row_def insert_tax_row_def insert_payment_row_def insert_allocation_def insert_asset_row_def
    insert_schedule_row_def Let_def
  by (intro writes_rules silent writes_put; simp add: entry_keys_def)+

lemma writes_postings:
  "writes [(ctp_number cp, ctp_date cp)] (cash_tx cp)" "writes [(cat_number tp, cat_date tp)] (arap_tx tp)"
  "writes [(pap_number yp, pap_date yp)] (payment_tx yp)" "writes [(fap_number ap, fap_date ap)] (asset_tx ap sch)"
  "writes [(txp_number xp, txp_date xp)] (tax_tx xp)" "writes [(n, pd_date r)] (depreciation_tx r n actor)"
  unfolding cash_tx_def arap_tx_def payment_tx_def asset_tx_def tax_tx_def depreciation_tx_def Let_def
  by (intro writes_posted writes_rules silent writes_put; simp add: entry_keys_def)+

lemma writes_reverse: "writes [(n, t)] (reverse_tx s t n reason actor)"
  unfolding reverse_tx_def
  by (intro writes_entered writes_rules silent writes_put) (simp add: entry_keys_def map_update_where)

lemma writes_registers [silent]:
  "writes [] (GLAccounts_Create ca)" "writes [] (GLAccounts_Update ua)" "writes [] (Fiscal_CreateFiscalYear y)"
  "writes [] (Fiscal_SetPeriodStatus s st actor)" "writes [] (Fiscal_SetFiscalYearStatus s st actor)"
  "writes [] (Cash_Insert ci)" "writes [] (Cash_Edit ce)" "writes [] (Cash_CreateReconciliation cr)"
  "writes [] (Cash_CompleteReconciliation s actor)" "writes [] (insert_partner bp)" "writes [] (edit_partner bu)"
  "writes [] (insert_category fc)" "writes [] (insert_rate tr)"
  unfolding GLAccounts_Create_def GLAccounts_Update_def Fiscal_CreateFiscalYear_def Fiscal_SetPeriodStatus_def Fiscal_SetFiscalYearStatus_def
    Cash_Insert_def Cash_Edit_def Cash_CreateReconciliation_def Cash_CompleteReconciliation_def insert_partner_def edit_partner_def
    insert_category_def insert_rate_def insert_period_def Let_def
  by (intro writes_rules silent writes_put; simp add: entry_keys_def)+

section \<open>What a service does to the numbers\<close>

definition effect_in :: "(fworld \<Rightarrow> fworld \<Rightarrow> bool) \<Rightarrow> 'a fio \<Rightarrow> bool" where
  "effect_in R m \<longleftrightarrow> (\<forall>e w. R w (snd (m e w)))"

definition same_entries :: "fworld \<Rightarrow> fworld \<Rightarrow> bool" where
  "same_entries w w' \<longleftrightarrow> fw_seq w' = fw_seq w \<and> entry_keys (fw_db w') = entry_keys (fw_db w)"

text \<open>Entries added with numbers drawn one after the other, each in the year of its entry.\<close>

definition fresh_numbers :: "fworld \<Rightarrow> fworld \<Rightarrow> bool" where
  "fresh_numbers w w' \<longleftrightarrow> fw_seq w \<le> fw_seq w' \<and>
     (\<exists>kts. sorted_wrt (<) (map fst kts) \<and> set (map fst kts) \<subseteq> {fw_seq w <.. fw_seq w'} \<and>
        entry_keys (fw_db w') = entry_keys (fw_db w) @ map (\<lambda>(k, t). (entry_number (Year t) k, t)) kts)"

locale world_effect =
  fixes R :: "fworld \<Rightarrow> fworld \<Rightarrow> bool"
  assumes same: "same_entries w w' \<Longrightarrow> R w w'"
    and trans: "R a b \<Longrightarrow> R b c \<Longrightarrow> R a c"
begin

lemma basics: "effect_in R (ret x)" "effect_in R (raise er)" "effect_in R (lift r)" "effect_in R (ensure b er)" "effect_in R (require v er)" "effect_in R (guards gs)"
  by (auto simp: effect_in_def comp_defs require_def guards_result intro!: same split: option.split) (auto simp: same_entries_def)

lemma fin_tx: "writes [] body \<Longrightarrow> effect_in R (fin_tx body)"
  unfolding effect_in_def
proof (intro allI)
  fix e w assume body: "writes [] body"
  obtain r w' where rw: "fin_tx body e w = (r, w')" by fastforce
  from rw have "same_entries w w'"
    by (cases rule: fin_tx_cases) (use body in \<open>auto simp: same_entries_def writes_def\<close>)
  then show "R w (snd (fin_tx body e w))" by (simp add: rw same)
qed

lemma attempt: "effect_in R m \<Longrightarrow> (\<And>r. effect_in R (k r)) \<Longrightarrow> effect_in R (attempt m k)"
  unfolding effect_in_def by (auto simp: attempt_def split: prod.split intro: trans) (metis snd_conv trans)

lemma chain: "effect_in R m \<Longrightarrow> (\<And>x. effect_in R (k x)) \<Longrightarrow> effect_in R (chain m k)"
  unfolding effect_in_def by (auto simp: chain_def split: prod.split sum.split intro: trans) (metis snd_conv trans)+

lemma ask: "(\<And>x. effect_in R (k x)) \<Longrightarrow> effect_in R (ask f k)"
  by (auto simp: effect_in_def ask_def)

lemma map_error: "effect_in R m \<Longrightarrow> effect_in R (map_error f m)"
  unfolding map_error_def by (rule attempt) (auto split: sum.split intro: basics)

lemma cases: "effect_in R m \<Longrightarrow> effect_in R n \<Longrightarrow> effect_in R (if b then m else n)"
  "(\<And>x y. effect_in R (f x y)) \<Longrightarrow> effect_in R (case p of (x, y) \<Rightarrow> f x y)"
  "(\<And>x. effect_in R (g x)) \<Longrightarrow> (\<And>y. effect_in R (h y)) \<Longrightarrow> effect_in R (case s of Inl x \<Rightarrow> g x | Inr y \<Rightarrow> h y)"
  by (auto split: prod.split sum.split)

lemmas rules = basics map_error ask cases fin_tx chain

end

interpretation still: world_effect same_entries
  by unfold_locales (simp_all add: same_entries_def)

lemma fresh_numbers_trans:
  assumes "fresh_numbers a b" "fresh_numbers b c"
  shows "fresh_numbers a c"
proof -
  obtain xs ys where "sorted_wrt (<) (map fst xs)" "set (map fst xs) \<subseteq> {fw_seq a <.. fw_seq b}"
      "entry_keys (fw_db b) = entry_keys (fw_db a) @ map (\<lambda>(k, t). (entry_number (Year t) k, t)) xs"
      "sorted_wrt (<) (map fst ys)" "set (map fst ys) \<subseteq> {fw_seq b <.. fw_seq c}"
      "entry_keys (fw_db c) = entry_keys (fw_db b) @ map (\<lambda>(k, t). (entry_number (Year t) k, t)) ys"
      "fw_seq a \<le> fw_seq b" "fw_seq b \<le> fw_seq c"
    using assms unfolding fresh_numbers_def by blast
  then show ?thesis unfolding fresh_numbers_def
    by (intro conjI exI [of _ "xs @ ys"]) (force simp: sorted_wrt_append)+
qed

interpretation numbering: world_effect fresh_numbers
proof
  show "fresh_numbers w w'" if "same_entries w w'" for w w'
    using that unfolding fresh_numbers_def same_entries_def by (intro conjI exI [of _ "[]"]) simp_all
qed (rule fresh_numbers_trans)

text \<open>A computation that uses the number it is given for at most one entry.\<close>

definition spends :: "string \<Rightarrow> date \<Rightarrow> 'a fio \<Rightarrow> bool" where
  "spends n t m \<longleftrightarrow> (\<forall>e w. fw_seq (snd (m e w)) = fw_seq w \<and>
     entry_keys (fw_db (snd (m e w))) \<in> {entry_keys (fw_db w), entry_keys (fw_db w) @ [(n, t)]})"

lemma spends_tx: "writes [(n, t)] body \<Longrightarrow> spends n t (fin_tx body)"
  unfolding spends_def
proof (intro allI)
  fix e w assume body: "writes [(n, t)] body"
  obtain r w' where rw: "fin_tx body e w = (r, w')" by fastforce
  from rw show "fw_seq (snd (fin_tx body e w)) = fw_seq w \<and>
     entry_keys (fw_db (snd (fin_tx body e w))) \<in> {entry_keys (fw_db w), entry_keys (fw_db w) @ [(n, t)]}"
    by (cases rule: fin_tx_cases) (use body rw in \<open>auto simp: writes_def\<close>)
qed

lemma spends_chain:
  assumes "spends n t m" "\<And>x. effect_in same_entries (k x)"
  shows "spends n t (chain m k)"
  unfolding spends_def
proof (intro allI)
  fix e w
  obtain r w1 where m: "m e w = (r, w1)" by fastforce
  have "fw_seq w1 = fw_seq w" "entry_keys (fw_db w1) \<in> {entry_keys (fw_db w), entry_keys (fw_db w) @ [(n, t)]}"
    using assms(1) m unfolding spends_def by (metis snd_conv)+
  moreover have "same_entries w1 (snd (k x e w1))" for x using assms(2) unfolding effect_in_def by blast
  ultimately show "fw_seq (snd (chain m k e w)) = fw_seq w \<and>
     entry_keys (fw_db (snd (chain m k e w))) \<in> {entry_keys (fw_db w), entry_keys (fw_db w) @ [(n, t)]}"
    by (auto simp: chain_def m same_entries_def split: sum.split)
qed

lemma spends_map_error: "spends n t m \<Longrightarrow> spends n t (map_error f m)"
  unfolding spends_def map_error_def by (auto simp: comp_defs split: prod.split sum.split) (metis snd_conv)+

lemma number_spent:
  assumes "\<And>n. spends n t (k n)"
  shows "effect_in fresh_numbers (chain (NextEntryNumber (Year t)) k)"
  unfolding effect_in_def
proof (intro allI)
  fix e :: env and w :: fworld
  let ?w = "w\<lparr>fw_tick := Suc (fw_tick w), fw_seq := Suc (fw_seq w)\<rparr>" and ?n = "entry_number (Year t) (Suc (fw_seq w))"
  have spent: "fresh_numbers w (snd (k ?n e ?w))"
  proof -
    have s: "fw_seq (snd (k ?n e ?w)) = Suc (fw_seq w)"
        "entry_keys (fw_db (snd (k ?n e ?w))) \<in> {entry_keys (fw_db w), entry_keys (fw_db w) @ [(?n, t)]}"
      using assms [of ?n, unfolded spends_def, rule_format, of e ?w] by simp_all
    then show ?thesis
    proof (cases "entry_keys (fw_db (snd (k ?n e ?w))) = entry_keys (fw_db w)")
      case True
      then show ?thesis unfolding fresh_numbers_def using s(1) by (intro conjI exI [of _ "[]"]) simp_all
    next
      case False
      then show ?thesis unfolding fresh_numbers_def using s by (intro conjI exI [of _ "[(Suc (fw_seq w), t)]"]) auto
    qed
  qed
  have drawn: "fresh_numbers w ?w" "fresh_numbers w (w\<lparr>fw_tick := Suc (fw_tick w)\<rparr>)"
    unfolding fresh_numbers_def by (intro conjI exI [of _ "[]"]; simp)+
  show "fresh_numbers w (snd (chain (NextEntryNumber (Year t)) k e w))"
    using spent drawn by (simp add: NextEntryNumber_def Let_def chain_def)
qed

section \<open>The services\<close>

named_theorems numbered_services \<open>services that give fresh numbers\<close>

lemma registers_number [numbered_services]:
  "effect_in fresh_numbers (GLAccountService_Create ca)" "effect_in fresh_numbers (GLAccountService_Update s ua)"
  "effect_in fresh_numbers (FiscalService_CreateFiscalYear y)" "effect_in fresh_numbers (FiscalService_ClosePeriod s actor)"
  "effect_in fresh_numbers (FiscalService_ReopenPeriod s actor)" "effect_in fresh_numbers (FiscalService_CloseFiscalYear s actor)"
  "effect_in fresh_numbers (FiscalService_ReopenFiscalYear s actor)"
  "effect_in fresh_numbers (CashBankService_CreateAccount s1 s2 s3 s4 s5)" "effect_in fresh_numbers (CashBankService_UpdateAccount s1 s2 s3 s4 b)"
  "effect_in fresh_numbers (CashBankService_CreateReconciliation s1 s2 s3 s4)"
  "effect_in fresh_numbers (CashBankService_CompleteReconciliation s1 s2)"
  "effect_in fresh_numbers (ARAPService_CreatePartner pr)" "effect_in fresh_numbers (ARAPService_UpdatePartner s1 s2 s3 s4 b)"
  "effect_in fresh_numbers (FixedAssetService_CreateCategory cr)" "effect_in fresh_numbers (TaxService_CreateRate s1 s2 s3 s4 s5)"
  unfolding GLAccountService_Create_def GLAccountService_Update_def FiscalService_CreateFiscalYear_def FiscalService_ClosePeriod_def
    FiscalService_ReopenPeriod_def FiscalService_CloseFiscalYear_def FiscalService_ReopenFiscalYear_def year_with_periods_def
    CashBankService_CreateAccount_def CashBankService_UpdateAccount_def CashBankService_CreateReconciliation_def
    CashBankService_CompleteReconciliation_def bookBalanceForAccount_def Cash_Create_def Cash_Update_def
    ARAPService_CreatePartner_def ARAPService_UpdatePartner_def ARAP_CreatePartner_def ARAP_UpdatePartner_def
    FixedAssetService_CreateCategory_def Assets_CreateCategory_def TaxService_CreateRate_def Tax_CreateRate_def
  by (intro numbering.rules silent looks_reads [THEN writes_looks] looks_subledgers [THEN writes_looks])+

lemma spends_read: "spends n t (fin_tx body) \<Longrightarrow> (\<And>i. looks (m i)) \<Longrightarrow> spends n t (chain (fin_tx body) (\<lambda>i. fin_tx (m i)))"
  by (intro spends_chain still.fin_tx writes_looks)

lemma postings_spend:
  "ep_number p = n \<Longrightarrow> ep_date p = t \<Longrightarrow> spends n t (Journals_Create p)" "spends n t (Journals_Reverse s t n reason actor)"
  "ctp_number cp = n \<Longrightarrow> ctp_date cp = t \<Longrightarrow> spends n t (Cash_CreateTransaction cp)"
  "cat_number tp = n \<Longrightarrow> cat_date tp = t \<Longrightarrow> spends n t (ARAP_CreateTransaction tp)"
  "pap_number yp = n \<Longrightarrow> pap_date yp = t \<Longrightarrow> spends n t (ARAP_CreatePayment yp)"
  "fap_number ap = n \<Longrightarrow> fap_date ap = t \<Longrightarrow> spends n t (Assets_CreateAsset ap sch)"
  "txp_number xp = n \<Longrightarrow> txp_date xp = t \<Longrightarrow> spends n t (Tax_CreateTransaction xp)"
  "spends n (pd_date r) (fin_tx (depreciation_tx r n actor))"
  unfolding Journals_Create_def Journals_Reverse_def Cash_CreateTransaction_def ARAP_CreateTransaction_def ARAP_CreatePayment_def
    Assets_CreateAsset_def Tax_CreateTransaction_def
  by (auto intro!: spends_read spends_tx writes_postings writes_reverse writes_InsertJournalEntryTx looking)

lemma postings_number [numbered_services]:
  "effect_in fresh_numbers (JournalService_Create jr actor)" "effect_in fresh_numbers (JournalService_Reverse s t reason actor)"
  "effect_in fresh_numbers (CashBankService_CreateTransaction cr actor)" "effect_in fresh_numbers (ARAPService_CreateTransaction tr actor)"
  "effect_in fresh_numbers (ARAPService_CreatePayment yr actor)" "effect_in fresh_numbers (FixedAssetService_CreateAsset ar actor)"
  "effect_in fresh_numbers (TaxService_CreateTransaction xr actor)"
  unfolding JournalService_Create_def JournalService_Reverse_def CashBankService_CreateTransaction_def ARAPService_CreateTransaction_def
    ARAPService_CreatePayment_def FixedAssetService_CreateAsset_def TaxService_CreateTransaction_def
  by (intro number_spent spends_chain spends_map_error still.basics numbering.basics numbering.ask numbering.cases numbering.chain
      postings_spend; simp)+

lemma depreciation_numbers [numbered_services]: "effect_in fresh_numbers (FixedAssetService_PostDepreciation s actor)"
proof -
  have "effect_in fresh_numbers (post_rows a rows)" for a rows
    by (induction rows)
      (auto simp: postOneDepreciationRow_def intro!: numbering.basics numbering.attempt numbering.chain number_spent postings_spend(8))
  then show ?thesis
    unfolding FixedAssetService_PostDepreciation_def PostDepreciationThroughDate_def
    by (intro numbering.chain numbering.basics numbering.fin_tx silent writes_get) auto
qed

lemma perform_numbers: "fresh_numbers w (fin_perform c e w)"
  using numbered_services unfolding effect_in_def by (cases c) simp_all

lemma run_numbers: "fresh_numbers w (run_finance cs w)"
proof (induction cs arbitrary: w)
  case Nil
  then show ?case by (simp add: numbering.same same_entries_def)
next
  case (Cons x cs)
  then show ?case by (cases x) (auto intro: fresh_numbers_trans perform_numbers)
qed

lemma entry_number_inject: "entry_number y k = entry_number z l \<Longrightarrow> k = l"
proof -
  have tail: "takeWhile is_digit (rev (entry_number y k)) = rev (dec_pad 6 (int k))" for y k
  proof -
    have "\<forall>c \<in> set (dec_pad 6 (int k)). is_digit c" using zero_pad_digits [OF dec_nat_digits] by (simp add: dec_pad_def)
    moreover have "\<not> is_digit (CHR ''-'')" by (simp add: is_digit_def)
    ultimately show ?thesis using takeWhile_append2 [of "rev (dec_pad 6 (int k))" is_digit] by (simp add: entry_number_def)
  qed
  assume "entry_number y k = entry_number z l"
  then have "dec_pad 6 (int k) = dec_pad 6 (int l)" using tail [of y k] tail [of z l] by simp
  then show "k = l" using dec_pad_inject [of "int k" "int l" 6] by simp
qed

text \<open>
  C16. Entry numbers are given once: whatever calls are made, with any clock, requests and faults, the entries that were there keep their
  number, date and place, and the entries that came after carry, in the order they came, the numbers of strictly later and later
  draws from the entry sequence, all of them new, each in the year of its date.  So no two of them share a number, whether or not the
  unique index is there to refuse it.
\<close>

theorem numbers_given_once:
  fixes w cs
  defines "w' \<equiv> run_finance cs w" and "n \<equiv> length (f_entries (fw_db w))"
  shows "map (\<lambda>j. (je_number j, je_date j)) (take n (f_entries (fw_db w'))) = map (\<lambda>j. (je_number j, je_date j)) (f_entries (fw_db w)) \<and>
    (\<exists>ks. sorted_wrt (<) ks \<and> set ks \<subseteq> {fw_seq w <.. fw_seq w'} \<and>
       map je_number (drop n (f_entries (fw_db w'))) = map2 (\<lambda>k j. entry_number (Year (je_date j)) k) ks (drop n (f_entries (fw_db w')))) \<and>
    distinct (map je_number (drop n (f_entries (fw_db w'))))"
proof -
  let ?f = "\<lambda>j. (je_number j, je_date j)" and ?new = "drop n (f_entries (fw_db w'))"
  obtain kts where kts: "sorted_wrt (<) (map fst kts)" "set (map fst kts) \<subseteq> {fw_seq w <.. fw_seq w'}"
      "entry_keys (fw_db w') = entry_keys (fw_db w) @ map (\<lambda>(k, t). (entry_number (Year t) k, t)) kts"
    using run_numbers [of w cs] unfolding fresh_numbers_def w'_def by blast
  have old: "map ?f (take n (f_entries (fw_db w'))) = map ?f (f_entries (fw_db w))"
    using arg_cong [OF kts(3), of "take n"] by (simp add: entry_keys_def n_def take_map)
  have new: "map ?f ?new = map (\<lambda>(k, t). (entry_number (Year t) k, t)) kts"
    using arg_cong [OF kts(3), of "drop n"] by (simp add: entry_keys_def n_def drop_map)
  have len: "length ?new = length kts" using arg_cong [OF new, of length] by simp
  have at: "je_number (?new ! i) = entry_number (Year (je_date (?new ! i))) (fst (kts ! i))" if "i < length kts" for i
    using arg_cong [OF new, of "\<lambda>xs. xs ! i"] that len by (auto simp: split_beta)
  have "map je_number ?new = map2 (\<lambda>k j. entry_number (Year (je_date j)) k) (map fst kts) ?new"
    by (rule nth_equalityI) (use len at in simp_all)
  moreover have "distinct (map je_number ?new)"
  proof -
    have ks: "distinct (map fst kts)" using kts(1) by (simp add: strict_sorted_iff)
    show ?thesis
      unfolding distinct_conv_nth
    proof (intro allI impI)
      fix i j assume ij: "i < length (map je_number ?new)" "j < length (map je_number ?new)" "i \<noteq> j"
      then have "fst (kts ! i) \<noteq> fst (kts ! j)" using ks len by (simp add: distinct_conv_nth)
      then have "je_number (?new ! i) \<noteq> je_number (?new ! j)" using at [of i] at [of j] ij len entry_number_inject by auto
      then show "map je_number ?new ! i \<noteq> map je_number ?new ! j" using ij by simp
    qed
  qed
  ultimately show ?thesis using old kts(1,2) by blast
qed

end
