(* ===== verification/FinOutcomes.thy ===== *)
theory FinOutcomes
  imports Finance
begin

text \<open>
  What single calls of the finance module answer and leave behind: calls in a numbered transaction,
  what is written and read back, and collecting from a customer or paying a vendor on every branch.
\<close>

section \<open>Answers of composed calls\<close>

lemma lift_chain:
  assumes "chain (lift v) k e w = (r, w')"
  obtains (failed) er where "r = Inl er" "w' = w" | (passed) x where "v = Inr x" "k x e w = (r, w')"
  using assms by (cases v) (auto simp: comp_defs)

lemma numbered_chain:
  assumes "chain (NextEntryNumber y) k e w = (r, w')"
  obtains (failed) er where "r = Inl er" "fw_db w' = fw_db w" | (passed) n w1 where "fw_db w1 = fw_db w" "k n e w1 = (r, w')"
proof (cases "NextEntryNumber y e w")
  case (Pair a w1)
  then have d: "fw_db w1 = fw_db w" by (rule NextEntryNumber_db)
  show thesis using assms Pair d by (cases a) (auto simp: chain_def intro: that)
qed

lemma mapped:
  assumes "map_error f m e w = (r, w')"
  obtains r0 where "m e w = (r0, w')" "r = (case r0 of Inl er \<Rightarrow> Inl (f er) | Inr x \<Rightarrow> Inr x)"
  using assms by (cases "m e w"; cases "fst (m e w)") (auto simp: map_error_def comp_defs)

text \<open>A transaction, then a reading of its result: nothing changed and an error, or the transaction committed.\<close>

lemma written_then_read:
  assumes "chain (fin_tx body) (\<lambda>i. fin_tx (n i)) e w = (r, w')" "\<And>i. looks (n i)"
  obtains (failed) er where "r = Inl er" "fw_db w' = fw_db w" | (committed) i where "body e (fw_db w) = (Inr i, fw_db w')"
proof (cases "fin_tx body e w")
  case (Pair a w1)
  have read: "fw_db w2 = fw_db w1" if "fin_tx (n i) e w1 = (b, w2)" for i b w2
    using that by (cases rule: fin_tx_cases) (use assms(2) in \<open>auto simp: looks_def\<close>)
  from Pair show thesis
  proof (cases rule: fin_tx_cases)
    case (rolled_back er)
    then show thesis using assms(1) Pair by (intro failed) (auto simp: chain_def)
  next
    case (committed i d)
    have "fw_db w' = d" using assms(1) Pair committed(2,3) read by (auto simp: chain_def split: sum.splits)
    then show thesis using committed(1) that(2) by blast
  qed
qed

section \<open>Collecting and paying\<close>

lemma positive_amount_Inr: "positive_amount s = Inr a \<longleftrightarrow> moneyRat s = Inr a \<and> 0 < a"
  by (auto simp: positive_amount_def split: sum.splits)

lemma payment_call:
  assumes "ARAPService_CreatePayment r actor e w = (res, w')"
  obtains (failed) er where "res = Inl er" "fw_db w' = fw_db w"
  | (committed) p i a where "payment_tx p e (fw_db w) = (Inr i, fw_db w')" "pap_transaction p = TrimSpace (ayr_transaction r)"
      "moneyRat (ayr_amount r) = Inr a" "0 < a" "pap_amount p = formatMoney a"
  using assms unfolding ARAPService_CreatePayment_def ARAP_CreatePayment_def
  apply (elim lift_chain numbered_chain mapped)
  apply (simp_all add: failed)
  apply (erule written_then_read, rule looking)
  subgoal by (rule failed) simp_all
  subgoal by (rule committed, simp) (simp_all add: positive_amount_Inr)
  done

text \<open>
  C31. Recording a payment on a receivable or payable, whatever well-formed amount is requested: it is rounded to whole hundredths. A settled or void
  transaction, a rounded amount that is not positive and a rounded amount above the open balance are answered with an error, and
  nothing is changed. Otherwise either the answer is an error and nothing is changed, or exactly the rounded amount is credited to exactly
  that transaction and its status is set: paid when the balance is used up, partially paid otherwise. So an answer that is no error means
  the payment is booked.
\<close>

theorem payment_settles_or_fails:
  assumes "books_ok (fw_db w)" "fin_env_ok e" "t \<in> set (f_transactions (fw_db w))"
    and "e_uuid_in e (TrimSpace (ayr_transaction r)) = Some (ap_id t)" "moneyRat (ayr_amount r) = Inr b"
    and "ARAPService_CreatePayment r actor e w = (res, w')"
  defines "k \<equiv> round_cents b"
  shows "if ap_status t \<in> {ARAPStatusPaid, ARAPStatusVoid} \<or> k \<le> 0 \<or> ap_amount t < allocated (fw_db w) (ap_id t) + k
    then (\<exists>er. res = Inl er) \<and> fw_db w' = fw_db w
    else (\<exists>er. res = Inl er) \<and> fw_db w' = fw_db w \<or>
      allocated (fw_db w') (ap_id t) = allocated (fw_db w) (ap_id t) + k \<and>
      (\<forall>x \<in> set (f_transactions (fw_db w')). ap_id x = ap_id t \<longrightarrow>
         ap_status x = (if allocated (fw_db w) (ap_id t) + k = ap_amount t then ARAPStatusPaid else ARAPStatusPartiallyPaid)) \<and>
      (\<forall>i. i \<noteq> ap_id t \<longrightarrow> allocated (fw_db w') i = allocated (fw_db w) i)"
  using assms(6)
proof (cases rule: payment_call)
  case failed
  then show ?thesis by simp
next
  case (committed p i a)
  have "distinct (map ap_id (f_transactions (fw_db w)))" and paid: "paid_ok (fw_db w) t"
    using assms(1,3) unfolding books_ok_def keys_ok_def arap_ok_def by blast+
  moreover obtain x y al j rs d1 n where x: "x \<in> set (f_transactions (fw_db w))" "e_uuid_in e (pap_transaction p) = Some (ap_id x)"
      "numeric_in (10 ^ 18) e (amountOrZero (pap_amount p)) = Inr (ay_amount y)" "ap_status x \<notin> {ARAPStatusPaid, ARAPStatusVoid}"
      "enters (fw_db w) j rs d1" "al_transaction al = ap_id x" "al_amount al = ay_amount y" "0 < ay_amount y"
      "allocated (fw_db w) (ap_id x) + ay_amount y \<le> ap_amount x"
    and w': "fw_db w' = d1\<lparr>f_payments := f_payments d1 @ [y], f_allocations := f_allocations d1 @ [al],
      f_transactions := update_where (\<lambda>z. ap_id z = ap_id x)
        (\<lambda>z. z\<lparr>ap_status := status_after (ap_amount x) (allocated (fw_db w) (ap_id x) + ay_amount y), ap_updated_at := e_now e\<rparr>) (f_transactions d1),
      f_next := n\<rparr>"
    by (rule payment_tx_paid [OF committed(1) fin_env_okD(1) [OF assms(2)]]) blast
  ultimately have xt: "x = t" using key_unique [of ap_id _ x t] assms(3,4) committed(2) by simp
  have "FloatString2 a = cents_text k" using committed(3,4) assms(5) FloatString2_nonneg [of a] by (simp add: k_def)
  then have "numeric_in (10 ^ 18) e (cents_text k) = Inr (ay_amount y)" using x(3) by (simp add: committed(5))
  then have k: "ay_amount y = k" using numeric_in_stored [OF fin_env_okD(1) [OF assms(2)]] by blast
  have "0 \<le> allocated (fw_db w) (ap_id t)"
    using assms(1) unfolding books_ok_def arap_ok_def allocation_ok_def allocated_def allocations_of_def
    by (force intro!: sum_list_nonneg)
  then show ?thesis
    using x(4,6-9) unfolding w' xt k
    by (auto simp: allocated_def allocations_of_def enters_same [OF x(5)] set_update_where status_after_def)
qed

text \<open>A payment of 6000.01 when 6000.00 is open.\<close>

definition too_much :: CreateARAPPaymentRequest where
  "too_much = \<lparr>ayr_transaction = uid 102, ayr_date = ''2025-03-01'', ayr_amount = cents_text 600001, ayr_cash = uid 104, ayr_notes = []\<rparr>"

lemma TrimSpace_uid [simp]: "0 \<le> k \<Longrightarrow> TrimSpace (uid k) = uid k"
proof (rule TrimSpace_graphic)
  assume k: "0 \<le> k"
  have "dec_pad 12 k \<noteq> []" "\<forall>c \<in> set (dec_pad 12 k). is_digit c"
    using k zero_pad_digits [OF dec_nat_digits] by (auto simp: dec_pad_def zero_pad_def)
  then have "is_digit (last (uid k))" by (simp add: uid_def)
  then show "graphic (last (uid k))" by (auto simp: is_digit_def graphic_def)
qed (simp_all add: uid_def graphic_def)

lemma uid_not_Nil [simp]: "uid k \<noteq> []"
  by (simp add: uid_def)

lemma payment_settles_or_fails_witness:
  "(\<exists>er. fst (ARAPService_CreatePayment too_much [] fin_example_env fin_example_world) = Inl er) \<and>
   fw_db (snd (ARAPService_CreatePayment too_much [] fin_example_env fin_example_world)) = fin_example_db"
proof -
  have "allocated fin_example_db (uid 102) = 400000" by (simp add: allocated_def allocations_of_def)
  then show ?thesis
    using payment_settles_or_fails [of fin_example_world fin_example_env example_bill too_much "cents 600001" "[]"
        "fst (ARAPService_CreatePayment too_much [] fin_example_env fin_example_world)"
        "snd (ARAPService_CreatePayment too_much [] fin_example_env fin_example_world)"]
    by (simp add: fin_example_world_def fin_example_books fin_example_env_ok too_much_def example_bill_def)
qed

end
