(* ===== verification/FinReports.thy ===== *)
theory FinReports
  imports FinOutcomes
begin

text \<open>
  The account ledger of the finance module against the ledger itself: its running balance ends at the
  balance the database computes; and what a reversal does to the balances the reports show.
\<close>

section \<open>Sums over postings\<close>

lemma read_only_Inr:
  assumes "fin_tx body e w = (Inr x, w')" "looks body"
  shows "fw_db w' = fw_db w \<and> body e (fw_db w) = (Inr x, fw_db w)"
proof -
  note b = fin_tx_Inr [OF assms(1)]
  then have "fw_db w' = fw_db w" using assms(2) unfolding looks_def by blast
  with b show ?thesis by simp
qed

lemma sum_filter_split:
  assumes "\<And>x. x \<in> set xs \<Longrightarrow> P x \<longleftrightarrow> A x \<or> B x" "\<And>x. x \<in> set xs \<Longrightarrow> \<not> (A x \<and> B x)"
  shows "sum_list (map (f :: 'a \<Rightarrow> int) (filter P xs)) = sum_list (map f (filter A xs)) + sum_list (map f (filter B xs))"
  using assms by (induction xs) auto

text \<open>The signed total of an account's postings.\<close>

definition posted_net :: "fdb \<Rightarrow> string \<Rightarrow> (date \<Rightarrow> bool) \<Rightarrow> string \<Rightarrow> int" where
  "posted_net d normal P i = sum_list (map (signed_amount normal) (postings d P i))"

lemma posted_net_pairs:
  "posted_net d normal P i = 
     sum_list (map (\<lambda>p. signed_amount normal (fst p)) (filter (\<lambda>p. P (je_date (snd p)) \<and> jl_account (fst p) = i) (posted_lines d)))"
  by (simp add: posted_net_def postings_def comp_def case_prod_unfold)

lemma posted_net_split:
  assumes "a \<le> b"
  shows "posted_net d normal (\<lambda>x. x \<le> b) i = posted_net d normal (\<lambda>x. x < a) i + posted_net d normal (between a b) i"
  unfolding posted_net_pairs by (rule sum_filter_split) (use assms in \<open>auto simp: between_def\<close>)

section \<open>The account ledger\<close>

lemma posted_lines_rows: "(l, j) \<in> set (posted_lines d) \<Longrightarrow> l \<in> set (f_lines d) \<and> journal_of d l = Some j \<and> je_status j = JournalStatusPosted"
  by (auto simp: posted_lines_def split: option.splits if_splits)

lemma ledger_rows_net:
  assumes "\<And>l j. (l, j) \<in> set (posted_lines d) \<Longrightarrow> account_by_id d (jl_account l) \<noteq> None"
  shows "sum_list (map (\<lambda>(l, j, x). signed_amount normal l) (ledger_rows d a b (Some i))) = posted_net d normal (between a b) i"
proof -
  let ?rows = "\<lambda>ps. [(l, j, x). (l, j) \<leftarrow> ps, between a b (je_date j) \<and> (Some i = None \<or> Some (jl_account l) = Some i),
         x \<leftarrow> (case account_by_id d (jl_account l) of None \<Rightarrow> [] | Some x \<Rightarrow> [x])]"
  have "sum_list (map (\<lambda>(l, j, x). signed_amount normal l) (?rows ps)) =
    sum_list (map (\<lambda>p. signed_amount normal (fst p)) (filter (\<lambda>p. between a b (je_date (snd p)) \<and> jl_account (fst p) = i) ps))"
    if "set ps \<subseteq> set (posted_lines d)" for ps
    using that
  proof (induction ps)
    case (Cons p ps)
    obtain l j where p: "p = (l, j)" by fastforce
    obtain x where x: "account_by_id d (jl_account l) = Some x" using assms [of l j] Cons.prems p by auto
    show ?case using Cons by (cases "between a b (je_date j) \<and> jl_account l = i") (auto simp: p x)
  qed simp
  from this [OF subset_refl] show ?thesis
    unfolding ledger_rows_def posted_net_pairs sum_sort_key .
qed

lemma scanned_closing:
  assumes "scan_ledger rows e d = (Inr rs, d')"
  shows "snd (run_ledger normal x rs) = x + cents (sum_list (map (\<lambda>(l, j, a). signed_amount normal l) rows))"
  using assms
proof (induction rows arbitrary: rs x rule: scan_ledger.induct)
  case (1)
  then show ?case by (simp add: fin_simps cents_simps)
next
  case (2 l j a rows)
  then obtain r rs1 where r: "rs = r # rs1" "lg_debit r = cents_text (jl_debit l)" "lg_credit r = cents_text (jl_credit l)"
      "scan_ledger rows e d = (Inr rs1, d')" "\<not> (jl_description l = [] \<and> je_description j = [])"
    by (auto simp: fin_simps split: if_splits)
  have "move_running normal x r = x + cents (signed_amount normal l)"
    by (simp add: move_running_def signed_amount_def r(2,3) cents_simps)
  then show ?case using "2.IH" [OF r(5) r(4)] by (simp add: r(1) case_prod_beta cents_simps Let_def)
qed

text \<open>The balance of an account up to a day, as the database adds it up.\<close>

lemma balance_text_money:
  assumes "account_by_id d i = Some x"
  shows "moneyRat (balance_text d P i) = Inr (cents (posted_net d (gl_normal x) P i + sum_or_zero (opening_by P x)))"
  by (simp add: balance_text_def assms posted_net_def)

lemma found_account:
  assumes "keys_ok d" "GLAccounts_FindByID s e d = (Inr acc, d')" "e_uuid_in e (TrimSpace s) = Some i"
  shows "account_by_id d i = Some (ga_row acc)"
proof -
  obtain a where a: "a \<in> set (f_accounts d)" "gl_id a = i" "ga_row acc = a"
    using assms(2,3) by (auto simp: GLAccounts_FindByID_def fin_simps joined_account_def dest!: query_row_Inr)
  obtain x where x: "account_by_id d i = Some x" using a by (cases "account_by_id d i") (auto simp: account_by_id_def find_None_iff)
  then have "x \<in> set (f_accounts d)" "gl_id x = i" by (auto simp: account_by_id_def find_Some_iff)
  then have "x = a" using key_unique [of gl_id "f_accounts d" x a] assms(1) a unfolding keys_ok_def by simp
  then show ?thesis using x a(3) by simp
qed

lemma posted_account:
  assumes "lines_ok d" "(l, j) \<in> set (posted_lines d)"
  shows "account_by_id d (jl_account l) \<noteq> None"
proof -
  have "l \<in> set (f_lines d)" using posted_lines_rows [OF assms(2)] by simp
  then have "jl_account l \<in> gl_id ` set (f_accounts d)" using assms(1) unfolding lines_ok_def by blast
  then obtain x where "x \<in> set (f_accounts d)" "gl_id x = jl_account l" by auto
  then show ?thesis unfolding account_by_id_def find_None_iff by blast
qed

lemma account_ledger_Inr:
  assumes "LedgerService_AccountLedger account start end_date e w = (Inr r, w')"
  obtains a b acc carried u rows where "parseRequiredDate start = Inr a" "parseRequiredDate end_date = Inr b"
    "GLAccounts_FindByID account e (fw_db w) = (Inr acc, fw_db w)" "fw_db w' = fw_db w"
    "e_uuid_in e account = Some u" "moneyRat (balance_text (fw_db w) (\<lambda>x. x < a) u) = Inr carried"
    "scan_ledger (ledger_rows (fw_db w) a b (if account = [] then None else Some u)) e (fw_db w) = (Inr rows, fw_db w)"
    "alr_closing r = formatMoney (snd (run_ledger (gl_normal (ga_row acc)) carried rows))"
proof -
  obtain a b acc raw carried rows w1 w2 where s: "parseRequiredDate start = Inr a" "parseRequiredDate end_date = Inr b"
      "fin_tx (GLAccounts_FindByID account) e w = (Inr acc, w1)" "fin_tx (Ledger_AccountOpeningBalanceBefore account a) e w1 = (Inr raw, w2)"
      "moneyRat raw = Inr carried" "fin_tx (Ledger_GeneralLedger a b account) e w2 = (Inr rows, w')"
      "alr_closing r = formatMoney (snd (run_ledger (gl_normal (ga_row acc)) carried rows))"
    using assms unfolding LedgerService_AccountLedger_def case_prod_beta Let_def fin_simps map_error_Inr by auto
  have 1: "fw_db w1 = fw_db w" "GLAccounts_FindByID account e (fw_db w) = (Inr acc, fw_db w)"
    using read_only_Inr [OF s(3) looks_reads(1)] by simp_all
  have 2: "fw_db w2 = fw_db w" "Ledger_AccountOpeningBalanceBefore account a e (fw_db w) = (Inr raw, fw_db w)"
    using read_only_Inr [OF s(4) looks_reads(12)] 1 by simp_all
  have 3: "fw_db w' = fw_db w" "Ledger_GeneralLedger a b account e (fw_db w) = (Inr rows, fw_db w)"
    using read_only_Inr [OF s(6) looks_reads(10)] 2 by simp_all
  obtain u where u: "e_uuid_in e account = Some u" "raw = balance_text (fw_db w) (\<lambda>x. x < a) u"
    using 2(2) by (auto simp: Ledger_AccountOpeningBalanceBefore_def fin_simps)
  have "scan_ledger (ledger_rows (fw_db w) a b (if account = [] then None else Some u)) e (fw_db w) = (Inr rows, fw_db w)"
    using 3(2) u(1) by (auto simp: Ledger_GeneralLedger_def fin_simps)
  then show thesis using that s(1,2,5,7) 1(2) 3(1) u by blast
qed

text \<open>
  C32. The running balance of an account ledger ends where the ledger itself stands: for an account whose opening balance is not dated
  within the range of days (such an opening balance is in neither the opening nor the lines), the closing balance of its
  account ledger is the balance the database computes for the last day, whatever is posted.
\<close>

theorem account_ledger_closes:
  assumes "books_ok (fw_db w)" "LedgerService_AccountLedger account start end_date e w = (Inr r, w')"
    and "parseRequiredDate start = Inr a" "parseRequiredDate end_date = Inr b" "a \<le> b" "account \<noteq> []"
    and "e_uuid_in e (TrimSpace account) = e_uuid_in e account"
    and "\<forall>x \<in> set (f_accounts (fw_db w)). Some (gl_id x) = e_uuid_in e account \<longrightarrow> (\<forall>t. gl_opening_date x = Some t \<longrightarrow> t < a \<or> b < t)"
  shows "\<exists>bal. Ledger_AccountBalanceAsOf account b e (fw_db w) = (Inr bal, fw_db w) \<and> alr_closing r = formatMoney (money_of bal)"
proof -
  define d where "d = fw_db w"
  have ok: "keys_ok d" "lines_ok d" using assms(1) unfolding d_def books_ok_def by blast+
  obtain acc carried u rows where s: "GLAccounts_FindByID account e d = (Inr acc, d)" "e_uuid_in e account = Some u"
      "moneyRat (balance_text d (\<lambda>x. x < a) u) = Inr carried" "scan_ledger (ledger_rows d a b (Some u)) e d = (Inr rows, d)"
      "alr_closing r = formatMoney (snd (run_ledger (gl_normal (ga_row acc)) carried rows))"
    by (rule account_ledger_Inr [OF assms(2)]) (use assms(3,4,6) in \<open>auto simp: d_def\<close>)
  define x where "x = ga_row acc"
  have x: "account_by_id d u = Some x" using found_account [OF ok(1) s(1)] assms(7) s(2) unfolding x_def by simp
  then have "x \<in> set (f_accounts d)" "gl_id x = u" by (auto simp: account_by_id_def find_Some_iff)
  then have "opening_by (\<lambda>t. t < a) x = opening_by (\<lambda>t. t \<le> b) x"
    using assms(5,8) s(2) unfolding d_def opening_by_def by (auto split: option.splits)
  moreover have "carried = cents (posted_net d (gl_normal x) (\<lambda>t. t < a) u + sum_or_zero (opening_by (\<lambda>t. t < a) x))"
    using s(3) balance_text_money [OF x] by simp
  moreover have "snd (run_ledger (gl_normal x) carried rows) = carried + cents (posted_net d (gl_normal x) (between a b) u)"
    using scanned_closing [OF s(4)] ledger_rows_net [OF posted_account [OF ok(2)]] by simp
  ultimately have "snd (run_ledger (gl_normal x) carried rows) = money_of (balance_text d (\<lambda>t. t \<le> b) u)"
    by (simp add: money_of_def balance_text_money [OF x] posted_net_split [OF assms(5)] cents_simps)
  then show ?thesis using s(2,5) unfolding d_def [symmetric] x_def [symmetric] by (simp add: Ledger_AccountBalanceAsOf_def comp_defs uuid_arg_def)
qed

lemma scan_ledger_answers: "\<forall>(l, j, a) \<in> set rows. je_description j \<noteq> [] \<Longrightarrow> \<exists>rs. scan_ledger rows e d = (Inr rs, d)"
  by (induction rows rule: scan_ledger.induct) (auto simp: comp_defs)

lemma example_february: "parseRequiredDate ''2025-02-01'' = Inr 20120" "parseRequiredDate ''2025-02-28'' = Inr 20147"
proof -
  have "parse_ymd ''2025-02-01'' = Some 20120" "parse_ymd ''2025-02-28'' = Some 20147"
    by (simp_all add: parse_ymd_def is_digit_def dec_value_def char_digit_def Let_def Date_def month_start_def year_start_def dim_def)
  then show "parseRequiredDate ''2025-02-01'' = Inr 20120" "parseRequiredDate ''2025-02-28'' = Inr 20147"
    by (simp_all add: parseRequiredDate_def TrimSpace_graphic graphic_def)
qed

lemma example_posted:
  "posted_lines fin_example_db = zip example_lines (concat (map (\<lambda>j. [j, j]) example_entries))"
  by (simp add: posted_lines_def journal_of_def example_lines_def example_entries_def)

lemma example_account_2: "account_by_id fin_example_db (uid 2) = Some (example_gl 2 ''112'' ''Piutang'' ''debit'')"
  by (simp add: account_by_id_def example_accounts_def)

lemma ledger_rows_posted: "(l, j, x) \<in> set (ledger_rows d a b u) \<Longrightarrow> (l, j) \<in> set (posted_lines d)"
  by (auto simp: ledger_rows_def split: if_splits option.splits)

lemma posted_entry: "(l, j) \<in> set (posted_lines d) \<Longrightarrow> j \<in> set (f_entries d) \<and> je_id j = jl_entry l"
  by (drule posted_lines_rows) (auto simp: journal_of_def find_Some_iff)

lemma example_receivables_ledger:
  "\<exists>r w'. LedgerService_AccountLedger (uid 2) ''2025-02-01'' ''2025-02-28'' fin_example_env fin_example_world = (Inr r, w')"
proof -
  have "\<forall>j \<in> set example_entries. je_description j \<noteq> []" by (simp add: example_entries_def example_entry_def)
  then have "\<forall>(l, j, x) \<in> set (ledger_rows fin_example_db 20120 20147 (Some (uid 2))). je_description j \<noteq> []"
    using posted_entry ledger_rows_posted by fastforce
  then obtain rs where rs: "scan_ledger (ledger_rows fin_example_db 20120 20147 (Some (uid 2))) fin_example_env fin_example_db = (Inr rs, fin_example_db)"
    using scan_ledger_answers by blast
  have f: "query_row (\<lambda>a. gl_id a = uid 2 \<and> gl_deleted_at a = None) example_accounts = Inr (example_gl 2 ''112'' ''Piutang'' ''debit'')"
    by (simp add: query_row_def example_accounts_def)
  show ?thesis
    by (simp add: LedgerService_AccountLedger_def example_february fin_tx_def Let_def GLAccounts_FindByID_def uuid_arg_def map_error_def
        Ledger_AccountOpeningBalanceBefore_def Ledger_GeneralLedger_def comp_defs fin_example_world_def f rs
        balance_text_money [OF example_account_2] split: prod.split)
qed

lemma account_ledger_closes_witness:
  "\<exists>r w'. LedgerService_AccountLedger (uid 2) ''2025-02-01'' ''2025-02-28'' fin_example_env fin_example_world = (Inr r, w') \<and>
     alr_closing r = cents_text 600000"
proof -
  obtain r w' where r: "LedgerService_AccountLedger (uid 2) ''2025-02-01'' ''2025-02-28'' fin_example_env fin_example_world = (Inr r, w')"
    using example_receivables_ledger by blast
  have "posted_net fin_example_db ''debit'' (\<lambda>x. x \<le> 20147) (uid 2) = 600000"
    unfolding posted_net_pairs example_posted by (simp add: example_lines_def example_entries_def signed_amount_def)
  then have "money_of (balance_text fin_example_db (\<lambda>x. x \<le> 20147) (uid 2)) = cents 600000"
    by (simp add: money_of_def balance_text_money [OF example_account_2] opening_by_def)
  then have "alr_closing r = cents_text 600000"
    using account_ledger_closes [OF _ r example_february]
    by (simp add: fin_example_world_def fin_example_books example_accounts_def Ledger_AccountBalanceAsOf_def uuid_arg_def comp_defs)
  then show ?thesis using r by blast
qed

text \<open>
  Reports count posted entries only.  Reversing an entry takes it out of them and puts its mirror in, so the account it moved
  ends at the opposite of its amount instead of at nothing.
\<close>

lemma reversal_leaves_opposite:
  "posted_net fin_example_db ''credit'' (\<lambda>_. True) (uid 3) = 50000000"
  "posted_net reversed_db ''credit'' (\<lambda>_. True) (uid 3) = - 50000000"
proof -
  have "posted_lines reversed_db = drop 2 (zip (example_lines @ [example_line 5 1 1 0 50000000, example_line 5 2 3 50000000 0])
      (concat (map (\<lambda>j. [j, j]) (example_entries @ [example_entry 5 20129 JournalSourceManual]))))"
    by (simp add: posted_lines_def journal_of_def reversed_db_def reversed_entry_def example_lines_def example_entries_def)
  then show "posted_net reversed_db ''credit'' (\<lambda>_. True) (uid 3) = - 50000000"
    unfolding posted_net_pairs by (simp add: example_lines_def example_entries_def signed_amount_def)
  show "posted_net fin_example_db ''credit'' (\<lambda>_. True) (uid 3) = 50000000"
    unfolding posted_net_pairs example_posted by (simp add: example_lines_def example_entries_def signed_amount_def)
qed

end
