(* ===== verification/FinTrial.thy ===== *)
theory FinTrial
  imports FinReports
begin

text \<open>
  The trial balance and the aging report of the finance module: totals of rows that were grouped by
  account or by partner are the totals of what was grouped.
\<close>

section \<open>Sums by key\<close>

lemma sum_of_one: "distinct (map k as) \<Longrightarrow> x \<in> k ` set as \<Longrightarrow> (\<Sum>a \<leftarrow> as. if x = k a then c else 0) = (c :: int)"
proof (induction as)
  case (Cons a as)
  have "(\<Sum>a \<leftarrow> as. if k a' = k a then c else 0) = 0" if "k a' \<notin> k ` set as" for a'
    using that by (induction as) auto
  then show ?case using Cons by auto
qed simp

lemma sum_by_key:
  assumes "distinct (map k as)" "\<And>p. p \<in> set ps \<Longrightarrow> g p \<in> k ` set as"
  shows "(\<Sum>a \<leftarrow> as. \<Sum>p \<leftarrow> filter (\<lambda>p. g p = k a) ps. f p) = (\<Sum>p \<leftarrow> ps. f p :: int)"
  using assms(2)
proof (induction ps)
  case (Cons p ps)
  have "(\<Sum>a \<leftarrow> as. \<Sum>p \<leftarrow> filter (\<lambda>p. g p = k a) (p # ps). f p) =
      (\<Sum>a \<leftarrow> as. (if g p = k a then f p else 0) + (\<Sum>p \<leftarrow> filter (\<lambda>p. g p = k a) ps. f p))"
    by (rule arg_cong [of _ _ sum_list], rule map_cong) auto
  also have "\<dots> = f p + (\<Sum>p \<leftarrow> ps. f p)"
    using Cons sum_of_one [OF assms(1)] by (simp add: sum_list_addf)
  finally show ?case by simp
qed simp

section \<open>The trial balance\<close>

definition posted_upto :: "fdb \<Rightarrow> date \<Rightarrow> (journal_line \<times> journal_entry) list" where
  "posted_upto d t = filter (\<lambda>p. je_date (snd p) \<le> t) (posted_lines d)"

lemma journal_of_line:
  assumes "keys_ok d" "j \<in> set (f_entries d)" "je_id j = jl_entry l"
  shows "journal_of d l = Some j"
proof (cases "journal_of d l")
  case None
  then show ?thesis using assms(2,3) by (auto simp: journal_of_def find_None_iff)
next
  case (Some x)
  then have "x \<in> set (f_entries d)" "je_id x = je_id j" using assms(3) by (auto simp: journal_of_def find_Some_iff)
  then show ?thesis using Some key_unique [of je_id "f_entries d" x j] assms(1,2) unfolding keys_ok_def by simp
qed

lemma lines_of_posted:
  assumes "keys_ok d" "j \<in> set (f_entries d)" "je_status j = JournalStatusPosted" "je_date j \<le> t"
  shows "map fst (filter (\<lambda>p. je_id (snd p) = je_id j) (posted_upto d t)) = lines_of d (je_id j)"
proof -
  let ?posted = "\<lambda>ls. [(l, j). l \<leftarrow> ls, j \<leftarrow> (case journal_of d l of None \<Rightarrow> [] | Some j \<Rightarrow> if je_status j = JournalStatusPosted then [j] else [])]"
  have "map fst (filter (\<lambda>p. je_id (snd p) = je_id j) (filter (\<lambda>p. je_date (snd p) \<le> t) (?posted ls))) = filter (\<lambda>l. jl_entry l = je_id j) ls" for ls
  proof (induction ls)
    case (Cons l ls)
    show ?case
    proof (cases "jl_entry l = je_id j")
      case True
      then show ?thesis using Cons journal_of_line [OF assms(1,2), of l] assms(3,4) by simp
    next
      case False
      then have "je_id x \<noteq> je_id j" if "journal_of d l = Some x" for x
        using that by (auto simp: journal_of_def find_Some_iff)
      then show ?thesis using Cons False by (auto split: option.split)
    qed
  qed simp
  then show ?thesis unfolding posted_upto_def posted_lines_def lines_of_def .
qed

lemma posted_balance:
  assumes "keys_ok d" "entries_balanced True d"
  shows "(\<Sum>p \<leftarrow> posted_upto d t. jl_debit (fst p)) = (\<Sum>p \<leftarrow> posted_upto d t. jl_credit (fst p))"
proof -
  define js where "js = filter (\<lambda>j. je_status j = JournalStatusPosted \<and> je_date j \<le> t) (f_entries d)"
  have ids: "distinct (map je_id js)" using assms(1) unfolding js_def keys_ok_def by (simp add: distinct_map_filter)
  have keys: "je_id (snd p) \<in> je_id ` set js" if "p \<in> set (posted_upto d t)" for p
  proof -
    obtain l j where p: "p = (l, j)" by fastforce
    then have "j \<in> set (f_entries d)" "je_status j = JournalStatusPosted" "je_date j \<le> t"
      using that posted_entry [of l j d] posted_lines_rows [of l j d] by (auto simp: posted_upto_def)
    then show ?thesis unfolding js_def p by simp
  qed
  have by_entry: "(\<Sum>p \<leftarrow> posted_upto d t. f (fst p)) = (\<Sum>j \<leftarrow> js. \<Sum>l \<leftarrow> lines_of d (je_id j). f l)" for f :: "journal_line \<Rightarrow> int"
  proof -
    have "(\<Sum>p \<leftarrow> posted_upto d t. f (fst p)) = (\<Sum>j \<leftarrow> js. \<Sum>p \<leftarrow> filter (\<lambda>p. je_id (snd p) = je_id j) (posted_upto d t). f (fst p))"
      using sum_by_key [OF ids, of "posted_upto d t" "\<lambda>p. je_id (snd p)" "\<lambda>p. f (fst p)"] keys by simp
    also have "\<dots> = (\<Sum>j \<leftarrow> js. \<Sum>l \<leftarrow> lines_of d (je_id j). f l)"
    proof (rule arg_cong [of _ _ sum_list], rule map_cong [OF refl])
      fix j assume "j \<in> set js"
      then have "map fst (filter (\<lambda>p. je_id (snd p) = je_id j) (posted_upto d t)) = lines_of d (je_id j)"
        using lines_of_posted [OF assms(1)] unfolding js_def by simp
      then show "(\<Sum>p \<leftarrow> filter (\<lambda>p. je_id (snd p) = je_id j) (posted_upto d t). f (fst p)) = (\<Sum>l \<leftarrow> lines_of d (je_id j). f l)"
        by (metis (no_types, lifting) list.map_comp comp_def map_eq_conv)
    qed
    finally show ?thesis .
  qed
  have "(\<Sum>l \<leftarrow> lines_of d (je_id j). jl_debit l) = (\<Sum>l \<leftarrow> lines_of d (je_id j). jl_credit l)" if "j \<in> set js" for j
    using assms(2) that unfolding entries_balanced_def balanced_def total_debit_def total_credit_def js_def by simp
  then show ?thesis unfolding by_entry by (metis (no_types, lifting) map_cong)
qed

text \<open>The accounts a trial balance looks at, and the totals of their openings on a side.\<close>

definition live_leaves :: "fdb \<Rightarrow> gl_account list" where
  "live_leaves d = filter (\<lambda>a. \<not> gl_header a \<and> gl_deleted_at a = None) (f_accounts d)"

definition openings :: "fdb \<Rightarrow> date \<Rightarrow> string \<Rightarrow> int" where
  "openings d t side = (\<Sum>a \<leftarrow> live_leaves d. sum_or_zero (opening_side side t a))"

lemma postings_upto: "postings d (\<lambda>x. x \<le> t) i = map fst (filter (\<lambda>p. jl_account (fst p) = i) (posted_upto d t))"
  by (simp add: postings_def posted_upto_def case_prod_unfold conj_commute)

lemma sum_filter_zero: "(\<And>x. x \<in> set xs \<Longrightarrow> \<not> P x \<Longrightarrow> f x = 0) \<Longrightarrow> (\<Sum>x \<leftarrow> filter P xs. f x) = (\<Sum>x \<leftarrow> xs. f x :: int)"
  by (induction xs) auto

lemma trial_column:
  assumes "keys_ok d" and posted: "\<And>p. p \<in> set (posted_upto d t) \<Longrightarrow> jl_account (fst p) \<in> gl_id ` set (live_leaves d)"
    and col: "\<And>a. money_of (col a) = cents ((\<Sum>l \<leftarrow> postings d (\<lambda>x. x \<le> t) (gl_id a). f l) + sum_or_zero (opening_side side t a))"
  shows "add_money (map col (sort_key gl_code (filter (in_trial_balance d t) (f_accounts d)))) 0 =
    cents ((\<Sum>p \<leftarrow> posted_upto d t. f (fst p)) + openings d t side)"
proof -
  let ?v = "\<lambda>a. (\<Sum>l \<leftarrow> postings d (\<lambda>x. x \<le> t) (gl_id a). f l) + sum_or_zero (opening_side side t a)"
  have f: "filter (in_trial_balance d t) (f_accounts d) =
      filter (\<lambda>a. postings d (\<lambda>x. x \<le> t) (gl_id a) \<noteq> [] \<or> has_opening t a) (live_leaves d)"
    unfolding live_leaves_def filter_filter by (rule filter_cong) (auto simp: in_trial_balance_def)
  have "add_money (map col (sort_key gl_code (filter (in_trial_balance d t) (f_accounts d)))) 0 =
      cents (\<Sum>a \<leftarrow> filter (in_trial_balance d t) (f_accounts d). ?v a)"
    by (simp add: add_money_sum col comp_def sum_cents sum_sort_key)
  also have "(\<Sum>a \<leftarrow> filter (in_trial_balance d t) (f_accounts d). ?v a) = (\<Sum>a \<leftarrow> live_leaves d. ?v a)"
    unfolding f by (rule sum_filter_zero) (auto simp: has_opening_def opening_side_def sum_or_zero_def split: option.splits)
  also have "\<dots> = (\<Sum>a \<leftarrow> live_leaves d. \<Sum>p \<leftarrow> filter (\<lambda>p. jl_account (fst p) = gl_id a) (posted_upto d t). f (fst p)) + openings d t side"
    by (simp add: sum_list_addf openings_def postings_upto comp_def)
  also have "(\<Sum>a \<leftarrow> live_leaves d. \<Sum>p \<leftarrow> filter (\<lambda>p. jl_account (fst p) = gl_id a) (posted_upto d t). f (fst p)) = (\<Sum>p \<leftarrow> posted_upto d t. f (fst p))"
  proof (rule sum_by_key)
    show "distinct (map gl_id (live_leaves d))" using assms(1) unfolding live_leaves_def keys_ok_def by (simp add: distinct_map_filter)
  qed (rule posted)
  finally show ?thesis .
qed

text \<open>
  C33. The trial balance ties out: when the entries balance, no account with postings is a header or deleted, and the opening balances
  of debit and credit accounts agree, the totals of the trial balance of any day are equal and it is reported as balanced.
\<close>

theorem trial_balance_ties_out:
  assumes "books_ok (fw_db w)" "entries_balanced True (fw_db w)"
    and "\<forall>l \<in> set (f_lines (fw_db w)). jl_account l \<in> gl_id ` set (live_leaves (fw_db w))"
    and "parseRequiredDate as_of = Inr t" "openings (fw_db w) t ''debit'' = openings (fw_db w) t ''credit''"
    and "LedgerService_TrialBalance as_of e w = (Inr r, w')"
  shows "tbr_is_balanced r \<and> tbr_total_debit r = tbr_total_credit r \<and>
    tbr_total_debit r = cents_text ((\<Sum>p \<leftarrow> posted_upto (fw_db w) t. jl_debit (fst p)) + openings (fw_db w) t ''debit'')"
proof -
  define d where "d = fw_db w"
  obtain rows where rows: "fin_tx (Ledger_TrialBalance t) e w = (Inr rows, w')" "r = trial_balance_response t rows"
    using assms(4,6) by (auto simp: LedgerService_TrialBalance_def fin_simps)
  have r: "rows = map (trial_row d t) (sort_key gl_code (filter (in_trial_balance d t) (f_accounts d)))"
    using fin_tx_Inr [OF rows(1)] unfolding d_def by (simp add: Ledger_TrialBalance_def fin_simps)
  have keys: "keys_ok d" using assms(1) unfolding d_def books_ok_def by blast
  have posted: "jl_account (fst p) \<in> gl_id ` set (live_leaves d)" if "p \<in> set (posted_upto d t)" for p
  proof -
    have "fst p \<in> set (f_lines d)" using that posted_lines_rows [of "fst p" "snd p" d] by (simp add: posted_upto_def)
    then show ?thesis using assms(3) unfolding d_def by blast
  qed
  have "add_money (map tb_debit rows) 0 = cents ((\<Sum>p \<leftarrow> posted_upto d t. jl_debit (fst p)) + openings d t ''debit'')"
    "add_money (map tb_credit rows) 0 = cents ((\<Sum>p \<leftarrow> posted_upto d t. jl_credit (fst p)) + openings d t ''credit'')"
    unfolding r map_map comp_def by (rule trial_column [OF keys posted]; simp add: trial_row_def Let_def)+
  then show ?thesis
    using posted_balance [OF keys, of t] assms(2,5) unfolding rows(2) d_def by (simp add: trial_balance_response_def Let_def)
qed

lemma trial_balance_ties_out_witness:
  "\<exists>r w'. LedgerService_TrialBalance ''2025-02-28'' fin_example_env fin_example_world = (Inr r, w') \<and>
     tbr_is_balanced r \<and> tbr_total_debit r = cents_text 53400000"
proof -
  obtain r w' where r: "LedgerService_TrialBalance ''2025-02-28'' fin_example_env fin_example_world = (Inr r, w')"
    by (simp add: LedgerService_TrialBalance_def example_february fin_tx_def Let_def Ledger_TrialBalance_def comp_defs)
  have o: "openings fin_example_db t side = 0" for t side
    by (simp add: openings_def live_leaves_def example_accounts_def opening_side_def opening_by_def)
  have "(\<Sum>p \<leftarrow> posted_upto fin_example_db 20147. jl_debit (fst p)) = 53400000"
    by (simp add: posted_upto_def example_posted example_lines_def example_entries_def)
  then have "tbr_is_balanced r \<and> tbr_total_debit r = cents_text 53400000"
    using trial_balance_ties_out [OF _ _ _ example_february(2) _ r]
    by (auto simp: fin_example_world_def fin_example_books example_balanced o live_leaves_def example_lines_def example_accounts_def)
  then show ?thesis using r by blast
qed

section \<open>The aging report\<close>

text \<open>What a row of the report adds up: its buckets and its total.\<close>

definition aging_ok :: "aging_acc \<Rightarrow> bool" where
  "aging_ok a \<longleftrightarrow> length (aa_buckets a) = 5 \<and> sum_list (aa_buckets a) = aa_total a \<and> set (aa_buckets a) \<subseteq> range cents"

lemma sum_list_update_add: "i < length xs \<Longrightarrow> sum_list (xs[i := xs ! i + x]) = sum_list xs + (x :: rat)"
  by (induction xs arbitrary: i) (auto split: nat.split simp: algebra_simps)

lemma agingBucketIndex_less: "agingBucketIndex due as_of < 5"
  by (simp add: agingBucketIndex_def Let_def)

text \<open>Rows whose amounts are whole hundredths, as the database prints them.\<close>

definition in_cents :: "AgingBucketRow \<Rightarrow> bool" where
  "in_cents r \<longleftrightarrow> (\<exists>k. ag_outstanding r = cents_text k)"

lemma cents_range_add: "x \<in> range cents \<Longrightarrow> x + cents k \<in> range cents"
  by (auto simp: cents_simps(2) [symmetric])

lemma aging_add_ok:
  assumes "aging_ok a" "in_cents r"
  shows "aging_ok (aging_add t r a)"
proof -
  obtain k where k: "ag_outstanding r = cents_text k" using assms(2) unfolding in_cents_def by blast
  have i: "agingBucketIndex (ag_due r) t < length (aa_buckets a)" using assms(1) agingBucketIndex_less by (simp add: aging_ok_def)
  then have "aa_buckets a ! agingBucketIndex (ag_due r) t \<in> range cents" using assms(1) nth_mem unfolding aging_ok_def by blast
  then show ?thesis
    using assms(1) i set_update_subset_insert [of "aa_buckets a"] cents_range_add
    unfolding aging_ok_def by (simp add: aging_add_def Let_def k sum_list_update_add) blast
qed

lemma aging_new_ok: "aging_ok (aging_new r)"
  using cents_simps(1) by (auto simp: aging_ok_def aging_new_def agingBucketLabels_def intro: range_eqI [of _ _ 0])

lemma aging_step_ok: "list_all aging_ok as \<Longrightarrow> in_cents r \<Longrightarrow> list_all aging_ok (aging_step t r as)"
  by (induction t r as rule: aging_step.induct) (auto intro: aging_add_ok aging_new_ok)

lemma aging_add_total: "aa_total (aging_add t r a) = aa_total a + money_of (ag_outstanding r)" "aa_partner (aging_add t r a) = aa_partner a"
  by (auto simp: aging_add_def money_of_def Let_def split: sum.split)

lemma aging_step_total: "sum_list (map aa_total (aging_step t r as)) = sum_list (map aa_total as) + money_of (ag_outstanding r)"
  by (induction t r as rule: aging_step.induct) (auto simp: aging_add_total aging_new_def)

lemma aging_step_partners: "distinct (map aa_partner as) \<Longrightarrow>
    distinct (map aa_partner (aging_step t r as)) \<and> aa_partner ` set (aging_step t r as) = insert (ag_partner r) (aa_partner ` set as)"
  by (induction t r as rule: aging_step.induct) (auto simp: aging_add_total aging_new_def)

lemma aging_accs_facts:
  assumes "\<forall>r \<in> set rows. in_cents r"
  shows "list_all aging_ok (aging_accs rows t)" "sum_list (map aa_total (aging_accs rows t)) = sum_list (map (money_of \<circ> ag_outstanding) rows)"
    "distinct (map aa_partner (aging_accs rows t))" "aa_partner ` set (aging_accs rows t) = ag_partner ` set rows"
proof -
  have "list_all aging_ok (aging_accs rows t) \<and> sum_list (map aa_total (aging_accs rows t)) = sum_list (map (money_of \<circ> ag_outstanding) rows) \<and>
      distinct (map aa_partner (aging_accs rows t)) \<and> aa_partner ` set (aging_accs rows t) = ag_partner ` set rows"
    using assms by (induction rows rule: rev_induct) (simp_all add: aging_accs_def aging_step_ok aging_step_total aging_step_partners)
  then show "list_all aging_ok (aging_accs rows t)" "sum_list (map aa_total (aging_accs rows t)) = sum_list (map (money_of \<circ> ag_outstanding) rows)"
    "distinct (map aa_partner (aging_accs rows t))" "aa_partner ` set (aging_accs rows t) = ag_partner ` set rows"
    by blast+
qed

text \<open>What is open of the transactions of a kind on a day.\<close>

definition open_on :: "fdb \<Rightarrow> ARAPTransactionType \<Rightarrow> date \<Rightarrow> arap_transaction \<Rightarrow> bool" where
  "open_on d kind t x \<longleftrightarrow> ap_type x = kind \<and> ap_status x \<noteq> ARAPStatusVoid \<and> ap_date x \<le> t \<and> paid_by d t (ap_id x) < ap_amount x"

lemma whole_cent_open: "cents k > 5 / 1000 \<longleftrightarrow> 0 < k"
proof -
  have "cents k > 5 / 1000 \<longleftrightarrow> (1 :: rat) < 2 * of_int k" by (simp add: cents_def field_simps)
  also have "\<dots> \<longleftrightarrow> (1 :: int) < 2 * k" by (metis of_int_1 of_int_less_iff of_int_mult of_int_numeral)
  finally show ?thesis by auto
qed

lemma aging_rows_sum:
  assumes "arap_ok d"
  shows "sum_list (map (money_of \<circ> ag_outstanding) (aging_rows d kind t)) =
    cents (\<Sum>x \<leftarrow> filter (open_on d kind t) (f_transactions d). ap_amount x - paid_by d t (ap_id x))"
proof -
  let ?rows = "\<lambda>xs. [\<lparr>ag_partner = ap_partner x, ag_code = bp_code b, ag_name = bp_name b, ag_due = ap_due x,
         ag_outstanding = cents_text (ap_amount x - paid_by d t (ap_id x))\<rparr>.
          x \<leftarrow> xs,
          ap_type x = kind \<and> ap_status x \<noteq> ARAPStatusVoid \<and> ap_date x \<le> t \<and> 0 < ap_amount x - paid_by d t (ap_id x),
          b \<leftarrow> (case partner_by_id d (ap_partner x) of None \<Rightarrow> [] | Some b \<Rightarrow> [b])]"
  have "sum_list (map (money_of \<circ> ag_outstanding) (?rows xs)) =
      cents (\<Sum>x \<leftarrow> filter (open_on d kind t) xs. ap_amount x - paid_by d t (ap_id x))" if "set xs \<subseteq> set (f_transactions d)" for xs
    using that
  proof (induction xs)
    case (Cons x xs)
    have "paid_ok d x" using assms Cons.prems unfolding arap_ok_def by simp
    then obtain b where "b \<in> set (f_partners d)" "bp_id b = ap_partner x" unfolding paid_ok_def by blast
    then obtain c where c: "partner_by_id d (ap_partner x) = Some c" by (cases "partner_by_id d (ap_partner x)") (auto simp: partner_by_id_def find_None_iff)
    show ?case using Cons by (cases "open_on d kind t x") (auto simp: open_on_def c cents_simps)
  qed (simp add: cents_simps)
  from this [OF subset_refl] show ?thesis
    unfolding aging_rows_def whole_cent_open by (metis (no_types, lifting) mset_map mset_sort sum_mset_sum_list)
qed

lemma aging_rows_cents: "r \<in> set (aging_rows d kind t) \<Longrightarrow> in_cents r"
  by (auto simp: aging_rows_def in_cents_def split: if_splits option.splits)

lemma foldl_sum: "foldl (\<lambda>g a. g + f a) x as = x + sum_list (map f as :: rat list)"
  by (induction as arbitrary: x) (simp_all add: add.assoc)

lemma money_of_buckets: "set bs \<subseteq> range cents \<Longrightarrow> (\<Sum>b \<leftarrow> bs. money_of (formatMoney b)) = sum_list bs"
  by (induction bs) auto

lemma sum_in_cents: "set bs \<subseteq> range cents \<Longrightarrow> sum_list bs \<in> range cents"
proof (induction bs)
  case Nil
  then show ?case using cents_simps(1) by (simp add: range_eqI [of 0 _ 0])
next
  case (Cons b bs)
  then obtain i j where "b = cents i" "sum_list bs = cents j" by auto
  then show ?case by (simp add: cents_simps(2) [symmetric])
qed

lemma aging_row_adds_up:
  assumes "aging_ok a"
  shows "map fst (agr_buckets (aging_response_row a)) = agingBucketLabels \<and>
    (\<Sum>b \<leftarrow> agr_buckets (aging_response_row a). money_of (snd b)) = money_of (agr_total (aging_response_row a))"
proof -
  have a: "length (aa_buckets a) = 5" "sum_list (aa_buckets a) = aa_total a" "set (aa_buckets a) \<subseteq> range cents"
    using assms unfolding aging_ok_def by blast+
  have l: "length agingBucketLabels = length (map formatMoney (aa_buckets a))" using a(1) by (simp add: agingBucketLabels_def)
  have "aa_total a \<in> range cents" using sum_in_cents [OF a(3)] unfolding a(2) .
  then obtain n where n: "aa_total a = cents n" by blast
  have "map (\<lambda>b. money_of (snd b)) (zip agingBucketLabels (map formatMoney (aa_buckets a))) =
      map money_of (map snd (zip agingBucketLabels (map formatMoney (aa_buckets a))))" by simp
  then have "(\<Sum>b \<leftarrow> zip agingBucketLabels (map formatMoney (aa_buckets a)). money_of (snd b)) = (\<Sum>b \<leftarrow> aa_buckets a. money_of (formatMoney b))"
    unfolding map_snd_zip [OF l] by (simp only: list.map_comp comp_def)
  then show ?thesis
    using map_fst_zip [OF l] by (simp add: aging_response_row_def n money_of_buckets [OF a(3)] a(2))
qed

lemma aging_report_Inr:
  assumes "ARAPService_AgingReport kind as_of e w = (Inr r, w')" "arap_type (TrimSpace kind) = Some k" "parseRequiredDate as_of = Inr t"
  shows "r = buildAgingReport (aging_rows (fw_db w) k t) t"
proof -
  obtain rows where "fin_tx (ARAP_AgingReport k t) e w = (Inr rows, w')" "r = buildAgingReport rows t"
    using assms by (auto simp: ARAPService_AgingReport_def fin_simps)
  then show ?thesis using fin_tx_Inr [of "ARAP_AgingReport k t"] by (simp add: ARAP_AgingReport_def fin_simps)
qed

text \<open>
  C37. The aging report adds up: each partner has one line, whose five buckets sum to its total, and the grand total is what is open on the
  day of all transactions of the kind: their amounts less what had been paid by then.
\<close>

theorem aging_adds_up:
  assumes "books_ok (fw_db w)" "ARAPService_AgingReport kind as_of e w = (Inr r, w')"
    and "arap_type (TrimSpace kind) = Some k" "parseRequiredDate as_of = Inr t"
  shows "distinct (map agr_partner (agp_rows r)) \<and>
    (\<forall>x \<in> set (agp_rows r). map fst (agr_buckets x) = agingBucketLabels \<and>
       (\<Sum>b \<leftarrow> agr_buckets x. money_of (snd b)) = money_of (agr_total x)) \<and>
    agp_grand_total r = cents_text (\<Sum>x \<leftarrow> filter (open_on (fw_db w) k t) (f_transactions (fw_db w)). ap_amount x - paid_by (fw_db w) t (ap_id x))"
proof -
  define accs where "accs = aging_accs (aging_rows (fw_db w) k t) t"
  have cents_rows: "\<forall>r \<in> set (aging_rows (fw_db w) k t). in_cents r" by (blast intro: aging_rows_cents)
  note facts = aging_accs_facts [OF cents_rows, of t, folded accs_def]
  have arap: "arap_ok (fw_db w)" using assms(1) unfolding books_ok_def by blast
  have r: "agp_rows r = map aging_response_row accs" "agp_grand_total r = formatMoney (sum_list (map aa_total accs))"
    using aging_report_Inr [OF assms(2-4)] by (simp_all add: buildAgingReport_def Let_def accs_def foldl_sum)
  have row: "map fst (agr_buckets (aging_response_row a)) = agingBucketLabels \<and>
      (\<Sum>b \<leftarrow> agr_buckets (aging_response_row a). money_of (snd b)) = money_of (agr_total (aging_response_row a))" if "a \<in> set accs" for a
  proof -
    have "aging_ok a" using facts(1) that unfolding list_all_iff by blast
    then show ?thesis by (rule aging_row_adds_up)
  qed
  have "map agr_partner (agp_rows r) = map aa_partner accs" by (simp add: r(1) aging_response_row_def)
  then have "distinct (map agr_partner (agp_rows r))" using facts(3) by simp
  moreover have "\<forall>x \<in> set (agp_rows r). map fst (agr_buckets x) = agingBucketLabels \<and>
      (\<Sum>b \<leftarrow> agr_buckets x. money_of (snd b)) = money_of (agr_total x)"
    using row unfolding r(1) set_map by blast
  moreover have "agp_grand_total r = cents_text (\<Sum>x \<leftarrow> filter (open_on (fw_db w) k t) (f_transactions (fw_db w)). ap_amount x - paid_by (fw_db w) t (ap_id x))"
    unfolding r(2) facts(2) aging_rows_sum [OF arap] by (rule FloatString2_cents)
  ultimately show ?thesis by blast
qed

lemma aging_adds_up_witness:
  "\<exists>r w'. ARAPService_AgingReport ''receivable'' ''2025-02-28'' fin_example_env fin_example_world = (Inr r, w') \<and>
     agp_grand_total r = cents_text 600000"
proof -
  have k: "arap_type (TrimSpace ''receivable'') = Some ARAPTransactionTypeReceivable"
    by (simp add: TrimSpace_graphic graphic_def arap_type_def)
  obtain r w' where r: "ARAPService_AgingReport ''receivable'' ''2025-02-28'' fin_example_env fin_example_world = (Inr r, w')"
    by (simp add: ARAPService_AgingReport_def k require_def example_february fin_tx_def Let_def ARAP_AgingReport_def comp_defs)
  have "paid_by fin_example_db 20147 (uid 102) = 400000"
    by (simp add: paid_by_def allocations_of_def example_collected_def)
  then have "agp_grand_total r = cents_text 600000"
    using aging_adds_up [OF _ r k example_february(2)]
    by (simp add: fin_example_world_def fin_example_books open_on_def example_bill_def)
  then show ?thesis using r by blast
qed

end
