(* ===== verification/FinTexts.thy ===== *)
theory FinTexts
  imports FinExample
begin

text \<open>
  Dates as texts and lists in pages: what the finance module prints it reads back, and its pages are
  the list, no row lost or shown twice.
\<close>

section \<open>Dates\<close>

lemma padded_digits: "list_all is_digit (zero_pad w (dec_nat n))"
  using zero_pad_digits [OF dec_nat_digits] by (simp add: list_all_iff)

lemma length_year_text: "0 \<le> y \<Longrightarrow> y \<le> 9999 \<Longrightarrow> length (year_text y) = 4"
  using length_dec_nat [of "nat y" 4] by (simp add: year_text_def)

lemma parse_ymd_parts:
  assumes "length a = 4" "length b = 2" "length c = 2" "list_all is_digit a" "list_all is_digit b" "list_all is_digit c"
    and "int (dec_value a) = Year t" "int (dec_value b) = Month t" "int (dec_value c) = Day t"
  shows "parse_ymd (a @ CHR ''-'' # b @ CHR ''-'' # c) = Some t"
proof -
  have nths: "(a @ CHR ''-'' # b @ CHR ''-'' # c) ! 4 = CHR ''-''" "(a @ CHR ''-'' # b @ CHR ''-'' # c) ! 7 = CHR ''-''"
    using assms(1,2) by (simp_all add: nth_append)
  have parts: "take 4 (a @ CHR ''-'' # b @ CHR ''-'' # c) = a" "take 2 (drop 5 (a @ CHR ''-'' # b @ CHR ''-'' # c)) = b"
      "drop 8 (a @ CHR ''-'' # b @ CHR ''-'' # c) = c"
    using assms(1-3) by simp_all
  show ?thesis
    unfolding parse_ymd_def nths parts Let_def assms(7-9)
    using assms(1-6) Month_bounds [of t] Day_bounds [of t] month_index [of t] by simp
qed

text \<open>
  C38. A date of the years 0 to 9999 that the module prints is read back as the same date: \<open>formatDate\<close> and \<open>parseRequiredDate\<close> are
  inverse to each other (the zero time, 1 January of the year 1, is printed as the empty text).
\<close>

theorem date_round_trip:
  assumes "0 \<le> Year t" "Year t \<le> 9999"
  shows "parse_ymd (ymd t) = Some t \<and> (formatDate t \<noteq> [] \<longrightarrow> parseRequiredDate (formatDate t) = Inr t)"
proof -
  have l: "length (year_text (Year t)) = 4" using assms by (rule length_year_text)
  have d: "Day t < 100" "1 \<le> Day t" "Month t < 100" "1 \<le> Month t"
    using Day_bounds [of t] dim_bounds(2) [of "month_of t"] Month_bounds [of t] by simp_all
  have two: "length (zero_pad 2 (dec_nat (nat (Month t)))) = 2" "length (zero_pad 2 (dec_nat (nat (Day t)))) = 2"
    by (rule two_digits_length; use d in simp)+
  have p: "parse_ymd (ymd t) = Some t"
    unfolding ymd_def append.simps
    by (rule parse_ymd_parts [OF l two]) (use d assms in \<open>simp_all add: padded_digits year_text_def\<close>)
  have "is_digit (last (ymd t))"
    using padded_digits [of 2 "nat (Day t)"] two(2) by (cases "zero_pad 2 (dec_nat (nat (Day t)))") (auto simp: ymd_def list_all_iff)
  moreover have "is_digit (hd (ymd t))" 
    using padded_digits [of 4 "nat (Year t)"] l assms by (cases "zero_pad 4 (dec_nat (nat (Year t)))") (auto simp: ymd_def year_text_def)
  ultimately have "TrimSpace (ymd t) = ymd t" by (intro TrimSpace_graphic) (auto simp: is_digit_def graphic_def ymd_def)
  then show ?thesis using p by (auto simp: formatDate_def parseRequiredDate_def Let_def)
qed

lemma date_round_trip_witness: "parse_ymd (ymd 20129) = Some 20129 \<and> parseRequiredDate (formatDate 20129) = Inr 20129"
  using date_round_trip [of 20129] by (simp add: formatDate_def at_midnight_def IsZero_def day_ns_def zero_time_def ymd_def)

section \<open>Pages\<close>

lemma normal_page:
  assumes "1 \<le> p" "1 \<le> n"
  shows "fin_page n ((p - 1) * n) xs = take (nat n) (drop (nat (p - 1) * nat n) xs)"
proof -
  have "\<not> (p - 1) * n < 0" using assms by (simp add: not_less)
  then show ?thesis using assms by (simp add: fin_page_def pagination_def nat_mult_distrib del: mult_less_0_iff)
qed

lemma concat_pages: "concat (map (\<lambda>i. take n (drop (i * n) xs)) [0..<k]) = take (k * n) xs"
proof (induction k)
  case (Suc k)
  have "take (Suc k * n) xs = take (k * n) xs @ take n (drop (k * n) xs)" by (metis add.commute mult_Suc take_add)
  then show ?case using Suc by simp
qed simp

text \<open>Inside 64 bits the offset and the number of pages are the plain ones; beyond them a page number wraps around to the first page.\<close>

lemma page_offset_exact:
  assumes "1 \<le> i" "1 \<le> n" "(i - 1) * n < 2 ^ 63"
  shows "page_offset i n = (i - 1) * n"
proof -
  have "0 \<le> (i - 1) * n" "i - 1 \<le> (i - 1) * n" using assms mult_left_mono [of 1 n "i - 1"] by simp_all
  then show ?thesis using assms unfolding page_offset_def by simp
qed

lemma totalPagesOf_exact:
  assumes "1 \<le> n" "n \<le> 200" "int (length xs) < 2 ^ 63 - 200"
  shows "totalPagesOf n (int (length xs)) = (if xs = [] then 0 else (int (length xs) + n - 1) div n)"
proof (cases "xs = []")
  case False
  then have "sgn (int (length xs) + n - 1) = 1" "sgn n = 1" using assms(1) by (simp_all add: Suc_le_eq sgn_1_pos flip: length_greater_0_conv)
  then show ?thesis using False assms unfolding totalPagesOf_def by (simp add: signed_divide_int_def)
qed (simp add: totalPagesOf_def)

lemma page_wraps: "fin_page 20 (page_offset 461168601842738792 20) xs = take 20 xs"
  by (simp add: page_offset_def int64_def fin_page_def pagination_def)

text \<open>
  C39. Paging shows every row exactly once: for any page size a request can ask for and any list shorter than 2^63 - 200 rows, the pages
  from the first to the last of the total number of pages it is told, one after the other, are the whole list, and the pages after
  that are empty, as far as their offset is below 2^63.
\<close>

theorem pages_are_the_list:
  assumes "normalizePage p per_page = (p', n)" "int (length xs) < 2 ^ 63 - 200"
  shows "1 \<le> p' \<and> 1 \<le> n \<and> n \<le> 200 \<and>
    concat (map (\<lambda>i. fin_page n (page_offset i n) xs) [1..totalPagesOf n (int (length xs))]) = xs \<and>
    (\<forall>i > totalPagesOf n (int (length xs)). (i - 1) * n < 2 ^ 63 \<longrightarrow> fin_page n (page_offset i n) xs = [])"
proof -
  have n: "1 \<le> p'" "1 \<le> n" "n \<le> 200" using assms(1) by (auto simp: normalizePage_def split: if_splits)
  define k where "k = totalPagesOf n (int (length xs))"
  have ks: "k = (if xs = [] then 0 else (int (length xs) + n - 1) div n)"
    unfolding k_def by (rule totalPagesOf_exact) (use n assms(2) in auto)
  have k: "0 \<le> k" "int (length xs) \<le> k * n"
  proof -
    have "int (length xs) + n - 1 - (int (length xs) + n - 1) mod n \<le> (int (length xs) + n - 1) div n * n"
      by (simp add: minus_mod_eq_div_mult [symmetric])
    moreover have "(int (length xs) + n - 1) mod n \<le> n - 1" using n by (simp add: pos_mod_bound)
    ultimately show "int (length xs) \<le> k * n" unfolding ks by auto
    show "0 \<le> k" using n by (simp add: ks pos_imp_zdiv_nonneg_iff)
  qed
  have "(int (length xs) + n - 1) div n * n \<le> int (length xs) + n - 1"
    unfolding minus_mod_eq_div_mult [symmetric] using Euclidean_Rings.pos_mod_sign [of n "int (length xs) + n - 1"] n by linarith
  then have "k * n \<le> int (length xs) + n - 1" using n by (simp add: ks)
  then have small: "(i - 1) * n < 2 ^ 63" if "i \<le> k" for i
  proof -
    have "i * n \<le> k * n" using that n by (intro mult_right_mono) simp_all
    then have "(i - 1) * n \<le> int (length xs) + n - 1 - n" using \<open>k * n \<le> int (length xs) + n - 1\<close> by (simp add: left_diff_distrib)
    then show ?thesis using assms(2) by linarith
  qed
  have offset: "page_offset i n = (i - 1) * n" if "1 \<le> i" "(i - 1) * n < 2 ^ 63" for i
    using that n by (intro page_offset_exact) auto
  have "nat (int (length xs)) \<le> nat (k * n)" using k(2) by (rule nat_mono)
  then have all: "length xs \<le> nat k * nat n" using k(1) n by (simp add: nat_mult_distrib)
  have "map (\<lambda>i. fin_page n (page_offset i n) xs) [1..k] = map (\<lambda>i. fin_page n ((i - 1) * n) xs) [1..k]"
    using offset small by (intro map_cong) auto
  moreover have "map (\<lambda>i. fin_page n ((i - 1) * n) xs) [1..k] = map (\<lambda>i. take (nat n) (drop (i * nat n) xs)) [0..<nat k]"
  proof (rule nth_equalityI)
    fix i assume "i < length (map (\<lambda>i. fin_page n ((i - 1) * n) xs) [1..k])"
    then have i: "1 + int i \<le> k" "0 + i < nat k" by simp_all
    note u = nth_upto [OF i(1)] nth_upt [OF i(2)]
    then show "map (\<lambda>i. fin_page n ((i - 1) * n) xs) [1..k] ! i = map (\<lambda>i. take (nat n) (drop (i * nat n) xs)) [0..<nat k] ! i"
      using normal_page [of "1 + int i" n xs] n i by (simp add: u)
  qed simp
  ultimately have "concat (map (\<lambda>i. fin_page n (page_offset i n) xs) [1..k]) = xs" using all by (simp add: concat_pages)
  moreover have "fin_page n (page_offset i n) xs = []" if "k < i" "(i - 1) * n < 2 ^ 63" for i
  proof -
    have "nat k \<le> nat (i - 1)" using that k(1) by simp
    then have "length xs \<le> nat (i - 1) * nat n" by (rule order_trans [OF all mult_le_mono1])
    then show ?thesis using normal_page [of i n xs] that k(1) n by (simp add: offset)
  qed
  ultimately show ?thesis using n unfolding k_def by blast
qed

lemma pages_are_the_list_witness:
  "concat (map (\<lambda>i. fin_page 20 (page_offset i 20) [1..45 :: int]) [1..totalPagesOf 20 45]) = [1..45]"
  using pages_are_the_list [of 0 0 1 20 "[1..45]"] by (simp add: normalizePage_def)

end
