(* ===== verification/Depreciation.thy ===== *)
theory Depreciation
  imports FinReports
begin

text \<open>
  Depreciation of fixed assets: the straight-line schedule as a closed formula, what it adds up to,
  and the posting of the rows that are due.
\<close>

section \<open>The schedule\<close>

text \<open>Hundredths depreciated after \<open>j\<close> of \<open>life\<close> months.\<close>

definition depreciated :: "int \<Rightarrow> int \<Rightarrow> int \<Rightarrow> int" where
  "depreciated base life j = round_cents (cents base * (rat_of_int j / rat_of_int life))"

lemma roundMoney_nonneg: "0 \<le> x \<Longrightarrow> roundMoney x = cents (round_cents x)"
  by (simp add: roundMoney_def FloatString2_nonneg)

lemma schedule_closed:
  assumes "0 \<le> base" "0 < life" "1 \<le> i"
  shows "schedule_from t (cents base) life i (cents (depreciated base life (i - 1))) =
    map (\<lambda>j. \<lparr>sa_number = j, sa_date = lastDayOfMonth (AddDate t 0 (j - 1) 0),
               sa_amount = cents_text (depreciated base life j - depreciated base life (j - 1))\<rparr>) [i..life]"
  using assms(3)
proof (induction "nat (life + 1 - i)" arbitrary: i)
  case 0
  then show ?case by (simp add: schedule_from.simps)
next
  case (Suc n)
  have r: "roundMoney (cents base * rat_of_int i / rat_of_int life) = cents (depreciated base life i)"
    using assms(1,2) Suc.prems unfolding depreciated_def times_divide_eq_right by (intro roundMoney_nonneg) simp
  have i: "\<not> i > life" using Suc.hyps(2) by simp
  have "schedule_from t (cents base) life (i + 1) (cents (depreciated base life i)) =
    map (\<lambda>j. \<lparr>sa_number = j, sa_date = lastDayOfMonth (AddDate t 0 (j - 1) 0),
               sa_amount = cents_text (depreciated base life j - depreciated base life (j - 1))\<rparr>) [i + 1..life]"
    using Suc.hyps(1) [of "i + 1"] Suc.hyps(2) Suc.prems by simp
  then show ?case using i by (subst schedule_from.simps) (simp add: r Let_def upto_rec1 cents_simps(3) [symmetric])
qed

lemma telescope: "i \<le> n + 1 \<Longrightarrow> (\<Sum>j \<leftarrow> [i..n]. f j - f (j - 1)) = f n - (f (i - 1) :: int)"
proof (induction "nat (n + 1 - i)" arbitrary: i)
  case (Suc k)
  have "(\<Sum>j \<leftarrow> [i + 1..n]. f j - f (j - 1)) = f n - f i" using Suc.hyps(1) [of "i + 1"] Suc.hyps(2) by simp
  then show ?case using Suc.hyps(2) by (simp add: upto_rec1)
qed simp

lemma depreciated_ends: "0 < life \<Longrightarrow> depreciated base life 0 = 0" "0 < life \<Longrightarrow> depreciated base life life = base"
  using round_cents_cents [of base] round_cents_cents [of 0] by (simp_all add: depreciated_def cents_simps(1))

lemma depreciated_mono: "0 \<le> base \<Longrightarrow> 0 < life \<Longrightarrow> 0 \<le> i \<Longrightarrow> i \<le> j \<Longrightarrow> depreciated base life i \<le> depreciated base life j"
  unfolding depreciated_def by (intro round_cents_mono mult_left_mono divide_right_mono) simp_all

lemma depreciated_share:
  assumes "0 \<le> base" "0 < life" "1 \<le> j"
  shows "\<bar>life * (depreciated base life j - depreciated base life (j - 1)) - base\<bar> < life"
proof -
  define x where "x = cents base * (rat_of_int j / rat_of_int life)"
  define y where "y = cents base * (rat_of_int (j - 1) / rat_of_int life)"
  define k where "k = depreciated base life j - depreciated base life (j - 1)"
  have life: "0 < rat_of_int life" using assms(2) by simp
  have "0 \<le> x" "0 \<le> y" using assms unfolding x_def y_def by simp_all
  then have "cents k < x - y + 1 / 100" "x - y - 1 / 100 < cents k"
    using round_cents_bounds [of x] round_cents_bounds [of y]
    unfolding k_def depreciated_def x_def [symmetric] y_def [symmetric] cents_simps(3) by linarith+
  moreover have "x - y = cents base / rat_of_int life" using life unfolding x_def y_def by (simp add: field_simps)
  ultimately have "\<bar>cents k - cents base / rat_of_int life\<bar> < 1 / 100" by linarith
  then have "\<bar>rat_of_int life * (cents k - cents base / rat_of_int life)\<bar> < rat_of_int life * (1 / 100)"
    using life unfolding abs_mult by simp
  moreover have "rat_of_int life * (cents k - cents base / rat_of_int life) = rat_of_int (life * k - base) / 100"
    using life by (simp add: cents_def field_simps)
  ultimately have "\<bar>rat_of_int (life * k - base)\<bar> < rat_of_int life" by simp
  then show ?thesis unfolding k_def by (metis of_int_abs of_int_less_iff)
qed

lemma lastDayOfMonth_eq: "lastDayOfMonth s = month_start (month_of s + 1) - 1"
proof -
  define m where "m = month_of s"
  have d: "1 \<le> dim m" using dim_bounds(1) [of m] by simp
  have "Date (Year s) (Month s) 1 = month_start m" unfolding Date_def month_index m_def by simp
  moreover have "month_of (month_start m) = m" using month_of_start [of 0 m] d by simp
  moreover from this have "Day (month_start m) = 1" by (simp add: Day_def)
  ultimately have "AddDate (Date (Year s) (Month s) 1) 0 1 0 = month_start (m + 1)"
    using month_index [of "month_start m"] by (simp add: AddDate_def Date_def algebra_simps)
  then show ?thesis by (simp add: lastDayOfMonth_def m_def)
qed

lemma schedule_month:
  assumes "Day t \<le> 28"
  shows "lastDayOfMonth (AddDate t 0 (j - 1) 0) = month_start (month_of t + j) - 1"
proof -
  have "AddDate t 0 (j - 1) 0 = month_start (month_of t + (j - 1)) + (Day t - 1)"
    using month_index [of t] by (simp add: AddDate_def Date_def algebra_simps)
  moreover have "0 \<le> Day t - 1" "Day t - 1 < dim (month_of t + (j - 1))"
    using assms Day_bounds(1) [of t] dim_bounds(1) [of "month_of t + (j - 1)"] by simp_all
  ultimately have m: "month_of (AddDate t 0 (j - 1) 0) = month_of t + (j - 1)" by simp
  then show ?thesis by (simp add: lastDayOfMonth_eq)
qed

text \<open>
  C34. The depreciation schedule of an asset whose cost and salvage value are whole hundredths has as many rows as its useful life has
  months, numbered from one; no amount is negative, each differs by less than a hundredth from the equal share, and together
  they are exactly the cost less the salvage value. When the asset was acquired on one of the first 28 days of a month, the rows fall on
  the last days of consecutive months, one each (after a later day a short month may be skipped).
\<close>

theorem schedule_adds_up:
  fixes t :: date
  assumes "salvage \<le> cost" "0 < life"
  defines "rows \<equiv> generateStraightLineSchedule t (cents cost) (cents salvage) life"
  shows "map sa_number rows = [1..life] \<and>
    (\<forall>r \<in> set rows. \<exists>k. sa_amount r = cents_text k \<and> 0 \<le> k \<and> \<bar>life * k - (cost - salvage)\<bar> < life) \<and>
    (\<Sum>r \<leftarrow> rows. money_of (sa_amount r)) = cents cost - cents salvage \<and>
    (Day t \<le> 28 \<longrightarrow> (\<forall>r \<in> set rows. sa_date r = month_start (month_of t + sa_number r) - 1))"
proof -
  define base where "base = cost - salvage"
  define D where "D = depreciated base life"
  have base: "0 \<le> base" using assms(1) by (simp add: base_def)
  have rows: "rows = map (\<lambda>j. \<lparr>sa_number = j, sa_date = lastDayOfMonth (AddDate t 0 (j - 1) 0),
      sa_amount = cents_text (D j - D (j - 1))\<rparr>) [1..life]"
    using schedule_closed [OF base assms(2), of 1 t] depreciated_ends(1) [OF assms(2), of base]
    by (simp add: rows_def generateStraightLineSchedule_def base_def D_def cents_simps)
  have "(\<Sum>j \<leftarrow> [1..life]. D j - D (j - 1)) = base"
    using telescope [of 1 life D] depreciated_ends [OF assms(2)] assms(2) by (simp add: D_def)
  then have "(\<Sum>r \<leftarrow> rows. money_of (sa_amount r)) = cents base"
    by (simp add: rows comp_def sum_cents)
  moreover have "0 \<le> D j - D (j - 1) \<and> \<bar>life * (D j - D (j - 1)) - base\<bar> < life" if "1 \<le> j" for j
    using depreciated_mono [OF base assms(2), of "j - 1" j] depreciated_share [OF base assms(2) that] that by (simp add: D_def)
  ultimately show ?thesis
    by (auto simp: rows comp_def base_def cents_simps schedule_month)
qed

lemma schedule_adds_up_witness:
  "map sa_number (generateStraightLineSchedule 20124 (cents 100000) (cents 0) 3) = [1, 2, 3] \<and>
   (\<Sum>r \<leftarrow> generateStraightLineSchedule 20124 (cents 100000) (cents 0) 3. money_of (sa_amount r)) = cents 100000"
  using schedule_adds_up [of 0 100000 3 20124] by (simp add: upto_rec1 cents_simps(1))

text \<open>Acquired on a 31st, the schedule leaves out the short months: two rows end in March, none in February.\<close>

lemma schedule_skips_february:
  "map sa_date (generateStraightLineSchedule (Date 2025 1 31) (cents 300) (cents 0) 3) = [Date 2025 1 31, Date 2025 3 31, Date 2025 3 31]"
proof -
  have m: "month_of 20119 = 24300" "month_of 20150 = 24302" "month_of 20178 = 24302"
    by (rule month_of_unique; simp add: month_start_def year_start_def Let_def)+
  have d: "Date 2025 1 31 = 20119" by (simp add: Date_def month_start_def year_start_def)
  have "AddDate 20119 0 1 0 = 20150" "AddDate 20119 0 2 0 = 20178"
    by (simp_all add: AddDate_def Year_def Month_def Day_def m Date_def) (simp_all add: month_start_def year_start_def Let_def)
  then show ?thesis
    using schedule_closed [of 300 3 1 "Date 2025 1 31"] depreciated_ends(1) [of 3 300]
    by (simp add: generateStraightLineSchedule_def cents_simps(1) upto_rec1 lastDayOfMonth_eq d m)
       (simp add: Date_def month_start_def year_start_def Let_def)
qed

section \<open>What a batch leaves behind\<close>

text \<open>Posting changes schedules in nothing but their status, entry and time, and only from pending to posted.\<close>

definition due_core :: "depreciation_row \<Rightarrow> string \<times> string \<times> date \<times> int" where
  "due_core s = (dp_id s, dp_asset s, dp_date s, dp_amount s)"

definition only_posts :: "fdb \<Rightarrow> fdb \<Rightarrow> bool" where
  "only_posts d d' \<longleftrightarrow> f_assets d' = f_assets d \<and> f_asset_categories d' = f_asset_categories d \<and>
     list_all2 (\<lambda>s s'. due_core s' = due_core s \<and> (dp_status s' = dp_status s \<or> dp_status s' = DepreciationStatusPosted))
       (f_schedules d) (f_schedules d')"

interpretation posting: ledger_effect "\<lambda>_. True" only_posts
proof
  show "only_posts d d" for d by (simp add: only_posts_def list_all2_same)
  show "only_posts a c" if "only_posts a b" "only_posts b c" for a b c
  proof -
    have "list_all2 (\<lambda>s s'. due_core s' = due_core s \<and> (dp_status s' = dp_status s \<or> dp_status s' = DepreciationStatusPosted)) (f_schedules a) (f_schedules c)"
      by (rule list_all2_trans [OF _ that(1) [unfolded only_posts_def, THEN conjunct2, THEN conjunct2]
            that(2) [unfolded only_posts_def, THEN conjunct2, THEN conjunct2]]) auto
    then show ?thesis using that unfolding only_posts_def by simp
  qed
qed simp

lemma InsertJournalEntryTx_same:
  assumes "InsertJournalEntryTx q e d = (Inr i, d')"
  shows "f_schedules d' = f_schedules d" "f_assets d' = f_assets d" "f_asset_categories d' = f_asset_categories d"
  by (rule InsertJournalEntryTx_Inr [OF assms]; simp add: enters_same)+

lemma depreciation_only_posts:
  assumes "depreciation_tx r number actor e d = (Inr u, d')"
  shows "only_posts d d'"
  using assms
proof (cases rule: depreciation_tx_Inr)
  case (1 q entry d1 i)
  then show ?thesis
    using InsertJournalEntryTx_same [OF 1(1)]
    by (simp add: only_posts_def update_where_def list_all2_map2 list_all2_same due_core_def)
qed

lemma post_rows_only_posts: "fio_pre (\<lambda>_. True) only_posts (post_rows actor rows)"
  by (induction rows)
     (auto simp: postOneDepreciationRow_def
       intro!: posting.basics posting.attempt posting.chain posting.number posting.fin_tx depreciation_only_posts)

definition posted_row :: "fdb \<Rightarrow> string \<Rightarrow> bool" where
  "posted_row d i \<longleftrightarrow> (\<exists>s \<in> set (f_schedules d). dp_id s = i \<and> dp_status s = DepreciationStatusPosted)"

lemma only_posts_posted: "only_posts d d' \<Longrightarrow> posted_row d i \<Longrightarrow> posted_row d' i"
  unfolding only_posts_def posted_row_def due_core_def by (auto dest!: list_all2_conv_all_nth [THEN iffD1] simp: in_set_conv_nth) (metis nth_mem)

lemma postOne_posts:
  assumes "postOneDepreciationRow r actor e w = (Inr u, w')" "fin_env_ok e" "canonical_uuid (pd_schedule r)" "scheduled (fw_db w) r"
  shows "posted_row (fw_db w') (pd_schedule r)"
  using assms(1) unfolding postOneDepreciationRow_def
proof (cases rule: numbered_chain)
  case (passed n w1)
  have "depreciation_tx r n actor e (fw_db w) = (Inr u, fw_db w')" using fin_tx_Inr [OF passed(2)] passed(1) by simp
  then show ?thesis
  proof (cases rule: depreciation_tx_Inr)
    case (1 q entry d1 i)
    obtain s where s: "s \<in> set (f_schedules (fw_db w))" "pd_schedule r = dp_id s" using assms(4) unfolding scheduled_def by blast
    have "i = pd_schedule r" using 1(5) fin_env_okD(3) [OF assms(2,3)] by simp
    then have "s\<lparr>dp_status := DepreciationStatusPosted, dp_entry := Some entry, dp_posted_at := Some (e_now e)\<rparr> \<in> set (f_schedules (fw_db w'))"
      using InsertJournalEntryTx_same(1) [OF 1(1)] s 1(6) by (simp add: set_update_where)
    then show ?thesis unfolding posted_row_def s(2) by (rule bexI [rotated]) simp
  qed
qed simp

lemma post_rows_result:
  assumes "post_rows actor rows e w = (res, w')" "fin_env_ok e" "books_due rs (fw_db w)" "set rows \<subseteq> rs"
    and "\<forall>r \<in> rs. canonical_uuid (pd_schedule r)"
  shows "\<exists>items. res = Inr items \<and> map dr_schedule items = map pd_schedule rows \<and>
    (\<forall>x \<in> set items. dr_failure x = None \<longrightarrow> posted_row (fw_db w') (dr_schedule x))"
  using assms(1,3,4)
proof (induction rows arbitrary: w res w')
  case Nil
  then show ?case by (simp add: comp_defs)
next
  case (Cons r rows)
  obtain x w1 where x: "postOneDepreciationRow r actor e w = (x, w1)" by fastforce
  obtain res1 w2 where rest: "post_rows actor rows e w1 = (res1, w2)" by fastforce
  have due: "books_due rs (fw_db w1)" by (rule due.after [OF postOne_due x assms(2) Cons.prems(2)]) (use Cons.prems(3) in simp)
  obtain items where items: "res1 = Inr items" "map dr_schedule items = map pd_schedule rows"
      "\<And>y. y \<in> set items \<Longrightarrow> dr_failure y = None \<Longrightarrow> posted_row (fw_db w2) (dr_schedule y)"
    using Cons.IH [OF rest due] Cons.prems(3) by auto
  have w': "res = Inr (post_result r x # items)" "w' = w2"
    using Cons.prems(1) x rest items(1) by (simp_all add: attempt_def chain_def ret_def)
  have "posted_row (fw_db w2) (pd_schedule r)" if u: "x = Inr u" for u
  proof -
    have "scheduled (fw_db w) r" "canonical_uuid (pd_schedule r)" using Cons.prems(2,3) assms(5) unfolding books_due_def by auto
    then have "posted_row (fw_db w1) (pd_schedule r)" using postOne_posts x u assms(2) by blast
    then show ?thesis using fio_preD [OF post_rows_only_posts assms(2), of w1 actor rows] rest only_posts_posted by simp
  qed
  then show ?case using w' items by (auto simp: post_result_def split: sum.splits)
qed

lemma pending_rows_due:
  "p \<in> set (pending_rows d t) \<longleftrightarrow>
     (\<exists>s \<in> set (f_schedules d). dp_status s = DepreciationStatusPending \<and> dp_date s \<le> t \<and>
       (\<exists>a c. asset_by_id d (dp_asset s) = Some a \<and> List.find (\<lambda>c. fc_id c = fa_category a) (f_asset_categories d) = Some c \<and>
          p = \<lparr>pd_schedule = dp_id s, pd_asset = dp_asset s, pd_code = fa_code a, pd_date = dp_date s, pd_amount = cents_text (dp_amount s),
               pd_expense = fc_expense c, pd_accumulated = fc_accumulated c\<rparr>))"
  unfolding pending_rows_def by (force split: option.splits)

lemma only_posts_pending:
  assumes "only_posts d d'"
  shows "set (pending_rows d' t) \<subseteq> set (pending_rows d t)"
proof
  fix p assume "p \<in> set (pending_rows d' t)"
  then obtain s' a c where s': "s' \<in> set (f_schedules d')" "dp_status s' = DepreciationStatusPending" "dp_date s' \<le> t"
      "asset_by_id d' (dp_asset s') = Some a" "List.find (\<lambda>c. fc_id c = fa_category a) (f_asset_categories d') = Some c"
      "p = \<lparr>pd_schedule = dp_id s', pd_asset = dp_asset s', pd_code = fa_code a, pd_date = dp_date s', pd_amount = cents_text (dp_amount s'),
               pd_expense = fc_expense c, pd_accumulated = fc_accumulated c\<rparr>"
    unfolding pending_rows_due by blast
  have "list_all2 (\<lambda>s s'. due_core s' = due_core s \<and> (dp_status s' = dp_status s \<or> dp_status s' = DepreciationStatusPosted)) (f_schedules d) (f_schedules d')"
    using assms unfolding only_posts_def by blast
  moreover obtain i where "i < length (f_schedules d')" "s' = f_schedules d' ! i" using s'(1) by (auto simp: in_set_conv_nth)
  ultimately have "f_schedules d ! i \<in> set (f_schedules d) \<and> due_core s' = due_core (f_schedules d ! i) \<and>
      dp_status (f_schedules d ! i) = DepreciationStatusPending"
    using s'(2) by (simp add: list_all2_conv_all_nth) (metis DepreciationStatus.distinct nth_mem)
  then show "p \<in> set (pending_rows d t)"
    using s' assms unfolding pending_rows_due only_posts_def due_core_def asset_by_id_def by auto
qed

lemma pending_row_pending:
  assumes "p \<in> set (pending_rows d t)" "distinct (map dp_id (f_schedules d))"
  shows "\<not> posted_row d (pd_schedule p)"
proof
  assume "posted_row d (pd_schedule p)"
  then obtain s where s: "s \<in> set (f_schedules d)" "dp_id s = pd_schedule p" "dp_status s = DepreciationStatusPosted"
    unfolding posted_row_def by blast
  obtain s' where "s' \<in> set (f_schedules d)" "pd_schedule p = dp_id s'" "dp_status s' = DepreciationStatusPending"
    using assms(1) by (rule pending_rows_row)
  then show False using key_unique [OF assms(2)] s by (metis DepreciationStatus.distinct(1))
qed

lemma nothing_pending:
  assumes "only_posts d d'" "books_ok d'" "\<And>p. p \<in> set (pending_rows d t) \<Longrightarrow> posted_row d' (pd_schedule p)"
  shows "pending_rows d' t = []"
proof (rule ccontr)
  assume "pending_rows d' t \<noteq> []"
  then obtain p where p: "p \<in> set (pending_rows d' t)" by (cases "pending_rows d' t") auto
  have "distinct (map dp_id (f_schedules d'))" using assms(2) unfolding books_ok_def keys_ok_def by blast
  then show False using pending_row_pending [OF p] assms(3) only_posts_pending [OF assms(1)] p by blast
qed

lemma posting_call:
  assumes "FixedAssetService_PostDepreciation as_of actor e w = (Inr r, w')" "parseRequiredDate as_of = Inr t"
  obtains items w1 where "fw_db w1 = fw_db w" "post_rows (trimmedOrNil actor) (pending_rows (fw_db w) t) e w1 = (Inr items, w')"
    "r = \<lparr>pdr_posted = length (filter (\<lambda>x. dr_failure x = None) items),
        pdr_failed = length (filter (\<lambda>x. dr_failure x \<noteq> None) items), pdr_items = items\<rparr>"
proof -
  obtain items rs w1 where s: "fin_tx (get id (\<lambda>d. ret (pending_rows d t))) e w = (Inr rs, w1)"
      "post_rows (trimmedOrNil actor) rs e w1 = (Inr items, w')"
      "r = \<lparr>pdr_posted = length (filter (\<lambda>x. dr_failure x = None) items),
        pdr_failed = length (filter (\<lambda>x. dr_failure x \<noteq> None) items), pdr_items = items\<rparr>"
    using assms unfolding FixedAssetService_PostDepreciation_def PostDepreciationThroughDate_def fin_simps by auto
  have "rs = pending_rows (fw_db w) t" "fw_db w1 = fw_db w" using fin_tx_Inr [OF s(1)] by (simp_all add: fin_simps)
  then show thesis using that s by blast
qed

lemma pending_rows_canonical: "books_ok d \<Longrightarrow> p \<in> set (pending_rows d t) \<Longrightarrow> canonical_uuid (pd_schedule p)"
  using books_okD by (metis pending_rows_row schedule_ok_def)

lemma pending_books_due: "books_ok (fw_db w) \<Longrightarrow> fw_db w1 = fw_db w \<Longrightarrow> books_due (set (pending_rows (fw_db w) t)) (fw_db w1)"
  using pending_rows_scheduled unfolding books_due_def by simp

text \<open>
  C36. Posting what is due answers for exactly the rows that were due, in their order, whatever happens to single rows; a row it
  reports as posted is posted, the counts add up, and when no row failed nothing up to that day is pending any more, so that
  posting again finds nothing to do.
\<close>

theorem posting_outcome:
  assumes "books_ok (fw_db w)" "fin_env_ok e" "parseRequiredDate as_of = Inr t"
    and "FixedAssetService_PostDepreciation as_of actor e w = (Inr r, w')"
  shows "map dr_schedule (pdr_items r) = map pd_schedule (pending_rows (fw_db w) t) \<and>
    pdr_posted r + pdr_failed r = length (pdr_items r) \<and>
    (\<forall>x \<in> set (pdr_items r). dr_failure x = None \<longrightarrow> posted_row (fw_db w') (dr_schedule x)) \<and>
    (pdr_failed r = 0 \<longrightarrow> pending_rows (fw_db w') t = [])"
proof -
  define rows where "rows = pending_rows (fw_db w) t"
  obtain items w1 where w1: "fw_db w1 = fw_db w" and items: "post_rows (trimmedOrNil actor) rows e w1 = (Inr items, w')"
    and r: "r = \<lparr>pdr_posted = length (filter (\<lambda>x. dr_failure x = None) items),
        pdr_failed = length (filter (\<lambda>x. dr_failure x \<noteq> None) items), pdr_items = items\<rparr>"
    using posting_call [OF assms(4,3)] unfolding rows_def .
  have posted: "map dr_schedule items = map pd_schedule rows" "\<And>x. x \<in> set items \<Longrightarrow> dr_failure x = None \<Longrightarrow> posted_row (fw_db w') (dr_schedule x)"
    using post_rows_result [OF items assms(2) pending_books_due [OF assms(1) w1, of t]] pending_rows_canonical [OF assms(1)]
    unfolding rows_def by auto
  have "pending_rows (fw_db w') t = []" if none: "\<forall>x \<in> set items. dr_failure x = None"
  proof (rule nothing_pending [of "fw_db w"])
    show "only_posts (fw_db w) (fw_db w')"
      using fio_preD [OF post_rows_only_posts assms(2), of w1 "trimmedOrNil actor" rows] items w1 by simp
    show "books_ok (fw_db w')" using ledger.after [OF depreciation_books assms(4) assms(2,1)] .
    fix p assume "p \<in> set (pending_rows (fw_db w) t)"
    then have "pd_schedule p \<in> set (map dr_schedule items)" unfolding posted(1) rows_def by simp
    then show "posted_row (fw_db w') (pd_schedule p)" using posted(2) none by auto
  qed
  then show ?thesis
    using posted sum_length_filter_compl [of "\<lambda>x. dr_failure x = None" items] unfolding r rows_def
    by (auto simp: filter_empty_conv)
qed

text \<open>On the example, the row of March is due at the end of March.\<close>

lemma example_march: "parseRequiredDate ''2025-03-31'' = Inr 20178"
proof -
  have "parse_ymd ''2025-03-31'' = Some 20178"
    by (simp add: parse_ymd_def is_digit_def dec_value_def char_digit_def Let_def Date_def month_start_def year_start_def dim_def)
  then show ?thesis by (simp add: parseRequiredDate_def TrimSpace_graphic graphic_def)
qed

definition example_due :: pending_row where
  "example_due =
     \<lparr>pd_schedule = uid 107, pd_asset = uid 106, pd_code = ''M1'', pd_date = 20152, pd_amount = cents_text 1000000,
      pd_expense = uid 7, pd_accumulated = uid 6\<rparr>"

lemma example_pending: "pending_rows fin_example_db 20178 = [example_due]"
  by (simp add: pending_rows_def asset_by_id_def example_schedule_def example_machine_def example_category_def example_due_def)

lemma posting_example:
  "\<exists>r w'. FixedAssetService_PostDepreciation ''2025-03-31'' [] fin_example_env fin_example_world = (Inr r, w')"
  by (simp add: FixedAssetService_PostDepreciation_def PostDepreciationThroughDate_def example_march example_pending fin_tx_def Let_def
      comp_defs fin_example_world_def split: prod.split)

lemma posting_outcome_witness:
  "\<exists>r w'. FixedAssetService_PostDepreciation ''2025-03-31'' [] fin_example_env fin_example_world = (Inr r, w') \<and>
     map dr_schedule (pdr_items r) = [uid 107] \<and> pdr_posted r + pdr_failed r = 1"
proof -
  obtain r w' where r: "FixedAssetService_PostDepreciation ''2025-03-31'' [] fin_example_env fin_example_world = (Inr r, w')"
    using posting_example by blast
  have "map dr_schedule (pdr_items r) = [uid 107] \<and> pdr_posted r + pdr_failed r = length (pdr_items r)"
    using posting_outcome [OF _ fin_example_env_ok example_march r]
    by (simp add: fin_example_world_def fin_example_books example_pending example_due_def)
  moreover from this have "length (pdr_items r) = 1" using length_map [of dr_schedule "pdr_items r"] by simp
  ultimately show ?thesis using r by simp
qed

end
