(* ===== verification/Posting.thy ===== *)
theory Posting
  imports Depreciation
begin

text \<open>
  When posting depreciation succeeds: a journal entry of two lines goes through whenever its period
  is open, its accounts exist and the database hands out unused identifiers, so nothing that is due
  stays behind.
\<close>

section \<open>What the database has to provide\<close>

text \<open>Identifiers and numbers for \<open>m\<close> more entries of two lines.\<close>

definition supplied :: "nat \<Rightarrow> env \<Rightarrow> fworld \<Rightarrow> bool" where
  "supplied m e w \<longleftrightarrow>
     (let d = fw_db w; ids = {f_next d ..< f_next d + 3 * m} in
      fw_seq w + m < 10 ^ 6 \<and> inj_on (e_uuid e) ids \<and>
      e_uuid e ` ids \<inter> (je_id ` set (f_entries d) \<union> jl_id ` set (f_lines d) \<union> jl_entry ` set (f_lines d)) = {} \<and>
      (\<forall>y. \<forall>k \<in> {fw_seq w <.. fw_seq w + m}. entry_number y k \<notin> je_number ` set (f_entries d)))"

definition known_actor :: "env \<Rightarrow> string option \<Rightarrow> bool" where
  "known_actor e v \<longleftrightarrow>
     (case nullableUUID v of None \<Rightarrow> True | Some s \<Rightarrow> (\<exists>u. e_uuid_in e s = Some u \<and> e_users e u))"

text \<open>A due row that can be entered: an open period, known accounts, and a positive amount.\<close>

definition postable :: "env \<Rightarrow> fdb \<Rightarrow> pending_row \<Rightarrow> bool" where
  "postable e d r \<longleftrightarrow>
     0 \<le> Year (pd_date r) \<and> Year (pd_date r) < 10 ^ 4 \<and>
     (\<exists>p. query_row (covers (pd_date r)) (f_periods d) = Inr p \<and> fp_status p \<noteq> FiscalStatusClosed) \<and>
     (\<forall>i \<in> {pd_schedule r, pd_asset r, pd_expense r, pd_accumulated r}. canonical_uuid i) \<and>
     pd_expense r \<in> gl_id ` set (f_accounts d) \<and> pd_accumulated r \<in> gl_id ` set (f_accounts d) \<and>
     (\<exists>k. numeric_in (10 ^ 18) e (amountOrZero (pd_amount r)) = Inr k \<and> 0 < k) \<and>
     numeric_in (10 ^ 18) e ''0'' = Inr 0"

lemma canonical_TrimSpace: "canonical_uuid s \<Longrightarrow> TrimSpace s = s \<and> s \<noteq> []"
proof -
  assume "canonical_uuid s"
  then obtain a b c d f where s: "s = a @ ''-'' @ b @ ''-'' @ c @ ''-'' @ d @ ''-'' @ f" "length a = 8" "length f = 12"
      "list_all hex_char (a @ b @ c @ d @ f)"
    unfolding canonical_uuid_def by blast
  have g: "graphic x" if "hex_char x" for x using that by (auto simp: hex_char_def is_digit_def graphic_def)
  have "a \<noteq> []" "f \<noteq> []" using s(2,3) by auto
  then have "s \<noteq> []" "hd s = hd a" "last s = last f" "hd a \<in> set a" "last f \<in> set f" by (simp_all add: s(1))
  then show ?thesis using s(4) g TrimSpace_graphic [of s] by (simp add: list_all_iff)
qed

lemma entry_number_length:
  assumes "0 \<le> y" "y < 10 ^ 4" "k < 10 ^ 6"
  shows "RuneCount (entry_number y k) \<le> 40"
proof -
  have "length (dec_int y) \<le> 4" using assms(1,2) length_dec_nat [of "nat y" 4] by (simp add: dec_int_def nat_less_iff)
  moreover have "length (dec_pad 6 (int k)) = 6" using assms(3) by (intro length_dec_pad) simp_all
  ultimately have "length (entry_number y k) \<le> 40" by (simp add: entry_number_def)
  then show ?thesis using RuneCount_le_length order_trans by blast
qed

lemma entry_number_differs:
  assumes "j < 10 ^ 6" "k < 10 ^ 6" "entry_number x j = entry_number y k"
  shows "j = k"
proof -
  have "length (dec_pad 6 (int j)) = 6" "length (dec_pad 6 (int k)) = 6" using assms(1,2) by (simp_all add: length_dec_pad)
  then have "dec_pad 6 (int j) = dec_pad 6 (int k)"
    using assms(3) append_eq_append_conv [of "dec_pad 6 (int j)" "dec_pad 6 (int k)" "''JE-'' @ dec_int x @ ''-''" "''JE-'' @ dec_int y @ ''-''"]
    by (simp add: entry_number_def)
  then show ?thesis using dec_pad_inject [of "int j" "int k" 6] by simp
qed

section \<open>An entry of two lines\<close>

lemma put_line_done:
  assumes "f_next d = n" "e_uuid e n \<notin> jl_id ` set (f_lines d)" "account \<in> gl_id ` set (f_accounts d)"
    and "\<forall>l \<in> set (f_lines d). \<not> (jl_entry l = entry \<and> jl_number l = number)"
    and "0 \<le> debit" "0 \<le> credit" "debit = 0 \<or> credit = 0" "0 < debit + credit"
  shows "\<exists>l. put_line entry number account debit credit t sub i e d = (Inr (), d\<lparr>f_next := Suc n, f_lines := f_lines d @ [l]\<rparr>) \<and>
    jl_id l = e_uuid e n \<and> jl_entry l = entry \<and> jl_number l = number"
proof -
  have "\<not> (0 < debit \<and> 0 < credit)" using assms(7) by auto
  then show ?thesis
    unfolding put_line_def guards.simps using assms
    by (simp add: fresh_id_def account_ref_def comp_defs image_iff) (rule exI, intro conjI, rule refl, simp_all)
qed

lemma insert_entry_done:
  assumes "f_next d = n" "e_uuid e n \<notin> je_id ` set (f_entries d)" "number \<notin> je_number ` set (f_entries d)"
    and "RuneCount number \<le> 40" "RuneCount reference \<le> 150" "case created_by of None \<Rightarrow> True | Some u \<Rightarrow> e_users e u"
  shows "\<exists>j. insert_entry number t period source i reference text created_by e d =
    (Inr (e_uuid e n), d\<lparr>f_next := Suc n, f_entries := f_entries d @ [j]\<rparr>) \<and> je_id j = e_uuid e n \<and> je_number j = number"
  unfolding insert_entry_def using assms by (simp add: fresh_id_def user_ref_def varchar_def comp_defs) (rule exI, intro conjI, rule refl, simp_all)

lemma open_period_done:
  "query_row (covers t) (f_periods d) = Inr p \<Longrightarrow> fp_status p \<noteq> FiscalStatusClosed \<Longrightarrow> open_period t e d = (Inr (fp_id p), d)"
  by (simp add: open_period_def comp_defs)

lemma uuid_null_done: "known_actor e v \<Longrightarrow>
  \<exists>u. uuid_null (nullableUUID v) e d = (Inr u, d) \<and> (case u of None \<Rightarrow> True | Some i \<Rightarrow> e_users e i)"
  by (auto simp: known_actor_def uuid_null_def uuid_arg_def comp_defs split: option.splits)

text \<open>What entering one due row does to the tables.\<close>

definition row_entered :: "env \<Rightarrow> string \<Rightarrow> fdb \<Rightarrow> fdb \<Rightarrow> bool" where
  "row_entered e number d d' \<longleftrightarrow>
     f_next d' = f_next d + 3 \<and> f_accounts d' = f_accounts d \<and> f_periods d' = f_periods d \<and>
     je_id ` set (f_entries d') = insert (e_uuid e (f_next d)) (je_id ` set (f_entries d)) \<and>
     je_number ` set (f_entries d') = insert number (je_number ` set (f_entries d)) \<and>
     jl_id ` set (f_lines d') = {e_uuid e (f_next d + 1), e_uuid e (f_next d + 2)} \<union> jl_id ` set (f_lines d) \<and>
     jl_entry ` set (f_lines d') = insert (e_uuid e (f_next d)) (jl_entry ` set (f_lines d))"

lemma insert_line_put:
  assumes "e_uuid_in e (lp_account l) = Some a" "numeric_in (10 ^ 18) e (amountOrZero (lp_debit l)) = Inr x"
    and "numeric_in (10 ^ 18) e (amountOrZero (lp_credit l)) = Inr y" "uuid_null (nullableUUID (lp_subledger_id l)) e d = (Inr s, d)"
  shows "insert_line i n l e d = put_line i n a x y (lp_description l) (subledgerTypeOrDefault (lp_subledger l)) s e d"
  using assms by (simp add: insert_line_def uuid_arg_def money_arg_def comp_defs)

lemma depreciation_lines_done:
  assumes "postable e d r" "fin_env_ok e"
    and n: "f_next d = n" "e_uuid e n \<notin> jl_id ` set (f_lines d)" "e_uuid e (Suc n) \<notin> insert (e_uuid e n) (jl_id ` set (f_lines d))"
      "i \<notin> jl_entry ` set (f_lines d)"
  shows "\<exists>l l'. insert_lines i 1 (depreciation_lines r) e d = (Inr (), d\<lparr>f_next := n + 2, f_lines := f_lines d @ [l, l']\<rparr>) \<and>
    jl_id l = e_uuid e n \<and> jl_id l' = e_uuid e (Suc n) \<and> jl_entry l = i \<and> jl_entry l' = i"
proof -
  obtain k where k: "numeric_in (10 ^ 18) e (amountOrZero (pd_amount r)) = Inr k" "0 < k" "numeric_in (10 ^ 18) e ''0'' = Inr 0"
    using assms(1) unfolding postable_def by blast
  have zero: "amountOrZero [] = ''0''" by (simp add: amountOrZero_def)
  have ids: "e_uuid_in e (pd_expense r) = Some (pd_expense r)" "e_uuid_in e (pd_accumulated r) = Some (pd_accumulated r)"
      "nullableUUID (Some (pd_asset r)) = Some (pd_asset r)" "e_uuid_in e (pd_asset r) = Some (pd_asset r)"
    using assms(1) fin_env_okD(3) [OF assms(2)] canonical_TrimSpace unfolding postable_def by (auto simp: nullableUUID_def)
  have accounts: "pd_expense r \<in> gl_id ` set (f_accounts d)" "pd_accumulated r \<in> gl_id ` set (f_accounts d)"
    using assms(1) unfolding postable_def by blast+
  obtain l where l: "put_line i 1 (pd_expense r) k 0 [] SubledgerNone None e d = (Inr (), d\<lparr>f_next := Suc n, f_lines := f_lines d @ [l]\<rparr>)"
      "jl_id l = e_uuid e n" "jl_entry l = i" "jl_number l = 1"
    using put_line_done [of d n e "pd_expense r" i 1 k 0 "[]" SubledgerNone None] n accounts(1) k(2) by force
  define d1 where "d1 = d\<lparr>f_next := Suc n, f_lines := f_lines d @ [l]\<rparr>"
  have other: "jl_entry x \<noteq> i" if "x \<in> set (f_lines d)" for x using n(4) that by blast
  have p: "f_next d1 = Suc n" "e_uuid e (Suc n) \<notin> jl_id ` set (f_lines d1)" "pd_accumulated r \<in> gl_id ` set (f_accounts d1)"
      "\<forall>x \<in> set (f_lines d1). \<not> (jl_entry x = i \<and> jl_number x = 2)"
    using n(2,3) other accounts(2) l(2-4) by (auto simp: d1_def)
  obtain l' where l': "put_line i 2 (pd_accumulated r) 0 k [] SubledgerAsset (Some (pd_asset r)) e d1 =
        (Inr (), d1\<lparr>f_next := Suc (Suc n), f_lines := f_lines d1 @ [l']\<rparr>)" "jl_id l' = e_uuid e (Suc n)" "jl_entry l' = i"
    using put_line_done [OF p, where debit = 0 and credit = k and t = "[]" and sub = SubledgerAsset and i = "Some (pd_asset r)"] k(2) by auto
  have "insert_line i 1 (debit_line (pd_expense r) (pd_amount r)) e d = (Inr (), d1)"
    using insert_line_put [of e "debit_line (pd_expense r) (pd_amount r)" "pd_expense r" k 0 d None i 1] ids(1) k zero l(1)
    by (simp add: debit_line_def nullableUUID_def uuid_null_def ret_def subledgerTypeOrDefault_def d1_def)
  moreover have "insert_line i 2 (control_line (pd_accumulated r) [] (pd_amount r) SubledgerAsset (pd_asset r)) e d1 =
      (Inr (), d1\<lparr>f_next := Suc (Suc n), f_lines := f_lines d1 @ [l']\<rparr>)"
    using insert_line_put [of e "control_line (pd_accumulated r) [] (pd_amount r) SubledgerAsset (pd_asset r)" "pd_accumulated r" 0 k d1
        "Some (pd_asset r)" i 2] ids(2-4) k zero l'(1)
    by (simp add: control_line_def uuid_null_def uuid_arg_def comp_defs subledgerTypeOrDefault_def)
  ultimately have "insert_lines i 1 (depreciation_lines r) e d = (Inr (), d\<lparr>f_next := n + 2, f_lines := f_lines d @ [l, l']\<rparr>)"
    by (simp add: depreciation_lines_def chain_def ret_def) (simp add: d1_def)
  then show ?thesis using l l' by blast
qed

lemma depreciation_done:
  assumes "postable e d r" "fin_env_ok e" "known_actor e actor" "k < 10 ^ 6"
    and n: "e_uuid e ` {f_next d ..< f_next d + 3} \<inter> (je_id ` set (f_entries d) \<union> jl_id ` set (f_lines d) \<union> jl_entry ` set (f_lines d)) = {}"
      "inj_on (e_uuid e) {f_next d ..< f_next d + 3}" "entry_number (Year (pd_date r)) k \<notin> je_number ` set (f_entries d)"
  shows "\<exists>d'. depreciation_tx r (entry_number (Year (pd_date r)) k) actor e d = (Inr (), d') \<and>
    row_entered e (entry_number (Year (pd_date r)) k) d d'"
proof -
  define n where "n = f_next d"
  define i where "i = e_uuid e n"
  define number where "number = entry_number (Year (pd_date r)) k"
  obtain p where p: "query_row (covers (pd_date r)) (f_periods d) = Inr p" "fp_status p \<noteq> FiscalStatusClosed"
    using assms(1) unfolding postable_def by blast
  obtain u where u: "uuid_null (nullableUUID actor) e d = (Inr u, d)" "case u of None \<Rightarrow> True | Some i \<Rightarrow> e_users e i"
    using uuid_null_done [OF assms(3)] by blast
  have s: "nullableUUID (Some (pd_schedule r)) = Some (pd_schedule r)" "e_uuid_in e (pd_schedule r) = Some (pd_schedule r)"
    using assms(1) fin_env_okD(3) [OF assms(2)] canonical_TrimSpace unfolding postable_def by (auto simp: nullableUUID_def)
  have out: "e_uuid e m \<notin> je_id ` set (f_entries d)" "e_uuid e m \<notin> jl_id ` set (f_lines d)" "e_uuid e m \<notin> jl_entry ` set (f_lines d)"
    if "m \<in> {f_next d ..< f_next d + 3}" for m
    using n(1) that by blast+
  have "e_uuid e (Suc (Suc n)) \<noteq> e_uuid e (Suc n)" using inj_onD [OF n(2), of "Suc (Suc n)" "Suc n"] by (auto simp: n_def)
  then have new: "i \<notin> je_id ` set (f_entries d)" "i \<notin> jl_entry ` set (f_lines d)" "e_uuid e (Suc n) \<notin> jl_id ` set (f_lines d)"
      "e_uuid e (Suc (Suc n)) \<notin> insert (e_uuid e (Suc n)) (jl_id ` set (f_lines d))"
    using out [of n] out [of "Suc n"] out [of "Suc (Suc n)"] unfolding i_def by (simp_all add: n_def)
  have len: "RuneCount number \<le> 40"
    using entry_number_length [OF _ _ assms(4)] assms(1) unfolding number_def postable_def by blast
  obtain j where j: "insert_entry number (pd_date r) (fp_id p) JournalSourceDepreciation (Some (pd_schedule r)) []
        ''Beban depresiasi periode berjalan'' u e d = (Inr i, d\<lparr>f_next := Suc n, f_entries := f_entries d @ [j]\<rparr>)"
      "je_id j = i" "je_number j = number"
    using insert_entry_done [OF n_def [symmetric] _ _ len _ u(2), of "[]"] new(1) n(3) unfolding i_def number_def by simp blast
  define d1 where "d1 = d\<lparr>f_next := Suc n, f_entries := f_entries d @ [j]\<rparr>"
  have d1: "postable e d1 r" "f_next d1 = Suc n" "f_lines d1 = f_lines d" using assms(1) by (simp_all add: d1_def postable_def)
  obtain l l' where l: "insert_lines i 1 (depreciation_lines r) e d1 = (Inr (), d1\<lparr>f_next := Suc n + 2, f_lines := f_lines d1 @ [l, l']\<rparr>)"
      "jl_id l = e_uuid e (Suc n)" "jl_id l' = e_uuid e (Suc (Suc n))" "jl_entry l = i" "jl_entry l' = i"
    using depreciation_lines_done [OF d1(1) assms(2) d1(2)] new unfolding d1(3) by blast
  define d2 where "d2 = d1\<lparr>f_next := Suc n + 2, f_lines := f_lines d1 @ [l, l']\<rparr>"
  define d3 where "d3 = d2\<lparr>f_schedules := update_where (\<lambda>s. dp_id s = pd_schedule r)
       (\<lambda>s. s\<lparr>dp_status := DepreciationStatusPosted, dp_entry := Some i, dp_posted_at := Some (e_now e)\<rparr>) (f_schedules d2)\<rparr>"
  have "depreciation_tx r number actor e d = (Inr (), d3)"
    using open_period_done [OF p] u(1) s j(1) l(1)
    by (simp add: depreciation_tx_def InsertJournalEntryTx_def chain_def uuid_null_def uuid_arg_def ask_def ret_def put_def d3_def
        d1_def [symmetric]) (simp add: d2_def)
  moreover have "row_entered e number d d3"
    using j(2,3) l(2-5) unfolding row_entered_def d3_def d2_def d1_def i_def n_def by (simp add: insert_commute)
  ultimately show ?thesis unfolding number_def by blast
qed

section \<open>The batch\<close>

lemma supplied_next:
  assumes "supplied (Suc m) e w" "row_entered e (entry_number y (Suc (fw_seq w))) (fw_db w) d'" "fw_db w' = d'" "fw_seq w' = Suc (fw_seq w)"
  shows "supplied m e w'"
proof -
  define n where "n = f_next (fw_db w)"
  have s: "fw_seq w + Suc m < 10 ^ 6" "inj_on (e_uuid e) {n ..< n + 3 * Suc m}"
      "\<And>i. i \<in> {n ..< n + 3 * Suc m} \<Longrightarrow> e_uuid e i \<notin> je_id ` set (f_entries (fw_db w)) \<union> jl_id ` set (f_lines (fw_db w)) \<union> jl_entry ` set (f_lines (fw_db w))"
      "\<And>y k. k \<in> {fw_seq w <.. fw_seq w + Suc m} \<Longrightarrow> entry_number y k \<notin> je_number ` set (f_entries (fw_db w))"
    using assms(1) unfolding supplied_def Let_def n_def by blast+
  have n': "f_next d' = n + 3" using assms(2) by (simp add: row_entered_def n_def)
  have sub: "{n + 3 ..< n + 3 + 3 * m} \<subseteq> {n ..< n + 3 * Suc m}" by auto
  have ids: "e_uuid e i \<notin> je_id ` set (f_entries d') \<union> jl_id ` set (f_lines d') \<union> jl_entry ` set (f_lines d')"
    if i: "i \<in> {n + 3 ..< n + 3 + 3 * m}" for i
  proof -
    have "e_uuid e i \<noteq> e_uuid e k" if "k \<in> {n, n + 1, n + 2}" for k
      using inj_onD [OF s(2), of i k] i that by auto
    then show ?thesis using s(3) [of i] sub i assms(2) unfolding row_entered_def n_def [symmetric] by auto
  qed
  have "entry_number z k \<notin> je_number ` set (f_entries d')" if "k \<in> {Suc (fw_seq w) <.. Suc (fw_seq w) + m}" for z k
    using s(4) [of k z] that entry_number_differs [of k "Suc (fw_seq w)" z y] s(1) assms(2) unfolding row_entered_def by auto
  moreover have "e_uuid e ` {n + 3 ..< n + 3 + 3 * m} \<inter> (je_id ` set (f_entries d') \<union> jl_id ` set (f_lines d') \<union> jl_entry ` set (f_lines d')) = {}"
    using ids by blast
  ultimately show ?thesis
    using s(1) inj_on_subset [OF s(2) sub] unfolding supplied_def Let_def assms(3,4) n' by simp
qed

lemma disjoint_subset: "A \<subseteq> B \<Longrightarrow> B \<inter> C = {} \<Longrightarrow> A \<inter> C = {}"
  by blast

lemma postOne_done:
  assumes "supplied (Suc m) e w" "postable e (fw_db w) r" "fin_env_ok e" "known_actor e actor" "\<forall>n. e_fault e n = NoFault"
  shows "\<exists>w'. postOneDepreciationRow r actor e w = (Inr (), w') \<and> supplied m e w' \<and>
    f_accounts (fw_db w') = f_accounts (fw_db w) \<and> f_periods (fw_db w') = f_periods (fw_db w)"
proof -
  define k where "k = Suc (fw_seq w)"
  define w1 where "w1 = w\<lparr>fw_tick := Suc (fw_tick w), fw_seq := k\<rparr>"
  have sub: "{f_next (fw_db w) ..< f_next (fw_db w) + 3} \<subseteq> {f_next (fw_db w) ..< f_next (fw_db w) + 3 * Suc m}" by auto
  have s: "k < 10 ^ 6" "e_uuid e ` {f_next (fw_db w) ..< f_next (fw_db w) + 3} \<inter>
      (je_id ` set (f_entries (fw_db w)) \<union> jl_id ` set (f_lines (fw_db w)) \<union> jl_entry ` set (f_lines (fw_db w))) = {}"
      "inj_on (e_uuid e) {f_next (fw_db w) ..< f_next (fw_db w) + 3}" "entry_number (Year (pd_date r)) k \<notin> je_number ` set (f_entries (fw_db w))"
    using assms(1) inj_on_subset [OF _ sub, of "e_uuid e"] disjoint_subset [OF image_mono [OF sub, of "e_uuid e"]]
    unfolding supplied_def Let_def k_def by auto
  obtain d' where d': "depreciation_tx r (entry_number (Year (pd_date r)) k) actor e (fw_db w) = (Inr (), d')"
      "row_entered e (entry_number (Year (pd_date r)) k) (fw_db w) d'"
    using depreciation_done [OF assms(2-4) s] by blast
  define w2 where "w2 = w1\<lparr>fw_tick := Suc (fw_tick w1), fw_db := d'\<rparr>"
  have "postOneDepreciationRow r actor e w = (Inr (), w2)"
    using d'(1) assms(5) by (simp add: postOneDepreciationRow_def NextEntryNumber_def fin_tx_def chain_def Let_def w2_def w1_def k_def)
  moreover have "supplied m e w2"
    by (rule supplied_next [OF assms(1) d'(2) [unfolded k_def]]) (simp_all add: w2_def w1_def k_def)
  moreover have "f_accounts (fw_db w2) = f_accounts (fw_db w)" "f_periods (fw_db w2) = f_periods (fw_db w)"
    using d'(2) by (simp_all add: w2_def row_entered_def)
  ultimately show ?thesis by blast
qed

lemma postable_cong: "f_accounts d' = f_accounts d \<Longrightarrow> f_periods d' = f_periods d \<Longrightarrow> postable e d' r = postable e d r"
  by (simp add: postable_def)

lemma post_rows_done:
  assumes "supplied (length rows) e w" "\<forall>r \<in> set rows. postable e (fw_db w) r"
    and "fin_env_ok e" "known_actor e actor" "\<forall>n. e_fault e n = NoFault"
  shows "\<exists>items w'. post_rows actor rows e w = (Inr items, w') \<and> (\<forall>x \<in> set items. dr_failure x = None)"
  using assms(1,2)
proof (induction rows arbitrary: w)
  case Nil
  then show ?case by (simp add: ret_def)
next
  case (Cons r rows)
  obtain w1 where w1: "postOneDepreciationRow r actor e w = (Inr (), w1)" "supplied (length rows) e w1"
      "f_accounts (fw_db w1) = f_accounts (fw_db w)" "f_periods (fw_db w1) = f_periods (fw_db w)"
    using postOne_done [OF _ _ assms(3-5), of "length rows" w r] Cons.prems by auto
  obtain items w2 where w2: "post_rows actor rows e w1 = (Inr items, w2)" "\<forall>x \<in> set items. dr_failure x = None"
    using Cons.IH [OF w1(2)] Cons.prems(2) postable_cong [OF w1(3,4)] by auto
  show ?case using w1(1) w2 by (simp add: attempt_def chain_def ret_def post_result_def)
qed

text \<open>
  C35. What is due does get posted, under these conditions: the amount of every due row is positive, the period of its day is open and its
  accounts exist (\<open>postable\<close>); the actor is a known user or none is named; the entry sequence stays below 10^6 and the identifiers
  and numbers to come are fresh (\<open>supplied\<close>); and the database does not fail. Then posting answers without a single
  failure, counts every due row as posted and leaves nothing due behind.
\<close>

theorem due_rows_posted:
  assumes "books_ok (fw_db w)" "fin_env_ok e" "parseRequiredDate as_of = Inr t"
    and "\<forall>n. e_fault e n = NoFault" "known_actor e (trimmedOrNil actor)"
    and "supplied (length (pending_rows (fw_db w) t)) e w" "list_all (postable e (fw_db w)) (pending_rows (fw_db w) t)"
  shows "\<exists>r w'. FixedAssetService_PostDepreciation as_of actor e w = (Inr r, w') \<and>
    pdr_failed r = 0 \<and> pdr_posted r = length (pending_rows (fw_db w) t) \<and> pending_rows (fw_db w') t = []"
proof -
  define rows where "rows = pending_rows (fw_db w) t"
  define w1 where "w1 = w\<lparr>fw_tick := Suc (fw_tick w)\<rparr>"
  have "supplied (length rows) e w1" "\<forall>r \<in> set rows. postable e (fw_db w1) r"
    using assms(6,7) by (simp_all add: w1_def rows_def supplied_def list_all_iff)
  then obtain items w' where items: "post_rows (trimmedOrNil actor) rows e w1 = (Inr items, w')" "\<forall>x \<in> set items. dr_failure x = None"
    using post_rows_done assms(2,4,5) by blast
  have w1: "fw_db w1 = fw_db w" by (simp add: w1_def)
  define r where "r = \<lparr>pdr_posted = length (filter (\<lambda>x. dr_failure x = None) items),
        pdr_failed = length (filter (\<lambda>x. dr_failure x \<noteq> None) items), pdr_items = items\<rparr>"
  have "fin_tx (get id (\<lambda>d. ret (pending_rows d t))) e w = (Inr rows, w1)"
    using assms(4) by (simp add: fin_tx_def Let_def get_def ret_def w1_def rows_def)
  then have call: "FixedAssetService_PostDepreciation as_of actor e w = (Inr r, w')"
    using items(1) assms(3)
    by (simp add: FixedAssetService_PostDepreciation_def PostDepreciationThroughDate_def chain_def lift_def ret_def r_def)
  have posted: "map dr_schedule items = map pd_schedule rows" "\<And>x. x \<in> set items \<Longrightarrow> posted_row (fw_db w') (dr_schedule x)"
    using post_rows_result [OF items(1) assms(2) pending_books_due [OF assms(1) w1, of t]] pending_rows_canonical [OF assms(1)] items(2)
    unfolding rows_def by auto
  have "pending_rows (fw_db w') t = []"
  proof (rule nothing_pending [of "fw_db w"])
    show "only_posts (fw_db w) (fw_db w')"
      using fio_preD [OF post_rows_only_posts assms(2), of w1 "trimmedOrNil actor" rows] items(1) w1 by simp
    show "books_ok (fw_db w')" using ledger.after [OF depreciation_books call assms(2,1)] .
    fix p assume "p \<in> set (pending_rows (fw_db w) t)"
    then have "pd_schedule p \<in> set (map dr_schedule items)" unfolding posted(1) rows_def by simp
    then show "posted_row (fw_db w') (pd_schedule p)" using posted(2) by auto
  qed
  moreover have "length items = length rows" using arg_cong [OF posted(1), of length] by simp
  ultimately show ?thesis using call items(2) unfolding rows_def r_def by (simp add: filter_empty_conv)
qed

lemma due_rows_posted_witness:
  "\<exists>r w'. FixedAssetService_PostDepreciation ''2025-03-31'' [] fin_example_env fin_example_world = (Inr r, w') \<and>
    pdr_failed r = 0 \<and> pdr_posted r = 1 \<and> pending_rows (fw_db w') 20178 = []"
proof -
  have money: "numeric_in (10 ^ 18) fin_example_env (amountOrZero (cents_text 1000000)) = Inr 1000000" "numeric_in (10 ^ 18) fin_example_env ''0'' = Inr 0"
    by (simp_all add: numeric_in_def SetString_zero round_cents_cents [of 0, simplified])
  have "query_row (covers 20152) (map example_period [1..12]) = Inr (example_period 3)"
    by (simp add: query_row_def upto_12 example_covers)
  then have due: "postable fin_example_env fin_example_db example_due"
    using money by (simp add: postable_def example_due_def canonical_uid) (simp add: example_accounts_def)
  have "{1000 ..< 1003} = {1000, 1001, 1002 :: nat}" by auto
  moreover have "entry_number y k \<noteq> entry_number 2025 j" if "4 < k" "k \<le> 5" "j \<le> 4" for y j k
    using entry_number_differs [of k j y 2025] that by auto
  ultimately have "supplied 1 fin_example_env fin_example_world"
    by (auto simp: supplied_def fin_example_world_def Let_def example_entries_def example_lines_def example_line_def)
  with due show ?thesis
    using due_rows_posted [of fin_example_world fin_example_env "''2025-03-31''" 20178 "[]"]
    by (simp add: fin_example_world_def fin_example_books fin_example_env_ok example_march example_pending known_actor_def nullableUUID_def trimmedOrNil_def)
qed

end
