(* ===== verification/Spec2Isabelle.thy ===== *)
theory Spec2Isabelle
  imports Book Paying Ensuring Workers Numbering FinTrial FinTexts Posting
begin

text \<open>
  A verification development of the receivables and the accounting of the zyad.cloud backend: the
  modules that decide what a customer owes, what was paid, and what the books say.

  \<^bold>\<open>The program.\<close>  The Go backend serves many organizations.  Two of its modules and the packages they rest
  on are modelled whole, from \<open>src/internal\<close>:

  \<^item> \<open>shared/pricing\<close>: the lines of a quotation, order, contract or invoice are priced
    (\<open>PriceLines\<close>) and billing periods are counted (\<open>PeriodRange\<close>, \<open>AddPeriod\<close>).
  \<^item> \<open>modules/receivable\<close>: an organization's accounts, contracts and invoices.  Orders become contracts and
    first invoices; the hourly run bills contract periods; invoices are issued with a number from a
    counter, sent, paid by hand or online through a checkout, marked overdue or voided; what was collected online is
    paid out through a settlement ledger.  Public links (\<open>shared/publiclink\<close>) and printable documents
    (\<open>shared/docpdf\<close>) belong to it.
  \<^item> \<open>modules/finance\<close>: the platform's general ledger.  Journal entries in fiscal periods are the one way in;
    cash movements, receivables and payables, fixed assets with their depreciation, and taxes post entries in
    their own transactions; reports read the ledger back.

  \<^bold>\<open>How code becomes definitions.\<close>  A Go string is its bytes (\<open>GoLib\<close>), \<open>math/big\<close> rationals are \<open>rat\<close>
  (\<open>GoRat\<close>), a date is its day number and a month its index (\<open>Calendar\<close>), \<open>numeric(p,2)\<close> columns are whole
  hundredths, integers of Go are \<open>int\<close> or \<open>nat\<close> where their values are counts, days or amounts far from their width; where
  a value comes from a request or from \<open>math/big\<close> the 64-bit wrap-around is written out (\<open>int64\<close>).  A
  table is the list of its rows in a record (\<open>db\<close> in \<open>Store\<close>, \<open>fdb\<close> in \<open>FinTables\<close>); an operation is a
  computation \<open>env \<Rightarrow> state \<Rightarrow> (err + 'a) \<times> state\<close> built with \<open>chain\<close>, \<open>attempt\<close>, \<open>ensure\<close>, so that each
  early return is a branch.  A database transaction is one atomic step that commits, rolls back, fails before it ran or loses its acknowledgement
  (\<open>withScopedTx\<close>, \<open>fin_tx\<close>).  For the tables of the finance module and for the receivable payments, the unique indexes, checks, foreign
  keys and column widths of the migrations are enforced where a row is written; for the other receivable tables the unique indexes,
  the checks and the keys between the module's own tables, while a refusal for a text wider than its column or for a key to
  a user or organization is one of the transaction failures that the invariants allow at any moment.  Texts are valid UTF-8
  without the zero byte, as the decoded requests are; a text too wide only by trailing blanks, which PostgreSQL would cut, is refused like any
  other.  What is not in the sources is a field of \<open>env\<close>: the clock, generated identifiers, PostgreSQL's
  parsing of numbers and UUIDs, quotas, mail, WhatsApp, the payment gateway, file storage, hashing; \<open>env_ok\<close> and \<open>fin_env_ok\<close>
  name the documented behaviour that is relied on (numbers written as plain decimals are read exactly, generated
  UUIDs have the canonical form).

  \<^bold>\<open>Receivables.\<close>  \<open>Pricing\<close>, \<open>Periods\<close>, \<open>Domain\<close>, \<open>DocPdf\<close>, \<open>Store\<close>; the repositories and services
  in \<open>Accounts\<close>, \<open>Invoices\<close>, \<open>Payments\<close>, \<open>Contracts\<close>, \<open>Directory\<close>, \<open>Documents\<close>, \<open>Sending\<close>, \<open>Invoicing\<close>,
  \<open>Billing\<close>, \<open>OrderBilling\<close>, \<open>Collecting\<close>, \<open>Outlook\<close>.  Proofs: \<open>Effects\<close> holds the locale of computations that stay within a relation,
  \<open>Changes\<close> what each transaction does when it succeeds, \<open>Steps\<close> the step relation \<open>db_step\<close>, \<open>Invariant\<close> the well-formedness
  \<open>wf\<close> and the ways a row may evolve, \<open>Tenants\<close> what other organizations cannot see, \<open>Services\<close> and \<open>Machine\<close> that every
  call of the module, and every sequence of calls, is a sequence of steps.  \<open>Book\<close> is the abstract
  specification that the tables refine; \<open>Registers\<close> and \<open>Ensuring\<close> the find-or-create services as instances of one locale;
  \<open>Paying\<close> the outcome of recording a payment on every branch.  \<open>Example\<close> is the concrete run of the witnesses.

  \<^bold>\<open>Finance.\<close>  \<open>FinErrors\<close>, \<open>FinTables\<close> (tables, helpers), \<open>Chart\<close>, \<open>Journal\<close>, \<open>Ledger\<close>, \<open>CashBank\<close>,
  \<open>Partners\<close>, \<open>FixedAssets\<close>, \<open>Taxes\<close>.  Proofs: \<open>FinFacts\<close> what each transaction does, \<open>FinSteps\<close> the step
  relation \<open>fin_step\<close> under a policy (which lines may be entered, which period states set), \<open>FinCommits\<close> that every posting transaction is
  a step, \<open>Books\<close> the invariant \<open>books_ok\<close>, \<open>FinServices\<close> and \<open>FinMachine\<close> that every sequence of calls is a sequence
  of steps that keeps it.  \<open>FinLaws\<close>, \<open>Finance\<close> draw the laws of the ledger, \<open>Numbering\<close> that of the entry numbers; \<open>FinOutcomes\<close>, \<open>FinReports\<close>,
  \<open>FinTrial\<close>, \<open>Depreciation\<close>, \<open>Posting\<close> and \<open>FinTexts\<close> those of single calls.  \<open>FinExample\<close> is the ledger of the witnesses.

  \<^bold>\<open>Loops and bounds.\<close>  Loops over a batch are structural recursions; the depreciation schedule is a \<open>function\<close>
  with a measure.  Loops that fetch the next page until one is short (the billing run, the overview) carry fuel equal to the
  number of rounds the Go loop allows itself, or more than the rows there are; \<open>Workers\<close> shows that the nightly workers then come
  back, having visited every organization once, or every one before the context was found cancelled.

  \<^bold>\<open>Not modelled.\<close>  HTTP decoding and encoding of these modules, drawing a PDF, and the adapters (database driver,
  mail, WhatsApp, object storage, payment gateway, RouterOS, RADIUS).  Interleavings of two transactions
  are sequences of whole transactions, as under serializable isolation: lost updates that weaker isolation would allow are outside the
  model.  PostgreSQL reads the text NaN as a \<open>numeric\<close>, and an account may be opened with it; the tables here hold rationals, so that
  balance and the panic of \<open>moneyRat\<close> in the trial balance are outside too.  The other modules (users, CRM, landing pages, provisioning and the platform's own orders and subscriptions)
  are content management or glue around the database and external systems; \<open>PROJECT.json\<close> lists them.
\<close>

section \<open>The properties of the whole module\<close>

text \<open>
  C1. Every sequence of calls, with any clock, adapters and database faults, that starts from well-formed
  tables ends in well-formed tables, and each row has only evolved: none disappears, an invoice moves
  forward in its life cycle, an issued number, its dates and its total never change, payments and ledger entries stay.
\<close>

theorem run_keeps_invariant:
  "envs_ok tr \<Longrightarrow> wf (w_db w) \<Longrightarrow> wf (w_db (run tr w)) \<and> evolves (w_db w) (w_db (run tr w))"
  by (rule run_ok)

lemma run_keeps_invariant_witness:
  "wf (w_db (run example_run example_world)) \<and> evolves example_db (w_db (run example_run example_world))"
  using run_keeps_invariant [OF example_run_ok, of example_world] example_wf by (simp add: example_world_def)

text \<open>
  C2. The books balance after any sequence of calls: what an invoice says was paid is the sum of its
  payments, its total is the sum of its lines with their tax, and it is never overpaid.
\<close>

theorem books_balance:
  assumes "envs_ok tr" "wf (w_db w)" "r \<in> set (d_invoices (w_db (run tr w)))"
  shows "ir_amount_paid r = (\<Sum>y \<leftarrow> filter (\<lambda>y. pr_org y = ir_org r \<and> pr_invoice_id y = in_id r) (d_payments (w_db (run tr w))). pr_amount y) \<and>
    ir_grand_total r = (\<Sum>i \<leftarrow> filter (\<lambda>i. iir_org i = ir_org r \<and> iir_invoice_id i = in_id r) (d_items (w_db (run tr w))).
      iir_line_total i + iir_tax_amount i) \<and>
    0 \<le> ir_amount_paid r \<and> ir_amount_paid r \<le> ir_grand_total r"
proof -
  have r: "row_ok r" "ir_amount_paid r = paid_sum (d_payments (w_db (run tr w))) r" "ir_grand_total r = item_sum (d_items (w_db (run tr w))) r"
    using wf_row [of "w_db (run tr w)" r] run_ok [OF assms(1,2)] assms(3) by blast+
  have "own_item (ir_org r) (in_id r) = (\<lambda>i. iir_org i = ir_org r \<and> iir_invoice_id i = in_id r)" by (auto simp: own_item_def)
  then show ?thesis using r unfolding paid_sum_def item_sum_def row_ok_def by simp
qed

lemma books_balance_witness:
  "10000 = (\<Sum>y \<leftarrow> filter (\<lambda>y. pr_org y = ''o'' \<and> pr_invoice_id y = ''i1'') (d_payments (w_db (run example_run example_world))). pr_amount y)"
  using books_balance [OF example_run_ok, of example_world "example_invoice\<lparr>in_status := InvoiceOverdue, in_updated_at := e_now example_env\<rparr>"]
    example_wf example_run_db by (simp add: example_world_def example_invoice_def)

text \<open>
  C18. After any sequence of calls the columns of an invoice agree with its status: a draft has no number and no
  money, an issued or overdue invoice has a number and both dates and is not settled, a paid one is settled
  exactly and carries its settlement time, a void one never received money.
\<close>

theorem status_discipline:
  assumes "envs_ok tr" "wf (w_db w)" "r \<in> set (d_invoices (w_db (run tr w)))"
  shows "(case in_status r of
      InvoiceDraft \<Rightarrow> in_number r = [] \<and> in_issue_date r = None \<and> ir_amount_paid r = 0
    | InvoicePaid \<Rightarrow> in_number r \<noteq> [] \<and> in_paid_at r \<noteq> None \<and> 0 < ir_grand_total r \<and> ir_amount_paid r = ir_grand_total r
    | InvoiceVoid \<Rightarrow> in_voided_at r \<noteq> None \<and> in_paid_at r = None \<and> ir_amount_paid r = 0
    | _ \<Rightarrow> in_number r \<noteq> [] \<and> in_issue_date r \<noteq> None \<and> in_due_date r \<noteq> None \<and> in_paid_at r = None \<and>
        (ir_amount_paid r < ir_grand_total r \<or> ir_amount_paid r = 0))"
proof -
  have "row_ok r" using wf_row run_ok [OF assms(1,2)] assms(3) by blast
  then show ?thesis by (cases "in_status r") (auto simp: row_ok_def)
qed

lemma status_discipline_witness:
  "in_number (example_invoice\<lparr>in_status := InvoiceOverdue, in_updated_at := e_now example_env\<rparr>) \<noteq> []"
  using status_discipline [OF example_run_ok, of example_world "example_invoice\<lparr>in_status := InvoiceOverdue, in_updated_at := e_now example_env\<rparr>"]
    example_wf example_run_db by (simp add: example_world_def)

text \<open>
  C4. The life cycle: whatever happens to an invoice after a moment, it keeps its identity, its status only moves
  forward (draft, issued, overdue, paid or void, the last two final), what was paid never shrinks, and once it
  has a number its number, dates, total and account never change.
\<close>

theorem invoice_life_cycle:
  assumes "envs_ok tr" "wf (w_db w)" "r \<in> set (d_invoices (w_db w))"
  shows "\<exists>r' \<in> set (d_invoices (w_db (run tr w))).
    in_id r' = in_id r \<and> ir_org r' = ir_org r \<and> status_next (in_status r) (in_status r') \<and> ir_amount_paid r \<le> ir_amount_paid r' \<and>
    (in_number r \<noteq> [] \<longrightarrow> in_number r' = in_number r \<and> in_issue_date r' = in_issue_date r \<and> in_due_date r' = in_due_date r) \<and>
    (in_status r \<noteq> InvoiceDraft \<longrightarrow> ir_grand_total r' = ir_grand_total r \<and> in_account_id r' = in_account_id r)"
proof -
  have "rows_evolve invoice_evolves (d_invoices (w_db w)) (d_invoices (w_db (run tr w)))"
    using run_ok [OF assms(1,2)] by (simp add: evolves_def)
  then obtain r' where "r' \<in> set (d_invoices (w_db (run tr w)))" "invoice_evolves r r'"
    using rows_evolveD [OF _ assms(3)] by blast
  then show ?thesis by (intro bexI [of _ r']) (simp_all add: invoice_evolves_def)
qed

lemma invoice_life_cycle_witness:
  "\<exists>r' \<in> set (d_invoices (w_db (run example_run example_world))). in_id r' = ''i1'' \<and> status_next InvoiceIssued (in_status r')"
  using invoice_life_cycle [OF example_run_ok, of example_world example_invoice] example_wf
  by (auto simp: example_world_def example_db_def example_invoice_def)

text \<open>
  C17. Invoice numbers are unique within an organization and none is invented: each was handed out by the organization's
  counter of its year.
\<close>

theorem numbers_unique:
  assumes "envs_ok tr" "wf (w_db w)" "r \<in> set (d_invoices (w_db (run tr w)))" "in_number r \<noteq> []"
  shows "(\<forall>r' \<in> set (d_invoices (w_db (run tr w))). ir_org r' = ir_org r \<longrightarrow> in_number r' = in_number r \<longrightarrow> r' = r) \<and>
    (\<exists>y n. in_number r = invoiceNumber y n \<and> drawn (ir_org r) y n (w_db (run tr w)))"
proof -
  have wf: "wf (w_db (run tr w))" using run_ok [OF assms(1,2)] by blast
  then show ?thesis
    using unique_onD [OF wf_unique(3) [OF wf] _ assms(3)] assms(3,4) by (auto simp: wf_def numbers_ok_def)
qed

lemma numbers_unique_witness:
  "\<exists>y n. in_number example_invoice = invoiceNumber y n \<and> drawn ''o'' y n (w_db (run example_run example_world))"
  using numbers_unique [OF example_run_ok, of example_world "example_invoice\<lparr>in_status := InvoiceOverdue, in_updated_at := e_now example_env\<rparr>"]
    example_wf example_run_db example_number by (simp add: example_world_def) (simp add: example_invoice_def)

text \<open>
  C5. No contract period is billed twice: two invoice lines of one contract item with the same first day are the same
  line; and every contract item waits for exactly the period of its contract's calendar that its index says.
\<close>

theorem periods_billed_once:
  assumes "envs_ok tr" "wf (w_db w)"
  shows "(\<forall>i \<in> set (d_items (w_db (run tr w))). \<forall>j \<in> set (d_items (w_db (run tr w))).
      ii_contract_item_id i \<noteq> [] \<longrightarrow> ii_period_start i \<noteq> None \<longrightarrow> iir_org i = iir_org j \<longrightarrow>
      ii_contract_item_id i = ii_contract_item_id j \<longrightarrow> ii_period_start i = ii_period_start j \<longrightarrow> i = j) \<and>
    (\<forall>i \<in> set (d_citems (w_db (run tr w))). \<exists>c \<in> set (d_contracts (w_db (run tr w))).
      contract_key (cir_org i) (cir_contract_id i) c \<and>
      (ci_next_start i, ci_next_end i) = PeriodRange (ct_start_date c) (ci_frequency i) (ci_period_index i))"
proof -
  have wf: "wf (w_db (run tr w))" using run_ok [OF assms(1,2)] by blast
  have "i = j" if "i \<in> set (d_items (w_db (run tr w)))" "j \<in> set (d_items (w_db (run tr w)))" "billed i" "billed_period i = billed_period j" for i j
    using unique_onD [OF wf_unique(4) [OF wf] that(1,2)] that(3,4) by simp
  then show ?thesis using wf by (auto simp: wf_def periods_ok_def)
qed

lemma periods_billed_once_witness:
  "\<exists>c \<in> set (d_contracts (w_db (run example_run example_world))). ct_id c = ''c1'' \<and> (20096, 20102) = PeriodRange (ct_start_date c) Weekly 1"
  using periods_billed_once [OF example_run_ok, of example_world, THEN conjunct2] example_wf example_run_db
  by (simp add: example_world_def) (simp add: example_defs contract_key_def)

text \<open>
  C6. Collected once, paid out within bounds: a provider's reference credits at most one payment and at most one ledger
  entry; no organization is paid out more than what was collected for it together with its adjustments (which the platform
  may enter on either side); without an upward adjustment it is not paid out more than was collected.
\<close>

theorem collected_once:
  assumes "envs_ok tr" "wf (w_db w)"
  shows "(\<forall>x \<in> set (d_payments (w_db (run tr w))). \<forall>y \<in> set (d_payments (w_db (run tr w))).
      pr_method x \<noteq> ''manual'' \<longrightarrow> pr_reference x \<noteq> [] \<longrightarrow> pr_method x = pr_method y \<longrightarrow> pr_reference x = pr_reference y \<longrightarrow> x = y) \<and>
    (\<forall>x \<in> set (d_settlements (w_db (run tr w))). \<forall>y \<in> set (d_settlements (w_db (run tr w))).
      sl_kind x = ''payment'' \<longrightarrow> sl_kind y = ''payment'' \<longrightarrow> sl_provider_reference x = sl_provider_reference y \<longrightarrow> x = y) \<and>
    kind_sum org ''settlement'' (d_settlements (w_db (run tr w)))
      \<le> kind_sum org ''payment'' (d_settlements (w_db (run tr w))) + kind_sum org ''adjustment'' (d_settlements (w_db (run tr w))) \<and>
    ((\<forall>x \<in> set (d_settlements (w_db (run tr w))). sl_org x = org \<longrightarrow> sl_kind x = ''adjustment'' \<longrightarrow> sl_amount x \<le> 0) \<longrightarrow>
      kind_sum org ''settlement'' (d_settlements (w_db (run tr w))) \<le> kind_sum org ''payment'' (d_settlements (w_db (run tr w))))"
proof -
  let ?d = "w_db (run tr w)"
  have wf: "wf ?d" using run_ok [OF assms(1,2)] by blast
  then have l: "ledger_ok (d_settlements ?d)" by (simp add: wf_def)
  then have u: "unique_on (\<lambda>r. sl_kind r = ''payment'') sl_provider_reference (d_settlements ?d)" by (simp add: ledger_ok_def)
  have "x = y" if "x \<in> set (d_payments ?d)" "y \<in> set (d_payments ?d)" "referenced x" "pr_method x = pr_method y" "pr_reference x = pr_reference y" for x y
    using unique_onD [OF wf_unique(7) [OF wf] that(1,2)] that(3-5) by simp
  moreover have "x = y" if "x \<in> set (d_settlements ?d)" "y \<in> set (d_settlements ?d)" "sl_kind x = ''payment''" "sl_kind y = ''payment''"
      "sl_provider_reference x = sl_provider_reference y" for x y
    using unique_onD [OF u that(1,2)] that(3-5) by simp
  moreover have bal: "kind_sum org ''settlement'' (d_settlements ?d) \<le> kind_sum org ''payment'' (d_settlements ?d) + kind_sum org ''adjustment'' (d_settlements ?d)"
    using ledger_balance_nonneg [OF l, of org] by (simp add: ledger_balance_def)
  moreover have "kind_sum org ''adjustment'' (d_settlements ?d) \<le> 0"
    if "\<forall>x \<in> set (d_settlements ?d). sl_org x = org \<longrightarrow> sl_kind x = ''adjustment'' \<longrightarrow> sl_amount x \<le> 0"
    using that unfolding kind_sum_def by (intro sum_list_nonpos) auto
  ultimately show ?thesis by fastforce
qed

lemma collected_once_witness:
  "kind_sum ''o'' ''settlement'' (d_settlements (w_db (run example_run example_world)))
     \<le> kind_sum ''o'' ''payment'' (d_settlements (w_db (run example_run example_world)))
     + kind_sum ''o'' ''adjustment'' (d_settlements (w_db (run example_run example_world)))"
  using collected_once [OF example_run_ok, of example_world "''o''"] example_wf by (simp add: example_world_def)

text \<open>
  C7. Tenants are isolated: a sequence of calls made for other organizations leaves an organization's tables as they are, row for
  row and column for column: its accounts, invoices, contracts, payments, sends, links with their view counters, checkouts with their
  status, settlement entries, settings and counters.  The public page, the provider's notice and the nightly workers, which find the
  organization themselves, are calls for any organization (\<open>call_orgs\<close>).
\<close>

theorem tenants_isolated:
  assumes "envs_ok tr" "wf (w_db w)" "\<forall>ec \<in> set tr. other \<notin> call_orgs (snd ec)"
  shows "tenant_view other (w_db (run tr w)) = tenant_view other (w_db w)"
  using assms by (rule run_isolated)

lemma tenants_isolated_witness:
  "tenant_view ''p'' (w_db (run example_run example_world)) = tenant_view ''p'' example_db"
  using tenants_isolated [OF example_run_ok, of example_world "''p''"] example_wf by (simp add: example_world_def example_run_def)

text \<open>
  C3. The tables refine the abstract book of receivables: any sequence of calls, read off the invoices, is a
  sequence of the book's moves (open a draft, revise it, issue, fall due, pay, settle, cancel).
\<close>

theorem run_refines_book:
  assumes "envs_ok tr" "wf (w_db w)"
  shows "move\<^sup>*\<^sup>* (book (w_db w)) (book (w_db (run tr w)))"
  using run_steps [OF assms, of UNIV] steps_book assms(2) by blast

lemma run_refines_book_witness:
  "move\<^sup>*\<^sup>* [\<lparr>en_status = InvoiceIssued, en_total = 22200, en_paid = 10000\<rparr>] [\<lparr>en_status = InvoiceOverdue, en_total = 22200, en_paid = 10000\<rparr>]"
  using run_refines_book [OF example_run_ok, of example_world] example_wf example_run_db
  by (simp add: example_world_def example_db_def book_def entry_of_def example_invoice_def)

end
